(* ===== verification/Prelude.thy ===== *)
theory Prelude
  imports Complex_Main "HOL-Library.Sublist" "HOL-Library.Char_ord" "HOL-Library.List_Lexorder"
    "HOL-Library.Code_Target_Nat"
begin

text \<open>
  Shared vocabulary of the development: the error values of
  \<^verbatim>\<open>errors.py\<close> and the result type that carries them, Python string helpers, the list
  tables that stand for the SQLite tables of the service, and two interfaces that several
  components implement: a transition system with an invariant and a hash-linked
  append-only log.
\<close>

section \<open>Collections\<close>

named_theorems result_simps \<open>equations that open result-typed computations\<close>
named_theorems table_simps \<open>facts on the list representation of SQL tables\<close>

section \<open>Errors and results\<close>

text \<open>
  \<^verbatim>\<open>PolicyError\<close> carries a stable reason code and a message; the code never inspects
  the message, so the model keeps the code. \<open>IntegrityError\<close> is what SQLite raises on a
  violated constraint or an aborting trigger, \<open>KeyError\<close> what a missing key of a Python
  dict raises, \<open>TimeoutExpired\<close> what a subprocess raises that runs too long.
\<close>

datatype perror = PolicyError string | IntegrityError | KeyError string | TypeError | ValueError | OverflowError | AssertionError
  | OSError | TimeoutExpired

type_synonym 'a result = "perror + 'a"

definition reject :: "string \<Rightarrow> 'a result" where
  "reject code = Inl (PolicyError code)"

text \<open>Sequencing: the first error ends the computation, as an exception does.\<close>

definition bindE :: "'a result \<Rightarrow> ('a \<Rightarrow> 'b result) \<Rightarrow> 'b result" where
  "bindE m f = (case m of Inl e \<Rightarrow> Inl e | Inr x \<Rightarrow> f x)"

definition require :: "bool \<Rightarrow> string \<Rightarrow> unit result" where
  "require b code = (if b then Inr () else reject code)"

primrec mapE :: "('a \<Rightarrow> 'b result) \<Rightarrow> 'a list \<Rightarrow> 'b list result" where
  "mapE f [] = Inr []"
| "mapE f (x # xs) = bindE (f x) (\<lambda>y. bindE (mapE f xs) (\<lambda>ys. Inr (y # ys)))"

primrec foldE :: "('a \<Rightarrow> 's \<Rightarrow> 's result) \<Rightarrow> 'a list \<Rightarrow> 's \<Rightarrow> 's result" where
  "foldE f [] s = Inr s"
| "foldE f (x # xs) s = bindE (f x s) (foldE f xs)"

definition expect :: "perror \<Rightarrow> 'a option \<Rightarrow> 'a result" where
  "expect e v = (case v of None \<Rightarrow> Inl e | Some x \<Rightarrow> Inr x)"

lemma bindE_simps [simp, result_simps]:
  "bindE (Inl e) f = Inl e" "bindE (Inr x) f = f x"
  by (simp_all add: bindE_def)

lemma bindE_Inr_iff [result_simps]: "bindE m f = Inr y \<longleftrightarrow> (\<exists>x. m = Inr x \<and> f x = Inr y)"
  by (cases m) (auto simp: bindE_def)

lemma bindE_Inl_iff:
  "bindE m f = Inl e \<longleftrightarrow> m = Inl e \<or> (\<exists>x. m = Inr x \<and> f x = Inl e)"
  by (cases m) (auto simp: bindE_def)

lemma reject_neq_Inr [simp]: "reject c \<noteq> Inr x" "Inr x \<noteq> reject c"
  by (simp_all add: reject_def)

lemma reject_inject [simp]: "reject c = Inl (PolicyError d) \<longleftrightarrow> c = d"
  by (simp add: reject_def)

lemma require_Inr_iff [simp, result_simps]: "require b c = Inr u \<longleftrightarrow> b"
  by (simp add: require_def)

lemma require_True [simp]: "require True c = Inr ()"
  by (simp add: require_def)

lemma require_False [simp]: "require False c = reject c"
  by (simp add: require_def)

lemma expect_Inr_iff [simp, result_simps]: "expect e v = Inr x \<longleftrightarrow> v = Some x"
  by (cases v) (simp_all add: expect_def)

lemma expect_simps [simp]: "expect e None = Inl e" "expect e (Some x) = Inr x"
  by (simp_all add: expect_def)

text \<open>
  A sequence of guards \<^verbatim>\<open>if bad: reject(code)\<close>, in the order of the code: the first one that
  holds is the error.
\<close>

primrec reject_if :: "(bool \<times> string) list \<Rightarrow> unit result" where
  "reject_if [] = Inr ()"
| "reject_if (c # cs) = (if fst c then reject (snd c) else reject_if cs)"

declare reject_if.simps [simp del]

lemma reject_if_Inr [simp, result_simps]:
  "reject_if [] = Inr u"
  "reject_if ((b, code) # cs) = Inr u \<longleftrightarrow> \<not> b \<and> reject_if cs = Inr u"
  by (simp_all add: reject_if.simps)

lemma reject_if_Inr_iff: "reject_if cs = Inr u \<longleftrightarrow> list_all (\<lambda>c. \<not> fst c) cs"
  by (induction cs) (auto simp: reject_if.simps)

lemma bindE_cong [fundef_cong]:
  "m = m' \<Longrightarrow> (\<And>x. m' = Inr x \<Longrightarrow> f x = g x) \<Longrightarrow> bindE m f = bindE m' g"
  by (cases m') (auto simp: bindE_def)

lemma mapE_cong [fundef_cong]:
  "xs = ys \<Longrightarrow> (\<And>x. x \<in> set ys \<Longrightarrow> f x = g x) \<Longrightarrow> mapE f xs = mapE g ys"
proof (induction ys arbitrary: xs)
  case Nil
  then show ?case by simp
next
  case (Cons y ys)
  then show ?case by simp
qed

lemma mapE_Inr_iff: "mapE f xs = Inr ys \<longleftrightarrow> list_all2 (\<lambda>x y. f x = Inr y) xs ys"
proof (induction xs arbitrary: ys)
  case Nil
  then show ?case by (cases ys) auto
next
  case (Cons x xs)
  then show ?case by (cases ys) (auto simp: bindE_Inr_iff)
qed

lemma mapE_set: "mapE f xs = Inr ys \<Longrightarrow> y \<in> set ys \<Longrightarrow> \<exists>x \<in> set xs. f x = Inr y"
proof (induction xs arbitrary: ys)
  case Nil
  then show ?case by simp
next
  case (Cons x xs)
  then show ?case by (fastforce simp: bindE_Inr_iff)
qed

text \<open>A loop whose body only checks: every element passed.\<close>

primrec forE :: "('a \<Rightarrow> unit result) \<Rightarrow> 'a list \<Rightarrow> unit result" where
  "forE f [] = Inr ()"
| "forE f (x # xs) = bindE (f x) (\<lambda>_. forE f xs)"

lemma forE_Inr_iff [result_simps]: "forE f xs = Inr u \<longleftrightarrow> (\<forall>x \<in> set xs. f x = Inr ())"
  by (induction xs) (auto simp: bindE_Inr_iff)

lemma foldE_append: "foldE f (xs @ ys) s = bindE (foldE f xs s) (foldE f ys)"
  by (induction xs arbitrary: s) (auto simp: bindE_def split: sum.splits)

lemma foldE_invariant:
  assumes "foldE f xs s = Inr t" and "P s"
    and "\<And>x s s'. x \<in> set xs \<Longrightarrow> P s \<Longrightarrow> f x s = Inr s' \<Longrightarrow> P s'"
  shows "P t"
  using assms
proof (induction xs arbitrary: s)
  case Nil
  then show ?case by simp
next
  case (Cons x xs)
  from Cons.prems(1) obtain s' where s': "f x s = Inr s'" "foldE f xs s' = Inr t"
    by (auto simp: bindE_Inr_iff)
  then show ?case using Cons by (meson list.set_intros)
qed

text \<open>
  An operation of a stateful component returns its result together with the state it leaves.
  \<open>transaction\<close> is the code's \<^verbatim>\<open>BEGIN IMMEDIATE \<dots> COMMIT\<close> block with its
  \<^verbatim>\<open>except Exception: ROLLBACK; raise\<close>: an error leaves the database as it was.
\<close>

definition transaction :: "('s \<Rightarrow> ('a \<times> 's) result) \<Rightarrow> 's \<Rightarrow> 'a result \<times> 's" where
  "transaction f s = (case f s of Inl e \<Rightarrow> (Inl e, s) | Inr (v, s') \<Rightarrow> (Inr v, s'))"

lemma transaction_Inr_iff [result_simps]:
  "transaction f s = (Inr v, s') \<longleftrightarrow> f s = Inr (v, s')"
  by (auto simp: transaction_def split: sum.splits prod.splits)

lemma transaction_Inl_iff [result_simps]:
  "transaction f s = (Inl e, s') \<longleftrightarrow> f s = Inl e \<and> s' = s"
  by (auto simp: transaction_def split: sum.splits prod.splits)

lemma transaction_cases:
  obtains (rolled_back) e where "f s = Inl e" "transaction f s = (Inl e, s)"
  | (committed) v s' where "f s = Inr (v, s')" "transaction f s = (Inr v, s')"
  by (cases "f s") (auto simp: transaction_def)

section \<open>Python strings\<close>

text \<open>
  A Python \<^verbatim>\<open>str\<close> is represented by its UTF-8 bytes (\<open>string\<close> is a list of bytes), so
  equality and the code-point order of the source are equality and lexicographic order here;
  \<open>py_len\<close> counts code points, which is what \<^verbatim>\<open>len\<close> counts: every byte that is not a
  continuation byte starts one.
\<close>

definition continuation_byte :: "char \<Rightarrow> bool" where
  "continuation_byte c = (128 \<le> (of_char c :: nat) \<and> (of_char c :: nat) < 192)"

definition py_len :: "string \<Rightarrow> nat" where
  "py_len s = length (filter (\<lambda>c. \<not> continuation_byte c) s)"

definition startswith :: "string \<Rightarrow> string \<Rightarrow> bool" where
  "startswith s p = (take (length p) s = p)"

definition endswith :: "string \<Rightarrow> string \<Rightarrow> bool" where
  "endswith s p = (length p \<le> length s \<and> drop (length s - length p) s = p)"

definition removeprefix :: "string \<Rightarrow> string \<Rightarrow> string" where
  "removeprefix s p = (if startswith s p then drop (length p) s else s)"

definition hex_digits :: string where
  "hex_digits = ''0123456789abcdef''"

definition all_lower_hex :: "string \<Rightarrow> bool" where
  "all_lower_hex s = list_all (\<lambda>c. c \<in> set hex_digits) s"

lemma startswith_append [simp]: "startswith (p @ s) p"
  by (simp add: startswith_def)

lemma removeprefix_append [simp]: "removeprefix (p @ s) p = s"
  by (simp add: removeprefix_def)

text \<open>Decimal text, the \<^verbatim>\<open>str\<close> of an integer.\<close>

definition digit_char :: "nat \<Rightarrow> char" where
  "digit_char d = char_of (48 + d)"

fun nat_dec :: "nat \<Rightarrow> string" where
  "nat_dec n = (if n < 10 then [digit_char n] else nat_dec (n div 10) @ [digit_char (n mod 10)])"

declare nat_dec.simps [simp del]

definition int_dec :: "int \<Rightarrow> string" where
  "int_dec i = (if i < 0 then ''-'' @ nat_dec (nat (- i)) else nat_dec (nat i))"

section \<open>List tables\<close>

text \<open>
  A SQL table is the list of its rows in insertion order. \<open>lookup_by\<close> is a
  \<^verbatim>\<open>SELECT \<dots> WHERE\<close> by primary key with \<^verbatim>\<open>fetchone\<close>, \<open>row_update\<close> an
  \<^verbatim>\<open>UPDATE \<dots> WHERE\<close>.
\<close>

definition lookup_by :: "('r \<Rightarrow> 'k) \<Rightarrow> 'k \<Rightarrow> 'r list \<Rightarrow> 'r option" where
  "lookup_by key k rows = List.find (\<lambda>r. key r = k) rows"

definition row_update :: "('r \<Rightarrow> bool) \<Rightarrow> ('r \<Rightarrow> 'r) \<Rightarrow> 'r list \<Rightarrow> 'r list" where
  "row_update p f rows = map (\<lambda>r. if p r then f r else r) rows"

definition keys_distinct :: "('r \<Rightarrow> 'k) \<Rightarrow> 'r list \<Rightarrow> bool" where
  "keys_distinct key rows = distinct (map key rows)"

lemma keys_distinct_Nil [simp]: "keys_distinct key []"
  by (simp add: keys_distinct_def)

lemma lookup_by_Nil [simp]: "lookup_by key k [] = None"
  by (simp add: lookup_by_def)

lemma lookup_by_Cons [simp]:
  "lookup_by key k (r # rows) = (if key r = k then Some r else lookup_by key k rows)"
  by (simp add: lookup_by_def)

lemma row_update_simps [simp]:
  "row_update p f [] = []"
  "row_update p f (r # rows) = (if p r then f r else r) # row_update p f rows"
  by (simp_all add: row_update_def)

lemma lookup_by_SomeD: "lookup_by key k rows = Some r \<Longrightarrow> r \<in> set rows \<and> key r = k"
  by (induction rows) (auto split: if_splits)

lemma lookup_by_None_iff [table_simps]: "lookup_by key k rows = None \<longleftrightarrow> k \<notin> key ` set rows"
  by (induction rows) auto

lemma lookup_by_Some_iff:
  assumes "keys_distinct key rows"
  shows "lookup_by key k rows = Some r \<longleftrightarrow> r \<in> set rows \<and> key r = k"
  using assms by (induction rows) (auto simp: keys_distinct_def)

lemma lookup_by_append [table_simps]:
  "lookup_by key k (rows @ rows') = (case lookup_by key k rows of Some x \<Rightarrow> Some x
     | None \<Rightarrow> lookup_by key k rows')"
  by (induction rows) simp_all

lemma keys_distinct_append [table_simps]:
  "keys_distinct key (rows @ rows') \<longleftrightarrow>
     keys_distinct key rows \<and> keys_distinct key rows' \<and> key ` set rows \<inter> key ` set rows' = {}"
  by (simp add: keys_distinct_def)

lemma map_key_row_update [table_simps]:
  assumes "\<And>r. key (f r) = key r"
  shows "map key (row_update p f rows) = map key rows"
  using assms by (induction rows) simp_all

lemma set_key_row_update [table_simps]:
  assumes "\<And>r. key (f r) = key r"
  shows "key ` set (row_update p f rows) = key ` set rows"
  using map_key_row_update [where key = key and f = f and p = p and rows = rows, OF assms]
  by (metis list.set_map)

lemma keys_distinct_row_update [table_simps]:
  assumes "\<And>r. key (f r) = key r"
  shows "keys_distinct key (row_update p f rows) = keys_distinct key rows"
  using assms by (simp add: keys_distinct_def map_key_row_update)

lemma lookup_by_row_update [table_simps]:
  assumes "\<And>r. key (f r) = key r"
  shows "lookup_by key k (row_update p f rows)
    = map_option (\<lambda>r. if p r then f r else r) (lookup_by key k rows)"
  using assms by (induction rows) simp_all

lemma lookup_row_update_key:
  assumes "\<And>r. key (f r) = key r"
  shows "lookup_by key k' (row_update (\<lambda>r. key r = k) f rows)
    = (if k' = k then map_option f (lookup_by key k rows) else lookup_by key k' rows)"
  using assms by (induction rows) auto

lemma row_update_id: "(\<And>r. r \<in> set rows \<Longrightarrow> \<not> p r) \<Longrightarrow> row_update p f rows = rows"
  by (induction rows) simp_all

lemma row_update_unique:
  assumes "keys_distinct key rows" "lookup_by key k rows = Some r" "P r"
  shows "row_update (\<lambda>x. key x = k \<and> P x) f rows = row_update (\<lambda>x. key x = k) f rows"
proof -
  have "(key x = k \<and> P x) = (key x = k)" if "x \<in> set rows" for x
    using assms that lookup_by_Some_iff [OF assms(1), of k x] by auto
  then show ?thesis by (simp add: row_update_def)
qed

lemma in_set_lookup: "keys_distinct key rows \<Longrightarrow> r \<in> set rows \<Longrightarrow> lookup_by key (key r) rows = Some r"
  by (simp add: lookup_by_Some_iff)

text \<open>A row whose key is absent can be appended; a lookup then finds the new row or an old one.\<close>

lemma lookup_by_snoc:
  assumes "lookup_by key (key r) rows = None"
  shows "lookup_by key k (rows @ [r]) = (if k = key r then Some r else lookup_by key k rows)"
  using assms by (auto simp: lookup_by_append split: option.splits)

lemma keys_distinct_snoc:
  "keys_distinct key (rows @ [r]) \<longleftrightarrow> keys_distinct key rows \<and> lookup_by key (key r) rows = None"
  by (auto simp: keys_distinct_def lookup_by_None_iff)

section \<open>Transition systems\<close>

text \<open>
  A component whose operations run one at a time (the registry and the ledger hold a
  re-entrant lock and an immediate transaction for the length of an operation) is a step
  relation; an invariant that every step keeps holds in every state the component reaches.
\<close>

locale invariant_system =
  fixes step :: "'s \<Rightarrow> 's \<Rightarrow> bool" and start :: "'s \<Rightarrow> bool" and inv :: "'s \<Rightarrow> bool"
  assumes inv_start: "start s \<Longrightarrow> inv s"
    and inv_step: "inv s \<Longrightarrow> step s t \<Longrightarrow> inv t"
begin

lemma inv_steps: "step\<^sup>*\<^sup>* s t \<Longrightarrow> inv s \<Longrightarrow> inv t"
  by (induction rule: rtranclp_induct) (auto intro: inv_step)

lemma inv_reachable: "start s \<Longrightarrow> step\<^sup>*\<^sup>* s t \<Longrightarrow> inv t"
  using inv_start inv_steps by blast

lemma monotone_steps:
  assumes steps: "step\<^sup>*\<^sup>* s t" and i: "inv s"
    and refl: "\<And>x. R x x" and trans: "\<And>x y z. R x y \<Longrightarrow> R y z \<Longrightarrow> R x z"
    and one: "\<And>x y. inv x \<Longrightarrow> step x y \<Longrightarrow> R x y"
  shows "R s t"
  using steps
proof (induction rule: rtranclp_induct)
  case base
  show ?case by (rule refl)
next
  case (step y z)
  from step.hyps(1) i have "inv y" by (rule inv_steps)
  with step one trans show ?case by blast
qed

end

end
