(* ===== verification/Canonical.thy ===== *)
theory Canonical
  imports Prelude
begin

text \<open>
  The restricted JSON canonicalization of \<^verbatim>\<open>canonical.py\<close>: JSON values, the canonical
  rendering with its rejections, and content digests. The main result is that the rendering
  is unambiguous: two values with the same canonical bytes are the same value up to the order
  of object keys.
\<close>

section \<open>JSON values\<close>

text \<open>
  The Python values \<^verbatim>\<open>json.loads\<close> produces. A dict is the list of its items in insertion
  order. A float is the rational it denotes, \<open>None\<close> for an infinity or a NaN; the canonical
  form rejects every float.
\<close>

datatype json = JNull | JBool bool | JInt int | JFloat "rat option" | JStr string
  | JArr "json list" | JObj "(string \<times> json) list"

text \<open>\<^verbatim>\<open>value.get(key)\<close> of a dict: \<^verbatim>\<open>None\<close> for a missing key.\<close>

definition jget :: "(string \<times> json) list \<Rightarrow> string \<Rightarrow> json" where
  "jget o1 k = (case map_of o1 k of None \<Rightarrow> JNull | Some v \<Rightarrow> v)"

text \<open>
  Python's \<^verbatim>\<open>==\<close> between a JSON value and a string or an integer. A bool is an int in
  Python (\<^verbatim>\<open>True == 1\<close>), and a float equals the integer it denotes.
\<close>

definition eq_str :: "json \<Rightarrow> string \<Rightarrow> bool" where
  "eq_str v s = (v = JStr s)"

definition eq_int :: "json \<Rightarrow> int \<Rightarrow> bool" where
  "eq_int v n = (case v of JInt m \<Rightarrow> m = n | JBool b \<Rightarrow> (if b then 1 else 0) = n
     | JFloat (Some q) \<Rightarrow> q = of_int n | _ \<Rightarrow> False)"

section \<open>Text of a canonical value\<close>

definition MAX_SAFE_INTEGER :: int where
  "MAX_SAFE_INTEGER = 2 ^ 53 - 1"

text \<open>The code points of a UTF-8 text, and their UTF-16 code units.\<close>

fun utf8_points :: "nat list \<Rightarrow> nat list" where
  "utf8_points [] = []"
| "utf8_points (a # b # c # d # xs) =
     (if a < 128 then a # utf8_points (b # c # d # xs)
      else if 192 \<le> a \<and> a < 224 then ((a - 192) * 64 + (b - 128)) # utf8_points (c # d # xs)
      else if 224 \<le> a \<and> a < 240
      then ((a - 224) * 4096 + (b - 128) * 64 + (c - 128)) # utf8_points (d # xs)
      else if 240 \<le> a
      then ((a - 240) * 262144 + (b - 128) * 4096 + (c - 128) * 64 + (d - 128)) # utf8_points xs
      else a # utf8_points (b # c # d # xs))"
| "utf8_points (a # b # c # []) =
     (if 192 \<le> a \<and> a < 224 then ((a - 192) * 64 + (b - 128)) # utf8_points [c]
      else if 224 \<le> a then [(a - 224) * 4096 + (b - 128) * 64 + (c - 128)]
      else a # utf8_points [b, c])"
| "utf8_points (a # b # []) =
     (if 192 \<le> a then [(a - 192) * 64 + (b - 128)] else a # utf8_points [b])"
| "utf8_points (a # []) = [a]"

definition code_points :: "string \<Rightarrow> nat list" where
  "code_points s = utf8_points (map of_char s)"

definition utf16_units :: "nat \<Rightarrow> nat list" where
  "utf16_units p = (if p < 65536 then [p]
     else [55296 + (p - 65536) div 1024, 56320 + (p - 65536) mod 1024])"

definition key_sort_value :: "string \<Rightarrow> nat list" where
  "key_sort_value s = concat (map utf16_units (code_points s))"

definition validate_string :: "string \<Rightarrow> unit result" where
  "validate_string s =
     (if list_ex (\<lambda>p. 55296 \<le> p \<and> p \<le> 57343) (code_points s)
      then reject ''JCS_INVALID_STRING'' else Inr ())"

text \<open>
  \<^verbatim>\<open>json.dumps\<close> of a string with \<^verbatim>\<open>ensure_ascii=False\<close>: the quote, the backslash and the
  C0 control characters are escaped, everything else is copied.
\<close>

definition hex_char :: "nat \<Rightarrow> char" where
  "hex_char n = (if n < 10 then char_of (48 + n) else char_of (87 + n))"

definition esc :: "char \<Rightarrow> string" where
  "esc c = (let n = (of_char c :: nat) in
     if n = 34 then [CHR 0x5C, CHR 0x22]
     else if n = 92 then [CHR 0x5C, CHR 0x5C]
     else if n = 10 then [CHR 0x5C, CHR ''n'']
     else if n = 13 then [CHR 0x5C, CHR ''r'']
     else if n = 9 then [CHR 0x5C, CHR ''t'']
     else if n = 8 then [CHR 0x5C, CHR ''b'']
     else if n = 12 then [CHR 0x5C, CHR ''f'']
     else if n < 32 then [CHR 0x5C, CHR ''u'', CHR ''0'', CHR ''0'', hex_char (n div 16), hex_char (n mod 16)]
     else [c])"

definition dumps_str :: "string \<Rightarrow> string" where
  "dumps_str s = [CHR 0x22] @ concat (map esc s) @ [CHR 0x22]"

fun join_comma :: "string list \<Rightarrow> string" where
  "join_comma [] = ''''"
| "join_comma [x] = x"
| "join_comma (x # y # xs) = x @ '','' @ join_comma (y # xs)"

lemma size_item_less:
  assumes "kv \<in> set kvs"
  shows "size (snd kv) < size (JObj kvs)"
proof -
  have "size (snd kv) \<le> size_prod (\<lambda>_. 0) size kv"
    by (cases kv) simp
  with assms have "size (snd kv) \<le> size_list (size_prod (\<lambda>_. 0) size) kvs"
    by (rule size_list_estimation')
  then show ?thesis by simp
qed

function render :: "json \<Rightarrow> string result" where
  "render JNull = Inr ''null''"
| "render (JBool b) = Inr (if b then ''true'' else ''false'')"
| "render (JInt n) =
     (if \<bar>n\<bar> > MAX_SAFE_INTEGER then reject ''JCS_UNSAFE_INTEGER'' else Inr (int_dec n))"
| "render (JFloat q) = reject ''JCS_FLOAT_FORBIDDEN''"
| "render (JStr s) = bindE (validate_string s) (\<lambda>_. Inr (dumps_str s))"
| "render (JArr xs) = bindE (mapE render xs) (\<lambda>ps. Inr (''['' @ join_comma ps @ '']''))"
| "render (JObj kvs) =
     bindE (mapE (\<lambda>kv. validate_string (fst kv)) kvs) (\<lambda>_.
     bindE (mapE (\<lambda>kv. bindE (render (snd kv)) (\<lambda>r. Inr (dumps_str (fst kv) @ '':'' @ r)))
              (sort_key (\<lambda>kv. key_sort_value (fst kv)) kvs)) (\<lambda>ps.
     Inr (''{'' @ join_comma ps @ ''}'')))"
  by pat_completeness auto
termination
  by (relation "measure size")
    (auto simp: less_Suc_eq_le size_list_estimation' size_item_less [simplified])

text \<open>Canonical bytes: the text is its own UTF-8 encoding here.\<close>

definition canonical_bytes :: "json \<Rightarrow> string result" where
  "canonical_bytes v = render v"

section \<open>The rendering is unambiguous\<close>

text \<open>
  \<open>jnorm\<close> puts the items of every object into the canonical key order; \<open>rend\<close> is the text
  of a value whose items are already in order. A successful \<open>render\<close> is \<open>rend\<close> of the
  normal form, and \<open>rend\<close> is injective.
\<close>

function jnorm :: "json \<Rightarrow> json" where
  "jnorm (JArr xs) = JArr (map jnorm xs)"
| "jnorm (JObj kvs) =
     JObj (map (\<lambda>kv. (fst kv, jnorm (snd kv))) (sort_key (\<lambda>kv. key_sort_value (fst kv)) kvs))"
| "jnorm JNull = JNull"
| "jnorm (JBool b) = JBool b"
| "jnorm (JInt n) = JInt n"
| "jnorm (JFloat q) = JFloat q"
| "jnorm (JStr s) = JStr s"
  by pat_completeness auto
termination
  by (relation "measure size")
    (auto simp: less_Suc_eq_le size_list_estimation' size_item_less [simplified])

fun rend :: "json \<Rightarrow> string" where
  "rend JNull = ''null''"
| "rend (JBool b) = (if b then ''true'' else ''false'')"
| "rend (JInt n) = int_dec n"
| "rend (JFloat q) = ''''"
| "rend (JStr s) = dumps_str s"
| "rend (JArr xs) = ''['' @ join_comma (map rend xs) @ '']''"
| "rend (JObj kvs) = ''{'' @ join_comma (map (\<lambda>kv. dumps_str (fst kv) @ '':'' @ rend (snd kv)) kvs) @ ''}''"

fun no_float :: "json \<Rightarrow> bool" where
  "no_float (JFloat q) = False"
| "no_float (JArr xs) = (\<forall>x \<in> set xs. no_float x)"
| "no_float (JObj kvs) = (\<forall>kv \<in> set kvs. no_float (snd kv))"
| "no_float _ = True"

lemma mapE_eq_map:
  assumes "mapE f xs = Inr ys" and "\<And>x y. x \<in> set xs \<Longrightarrow> f x = Inr y \<Longrightarrow> y = g x"
  shows "ys = map g xs"
  using assms by (induction xs arbitrary: ys) (auto simp: bindE_Inr_iff)

lemma mapE_all: "mapE f xs = Inr ys \<Longrightarrow> x \<in> set xs \<Longrightarrow> \<exists>y. f x = Inr y"
  by (induction xs arbitrary: ys) (auto simp: bindE_Inr_iff)

lemma render_rend: "render v = Inr s \<Longrightarrow> s = rend (jnorm v) \<and> no_float (jnorm v)"
proof (induction v arbitrary: s rule: render.induct)
  case (6 xs)
  then obtain ps where ps: "mapE render xs = Inr ps" and s: "s = ''['' @ join_comma ps @ '']''"
    by (auto simp: bindE_Inr_iff)
  have "ps = map (\<lambda>x. rend (jnorm x)) xs"
    using ps by (rule mapE_eq_map) (use 6 in blast)
  moreover have "\<forall>x \<in> set xs. no_float (jnorm x)"
    using ps 6 by (auto dest: mapE_all)
  ultimately show ?case using s by (simp add: comp_def)
next
  case (7 kvs)
  let ?ks = "sort_key (\<lambda>kv. key_sort_value (fst kv)) kvs"
  let ?f = "\<lambda>kv. bindE (render (snd kv)) (\<lambda>r. Inr (dumps_str (fst kv) @ '':'' @ r))"
  from 7 obtain u ps where u: "mapE (\<lambda>kv. validate_string (fst kv)) kvs = Inr u"
    and ps: "mapE ?f ?ks = Inr ps" and s: "s = ''{'' @ join_comma ps @ ''}''"
    by (auto simp: bindE_Inr_iff)
  have IH: "render (snd kv) = Inr r \<Longrightarrow> r = rend (jnorm (snd kv)) \<and> no_float (jnorm (snd kv))"
    if "kv \<in> set kvs" for kv r
    using 7(1) [OF u, of kv r] that by simp
  have "ps = map (\<lambda>kv. dumps_str (fst kv) @ '':'' @ rend (jnorm (snd kv))) ?ks"
    using ps by (rule mapE_eq_map) (use IH in \<open>auto simp: bindE_Inr_iff\<close>)
  moreover have "no_float (jnorm (snd kv))" if "kv \<in> set kvs" for kv
  proof -
    from that have "kv \<in> set ?ks" by simp
    from mapE_all [OF ps this] obtain r where "render (snd kv) = Inr r"
      by (auto simp: bindE_Inr_iff)
    with IH that show ?thesis by blast
  qed
  ultimately show ?case using s by (simp add: comp_def)
qed (auto simp: bindE_Inr_iff split: if_splits)

subsection \<open>Decimal text\<close>

definition dec_val :: "string \<Rightarrow> nat" where
  "dec_val s = foldl (\<lambda>a c. 10 * a + (of_char c - 48)) 0 s"

definition is_digit :: "char \<Rightarrow> bool" where
  "is_digit c = (48 \<le> (of_char c :: nat) \<and> (of_char c :: nat) \<le> 57)"

lemma of_char_digit [simp]: "d < 10 \<Longrightarrow> (of_char (digit_char d) :: nat) = 48 + d"
  by (simp add: digit_char_def)

lemma nat_dec_digits: "c \<in> set (nat_dec n) \<Longrightarrow> is_digit c"
proof (induction n rule: nat_dec.induct)
  case (1 n)
  then show ?case
    by (cases "n < 10") (auto simp: nat_dec.simps [of n] is_digit_def)
qed

lemma nat_dec_nonempty [simp]: "nat_dec n \<noteq> []"
  by (subst nat_dec.simps) simp

lemma dec_val_nat_dec [simp]: "dec_val (nat_dec n) = n"
proof (induction n rule: nat_dec.induct)
  case (1 n)
  then show ?case
    by (cases "n < 10") (simp_all add: nat_dec.simps [of n] dec_val_def)
qed

lemma nat_dec_inject [simp]: "nat_dec m = nat_dec n \<longleftrightarrow> m = n"
  by (metis dec_val_nat_dec)

definition num_char :: "char \<Rightarrow> bool" where
  "num_char c = (is_digit c \<or> c = CHR ''-'')"

lemma int_dec_chars: "c \<in> set (int_dec i) \<Longrightarrow> num_char c"
  by (auto simp: int_dec_def num_char_def dest: nat_dec_digits split: if_splits)

lemma int_dec_nonempty [simp]: "int_dec i \<noteq> []"
  by (simp add: int_dec_def)

lemma minus_not_nat_dec: "CHR ''-'' # s \<noteq> nat_dec n"
proof
  assume "CHR ''-'' # s = nat_dec n"
  then have "is_digit (CHR ''-'')" by (metis list.set_intros(1) nat_dec_digits)
  then show False by (simp add: is_digit_def)
qed

lemma int_dec_inject [simp]: "int_dec i = int_dec j \<longleftrightarrow> i = j"
  using minus_not_nat_dec minus_not_nat_dec [symmetric]
  by (auto simp: int_dec_def split: if_splits)

subsection \<open>Escaped strings\<close>

lemma hex_char_inject: "m < 16 \<Longrightarrow> n < 16 \<Longrightarrow> hex_char m = hex_char n \<longleftrightarrow> m = n"
proof -
  assume b: "m < 16" "n < 16"
  have val: "(of_char (hex_char k) :: nat) = (if k < 10 then 48 + k else 87 + k)" if "k < 16" for k
    using that by (simp add: hex_char_def)
  have "m = n" if "hex_char m = hex_char n"
  proof -
    from that have "(of_char (hex_char m) :: nat) = of_char (hex_char n)" by simp
    then show ?thesis unfolding val [OF b(1)] val [OF b(2)] by (auto split: if_splits)
  qed
  then show ?thesis by auto
qed

lemma esc_shape:
  "(esc c = [c] \<and> c \<noteq> CHR 0x5C \<and> c \<noteq> CHR 0x22)
   \<or> (\<exists>d. esc c = [CHR 0x5C, d] \<and> d \<noteq> CHR ''u'')
   \<or> ((of_char c :: nat) < 32 \<and> esc c = [CHR 0x5C, CHR ''u'', CHR ''0'', CHR ''0'',
        hex_char (of_char c div 16), hex_char (of_char c mod 16)])"
  by (auto simp: esc_def Let_def)

lemma esc_cases:
  obtains (copied) "esc c = [c]" "c \<noteq> CHR 0x5C" "c \<noteq> CHR 0x22"
  | (short) d where "esc c = [CHR 0x5C, d]" "d \<noteq> CHR ''u''"
  | (control) "(of_char c :: nat) < 32"
      "esc c = [CHR 0x5C, CHR ''u'', CHR ''0'', CHR ''0'', hex_char (of_char c div 16), hex_char (of_char c mod 16)]"
  using esc_shape [of c] by blast

lemma short_esc_inject:
  assumes "esc c = [CHR 0x5C, d]" "esc c' = [CHR 0x5C, d]"
  shows "c = c'"
  using assms
  by (auto simp: esc_def Let_def split: if_splits) (metis char_of_char)+

lemma control_esc_inject:
  assumes "(of_char c :: nat) < 32" "(of_char d :: nat) < 32"
    and "hex_char (of_char c div 16) = hex_char (of_char d div 16)"
    and "hex_char (of_char c mod 16) = hex_char (of_char d mod 16)"
  shows "c = d"
proof -
  have "(of_char c :: nat) div 16 = of_char d div 16" "(of_char c :: nat) mod 16 = of_char d mod 16"
    using assms by (auto simp: hex_char_inject)
  then have "(of_char c :: nat) = of_char d"
    by (metis div_mod_decomp)
  then show ?thesis by simp
qed

lemma esc_prefix: "esc c @ x = esc d @ y \<Longrightarrow> c = d \<and> x = y"
  by (cases c rule: esc_cases; cases d rule: esc_cases)
    (auto dest: short_esc_inject control_esc_inject)

lemma esc_not_quote: "esc c @ x \<noteq> CHR 0x22 # y"
  by (cases c rule: esc_cases) auto

lemma concat_esc_prefix:
  "concat (map esc s) @ CHR 0x22 # r = concat (map esc t) @ CHR 0x22 # r' \<Longrightarrow> s = t \<and> r = r'"
proof (induction s arbitrary: t)
  case Nil
  then show ?case
    using esc_not_quote [symmetric] by (cases t) auto
next
  case (Cons c s)
  then show ?case
    using esc_not_quote by (cases t) (auto dest!: esc_prefix)
qed

lemma dumps_str_prefix: "dumps_str s @ r = dumps_str t @ r' \<Longrightarrow> s = t \<and> r = r'"
  by (auto simp: dumps_str_def dest: concat_esc_prefix)

lemma dumps_str_hd [simp]: "dumps_str s \<noteq> []" "hd (dumps_str s) = CHR 0x22"
  by (simp_all add: dumps_str_def)

subsection \<open>Values\<close>

definition delim :: "string \<Rightarrow> bool" where
  "delim r = (r = [] \<or> hd r \<in> {CHR '','', CHR '']'', CHR ''}''})"

lemma delim_simps [simp]: "delim []" "delim (c # r) \<longleftrightarrow> c \<in> {CHR '','', CHR '']'', CHR ''}''}"
  by (simp_all add: delim_def)

lemma delim_not_num: "delim (c # r) \<Longrightarrow> \<not> num_char c"
  by (auto simp: num_char_def is_digit_def)

lemma int_dec_prefix:
  assumes "int_dec i @ r = int_dec j @ r'" "delim r" "delim r'"
  shows "i = j \<and> r = r'"
proof -
  have tw: "takeWhile num_char (int_dec k @ q) = int_dec k" if "delim q" for k q
    using that delim_not_num
    by (cases q) (simp_all add: int_dec_chars takeWhile_append2)
  from assms(1) have "takeWhile num_char (int_dec i @ r) = takeWhile num_char (int_dec j @ r')"
    by simp
  with assms(2,3) have "i = j" by (simp add: tw)
  with assms(1) show ?thesis by simp
qed

lemma join_comma_Cons: "join_comma (x # xs) = x @ (if xs = [] then '''' else '','' @ join_comma xs)"
  by (cases xs) simp_all

lemma join_prefix:
  assumes "join_comma (map f xs) @ e # r = join_comma (map f ys) @ e # r'"
    and e: "e \<in> {CHR '']'', CHR ''}''}"
    and item: "\<And>x y q q'. x \<in> set xs \<Longrightarrow> y \<in> set ys \<Longrightarrow> delim q \<Longrightarrow> delim q' \<Longrightarrow>
      f x @ q = f y @ q' \<Longrightarrow> x = y \<and> q = q'"
    and hd: "\<And>x. x \<in> set xs \<union> set ys \<Longrightarrow> f x \<noteq> [] \<and> hd (f x) \<noteq> e"
  shows "xs = ys \<and> r = r'"
  using assms(1) item hd
proof (induction xs arbitrary: ys)
  case Nil
  then show ?case
    by (cases ys; cases "f (hd ys)") (fastforce simp: join_comma_Cons)+
next
  case (Cons x xs)
  show ?case
  proof (cases ys)
    case Nil
    with Cons.prems(1,3) show ?thesis
      by (cases "f x") (fastforce simp: join_comma_Cons)+
  next
    case (Cons y ys')
    let ?q = "(if xs = [] then '''' else '','' @ join_comma (map f xs)) @ e # r"
    let ?q' = "(if ys' = [] then '''' else '','' @ join_comma (map f ys')) @ e # r'"
    from Cons.prems(1) Cons have "f x @ ?q = f y @ ?q'"
      by (simp add: join_comma_Cons)
    moreover have "delim ?q" "delim ?q'" using e by auto
    ultimately have xy: "x = y" and q: "?q = ?q'"
      using Cons.prems(2) [of x y ?q ?q'] Cons by auto
    show ?thesis
    proof (cases "xs = [] \<or> ys' = []")
      case True
      with q e xy Cons show ?thesis by (auto split: if_splits)
    next
      case False
      with q have "join_comma (map f xs) @ e # r = join_comma (map f ys') @ e # r'"
        by simp
      then have "xs = ys' \<and> r = r'"
        using Cons.IH [of ys'] Cons.prems(2,3) Cons by auto
      with xy Cons show ?thesis by simp
    qed
  qed
qed

text \<open>The first character of a rendered value tells its constructor.\<close>

definition char_kind :: "char \<Rightarrow> nat" where
  "char_kind c = (if c = CHR ''n'' then 0 else if c = CHR ''t'' then 1 else if c = CHR ''f'' then 2
     else if num_char c then 3 else if c = CHR 0x22 then 4 else if c = CHR ''['' then 5
     else if c = CHR ''{'' then 6 else 7)"

fun value_kind :: "json \<Rightarrow> nat" where
  "value_kind JNull = 0"
| "value_kind (JBool b) = (if b then 1 else 2)"
| "value_kind (JInt n) = 3"
| "value_kind (JStr s) = 4"
| "value_kind (JArr xs) = 5"
| "value_kind (JObj kvs) = 6"
| "value_kind (JFloat q) = 7"

lemma char_kind_num: "num_char c \<Longrightarrow> char_kind c = 3"
  by (auto simp: char_kind_def num_char_def is_digit_def)

lemma rend_hd: "no_float v \<Longrightarrow> rend v \<noteq> [] \<and> char_kind (hd (rend v)) = value_kind v"
proof (cases v)
  case (JInt n)
  then show ?thesis
    using int_dec_chars [of "hd (int_dec n)" n] by (simp add: char_kind_num)
qed (auto simp: char_kind_def num_char_def is_digit_def)

lemma rend_not_close:
  "no_float v \<Longrightarrow> rend v \<noteq> [] \<and> hd (rend v) \<noteq> CHR '']'' \<and> hd (rend v) \<noteq> CHR ''}''"
  using rend_hd [of v] by (cases v) (auto simp: char_kind_def num_char_def is_digit_def)

lemma rend_kind:
  assumes "rend v @ r = rend w @ r'" "no_float v" "no_float w"
  shows "value_kind v = value_kind w"
  using assms rend_hd [of v] rend_hd [of w] by (metis hd_append2)

lemma rend_prefix:
  "rend v @ r = rend w @ r' \<Longrightarrow> no_float v \<Longrightarrow> no_float w \<Longrightarrow> delim r \<Longrightarrow> delim r' \<Longrightarrow> v = w \<and> r = r'"
proof (induction v arbitrary: w r r')
  case (JInt n)
  then show ?case
    using rend_kind [OF JInt.prems(1-3)] by (cases w) (auto dest: int_dec_prefix split: if_splits)
next
  case (JStr s)
  then show ?case
    using rend_kind [OF JStr.prems(1-3)] by (cases w) (auto dest: dumps_str_prefix split: if_splits)
next
  case (JArr xs)
  from rend_kind [OF JArr.prems(1-3)] obtain ys where w: "w = JArr ys"
    by (cases w) (auto split: if_splits)
  have eq: "join_comma (map rend xs) @ CHR '']'' # r = join_comma (map rend ys) @ CHR '']'' # r'"
    using JArr.prems(1) w by simp
  have "xs = ys \<and> r = r'"
    using eq by (rule join_prefix) (use JArr w rend_not_close in auto)
  with w show ?case by simp
next
  case (JObj kvs)
  let ?f = "\<lambda>kv. dumps_str (fst kv) @ '':'' @ rend (snd kv)"
  from rend_kind [OF JObj.prems(1-3)] obtain kws where w: "w = JObj kws"
    by (cases w) (auto split: if_splits)
  have eq: "join_comma (map ?f kvs) @ CHR ''}'' # r = join_comma (map ?f kws) @ CHR ''}'' # r'"
    using JObj.prems(1) w by simp
  have "kvs = kws \<and> r = r'"
  proof (rule join_prefix [OF eq])
    fix x y q q'
    assume xy: "x \<in> set kvs" "y \<in> set kws" "delim q" "delim q'" and e: "?f x @ q = ?f y @ q'"
    from e have "dumps_str (fst x) @ ('':'' @ rend (snd x) @ q) = dumps_str (fst y) @ ('':'' @ rend (snd y) @ q')"
      by simp
    from dumps_str_prefix [OF this] have k: "fst x = fst y" and v: "rend (snd x) @ q = rend (snd y) @ q'"
      by auto
    have "snd x = snd y \<and> q = q'"
      using JObj.IH [OF xy(1) _ v] JObj.prems(2,3) w xy by (cases x) (auto simp: snds.simps)
    with k show "x = y \<and> q = q'" by (simp add: prod_eq_iff)
  qed simp_all
  with w show ?case by simp
next
  case JNull
  then show ?case
    using rend_kind [OF JNull.prems(1-3)] by (cases w) (auto split: if_splits)
next
  case (JBool b)
  then show ?case
    using rend_kind [OF JBool.prems(1-3)] by (cases w) (auto split: if_splits)
qed simp

lemma canonical_bytes_inject:
  assumes "canonical_bytes v = Inr b" and "canonical_bytes w = Inr b"
  shows "jnorm v = jnorm w"
proof -
  from assms have "rend (jnorm v) @ [] = rend (jnorm w) @ []"
    and "no_float (jnorm v)" "no_float (jnorm w)"
    by (auto simp: canonical_bytes_def dest: render_rend)
  then show ?thesis using rend_prefix [of "jnorm v" "[]" "jnorm w" "[]"] by simp
qed

section \<open>Content digests\<close>

text \<open>
  \<^verbatim>\<open>hashlib.sha256(\<dots>).hexdigest()\<close> is a parameter \<open>sha\<close> of the model: no theorem
  depends on the bits of SHA-256. What the code relies on is that the digest is 64 lowercase
  hexadecimal characters; where collision resistance matters, the theorems exhibit the
  collision instead of assuming there is none.
\<close>

type_synonym sha = "string \<Rightarrow> string"

definition sha256_digest :: "sha \<Rightarrow> json \<Rightarrow> string result" where
  "sha256_digest sha v = bindE (canonical_bytes v) (\<lambda>b. Inr (''sha256:'' @ sha b))"

definition sha_hex :: "sha \<Rightarrow> bool" where
  "sha_hex sha \<longleftrightarrow> (\<forall>b. length (sha b) = 64 \<and> all_lower_hex (sha b))"

text \<open>A collision of the hash function: two different byte strings with one digest.\<close>

definition sha_collision :: "sha \<Rightarrow> bool" where
  "sha_collision sha \<longleftrightarrow> (\<exists>a b. a \<noteq> b \<and> sha a = sha b)"

lemma digest_binds_value:
  assumes "sha256_digest sha v = Inr d" and "sha256_digest sha w = Inr d"
  shows "jnorm v = jnorm w \<or> sha_collision sha"
proof -
  from assms obtain a b where "canonical_bytes v = Inr a" "canonical_bytes w = Inr b" "sha a = sha b"
    by (auto simp: sha256_digest_def bindE_Inr_iff)
  then show ?thesis
    by (cases "a = b") (auto simp: sha_collision_def dest: canonical_bytes_inject)
qed
section \<open>Evaluation\<close>

text \<open>
  Code equations for plain ASCII text, which is what concrete evidence consists of: nothing is
  escaped, no code point is a surrogate, and the key order is the order of the bytes.
\<close>

fun ascii_char :: "char \<Rightarrow> bool" where
  "ascii_char (Char b0 b1 b2 b3 b4 b5 b6 b7) = (\<not> b7)"

fun plain_char :: "char \<Rightarrow> bool" where
  "plain_char (Char b0 b1 b2 b3 b4 b5 b6 b7) =
     (\<not> b7 \<and> (b5 \<or> b6) \<and> \<not> (\<not> b0 \<and> b1 \<and> \<not> b2 \<and> \<not> b3 \<and> \<not> b4 \<and> b5 \<and> \<not> b6)
      \<and> \<not> (\<not> b0 \<and> \<not> b1 \<and> b2 \<and> b3 \<and> b4 \<and> \<not> b5 \<and> b6))"

lemma ascii_char_code: "ascii_char c \<Longrightarrow> (of_char c :: nat) < 128"
  by (cases c) (auto simp: of_char_def horner_sum_simps)

lemma plain_char_code:
  assumes "plain_char c"
  shows "32 \<le> (of_char c :: nat)" "(of_char c :: nat) \<noteq> 34" "(of_char c :: nat) \<noteq> 92"
  using assms by (cases c; force simp: of_char_def horner_sum_simps of_bool_def split: if_splits)+

lemma esc_plain: "plain_char c \<Longrightarrow> esc c = [c]"
  using plain_char_code [of c] by (simp add: esc_def Let_def)

lemma dumps_str_code [code]:
  "dumps_str s = (if list_all plain_char s then CHR 0x22 # s @ [CHR 0x22]
     else [CHR 0x22] @ concat (map esc s) @ [CHR 0x22])"
proof -
  have "concat (map esc s) = s" if "list_all plain_char s" using that by (induction s) (simp_all add: esc_plain)
  then show ?thesis by (simp add: dumps_str_def)
qed

lemma utf8_points_ascii: "list_all (\<lambda>a. a < 128) xs \<Longrightarrow> utf8_points xs = xs"
  by (induction xs rule: utf8_points.induct) auto

lemma code_points_ascii: "list_all ascii_char s \<Longrightarrow> code_points s = map of_char s"
  unfolding code_points_def
  by (rule utf8_points_ascii) (auto simp: list_all_iff dest: ascii_char_code)

lemma validate_string_code [code]:
  "validate_string s = (if list_all ascii_char s then Inr ()
     else if list_ex (\<lambda>p. 55296 \<le> p \<and> p \<le> 57343) (code_points s)
     then reject ''JCS_INVALID_STRING'' else Inr ())"
proof -
  have "\<not> list_ex (\<lambda>p. 55296 \<le> p \<and> p \<le> 57343) (code_points s)" if "list_all ascii_char s"
    using that by (auto simp: code_points_ascii [OF that] list_ex_iff list_all_iff dest!: ascii_char_code)
  then show ?thesis by (auto simp: validate_string_def)
qed

lemma key_sort_value_ascii: "list_all ascii_char s \<Longrightarrow> key_sort_value s = map of_char s"
proof -
  assume a: "list_all ascii_char s"
  have "concat (map utf16_units (map of_char s)) = map of_char s"
    using a by (induction s) (auto simp: utf16_units_def dest: ascii_char_code)
  with a show ?thesis by (simp add: key_sort_value_def code_points_ascii)
qed

lemma map_of_char_less: "map (of_char :: char \<Rightarrow> nat) s < map of_char t \<longleftrightarrow> s < t"
proof (induction s arbitrary: t)
  case Nil
  show ?case by (cases t) simp_all
next
  case (Cons c s)
  then show ?case by (cases t) (auto simp: less_char_def)
qed

lemma map_of_char_le: "map (of_char :: char \<Rightarrow> nat) s \<le> map of_char t \<longleftrightarrow> s \<le> t"
  using map_of_char_less [of t s] by (simp add: not_less [symmetric])

lemma insort_key_cong:
  assumes "\<And>y. y \<in> insert x (set xs) \<Longrightarrow> (f x \<le> f y) = (g x \<le> g y)"
  shows "insort_key f x xs = insort_key g x xs"
  using assms by (induction xs) auto

lemma sort_key_cong_le:
  assumes "\<And>x y. x \<in> set xs \<Longrightarrow> y \<in> set xs \<Longrightarrow> (f x \<le> f y) = (g x \<le> g y)"
  shows "sort_key f xs = sort_key g xs"
  using assms
proof (induction xs)
  case (Cons x xs)
  have "insort_key f x (sort_key f xs) = insort_key g x (sort_key f xs)"
    by (rule insort_key_cong) (use Cons.prems in auto)
  with Cons show ?case by simp
qed simp

definition canonical_order :: "(string \<times> 'v) list \<Rightarrow> (string \<times> 'v) list" where
  "canonical_order kvs = sort_key (\<lambda>kv. key_sort_value (fst kv)) kvs"

lemma canonical_order_code [code]:
  "canonical_order kvs = (if list_all (\<lambda>kv. list_all ascii_char (fst kv)) kvs then sort_key fst kvs
     else sort_key (\<lambda>kv. key_sort_value (fst kv)) kvs)"
proof -
  have "sort_key (\<lambda>kv. key_sort_value (fst kv)) kvs = sort_key fst kvs"
    if "list_all (\<lambda>kv. list_all ascii_char (fst kv)) kvs"
    by (rule sort_key_cong_le) (use that in \<open>auto simp: list_all_iff [of _ kvs] key_sort_value_ascii map_of_char_le\<close>)
  then show ?thesis by (simp add: canonical_order_def)
qed

lemma render_code [code]:
  "render JNull = Inr ''null''"
  "render (JBool b) = Inr (if b then ''true'' else ''false'')"
  "render (JInt n) = (if \<bar>n\<bar> > MAX_SAFE_INTEGER then reject ''JCS_UNSAFE_INTEGER'' else Inr (int_dec n))"
  "render (JFloat q) = reject ''JCS_FLOAT_FORBIDDEN''"
  "render (JStr s) = bindE (validate_string s) (\<lambda>_. Inr (dumps_str s))"
  "render (JArr xs) = bindE (mapE render xs) (\<lambda>ps. Inr (''['' @ join_comma ps @ '']''))"
  "render (JObj kvs) =
     bindE (mapE (\<lambda>kv. validate_string (fst kv)) kvs) (\<lambda>_.
     bindE (mapE (\<lambda>kv. bindE (render (snd kv)) (\<lambda>r. Inr (dumps_str (fst kv) @ '':'' @ r))) (canonical_order kvs)) (\<lambda>ps.
     Inr (''{'' @ join_comma ps @ ''}'')))"
  by (simp_all add: canonical_order_def)

end
