(* ===== verification/TimeUtil.thy ===== *)
theory TimeUtil
  imports Canonical
begin

text \<open>
  The UTC timestamp helpers of \<^verbatim>\<open>timeutil.py\<close> and the parts of the Python runtime that the
  service calls. A \<open>datetime\<close> is an aware Python datetime, as microseconds since the epoch; a
  \<open>stamp\<close> is the instant, in whole seconds, that a stored timestamp text denotes.
\<close>

section \<open>The runtime the service calls\<close>

text \<open>
  What the code takes from libraries is gathered in one record: \<^verbatim>\<open>hashlib.sha256\<close> (hex digest),
  \<^verbatim>\<open>datetime.fromisoformat\<close> (instant and UTC offset in microseconds),
  \<^verbatim>\<open>base64.b64decode(validate=True)\<close>, \<^verbatim>\<open>json.loads\<close>, Ed25519 verification (key, signature,
  message), the JSON-schema validator (schema name, instance), and whether the file system
  lets an object of the content store be read or written.
\<close>

type_synonym datetime = int
type_synonym stamp = int

record host =
  h_sha :: sha
  h_iso :: "string \<Rightarrow> (datetime \<times> int option) option"
  h_b64decode :: "string \<Rightarrow> string option"
  h_json_loads :: "string \<Rightarrow> json option"
  h_ed25519 :: "string \<Rightarrow> string \<Rightarrow> string \<Rightarrow> bool"
  h_schema :: "string \<Rightarrow> json \<Rightarrow> bool"
  h_readable :: "string \<Rightarrow> bool"
  h_writable :: "string \<Rightarrow> bool"

abbreviation digest :: "host \<Rightarrow> json \<Rightarrow> string result" where
  "digest H \<equiv> sha256_digest (h_sha H)"

section \<open>Durations\<close>

definition seconds :: "int \<Rightarrow> int" where
  "seconds n = n * 1000000"

definition minutes :: "int \<Rightarrow> int" where
  "minutes n = seconds (60 * n)"

section \<open>Parsing and formatting\<close>

definition parse_utc :: "host \<Rightarrow> json \<Rightarrow> datetime result" where
  "parse_utc H v = (case v of
     JStr s \<Rightarrow>
       if \<not> endswith s ''Z'' then reject ''TIMESTAMP_INVALID''
       else (case h_iso H (butlast s @ ''+00:00'') of
          None \<Rightarrow> reject ''TIMESTAMP_INVALID''
        | Some (t, offset) \<Rightarrow> if offset \<noteq> Some 0 then reject ''TIMESTAMP_INVALID'' else Inr t)
   | _ \<Rightarrow> reject ''TIMESTAMP_INVALID'')"

text \<open>
  \<^verbatim>\<open>utc_seconds\<close> drops the microseconds and writes the civil date and time. The model
  keeps the instant; \<open>utc_text\<close> is the text, used wherever the text itself is hashed.
  \<open>stamp_dt\<close> is the datetime a stored text parses back to.
\<close>

definition utc_seconds :: "datetime \<Rightarrow> stamp" where
  "utc_seconds t = t div 1000000"

definition stamp_dt :: "stamp \<Rightarrow> datetime" where
  "stamp_dt s = s * 1000000"

definition is_leap :: "int \<Rightarrow> bool" where
  "is_leap y = (y mod 4 = 0 \<and> (y mod 100 \<noteq> 0 \<or> y mod 400 = 0))"

definition days_in_year :: "int \<Rightarrow> int" where
  "days_in_year y = (if is_leap y then 366 else 365)"

definition month_lengths :: "int \<Rightarrow> int list" where
  "month_lengths y = [31, if is_leap y then 29 else 28, 31, 30, 31, 30, 31, 31, 30, 31, 30, 31]"

function year_from :: "int \<Rightarrow> int \<Rightarrow> int \<times> int" where
  "year_from y r = (if r < days_in_year y then (y, r) else year_from (y + 1) (r - days_in_year y))"
  by pat_completeness auto
termination
  by (relation "measure (\<lambda>(y, r). nat r)") (auto simp: days_in_year_def split: if_splits)

declare year_from.simps [simp del]

fun month_from :: "int \<Rightarrow> int list \<Rightarrow> int \<Rightarrow> int \<times> int" where
  "month_from m [] r = (m, r)"
| "month_from m (l # ls) r = (if r < l then (m, r) else month_from (m + 1) ls (r - l))"

definition pad2 :: "int \<Rightarrow> string" where
  "pad2 n = [digit_char (nat (n div 10)), digit_char (nat (n mod 10))]"

text \<open>A Python year is between 1 and 9999 and \<^verbatim>\<open>isoformat\<close> pads it to four digits.\<close>

definition pad4 :: "int \<Rightarrow> string" where
  "pad4 n = pad2 (n div 100 mod 100) @ pad2 (n mod 100)"

text \<open>719162 days lie between 0001-01-01 and the epoch; a Gregorian cycle has 146097.\<close>

definition civil_year :: "int \<Rightarrow> int \<times> int" where
  "civil_year d = (let ord0 = d + 719162 in
     year_from (400 * (ord0 div 146097) + 1) (ord0 mod 146097))"

definition utc_text :: "stamp \<Rightarrow> string" where
  "utc_text s = (case civil_year (s div 86400) of (y, yd) \<Rightarrow>
     case month_from 1 (month_lengths y) yd of (m, d) \<Rightarrow>
     let t = s mod 86400 in
     pad4 y @ ''-'' @ pad2 m @ ''-'' @ pad2 (d + 1) @ ''T'' @ pad2 (t div 3600) @ '':''
       @ pad2 (t mod 3600 div 60) @ '':'' @ pad2 (t mod 60) @ ''Z'')"

lemma utc_seconds_le: "stamp_dt (utc_seconds t) \<le> t"
  by (simp add: stamp_dt_def utc_seconds_def)

lemma utc_seconds_gt: "t < stamp_dt (utc_seconds t) + seconds 1"
  by (simp add: stamp_dt_def utc_seconds_def seconds_def)

lemma utc_seconds_stamp_dt [simp]: "utc_seconds (stamp_dt s) = s"
  by (simp add: stamp_dt_def utc_seconds_def)

lemma utc_seconds_mono: "t \<le> u \<Longrightarrow> utc_seconds t \<le> utc_seconds u"
  by (simp add: utc_seconds_def zdiv_mono1)

end
