(* ===== verification/Evidence.thy ===== *)
theory Evidence
  imports TimeUtil
begin

text \<open>
  The data of the signed evidence: the payload objects the JSON schemas of the repository
  describe, as records, with the readers that project a schema-checked JSON object to its
  record. Timestamps stay JSON values until the code parses them. The raw object is kept
  where the code hashes it.
\<close>

section \<open>Payload records\<close>

record subject =
  sj_raw :: json
  sj_repositoryId :: int
  sj_repository :: string
  sj_headSha :: string
  sj_intentRef :: string
  sj_environment :: string
  sj_deploymentClass :: string
  sj_policySha256 :: string
  sj_artifactSetSha256 :: string
  sj_rollbackPlanSha256 :: string
  sj_postDeployVerifierSha256 :: string
  sj_runnerPolicySha256 :: string
  sj_runnerAdmissionLeaseSha256 :: string
  sj_bootstrapCredentialSha256 :: string
  sj_sessionSha256 :: string
  sj_endpointIdSha256 :: string
  sj_operatorIdSha256 :: string

record grant =
  gr_raw :: json
  gr_requestId :: string
  gr_deploymentSessionId :: string
  gr_stageNonceSha256 :: "(string \<times> json) list"
  gr_triggeringActorId :: int
  gr_registrationPrincipal :: string
  gr_notBefore :: json
  gr_expiresAt :: json

record workflow_stage =
  ws_stage :: string
  ws_order :: int
  ws_dependsOn :: "json option"
  ws_dependsOnFailure :: "json option"
  ws_workflowPath :: string
  ws_workflowBlobSha256 :: string
  ws_dependencyLockSha256 :: string
  ws_concurrencyGroupSha256 :: string
  ws_runsOnLabels :: "string list"
  ws_runnerGroup :: bool

record closure_entry =
  ce_findingId :: string
  ce_raisedByReviewSha256 :: string
  ce_fixSha256 :: string
  ce_acknowledgedByReviewSha256 :: string

record bundle_payload =
  bd_bundleId :: string
  bd_subject :: subject
  bd_stages_raw :: json
  bd_workflowStages :: "workflow_stage list"
  bd_leaseEnvelope :: json
  bd_reviewEnvelopes :: "json list"
  bd_closure :: "closure_entry list"
  bd_closureRootSha256 :: string
  bd_consensus_providerFamilies :: "string list"
  bd_consensus_finalAgree :: "string list"
  bd_consensus_closureRootSha256 :: string
  bd_grant :: grant

record review_leaf =
  rv_reviewId :: string
  rv_reviewChainId :: string
  rv_providerFamily :: string
  rv_channel :: string
  rv_directProviderCli :: bool
  rv_modelId :: string
  rv_modelIdentityClass :: string
  rv_subjectSha256 :: string
  rv_round :: int
  rv_verdict :: string
  rv_previousRoundSha256 :: "string option"
  rv_findingIds :: "string list"
  rv_resolvedFindingIds :: "string list"
  rv_acknowledgedFindingIds :: "string list"
  rv_closureRootSha256 :: string
  rv_issuedAt :: json
  rv_expiresAt :: json
  rv_issuer :: string
  rv_keyId :: string

record eligible_runner =
  er_runnerId :: int
  er_runnerNameSha256 :: string
  er_labels :: "string list"

record lease_payload =
  ls_obj :: "(string \<times> json) list"
  ls_leaseId :: string
  ls_issuedAt :: json
  ls_expiresAt :: json
  ls_eligibleRunners :: "eligible_runner list"
  ls_inventoryGenerationSha256 :: string

record trust_entry =
  te_keyId :: string
  te_role :: string
  te_publicKeyBase64 :: json
  te_notBefore :: json
  te_notAfter :: json
  te_providerFamily :: "string option"
  te_allowedChannels :: "string list"
  te_allowedModelIds :: "string list"
  te_allowedModelIdentityClasses :: "string list"
  te_directProviderCli :: "bool option"

record trust_root_payload =
  tr_maxClockSkewSeconds :: int
  tr_requiredProviderFamilies :: "string list"
  tr_issuedAt :: json
  tr_expiresAt :: json
  tr_keys :: "trust_entry list"

record revocation_entry =
  re_type :: string
  re_id :: string
  re_effectiveAt :: json

record revocations_payload =
  rs_issuedAt :: json
  rs_nextUpdate :: json
  rs_entries :: "revocation_entry list"

section \<open>Verified evidence\<close>

text \<open>The frozen dataclasses of \<^verbatim>\<open>contract.py\<close>.\<close>

record trust_key =
  tk_key_id :: string
  tk_role :: string
  tk_public_key :: string
  tk_provider_family :: "string option"
  tk_allowed_channels :: "string list"
  tk_allowed_model_ids :: "string list"
  tk_allowed_model_identity_classes :: "string list"
  tk_direct_provider_cli :: "bool option"
  tk_not_before :: datetime
  tk_not_after :: datetime

record verified_review =
  vr_digest :: string
  vr_payload :: review_leaf
  vr_key :: trust_key
  vr_issued_at :: datetime
  vr_expires_at :: datetime

record verified_lease =
  vl_digest :: string
  vl_payload :: lease_payload
  vl_key :: trust_key
  vl_issued_at :: datetime
  vl_expires_at :: datetime

record verified_bundle =
  vb_bundle_id :: string
  vb_bundle_digest :: string
  vb_subject_digest :: string
  vb_request_id :: string
  vb_session_digest :: string
  vb_expires_at :: datetime
  vb_provider_families :: "string list"
  vb_provider_identity_classes :: "(string \<times> string) list"
  vb_final_review_digests :: "string list"
  vb_coordinator_key_id :: string
  vb_runner_admission_lease :: verified_lease
  vb_payload :: bundle_payload

section \<open>Readers\<close>

text \<open>
  \<^verbatim>\<open>obj["k"]\<close> raises \<open>KeyError\<close> for a missing key. A value of another type than the schema
  allows is a \<open>TypeError\<close>; a schema-checked object has none.
\<close>

definition obj_of :: "json \<Rightarrow> (string \<times> json) list result" where
  "obj_of v = (case v of JObj kvs \<Rightarrow> Inr kvs | _ \<Rightarrow> Inl TypeError)"

definition str_of :: "json \<Rightarrow> string result" where
  "str_of v = (case v of JStr s \<Rightarrow> Inr s | _ \<Rightarrow> Inl TypeError)"

definition int_of :: "json \<Rightarrow> int result" where
  "int_of v = (case v of JInt n \<Rightarrow> Inr n | _ \<Rightarrow> Inl TypeError)"

definition bool_of :: "json \<Rightarrow> bool result" where
  "bool_of v = (case v of JBool b \<Rightarrow> Inr b | _ \<Rightarrow> Inl TypeError)"

definition list_of :: "json \<Rightarrow> json list result" where
  "list_of v = (case v of JArr xs \<Rightarrow> Inr xs | _ \<Rightarrow> Inl TypeError)"

definition strs_of :: "json \<Rightarrow> string list result" where
  "strs_of v = bindE (list_of v) (mapE str_of)"

definition opt_of :: "(json \<Rightarrow> 'a result) \<Rightarrow> json \<Rightarrow> 'a option result" where
  "opt_of f v = (if v = JNull then Inr None else bindE (f v) (\<lambda>x. Inr (Some x)))"

definition fld :: "(string \<times> json) list \<Rightarrow> string \<Rightarrow> json result" where
  "fld kvs k = expect (KeyError k) (map_of kvs k)"

definition fld_as :: "(json \<Rightarrow> 'a result) \<Rightarrow> (string \<times> json) list \<Rightarrow> string \<Rightarrow> 'a result" where
  "fld_as f kvs k = bindE (fld kvs k) f"

end
