(* ===== verification/HashChain.thy ===== *)
theory HashChain
  imports Evidence
begin

text \<open>
  The hash-linked append-only log that \<^verbatim>\<open>intent_events\<close> and \<^verbatim>\<open>ledger_events\<close> both keep:
  every row carries the hash of its predecessor and the digest of its own content with that
  hash. The interface is a locale; the two event tables interpret it.
\<close>

section \<open>Objects with the same canonical form\<close>

lemma set_sort_items: "set (sort_key f kvs) = set kvs"
  by simp

lemma jnorm_obj_items:
  assumes "jnorm (JObj a) = jnorm (JObj b)"
  shows "(\<lambda>kv. (fst kv, jnorm (snd kv))) ` set a = (\<lambda>kv. (fst kv, jnorm (snd kv))) ` set b"
proof -
  let ?g = "\<lambda>kv :: string \<times> json. (fst kv, jnorm (snd kv))"
  let ?s = "sort_key (\<lambda>kv :: string \<times> json. key_sort_value (fst kv))"
  from assms have "map ?g (?s a) = map ?g (?s b)" by simp
  then have "set (map ?g (?s a)) = set (map ?g (?s b))" by simp
  then show ?thesis by simp
qed

lemma jnorm_get:
  assumes eq: "jnorm (JObj a) = jnorm (JObj b)" and d: "distinct (map fst a)" "distinct (map fst b)"
    and k: "map_of a k = Some v" "map_of b k = Some w"
  shows "jnorm v = jnorm w"
proof -
  let ?g = "\<lambda>kv :: string \<times> json. (fst kv, jnorm (snd kv))"
  from k have "(k, jnorm v) \<in> ?g ` set a" "(k, w) \<in> set b"
    by (force dest: map_of_SomeD)+
  with jnorm_obj_items [OF eq] obtain x where "(k, x) \<in> set b" "jnorm x = jnorm v"
    by auto
  with d(2) \<open>(k, w) \<in> set b\<close> show ?thesis by (metis eq_key_imp_eq_value)
qed

lemma jnorm_get_the:
  assumes "jnorm (JObj a) = jnorm (JObj b)" "distinct (map fst a)" "distinct (map fst b)"
    and "map_of a k \<noteq> None" "map_of b k \<noteq> None"
  shows "jnorm (the (map_of a k)) = jnorm (the (map_of b k))"
  using jnorm_get [OF assms(1-3)] assms(4,5) by (metis option.collapse)

definition json_opt :: "string option \<Rightarrow> json" where
  "json_opt x = (case x of None \<Rightarrow> JNull | Some s \<Rightarrow> JStr s)"

lemma jnorm_json_opt [simp]: "jnorm (json_opt x) = json_opt x"
  by (cases x) (simp_all add: json_opt_def)

lemma json_opt_inject [simp]: "json_opt x = json_opt y \<longleftrightarrow> x = y"
  by (cases x; cases y) (simp_all add: json_opt_def)

section \<open>Linked logs\<close>

fun linked :: "('e \<Rightarrow> string option) \<Rightarrow> ('e \<Rightarrow> string) \<Rightarrow> ('e \<Rightarrow> string result) \<Rightarrow> string option
    \<Rightarrow> 'e list \<Rightarrow> bool" where
  "linked prev hash dg p [] = True"
| "linked prev hash dg p (e # es) =
     (prev e = p \<and> dg e = Inr (hash e) \<and> linked prev hash dg (Some (hash e)) es)"

definition last_hash :: "('e \<Rightarrow> string) \<Rightarrow> 'e list \<Rightarrow> string option" where
  "last_hash hash es = (if es = [] then None else Some (hash (last es)))"

lemma linked_snoc:
  "linked prev hash dg p (es @ [e]) \<longleftrightarrow> linked prev hash dg p es
     \<and> prev e = (if es = [] then p else Some (hash (last es))) \<and> dg e = Inr (hash e)"
  by (induction es arbitrary: p) auto

text \<open>
  \<open>body\<close> is the hashed object of a row. The law says that the object and the hash
  determine the row: nothing a row stores is outside the hash.
\<close>

locale hash_log =
  fixes prev :: "'e \<Rightarrow> string option" and hash :: "'e \<Rightarrow> string" and body :: "'e \<Rightarrow> json"
  assumes body_determines:
    "jnorm (body e) = jnorm (body e') \<Longrightarrow> hash e = hash e' \<Longrightarrow> e = e'"
begin

lemma linked_append_event:
  assumes "linked prev hash (\<lambda>e. sha256_digest sha (body e)) None es"
    and "prev e = last_hash hash es" and "sha256_digest sha (body e) = Inr (hash e)"
  shows "linked prev hash (\<lambda>e. sha256_digest sha (body e)) None (es @ [e])"
  using assms by (simp add: linked_snoc last_hash_def)

lemma hash_determines_row:
  assumes "sha256_digest sha (body e) = Inr (hash e)" "sha256_digest sha (body e') = Inr (hash e')"
    and "hash e = hash e'"
  shows "e = e' \<or> sha_collision sha"
  using digest_binds_value [of sha "body e" "hash e" "body e'"] assms body_determines by auto

text \<open>The last hash commits to the whole history: equal heads mean equal logs.\<close>

lemma head_determines_log:
  assumes "linked prev hash (\<lambda>e. sha256_digest sha (body e)) None xs"
    and "linked prev hash (\<lambda>e. sha256_digest sha (body e)) None ys"
    and "last_hash hash xs = last_hash hash ys"
  shows "xs = ys \<or> sha_collision sha"
  using assms
proof (induction xs arbitrary: ys rule: rev_induct)
  case Nil
  then show ?case by (auto simp: last_hash_def split: if_splits)
next
  case (snoc e xs)
  from snoc.prems(3) have "ys \<noteq> []" by (auto simp: last_hash_def)
  then obtain zs f where ys: "ys = zs @ [f]" by (metis rev_exhaust)
  from snoc.prems ys have h: "hash e = hash f" by (simp add: last_hash_def)
  from snoc.prems(1,2) ys have l: "linked prev hash (\<lambda>e. sha256_digest sha (body e)) None xs"
      "linked prev hash (\<lambda>e. sha256_digest sha (body e)) None zs"
    and p: "prev e = last_hash hash xs" "prev f = last_hash hash zs"
    and d: "sha256_digest sha (body e) = Inr (hash e)" "sha256_digest sha (body f) = Inr (hash f)"
    by (simp_all add: linked_snoc last_hash_def)
  from hash_determines_row [OF d h] show ?case
  proof
    assume "e = f"
    with p snoc.IH [OF l] ys show ?thesis by auto
  qed simp
qed

end

end
