(* ===== verification/IntentStore.thy ===== *)
theory IntentStore
  imports HashChain
begin

text \<open>
  The content-addressed store and the intent registry of \<^verbatim>\<open>intent_store.py\<close>: its SQLite
  tables as lists of rows with their constraints, and every operation with its guards in the
  order of the code. Timestamps that the code only compares and parses back are kept as the
  instant they denote; event rows keep the text, because it is hashed.
\<close>

section \<open>Stage, dispatch and intent states\<close>

datatype intent_state = Registered | Finalized | Quarantined

datatype stage_state = Available | Reserved | ApprovedPendingOutcome | Succeeded | Failed
  | OutcomeOverdue | CallbackUnknown | RolledBack | Rejected

datatype dispatch_state = DPending | DSending | DAccepted | DUncertain | DRejected

fun stage_name :: "stage_state \<Rightarrow> string" where
  "stage_name Available = ''Available''"
| "stage_name Reserved = ''Reserved''"
| "stage_name ApprovedPendingOutcome = ''ApprovedPendingOutcome''"
| "stage_name Succeeded = ''Succeeded''"
| "stage_name Failed = ''Failed''"
| "stage_name OutcomeOverdue = ''OutcomeOverdue''"
| "stage_name CallbackUnknown = ''CallbackUnknown''"
| "stage_name RolledBack = ''RolledBack''"
| "stage_name Rejected = ''Rejected''"

fun dispatch_name :: "dispatch_state \<Rightarrow> string" where
  "dispatch_name DPending = ''DispatchPending''"
| "dispatch_name DSending = ''DispatchSending''"
| "dispatch_name DAccepted = ''DispatchAccepted''"
| "dispatch_name DUncertain = ''DispatchUncertain''"
| "dispatch_name DRejected = ''DispatchRejected''"

definition STAGES :: "string list" where
  "STAGES = [''apply'', ''browser-evidence'', ''compensating-rollback'']"

definition FINAL_STAGE_STATES :: "stage_state list" where
  "FINAL_STAGE_STATES = [Succeeded, Failed, CallbackUnknown, RolledBack, Rejected]"

fun ALLOWED_STAGE_TRANSITIONS :: "stage_state \<Rightarrow> stage_state list" where
  "ALLOWED_STAGE_TRANSITIONS Reserved = [ApprovedPendingOutcome, Rejected, OutcomeOverdue]"
| "ALLOWED_STAGE_TRANSITIONS ApprovedPendingOutcome = [Succeeded, Failed, RolledBack]"
| "ALLOWED_STAGE_TRANSITIONS OutcomeOverdue = [CallbackUnknown]"
| "ALLOWED_STAGE_TRANSITIONS CallbackUnknown = [ApprovedPendingOutcome]"
| "ALLOWED_STAGE_TRANSITIONS _ = []"

definition MAX_STAGE_OUTCOME_WAIT :: int where
  "MAX_STAGE_OUTCOME_WAIT = minutes 30"

definition ROLLBACK_DISPATCH_HEADROOM :: int where
  "ROLLBACK_DISPATCH_HEADROOM = minutes 15"

section \<open>Rows\<close>

record intent_row =
  in_request_id :: string
  in_bundle_digest :: string
  in_subject_digest :: string
  in_grant_digest :: string
  in_repository_id :: int
  in_repository :: string
  in_environment :: string
  in_head_sha :: string
  in_intent_ref :: string
  in_session_digest :: string
  in_artifact_set_digest :: string
  in_rollback_plan_digest :: string
  in_post_deploy_verifier_digest :: string
  in_expires_at :: stamp
  in_registration_principal :: string
  in_triggering_actor_id :: "int option"
  in_registered_at :: stamp
  in_ref_object_id :: "string option"
  in_finalized_at :: "stamp option"
  in_state :: intent_state

record stage_row =
  st_request_id :: string
  st_repository_id :: int
  st_environment :: string
  st_stage :: string
  st_stage_order :: int
  st_nonce_digest :: string
  st_workflow_path :: "string option"
  st_workflow_blob_digest :: string
  st_state :: stage_state
  st_run_id :: "int option"
  st_run_attempt :: "int option"
  st_app_rule_id :: "int option"
  st_reservation_id :: "string option"
  st_reservation_expires_at :: "stamp option"

record dispatch_job =
  dj_request_id :: string
  dj_stage :: string
  dj_installation_id :: int
  dj_repository_id :: "int option"
  dj_repository :: string
  dj_workflow_path :: string
  dj_intent_ref :: "string option"
  dj_head_sha :: "string option"
  dj_expected_actor_id :: int
  dj_correlation_key :: "string option"
  dj_state :: dispatch_state
  dj_queued_at :: stamp
  dj_claimed_at :: "stamp option"
  dj_snapshot_at :: "stamp option"
  dj_watermark :: "int option"
  dj_resolved_at :: "stamp option"
  dj_http_status :: "int option"
  dj_reason_code :: "string option"
  dj_run_id :: "int option"

record event_row =
  ev_event_id :: string
  ev_request_id :: string
  ev_stage :: "string option"
  ev_recorded_at :: string
  ev_from_state :: "string option"
  ev_to_state :: string
  ev_reason_code :: string
  ev_previous_hash :: "string option"
  ev_event_hash :: string

record outcome_row =
  so_request_id :: string
  so_stage :: string
  so_run_id :: int
  so_run_attempt :: int
  so_outcome_digest :: string
  so_source_archive_sha256 :: string
  so_target_state :: stage_state
  so_recorded_at :: stamp

record bootstrap_row =
  bc_request_id :: string
  bc_stage :: string
  bc_run_id :: int
  bc_run_attempt :: int
  bc_runner_id :: int
  bc_response_digest :: string
  bc_consumed_at :: stamp

record stage_reservation =
  sr_request_id :: string
  sr_stage :: string
  sr_run_id :: int
  sr_run_attempt :: int
  sr_app_rule_id :: int
  sr_reservation_id :: "string option"
  sr_reservation_expires_at :: "stamp option"
  sr_state :: stage_state
  sr_idempotent :: bool

text \<open>The object files of the content store, by the hex name of the file.\<close>

type_synonym cas = "(string \<times> string) list"

record registry =
  r_intents :: "intent_row list"
  r_stages :: "stage_row list"
  r_dispatches :: "dispatch_job list"
  r_events :: "event_row list"
  r_outcomes :: "outcome_row list"
  r_bootstraps :: "bootstrap_row list"
  r_cas :: cas

definition empty_registry :: registry where
  "empty_registry = \<lparr>r_intents = [], r_stages = [], r_dispatches = [], r_events = [],
     r_outcomes = [], r_bootstraps = [], r_cas = []\<rparr>"

text \<open>Primary keys.\<close>

definition st_key :: "stage_row \<Rightarrow> string \<times> string" where
  "st_key r = (st_request_id r, st_stage r)"

definition dj_key :: "dispatch_job \<Rightarrow> string \<times> string" where
  "dj_key r = (dj_request_id r, dj_stage r)"

definition so_key :: "outcome_row \<Rightarrow> string \<times> string" where
  "so_key r = (so_request_id r, so_stage r)"

definition bc_key :: "bootstrap_row \<Rightarrow> string \<times> string" where
  "bc_key r = (bc_request_id r, bc_stage r)"

abbreviation intent_of :: "registry \<Rightarrow> string \<Rightarrow> intent_row option" where
  "intent_of s rid \<equiv> lookup_by in_request_id rid (r_intents s)"

abbreviation stage_of :: "registry \<Rightarrow> string \<Rightarrow> string \<Rightarrow> stage_row option" where
  "stage_of s rid stg \<equiv> lookup_by st_key (rid, stg) (r_stages s)"

abbreviation dispatch_of :: "registry \<Rightarrow> string \<Rightarrow> string \<Rightarrow> dispatch_job option" where
  "dispatch_of s rid stg \<equiv> lookup_by dj_key (rid, stg) (r_dispatches s)"

abbreviation outcome_of :: "registry \<Rightarrow> string \<Rightarrow> string \<Rightarrow> outcome_row option" where
  "outcome_of s rid stg \<equiv> lookup_by so_key (rid, stg) (r_outcomes s)"

abbreviation bootstrap_of :: "registry \<Rightarrow> string \<Rightarrow> string \<Rightarrow> bootstrap_row option" where
  "bootstrap_of s rid stg \<equiv> lookup_by bc_key (rid, stg) (r_bootstraps s)"

section \<open>Content-addressed store\<close>

definition cas_hex :: "string \<Rightarrow> string result" where
  "cas_hex d =
     (if \<not> startswith d ''sha256:'' \<or> py_len d \<noteq> 71 \<or> \<not> all_lower_hex (drop 7 d)
      then reject ''CAS_DIGEST_INVALID'' else Inr (drop 7 d))"

definition put_json :: "host \<Rightarrow> json \<Rightarrow> string \<Rightarrow> cas \<Rightarrow> cas result" where
  "put_json H v expected c =
     bindE (canonical_bytes v) (\<lambda>raw.
     bindE (digest H v) (\<lambda>actual.
     if actual \<noteq> expected then reject ''CAS_DIGEST_MISMATCH'' else
     bindE (cas_hex expected) (\<lambda>hex.
     case map_of c hex of
       Some existing \<Rightarrow>
         if \<not> h_readable H hex then reject ''CAS_UNAVAILABLE''
         else if existing \<noteq> raw then reject ''CAS_OBJECT_COLLISION''
         else Inr c
     | None \<Rightarrow> if \<not> h_writable H hex then reject ''CAS_UNAVAILABLE'' else Inr ((hex, raw) # c))))"

definition get_json :: "host \<Rightarrow> string \<Rightarrow> cas \<Rightarrow> json result" where
  "get_json H d c =
     bindE (cas_hex d) (\<lambda>hex.
     case map_of c hex of
       None \<Rightarrow> reject ''CAS_OBJECT_MISSING''
     | Some raw \<Rightarrow>
         if \<not> h_readable H hex then reject ''CAS_OBJECT_MISSING''
         else if length raw > 4 * 1024 * 1024 then reject ''CAS_OBJECT_INVALID''
         else (case h_json_loads H raw of
             None \<Rightarrow> reject ''CAS_OBJECT_INVALID''
           | Some v \<Rightarrow>
               if \<not> (case v of JObj _ \<Rightarrow> True | _ \<Rightarrow> False) then reject ''CAS_OBJECT_INVALID''
               else bindE (canonical_bytes v) (\<lambda>b.
                 if b \<noteq> raw then reject ''CAS_OBJECT_INVALID''
                 else bindE (digest H v) (\<lambda>d'.
                   if d' \<noteq> d then reject ''CAS_OBJECT_TAMPERED'' else Inr v))))"

section \<open>Writes with the constraints of the schema\<close>

definition event_body :: "event_row \<Rightarrow> json" where
  "event_body e = JObj
    [(''domain'', JStr ''acik.cross-ai-intent-event.v1''),
     (''eventId'', JStr (ev_event_id e)),
     (''requestId'', JStr (ev_request_id e)),
     (''stage'', json_opt (ev_stage e)),
     (''recordedAt'', JStr (ev_recorded_at e)),
     (''fromState'', json_opt (ev_from_state e)),
     (''toState'', JStr (ev_to_state e)),
     (''reasonCode'', JStr (ev_reason_code e)),
     (''previousHash'', json_opt (ev_previous_hash e))]"

definition append_event :: "host \<Rightarrow> string \<Rightarrow> string \<Rightarrow> string option \<Rightarrow> string option \<Rightarrow> string
    \<Rightarrow> string \<Rightarrow> stamp \<Rightarrow> registry \<Rightarrow> registry result" where
  "append_event H event_id rid stg from_state to_state reason_code recorded_at s =
     (let row = \<lparr>ev_event_id = event_id, ev_request_id = rid, ev_stage = stg,
            ev_recorded_at = utc_text recorded_at, ev_from_state = from_state,
            ev_to_state = to_state, ev_reason_code = reason_code,
            ev_previous_hash = last_hash ev_event_hash (r_events s), ev_event_hash = ''''\<rparr>
      in bindE (digest H (event_body row)) (\<lambda>event_hash.
        if event_id \<in> ev_event_id ` set (r_events s) \<or> event_hash \<in> ev_event_hash ` set (r_events s)
           \<or> intent_of s rid = None
        then Inl IntegrityError
        else Inr (s\<lparr>r_events := r_events s @ [row\<lparr>ev_event_hash := event_hash\<rparr>]\<rparr>)))"

definition insert_intent :: "intent_row \<Rightarrow> registry \<Rightarrow> registry result" where
  "insert_intent row s =
     (if intent_of s (in_request_id row) \<noteq> None
         \<or> in_bundle_digest row \<in> in_bundle_digest ` set (r_intents s)
         \<or> in_intent_ref row \<in> in_intent_ref ` set (r_intents s)
         \<or> (case in_triggering_actor_id row of None \<Rightarrow> True | Some a \<Rightarrow> a < 1)
      then Inl IntegrityError
      else Inr (s\<lparr>r_intents := r_intents s @ [row]\<rparr>))"

definition insert_stage :: "stage_row \<Rightarrow> registry \<Rightarrow> registry result" where
  "insert_stage row s =
     (if stage_of s (st_request_id row) (st_stage row) \<noteq> None
         \<or> st_stage row \<notin> set STAGES
         \<or> (case st_workflow_path row of None \<Rightarrow> True | Some p \<Rightarrow> p = '''')
         \<or> intent_of s (st_request_id row) = None
      then Inl IntegrityError
      else Inr (s\<lparr>r_stages := r_stages s @ [row]\<rparr>))"

text \<open>
  The unique indexes of \<^verbatim>\<open>intent_stages\<close>: \<^verbatim>\<open>reservation_id\<close>, and \<^verbatim>\<open>unique_run_rule\<close> over the
  rows that hold a run. A column that is NULL never conflicts.
\<close>

fun run_rule_of :: "stage_row \<Rightarrow> (int \<times> string \<times> int \<times> int \<times> int) option" where
  "run_rule_of r = (case (st_run_id r, st_run_attempt r, st_app_rule_id r) of
     (Some run, Some attempt, Some rule) \<Rightarrow> Some (st_repository_id r, st_environment r, run, attempt, rule)
   | _ \<Rightarrow> None)"

definition unique_some :: "('r \<Rightarrow> 'k option) \<Rightarrow> 'r list \<Rightarrow> bool" where
  "unique_some key rows = distinct (filter (\<lambda>k. k \<noteq> None) (map key rows))"

definition stage_indexes_ok :: "stage_row list \<Rightarrow> bool" where
  "stage_indexes_ok rows = (unique_some run_rule_of rows \<and> unique_some st_reservation_id rows)"

text \<open>An update of the state column alone touches no unique index.\<close>

definition set_stage_state :: "string \<Rightarrow> string \<Rightarrow> stage_state \<Rightarrow> registry \<Rightarrow> registry" where
  "set_stage_state rid stg st s =
     s\<lparr>r_stages := row_update (\<lambda>r. st_key r = (rid, stg)) (\<lambda>r. r\<lparr>st_state := st\<rparr>) (r_stages s)\<rparr>"

text \<open>The unique indexes of \<^verbatim>\<open>intent_dispatches\<close>.\<close>

definition dispatch_run :: "dispatch_job \<Rightarrow> (string \<times> int) option" where
  "dispatch_run d = map_option (\<lambda>r. (dj_repository d, r)) (dj_run_id d)"

definition dispatch_repository_run :: "dispatch_job \<Rightarrow> (int \<times> int) option" where
  "dispatch_repository_run d = (case (dj_repository_id d, dj_run_id d) of
     (Some i, Some r) \<Rightarrow> Some (i, r) | _ \<Rightarrow> None)"

definition active_correlation :: "dispatch_job \<Rightarrow> string option" where
  "active_correlation d = (if dj_state d \<in> {DSending, DUncertain} then dj_correlation_key d else None)"

definition dispatch_indexes_ok :: "dispatch_job list \<Rightarrow> bool" where
  "dispatch_indexes_ok rows = (unique_some dispatch_run rows \<and> unique_some dispatch_repository_run rows
     \<and> unique_some active_correlation rows)"

definition update_dispatch :: "string \<Rightarrow> string \<Rightarrow> (dispatch_job \<Rightarrow> dispatch_job) \<Rightarrow> registry
    \<Rightarrow> registry result" where
  "update_dispatch rid stg f s =
     (let rows = row_update (\<lambda>d. dj_key d = (rid, stg)) f (r_dispatches s)
      in if dispatch_indexes_ok rows then Inr (s\<lparr>r_dispatches := rows\<rparr>) else Inl IntegrityError)"

definition insert_dispatch :: "dispatch_job \<Rightarrow> registry \<Rightarrow> registry result" where
  "insert_dispatch d s =
     (let rows = r_dispatches s @ [d]
      in if dispatch_of s (dj_request_id d) (dj_stage d) = None
            \<and> stage_of s (dj_request_id d) (dj_stage d) \<noteq> None \<and> dispatch_indexes_ok rows
         then Inr (s\<lparr>r_dispatches := rows\<rparr>) else Inl IntegrityError)"

definition insert_outcome :: "outcome_row \<Rightarrow> registry \<Rightarrow> registry result" where
  "insert_outcome row s =
     (if outcome_of s (so_request_id row) (so_stage row) \<noteq> None
         \<or> so_outcome_digest row \<in> so_outcome_digest ` set (r_outcomes s)
         \<or> so_target_state row \<notin> {Succeeded, Failed, RolledBack}
         \<or> stage_of s (so_request_id row) (so_stage row) = None
      then Inl IntegrityError
      else Inr (s\<lparr>r_outcomes := r_outcomes s @ [row]\<rparr>))"

definition insert_bootstrap :: "bootstrap_row \<Rightarrow> registry \<Rightarrow> registry result" where
  "insert_bootstrap row s =
     (if bootstrap_of s (bc_request_id row) (bc_stage row) \<noteq> None
         \<or> bc_response_digest row \<in> bc_response_digest ` set (r_bootstraps s)
         \<or> stage_of s (bc_request_id row) (bc_stage row) = None
      then Inl IntegrityError
      else Inr (s\<lparr>r_bootstraps := r_bootstraps s @ [row]\<rparr>))"

end
