(* ===== verification/IntentOps.thy ===== *)
theory IntentOps
  imports IntentStore
begin

text \<open>
  The operations of \<^verbatim>\<open>IntentRegistry\<close>. Every operation takes the clock reading and the
  \<^verbatim>\<open>uuid4\<close> values it draws as arguments (\<open>uid 0\<close>, \<open>uid 1\<close>, \dots in order of use) and
  returns its result with the registry it leaves.
\<close>

section \<open>Registration\<close>

text \<open>The columns a repeated registration must find unchanged.\<close>

definition immutable_part :: "intent_row \<Rightarrow> intent_row" where
  "immutable_part r = r\<lparr>in_registered_at := 0, in_ref_object_id := None, in_finalized_at := None,
     in_state := Registered\<rparr>"

definition row_of_bundle :: "verified_bundle \<Rightarrow> string \<Rightarrow> string \<Rightarrow> stamp \<Rightarrow> intent_row" where
  "row_of_bundle v grant_digest spiffe timestamp =
     (let sj = bd_subject (vb_payload v); gr = bd_grant (vb_payload v) in
      \<lparr>in_request_id = vb_request_id v, in_bundle_digest = vb_bundle_digest v,
       in_subject_digest = vb_subject_digest v, in_grant_digest = grant_digest,
       in_repository_id = sj_repositoryId sj, in_repository = sj_repository sj,
       in_environment = sj_environment sj, in_head_sha = sj_headSha sj,
       in_intent_ref = sj_intentRef sj, in_session_digest = vb_session_digest v,
       in_artifact_set_digest = sj_artifactSetSha256 sj,
       in_rollback_plan_digest = sj_rollbackPlanSha256 sj,
       in_post_deploy_verifier_digest = sj_postDeployVerifierSha256 sj,
       in_expires_at = utc_seconds (vb_expires_at v), in_registration_principal = spiffe,
       in_triggering_actor_id = Some (gr_triggeringActorId gr), in_registered_at = timestamp,
       in_ref_object_id = None, in_finalized_at = None, in_state = Registered\<rparr>)"

definition register_stage :: "verified_bundle \<Rightarrow> workflow_stage \<Rightarrow> registry \<Rightarrow> registry result" where
  "register_stage v ws s =
     (let sj = bd_subject (vb_payload v); gr = bd_grant (vb_payload v) in
      bindE (fld_as str_of (gr_stageNonceSha256 gr) (ws_stage ws)) (\<lambda>nonce.
      insert_stage
        \<lparr>st_request_id = vb_request_id v, st_repository_id = sj_repositoryId sj,
         st_environment = sj_environment sj, st_stage = ws_stage ws, st_stage_order = ws_order ws,
         st_nonce_digest = nonce, st_workflow_path = Some (ws_workflowPath ws),
         st_workflow_blob_digest = ws_workflowBlobSha256 ws, st_state = Available,
         st_run_id = None, st_run_attempt = None, st_app_rule_id = None,
         st_reservation_id = None, st_reservation_expires_at = None\<rparr> s))"

definition register_txn :: "host \<Rightarrow> (nat \<Rightarrow> string) \<Rightarrow> verified_bundle \<Rightarrow> intent_row \<Rightarrow> registry
    \<Rightarrow> (bool \<times> registry) result" where
  "register_txn H uid v row s = (case intent_of s (vb_request_id v) of
     Some existing \<Rightarrow>
       if immutable_part existing \<noteq> immutable_part row then reject ''INTENT_REGISTRATION_COLLISION''
       else Inr (False, s)
   | None \<Rightarrow>
       bindE (insert_intent row s) (\<lambda>s1.
       bindE (foldE (register_stage v) (bd_workflowStages (vb_payload v)) s1) (\<lambda>s2.
       bindE (append_event H (uid 0) (vb_request_id v) None None ''Registered''
                ''SIGNED_INTENT_REGISTERED'' (in_registered_at row) s2) (\<lambda>s3.
       Inr (True, s3)))))"

definition register :: "host \<Rightarrow> (nat \<Rightarrow> string) \<Rightarrow> json \<Rightarrow> verified_bundle \<Rightarrow> string \<Rightarrow> datetime
    \<Rightarrow> registry \<Rightarrow> bool result \<times> registry" where
  "register H uid envelope v spiffe now s =
     (let gr = bd_grant (vb_payload v) in
      if \<not> startswith spiffe ''spiffe://'' \<or> py_len spiffe > 200
      then (reject ''REGISTRATION_PRINCIPAL_INVALID'', s)
      else if gr_registrationPrincipal gr \<noteq> spiffe
      then (reject ''REGISTRATION_PRINCIPAL_MISMATCH'', s)
      else (case digest H envelope of
        Inl e \<Rightarrow> (Inl e, s)
      | Inr d \<Rightarrow>
        if d \<noteq> vb_bundle_digest v then (reject ''INTENT_BUNDLE_MISMATCH'', s)
        else (case put_json H envelope (vb_bundle_digest v) (r_cas s) of
          Inl e \<Rightarrow> (Inl e, s)
        | Inr c \<Rightarrow>
          (case digest H (gr_raw gr) of
            Inl e \<Rightarrow> (Inl e, s\<lparr>r_cas := c\<rparr>)
          | Inr grant_digest \<Rightarrow>
              transaction (register_txn H uid v (row_of_bundle v grant_digest spiffe (utc_seconds now)))
                (s\<lparr>r_cas := c\<rparr>)))))"

section \<open>Dispatch\<close>

definition prerequisite_satisfied :: "registry \<Rightarrow> string \<Rightarrow> string \<Rightarrow> bool" where
  "prerequisite_satisfied s rid stg =
     (if stg = ''apply'' then True
      else case stage_of s rid ''apply'' of
        None \<Rightarrow> False
      | Some apply \<Rightarrow>
          let target = map_option so_target_state (outcome_of s rid ''apply'') in
          if stg = ''browser-evidence'' then st_state apply = Succeeded \<and> target = Some Succeeded
          else st_state apply = CallbackUnknown \<or> (st_state apply = Failed \<and> target = Some Failed))"

definition correlation_body :: "int \<Rightarrow> intent_row \<Rightarrow> string \<Rightarrow> int \<Rightarrow> json" where
  "correlation_body installation_id intent workflow_path actor = JObj
     [(''domain'', JStr ''acik.cross-ai-dispatch-correlation.v1''),
      (''installationId'', JInt installation_id),
      (''repositoryId'', JInt (in_repository_id intent)),
      (''workflowPath'', JStr workflow_path),
      (''intentRef'', JStr (in_intent_ref intent)),
      (''headSha'', JStr (in_head_sha intent)),
      (''expectedActorId'', JInt actor)]"

definition new_dispatch :: "string \<Rightarrow> string \<Rightarrow> int \<Rightarrow> intent_row \<Rightarrow> string \<Rightarrow> string \<Rightarrow> int \<Rightarrow> string
    \<Rightarrow> stamp \<Rightarrow> dispatch_job" where
  "new_dispatch rid stg installation_id intent repository workflow_path actor correlation_key timestamp =
     \<lparr>dj_request_id = rid, dj_stage = stg, dj_installation_id = installation_id,
      dj_repository_id = Some (in_repository_id intent), dj_repository = repository,
      dj_workflow_path = workflow_path, dj_intent_ref = Some (in_intent_ref intent),
      dj_head_sha = Some (in_head_sha intent), dj_expected_actor_id = actor,
      dj_correlation_key = Some correlation_key, dj_state = DPending, dj_queued_at = timestamp,
      dj_claimed_at = None, dj_snapshot_at = None, dj_watermark = None, dj_resolved_at = None,
      dj_http_status = None, dj_reason_code = None, dj_run_id = None\<rparr>"

text \<open>The columns of a dispatch that a repeated queueing must find unchanged.\<close>

definition dispatch_target :: "dispatch_job \<Rightarrow> int \<times> int option \<times> string \<times> string \<times> string option
    \<times> string option \<times> int \<times> string option" where
  "dispatch_target d = (dj_installation_id d, dj_repository_id d, dj_repository d, dj_workflow_path d,
     dj_intent_ref d, dj_head_sha d, dj_expected_actor_id d, dj_correlation_key d)"

definition queue_txn :: "host \<Rightarrow> (nat \<Rightarrow> string) \<Rightarrow> string \<Rightarrow> string \<Rightarrow> int \<Rightarrow> string \<Rightarrow> datetime
    \<Rightarrow> registry \<Rightarrow> (dispatch_job \<times> registry) result" where
  "queue_txn H uid rid stg installation_id repository now s =
     (case intent_of s rid of None \<Rightarrow> reject ''INTENT_NOT_FINALIZED'' | Some intent \<Rightarrow>
      if in_state intent \<noteq> Finalized then reject ''INTENT_NOT_FINALIZED''
      else if in_repository intent \<noteq> repository then reject ''DISPATCH_TARGET_MISMATCH''
      else case in_triggering_actor_id intent of None \<Rightarrow> reject ''DISPATCH_ACTOR_UNAVAILABLE''
      | Some actor \<Rightarrow>
      if actor < 1 then reject ''DISPATCH_ACTOR_UNAVAILABLE''
      else if stamp_dt (in_expires_at intent) \<le> now then reject ''INTENT_EXPIRED''
      else case stage_of s rid stg of None \<Rightarrow> reject ''STAGE_NOT_FOUND''
      | Some stage_row \<Rightarrow>
      (case st_workflow_path stage_row of None \<Rightarrow> reject ''STAGE_WORKFLOW_UNAVAILABLE''
       | Some workflow_path \<Rightarrow>
      if workflow_path = '''' then reject ''STAGE_WORKFLOW_UNAVAILABLE''
      else bindE (digest H (correlation_body installation_id intent workflow_path actor))
        (\<lambda>correlation_key.
         let job = new_dispatch rid stg installation_id intent repository workflow_path actor
                     correlation_key (utc_seconds now) in
         case dispatch_of s rid stg of
           Some existing \<Rightarrow>
             if dispatch_target existing \<noteq> dispatch_target job
             then reject ''DISPATCH_REGISTRATION_COLLISION'' else Inr (existing, s)
         | None \<Rightarrow>
             if st_state stage_row \<noteq> Available then reject ''GRANT_REPLAY_OR_CONSUMED''
             else if \<not> prerequisite_satisfied s rid stg then reject ''PRIOR_STAGE_NOT_VERIFIED''
             else bindE (insert_dispatch job s) (\<lambda>s1.
               bindE (append_event H (uid 0) rid (Some stg) None (dispatch_name DPending)
                        ''SIGNED_STAGE_DISPATCH_QUEUED'' (utc_seconds now) s1) (\<lambda>s2.
               Inr (job, s2))))))"

definition queue_dispatch :: "host \<Rightarrow> (nat \<Rightarrow> string) \<Rightarrow> string \<Rightarrow> string \<Rightarrow> int \<Rightarrow> string \<Rightarrow> datetime
    \<Rightarrow> registry \<Rightarrow> dispatch_job result \<times> registry" where
  "queue_dispatch H uid rid stg installation_id repository now s =
     (if installation_id < 1 then (reject ''DISPATCH_TARGET_INVALID'', s)
      else transaction (queue_txn H uid rid stg installation_id repository now) s)"

definition get_dispatch :: "string \<Rightarrow> string \<Rightarrow> registry \<Rightarrow> dispatch_job result" where
  "get_dispatch rid stg s = expect (PolicyError ''DISPATCH_NOT_FOUND'') (dispatch_of s rid stg)"

definition claim_txn :: "host \<Rightarrow> (nat \<Rightarrow> string) \<Rightarrow> string \<Rightarrow> string \<Rightarrow> datetime \<Rightarrow> registry
    \<Rightarrow> (dispatch_job \<times> registry) result" where
  "claim_txn H uid rid stg now s =
     (case dispatch_of s rid stg of None \<Rightarrow> reject ''DISPATCH_NOT_FOUND'' | Some row \<Rightarrow>
      if dj_state row \<noteq> DPending then reject ''DISPATCH_ALREADY_CLAIMED''
      else let f = (\<lambda>d. d\<lparr>dj_state := DSending, dj_claimed_at := Some (utc_seconds now)\<rparr>) in
        bindE (update_dispatch rid stg f s) (\<lambda>s1.
        bindE (append_event H (uid 0) rid (Some stg) (Some (dispatch_name DPending))
                 (dispatch_name DSending) ''DISPATCH_DURABLY_CLAIMED'' (utc_seconds now) s1) (\<lambda>s2.
        Inr (f row, s2))))"

definition claim_dispatch :: "host \<Rightarrow> (nat \<Rightarrow> string) \<Rightarrow> string \<Rightarrow> string \<Rightarrow> datetime \<Rightarrow> registry
    \<Rightarrow> dispatch_job result \<times> registry" where
  "claim_dispatch H uid rid stg now s = transaction (claim_txn H uid rid stg now) s"

definition resolve_txn :: "host \<Rightarrow> (nat \<Rightarrow> string) \<Rightarrow> string \<Rightarrow> string \<Rightarrow> dispatch_state \<Rightarrow> string
    \<Rightarrow> int option \<Rightarrow> datetime \<Rightarrow> registry \<Rightarrow> (dispatch_job \<times> registry) result" where
  "resolve_txn H uid rid stg st reason_code http_status now s =
     (case dispatch_of s rid stg of None \<Rightarrow> reject ''DISPATCH_NOT_FOUND'' | Some row \<Rightarrow>
      if dj_state row \<noteq> DSending
      then (if dj_state row = st \<and> dj_reason_code row = Some reason_code \<and> dj_http_status row = http_status
            then Inr (row, s) else reject ''DISPATCH_STATE_INVALID'')
      else let f = (\<lambda>d. d\<lparr>dj_state := st, dj_resolved_at := Some (utc_seconds now),
                        dj_http_status := http_status, dj_reason_code := Some reason_code\<rparr>) in
        bindE (update_dispatch rid stg f s) (\<lambda>s1.
        bindE (append_event H (uid 0) rid (Some stg) (Some (dispatch_name DSending)) (dispatch_name st)
                 reason_code (utc_seconds now) s1) (\<lambda>s2.
        Inr (f row, s2))))"

definition resolve_dispatch :: "host \<Rightarrow> (nat \<Rightarrow> string) \<Rightarrow> string \<Rightarrow> string \<Rightarrow> dispatch_state \<Rightarrow> string
    \<Rightarrow> int option \<Rightarrow> datetime \<Rightarrow> registry \<Rightarrow> dispatch_job result \<times> registry" where
  "resolve_dispatch H uid rid stg st reason_code http_status now s =
     (if st \<notin> {DUncertain, DRejected} then (reject ''DISPATCH_STATE_INVALID'', s)
      else if reason_code = '''' \<or> py_len reason_code > 100 then (reject ''DISPATCH_REASON_INVALID'', s)
      else if (case http_status of None \<Rightarrow> False | Some c \<Rightarrow> \<not> (100 \<le> c \<and> c \<le> 599))
      then (reject ''DISPATCH_STATUS_INVALID'', s)
      else transaction (resolve_txn H uid rid stg st reason_code http_status now) s)"

definition watermark_txn :: "string \<Rightarrow> string \<Rightarrow> int \<Rightarrow> datetime \<Rightarrow> registry
    \<Rightarrow> (dispatch_job \<times> registry) result" where
  "watermark_txn rid stg watermark now s =
     (case dispatch_of s rid stg of None \<Rightarrow> reject ''DISPATCH_NOT_FOUND'' | Some row \<Rightarrow>
      if dj_state row \<noteq> DSending then reject ''DISPATCH_STATE_INVALID''
      else case dj_watermark row of
        Some existing \<Rightarrow>
          if existing \<noteq> watermark \<or> dj_snapshot_at row \<noteq> Some (utc_seconds now)
          then reject ''DISPATCH_WATERMARK_IMMUTABLE'' else Inr (row, s)
      | None \<Rightarrow>
          let f = (\<lambda>d. d\<lparr>dj_snapshot_at := Some (utc_seconds now), dj_watermark := Some watermark\<rparr>) in
          bindE (update_dispatch rid stg f s) (\<lambda>s1. Inr (f row, s1)))"

definition record_dispatch_watermark :: "string \<Rightarrow> string \<Rightarrow> int \<Rightarrow> datetime \<Rightarrow> registry
    \<Rightarrow> dispatch_job result \<times> registry" where
  "record_dispatch_watermark rid stg watermark now s =
     (if watermark < 0 then (reject ''DISPATCH_WATERMARK_INVALID'', s)
      else transaction (watermark_txn rid stg watermark now) s)"

definition posted_txn :: "string \<Rightarrow> string \<Rightarrow> string \<Rightarrow> int \<Rightarrow> datetime \<Rightarrow> registry
    \<Rightarrow> (dispatch_job \<times> registry) result" where
  "posted_txn rid stg reason_code http_status now s =
     (case dispatch_of s rid stg of None \<Rightarrow> reject ''DISPATCH_STATE_INVALID'' | Some row \<Rightarrow>
      if dj_state row = DAccepted then Inr (row, s)
      else if dj_state row \<noteq> DSending then reject ''DISPATCH_STATE_INVALID''
      else if dj_watermark row = None \<or> dj_snapshot_at row = None then reject ''DISPATCH_WATERMARK_MISSING''
      else if dj_http_status row \<noteq> None \<or> dj_reason_code row \<noteq> None
      then (if dj_http_status row = Some http_status \<and> dj_reason_code row = Some reason_code
            then Inr (row, s) else reject ''DISPATCH_RESULT_IMMUTABLE'')
      else let f = (\<lambda>d. d\<lparr>dj_http_status := Some http_status, dj_reason_code := Some reason_code,
                        dj_resolved_at := Some (utc_seconds now)\<rparr>) in
        bindE (update_dispatch rid stg f s) (\<lambda>s1. Inr (f row, s1)))"

definition mark_dispatch_posted :: "string \<Rightarrow> string \<Rightarrow> string \<Rightarrow> int \<Rightarrow> datetime \<Rightarrow> registry
    \<Rightarrow> dispatch_job result \<times> registry" where
  "mark_dispatch_posted rid stg reason_code http_status now s =
     (if reason_code = '''' \<or> py_len reason_code > 100 \<or> \<not> (100 \<le> http_status \<and> http_status \<le> 599)
      then (reject ''DISPATCH_RESULT_INVALID'', s)
      else transaction (posted_txn rid stg reason_code http_status now) s)"

definition reconcile_txn :: "host \<Rightarrow> (nat \<Rightarrow> string) \<Rightarrow> string \<Rightarrow> string \<Rightarrow> int \<Rightarrow> datetime \<Rightarrow> registry
    \<Rightarrow> (dispatch_job \<times> registry) result" where
  "reconcile_txn H uid rid stg run_id now s =
     (case dispatch_of s rid stg of None \<Rightarrow> reject ''DISPATCH_NOT_FOUND'' | Some row \<Rightarrow>
      if dj_state row = DAccepted \<and> dj_run_id row = Some run_id then Inr (row, s)
      else if dj_state row \<notin> {DSending, DUncertain} then reject ''DISPATCH_STATE_INVALID''
      else if dj_repository_id row = None \<or> dj_intent_ref row = None \<or> dj_head_sha row = None
           \<or> dj_correlation_key row = None \<or> dj_snapshot_at row = None
           \<or> (case dj_watermark row of None \<Rightarrow> True | Some w \<Rightarrow> run_id \<le> w)
      then reject ''DISPATCH_CORRELATION_INVALID''
      else let f = (\<lambda>d. d\<lparr>dj_state := DAccepted, dj_resolved_at := Some (utc_seconds now),
                        dj_reason_code := Some ''DISPATCH_RECONCILED_LIVE_RUN'', dj_run_id := Some run_id\<rparr>) in
        bindE (update_dispatch rid stg f s) (\<lambda>s1.
        bindE (append_event H (uid 0) rid (Some stg) (Some (dispatch_name (dj_state row)))
                 (dispatch_name DAccepted) ''DISPATCH_RECONCILED_LIVE_RUN'' (utc_seconds now) s1) (\<lambda>s2.
        Inr (f row, s2))))"

text \<open>Only this operation turns SQLite's integrity error into a policy rejection.\<close>

definition integrity_as :: "string \<Rightarrow> 'a result \<Rightarrow> 'a result" where
  "integrity_as code r = (case r of Inl IntegrityError \<Rightarrow> reject code | _ \<Rightarrow> r)"

definition reconcile_dispatch :: "host \<Rightarrow> (nat \<Rightarrow> string) \<Rightarrow> string \<Rightarrow> string \<Rightarrow> int \<Rightarrow> datetime \<Rightarrow> registry
    \<Rightarrow> dispatch_job result \<times> registry" where
  "reconcile_dispatch H uid rid stg run_id now s =
     (if run_id < 1 then (reject ''DISPATCH_RUN_INVALID'', s)
      else transaction (\<lambda>s. integrity_as ''DISPATCH_RUN_REUSED'' (reconcile_txn H uid rid stg run_id now s)) s)"

section \<open>Finalization and reads\<close>

definition finalize_txn :: "host \<Rightarrow> (nat \<Rightarrow> string) \<Rightarrow> string \<Rightarrow> string \<Rightarrow> string \<Rightarrow> datetime \<Rightarrow> registry
    \<Rightarrow> (bool \<times> registry) result" where
  "finalize_txn H uid rid ref_object_id resolved_head_sha now s =
     (case intent_of s rid of None \<Rightarrow> reject ''INTENT_NOT_FOUND'' | Some row \<Rightarrow>
      if resolved_head_sha \<noteq> in_head_sha row then reject ''INTENT_REF_MOVED''
      else if in_state row = Finalized
      then (if in_ref_object_id row \<noteq> Some ref_object_id then reject ''INTENT_REF_MOVED'' else Inr (False, s))
      else if in_state row \<noteq> Registered then reject ''INTENT_STATE_INVALID''
      else bindE (append_event H (uid 0) rid None (Some ''Registered'') ''Finalized''
                    ''IMMUTABLE_REF_VERIFIED'' (utc_seconds now)
                    (s\<lparr>r_intents := row_update (\<lambda>r. in_request_id r = rid \<and> in_state r = Registered)
                       (\<lambda>r. r\<lparr>in_ref_object_id := Some ref_object_id,
                              in_finalized_at := Some (utc_seconds now), in_state := Finalized\<rparr>)
                       (r_intents s)\<rparr>)) (\<lambda>s1. Inr (True, s1)))"

definition finalize_ref :: "host \<Rightarrow> (nat \<Rightarrow> string) \<Rightarrow> string \<Rightarrow> string \<Rightarrow> string \<Rightarrow> datetime \<Rightarrow> registry
    \<Rightarrow> bool result \<times> registry" where
  "finalize_ref H uid rid ref_object_id resolved_head_sha now s =
     (if py_len ref_object_id \<noteq> 40 \<or> \<not> all_lower_hex ref_object_id
      then (reject ''INTENT_REF_OBJECT_INVALID'', s)
      else transaction (finalize_txn H uid rid ref_object_id resolved_head_sha now) s)"

definition get_intent :: "host \<Rightarrow> string \<Rightarrow> registry \<Rightarrow> (intent_row \<times> json) result" where
  "get_intent H rid s =
     bindE (expect (PolicyError ''INTENT_NOT_FOUND'') (intent_of s rid)) (\<lambda>row.
     bindE (get_json H (in_bundle_digest row) (r_cas s)) (\<lambda>envelope. Inr (row, envelope)))"

definition get_finalized :: "host \<Rightarrow> string \<Rightarrow> registry \<Rightarrow> (intent_row \<times> json) result" where
  "get_finalized H rid s =
     bindE (get_intent H rid s) (\<lambda>(row, envelope).
     if in_state row \<noteq> Finalized then reject ''INTENT_NOT_FINALIZED'' else Inr (row, envelope))"

text \<open>The record a bound stage row denotes; \<open>None\<close> when a run column is NULL.\<close>

definition reservation_of :: "stage_row \<Rightarrow> stage_reservation option" where
  "reservation_of r = (case (st_run_id r, st_run_attempt r, st_app_rule_id r) of
     (Some run, Some attempt, Some rule) \<Rightarrow>
       Some \<lparr>sr_request_id = st_request_id r, sr_stage = st_stage r, sr_run_id = run,
             sr_run_attempt = attempt, sr_app_rule_id = rule,
             sr_reservation_id = st_reservation_id r,
             sr_reservation_expires_at = st_reservation_expires_at r,
             sr_state = st_state r, sr_idempotent = True\<rparr>
   | _ \<Rightarrow> None)"

definition get_stage :: "string \<Rightarrow> string \<Rightarrow> registry \<Rightarrow> stage_reservation result" where
  "get_stage rid stg s =
     (case stage_of s rid stg of None \<Rightarrow> reject ''STAGE_NOT_FOUND'' | Some r \<Rightarrow>
      if st_state r = Available \<or> st_reservation_id r = None \<or> st_reservation_expires_at r = None
      then reject ''STAGE_NOT_RESERVED''
      else expect (PolicyError ''STAGE_NOT_RESERVED'') (reservation_of r))"

definition get_stage_outcome :: "host \<Rightarrow> string \<Rightarrow> string \<Rightarrow> registry \<Rightarrow> (string \<times> json) result" where
  "get_stage_outcome H rid stg s =
     bindE (expect (PolicyError ''STAGE_OUTCOME_NOT_FOUND'') (outcome_of s rid stg)) (\<lambda>row.
     bindE (get_json H (so_outcome_digest row) (r_cas s)) (\<lambda>v. Inr (so_outcome_digest row, v)))"

definition stage_approved_at :: "string \<Rightarrow> string \<Rightarrow> registry \<Rightarrow> string result" where
  "stage_approved_at rid stg s =
     (case filter (\<lambda>e. ev_request_id e = rid \<and> ev_stage e = Some stg
                     \<and> ev_to_state e = ''ApprovedPendingOutcome''
                     \<and> ev_reason_code e \<noteq> ''RUNNER_BOOTSTRAP_CONSUMED'') (rev (r_events s)) of
        [] \<Rightarrow> reject ''BOOTSTRAP_STAGE_NOT_APPROVED''
      | e # _ \<Rightarrow> Inr (ev_recorded_at e))"

section \<open>Single-use runner bootstrap\<close>

definition bootstrap_txn :: "host \<Rightarrow> (nat \<Rightarrow> string) \<Rightarrow> string \<Rightarrow> string \<Rightarrow> int \<Rightarrow> int \<Rightarrow> int \<Rightarrow> string
    \<Rightarrow> datetime \<Rightarrow> registry \<Rightarrow> (bootstrap_row \<times> registry) result" where
  "bootstrap_txn H uid rid stg run_id run_attempt runner_id response_digest now s =
     (case stage_of s rid stg of None \<Rightarrow> reject ''STAGE_NOT_FOUND'' | Some row \<Rightarrow>
      if st_state row \<noteq> ApprovedPendingOutcome \<or> st_run_id row \<noteq> Some run_id
         \<or> st_run_attempt row \<noteq> Some run_attempt
      then reject ''BOOTSTRAP_STAGE_NOT_APPROVED''
      else if bootstrap_of s rid stg \<noteq> None then reject ''BOOTSTRAP_ALREADY_CONSUMED''
      else let c = \<lparr>bc_request_id = rid, bc_stage = stg, bc_run_id = run_id, bc_run_attempt = run_attempt,
                    bc_runner_id = runner_id, bc_response_digest = response_digest,
                    bc_consumed_at = utc_seconds now\<rparr> in
        bindE (insert_bootstrap c s) (\<lambda>s1.
        bindE (append_event H (uid 0) rid (Some stg) (Some (stage_name ApprovedPendingOutcome))
                 (stage_name ApprovedPendingOutcome) ''RUNNER_BOOTSTRAP_CONSUMED'' (utc_seconds now) s1)
          (\<lambda>s2. Inr (c, s2))))"

definition consume_bootstrap :: "host \<Rightarrow> (nat \<Rightarrow> string) \<Rightarrow> string \<Rightarrow> string \<Rightarrow> int \<Rightarrow> int \<Rightarrow> int \<Rightarrow> string
    \<Rightarrow> datetime \<Rightarrow> registry \<Rightarrow> bootstrap_row result \<times> registry" where
  "consume_bootstrap H uid rid stg run_id run_attempt runner_id response_digest now s =
     (if min run_id (min run_attempt runner_id) < 1 then (reject ''BOOTSTRAP_BINDING_INVALID'', s)
      else case cas_hex response_digest of
        Inl e \<Rightarrow> (Inl e, s)
      | Inr _ \<Rightarrow>
          transaction (bootstrap_txn H uid rid stg run_id run_attempt runner_id response_digest now) s)"

section \<open>Stage queries and expiry\<close>

text \<open>
  \<^verbatim>\<open>ORDER BY request_id, stage_order\<close>: two stable sorts, the minor key first. SQLite compares
  text by bytes, which is the order of \<open>string\<close>.
\<close>

definition by_request :: "stage_row list \<Rightarrow> stage_row list" where
  "by_request rows = sort_key st_request_id (sort_key st_stage_order rows)"

definition pending_row :: "registry \<Rightarrow> stage_row \<Rightarrow> bool" where
  "pending_row s r =
     ((case intent_of s (st_request_id r) of None \<Rightarrow> False | Some i \<Rightarrow> in_state i = Finalized)
      \<and> st_state r \<in> {Reserved, ApprovedPendingOutcome, OutcomeOverdue, CallbackUnknown}
      \<and> st_run_id r \<noteq> None)"

definition pending_stages :: "int \<Rightarrow> registry \<Rightarrow> stage_row list result" where
  "pending_stages limit s =
     (if \<not> (1 \<le> limit \<and> limit \<le> 1000) then reject ''STAGE_QUERY_INVALID''
      else Inr (take (nat limit) (by_request (filter (pending_row s) (r_stages s)))))"

definition overdue :: "stamp \<Rightarrow> stage_row \<Rightarrow> bool" where
  "overdue timestamp r =
     (st_state r \<in> {Reserved, ApprovedPendingOutcome}
      \<and> (case st_reservation_expires_at r of None \<Rightarrow> False | Some e \<Rightarrow> e \<le> timestamp))"

text \<open>One iteration of the loop over the selected rows; \<open>snd ir\<close> is the selected row.\<close>

definition expire_one :: "host \<Rightarrow> (nat \<Rightarrow> string) \<Rightarrow> stamp \<Rightarrow> nat \<times> stage_row \<Rightarrow> registry
    \<Rightarrow> registry result" where
  "expire_one H uid timestamp ir s =
     (case ir of (i, row) \<Rightarrow>
      append_event H (uid i) (st_request_id row) (Some (st_stage row)) (Some (stage_name (st_state row)))
        (stage_name OutcomeOverdue) ''OUTCOME_RECONCILIATION_DEADLINE_EXCEEDED'' timestamp
        (s\<lparr>r_stages := row_update (\<lambda>r. st_key r = st_key row \<and> st_state r = st_state row)
             (\<lambda>r. r\<lparr>st_state := OutcomeOverdue\<rparr>) (r_stages s)\<rparr>))"

definition expire_txn :: "host \<Rightarrow> (nat \<Rightarrow> string) \<Rightarrow> stamp \<Rightarrow> registry \<Rightarrow> (nat \<times> registry) result" where
  "expire_txn H uid timestamp s =
     (let rows = by_request (filter (overdue timestamp) (r_stages s)) in
      bindE (foldE (expire_one H uid timestamp) (zip [0..<length rows] rows) s)
        (\<lambda>s1. Inr (length rows, s1)))"

definition expire_pending_stages :: "host \<Rightarrow> (nat \<Rightarrow> string) \<Rightarrow> datetime \<Rightarrow> registry
    \<Rightarrow> nat result \<times> registry" where
  "expire_pending_stages H uid now s = transaction (expire_txn H uid (utc_seconds now)) s"

section \<open>Reservation and stage transitions\<close>

definition reservation_deadline :: "string \<Rightarrow> stamp \<Rightarrow> datetime \<Rightarrow> datetime" where
  "reservation_deadline stg expires_at current =
     min (current + MAX_STAGE_OUTCOME_WAIT)
         (stamp_dt expires_at - (if stg = ''apply'' then ROLLBACK_DISPATCH_HEADROOM else 0))"

text \<open>The reservation update fails when the run, attempt and rule are already bound.\<close>

definition update_reserve :: "string \<Rightarrow> string \<Rightarrow> int \<Rightarrow> int \<Rightarrow> int \<Rightarrow> string \<Rightarrow> stamp \<Rightarrow> registry
    \<Rightarrow> registry result" where
  "update_reserve rid stg run_id run_attempt app_rule_id reservation_id reservation_expires s =
     (let rows = row_update (\<lambda>r. st_key r = (rid, stg) \<and> st_state r = Available)
         (\<lambda>r. r\<lparr>st_state := Reserved, st_run_id := Some run_id, st_run_attempt := Some run_attempt,
                st_app_rule_id := Some app_rule_id, st_reservation_id := Some reservation_id,
                st_reservation_expires_at := Some reservation_expires\<rparr>) (r_stages s)
      in if stage_indexes_ok rows then Inr (s\<lparr>r_stages := rows\<rparr>) else Inl IntegrityError)"

definition reserve_txn :: "host \<Rightarrow> (nat \<Rightarrow> string) \<Rightarrow> string \<Rightarrow> string \<Rightarrow> int \<Rightarrow> int \<Rightarrow> int \<Rightarrow> datetime
    \<Rightarrow> registry \<Rightarrow> (stage_reservation \<times> registry) result" where
  "reserve_txn H uid rid stg run_id run_attempt app_rule_id current s =
     (case intent_of s rid of None \<Rightarrow> reject ''INTENT_NOT_FINALIZED'' | Some intent \<Rightarrow>
      if in_state intent \<noteq> Finalized then reject ''INTENT_NOT_FINALIZED''
      else if stamp_dt (in_expires_at intent) \<le> current then reject ''INTENT_EXPIRED''
      else case stage_of s rid stg of None \<Rightarrow> reject ''STAGE_NOT_FOUND'' | Some row \<Rightarrow>
      let answer = (\<lambda>reservation_id reservation_expires st idempotent.
            \<lparr>sr_request_id = rid, sr_stage = stg, sr_run_id = run_id, sr_run_attempt = run_attempt,
             sr_app_rule_id = app_rule_id, sr_reservation_id = reservation_id,
             sr_reservation_expires_at = reservation_expires, sr_state = st, sr_idempotent = idempotent\<rparr>)
      in if st_state row \<noteq> Available
      then (if \<not> (st_run_id row = Some run_id \<and> st_run_attempt row = Some run_attempt
                  \<and> st_app_rule_id row = Some app_rule_id)
            then reject ''GRANT_REPLAY_OR_CONSUMED''
            else Inr (answer (st_reservation_id row) (st_reservation_expires_at row) (st_state row) True, s))
      else if \<not> prerequisite_satisfied s rid stg then reject ''PRIOR_STAGE_NOT_VERIFIED''
      else let deadline = reservation_deadline stg (in_expires_at intent) current in
        if deadline \<le> current then reject ''GRANT_ROLLBACK_HEADROOM_INVALID''
        else bindE (integrity_as ''GRANT_REPLAY_OR_CONSUMED''
                 (update_reserve rid stg run_id run_attempt app_rule_id (uid 0) (utc_seconds deadline) s))
          (\<lambda>s1.
          bindE (append_event H (uid 1) rid (Some stg) (Some (stage_name Available)) (stage_name Reserved)
                   ''STAGE_GRANT_RESERVED'' (utc_seconds current) s1) (\<lambda>s2.
          Inr (answer (Some (uid 0)) (Some (utc_seconds deadline)) Reserved False, s2))))"

definition reserve_stage :: "host \<Rightarrow> (nat \<Rightarrow> string) \<Rightarrow> string \<Rightarrow> string \<Rightarrow> int \<Rightarrow> int \<Rightarrow> int \<Rightarrow> datetime
    \<Rightarrow> registry \<Rightarrow> stage_reservation result \<times> registry" where
  "reserve_stage H uid rid stg run_id run_attempt app_rule_id current s =
     (if min run_id (min run_attempt app_rule_id) < 1 then (reject ''STAGE_RESERVATION_INVALID'', s)
      else transaction (reserve_txn H uid rid stg run_id run_attempt app_rule_id current) s)"

definition transition_txn :: "host \<Rightarrow> (nat \<Rightarrow> string) \<Rightarrow> string \<Rightarrow> string \<Rightarrow> stage_state \<Rightarrow> string
    \<Rightarrow> datetime \<Rightarrow> registry \<Rightarrow> (unit \<times> registry) result" where
  "transition_txn H uid rid stg to_state reason_code now s =
     (case stage_of s rid stg of None \<Rightarrow> reject ''STAGE_NOT_FOUND'' | Some row \<Rightarrow>
      if to_state = st_state row then Inr ((), s)
      else if to_state \<notin> set (ALLOWED_STAGE_TRANSITIONS (st_state row))
      then reject ''STAGE_TRANSITION_INVALID''
      else bindE (append_event H (uid 0) rid (Some stg) (Some (stage_name (st_state row)))
                    (stage_name to_state) reason_code (utc_seconds now)
                    (set_stage_state rid stg to_state s)) (\<lambda>s1. Inr ((), s1)))"

definition transition_stage :: "host \<Rightarrow> (nat \<Rightarrow> string) \<Rightarrow> string \<Rightarrow> string \<Rightarrow> stage_state \<Rightarrow> string
    \<Rightarrow> datetime \<Rightarrow> registry \<Rightarrow> unit result \<times> registry" where
  "transition_stage H uid rid stg to_state reason_code now s =
     (if to_state \<notin> set FINAL_STAGE_STATES \<union> {ApprovedPendingOutcome, OutcomeOverdue}
      then (reject ''STAGE_STATE_INVALID'', s)
      else if to_state \<in> {Succeeded, Failed, RolledBack} then (reject ''STAGE_OUTCOME_REQUIRED'', s)
      else transaction (transition_txn H uid rid stg to_state reason_code now) s)"

section \<open>Stage outcomes\<close>

definition allowed_targets :: "string \<Rightarrow> stage_state list" where
  "allowed_targets stg =
     (if stg = ''apply'' \<or> stg = ''browser-evidence'' then [Succeeded, Failed]
      else if stg = ''compensating-rollback'' then [RolledBack, Failed] else [])"

definition conclusion_target :: "json \<Rightarrow> stage_state option" where
  "conclusion_target conclusion =
     (if eq_str conclusion ''success'' then Some Succeeded
      else if eq_str conclusion ''failure'' then Some Failed
      else if eq_str conclusion ''rolled-back'' then Some RolledBack else None)"

definition source_artifact_name :: "string \<Rightarrow> string \<Rightarrow> int \<Rightarrow> int \<Rightarrow> string" where
  "source_artifact_name rid stg run_id run_attempt =
     ''cross-ai-stage-outcome-'' @ rid @ ''-'' @ stg @ ''-'' @ int_dec run_id @ ''-'' @ int_dec run_attempt"

definition outcome_identity_ok :: "(string \<times> json) list \<Rightarrow> string \<Rightarrow> string \<Rightarrow> int \<Rightarrow> int
    \<Rightarrow> stage_state \<Rightarrow> bool" where
  "outcome_identity_ok outcome rid stg run_id run_attempt target_state =
     (eq_str (jget outcome ''schemaVersion'') ''acik.cross-ai-deployment-stage-outcome.v1''
      \<and> eq_str (jget outcome ''requestId'') rid
      \<and> eq_str (jget outcome ''stage'') stg
      \<and> eq_int (jget outcome ''runId'') run_id
      \<and> eq_int (jget outcome ''runAttempt'') run_attempt
      \<and> eq_str (jget outcome ''sourceArtifactName'') (source_artifact_name rid stg run_id run_attempt)
      \<and> conclusion_target (jget outcome ''conclusion'') = Some target_state)"

text \<open>
  The durable projection. The joined row names \<^verbatim>\<open>repository_id\<close> and \<^verbatim>\<open>environment\<close> twice;
  \<^verbatim>\<open>sqlite3.Row\<close> answers with the first, the stage's column.
\<close>

definition durable_binding_ok :: "(string \<times> json) list \<Rightarrow> stage_row \<Rightarrow> intent_row \<Rightarrow> bool" where
  "durable_binding_ok outcome row intent =
     (eq_int (jget outcome ''repositoryId'') (st_repository_id row)
      \<and> eq_str (jget outcome ''repository'') (in_repository intent)
      \<and> eq_str (jget outcome ''environment'') (st_environment row)
      \<and> eq_str (jget outcome ''headSha'') (in_head_sha intent)
      \<and> eq_str (jget outcome ''intentRef'') (in_intent_ref intent)
      \<and> eq_str (jget outcome ''sessionSha256'') (in_session_digest intent)
      \<and> eq_str (jget outcome ''workflowBlobSha256'') (st_workflow_blob_digest row)
      \<and> eq_str (jget outcome ''artifactSetSha256'') (in_artifact_set_digest intent)
      \<and> eq_str (jget outcome ''rollbackPlanSha256'') (in_rollback_plan_digest intent)
      \<and> eq_str (jget outcome ''postDeployVerifierSha256'') (in_post_deploy_verifier_digest intent))"

text \<open>The run must have started inside the reservation when no approval was recorded.\<close>

definition run_started_ok :: "host \<Rightarrow> (string \<times> json) list \<Rightarrow> stage_row \<Rightarrow> unit result" where
  "run_started_ok H outcome row =
     (case st_reservation_expires_at row of None \<Rightarrow> reject ''STAGE_RESERVATION_EXPIRED''
      | Some reservation_end \<Rightarrow>
        (case jget outcome ''runStartedAt'' of
           JStr started \<Rightarrow> bindE (parse_utc H (JStr started)) (\<lambda>run_started.
             if run_started > stamp_dt reservation_end then reject ''STAGE_RESERVATION_EXPIRED''
             else Inr ())
         | _ \<Rightarrow> reject ''STAGE_OUTCOME_BINDING_MISMATCH''))"

text \<open>
  The checks inside the transaction: \<open>Inr None\<close> is the repetition of a recorded outcome,
  \<open>Inr (Some row)\<close> the stage row that awaits this one.
\<close>

definition outcome_checks :: "host \<Rightarrow> string \<Rightarrow> string \<Rightarrow> int \<Rightarrow> int \<Rightarrow> (string \<times> json) list \<Rightarrow> string
    \<Rightarrow> string \<Rightarrow> stage_state \<Rightarrow> datetime \<Rightarrow> registry \<Rightarrow> stage_row option result" where
  "outcome_checks H rid stg run_id run_attempt outcome outcome_digest archive target_state current s =
     (case (stage_of s rid stg, intent_of s rid) of
        (Some row, Some intent) \<Rightarrow>
          if st_run_id row \<noteq> Some run_id \<or> st_run_attempt row \<noteq> Some run_attempt
          then reject ''STAGE_OUTCOME_BINDING_MISMATCH''
          else if \<not> durable_binding_ok outcome row intent then reject ''STAGE_OUTCOME_BINDING_MISMATCH''
          else if current > stamp_dt (in_expires_at intent) then reject ''STAGE_OUTCOME_EXPIRED''
          else (case outcome_of s rid stg of
            Some existing \<Rightarrow>
              if so_outcome_digest existing \<noteq> outcome_digest
                 \<or> so_source_archive_sha256 existing \<noteq> archive \<or> so_target_state existing \<noteq> target_state
              then reject ''STAGE_OUTCOME_CONFLICT'' else Inr None
          | None \<Rightarrow>
              if st_state row \<notin> {Reserved, CallbackUnknown, ApprovedPendingOutcome}
              then reject ''STAGE_OUTCOME_STATE_INVALID''
              else if stg = ''apply'' \<and> target_state = Succeeded
                \<and> map_option st_state (stage_of s rid ''compensating-rollback'') \<noteq> Some Available
              then reject ''STAGE_ROLLBACK_IN_PROGRESS''
              else if st_state row \<in> {Reserved, CallbackUnknown}
              then bindE (run_started_ok H outcome row) (\<lambda>_. Inr (Some row))
              else Inr (Some row))
      | _ \<Rightarrow> reject ''STAGE_NOT_FOUND'')"

definition outcome_writes :: "host \<Rightarrow> (nat \<Rightarrow> string) \<Rightarrow> stage_row \<Rightarrow> outcome_row \<Rightarrow> registry
    \<Rightarrow> (bool \<times> registry) result" where
  "outcome_writes H uid row new s =
     (let rid = so_request_id new; stg = so_stage new; timestamp = so_recorded_at new in
      bindE (if st_state row \<in> {Reserved, CallbackUnknown}
             then append_event H (uid 0) rid (Some stg) (Some (stage_name (st_state row)))
                    (stage_name ApprovedPendingOutcome) ''RUN_PROGRESSION_PROVED_CALLBACK_ACCEPTANCE''
                    timestamp (set_stage_state rid stg ApprovedPendingOutcome s)
             else Inr s) (\<lambda>s1.
      bindE (insert_outcome new s1) (\<lambda>s2.
      bindE (append_event H (uid 1) rid (Some stg) (Some (stage_name ApprovedPendingOutcome))
               (stage_name (so_target_state new)) ''STAGE_OUTCOME_VERIFIED'' timestamp
               (set_stage_state rid stg (so_target_state new) s2)) (\<lambda>s3.
      Inr (True, s3)))))"

text \<open>
  The object is written to the content store in the middle of the transaction; a rollback
  does not take it back.
\<close>

definition record_stage_outcome :: "host \<Rightarrow> (nat \<Rightarrow> string) \<Rightarrow> string \<Rightarrow> string \<Rightarrow> int \<Rightarrow> int
    \<Rightarrow> (string \<times> json) list \<Rightarrow> string \<Rightarrow> stage_state \<Rightarrow> datetime \<Rightarrow> registry \<Rightarrow> bool result \<times> registry" where
  "record_stage_outcome H uid rid stg run_id run_attempt outcome outcome_digest target_state current s =
     (if target_state \<notin> set (allowed_targets stg) then (reject ''STAGE_OUTCOME_STATE_INVALID'', s)
      else if \<not> outcome_identity_ok outcome rid stg run_id run_attempt target_state
      then (reject ''STAGE_OUTCOME_BINDING_MISMATCH'', s)
      else (case jget outcome ''sourceArchiveSha256'' of
        JStr archive \<Rightarrow>
         (case cas_hex archive of Inl e \<Rightarrow> (Inl e, s) | Inr _ \<Rightarrow>
         (case outcome_checks H rid stg run_id run_attempt outcome outcome_digest archive target_state
                 current s of
            Inl e \<Rightarrow> (Inl e, s)
          | Inr None \<Rightarrow> (Inr False, s)
          | Inr (Some row) \<Rightarrow>
            (case put_json H (JObj outcome) outcome_digest (r_cas s) of
               Inl e \<Rightarrow> (Inl e, s)
             | Inr c \<Rightarrow>
               transaction (outcome_writes H uid row
                 \<lparr>so_request_id = rid, so_stage = stg, so_run_id = run_id, so_run_attempt = run_attempt,
                  so_outcome_digest = outcome_digest, so_source_archive_sha256 = archive,
                  so_target_state = target_state, so_recorded_at = utc_seconds current\<rparr>)
                 (s\<lparr>r_cas := c\<rparr>))))
      | _ \<Rightarrow> (reject ''STAGE_OUTCOME_BINDING_MISMATCH'', s)))"

definition event_count :: "registry \<Rightarrow> nat" where
  "event_count s = length (r_events s)"

end
