(* ===== verification/IntentSteps.thy ===== *)
theory IntentSteps
  imports IntentOps "HOL-Library.Multiset"
begin

text \<open>
  The registry as a state machine. \<open>reg_op\<close> is the concrete step relation: some client runs
  one operation of \<^verbatim>\<open>IntentRegistry\<close> with arbitrary arguments, whether it succeeds or
  fails. \<open>reg_change\<close> is the abstract one: the few atomic row changes an operation may make,
  with the facts that justify them. The refinement theorem says that every operation is a
  sequence of such changes, so that invariants are proved against the abstract machine.
\<close>

section \<open>Concrete steps\<close>

inductive reg_op :: "host \<Rightarrow> registry \<Rightarrow> registry \<Rightarrow> bool" for H where
  register_op: "register H uid envelope v spiffe now s = (r, s') \<Longrightarrow> reg_op H s s'"
| queue_op: "queue_dispatch H uid rid stg installation_id repository now s = (d, s') \<Longrightarrow> reg_op H s s'"
| claim_op: "claim_dispatch H uid rid stg now s = (d, s') \<Longrightarrow> reg_op H s s'"
| resolve_op: "resolve_dispatch H uid rid stg st reason_code http_status now s = (d, s') \<Longrightarrow> reg_op H s s'"
| watermark_op: "record_dispatch_watermark rid stg watermark now s = (d, s') \<Longrightarrow> reg_op H s s'"
| posted_op: "mark_dispatch_posted rid stg reason_code status now s = (d, s') \<Longrightarrow> reg_op H s s'"
| reconcile_op: "reconcile_dispatch H uid rid stg run_id now s = (d, s') \<Longrightarrow> reg_op H s s'"
| finalize_op: "finalize_ref H uid rid ref_object_id resolved_head_sha now s = (b, s') \<Longrightarrow> reg_op H s s'"
| bootstrap_op: "consume_bootstrap H uid rid stg run_id run_attempt runner_id response_digest now s
    = (c, s') \<Longrightarrow> reg_op H s s'"
| expire_op: "expire_pending_stages H uid now s = (n, s') \<Longrightarrow> reg_op H s s'"
| reserve_op: "reserve_stage H uid rid stg run_id run_attempt app_rule_id now s = (v2, s')
    \<Longrightarrow> reg_op H s s'"
| transition_op: "transition_stage H uid rid stg to_state reason_code now s = (u, s') \<Longrightarrow> reg_op H s s'"
| outcome_op: "record_stage_outcome H uid rid stg run_id run_attempt outcome outcome_digest
    target_state now s = (b, s') \<Longrightarrow> reg_op H s s'"

section \<open>Abstract changes\<close>

text \<open>A stage row as registration creates it.\<close>

definition fresh_stage :: "stage_row \<Rightarrow> bool" where
  "fresh_stage r = (st_state r = Available \<and> st_run_id r = None \<and> st_run_attempt r = None
     \<and> st_app_rule_id r = None \<and> st_reservation_id r = None \<and> st_reservation_expires_at r = None)"

definition fresh_dispatch :: "dispatch_job \<Rightarrow> bool" where
  "fresh_dispatch d = (dj_state d = DPending \<and> dj_run_id d = None \<and> dj_watermark d = None
     \<and> dj_claimed_at d = None \<and> dj_snapshot_at d = None \<and> dj_http_status d = None
     \<and> dj_reason_code d = None)"

definition reserve_row :: "int \<Rightarrow> int \<Rightarrow> int \<Rightarrow> string \<Rightarrow> stamp \<Rightarrow> stage_row \<Rightarrow> stage_row" where
  "reserve_row run_id run_attempt app_rule_id reservation_id deadline r =
     r\<lparr>st_state := Reserved, st_run_id := Some run_id, st_run_attempt := Some run_attempt,
       st_app_rule_id := Some app_rule_id, st_reservation_id := Some reservation_id,
       st_reservation_expires_at := Some deadline\<rparr>"

definition finalize_row :: "string \<Rightarrow> stamp \<Rightarrow> intent_row \<Rightarrow> intent_row" where
  "finalize_row ref_object_id t r = r\<lparr>in_ref_object_id := Some ref_object_id,
     in_finalized_at := Some t, in_state := Finalized\<rparr>"

abbreviation set_stage :: "string \<Rightarrow> string \<Rightarrow> (stage_row \<Rightarrow> stage_row) \<Rightarrow> registry \<Rightarrow> registry" where
  "set_stage rid stg f s \<equiv> s\<lparr>r_stages := row_update (\<lambda>r. st_key r = (rid, stg)) f (r_stages s)\<rparr>"

abbreviation set_intent :: "string \<Rightarrow> (intent_row \<Rightarrow> intent_row) \<Rightarrow> registry \<Rightarrow> registry" where
  "set_intent rid f s \<equiv> s\<lparr>r_intents := row_update (\<lambda>r. in_request_id r = rid) f (r_intents s)\<rparr>"

text \<open>How a dispatch row may move: the live run is known only for an accepted dispatch.\<close>

definition dispatch_move :: "dispatch_job \<Rightarrow> dispatch_job \<Rightarrow> bool" where
  "dispatch_move d d' =
     (case dj_state d' of
        DSending \<Rightarrow> dj_state d = DPending \<and> dj_run_id d' = dj_run_id d \<and> dj_watermark d' = dj_watermark d
      | DUncertain \<Rightarrow> dj_state d = DSending \<and> dj_run_id d' = dj_run_id d \<and> dj_watermark d' = dj_watermark d
      | DRejected \<Rightarrow> dj_state d = DSending \<and> dj_run_id d' = dj_run_id d \<and> dj_watermark d' = dj_watermark d
      | DAccepted \<Rightarrow> dj_state d \<in> {DSending, DUncertain} \<and> dj_watermark d' = dj_watermark d
          \<and> (\<exists>run w. dj_run_id d' = Some run \<and> dj_watermark d = Some w \<and> w < run \<and> 1 \<le> run)
      | DPending \<Rightarrow> False)"

text \<open>A change that records an observation about a dispatch being sent.\<close>

definition dispatch_note :: "dispatch_job \<Rightarrow> dispatch_job \<Rightarrow> bool" where
  "dispatch_note d d' =
     (dj_state d = DSending \<and> dj_state d' = DSending \<and> dj_run_id d' = dj_run_id d
      \<and> (dj_watermark d = None \<or> dj_watermark d' = dj_watermark d))"

definition keeps_target :: "(dispatch_job \<Rightarrow> dispatch_job) \<Rightarrow> bool" where
  "keeps_target f = (\<forall>d. dj_key (f d) = dj_key d \<and> dispatch_target (f d) = dispatch_target d)"

text \<open>The content store holds the object a digest names.\<close>

definition stored_digest :: "cas \<Rightarrow> string \<Rightarrow> bool" where
  "stored_digest c d = (case cas_hex d of Inl _ \<Rightarrow> False | Inr hex \<Rightarrow> map_of c hex \<noteq> None)"

inductive reg_change :: "host \<Rightarrow> registry \<Rightarrow> registry \<Rightarrow> bool" for H where
  stored: "put_json H v d (r_cas s) = Inr c \<Longrightarrow> reg_change H s (s\<lparr>r_cas := c\<rparr>)"
| registered: "\<lbrakk>insert_intent row s = Inr s1; in_state row = Registered; in_ref_object_id row = None;
    in_finalized_at row = None; stored_digest (r_cas s) (in_bundle_digest row);
    foldE insert_stage rows s1 = Inr s2;
    \<forall>r \<in> set rows. fresh_stage r \<and> st_request_id r = in_request_id row;
    append_event H u (in_request_id row) None None ''Registered'' reason t s2 = Inr s'\<rbrakk>
    \<Longrightarrow> reg_change H s s'"
| queued: "\<lbrakk>intent_of s rid = Some i; in_state i = Finalized; stage_of s rid stg = Some r;
    st_state r = Available; prerequisite_satisfied s rid stg; fresh_dispatch d; dj_key d = (rid, stg);
    insert_dispatch d s = Inr s1;
    append_event H u rid (Some stg) None (dispatch_name DPending) reason t s1 = Inr s'\<rbrakk>
    \<Longrightarrow> reg_change H s s'"
| moved: "\<lbrakk>dispatch_of s rid stg = Some d; keeps_target f; dispatch_move d (f d);
    update_dispatch rid stg f s = Inr s1;
    append_event H u rid (Some stg) (Some (dispatch_name (dj_state d))) (dispatch_name (dj_state (f d)))
      reason t s1 = Inr s'\<rbrakk> \<Longrightarrow> reg_change H s s'"
| noted: "\<lbrakk>dispatch_of s rid stg = Some d; keeps_target f; dispatch_note d (f d);
    update_dispatch rid stg f s = Inr s'\<rbrakk> \<Longrightarrow> reg_change H s s'"
| finalized: "\<lbrakk>intent_of s rid = Some i; in_state i = Registered;
    append_event H u rid None (Some ''Registered'') ''Finalized'' reason t
      (set_intent rid (finalize_row ref_object_id t) s) = Inr s'\<rbrakk> \<Longrightarrow> reg_change H s s'"
| bootstrapped: "\<lbrakk>stage_of s rid stg = Some r; st_state r = ApprovedPendingOutcome;
    st_run_id r = Some (bc_run_id c); st_run_attempt r = Some (bc_run_attempt c); bc_key c = (rid, stg);
    insert_bootstrap c s = Inr s1;
    append_event H u rid (Some stg) (Some (stage_name ApprovedPendingOutcome))
      (stage_name ApprovedPendingOutcome) reason t s1 = Inr s'\<rbrakk> \<Longrightarrow> reg_change H s s'"
| reserved: "\<lbrakk>intent_of s rid = Some i; in_state i = Finalized; stage_of s rid stg = Some r;
    st_state r = Available; prerequisite_satisfied s rid stg;
    1 \<le> run_id; 1 \<le> run_attempt; 1 \<le> app_rule_id;
    now < deadline; deadline = reservation_deadline stg (in_expires_at i) now;
    s1 = set_stage rid stg (reserve_row run_id run_attempt app_rule_id res (utc_seconds deadline)) s;
    stage_indexes_ok (r_stages s1);
    append_event H u rid (Some stg) (Some (stage_name Available)) (stage_name Reserved) reason t s1
      = Inr s'\<rbrakk> \<Longrightarrow> reg_change H s s'"
| transitioned: "\<lbrakk>stage_of s rid stg = Some r;
    to_state \<in> set (ALLOWED_STAGE_TRANSITIONS (st_state r))
      \<or> (to_state = OutcomeOverdue \<and> st_state r = ApprovedPendingOutcome);
    to_state \<notin> {Succeeded, Failed, RolledBack};
    append_event H u rid (Some stg) (Some (stage_name (st_state r))) (stage_name to_state) reason t
      (set_stage_state rid stg to_state s) = Inr s'\<rbrakk> \<Longrightarrow> reg_change H s s'"
| concluded: "\<lbrakk>stage_of s rid stg = Some r; outcome_of s rid stg = None;
    st_run_id r = Some (so_run_id new); st_run_attempt r = Some (so_run_attempt new);
    so_target_state new \<in> set (allowed_targets stg); so_key new = (rid, stg);
    stored_digest (r_cas s) (so_outcome_digest new);
    stg = ''apply'' \<and> so_target_state new = Succeeded \<Longrightarrow>
      map_option st_state (stage_of s rid ''compensating-rollback'') = Some Available;
    st_state r \<in> {Reserved, CallbackUnknown, ApprovedPendingOutcome};
    outcome_writes H uid r new s = Inr (True, s')\<rbrakk> \<Longrightarrow> reg_change H s s'"

section \<open>Facts on the writes\<close>

lemma append_event_Inr:
  assumes "append_event H u rid stg from_state to_state reason t s = Inr s'"
  obtains e where "s' = s\<lparr>r_events := r_events s @ [e]\<rparr>"
    and "ev_event_id e = u" "ev_request_id e = rid" "ev_stage e = stg" "ev_recorded_at e = utc_text t"
    and "ev_from_state e = from_state" "ev_to_state e = to_state" "ev_reason_code e = reason"
    and "ev_previous_hash e = last_hash ev_event_hash (r_events s)"
    and "digest H (event_body e) = Inr (ev_event_hash e)"
    and "u \<notin> ev_event_id ` set (r_events s)" "ev_event_hash e \<notin> ev_event_hash ` set (r_events s)"
    and "intent_of s rid \<noteq> None"
proof -
  let ?row = "\<lparr>ev_event_id = u, ev_request_id = rid, ev_stage = stg,
            ev_recorded_at = utc_text t, ev_from_state = from_state,
            ev_to_state = to_state, ev_reason_code = reason,
            ev_previous_hash = last_hash ev_event_hash (r_events s), ev_event_hash = ''''\<rparr>"
  from assms obtain h where h: "digest H (event_body ?row) = Inr h"
      "u \<notin> ev_event_id ` set (r_events s)" "h \<notin> ev_event_hash ` set (r_events s)"
      "intent_of s rid \<noteq> None" and s': "s' = s\<lparr>r_events := r_events s @ [?row\<lparr>ev_event_hash := h\<rparr>]\<rparr>"
    by (auto simp: append_event_def Let_def bindE_Inr_iff split: if_splits)
  have "event_body (?row\<lparr>ev_event_hash := h\<rparr>) = event_body ?row" by (simp add: event_body_def)
  then show ?thesis using that [OF s'] h by simp
qed

lemma append_event_tables:
  assumes "append_event H u rid stg from_state to_state reason t s = Inr s'"
  shows "r_intents s' = r_intents s" "r_stages s' = r_stages s" "r_dispatches s' = r_dispatches s"
    "r_outcomes s' = r_outcomes s" "r_bootstraps s' = r_bootstraps s" "r_cas s' = r_cas s"
  using assms by (auto elim: append_event_Inr)

lemma st_key_simps [simp]:
  "st_key (r\<lparr>st_state := st\<rparr>) = st_key r"
  "st_key (reserve_row run att rule res d r) = st_key r"
  by (simp_all add: st_key_def reserve_row_def)

text \<open>The updates as the operations write them.\<close>

lemma finalize_row_abs: "finalize_row ref t = (\<lambda>r. r\<lparr>in_ref_object_id := Some ref,
    in_finalized_at := Some t, in_state := Finalized\<rparr>)"
  by (simp add: fun_eq_iff finalize_row_def)

lemma reserve_row_abs: "reserve_row run att rule res d = (\<lambda>r. r\<lparr>st_state := Reserved,
    st_run_id := Some run, st_run_attempt := Some att, st_app_rule_id := Some rule,
    st_reservation_id := Some res, st_reservation_expires_at := Some d\<rparr>)"
  by (simp add: fun_eq_iff reserve_row_def)

lemma finalize_row_id [simp]: "in_request_id (finalize_row ref t r) = in_request_id r"
  by (simp add: finalize_row_def)

lemma integrity_as_Inr: "integrity_as code r = Inr x \<longleftrightarrow> r = Inr x"
  by (auto simp: integrity_as_def split: sum.splits perror.splits)

section \<open>Every operation is a sequence of abstract changes\<close>

abbreviation reg_changes :: "host \<Rightarrow> registry \<Rightarrow> registry \<Rightarrow> bool" where
  "reg_changes H \<equiv> (reg_change H)\<^sup>*\<^sup>*"

lemma transaction_changes:
  assumes "transaction f s = (r, s')" and "\<And>v t. f s = Inr (v, t) \<Longrightarrow> R s t" and "R s s"
  shows "R s s'"
  using assms by (auto simp: transaction_def split: sum.splits prod.splits)

lemma register_stages_rows:
  assumes "foldE (register_stage v) wss s = Inr s'"
  shows "\<exists>rows. foldE insert_stage rows s = Inr s'
    \<and> (\<forall>r \<in> set rows. fresh_stage r \<and> st_request_id r = vb_request_id v)"
  using assms
proof (induction wss arbitrary: s)
  case Nil
  then show ?case by (intro exI [of _ "[]"]) simp
next
  case (Cons ws wss)
  from Cons.prems obtain s1 where s1: "register_stage v ws s = Inr s1"
      "foldE (register_stage v) wss s1 = Inr s'" by (auto simp: bindE_Inr_iff)
  from s1(1) obtain row where row: "insert_stage row s = Inr s1" "fresh_stage row"
      "st_request_id row = vb_request_id v"
    by (auto simp: register_stage_def Let_def bindE_Inr_iff fresh_stage_def)
  from Cons.IH [OF s1(2)] obtain rows where "foldE insert_stage rows s1 = Inr s'"
      "\<forall>r \<in> set rows. fresh_stage r \<and> st_request_id r = vb_request_id v" by blast
  with row show ?case by (intro exI [of _ "row # rows"]) (auto simp: bindE_Inr_iff)
qed

lemma put_json_stored: "put_json H v d c = Inr c' \<Longrightarrow> stored_digest c' d"
  by (auto simp: put_json_def stored_digest_def bindE_Inr_iff split: option.splits if_splits)

lemma register_txn_change:
  assumes "register_txn H uid v (row_of_bundle v gd spiffe t) s = Inr (b, s')"
    and "stored_digest (r_cas s) (vb_bundle_digest v)"
  shows "s' = s \<or> reg_change H s s'"
proof (cases "intent_of s (vb_request_id v)")
  case (Some existing)
  with assms show ?thesis by (auto simp: register_txn_def split: if_splits)
next
  case None
  let ?row = "row_of_bundle v gd spiffe t"
  have row: "in_request_id ?row = vb_request_id v" "in_state ?row = Registered"
      "in_ref_object_id ?row = None" "in_finalized_at ?row = None"
      "stored_digest (r_cas s) (in_bundle_digest ?row)" using assms(2)
    by (simp_all add: row_of_bundle_def Let_def)
  from None assms(1) obtain s1 s2 where s1: "insert_intent ?row s = Inr s1"
      and s2: "foldE (register_stage v) (bd_workflowStages (vb_payload v)) s1 = Inr s2"
      and e: "append_event H (uid 0) (vb_request_id v) None None ''Registered''
                ''SIGNED_INTENT_REGISTERED'' (in_registered_at ?row) s2 = Inr s'"
    by (auto simp: register_txn_def bindE_Inr_iff)
  from register_stages_rows [OF s2] obtain rows where "foldE insert_stage rows s1 = Inr s2"
      "\<forall>r \<in> set rows. fresh_stage r \<and> st_request_id r = vb_request_id v" by blast
  with s1 e row show ?thesis by (metis reg_change.registered)
qed

lemma register_changes:
  assumes "register H uid envelope v spiffe now s = (r, s')"
  shows "reg_changes H s s'"
proof -
  have "reg_changes H s s'" if c: "put_json H envelope (vb_bundle_digest v) (r_cas s) = Inr c"
      and t: "transaction (register_txn H uid v (row_of_bundle v gd spiffe (utc_seconds now)))
                (s\<lparr>r_cas := c\<rparr>) = (r, s')" for c gd
  proof -
    have "reg_changes H (s\<lparr>r_cas := c\<rparr>) s'"
      by (rule transaction_changes [OF t]) (auto dest!: register_txn_change intro: put_json_stored [OF c])
    with reg_change.stored [OF c] show ?thesis by (meson converse_rtranclp_into_rtranclp)
  qed
  moreover have "reg_changes H s (s\<lparr>r_cas := c\<rparr>)"
    if "put_json H envelope (vb_bundle_digest v) (r_cas s) = Inr c" for c
    using reg_change.stored [OF that] by blast
  ultimately show ?thesis using assms
    by (auto simp: register_def Let_def split: if_splits sum.splits)
qed

lemma queue_changes:
  assumes "queue_dispatch H uid rid stg installation_id repository now s = (d, s')"
  shows "reg_changes H s s'"
proof (cases "installation_id < 1")
  case True
  with assms show ?thesis by (simp add: queue_dispatch_def)
next
  case False
  have "reg_changes H s t" if q: "queue_txn H uid rid stg installation_id repository now s = Inr (v, t)"
    for v t
  proof (cases "t = s")
    case False
    from q False obtain i r path key s1 actor where *: "intent_of s rid = Some i" "in_state i = Finalized"
        "stage_of s rid stg = Some r" "st_state r = Available" "prerequisite_satisfied s rid stg"
        and ins: "insert_dispatch (new_dispatch rid stg installation_id i repository path actor key
          (utc_seconds now)) s = Inr s1"
        and e: "append_event H (uid 0) rid (Some stg) None (dispatch_name DPending)
          ''SIGNED_STAGE_DISPATCH_QUEUED'' (utc_seconds now) s1 = Inr t"
      by (auto simp: queue_txn_def Let_def bindE_Inr_iff split: option.splits if_splits)
    let ?d = "new_dispatch rid stg installation_id i repository path actor key (utc_seconds now)"
    have "fresh_dispatch ?d" "dj_key ?d = (rid, stg)"
      by (simp_all add: fresh_dispatch_def dj_key_def new_dispatch_def)
    from reg_change.queued [OF * this ins e] show ?thesis by blast
  qed simp
  with assms False show ?thesis
    by (auto simp: queue_dispatch_def intro: transaction_changes)
qed

lemma keeps_targetI:
  "(\<And>d. dj_key (f d) = dj_key d) \<Longrightarrow> (\<And>d. dispatch_target (f d) = dispatch_target d) \<Longrightarrow> keeps_target f"
  by (simp add: keeps_target_def)

lemma claim_changes:
  assumes "claim_dispatch H uid rid stg now s = (d, s')"
  shows "reg_changes H s s'"
  using assms unfolding claim_dispatch_def
proof (rule transaction_changes)
  fix v t assume "claim_txn H uid rid stg now s = Inr (v, t)"
  then obtain row s1 f where f: "f = (\<lambda>d. d\<lparr>dj_state := DSending, dj_claimed_at := Some (utc_seconds now)\<rparr>)"
      and row: "dispatch_of s rid stg = Some row" "dj_state row = DPending"
      and s1: "update_dispatch rid stg f s = Inr s1"
      and e: "append_event H (uid 0) rid (Some stg) (Some (dispatch_name DPending))
                 (dispatch_name DSending) ''DISPATCH_DURABLY_CLAIMED'' (utc_seconds now) s1 = Inr t"
    by (auto simp: claim_txn_def Let_def bindE_Inr_iff split: option.splits if_splits)
  have "keeps_target f" by (simp add: f keeps_target_def dj_key_def dispatch_target_def)
  moreover have "dispatch_move row (f row)" using row by (simp add: f dispatch_move_def)
  ultimately show "reg_changes H s t"
    using reg_change.moved [OF row(1) _ _ s1] e row(2) by (simp add: f) blast
qed simp

lemma resolve_changes:
  assumes "resolve_dispatch H uid rid stg st reason_code http_status now s = (d, s')"
  shows "reg_changes H s s'"
proof (cases "st \<in> {DUncertain, DRejected}")
  case True
  have "reg_changes H s t" if "resolve_txn H uid rid stg st reason_code http_status now s = Inr (v, t)" for v t
  proof (cases "t = s")
    case False
    with that obtain row s1 f where f: "f = (\<lambda>d. d\<lparr>dj_state := st, dj_resolved_at := Some (utc_seconds now),
              dj_http_status := http_status, dj_reason_code := Some reason_code\<rparr>)"
        and row: "dispatch_of s rid stg = Some row" "dj_state row = DSending"
        and s1: "update_dispatch rid stg f s = Inr s1"
        and e: "append_event H (uid 0) rid (Some stg) (Some (dispatch_name DSending)) (dispatch_name st)
                 reason_code (utc_seconds now) s1 = Inr t"
      by (auto simp: resolve_txn_def Let_def bindE_Inr_iff split: option.splits if_splits)
    have "keeps_target f" by (simp add: f keeps_target_def dj_key_def dispatch_target_def)
    moreover have "dispatch_move row (f row)" using row True by (auto simp: f dispatch_move_def)
    ultimately show ?thesis using reg_change.moved [OF row(1) _ _ s1] e row(2) by (simp add: f) blast
  qed simp
  with assms show ?thesis
    by (auto simp: resolve_dispatch_def intro: transaction_changes split: if_splits)
qed (use assms in \<open>simp add: resolve_dispatch_def\<close>)

lemma watermark_changes:
  assumes "record_dispatch_watermark rid stg watermark now s = (d, s')"
  shows "reg_changes H s s'"
proof -
  have "reg_changes H s t" if "watermark_txn rid stg watermark now s = Inr (v, t)" for v t
  proof (cases "t = s")
    case False
    with that obtain row f where f: "f = (\<lambda>d. d\<lparr>dj_snapshot_at := Some (utc_seconds now),
              dj_watermark := Some watermark\<rparr>)"
        and row: "dispatch_of s rid stg = Some row" "dj_state row = DSending" "dj_watermark row = None"
        and t: "update_dispatch rid stg f s = Inr t"
      by (auto simp: watermark_txn_def Let_def bindE_Inr_iff split: option.splits if_splits)
    have "keeps_target f" by (simp add: f keeps_target_def dj_key_def dispatch_target_def)
    moreover have "dispatch_note row (f row)" using row by (simp add: f dispatch_note_def)
    ultimately show ?thesis using reg_change.noted [OF row(1) _ _ t] by blast
  qed simp
  with assms show ?thesis
    by (auto simp: record_dispatch_watermark_def intro: transaction_changes split: if_splits)
qed

lemma posted_changes:
  assumes "mark_dispatch_posted rid stg reason_code http_status now s = (d, s')"
  shows "reg_changes H s s'"
proof -
  have "reg_changes H s t" if "posted_txn rid stg reason_code http_status now s = Inr (v, t)" for v t
  proof (cases "t = s")
    case False
    with that obtain row f where f: "f = (\<lambda>d. d\<lparr>dj_http_status := Some http_status,
              dj_reason_code := Some reason_code, dj_resolved_at := Some (utc_seconds now)\<rparr>)"
        and row: "dispatch_of s rid stg = Some row" "dj_state row = DSending"
        and t: "update_dispatch rid stg f s = Inr t"
      by (auto simp: posted_txn_def Let_def bindE_Inr_iff split: option.splits if_splits)
    have "keeps_target f" by (simp add: f keeps_target_def dj_key_def dispatch_target_def)
    moreover have "dispatch_note row (f row)" using row by (simp add: f dispatch_note_def)
    ultimately show ?thesis using reg_change.noted [OF row(1) _ _ t] by blast
  qed simp
  with assms show ?thesis
    by (auto simp: mark_dispatch_posted_def intro: transaction_changes split: if_splits)
qed

lemma reconcile_changes:
  assumes "reconcile_dispatch H uid rid stg run_id now s = (d, s')"
  shows "reg_changes H s s'"
proof (cases "run_id < 1")
  case True
  with assms show ?thesis by (simp add: reconcile_dispatch_def)
next
  case False
  have "reg_changes H s t" if "reconcile_txn H uid rid stg run_id now s = Inr (v, t)" for v t
  proof (cases "t = s")
    case False
    with that obtain row s1 f w where f: "f = (\<lambda>d. d\<lparr>dj_state := DAccepted,
              dj_resolved_at := Some (utc_seconds now),
              dj_reason_code := Some ''DISPATCH_RECONCILED_LIVE_RUN'', dj_run_id := Some run_id\<rparr>)"
        and row: "dispatch_of s rid stg = Some row" "dj_state row \<in> {DSending, DUncertain}"
          "dj_watermark row = Some w" "w < run_id"
        and s1: "update_dispatch rid stg f s = Inr s1"
        and e: "append_event H (uid 0) rid (Some stg) (Some (dispatch_name (dj_state row)))
                 (dispatch_name DAccepted) ''DISPATCH_RECONCILED_LIVE_RUN'' (utc_seconds now) s1 = Inr t"
      by (auto simp: reconcile_txn_def Let_def bindE_Inr_iff split: option.splits if_splits)
    have "keeps_target f" by (simp add: f keeps_target_def dj_key_def dispatch_target_def)
    moreover have "dispatch_move row (f row)" using row \<open>\<not> run_id < 1\<close> by (simp add: f dispatch_move_def)
    ultimately show ?thesis using reg_change.moved [OF row(1) _ _ s1] e by (simp add: f) blast
  qed simp
  then have "reg_changes H s t"
    if "integrity_as ''DISPATCH_RUN_REUSED'' (reconcile_txn H uid rid stg run_id now s) = Inr (v, t)" for v t
    using that by (simp add: integrity_as_Inr)
  with assms False show ?thesis
    by (auto simp: reconcile_dispatch_def elim!: transaction_changes)
qed

lemma finalize_changes:
  assumes "finalize_ref H uid rid ref_object_id resolved_head_sha now s = (b, s')"
    and keys: "keys_distinct in_request_id (r_intents s)"
  shows "reg_changes H s s'"
proof -
  have "reg_changes H s t" if "finalize_txn H uid rid ref_object_id resolved_head_sha now s = Inr (v, t)"
    for v t
  proof (cases "t = s")
    case False
    let ?f = "finalize_row ref_object_id (utc_seconds now)"
    from False that obtain row where row: "intent_of s rid = Some row" "in_state row = Registered"
        and e: "append_event H (uid 0) rid None (Some ''Registered'') ''Finalized''
                    ''IMMUTABLE_REF_VERIFIED'' (utc_seconds now)
                    (s\<lparr>r_intents := row_update (\<lambda>r. in_request_id r = rid \<and> in_state r = Registered)
                       ?f (r_intents s)\<rparr>) = Inr t"
      by (auto simp: finalize_txn_def bindE_Inr_iff finalize_row_abs split: option.splits if_splits)
    have "row_update (\<lambda>r. in_request_id r = rid \<and> in_state r = Registered) ?f (r_intents s)
        = row_update (\<lambda>r. in_request_id r = rid) ?f (r_intents s)"
      using row_update_unique [OF keys row(1), where P = "\<lambda>r. in_state r = Registered"] row(2) by simp
    with reg_change.finalized [OF row] e show ?thesis by auto
  qed simp
  with assms show ?thesis
    by (auto simp: finalize_ref_def intro: transaction_changes split: if_splits)
qed

lemma bootstrap_changes:
  assumes "consume_bootstrap H uid rid stg run_id run_attempt runner_id response_digest now s = (c, s')"
  shows "reg_changes H s s'"
proof -
  have "reg_changes H s t"
    if "bootstrap_txn H uid rid stg run_id run_attempt runner_id response_digest now s = Inr (v, t)" for v t
  proof -
    from that obtain row s1 where "stage_of s rid stg = Some row" "st_state row = ApprovedPendingOutcome"
        "st_run_id row = Some (bc_run_id v)" "st_run_attempt row = Some (bc_run_attempt v)"
        "bc_key v = (rid, stg)" "insert_bootstrap v s = Inr s1"
        and e: "append_event H (uid 0) rid (Some stg) (Some (stage_name ApprovedPendingOutcome))
                 (stage_name ApprovedPendingOutcome) ''RUNNER_BOOTSTRAP_CONSUMED'' (utc_seconds now) s1
                 = Inr t"
      by (auto simp: bootstrap_txn_def Let_def bindE_Inr_iff bc_key_def split: option.splits if_splits)
    from reg_change.bootstrapped [OF this] show ?thesis by blast
  qed
  with assms show ?thesis
    by (auto simp: consume_bootstrap_def intro: transaction_changes split: if_splits sum.splits)
qed

lemma reserve_changes:
  assumes "reserve_stage H uid rid stg run_id run_attempt app_rule_id now s = (v2, s')"
    and keys: "keys_distinct st_key (r_stages s)"
  shows "reg_changes H s s'"
proof (cases "min run_id (min run_attempt app_rule_id) < 1")
  case True
  with assms show ?thesis by (simp add: reserve_stage_def)
next
  case False
  have "reg_changes H s t" if "reserve_txn H uid rid stg run_id run_attempt app_rule_id now s = Inr (v, t)"
    for v t
  proof (cases "t = s")
    case False
    from False that obtain i row s1 deadline where
        row: "intent_of s rid = Some i" "in_state i = Finalized" "stage_of s rid stg = Some row"
          "st_state row = Available" "prerequisite_satisfied s rid stg"
        and dl: "now < deadline" "deadline = reservation_deadline stg (in_expires_at i) now"
        and s1: "update_reserve rid stg run_id run_attempt app_rule_id (uid 0) (utc_seconds deadline) s
                   = Inr s1"
        and e: "append_event H (uid 1) rid (Some stg) (Some (stage_name Available)) (stage_name Reserved)
                   ''STAGE_GRANT_RESERVED'' (utc_seconds now) s1 = Inr t"
      by (auto simp: reserve_txn_def Let_def bindE_Inr_iff integrity_as_Inr split: option.splits if_splits)
    let ?f = "reserve_row run_id run_attempt app_rule_id (uid 0) (utc_seconds deadline)"
    have "row_update (\<lambda>r. st_key r = (rid, stg) \<and> st_state r = Available) ?f (r_stages s)
        = row_update (\<lambda>r. st_key r = (rid, stg)) ?f (r_stages s)"
      using row_update_unique [OF keys row(3), where P = "\<lambda>r. st_state r = Available"] row(4) by simp
    with s1 have s1': "s1 = set_stage rid stg ?f s" "stage_indexes_ok (r_stages s1)"
      by (auto simp: update_reserve_def Let_def reserve_row_abs split: if_splits)
    from reg_change.reserved [OF row _ _ _ dl s1' e] \<open>\<not> min run_id (min run_attempt app_rule_id) < 1\<close>
    show ?thesis by auto
  qed simp
  with assms False show ?thesis
    by (auto simp: reserve_stage_def intro: transaction_changes)
qed

lemma transition_changes:
  assumes "transition_stage H uid rid stg to_state reason_code now s = (u, s')"
  shows "reg_changes H s s'"
proof (cases "to_state \<in> {Succeeded, Failed, RolledBack}")
  case True
  with assms show ?thesis by (simp add: transition_stage_def split: if_splits)
next
  case False
  have "reg_changes H s t" if "transition_txn H uid rid stg to_state reason_code now s = Inr (v, t)" for v t
  proof (cases "t = s")
    case False
    with that obtain row where "stage_of s rid stg = Some row"
        "to_state \<in> set (ALLOWED_STAGE_TRANSITIONS (st_state row))"
        "append_event H (uid 0) rid (Some stg) (Some (stage_name (st_state row))) (stage_name to_state)
           reason_code (utc_seconds now) (set_stage_state rid stg to_state s) = Inr t"
      by (auto simp: transition_txn_def bindE_Inr_iff split: option.splits if_splits)
    with \<open>to_state \<notin> {Succeeded, Failed, RolledBack}\<close> show ?thesis
      by (meson reg_change.transitioned r_into_rtranclp)
  qed simp
  with assms False show ?thesis
    by (auto simp: transition_stage_def intro: transaction_changes split: if_splits)
qed

text \<open>The reads of the outcome checks do not depend on the content store.\<close>

lemma outcome_checks_row:
  assumes "outcome_checks H rid stg run_id run_attempt outcome outcome_digest archive target current s
    = Inr (Some row)"
  shows "stage_of s rid stg = Some row" "outcome_of s rid stg = None" "st_run_id row = Some run_id"
    "st_run_attempt row = Some run_attempt"
    "stg = ''apply'' \<and> target = Succeeded \<Longrightarrow>
       map_option st_state (stage_of s rid ''compensating-rollback'') = Some Available"
    "st_state row \<in> {Reserved, CallbackUnknown, ApprovedPendingOutcome}"
  using assms by (auto simp: outcome_checks_def bindE_Inr_iff split: option.splits if_splits)

lemma outcome_changes:
  assumes "record_stage_outcome H uid rid stg run_id run_attempt outcome outcome_digest target now s
    = (b, s')"
  shows "reg_changes H s s'"
proof (cases "s' = s")
  case False
  from assms False obtain archive row c new where target: "target \<in> set (allowed_targets stg)"
      and row: "outcome_checks H rid stg run_id run_attempt outcome outcome_digest archive target now s
        = Inr (Some row)"
      and c: "put_json H (JObj outcome) outcome_digest (r_cas s) = Inr c"
      and new: "new = \<lparr>so_request_id = rid, so_stage = stg, so_run_id = run_id,
        so_run_attempt = run_attempt, so_outcome_digest = outcome_digest,
        so_source_archive_sha256 = archive, so_target_state = target, so_recorded_at = utc_seconds now\<rparr>"
      and t: "transaction (outcome_writes H uid row new) (s\<lparr>r_cas := c\<rparr>) = (b, s')"
    by (auto simp: record_stage_outcome_def split: if_splits sum.splits json.splits option.splits)
  note row' = outcome_checks_row [OF row]
  have "reg_changes H (s\<lparr>r_cas := c\<rparr>) s'"
  proof (rule transaction_changes [OF t])
    fix v t assume w: "outcome_writes H uid row new (s\<lparr>r_cas := c\<rparr>) = Inr (v, t)"
    then have v: "v = True" by (auto simp: outcome_writes_def Let_def bindE_Inr_iff)
    have "reg_change H (s\<lparr>r_cas := c\<rparr>) t"
    proof (rule reg_change.concluded)
      show "outcome_writes H uid row new (s\<lparr>r_cas := c\<rparr>) = Inr (True, t)" using w v by simp
    qed (use row' target put_json_stored [OF c] in \<open>auto simp: new so_key_def\<close>)
    then show "reg_changes H (s\<lparr>r_cas := c\<rparr>) t" by blast
  qed simp
  with reg_change.stored [OF c] show ?thesis by (meson converse_rtranclp_into_rtranclp)
qed simp

lemma expire_fold_changes:
  assumes "foldE (expire_one H uid t) irs s = Inr s'"
    and "keys_distinct st_key (r_stages s)" "distinct (map (st_key \<circ> snd) irs)"
    and "\<And>i row. (i, row) \<in> set irs \<Longrightarrow>
      lookup_by st_key (st_key row) (r_stages s) = Some row \<and> overdue t row"
  shows "reg_changes H s s'"
  using assms
proof (induction irs arbitrary: s)
  case Nil
  then show ?case by simp
next
  case (Cons ir irs)
  obtain i row where ir: "ir = (i, row)" by (cases ir)
  let ?k = "st_key row" and ?f = "\<lambda>r :: stage_row. r\<lparr>st_state := OutcomeOverdue\<rparr>"
  from Cons.prems(4) ir have row: "lookup_by st_key ?k (r_stages s) = Some row" "overdue t row" by auto
  have upd: "row_update (\<lambda>r. st_key r = ?k \<and> st_state r = st_state row) ?f (r_stages s)
      = row_update (\<lambda>r. st_key r = ?k) ?f (r_stages s)"
    using row_update_unique [OF Cons.prems(2) row(1), where P = "\<lambda>r. st_state r = st_state row"] by simp
  from Cons.prems(1) ir obtain s1 where one: "expire_one H uid t (i, row) s = Inr s1"
      and rest: "foldE (expire_one H uid t) irs s1 = Inr s'" by (auto simp: bindE_Inr_iff)
  from one upd have e: "append_event H (uid i) (st_request_id row) (Some (st_stage row))
      (Some (stage_name (st_state row))) (stage_name OutcomeOverdue)
      ''OUTCOME_RECONCILIATION_DEADLINE_EXCEEDED'' t
      (set_stage_state (st_request_id row) (st_stage row) OutcomeOverdue s) = Inr s1"
    by (simp add: expire_one_def set_stage_state_def st_key_def)
  have "reg_change H s s1"
    using reg_change.transitioned [OF _ _ _ e] row
    by (auto simp: st_key_def overdue_def)
  moreover have stages: "r_stages s1 = row_update (\<lambda>r. st_key r = ?k) ?f (r_stages s)"
    using append_event_tables(2) [OF e] by (simp add: set_stage_state_def st_key_def)
  have "reg_changes H s1 s'"
  proof (rule Cons.IH [OF rest])
    show "keys_distinct st_key (r_stages s1)"
      using Cons.prems(2) by (simp add: stages keys_distinct_row_update)
    show "distinct (map (st_key \<circ> snd) irs)" using Cons.prems(3) by (simp add: comp_def)
    fix j row' assume j: "(j, row') \<in> set irs"
    with Cons.prems(3) ir have "?k \<noteq> st_key row'" by force
    with Cons.prems(4) [of j row'] j stages show
      "lookup_by st_key (st_key row') (r_stages s1) = Some row' \<and> overdue t row'"
      by (simp add: lookup_row_update_key)
  qed
  ultimately show ?case by (rule converse_rtranclp_into_rtranclp)
qed

lemma by_request_set: "set (by_request rows) = set rows"
  by (simp add: by_request_def)

lemma distinct_by_request: "distinct (map key (by_request rows)) = distinct (map key rows)"
proof -
  have "mset (map key (by_request rows)) = mset (map key rows)" by (simp add: by_request_def)
  then show ?thesis by (rule mset_eq_imp_distinct_iff)
qed

lemma expire_changes:
  assumes "expire_pending_stages H uid now s = (n, s')"
    and keys: "keys_distinct st_key (r_stages s)"
  shows "reg_changes H s s'"
  using assms(1) unfolding expire_pending_stages_def
proof (rule transaction_changes)
  fix v t assume "expire_txn H uid (utc_seconds now) s = Inr (v, t)"
  then obtain rows where rows: "rows = by_request (filter (overdue (utc_seconds now)) (r_stages s))"
      and f: "foldE (expire_one H uid (utc_seconds now)) (zip [0..<length rows] rows) s = Inr t"
    by (auto simp: expire_txn_def Let_def bindE_Inr_iff)
  have snd: "map (st_key \<circ> snd) (zip [0..<length rows] rows) = map st_key rows"
    by (simp flip: map_map)
  show "reg_changes H s t"
  proof (rule expire_fold_changes [OF f keys])
    show "distinct (map (st_key \<circ> snd) (zip [0..<length rows] rows))"
      using keys by (simp only: snd) (simp add: rows distinct_by_request keys_distinct_def distinct_map_filter)
  next
    fix i row assume "(i, row) \<in> set (zip [0..<length rows] rows)"
    then have "row \<in> set rows" by (rule set_zip_rightD)
    then show "lookup_by st_key (st_key row) (r_stages s) = Some row \<and> overdue (utc_seconds now) row"
      by (simp add: rows by_request_set in_set_lookup [OF keys])
  qed
qed simp

theorem reg_op_refines:
  assumes "reg_op H s s'" "keys_distinct in_request_id (r_intents s)" "keys_distinct st_key (r_stages s)"
  shows "reg_changes H s s'"
  using assms
  by (cases rule: reg_op.cases)
    (blast intro: register_changes queue_changes claim_changes resolve_changes watermark_changes
      posted_changes reconcile_changes finalize_changes bootstrap_changes expire_changes reserve_changes
      transition_changes outcome_changes)+

end
