(* ===== verification/IntentEffects.thy ===== *)
theory IntentEffects
  imports IntentSteps
begin

text \<open>
  What each abstract change of the registry does to the tables: one elimination rule gives
  the new registry as a record update, with the conditions the change was made under and
  the event it appends.
\<close>

section \<open>Effects of a change\<close>

definition new_event :: "host \<Rightarrow> event_row list \<Rightarrow> event_row \<Rightarrow> string \<Rightarrow> string option \<Rightarrow> string option
    \<Rightarrow> string \<Rightarrow> bool" where
  "new_event H es e rid stg from_state to_state =
     (ev_request_id e = rid \<and> ev_stage e = stg \<and> ev_from_state e = from_state \<and> ev_to_state e = to_state
      \<and> ev_previous_hash e = last_hash ev_event_hash es \<and> digest H (event_body e) = Inr (ev_event_hash e)
      \<and> ev_event_id e \<notin> ev_event_id ` set es \<and> ev_event_hash e \<notin> ev_event_hash ` set es)"

lemma append_event_effect:
  assumes "append_event H u rid stg from_state to_state reason t s = Inr s'"
  obtains e where "s' = s\<lparr>r_events := r_events s @ [e]\<rparr>"
    "new_event H (r_events s) e rid stg from_state to_state" "intent_of s rid \<noteq> None"
  using assms by (elim append_event_Inr) (simp add: new_event_def)

lemma insert_stages_effect:
  assumes "foldE insert_stage rows s = Inr s'"
  shows "s' = s\<lparr>r_stages := r_stages s @ rows\<rparr>"
    and "keys_distinct st_key (r_stages s) \<Longrightarrow> keys_distinct st_key (r_stages s @ rows)"
    and "\<forall>r \<in> set rows. st_stage r \<in> set STAGES \<and> lookup_by st_key (st_key r) (r_stages s) = None"
  using assms
proof (induction rows arbitrary: s)
  case Nil
  {
    case 1
    then show ?case by simp
  next
    case 2
    then show ?case by simp
  next
    case 3
    then show ?case by simp
  }
next
  case (Cons r rows)
  have step: "\<exists>s1. s1 = s\<lparr>r_stages := r_stages s @ [r]\<rparr> \<and> foldE insert_stage rows s1 = Inr s'
      \<and> lookup_by st_key (st_key r) (r_stages s) = None \<and> st_stage r \<in> set STAGES"
    if "foldE insert_stage (r # rows) s = Inr s'" for s
    using that by (auto simp: bindE_Inr_iff insert_stage_def st_key_def split: if_splits)
  {
    case 1
    with step Cons.IH(1) show ?case by fastforce
  next
    case 2
    from step [OF 2(2)] obtain s1 where s1: "s1 = s\<lparr>r_stages := r_stages s @ [r]\<rparr>"
        "foldE insert_stage rows s1 = Inr s'" "lookup_by st_key (st_key r) (r_stages s) = None" by auto
    with 2(1) Cons.IH(2) [OF _ s1(2)] show ?case by (simp add: keys_distinct_snoc)
  next
    case 3
    from step [OF 3] obtain s1 where s1: "s1 = s\<lparr>r_stages := r_stages s @ [r]\<rparr>"
        "foldE insert_stage rows s1 = Inr s'" "lookup_by st_key (st_key r) (r_stages s) = None"
        "st_stage r \<in> set STAGES" by auto
    with Cons.IH(3) [OF s1(2)] show ?case
      by (auto simp: lookup_by_append split: option.splits)
  }
qed

text \<open>The two steps of a recorded outcome, as one change of the stage row.\<close>

lemma row_update_twice:
  assumes "\<And>r. key (f r) = key r"
  shows "row_update (\<lambda>r. key r = k) g (row_update (\<lambda>r. key r = k) f rows)
    = row_update (\<lambda>r. key r = k) (g \<circ> f) rows"
  using assms by (induction rows) auto

lemma outcome_writes_effect:
  assumes "outcome_writes H uid r new s = Inr (b, s')" and key: "so_key new = (rid, stg)"
  obtains es where
    "s' = (set_stage rid stg (\<lambda>r. r\<lparr>st_state := so_target_state new\<rparr>) s)
       \<lparr>r_outcomes := r_outcomes s @ [new], r_events := r_events s @ es\<rparr>"
    "outcome_of s rid stg = None" "so_outcome_digest new \<notin> so_outcome_digest ` set (r_outcomes s)"
    "st_state r \<in> {Reserved, CallbackUnknown} \<Longrightarrow> \<exists>e1 e2. es = [e1, e2]
       \<and> new_event H (r_events s) e1 rid (Some stg) (Some (stage_name (st_state r)))
           (stage_name ApprovedPendingOutcome)
       \<and> new_event H (r_events s @ [e1]) e2 rid (Some stg) (Some (stage_name ApprovedPendingOutcome))
           (stage_name (so_target_state new))"
    "st_state r \<notin> {Reserved, CallbackUnknown} \<Longrightarrow> \<exists>e. es = [e]
       \<and> new_event H (r_events s) e rid (Some stg) (Some (stage_name ApprovedPendingOutcome))
           (stage_name (so_target_state new))"
proof (cases "st_state r \<in> {Reserved, CallbackUnknown}")
  case True
  from key have k: "so_request_id new = rid" "so_stage new = stg" by (simp_all add: so_key_def)
  from assms(1) True k obtain s1 s2 where
    s1: "append_event H (uid 0) rid (Some stg) (Some (stage_name (st_state r)))
           (stage_name ApprovedPendingOutcome) ''RUN_PROGRESSION_PROVED_CALLBACK_ACCEPTANCE''
           (so_recorded_at new) (set_stage_state rid stg ApprovedPendingOutcome s) = Inr s1"
    and s2: "insert_outcome new s1 = Inr s2"
    and s3: "append_event H (uid 1) rid (Some stg) (Some (stage_name ApprovedPendingOutcome))
           (stage_name (so_target_state new)) ''STAGE_OUTCOME_VERIFIED'' (so_recorded_at new)
           (set_stage_state rid stg (so_target_state new) s2) = Inr s'"
    by (auto simp: outcome_writes_def Let_def bindE_Inr_iff)
  from s1 obtain e1 where e1: "s1 = (set_stage_state rid stg ApprovedPendingOutcome s)
      \<lparr>r_events := r_events s @ [e1]\<rparr>" "new_event H (r_events s) e1 rid (Some stg)
        (Some (stage_name (st_state r))) (stage_name ApprovedPendingOutcome)"
    by (elim append_event_effect) (simp add: set_stage_state_def)
  from s2 k e1(1) have o: "s2 = s1\<lparr>r_outcomes := r_outcomes s @ [new]\<rparr>" "outcome_of s rid stg = None"
      "so_outcome_digest new \<notin> so_outcome_digest ` set (r_outcomes s)"
    by (auto simp: insert_outcome_def set_stage_state_def split: if_splits)
  from s3 obtain e2 where e2: "s' = (set_stage_state rid stg (so_target_state new) s2)
      \<lparr>r_events := r_events s @ [e1, e2]\<rparr>" "new_event H (r_events s @ [e1]) e2 rid (Some stg)
        (Some (stage_name ApprovedPendingOutcome)) (stage_name (so_target_state new))"
    by (elim append_event_effect) (simp add: set_stage_state_def o e1)
  have "s' = (set_stage rid stg (\<lambda>r. r\<lparr>st_state := so_target_state new\<rparr>) s)
       \<lparr>r_outcomes := r_outcomes s @ [new], r_events := r_events s @ [e1, e2]\<rparr>"
    by (simp add: e2 o e1 set_stage_state_def row_update_twice comp_def)
  from that [OF this o(2,3)] e1(2) e2(2) True show ?thesis by blast
next
  case False
  from key have k: "so_request_id new = rid" "so_stage new = stg" by (simp_all add: so_key_def)
  from assms(1) False k obtain s2 where s2: "insert_outcome new s = Inr s2"
    and s3: "append_event H (uid 1) rid (Some stg) (Some (stage_name ApprovedPendingOutcome))
           (stage_name (so_target_state new)) ''STAGE_OUTCOME_VERIFIED'' (so_recorded_at new)
           (set_stage_state rid stg (so_target_state new) s2) = Inr s'"
    by (auto simp: outcome_writes_def Let_def bindE_Inr_iff)
  from s2 k have o: "s2 = s\<lparr>r_outcomes := r_outcomes s @ [new]\<rparr>" "outcome_of s rid stg = None"
      "so_outcome_digest new \<notin> so_outcome_digest ` set (r_outcomes s)"
    by (auto simp: insert_outcome_def split: if_splits)
  from s3 obtain e where e: "s' = (set_stage_state rid stg (so_target_state new) s2)
      \<lparr>r_events := r_events s @ [e]\<rparr>" "new_event H (r_events s) e rid (Some stg)
        (Some (stage_name ApprovedPendingOutcome)) (stage_name (so_target_state new))"
    by (elim append_event_effect) (simp add: set_stage_state_def o)
  have "s' = (set_stage rid stg (\<lambda>r. r\<lparr>st_state := so_target_state new\<rparr>) s)
       \<lparr>r_outcomes := r_outcomes s @ [new], r_events := r_events s @ [e]\<rparr>"
    by (simp add: e o set_stage_state_def)
  from that [OF this o(2,3)] e(2) False show ?thesis by blast
qed

lemma reg_change_elim:
  assumes "reg_change H s s'"
  obtains
    (stored) v d c where "put_json H v d (r_cas s) = Inr c" "s' = s\<lparr>r_cas := c\<rparr>"
  | (registered) row rows e where
      "s' = s\<lparr>r_intents := r_intents s @ [row], r_stages := r_stages s @ rows,
              r_events := r_events s @ [e]\<rparr>"
      "intent_of s (in_request_id row) = None" "lookup_by in_bundle_digest (in_bundle_digest row) (r_intents s) = None"
      "lookup_by in_intent_ref (in_intent_ref row) (r_intents s) = None" "in_state row = Registered"
      "\<forall>r \<in> set rows. fresh_stage r \<and> st_request_id r = in_request_id row \<and> st_stage r \<in> set STAGES
         \<and> lookup_by st_key (st_key r) (r_stages s) = None"
      "keys_distinct st_key (r_stages s) \<Longrightarrow> keys_distinct st_key (r_stages s @ rows)"
      "new_event H (r_events s) e (in_request_id row) None None ''Registered''"
      "stored_digest (r_cas s) (in_bundle_digest row)"
  | (queued) rid stg i r d e where
      "s' = s\<lparr>r_dispatches := r_dispatches s @ [d], r_events := r_events s @ [e]\<rparr>"
      "intent_of s rid = Some i" "in_state i = Finalized" "stage_of s rid stg = Some r"
      "st_state r = Available" "prerequisite_satisfied s rid stg" "fresh_dispatch d"
      "dj_key d = (rid, stg)" "dispatch_of s rid stg = None" "dispatch_indexes_ok (r_dispatches s @ [d])"
      "new_event H (r_events s) e rid (Some stg) None (dispatch_name DPending)"
  | (moved) rid stg d f e where
      "s' = s\<lparr>r_dispatches := row_update (\<lambda>d. dj_key d = (rid, stg)) f (r_dispatches s),
              r_events := r_events s @ [e]\<rparr>"
      "dispatch_of s rid stg = Some d" "keeps_target f" "dispatch_move d (f d)"
      "dispatch_indexes_ok (r_dispatches s')"
      "new_event H (r_events s) e rid (Some stg) (Some (dispatch_name (dj_state d)))
         (dispatch_name (dj_state (f d)))"
  | (noted) rid stg d f where
      "s' = s\<lparr>r_dispatches := row_update (\<lambda>d. dj_key d = (rid, stg)) f (r_dispatches s)\<rparr>"
      "dispatch_of s rid stg = Some d" "keeps_target f" "dispatch_note d (f d)"
      "dispatch_indexes_ok (r_dispatches s')"
  | (finalized) rid i ref t e where
      "s' = (set_intent rid (finalize_row ref t) s)\<lparr>r_events := r_events s @ [e]\<rparr>"
      "intent_of s rid = Some i" "in_state i = Registered"
      "new_event H (r_events s) e rid None (Some ''Registered'') ''Finalized''"
  | (bootstrapped) rid stg r c e where
      "s' = s\<lparr>r_bootstraps := r_bootstraps s @ [c], r_events := r_events s @ [e]\<rparr>"
      "stage_of s rid stg = Some r" "st_state r = ApprovedPendingOutcome"
      "st_run_id r = Some (bc_run_id c)" "st_run_attempt r = Some (bc_run_attempt c)" "bc_key c = (rid, stg)"
      "bootstrap_of s rid stg = None"
      "lookup_by bc_response_digest (bc_response_digest c) (r_bootstraps s) = None"
      "new_event H (r_events s) e rid (Some stg) (Some (stage_name ApprovedPendingOutcome))
         (stage_name ApprovedPendingOutcome)"
  | (reserved) rid stg i r run att rule res now e where
      "s' = (set_stage rid stg (reserve_row run att rule res
          (utc_seconds (reservation_deadline stg (in_expires_at i) now))) s)\<lparr>r_events := r_events s @ [e]\<rparr>"
      "intent_of s rid = Some i" "in_state i = Finalized" "stage_of s rid stg = Some r"
      "st_state r = Available" "prerequisite_satisfied s rid stg" "1 \<le> run" "1 \<le> att" "1 \<le> rule"
      "now < reservation_deadline stg (in_expires_at i) now" "stage_indexes_ok (r_stages s')"
      "new_event H (r_events s) e rid (Some stg) (Some (stage_name Available)) (stage_name Reserved)"
  | (transitioned) rid stg r to_state e where
      "s' = (set_stage rid stg (\<lambda>r. r\<lparr>st_state := to_state\<rparr>) s)\<lparr>r_events := r_events s @ [e]\<rparr>"
      "stage_of s rid stg = Some r"
      "to_state \<in> set (ALLOWED_STAGE_TRANSITIONS (st_state r))
         \<or> (to_state = OutcomeOverdue \<and> st_state r = ApprovedPendingOutcome)"
      "to_state \<notin> {Succeeded, Failed, RolledBack}"
      "new_event H (r_events s) e rid (Some stg) (Some (stage_name (st_state r))) (stage_name to_state)"
  | (concluded) rid stg r new es where
      "s' = (set_stage rid stg (\<lambda>r. r\<lparr>st_state := so_target_state new\<rparr>) s)
         \<lparr>r_outcomes := r_outcomes s @ [new], r_events := r_events s @ es\<rparr>"
      "stage_of s rid stg = Some r" "outcome_of s rid stg = None"
      "st_run_id r = Some (so_run_id new)" "st_run_attempt r = Some (so_run_attempt new)"
      "so_target_state new \<in> set (allowed_targets stg)" "so_key new = (rid, stg)"
      "lookup_by so_outcome_digest (so_outcome_digest new) (r_outcomes s) = None"
      "stg = ''apply'' \<and> so_target_state new = Succeeded \<Longrightarrow>
         map_option st_state (stage_of s rid ''compensating-rollback'') = Some Available"
      "st_state r \<in> {Reserved, CallbackUnknown, ApprovedPendingOutcome}"
      "st_state r \<in> {Reserved, CallbackUnknown} \<Longrightarrow> \<exists>e1 e2. es = [e1, e2]
         \<and> new_event H (r_events s) e1 rid (Some stg) (Some (stage_name (st_state r)))
             (stage_name ApprovedPendingOutcome)
         \<and> new_event H (r_events s @ [e1]) e2 rid (Some stg) (Some (stage_name ApprovedPendingOutcome))
             (stage_name (so_target_state new))"
      "st_state r = ApprovedPendingOutcome \<Longrightarrow> \<exists>e. es = [e]
         \<and> new_event H (r_events s) e rid (Some stg) (Some (stage_name ApprovedPendingOutcome))
             (stage_name (so_target_state new))"
      "stored_digest (r_cas s) (so_outcome_digest new)"
  using assms
proof (cases rule: reg_change.cases)
  case (stored v d c)
  then show ?thesis using that(1) by blast
next
  case (registered row s1 rows s2 u reason t)
  from registered(1) have s1: "s1 = s\<lparr>r_intents := r_intents s @ [row]\<rparr>"
      "intent_of s (in_request_id row) = None" "lookup_by in_bundle_digest (in_bundle_digest row) (r_intents s) = None"
      "lookup_by in_intent_ref (in_intent_ref row) (r_intents s) = None"
    by (auto simp: insert_intent_def lookup_by_None_iff split: if_splits)
  note rows = insert_stages_effect [OF registered(6)]
  from registered(8) obtain e where "s' = s2\<lparr>r_events := r_events s2 @ [e]\<rparr>"
      "new_event H (r_events s2) e (in_request_id row) None None ''Registered''"
    by (rule append_event_effect)
  with rows s1 registered(2,5,7) show ?thesis by (intro that(2) [where row = row and rows = rows and e = e]) auto
next
  case (queued rid i stg r d s1 u reason t)
  from queued(8,7) have "s1 = s\<lparr>r_dispatches := r_dispatches s @ [d]\<rparr>" "dispatch_of s rid stg = None"
      "dispatch_indexes_ok (r_dispatches s @ [d])"
    by (auto simp: insert_dispatch_def Let_def dj_key_def split: if_splits)
  with queued show ?thesis by (elim append_event_effect) (rule that(3), auto)
next
  case (moved rid stg d f s1 u reason t)
  from moved(4) have "s1 = s\<lparr>r_dispatches := row_update (\<lambda>d. dj_key d = (rid, stg)) f (r_dispatches s)\<rparr>"
      "dispatch_indexes_ok (r_dispatches s1)"
    by (auto simp: update_dispatch_def Let_def split: if_splits)
  with moved show ?thesis by (elim append_event_effect) (rule that(4), auto)
next
  case (noted rid stg d f)
  from noted(4) have "s' = s\<lparr>r_dispatches := row_update (\<lambda>d. dj_key d = (rid, stg)) f (r_dispatches s)\<rparr>"
      "dispatch_indexes_ok (r_dispatches s')"
    by (auto simp: update_dispatch_def Let_def split: if_splits)
  with noted show ?thesis by (intro that(5))
next
  case (finalized rid i u reason t ref_object_id)
  from finalized(3) show ?thesis by (elim append_event_effect) (rule that(6), use finalized in auto)
next
  case (bootstrapped rid stg r c s1 u reason t)
  from bootstrapped(5,6) have "s1 = s\<lparr>r_bootstraps := r_bootstraps s @ [c]\<rparr>" "bootstrap_of s rid stg = None"
      "lookup_by bc_response_digest (bc_response_digest c) (r_bootstraps s) = None"
    by (auto simp: insert_bootstrap_def bc_key_def lookup_by_None_iff split: if_splits)
  with bootstrapped show ?thesis by (elim append_event_effect) (rule that(7), auto)
next
  case (reserved rid i stg r run att rule now deadline s1 res u reason t)
  from reserved(13) show ?thesis
    by (elim append_event_effect)
      (rule that(8) [where run = run and att = att and rule = rule and res = res and now = now],
        use reserved in auto)
next
  case (transitioned rid stg r to_state u reason t)
  from transitioned(4) show ?thesis
    by (elim append_event_effect) (rule that(9), use transitioned in \<open>auto simp: set_stage_state_def\<close>)
next
  case (concluded rid stg r new uid)
  show ?thesis
    by (rule outcome_writes_effect [OF concluded(10,6)])
      (rule that(10) [where rid = rid and stg = stg and r = r and new = new],
        use concluded in \<open>auto simp: lookup_by_None_iff\<close>)
qed

section \<open>Growth of the event log\<close>

inductive log_grows :: "host \<Rightarrow> event_row list \<Rightarrow> event_row list \<Rightarrow> bool" for H es where
  log_same: "log_grows H es es"
| log_snoc: "log_grows H es fs \<Longrightarrow> new_event H fs e rid stg from_state to_state
    \<Longrightarrow> log_grows H es (fs @ [e])"

lemma log_grows_one: "new_event H es e rid stg f t \<Longrightarrow> log_grows H es (es @ [e])"
  by (rule log_snoc [OF log_same])

lemma log_grows_two:
  assumes "new_event H es e rid stg f t" "new_event H (es @ [e]) e2 rid2 stg2 f2 t2"
  shows "log_grows H es (es @ [e, e2])"
  using log_snoc [OF log_grows_one [OF assms(1)] assms(2)] by simp

lemma reg_change_log:
  assumes "reg_change H s s'"
  shows "log_grows H (r_events s) (r_events s')"
  using assms
proof (cases rule: reg_change_elim)
  case (concluded rid stg r new es)
  from concluded(10) have "st_state r \<in> {Reserved, CallbackUnknown} \<or> st_state r = ApprovedPendingOutcome"
    by simp
  then show ?thesis
  proof
    assume "st_state r \<in> {Reserved, CallbackUnknown}"
    from concluded(11) [OF this] concluded(1) show ?thesis by (auto intro: log_grows_two)
  next
    assume "st_state r = ApprovedPendingOutcome"
    from concluded(12) [OF this] concluded(1) show ?thesis by (auto intro: log_grows_one)
  qed
qed (auto intro: log_grows_one log_same)

lemma log_grows_keys:
  assumes "log_grows H es fs" "keys_distinct ev_event_id es" "keys_distinct ev_event_hash es"
  shows "keys_distinct ev_event_id fs \<and> keys_distinct ev_event_hash fs"
  using assms by induction (simp_all add: new_event_def keys_distinct_snoc lookup_by_None_iff)

lemma log_grows_prefix: "log_grows H es fs \<Longrightarrow> prefix es fs"
  by (induction rule: log_grows.induct) simp_all

lemma event_body_determines:
  assumes "jnorm (event_body e) = jnorm (event_body e')" "ev_event_hash e = ev_event_hash e'"
  shows "e = e'"
proof -
  note eq = assms(1) [unfolded event_body_def]
  have d: "distinct (map fst [(''domain'', JStr ''acik.cross-ai-intent-event.v1''),
     (''eventId'', JStr (ev_event_id x)), (''requestId'', JStr (ev_request_id x)),
     (''stage'', json_opt (ev_stage x)), (''recordedAt'', JStr (ev_recorded_at x)),
     (''fromState'', json_opt (ev_from_state x)), (''toState'', JStr (ev_to_state x)),
     (''reasonCode'', JStr (ev_reason_code x)), (''previousHash'', json_opt (ev_previous_hash x))])" for x
    by simp
  note get = jnorm_get_the [OF eq d d]
  have "ev_event_id e = ev_event_id e'" using get [of "''eventId''"] by simp
  moreover have "ev_request_id e = ev_request_id e'" using get [of "''requestId''"] by simp
  moreover have "ev_stage e = ev_stage e'" using get [of "''stage''"] by simp
  moreover have "ev_recorded_at e = ev_recorded_at e'" using get [of "''recordedAt''"] by simp
  moreover have "ev_from_state e = ev_from_state e'" using get [of "''fromState''"] by simp
  moreover have "ev_to_state e = ev_to_state e'" using get [of "''toState''"] by simp
  moreover have "ev_reason_code e = ev_reason_code e'" using get [of "''reasonCode''"] by simp
  moreover have "ev_previous_hash e = ev_previous_hash e'" using get [of "''previousHash''"] by simp
  ultimately show ?thesis using assms(2) by (simp add: event_row.equality)
qed

interpretation intent_log: hash_log ev_previous_hash ev_event_hash event_body
  by unfold_locales (rule event_body_determines)

lemma log_grows_linked:
  assumes "log_grows H es fs"
    and "linked ev_previous_hash ev_event_hash (\<lambda>e. digest H (event_body e)) None es"
  shows "linked ev_previous_hash ev_event_hash (\<lambda>e. digest H (event_body e)) None fs"
  using assms
  by induction (auto intro: intent_log.linked_append_event simp: new_event_def)

end
