(* ===== verification/IntentSafety.thy ===== *)
theory IntentSafety
  imports IntentInv
begin

text \<open>
  The rest of the registry invariant (bootstrap consumptions, dispatch rows, agreement of the
  event log with the tables) and what it gives for every sequence of operations: the whole
  invariant in every reachable state, and the facts about the past that no operation undoes.
\<close>

section \<open>Bootstrap consumptions and dispatches\<close>

lemma allowed_transition_simps [simp]:
  "Reserved \<notin> set (ALLOWED_STAGE_TRANSITIONS st)"
  "Rejected \<in> set (ALLOWED_STAGE_TRANSITIONS st) \<longleftrightarrow> st = Reserved"
  by (cases st; simp)+

lemma bootstraps_ok_change:
  assumes "reg_change H s s'" "bootstraps_ok s"
  shows "bootstraps_ok s'"
  unfolding bootstraps_ok_def
proof (intro allI impI)
  fix rid stg c assume c: "bootstrap_of s' rid stg = Some c"
  let ?good = "\<lambda>r. st_state r \<notin> {Available, Reserved, Rejected} \<and> st_run_id r = Some (bc_run_id c)
    \<and> st_run_attempt r = Some (bc_run_attempt c)"
  have "\<exists>r. stage_of s rid stg = Some r \<and> ?good r"
  proof (cases "bootstrap_of s rid stg = Some c")
    case True
    with assms(2) show ?thesis by (auto simp: bootstraps_ok_def)
  next
    case False
    from assms(1) c False show ?thesis
      by (cases rule: reg_change_elim) (auto simp: lookup_by_append split: option.splits if_splits)
  qed
  then obtain r where r: "stage_of s rid stg = Some r" "?good r" by blast
  from stage_lookup_kept [OF assms(1) r(1)] obtain r' where
    r': "stage_of s' rid stg = Some r'" "r' = r \<or> stage_move s r r'" by blast
  have "?good r'"
    using r'(2)
  proof
    assume m: "stage_move s r r'"
    with r(2) have "st_state r' \<notin> {Available, Reserved, Rejected}"
      by (auto simp: stage_move_def allowed_targets_def split: if_splits)
    with stage_move_run [OF m] r(2) show ?thesis by auto
  qed (use r(2) in simp)
  with r'(1) show "\<exists>r. stage_of s' rid stg = Some r \<and> ?good r" by blast
qed

lemma dispatch_move_shape: "dispatch_move d d' \<Longrightarrow> dispatch_shape d \<Longrightarrow> dispatch_shape d'"
  by (auto simp: dispatch_move_def dispatch_shape_def split: dispatch_state.splits)

lemma dispatch_note_shape: "dispatch_note d d' \<Longrightarrow> dispatch_shape d \<Longrightarrow> dispatch_shape d'"
  by (auto simp: dispatch_note_def dispatch_shape_def)

lemma fresh_dispatch_shape: "fresh_dispatch d \<Longrightarrow> dispatch_shape d"
  by (simp add: fresh_dispatch_def dispatch_shape_def)

lemma dispatch_lookup_change:
  assumes "reg_change H s s'" "dispatch_of s' rid stg = Some d'"
  shows "dispatch_of s rid stg = Some d'
    \<or> (dispatch_of s rid stg = None \<and> fresh_dispatch d')
    \<or> (\<exists>d. dispatch_of s rid stg = Some d \<and> dispatch_target d' = dispatch_target d
          \<and> (dispatch_move d d' \<or> dispatch_note d d'))"
  using assms(1)
proof (cases rule: reg_change_elim)
  case (queued rid' stg' i r d e)
  note dj = lookup_by_snoc [of dj_key d "r_dispatches s" "(rid, stg)", unfolded queued(8), OF queued(9)]
  from queued(1,7,9) assms(2) dj show ?thesis by (auto split: if_splits)
next
  case (moved rid' stg' d f e)
  from moved(1-4) assms(2) show ?thesis
    by (cases "(rid, stg) = (rid', stg')") (auto simp: lookup_row_update_key keeps_target_def split: if_splits)
next
  case (noted rid' stg' d f)
  from noted(1-4) assms(2) show ?thesis
    by (cases "(rid, stg) = (rid', stg')") (auto simp: lookup_row_update_key keeps_target_def split: if_splits)
qed (use assms(2) in simp_all)

lemma dispatches_ok_change:
  assumes "reg_change H s s'" "dispatches_ok s"
  shows "dispatches_ok s'"
  unfolding dispatches_ok_def
proof (intro allI impI)
  fix rid stg d' assume "dispatch_of s' rid stg = Some d'"
  from dispatch_lookup_change [OF assms(1) this] assms(2) show "dispatch_shape d'"
    by (auto simp: dispatches_ok_def intro: dispatch_move_shape dispatch_note_shape fresh_dispatch_shape)
qed

section \<open>The event log replays to the tables\<close>

text \<open>
  \<open>replay\<close> runs the recorded transitions of one object (the events \<open>p\<close> selects) from a
  start state; an event that does not continue from the current state stops it.
\<close>

fun replay :: "(event_row \<Rightarrow> bool) \<Rightarrow> string option \<Rightarrow> event_row list \<Rightarrow> string option option" where
  "replay p cur [] = Some cur"
| "replay p cur (e # es) =
     (if p e then (if ev_from_state e = cur then replay p (Some (ev_to_state e)) es else None)
      else replay p cur es)"

definition stage_event :: "string \<Rightarrow> string \<Rightarrow> event_row \<Rightarrow> bool" where
  "stage_event rid stg e = (ev_request_id e = rid \<and> ev_stage e = Some stg
     \<and> ev_to_state e \<in> set (map stage_name [Available, Reserved, ApprovedPendingOutcome, Succeeded, Failed,
         OutcomeOverdue, CallbackUnknown, RolledBack, Rejected]))"

definition dispatch_event :: "string \<Rightarrow> string \<Rightarrow> event_row \<Rightarrow> bool" where
  "dispatch_event rid stg e = (ev_request_id e = rid \<and> ev_stage e = Some stg
     \<and> ev_to_state e \<in> set (map dispatch_name [DPending, DSending, DAccepted, DUncertain, DRejected]))"

definition stage_replays :: "registry \<Rightarrow> string \<Rightarrow> string \<Rightarrow> bool" where
  "stage_replays s rid stg = (case stage_of s rid stg of
     Some r \<Rightarrow> replay (stage_event rid stg) (Some (stage_name Available)) (r_events s)
       = Some (Some (stage_name (st_state r)))
   | None \<Rightarrow> list_all (\<lambda>e. \<not> stage_event rid stg e) (r_events s))"

definition dispatch_replays :: "registry \<Rightarrow> string \<Rightarrow> string \<Rightarrow> bool" where
  "dispatch_replays s rid stg = (replay (dispatch_event rid stg) None (r_events s)
     = Some (map_option (\<lambda>d. dispatch_name (dj_state d)) (dispatch_of s rid stg)))"

definition replay_ok :: "registry \<Rightarrow> bool" where
  "replay_ok s = (\<forall>rid stg. stage_replays s rid stg \<and> dispatch_replays s rid stg)"

lemma replay_snoc:
  "replay p cur (es @ [e]) = (case replay p cur es of None \<Rightarrow> None
     | Some c \<Rightarrow> if p e then (if ev_from_state e = c then Some (Some (ev_to_state e)) else None) else Some c)"
  by (induction es arbitrary: cur) auto

lemma replay_skip: "list_all (\<lambda>e. \<not> p e) fs \<Longrightarrow> replay p cur (es @ fs) = replay p cur es"
  by (induction es arbitrary: cur; induction fs) auto

lemma stage_names_all: "stage_name st \<in> set (map stage_name [Available, Reserved, ApprovedPendingOutcome,
    Succeeded, Failed, OutcomeOverdue, CallbackUnknown, RolledBack, Rejected])"
  by (cases st) simp_all

lemma dispatch_names_all:
  "dispatch_name st \<in> set (map dispatch_name [DPending, DSending, DAccepted, DUncertain, DRejected])"
  by (cases st) simp_all

lemma stage_not_dispatch_name: "stage_name st \<noteq> dispatch_name d"
  by (cases st; cases d) simp_all

lemma stage_event_new:
  assumes "new_event H es e rid (Some stg) f (stage_name st)"
  shows "stage_event rid' stg' e \<longleftrightarrow> (rid', stg') = (rid, stg)" "\<not> dispatch_event rid' stg' e"
  using assms stage_names_all [of st] stage_not_dispatch_name [of st]
  by (auto simp: new_event_def stage_event_def dispatch_event_def simp del: stage_name.simps dispatch_name.simps)

lemma dispatch_event_new:
  assumes "new_event H es e rid (Some stg) f (dispatch_name st)"
  shows "dispatch_event rid' stg' e \<longleftrightarrow> (rid', stg') = (rid, stg)" "\<not> stage_event rid' stg' e"
  using assms dispatch_names_all [of st] stage_not_dispatch_name [of _ st, symmetric]
  by (auto simp: new_event_def stage_event_def dispatch_event_def simp del: stage_name.simps dispatch_name.simps)

lemma intent_event_new:
  assumes "new_event H es e rid None f t"
  shows "\<not> stage_event rid' stg' e" "\<not> dispatch_event rid' stg' e"
  using assms by (auto simp: new_event_def stage_event_def dispatch_event_def)

lemma stage_replays_skip:
  assumes "stage_replays s rid stg" "stage_of s' rid stg = stage_of s rid stg"
    and "r_events s' = r_events s @ fs" "list_all (\<lambda>e. \<not> stage_event rid stg e) fs"
  shows "stage_replays s' rid stg"
  using assms by (auto simp: stage_replays_def replay_skip split: option.splits)

lemma stage_replays_step:
  assumes "stage_replays s rid stg" "stage_of s rid stg = Some r" "stage_of s' rid stg = Some r'"
    and "r_events s' = r_events s @ [e]"
    and "new_event H (r_events s) e rid (Some stg) (Some (stage_name (st_state r))) (stage_name (st_state r'))"
  shows "stage_replays s' rid stg"
proof -
  have "ev_from_state e = Some (stage_name (st_state r))" "ev_to_state e = stage_name (st_state r')"
    using assms(5) by (simp_all add: new_event_def)
  with assms(1-4) stage_event_new(1) [OF assms(5)] show ?thesis
    by (simp add: stage_replays_def replay_snoc)
qed

lemma stage_replays_fresh:
  assumes "stage_replays s rid stg" "stage_of s rid stg = None" "stage_of s' rid stg = Some r" "fresh_stage r"
    and "r_events s' = r_events s @ fs" "list_all (\<lambda>e. \<not> stage_event rid stg e) fs"
  shows "stage_replays s' rid stg"
proof -
  from assms(1,2,6) have "list_all (\<lambda>e. \<not> stage_event rid stg e) (r_events s @ fs)"
    by (simp add: stage_replays_def)
  from replay_skip [OF this, of _ "[]"] have
    "replay (stage_event rid stg) (Some (stage_name Available)) (r_events s @ fs) = Some (Some (stage_name Available))"
    by simp
  with assms(3-5) show ?thesis by (simp add: stage_replays_def fresh_stage_def)
qed

text \<open>One event of the stage \<open>(rid', stg')\<close>, seen from any stage.\<close>

lemma stage_replays_event:
  assumes "stage_replays s rid stg" "stage_of s rid' stg' = Some r" "stage_of s' rid' stg' = Some r'"
    and "(rid, stg) \<noteq> (rid', stg') \<Longrightarrow> stage_of s' rid stg = stage_of s rid stg"
    and "r_events s' = r_events s @ [e]"
    and "new_event H (r_events s) e rid' (Some stg') (Some (stage_name (st_state r))) (stage_name (st_state r'))"
  shows "stage_replays s' rid stg"
proof (cases "(rid, stg) = (rid', stg')")
  case True
  with assms show ?thesis by (intro stage_replays_step [of s rid stg r s' r' e H]) simp_all
next
  case False
  with assms(1,4,5) stage_event_new(1) [OF assms(6)] show ?thesis
    by (intro stage_replays_skip [of s rid stg s' "[e]"]) simp_all
qed

lemma stage_replays_change:
  assumes "reg_change H s s'" "stage_replays s rid stg"
  shows "stage_replays s' rid stg"
  using assms(1)
proof (cases rule: reg_change_elim)
  case (registered row rows e)
  have no: "list_all (\<lambda>e. \<not> stage_event rid stg e) [e]" using intent_event_new(1) [OF registered(8)] by simp
  show ?thesis
  proof (cases "stage_of s rid stg = None \<and> lookup_by st_key (rid, stg) rows \<noteq> None")
    case True
    then obtain r where "lookup_by st_key (rid, stg) rows = Some r" by blast
    with True registered(1,6) no assms(2) lookup_by_SomeD [OF this] show ?thesis
      by (intro stage_replays_fresh [of s rid stg s' r "[e]"]) (simp_all add: lookup_by_append)
  next
    case False
    with registered(1) no assms(2) show ?thesis
      by (intro stage_replays_skip [of s rid stg s' "[e]"]) (auto simp: lookup_by_append split: option.splits)
  qed
next
  case (queued rid' stg' i r d e)
  then show ?thesis using assms(2) dispatch_event_new(2) [OF queued(11)]
    by (intro stage_replays_skip [of s rid stg s' "[e]"]) simp_all
next
  case (moved rid' stg' d f e)
  then show ?thesis using assms(2) dispatch_event_new(2) [OF moved(6)]
    by (intro stage_replays_skip [of s rid stg s' "[e]"]) simp_all
next
  case (finalized rid' i ref t e)
  then show ?thesis using assms(2) intent_event_new(1) [OF finalized(4)]
    by (intro stage_replays_skip [of s rid stg s' "[e]"]) simp_all
next
  case (bootstrapped rid' stg' r c e)
  then show ?thesis using assms(2) by (intro stage_replays_event [of s rid stg rid' stg' r s' r e H]) simp_all
next
  case (reserved rid' stg' i r run att rule res now e)
  from reserved(1,4,5,12) assms(2) show ?thesis
    by (intro stage_replays_event [of s rid stg rid' stg' r s' _ e H]) (auto simp: lookup_row_update_key)
next
  case (transitioned rid' stg' r to_state e)
  from transitioned(1,2,5) assms(2) show ?thesis
    by (intro stage_replays_event [of s rid stg rid' stg' r s' _ e H]) (auto simp: lookup_row_update_key)
next
  case (concluded rid' stg' r new es)
  show ?thesis
  proof (cases "st_state r = ApprovedPendingOutcome")
    case True
    from concluded(12) [OF True] obtain e where "es = [e]" "new_event H (r_events s) e rid' (Some stg')
        (Some (stage_name ApprovedPendingOutcome)) (stage_name (so_target_state new))" by blast
    with True concluded(1,2) assms(2) show ?thesis
      by (intro stage_replays_event [of s rid stg rid' stg' r s' _ e H]) (auto simp: lookup_row_update_key)
  next
    case False
    with concluded(10) have "st_state r \<in> {Reserved, CallbackUnknown}" by simp
    from concluded(11) [OF this] obtain e1 e2 where es: "es = [e1, e2]"
      and e1: "new_event H (r_events s) e1 rid' (Some stg') (Some (stage_name (st_state r)))
             (stage_name ApprovedPendingOutcome)"
      and e2: "new_event H (r_events s @ [e1]) e2 rid' (Some stg') (Some (stage_name ApprovedPendingOutcome))
             (stage_name (so_target_state new))" by blast
    let ?m = "(set_stage rid' stg' (\<lambda>r. r\<lparr>st_state := ApprovedPendingOutcome\<rparr>) s)\<lparr>r_events := r_events s @ [e1]\<rparr>"
    have "stage_replays ?m rid stg"
      using concluded(2) e1 assms(2)
      by (intro stage_replays_event [of s rid stg rid' stg' r ?m _ e1 H]) (auto simp: lookup_row_update_key)
    then show ?thesis
      using concluded(1,2) es e2
      by (intro stage_replays_event [of ?m rid stg rid' stg' _ s' _ e2 H]) (auto simp: lookup_row_update_key)
  qed
qed (use assms(2) in \<open>auto simp: stage_replays_def split: option.splits\<close>)

lemma dispatch_replays_skip:
  assumes "dispatch_replays s rid stg" "dispatch_of s' rid stg = dispatch_of s rid stg"
    and "r_events s' = r_events s @ fs" "list_all (\<lambda>e. \<not> dispatch_event rid stg e) fs"
  shows "dispatch_replays s' rid stg"
  using assms by (simp add: dispatch_replays_def replay_skip)

lemma dispatch_replays_event:
  assumes "dispatch_replays s rid stg" "dispatch_of s' rid' stg' = Some d'"
    and "(rid, stg) \<noteq> (rid', stg') \<Longrightarrow> dispatch_of s' rid stg = dispatch_of s rid stg"
    and "r_events s' = r_events s @ [e]"
    and ev: "new_event H (r_events s) e rid' (Some stg')
      (map_option (\<lambda>d. dispatch_name (dj_state d)) (dispatch_of s rid' stg')) (dispatch_name (dj_state d'))"
  shows "dispatch_replays s' rid stg"
proof (cases "(rid, stg) = (rid', stg')")
  case True
  from ev have "ev_from_state e = map_option (\<lambda>d. dispatch_name (dj_state d)) (dispatch_of s rid' stg')"
      "ev_to_state e = dispatch_name (dj_state d')" by (simp_all add: new_event_def)
  with True assms(1,2,4) dispatch_event_new(1) [OF ev] show ?thesis
    by (simp add: dispatch_replays_def replay_snoc)
next
  case False
  with assms(1,3,4) dispatch_event_new(1) [OF ev] show ?thesis
    by (intro dispatch_replays_skip [of s rid stg s' "[e]"]) simp_all
qed

lemma dispatch_replays_change:
  assumes "reg_change H s s'" "dispatch_replays s rid stg"
  shows "dispatch_replays s' rid stg"
  using assms(1)
proof (cases rule: reg_change_elim)
  case (registered row rows e)
  then show ?thesis using assms(2) intent_event_new(2) [OF registered(8)]
    by (intro dispatch_replays_skip [of s rid stg s' "[e]"]) simp_all
next
  case (queued rid' stg' i r d e)
  note dj = lookup_by_snoc [of dj_key d "r_dispatches s", unfolded queued(8), OF queued(9)]
  have "dj_state d = DPending" using queued(7) by (simp add: fresh_dispatch_def)
  with queued(1,9,11) assms(2) show ?thesis
    by (intro dispatch_replays_event [where s = s and s' = s' and rid' = rid' and stg' = stg' and d' = d and e = e and H = H])
      (simp_all add: dj)
next
  case (moved rid' stg' d f e)
  from moved(1,2,6) keeps_target_key [OF moved(3)] assms(2) show ?thesis
    by (intro dispatch_replays_event [where s = s and s' = s' and rid' = rid' and stg' = stg' and d' = "f d" and e = e and H = H]) (auto simp: lookup_row_update_key)
next
  case (noted rid' stg' d f)
  from noted(1,2,4) keeps_target_key [OF noted(3)] assms(2) show ?thesis
    by (cases "(rid, stg) = (rid', stg')")
      (auto simp: dispatch_replays_def lookup_row_update_key dispatch_note_def)
next
  case (finalized rid' i ref t e)
  then show ?thesis using assms(2) intent_event_new(2) [OF finalized(4)]
    by (intro dispatch_replays_skip [of s rid stg s' "[e]"]) simp_all
next
  case (bootstrapped rid' stg' r c e)
  then show ?thesis using assms(2) stage_event_new(2) [OF bootstrapped(9)]
    by (intro dispatch_replays_skip [of s rid stg s' "[e]"]) simp_all
next
  case (reserved rid' stg' i r run att rule res now e)
  from reserved(1) assms(2) stage_event_new(2) [OF reserved(12)] show ?thesis
    by (intro dispatch_replays_skip [of s rid stg s' "[e]"]) simp_all
next
  case (transitioned rid' stg' r to_state e)
  from transitioned(1) assms(2) stage_event_new(2) [OF transitioned(5)] show ?thesis
    by (intro dispatch_replays_skip [of s rid stg s' "[e]"]) simp_all
next
  case (concluded rid' stg' r new es)
  have "list_all (\<lambda>e. \<not> dispatch_event rid stg e) es"
  proof (cases "st_state r = ApprovedPendingOutcome")
    case True
    from concluded(12) [OF True] show ?thesis by (auto dest: stage_event_new(2))
  next
    case False
    with concluded(10) have "st_state r \<in> {Reserved, CallbackUnknown}" by simp
    from concluded(11) [OF this] show ?thesis
      by (elim exE conjE) (drule stage_event_new(2) [where rid' = rid and stg' = stg], drule stage_event_new(2)
          [where rid' = rid and stg' = stg], simp)
  qed
  with concluded(1) assms(2) show ?thesis
    by (intro dispatch_replays_skip [of s rid stg s' es]) simp_all
qed (use assms(2) in \<open>simp_all add: dispatch_replays_def\<close>)

lemma replay_ok_change: "reg_change H s s' \<Longrightarrow> replay_ok s \<Longrightarrow> replay_ok s'"
  by (simp add: replay_ok_def stage_replays_change dispatch_replays_change)

section \<open>The content store\<close>

text \<open>
  Every object of the store is the canonical form of a value whose digest is its name, and the
  objects the tables refer to are there.
\<close>

definition cas_ok :: "host \<Rightarrow> registry \<Rightarrow> bool" where
  "cas_ok H s = ((\<forall>hex raw. map_of (r_cas s) hex = Some raw \<longrightarrow>
       (\<exists>v. canonical_bytes v = Inr raw \<and> digest H v = Inr (''sha256:'' @ hex)))
     \<and> (\<forall>i \<in> set (r_intents s). stored_digest (r_cas s) (in_bundle_digest i))
     \<and> (\<forall>x \<in> set (r_outcomes s). stored_digest (r_cas s) (so_outcome_digest x)))"

lemma cas_hex_name:
  assumes "cas_hex d = Inr hex"
  shows "d = ''sha256:'' @ hex"
proof -
  from assms have "take 7 d = ''sha256:''" "hex = drop 7 d"
    by (auto simp: cas_hex_def startswith_def eval_nat_numeral split: if_splits)
  then show ?thesis by (simp only: append_take_drop_id flip: \<open>take 7 d = ''sha256:''\<close>)
qed

lemma put_json_effect:
  assumes "put_json H v d c = Inr c'"
  obtains hex raw where "canonical_bytes v = Inr raw" "digest H v = Inr d" "cas_hex d = Inr hex"
    "map_of c' = (map_of c)(hex \<mapsto> raw)" "map_of c hex = None \<or> map_of c hex = Some raw"
proof -
  from assms obtain raw hex where r: "canonical_bytes v = Inr raw" "digest H v = Inr d" "cas_hex d = Inr hex"
      and c: "(case map_of c hex of Some existing \<Rightarrow>
         if \<not> h_readable H hex then reject ''CAS_UNAVAILABLE''
         else if existing \<noteq> raw then reject ''CAS_OBJECT_COLLISION''
         else Inr c
     | None \<Rightarrow> if \<not> h_writable H hex then reject ''CAS_UNAVAILABLE'' else Inr ((hex, raw) # c)) = Inr c'"
    by (auto simp: put_json_def bindE_Inr_iff split: if_splits)
  from c have "map_of c' = (map_of c)(hex \<mapsto> raw) \<and> (map_of c hex = None \<or> map_of c hex = Some raw)"
    by (auto simp: fun_upd_idem split: option.splits if_splits)
  with r that show ?thesis by blast
qed

lemma stored_digest_mono: "stored_digest c d \<Longrightarrow> map_of c' = (map_of c)(hex \<mapsto> raw) \<Longrightarrow> stored_digest c' d"
  by (auto simp: stored_digest_def split: sum.splits)

lemma cas_ok_change:
  assumes "reg_change H s s'" "cas_ok H s"
  shows "cas_ok H s'"
  using assms(1)
proof (cases rule: reg_change_elim)
  case (stored v d c)
  from stored(1) obtain hex raw where e: "canonical_bytes v = Inr raw" "digest H v = Inr d"
    "cas_hex d = Inr hex" "map_of c = (map_of (r_cas s))(hex \<mapsto> raw)" by (rule put_json_effect)
  have "\<exists>v. canonical_bytes v = Inr r \<and> digest H v = Inr (''sha256:'' @ h)"
    if "map_of (r_cas s') h = Some r" for h r
    using that assms(2) e(1,2) cas_hex_name [OF e(3)] stored(2) e(4)
    by (auto simp: cas_ok_def split: if_splits)
  with assms(2) stored(2) stored_digest_mono [OF _ e(4)] show ?thesis by (simp add: cas_ok_def)
next
  case (finalized rid i ref t e)
  with assms(2) show ?thesis
    by (auto simp: cas_ok_def elim!: in_row_update)
qed (use assms(2) in \<open>auto simp: cas_ok_def\<close>)

section \<open>Every reachable registry\<close>

definition reg_inv :: "host \<Rightarrow> registry \<Rightarrow> bool" where
  "reg_inv H s = (keys_ok s \<and> refs_ok s \<and> indexes_ok s \<and> reservations_ok s \<and> outcomes_ok s \<and> order_ok s
     \<and> bootstraps_ok s \<and> dispatches_ok s \<and> chain_ok H s \<and> replay_ok s \<and> cas_ok H s)"

lemma reg_inv_empty: "reg_inv H empty_registry"
  by (simp add: reg_inv_def keys_ok_def refs_ok_def indexes_ok_def stage_indexes_ok_def
      dispatch_indexes_ok_def unique_some_def reservations_ok_def outcomes_ok_def order_ok_def
      bootstraps_ok_def dispatches_ok_def chain_ok_def replay_ok_def stage_replays_def
      dispatch_replays_def cas_ok_def empty_registry_def)

lemma reg_inv_change: "reg_inv H s \<Longrightarrow> reg_change H s s' \<Longrightarrow> reg_inv H s'"
  unfolding reg_inv_def
  by (intro conjI) (auto intro: keys_ok_change refs_ok_change indexes_ok_change reservations_ok_change
      outcomes_ok_change order_ok_change bootstraps_ok_change dispatches_ok_change chain_ok_change
      replay_ok_change cas_ok_change)

interpretation changes: invariant_system "reg_change H" "\<lambda>s. s = empty_registry" "reg_inv H" for H
  by unfold_locales (auto simp: reg_inv_empty intro: reg_inv_change)

lemma reg_op_changes: "reg_inv H s \<Longrightarrow> reg_op H s s' \<Longrightarrow> reg_changes H s s'"
  by (rule reg_op_refines) (simp_all add: reg_inv_def keys_ok_def)

interpretation ops: invariant_system "reg_op H" "\<lambda>s. s = empty_registry" "reg_inv H" for H
  by unfold_locales (auto simp: reg_inv_empty dest: reg_op_changes intro: changes.inv_steps)

abbreviation reachable :: "host \<Rightarrow> registry \<Rightarrow> bool" where
  "reachable H s \<equiv> (reg_op H)\<^sup>*\<^sup>* empty_registry s"

lemma reachable_inv: "reachable H s \<Longrightarrow> reg_inv H s"
  by (rule ops.inv_reachable) simp_all

text \<open>What one change keeps, every sequence of operations keeps.\<close>

lemma ops_monotone:
  assumes "(reg_op H)\<^sup>*\<^sup>* s t" "reg_inv H s"
    and "\<And>x. R x x" "\<And>x y z. R x y \<Longrightarrow> R y z \<Longrightarrow> R x z"
    and "\<And>x y. reg_inv H x \<Longrightarrow> reg_change H x y \<Longrightarrow> R x y"
  shows "R s t"
proof (rule ops.monotone_steps [OF assms(1,2)])
  fix x y assume x: "reg_inv H x" "reg_op H x y"
  from reg_op_changes [OF this] x(1) show "R x y"
    by (rule changes.monotone_steps) (use assms(3-5) in blast)+
qed (use assms(3,4) in blast)+

lemma reachable_trans: "reachable H s \<Longrightarrow> (reg_op H)\<^sup>*\<^sup>* s t \<Longrightarrow> reachable H t"
  by (rule rtranclp_trans)

text \<open>What no operation undoes, for one stage row.\<close>

definition stage_frozen :: "stage_row \<Rightarrow> stage_row \<Rightarrow> bool" where
  "stage_frozen r r' =
     (st_request_id r' = st_request_id r \<and> st_repository_id r' = st_repository_id r
      \<and> st_environment r' = st_environment r \<and> st_stage r' = st_stage r
      \<and> st_stage_order r' = st_stage_order r \<and> st_nonce_digest r' = st_nonce_digest r
      \<and> st_workflow_path r' = st_workflow_path r \<and> st_workflow_blob_digest r' = st_workflow_blob_digest r
      \<and> (st_state r \<noteq> Available \<longrightarrow> st_state r' \<noteq> Available \<and> st_run_id r' = st_run_id r
           \<and> st_run_attempt r' = st_run_attempt r \<and> st_app_rule_id r' = st_app_rule_id r
           \<and> st_reservation_id r' = st_reservation_id r
           \<and> st_reservation_expires_at r' = st_reservation_expires_at r)
      \<and> (st_state r \<in> {Succeeded, Failed, RolledBack, Rejected} \<longrightarrow> r' = r))"

lemma stage_frozen_refl: "stage_frozen r r"
  by (simp add: stage_frozen_def)

lemma stage_frozen_trans: "stage_frozen a b \<Longrightarrow> stage_frozen b c \<Longrightarrow> stage_frozen a c"
  unfolding stage_frozen_def by metis

lemma stage_move_frozen: "stage_move s r r' \<Longrightarrow> stage_frozen r r'"
  using stage_move_terminal [of s r r'] stage_move_states(1) [of s r r']
  by (cases "st_state r = Available") (auto simp: stage_frozen_def reserve_row_def elim: stage_move_reserve stage_move_active)

lemma stage_frozen_ops:
  assumes "(reg_op H)\<^sup>*\<^sup>* s t" "reg_inv H s" "stage_of s rid stg = Some r"
  obtains r' where "stage_of t rid stg = Some r'" "stage_frozen r r'"
proof -
  let ?R = "\<lambda>s t. \<forall>r. stage_of s rid stg = Some r \<longrightarrow>
    (\<exists>r'. stage_of t rid stg = Some r' \<and> stage_frozen r r')"
  have "?R s t"
  proof (rule ops_monotone [OF assms(1,2)])
    fix x y assume "reg_change H x y"
    then show "?R x y" by (metis stage_lookup_kept stage_move_frozen stage_frozen_refl)
  qed (blast intro: stage_frozen_refl stage_frozen_trans)+
  with assms(3) that show ?thesis by blast
qed

end
