(* ===== verification/Scenario.thy ===== *)
theory Scenario
  imports IntentSafety
begin

text \<open>
  A concrete run of the registry on which the properties are instantiated: one signed intent
  is registered, finalized, dispatched and reserved, its apply stage approved and its outcome
  recorded. The runtime is a small executable one; its hash is the length of the text.
\<close>

definition toy_sha :: sha where
  "toy_sha b = (let n = length b in replicate 60 (CHR ''0'') @
     [hex_char (n div 4096 mod 16), hex_char (n div 256 mod 16), hex_char (n div 16 mod 16), hex_char (n mod 16)])"

definition toy_host :: host where
  "toy_host = \<lparr>h_sha = toy_sha,
     h_iso = (\<lambda>t. if t = ''2001-01-01T00:00:00+00:00'' then Some (978307200000000, Some 0) else None),
     h_b64decode = (\<lambda>s. Some s), h_json_loads = (\<lambda>_. None), h_ed25519 = (\<lambda>_ _ _. True),
     h_schema = (\<lambda>_ _. True), h_readable = (\<lambda>_. True), h_writable = (\<lambda>_. True)\<rparr>"

text \<open>2001-01-01T00:00:00Z, in microseconds.\<close>

definition t0 :: datetime where
  "t0 = 978307200000000"

definition toy_digest :: "char \<Rightarrow> string" where
  "toy_digest c = ''sha256:'' @ replicate 64 c"

definition toy_subject :: subject where
  "toy_subject = \<lparr>sj_raw = JNull, sj_repositoryId = 7, sj_repository = ''o/r'',
     sj_headSha = replicate 40 (CHR ''a''), sj_intentRef = ''refs/i'', sj_environment = ''prod'',
     sj_deploymentClass = ''standard'', sj_policySha256 = toy_digest (CHR ''1''),
     sj_artifactSetSha256 = toy_digest (CHR ''2''), sj_rollbackPlanSha256 = toy_digest (CHR ''3''),
     sj_postDeployVerifierSha256 = toy_digest (CHR ''4''), sj_runnerPolicySha256 = toy_digest (CHR ''5''),
     sj_runnerAdmissionLeaseSha256 = toy_digest (CHR ''6''),
     sj_bootstrapCredentialSha256 = toy_digest (CHR ''7''), sj_sessionSha256 = toy_digest (CHR ''8''),
     sj_endpointIdSha256 = toy_digest (CHR ''9''), sj_operatorIdSha256 = toy_digest (CHR ''a'')\<rparr>"

definition toy_grant :: grant where
  "toy_grant = \<lparr>gr_raw = JNull, gr_requestId = ''q'', gr_deploymentSessionId = ''d'',
     gr_stageNonceSha256 = [(''apply'', JStr ''n1''), (''browser-evidence'', JStr ''n2''),
       (''compensating-rollback'', JStr ''n3'')], gr_triggeringActorId = 5,
     gr_registrationPrincipal = ''spiffe://c'', gr_notBefore = JNull, gr_expiresAt = JNull\<rparr>"

definition toy_stage :: "string \<Rightarrow> int \<Rightarrow> workflow_stage" where
  "toy_stage stg k = \<lparr>ws_stage = stg, ws_order = k, ws_dependsOn = None, ws_dependsOnFailure = None,
     ws_workflowPath = ''w.yml'', ws_workflowBlobSha256 = toy_digest (CHR ''b''),
     ws_dependencyLockSha256 = toy_digest (CHR ''c''), ws_concurrencyGroupSha256 = toy_digest (CHR ''d''),
     ws_runsOnLabels = [''x''], ws_runnerGroup = True\<rparr>"

definition toy_payload :: bundle_payload where
  "toy_payload = \<lparr>bd_bundleId = ''b'', bd_subject = toy_subject, bd_stages_raw = JNull,
     bd_workflowStages = [toy_stage ''apply'' 1, toy_stage ''browser-evidence'' 2,
       toy_stage ''compensating-rollback'' 3],
     bd_leaseEnvelope = JNull, bd_reviewEnvelopes = [], bd_closure = [], bd_closureRootSha256 = '''',
     bd_consensus_providerFamilies = [], bd_consensus_finalAgree = [],
     bd_consensus_closureRootSha256 = '''', bd_grant = toy_grant\<rparr>"

definition toy_key :: trust_key where
  "toy_key = \<lparr>tk_key_id = ''k'', tk_role = ''coordinator'', tk_public_key = ''p'', tk_provider_family = None,
     tk_allowed_channels = [], tk_allowed_model_ids = [], tk_allowed_model_identity_classes = [],
     tk_direct_provider_cli = None, tk_not_before = t0, tk_not_after = t0 + minutes 120\<rparr>"

definition toy_lease :: verified_lease where
  "toy_lease = \<lparr>vl_digest = toy_digest (CHR ''6''), vl_payload = \<lparr>ls_obj = [], ls_leaseId = ''l'',
       ls_issuedAt = JNull, ls_expiresAt = JNull, ls_eligibleRunners = [],
       ls_inventoryGenerationSha256 = ''''\<rparr>,
     vl_key = toy_key, vl_issued_at = t0, vl_expires_at = t0 + minutes 60\<rparr>"

definition toy_envelope :: json where
  "toy_envelope = JObj [(''e'', JInt 1)]"

definition toy_bundle :: verified_bundle where
  "toy_bundle = \<lparr>vb_bundle_id = ''b'', vb_bundle_digest = ''sha256:'' @ toy_sha [CHR 0x7B, CHR 0x22, CHR ''e'', CHR 0x22, CHR '':'', CHR ''1'', CHR 0x7D],
     vb_subject_digest = toy_digest (CHR ''e''), vb_request_id = ''q'',
     vb_session_digest = toy_digest (CHR ''8''), vb_expires_at = t0 + minutes 60,
     vb_provider_families = [], vb_provider_identity_classes = [], vb_final_review_digests = [],
     vb_coordinator_key_id = ''k'', vb_runner_admission_lease = toy_lease, vb_payload = toy_payload\<rparr>"

text \<open>Fresh identifiers: the \<open>n\<close>-th draw of the \<open>k\<close>-th operation.\<close>

definition toy_uid :: "nat \<Rightarrow> nat \<Rightarrow> string" where
  "toy_uid k n = replicate (3 * k + n) (CHR ''u'')"

definition toy_registered :: registry where
  "toy_registered = snd (register toy_host (toy_uid 1) toy_envelope toy_bundle ''spiffe://c'' t0 empty_registry)"

definition toy_finalized :: registry where
  "toy_finalized = snd (finalize_ref toy_host (toy_uid 2) ''q'' (replicate 40 (CHR ''b''))
     (replicate 40 (CHR ''a'')) t0 toy_registered)"

definition toy_queued :: registry where
  "toy_queued = snd (queue_dispatch toy_host (toy_uid 3) ''q'' ''apply'' 2 ''o/r'' t0 toy_finalized)"

definition toy_claimed :: registry where
  "toy_claimed = snd (claim_dispatch toy_host (toy_uid 4) ''q'' ''apply'' t0 toy_queued)"

definition toy_watermarked :: registry where
  "toy_watermarked = snd (record_dispatch_watermark ''q'' ''apply'' 10 t0 toy_claimed)"

definition toy_accepted :: registry where
  "toy_accepted = snd (reconcile_dispatch toy_host (toy_uid 5) ''q'' ''apply'' 11 t0 toy_watermarked)"

definition toy_reserved :: registry where
  "toy_reserved = snd (reserve_stage toy_host (toy_uid 6) ''q'' ''apply'' 11 1 3 t0 toy_accepted)"

definition toy_approved :: registry where
  "toy_approved = snd (transition_stage toy_host (toy_uid 7) ''q'' ''apply'' ApprovedPendingOutcome ''OK'' t0
     toy_reserved)"

definition toy_bootstrapped :: registry where
  "toy_bootstrapped = snd (consume_bootstrap toy_host (toy_uid 8) ''q'' ''apply'' 11 1 4
     (toy_digest (CHR ''f'')) t0 toy_approved)"

definition toy_outcome :: "(string \<times> json) list" where
  "toy_outcome = [(''schemaVersion'', JStr ''acik.cross-ai-deployment-stage-outcome.v1''),
     (''requestId'', JStr ''q''), (''stage'', JStr ''apply''), (''runId'', JInt 11), (''runAttempt'', JInt 1),
     (''sourceArtifactName'', JStr ''cross-ai-stage-outcome-q-apply-11-1''),
     (''conclusion'', JStr ''success''), (''sourceArchiveSha256'', JStr (toy_digest (CHR ''0''))),
     (''repositoryId'', JInt 7), (''repository'', JStr ''o/r''), (''environment'', JStr ''prod''),
     (''headSha'', JStr (replicate 40 (CHR ''a''))), (''intentRef'', JStr ''refs/i''),
     (''sessionSha256'', JStr (toy_digest (CHR ''8''))),
     (''workflowBlobSha256'', JStr (toy_digest (CHR ''b''))),
     (''artifactSetSha256'', JStr (toy_digest (CHR ''2''))),
     (''rollbackPlanSha256'', JStr (toy_digest (CHR ''3''))),
     (''postDeployVerifierSha256'', JStr (toy_digest (CHR ''4'')))]"

definition toy_outcome_digest :: string where
  "toy_outcome_digest = (case digest toy_host (JObj toy_outcome) of Inl _ \<Rightarrow> '''' | Inr d \<Rightarrow> d)"

definition toy_done :: registry where
  "toy_done = snd (record_stage_outcome toy_host (toy_uid 9) ''q'' ''apply'' 11 1 toy_outcome
     toy_outcome_digest Succeeded t0 toy_bootstrapped)"

text \<open>
  The registry after each operation, evaluated once. Every equation is also the code equation
  of its registry, so that the next evaluation starts from the tables and not from the beginning;
  the rows are literal for that reason.
\<close>

abbreviation lit_intent :: "string option \<Rightarrow> stamp option \<Rightarrow> intent_state \<Rightarrow> intent_row" where
  "lit_intent ref fin st \<equiv> \<lparr>in_request_id = ''q'',
     in_bundle_digest = ''sha256:0000000000000000000000000000000000000000000000000000000000000007'',
     in_subject_digest = ''sha256:eeeeeeeeeeeeeeeeeeeeeeeeeeeeeeeeeeeeeeeeeeeeeeeeeeeeeeeeeeeeeeee'',
     in_grant_digest = ''sha256:0000000000000000000000000000000000000000000000000000000000000004'',
     in_repository_id = 7, in_repository = ''o/r'', in_environment = ''prod'',
     in_head_sha = ''aaaaaaaaaaaaaaaaaaaaaaaaaaaaaaaaaaaaaaaa'', in_intent_ref = ''refs/i'',
     in_session_digest = ''sha256:8888888888888888888888888888888888888888888888888888888888888888'',
     in_artifact_set_digest = ''sha256:2222222222222222222222222222222222222222222222222222222222222222'',
     in_rollback_plan_digest = ''sha256:3333333333333333333333333333333333333333333333333333333333333333'',
     in_post_deploy_verifier_digest = ''sha256:4444444444444444444444444444444444444444444444444444444444444444'',
     in_expires_at = 978310800, in_registration_principal = ''spiffe://c'', in_triggering_actor_id = Some 5,
     in_registered_at = 978307200, in_ref_object_id = ref, in_finalized_at = fin, in_state = st\<rparr>"

abbreviation lit_row :: "string \<Rightarrow> int \<Rightarrow> string \<Rightarrow> stage_state \<Rightarrow> int option \<Rightarrow> int option \<Rightarrow> int option
    \<Rightarrow> string option \<Rightarrow> stamp option \<Rightarrow> stage_row" where
  "lit_row stg k nonce st run att rule res expires \<equiv> \<lparr>st_request_id = ''q'', st_repository_id = 7,
     st_environment = ''prod'', st_stage = stg, st_stage_order = k, st_nonce_digest = nonce,
     st_workflow_path = Some ''w.yml'',
     st_workflow_blob_digest = ''sha256:bbbbbbbbbbbbbbbbbbbbbbbbbbbbbbbbbbbbbbbbbbbbbbbbbbbbbbbbbbbbbbbb'',
     st_state = st, st_run_id = run, st_run_attempt = att, st_app_rule_id = rule,
     st_reservation_id = res, st_reservation_expires_at = expires\<rparr>"

abbreviation lit_apply :: "stage_state \<Rightarrow> stage_row" where
  "lit_apply st \<equiv> lit_row ''apply'' 1 ''n1'' st (Some 11) (Some 1) (Some 3) (Some ''uuuuuuuuuuuuuuuuuu'') (Some 978309000)"

abbreviation lit_idle :: "string \<Rightarrow> int \<Rightarrow> string \<Rightarrow> stage_row" where
  "lit_idle stg k nonce \<equiv> lit_row stg k nonce Available None None None None None"

abbreviation lit_dispatch :: "dispatch_state \<Rightarrow> stamp option \<Rightarrow> stamp option \<Rightarrow> int option \<Rightarrow> stamp option
    \<Rightarrow> string option \<Rightarrow> int option \<Rightarrow> dispatch_job" where
  "lit_dispatch st claimed snapshot watermark resolved reason run \<equiv> \<lparr>dj_request_id = ''q'', dj_stage = ''apply'',
     dj_installation_id = 2, dj_repository_id = Some 7, dj_repository = ''o/r'', dj_workflow_path = ''w.yml'',
     dj_intent_ref = Some ''refs/i'', dj_head_sha = Some ''aaaaaaaaaaaaaaaaaaaaaaaaaaaaaaaaaaaaaaaa'',
     dj_expected_actor_id = 5,
     dj_correlation_key = Some ''sha256:00000000000000000000000000000000000000000000000000000000000000cb'',
     dj_state = st, dj_queued_at = 978307200, dj_claimed_at = claimed, dj_snapshot_at = snapshot,
     dj_watermark = watermark, dj_resolved_at = resolved, dj_http_status = None, dj_reason_code = reason,
     dj_run_id = run\<rparr>"

abbreviation lit_event :: "string \<Rightarrow> string option \<Rightarrow> string option \<Rightarrow> string \<Rightarrow> string \<Rightarrow> string option
    \<Rightarrow> string \<Rightarrow> event_row" where
  "lit_event u stg from_state to_state reason prev hash \<equiv> \<lparr>ev_event_id = u, ev_request_id = ''q'',
     ev_stage = stg, ev_recorded_at = ''2001-01-01T00:00:00Z'', ev_from_state = from_state,
     ev_to_state = to_state, ev_reason_code = reason, ev_previous_hash = prev, ev_event_hash = hash\<rparr>"

abbreviation lit_event1 :: event_row where
  "lit_event1 \<equiv> lit_event ''uuu'' None None ''Registered'' ''SIGNED_INTENT_REGISTERED''
     None
     ''sha256:00000000000000000000000000000000000000000000000000000000000000df''"

abbreviation lit_event2 :: event_row where
  "lit_event2 \<equiv> lit_event ''uuuuuu'' None (Some ''Registered'') ''Finalized'' ''IMMUTABLE_REF_VERIFIED''
     (Some ''sha256:00000000000000000000000000000000000000000000000000000000000000df'')
     ''sha256:000000000000000000000000000000000000000000000000000000000000012c''"

abbreviation lit_event3 :: event_row where
  "lit_event3 \<equiv> lit_event ''uuuuuuuuu'' (Some ''apply'') None ''DispatchPending'' ''SIGNED_STAGE_DISPATCH_QUEUED''
     (Some ''sha256:000000000000000000000000000000000000000000000000000000000000012c'')
     ''sha256:0000000000000000000000000000000000000000000000000000000000000136''"

abbreviation lit_event4 :: event_row where
  "lit_event4 \<equiv> lit_event ''uuuuuuuuuuuu'' (Some ''apply'') (Some ''DispatchPending'') ''DispatchSending'' ''DISPATCH_DURABLY_CLAIMED''
     (Some ''sha256:0000000000000000000000000000000000000000000000000000000000000136'')
     ''sha256:0000000000000000000000000000000000000000000000000000000000000142''"

abbreviation lit_event5 :: event_row where
  "lit_event5 \<equiv> lit_event ''uuuuuuuuuuuuuuu'' (Some ''apply'') (Some ''DispatchSending'') ''DispatchAccepted'' ''DISPATCH_RECONCILED_LIVE_RUN''
     (Some ''sha256:0000000000000000000000000000000000000000000000000000000000000142'')
     ''sha256:000000000000000000000000000000000000000000000000000000000000014a''"

abbreviation lit_event6 :: event_row where
  "lit_event6 \<equiv> lit_event ''uuuuuuuuuuuuuuuuuuu'' (Some ''apply'') (Some ''Available'') ''Reserved'' ''STAGE_GRANT_RESERVED''
     (Some ''sha256:000000000000000000000000000000000000000000000000000000000000014a'')
     ''sha256:0000000000000000000000000000000000000000000000000000000000000138''"

abbreviation lit_event7 :: event_row where
  "lit_event7 \<equiv> lit_event ''uuuuuuuuuuuuuuuuuuuuu'' (Some ''apply'') (Some ''Reserved'') ''ApprovedPendingOutcome'' ''OK''
     (Some ''sha256:0000000000000000000000000000000000000000000000000000000000000138'')
     ''sha256:0000000000000000000000000000000000000000000000000000000000000135''"

abbreviation lit_event8 :: event_row where
  "lit_event8 \<equiv> lit_event ''uuuuuuuuuuuuuuuuuuuuuuuu'' (Some ''apply'') (Some ''ApprovedPendingOutcome'') ''ApprovedPendingOutcome'' ''RUNNER_BOOTSTRAP_CONSUMED''
     (Some ''sha256:0000000000000000000000000000000000000000000000000000000000000135'')
     ''sha256:000000000000000000000000000000000000000000000000000000000000015d''"

abbreviation lit_cas :: "(string \<times> string) list" where
  "lit_cas \<equiv> [(''0000000000000000000000000000000000000000000000000000000000000007'',
     [CHR 0x7B, CHR 0x22, CHR ''e'', CHR 0x22, CHR '':'', CHR ''1'', CHR 0x7D])]"

abbreviation lit_registry :: "intent_row \<Rightarrow> stage_row \<Rightarrow> dispatch_job list \<Rightarrow> event_row list \<Rightarrow> bootstrap_row list
    \<Rightarrow> registry" where
  "lit_registry i r d e b \<equiv> \<lparr>r_intents = [i], r_stages = [r, lit_idle ''browser-evidence'' 2 ''n2'',
     lit_idle ''compensating-rollback'' 3 ''n3''], r_dispatches = d, r_events = e, r_outcomes = [],
     r_bootstraps = b, r_cas = lit_cas\<rparr>"

abbreviation lit_final :: intent_row where
  "lit_final \<equiv> lit_intent (Some ''bbbbbbbbbbbbbbbbbbbbbbbbbbbbbbbbbbbbbbbb'') (Some 978307200) Finalized"

lemma toy_registered_eq [code]: "toy_registered = lit_registry (lit_intent None None Registered) (lit_idle ''apply'' 1 ''n1'') [] [lit_event1] []"
  by code_simp

lemma toy_finalized_eq [code]: "toy_finalized = lit_registry lit_final (lit_idle ''apply'' 1 ''n1'') [] [lit_event1, lit_event2] []"
  by code_simp

lemma toy_queued_eq [code]: "toy_queued = lit_registry lit_final (lit_idle ''apply'' 1 ''n1'') [lit_dispatch DPending None None None None None None]
  [lit_event1, lit_event2, lit_event3] []"
  by code_simp

lemma toy_claimed_eq [code]: "toy_claimed = lit_registry lit_final (lit_idle ''apply'' 1 ''n1'') [lit_dispatch DSending (Some 978307200) None None None None None]
  [lit_event1, lit_event2, lit_event3, lit_event4] []"
  by code_simp

lemma toy_watermarked_eq [code]: "toy_watermarked = lit_registry lit_final (lit_idle ''apply'' 1 ''n1'')
  [lit_dispatch DSending (Some 978307200) (Some 978307200) (Some 10) None None None] [lit_event1, lit_event2, lit_event3, lit_event4] []"
  by code_simp

lemma toy_accepted_eq [code]: "toy_accepted = lit_registry lit_final (lit_idle ''apply'' 1 ''n1'')
  [lit_dispatch DAccepted (Some 978307200) (Some 978307200) (Some 10) (Some 978307200) (Some ''DISPATCH_RECONCILED_LIVE_RUN'') (Some 11)]
  [lit_event1, lit_event2, lit_event3, lit_event4, lit_event5] []"
  by code_simp

lemma toy_reserved_eq [code]: "toy_reserved = lit_registry lit_final (lit_apply Reserved)
  [lit_dispatch DAccepted (Some 978307200) (Some 978307200) (Some 10) (Some 978307200) (Some ''DISPATCH_RECONCILED_LIVE_RUN'') (Some 11)]
  [lit_event1, lit_event2, lit_event3, lit_event4, lit_event5, lit_event6] []"
  by code_simp

lemma toy_approved_eq [code]: "toy_approved = lit_registry lit_final (lit_apply ApprovedPendingOutcome)
  [lit_dispatch DAccepted (Some 978307200) (Some 978307200) (Some 10) (Some 978307200) (Some ''DISPATCH_RECONCILED_LIVE_RUN'') (Some 11)]
  [lit_event1, lit_event2, lit_event3, lit_event4, lit_event5, lit_event6, lit_event7] []"
  by code_simp

lemma toy_bootstrapped_eq [code]: "toy_bootstrapped = lit_registry lit_final (lit_apply ApprovedPendingOutcome)
  [lit_dispatch DAccepted (Some 978307200) (Some 978307200) (Some 10) (Some 978307200) (Some ''DISPATCH_RECONCILED_LIVE_RUN'') (Some 11)]
  [lit_event1, lit_event2, lit_event3, lit_event4, lit_event5, lit_event6, lit_event7, lit_event8]
  [\<lparr>bc_request_id = ''q'', bc_stage = ''apply'', bc_run_id = 11, bc_run_attempt = 1, bc_runner_id = 4,
     bc_response_digest = ''sha256:ffffffffffffffffffffffffffffffffffffffffffffffffffffffffffffffff'',
     bc_consumed_at = 978307200\<rparr>]"
  by code_simp

lemma toy_done_stages: "r_stages toy_done = [lit_apply Succeeded, lit_idle ''browser-evidence'' 2 ''n2'',
     lit_idle ''compensating-rollback'' 3 ''n3'']"
  by code_simp

lemma toy_done_events: "map ev_to_state (r_events toy_done) = [''Registered'', ''Finalized'',
     ''DispatchPending'', ''DispatchSending'', ''DispatchAccepted'', ''Reserved'', ''ApprovedPendingOutcome'',
     ''ApprovedPendingOutcome'', ''Succeeded'']"
  by code_simp

section \<open>The run is a sequence of operations\<close>

lemma toy_op1: "reg_op toy_host empty_registry toy_registered"
  unfolding toy_registered_def by (rule reg_op.register_op, rule prod.collapse [symmetric])

lemma toy_op2: "reg_op toy_host toy_registered toy_finalized"
  unfolding toy_finalized_def by (rule reg_op.finalize_op, rule prod.collapse [symmetric])

lemma toy_op3: "reg_op toy_host toy_finalized toy_queued"
  unfolding toy_queued_def by (rule reg_op.queue_op, rule prod.collapse [symmetric])

lemma toy_op4: "reg_op toy_host toy_queued toy_claimed"
  unfolding toy_claimed_def by (rule reg_op.claim_op, rule prod.collapse [symmetric])

lemma toy_op5: "reg_op toy_host toy_claimed toy_watermarked"
  unfolding toy_watermarked_def by (rule reg_op.watermark_op, rule prod.collapse [symmetric])

lemma toy_op6: "reg_op toy_host toy_watermarked toy_accepted"
  unfolding toy_accepted_def by (rule reg_op.reconcile_op, rule prod.collapse [symmetric])

lemma toy_op7: "reg_op toy_host toy_accepted toy_reserved"
  unfolding toy_reserved_def by (rule reg_op.reserve_op, rule prod.collapse [symmetric])

lemma toy_op8: "reg_op toy_host toy_reserved toy_approved"
  unfolding toy_approved_def by (rule reg_op.transition_op, rule prod.collapse [symmetric])

lemma toy_op9: "reg_op toy_host toy_approved toy_bootstrapped"
  unfolding toy_bootstrapped_def by (rule reg_op.bootstrap_op, rule prod.collapse [symmetric])

lemma toy_op10: "reg_op toy_host toy_bootstrapped toy_done"
  unfolding toy_done_def by (rule reg_op.outcome_op, rule prod.collapse [symmetric])

lemmas toy_ops = toy_op1 toy_op2 toy_op3 toy_op4 toy_op5 toy_op6 toy_op7 toy_op8 toy_op9 toy_op10

lemma toy_reach_registered: "reachable toy_host toy_registered"
  using toy_op1 by (rule r_into_rtranclp)

lemma toy_reach_queued: "reachable toy_host toy_queued"
  using toy_ops by (meson rtranclp.rtrancl_into_rtrancl rtranclp.rtrancl_refl)

lemma toy_reach_accepted: "reachable toy_host toy_accepted"
  using toy_reach_queued toy_ops by (meson rtranclp.rtrancl_into_rtrancl)

lemma toy_reach_reserved: "reachable toy_host toy_reserved"
  using toy_reach_accepted toy_op7 by (rule rtranclp.rtrancl_into_rtrancl)

lemma toy_reach_approved: "reachable toy_host toy_approved"
  using toy_reach_reserved toy_op8 by (rule rtranclp.rtrancl_into_rtrancl)

lemma toy_reserved_done: "(reg_op toy_host)\<^sup>*\<^sup>* toy_reserved toy_done"
  using toy_ops by (meson rtranclp.rtrancl_into_rtrancl rtranclp.rtrancl_refl)

lemma toy_claimed_done: "(reg_op toy_host)\<^sup>*\<^sup>* toy_claimed toy_done"
  using toy_ops toy_reserved_done by (meson converse_rtranclp_into_rtranclp)

lemma toy_bootstrapped_done: "(reg_op toy_host)\<^sup>*\<^sup>* toy_bootstrapped toy_done"
  using toy_op10 by (rule r_into_rtranclp)

lemma toy_reach_done: "reachable toy_host toy_done"
  using toy_reach_reserved toy_reserved_done by (rule rtranclp_trans)

end
