(* ===== verification/IntentProps.thy ===== *)
theory IntentProps
  imports Scenario
begin

text \<open>
  What the intent registry guarantees to its clients, for every registry that any sequence of
  operations can reach from the empty database, each with the concrete run of the scenario as
  its instance.
\<close>

section \<open>One grant, one run\<close>

lemma reserve_bound:
  assumes "reserve_stage H uid rid stg run att rule now t = (Inr v, t')"
    and "stage_of t rid stg = Some r" "st_state r \<noteq> Available"
  shows "st_run_id r = Some run" "st_run_attempt r = Some att" "st_app_rule_id r = Some rule" "t' = t"
  using assms
  by (auto simp: reserve_stage_def reserve_txn_def transaction_Inr_iff Let_def split: if_splits option.splits)

text \<open>
  C5: a stage grant is single use. Once a stage has left \<open>Available\<close>, every later registry
  keeps its run, attempt, App rule, reservation and deadline, and any reservation that still
  succeeds for it is the repetition of the original one and changes nothing.
\<close>

theorem grant_single_use:
  assumes "reachable H s" "stage_of s rid stg = Some r" "st_state r \<noteq> Available" "(reg_op H)\<^sup>*\<^sup>* s t"
  shows "(\<exists>r'. stage_of t rid stg = Some r' \<and> st_state r' \<noteq> Available \<and> st_run_id r' = st_run_id r
      \<and> st_run_attempt r' = st_run_attempt r \<and> st_app_rule_id r' = st_app_rule_id r
      \<and> st_reservation_id r' = st_reservation_id r
      \<and> st_reservation_expires_at r' = st_reservation_expires_at r)
    \<and> (\<forall>uid run att rule now v t'. reserve_stage H uid rid stg run att rule now t = (Inr v, t') \<longrightarrow>
        st_run_id r = Some run \<and> st_run_attempt r = Some att \<and> st_app_rule_id r = Some rule \<and> t' = t)"
proof -
  from stage_frozen_ops [OF assms(4) reachable_inv [OF assms(1)] assms(2)] obtain r' where
    r': "stage_of t rid stg = Some r'" "stage_frozen r r'" by blast
  with assms(3) have eq: "st_state r' \<noteq> Available" "st_run_id r' = st_run_id r"
      "st_run_attempt r' = st_run_attempt r" "st_app_rule_id r' = st_app_rule_id r"
      "st_reservation_id r' = st_reservation_id r" "st_reservation_expires_at r' = st_reservation_expires_at r"
    by (simp_all add: stage_frozen_def)
  with r'(1) reserve_bound [OF _ r'(1) eq(1)] show ?thesis by (metis eq(2-4))
qed

theorem grant_single_use_witness:
  "\<exists>r'. stage_of toy_done ''q'' ''apply'' = Some r' \<and> st_run_id r' = Some 11
     \<and> st_reservation_expires_at r' = Some 978309000"
proof -
  have "stage_of toy_reserved ''q'' ''apply'' = Some (lit_apply Reserved)"
    by (simp add: toy_reserved_eq st_key_def)
  from grant_single_use [OF toy_reach_reserved this _ toy_reserved_done] show ?thesis by auto
qed

section \<open>Outcomes and order of the stages\<close>

text \<open>
  C12: a stage is in a terminal execution state exactly when an outcome is recorded for it, and
  then the state is the recorded target, allowed for that stage, and the outcome names the run
  and attempt the stage was reserved for.
\<close>

theorem outcome_iff_terminal:
  assumes "reachable H s" "stage_of s rid stg = Some r"
  shows "(st_state r \<in> {Succeeded, Failed, RolledBack} \<longleftrightarrow> outcome_of s rid stg \<noteq> None)
    \<and> (\<forall>x. outcome_of s rid stg = Some x \<longrightarrow> st_state r = so_target_state x
        \<and> so_target_state x \<in> set (allowed_targets stg)
        \<and> st_run_id r = Some (so_run_id x) \<and> st_run_attempt r = Some (so_run_attempt x))"
proof -
  from reachable_inv [OF assms(1)] assms(2) have "outcome_matches stg r (outcome_of s rid stg)"
    by (simp add: reg_inv_def outcomes_ok_def)
  then show ?thesis using allowed_targets_terminal
    by (fastforce simp: outcome_matches_def split: option.splits)
qed

theorem outcome_iff_terminal_witness:
  "\<exists>x. outcome_of toy_done ''q'' ''apply'' = Some x \<and> so_target_state x = Succeeded \<and> so_run_id x = 11"
proof -
  have "stage_of toy_done ''q'' ''apply'' = Some (lit_apply Succeeded)"
    by (simp add: toy_done_stages st_key_def)
  from outcome_iff_terminal [OF toy_reach_done this] show ?thesis by auto
qed

text \<open>
  C13: the browser-evidence stage is activated only behind a succeeded apply stage with a recorded
  success, the compensating rollback only behind an apply stage that has not succeeded and never
  will, so the two are never both activated for one request.
\<close>

theorem follow_up_exclusive:
  assumes "reachable H s"
  shows "(stage_is s rid ''browser-evidence'' (- {Available}) \<longrightarrow>
       stage_is s rid ''apply'' {Succeeded}
       \<and> map_option so_target_state (outcome_of s rid ''apply'') = Some Succeeded)
    \<and> (stage_is s rid ''compensating-rollback'' (- {Available}) \<longrightarrow>
       (\<forall>t. (reg_op H)\<^sup>*\<^sup>* s t \<longrightarrow> \<not> stage_is t rid ''apply'' {Succeeded}))
    \<and> \<not> (stage_is s rid ''browser-evidence'' (- {Available})
         \<and> stage_is s rid ''compensating-rollback'' (- {Available}))"
proof -
  have inv: "reg_inv H s" using assms by (rule reachable_inv)
  have rollback: "\<not> stage_is t rid ''apply'' {Succeeded}"
    if "stage_is s rid ''compensating-rollback'' (- {Available})" "(reg_op H)\<^sup>*\<^sup>* s t" for t
  proof -
    from that(1) obtain r where r: "stage_of s rid ''compensating-rollback'' = Some r"
      "st_state r \<noteq> Available" by auto
    from stage_frozen_ops [OF that(2) inv r(1)] r(2)
    have "stage_is t rid ''compensating-rollback'' (- {Available})" by (auto simp: stage_frozen_def)
    with ops.inv_steps [OF that(2) inv] show ?thesis by (auto simp: reg_inv_def order_ok_def)
  qed
  have browser: "stage_is s rid ''apply'' {Succeeded}
      \<and> map_option so_target_state (outcome_of s rid ''apply'') = Some Succeeded"
    if "stage_is s rid ''browser-evidence'' (- {Available})"
  proof -
    from that inv obtain r where r: "stage_of s rid ''apply'' = Some r" "st_state r = Succeeded"
      by (auto simp: reg_inv_def order_ok_def)
    with inv have "outcome_matches ''apply'' r (outcome_of s rid ''apply'')"
      by (simp add: reg_inv_def outcomes_ok_def)
    with r show ?thesis by (auto simp: outcome_matches_def split: option.splits)
  qed
  with rollback show ?thesis by blast
qed

theorem follow_up_exclusive_witness:
  "\<not> (stage_is toy_done ''q'' ''browser-evidence'' (- {Available})
      \<and> stage_is toy_done ''q'' ''compensating-rollback'' (- {Available}))"
  using follow_up_exclusive [OF toy_reach_done] by blast

section \<open>The event log\<close>

text \<open>
  C14: the event log is a faithful record of the tables. Replaying the transitions logged for a
  stage from \<open>Available\<close>, each of which must continue from the state before it, ends in the
  state of the stage row; replaying those logged for a dispatch ends in the state of its row.
\<close>

theorem event_log_replays:
  assumes "reachable H s" "stage_of s rid stg = Some r"
  shows "replay (stage_event rid stg) (Some (stage_name Available)) (r_events s)
       = Some (Some (stage_name (st_state r)))
     \<and> replay (dispatch_event rid stg) None (r_events s)
       = Some (map_option (\<lambda>d. dispatch_name (dj_state d)) (dispatch_of s rid stg))"
proof -
  from reachable_inv [OF assms(1)] have "stage_replays s rid stg" "dispatch_replays s rid stg"
    by (simp_all add: reg_inv_def replay_ok_def)
  with assms(2) show ?thesis by (simp add: stage_replays_def dispatch_replays_def)
qed

theorem event_log_replays_witness:
  "replay (stage_event ''q'' ''apply'') (Some ''Available'') (r_events toy_done) = Some (Some ''Succeeded'')"
proof -
  have "stage_of toy_done ''q'' ''apply'' = Some (lit_apply Succeeded)"
    by (simp add: toy_done_stages st_key_def)
  from event_log_replays [OF toy_reach_done this] show ?thesis by simp
qed

lemma stage_name_inject [simp]: "stage_name a = stage_name b \<longleftrightarrow> a = b"
  by (cases a; cases b) simp_all

text \<open>
  The log is tamper evident. The hash of the last event commits to the whole log, and with
  it to the state of every stage: two registries with the same last event hash have the same log
  and agree on every stage they share, unless SHA-256 has a collision.
\<close>

theorem event_log_tamper_evident:
  assumes "reachable H s" "reachable H t"
    and "last_hash ev_event_hash (r_events s) = last_hash ev_event_hash (r_events t)"
  shows "(r_events s = r_events t
      \<and> (\<forall>rid stg r r'. stage_of s rid stg = Some r \<longrightarrow> stage_of t rid stg = Some r' \<longrightarrow> st_state r = st_state r'))
    \<or> sha_collision (h_sha H)"
proof -
  note inv = reachable_inv [OF assms(1)] reachable_inv [OF assms(2)]
  have "r_events s = r_events t \<or> sha_collision (h_sha H)"
    by (rule intent_log.head_determines_log) (use inv assms(3) in \<open>simp_all add: reg_inv_def chain_ok_def\<close>)
  moreover have "st_state r = st_state r'"
    if "r_events s = r_events t" "stage_of s rid stg = Some r" "stage_of t rid stg = Some r'" for rid stg r r'
  proof -
    from inv have "stage_replays s rid stg" "stage_replays t rid stg"
      by (simp_all add: reg_inv_def replay_ok_def)
    with that show ?thesis by (simp add: stage_replays_def)
  qed
  ultimately show ?thesis by blast
qed

theorem event_log_tamper_evident_witness:
  "r_events toy_done = r_events toy_done \<or> sha_collision (h_sha toy_host)"
  using event_log_tamper_evident [OF toy_reach_done toy_reach_done refl] by blast

lemma log_prefix_ops:
  assumes "(reg_op H)\<^sup>*\<^sup>* s t" "reg_inv H s"
  shows "prefix (r_events s) (r_events t)"
  by (rule ops_monotone [OF assms, where R = "\<lambda>s t. prefix (r_events s) (r_events t)"])
    (auto dest: reg_change_log log_grows_prefix intro: prefix_order.trans)

lemma outcomes_prefix_ops:
  assumes "(reg_op H)\<^sup>*\<^sup>* s t" "reg_inv H s"
  shows "prefix (r_outcomes s) (r_outcomes t) \<and> prefix (r_bootstraps s) (r_bootstraps t)"
  by (rule ops_monotone [OF assms, where R = "\<lambda>s t. prefix (r_outcomes s) (r_outcomes t)
        \<and> prefix (r_bootstraps s) (r_bootstraps t)"])
    (auto elim: reg_change_elim intro: prefix_order.trans)

lemma intent_kept_part: "intent_kept i i' \<Longrightarrow> immutable_part i' = immutable_part i \<and> (in_state i = Finalized \<longrightarrow> i' = i)"
  by (auto simp: intent_kept_def immutable_part_def finalize_row_def)

lemma intent_kept_ops:
  assumes "(reg_op H)\<^sup>*\<^sup>* s t" "reg_inv H s" "intent_of s rid = Some i"
  shows "\<exists>i'. intent_of t rid = Some i' \<and> immutable_part i' = immutable_part i
    \<and> (in_state i = Finalized \<longrightarrow> i' = i)"
proof -
  let ?R = "\<lambda>s t. \<forall>i. intent_of s rid = Some i \<longrightarrow> (\<exists>i'. intent_of t rid = Some i'
    \<and> immutable_part i' = immutable_part i \<and> (in_state i = Finalized \<longrightarrow> i' = i))"
  have "?R s t"
  proof (rule ops_monotone [OF assms(1,2)])
    fix x y assume "reg_change H x y"
    then show "?R x y" by (meson intent_lookup_kept intent_kept_part)
  next
    fix x y z assume "?R x y" "?R y z"
    then show "?R x z" by metis
  qed simp
  with assms(3) show ?thesis by blast
qed

text \<open>
  C15: history is append-only. Later registries extend the event log, the recorded outcomes and
  the bootstrap consumptions, keep every signed column of a registered intent, and keep a
  finalized intent as it is.
\<close>

theorem history_append_only:
  assumes "reachable H s" "(reg_op H)\<^sup>*\<^sup>* s t"
  shows "prefix (r_events s) (r_events t) \<and> prefix (r_outcomes s) (r_outcomes t)
    \<and> prefix (r_bootstraps s) (r_bootstraps t)
    \<and> (\<forall>rid i. intent_of s rid = Some i \<longrightarrow> (\<exists>i'. intent_of t rid = Some i'
         \<and> immutable_part i' = immutable_part i \<and> (in_state i = Finalized \<longrightarrow> i' = i)))"
  using reachable_inv [OF assms(1)] log_prefix_ops [OF assms(2)] outcomes_prefix_ops [OF assms(2)]
    intent_kept_ops [OF assms(2)] by blast

theorem history_append_only_witness: "prefix (r_events toy_reserved) (r_events toy_done)"
  using history_append_only [OF toy_reach_reserved toy_reserved_done] by blast

section \<open>Dispatches and bootstraps\<close>

lemma dispatch_kept:
  assumes "reg_change H s s'" "dispatch_of s rid stg = Some d" "dj_state d \<noteq> DPending"
  shows "\<exists>d'. dispatch_of s' rid stg = Some d' \<and> dj_state d' \<noteq> DPending"
proof -
  have "dispatch_of s' rid stg \<noteq> None"
    using assms(1,2)
    by (cases rule: reg_change_elim) (auto simp: lookup_update_keeps keeps_target_key lookup_by_append)
  then obtain d' where d': "dispatch_of s' rid stg = Some d'" by blast
  from dispatch_lookup_change [OF assms(1) this] assms(2,3) have "dj_state d' \<noteq> DPending"
    by (auto simp: dispatch_move_def dispatch_note_def split: dispatch_state.splits)
  with d' show ?thesis by blast
qed

lemma dispatch_kept_ops:
  assumes "(reg_op H)\<^sup>*\<^sup>* s t" "reg_inv H s" "dispatch_of s rid stg = Some d" "dj_state d \<noteq> DPending"
  shows "\<exists>d'. dispatch_of t rid stg = Some d' \<and> dj_state d' \<noteq> DPending"
proof -
  let ?P = "\<lambda>s. \<exists>d. dispatch_of s rid stg = Some d \<and> dj_state d \<noteq> DPending"
  have "?P s \<longrightarrow> ?P t"
    by (rule ops_monotone [OF assms(1,2), where R = "\<lambda>s t. ?P s \<longrightarrow> ?P t"]) (use dispatch_kept in blast)+
  with assms(3,4) show ?thesis by blast
qed

lemma claim_success:
  assumes "claim_dispatch H uid rid stg now s = (Inr d, s')"
  shows "dispatch_of s' rid stg = Some d \<and> dj_state d = DSending"
proof -
  let ?f = "\<lambda>d. d\<lparr>dj_state := DSending, dj_claimed_at := Some (utc_seconds now)\<rparr>"
  from assms obtain row s1 where row: "dispatch_of s rid stg = Some row" "d = ?f row"
      and s1: "update_dispatch rid stg ?f s = Inr s1"
      and e: "append_event H (uid 0) rid (Some stg) (Some (dispatch_name DPending))
                 (dispatch_name DSending) ''DISPATCH_DURABLY_CLAIMED'' (utc_seconds now) s1 = Inr s'"
    by (auto simp: claim_dispatch_def transaction_Inr_iff claim_txn_def Let_def bindE_Inr_iff
        split: option.splits if_splits)
  from s1 have "r_dispatches s1 = row_update (\<lambda>d. dj_key d = (rid, stg)) ?f (r_dispatches s)"
    by (auto simp: update_dispatch_def Let_def split: if_splits)
  moreover have "dj_key (?f x) = dj_key x" for x by (simp add: dj_key_def)
  ultimately show ?thesis
    using append_event_tables(3) [OF e] row lookup_row_update_key [of dj_key ?f "(rid, stg)" "(rid, stg)"] by simp
qed

text \<open>
  A dispatch is claimed at most once. After a successful claim, every later claim of the
  same dispatch, in whatever registry further operations lead to, is refused as already claimed
  and changes nothing: the workflow is never posted twice.
\<close>

theorem dispatch_claimed_once:
  assumes "reachable H s" "claim_dispatch H uid rid stg now s = (Inr d, s')" "(reg_op H)\<^sup>*\<^sup>* s' t"
  shows "claim_dispatch H uid' rid stg now' t = (reject ''DISPATCH_ALREADY_CLAIMED'', t)"
proof -
  have "reachable H s'" using assms(1) reg_op.claim_op [OF assms(2)] by (rule rtranclp.rtrancl_into_rtrancl)
  then have "reg_inv H s'" by (rule reachable_inv)
  from dispatch_kept_ops [OF assms(3) this, of rid stg d] claim_success [OF assms(2)] obtain d' where
    "dispatch_of t rid stg = Some d'" "dj_state d' \<noteq> DPending" by auto
  then show ?thesis by (simp add: claim_dispatch_def transaction_def claim_txn_def reject_def)
qed

theorem dispatch_claimed_once_witness:
  "claim_dispatch toy_host (toy_uid 20) ''q'' ''apply'' t0 toy_done = (reject ''DISPATCH_ALREADY_CLAIMED'', toy_done)"
proof -
  have "\<exists>d. claim_dispatch toy_host (toy_uid 4) ''q'' ''apply'' t0 toy_queued = (Inr d, toy_claimed)"
    by (intro exI [of _ "lit_dispatch DSending (Some 978307200) None None None None None"]) code_simp
  then obtain d where "claim_dispatch toy_host (toy_uid 4) ''q'' ''apply'' t0 toy_queued = (Inr d, toy_claimed)" ..
  from dispatch_claimed_once [OF toy_reach_queued this toy_claimed_done] show ?thesis .
qed

lemma bootstrap_kept_ops:
  assumes "(reg_op H)\<^sup>*\<^sup>* s t" "reg_inv H s" "bootstrap_of s rid stg \<noteq> None"
  shows "bootstrap_of t rid stg \<noteq> None"
proof -
  from outcomes_prefix_ops [OF assms(1,2)] obtain more_rows where "r_bootstraps t = r_bootstraps s @ more_rows"
    by (auto simp: prefix_def)
  with assms(3) show ?thesis by (auto simp: lookup_by_append)
qed

lemma bootstrap_success:
  assumes "consume_bootstrap H uid rid stg run att runner dg now s = (Inr c, s')"
  shows "bootstrap_of s' rid stg = Some c" "bc_runner_id c = runner"
    "\<exists>r. stage_of s rid stg = Some r \<and> st_state r = ApprovedPendingOutcome
       \<and> st_run_id r = Some run \<and> st_run_attempt r = Some att"
proof -
  from assms have txn: "bootstrap_txn H uid rid stg run att runner dg now s = Inr (c, s')"
    by (auto simp: consume_bootstrap_def transaction_Inr_iff split: if_splits sum.splits)
  from txn obtain r s1 where r: "stage_of s rid stg = Some r" "st_state r = ApprovedPendingOutcome"
      "st_run_id r = Some run" "st_run_attempt r = Some att" "bootstrap_of s rid stg = None"
      and c: "bc_key c = (rid, stg)" "bc_runner_id c = runner" and s1: "insert_bootstrap c s = Inr s1"
      and e: "append_event H (uid 0) rid (Some stg) (Some (stage_name ApprovedPendingOutcome))
                 (stage_name ApprovedPendingOutcome) ''RUNNER_BOOTSTRAP_CONSUMED'' (utc_seconds now) s1 = Inr s'"
    by (auto simp: bootstrap_txn_def Let_def bindE_Inr_iff bc_key_def split: option.splits if_splits)
  from s1 have "r_bootstraps s1 = r_bootstraps s @ [c]"
    by (auto simp: insert_bootstrap_def split: if_splits)
  with append_event_tables(5) [OF e] r(5) c(1) show "bootstrap_of s' rid stg = Some c"
    by (simp add: lookup_by_append)
  show "bc_runner_id c = runner" by (rule c(2))
  show "\<exists>r. stage_of s rid stg = Some r \<and> st_state r = ApprovedPendingOutcome
       \<and> st_run_id r = Some run \<and> st_run_attempt r = Some att" using r by blast
qed

text \<open>
  A runner bootstrap is single use. It succeeds only for the approved run attempt of the
  stage, and afterwards every other consumption for the stage fails, whatever run, runner or
  response it names and whatever happens in between.
\<close>

theorem bootstrap_single_use:
  assumes "reachable H s" "consume_bootstrap H uid rid stg run att runner dg now s = (Inr c, s')"
    and "(reg_op H)\<^sup>*\<^sup>* s' t"
  shows "(\<exists>r. stage_of s rid stg = Some r \<and> st_state r = ApprovedPendingOutcome \<and> st_run_id r = Some run
        \<and> st_run_attempt r = Some att)
    \<and> (\<exists>e. consume_bootstrap H uid' rid stg run' att' runner' dg' now' t = (Inl e, t))"
proof -
  have "reachable H s'" using assms(1) reg_op.bootstrap_op [OF assms(2)] by (rule rtranclp.rtrancl_into_rtrancl)
  then have "reg_inv H s'" by (rule reachable_inv)
  from bootstrap_kept_ops [OF assms(3) this, of rid stg] bootstrap_success(1) [OF assms(2)]
  have again: "bootstrap_of t rid stg \<noteq> None" by simp
  have "\<exists>e. consume_bootstrap H uid' rid stg run' att' runner' dg' now' t = (Inl e, t)"
  proof (cases "consume_bootstrap H uid' rid stg run' att' runner' dg' now' t")
    case (Pair r t')
    show ?thesis
    proof (cases r)
      case (Inl e)
      with Pair show ?thesis
        by (auto simp: consume_bootstrap_def transaction_Inl_iff reject_def split: if_splits sum.splits)
    next
      case (Inr c')
      with Pair again show ?thesis
        by (auto simp: consume_bootstrap_def transaction_Inr_iff bootstrap_txn_def Let_def
            split: if_splits sum.splits option.splits)
    qed
  qed
  with bootstrap_success(3) [OF assms(2)] show ?thesis by blast
qed

theorem bootstrap_single_use_witness:
  "\<exists>e. consume_bootstrap toy_host (toy_uid 20) ''q'' ''apply'' 11 1 4 (toy_digest (CHR ''f'')) t0 toy_done
     = (Inl e, toy_done)"
proof -
  have "consume_bootstrap toy_host (toy_uid 8) ''q'' ''apply'' 11 1 4 (toy_digest (CHR ''f'')) t0 toy_approved
     = (Inr \<lparr>bc_request_id = ''q'', bc_stage = ''apply'', bc_run_id = 11, bc_run_attempt = 1, bc_runner_id = 4,
         bc_response_digest = toy_digest (CHR ''f''), bc_consumed_at = 978307200\<rparr>, toy_bootstrapped)"
    by code_simp
  from bootstrap_single_use [OF toy_reach_approved this toy_bootstrapped_done] show ?thesis by blast
qed

lemma unique_someD:
  assumes "unique_some key rows" "x \<in> set rows" "y \<in> set rows" "key x = Some k" "key y = Some k"
  shows "x = y"
  using assms
proof (induction rows)
  case Nil
  then show ?case by simp
next
  case (Cons r rows)
  have "Some k \<notin> key ` set rows" if "key r = Some k"
    using Cons.prems(1) that by (auto simp: unique_some_def)
  moreover have "unique_some key rows" using Cons.prems(1) by (auto simp: unique_some_def split: if_splits)
  ultimately show ?case using Cons by (metis image_eqI set_ConsD)
qed

text \<open>
  C16: a run attempt answers for one stage. Two reserved stages with the same repository,
  environment, run, attempt and App rule are the same stage of the same request, and every
  stage past \<open>Available\<close> has all of those, positive, under a finalized intent.
\<close>

theorem run_bound_to_one_stage:
  assumes "reachable H s" "stage_of s rid stg = Some r" "st_state r \<noteq> Available"
  shows "(\<exists>run att rule. run_rule_of r = Some (st_repository_id r, st_environment r, run, att, rule)
        \<and> 1 \<le> run \<and> 1 \<le> att \<and> 1 \<le> rule)
    \<and> (\<exists>i. intent_of s rid = Some i \<and> in_state i = Finalized)
    \<and> (\<forall>rid' stg' r'. stage_of s rid' stg' = Some r' \<and> run_rule_of r' = run_rule_of r \<longrightarrow> (rid', stg') = (rid, stg))"
proof -
  from reachable_inv [OF assms(1)] have inv: "unique_some run_rule_of (r_stages s)" "reservations_ok s"
    by (simp_all add: reg_inv_def indexes_ok_def stage_indexes_ok_def)
  from inv(2) assms(2,3) have "bound_stage s r" by (auto simp: reservations_ok_def)
  then obtain i run att rule where b: "intent_of s rid = Some i" "in_state i = Finalized"
      "run_rule_of r = Some (st_repository_id r, st_environment r, run, att, rule)"
      "1 \<le> run" "1 \<le> att" "1 \<le> rule"
    using stage_of_key [OF assms(2)] by (auto simp: bound_stage_def split: option.splits)
  have "(rid', stg') = (rid, stg)" if "stage_of s rid' stg' = Some r'" "run_rule_of r' = run_rule_of r" for rid' stg' r'
  proof -
    from that assms(2) have "r \<in> set (r_stages s)" "r' \<in> set (r_stages s)" by (auto dest: lookup_by_SomeD)
    from unique_someD [OF inv(1) this b(3)] that(2) b(3) have "r = r'" by simp
    with stage_of_key [OF that(1)] stage_of_key [OF assms(2)] show ?thesis by simp
  qed
  with b show ?thesis by blast
qed

theorem run_bound_to_one_stage_witness:
  "\<exists>run att rule. run_rule_of (lit_apply Reserved) = Some (7, ''prod'', run, att, rule) \<and> 1 \<le> run"
proof -
  have "stage_of toy_reserved ''q'' ''apply'' = Some (lit_apply Reserved)"
    by (simp add: toy_reserved_eq st_key_def)
  from run_bound_to_one_stage [OF toy_reach_reserved this] show ?thesis by auto
qed

text \<open>
  A live run answers for one dispatch. A dispatch has a run exactly when it is accepted, the
  run is above the watermark taken before the dispatch was posted, and no other dispatch of the
  repository has it.
\<close>

theorem run_bound_to_one_dispatch:
  assumes "reachable H s" "dispatch_of s rid stg = Some d" "dj_run_id d = Some run"
  shows "dj_state d = DAccepted \<and> (\<exists>w. dj_watermark d = Some w \<and> w < run)
    \<and> (\<forall>rid' stg' d'. dispatch_of s rid' stg' = Some d' \<and> dj_repository d' = dj_repository d
         \<and> dj_run_id d' = Some run \<longrightarrow> (rid', stg') = (rid, stg))"
proof -
  from reachable_inv [OF assms(1)] have inv: "unique_some dispatch_run (r_dispatches s)" "dispatches_ok s"
    by (simp_all add: reg_inv_def indexes_ok_def dispatch_indexes_ok_def)
  from inv(2) assms(2) have "dispatch_shape d" by (simp add: dispatches_ok_def)
  with assms(3) have "dj_state d = DAccepted" "\<exists>w. dj_watermark d = Some w \<and> w < run"
    by (auto simp: dispatch_shape_def)
  moreover have "(rid', stg') = (rid, stg)" if d': "dispatch_of s rid' stg' = Some d'"
      "dj_repository d' = dj_repository d" "dj_run_id d' = Some run" for rid' stg' d'
  proof -
    from assms(3) d'(2,3) have "dispatch_run d = Some (dj_repository d, run)"
      "dispatch_run d' = Some (dj_repository d, run)" by (simp_all add: dispatch_run_def)
    from unique_someD [OF inv(1) _ _ this] assms(2) d'(1) have "d = d'" by (auto dest: lookup_by_SomeD)
    with lookup_by_SomeD [OF assms(2)] lookup_by_SomeD [OF d'(1)] show ?thesis by simp
  qed
  ultimately show ?thesis by blast
qed

theorem run_bound_to_one_dispatch_witness:
  "\<exists>d. dispatch_of toy_accepted ''q'' ''apply'' = Some d \<and> dj_state d = DAccepted"
proof -
  have "dispatch_of toy_accepted ''q'' ''apply'' = Some (lit_dispatch DAccepted (Some 978307200) (Some 978307200)
      (Some 10) (Some 978307200) (Some ''DISPATCH_RECONCILED_LIVE_RUN'') (Some 11))"
    by (simp add: toy_accepted_eq dj_key_def)
  from this run_bound_to_one_dispatch [OF toy_reach_accepted this] show ?thesis by auto
qed

section \<open>Reservation, registration and expiry\<close>

lemma stage_keys: "reachable H s \<Longrightarrow> keys_distinct st_key (r_stages s)"
  using reachable_inv [of H s] by (simp add: reg_inv_def keys_ok_def)

text \<open>
  C17: a fresh reservation is bounded. The outcome deadline it stores is at most thirty minutes
  ahead and later than a second ago, lies inside the grant, and for the apply stage leaves fifteen
  minutes of the grant for a rollback; the stage row then holds exactly the run, attempt, rule
  and deadline of the answer.
\<close>

theorem reservation_window:
  assumes "reachable H s" "reserve_stage H uid rid stg run att rule now s = (Inr v, s')" "\<not> sr_idempotent v"
  shows "\<exists>i d r. intent_of s rid = Some i \<and> sr_reservation_expires_at v = Some d
    \<and> now - seconds 1 < stamp_dt d \<and> stamp_dt d \<le> now + minutes 30
    \<and> stamp_dt d \<le> stamp_dt (in_expires_at i) - (if stg = ''apply'' then minutes 15 else 0)
    \<and> stage_of s rid stg = Some r \<and> st_state r = Available
    \<and> stage_of s' rid stg = Some (r\<lparr>st_state := Reserved, st_run_id := Some run, st_run_attempt := Some att,
         st_app_rule_id := Some rule, st_reservation_id := sr_reservation_id v,
         st_reservation_expires_at := Some d\<rparr>)"
proof -
  from assms(2,3) obtain i r s1 dl where r: "intent_of s rid = Some i" "stage_of s rid stg = Some r"
      "st_state r = Available" and dl: "now < dl" "dl = reservation_deadline stg (in_expires_at i) now"
      and s1: "update_reserve rid stg run att rule (uid 0) (utc_seconds dl) s = Inr s1"
      and e: "append_event H (uid 1) rid (Some stg) (Some (stage_name Available)) (stage_name Reserved)
                   ''STAGE_GRANT_RESERVED'' (utc_seconds now) s1 = Inr s'"
      and v: "sr_reservation_expires_at v = Some (utc_seconds dl)" "sr_reservation_id v = Some (uid 0)"
    by (auto simp: reserve_stage_def reserve_txn_def transaction_Inr_iff Let_def bindE_Inr_iff
        integrity_as_Inr split: if_splits option.splits)
  let ?f = "reserve_row run att rule (uid 0) (utc_seconds dl)"
  from s1 have "r_stages s1 = row_update (\<lambda>r. st_key r = (rid, stg) \<and> st_state r = Available) ?f (r_stages s)"
    by (auto simp: update_reserve_def Let_def reserve_row_abs split: if_splits)
  then have "stage_of s' rid stg = Some (?f r)"
    using append_event_tables(2) [OF e] r(2,3) row_update_unique [OF stage_keys [OF assms(1)] r(2),
        where P = "\<lambda>r. st_state r = Available"] by (simp add: lookup_row_update_key)
  moreover have "stamp_dt (utc_seconds dl) \<le> now + minutes 30"
      "stamp_dt (utc_seconds dl) \<le> stamp_dt (in_expires_at i) - (if stg = ''apply'' then minutes 15 else 0)"
    using utc_seconds_le [of dl] dl(2)
    by (auto simp: reservation_deadline_def MAX_STAGE_OUTCOME_WAIT_def ROLLBACK_DISPATCH_HEADROOM_def)
  moreover have "now - seconds 1 < stamp_dt (utc_seconds dl)" using utc_seconds_gt [of dl] dl(1) by simp
  ultimately show ?thesis using r v by (auto simp: reserve_row_def)
qed

theorem reservation_window_witness:
  "\<exists>d. stamp_dt d \<le> t0 + minutes 30 \<and> stage_of toy_reserved ''q'' ''apply'' \<noteq> None"
proof -
  have "fst (reserve_stage toy_host (toy_uid 6) ''q'' ''apply'' 11 1 3 t0 toy_accepted)
     = Inr \<lparr>sr_request_id = ''q'', sr_stage = ''apply'', sr_run_id = 11, sr_run_attempt = 1, sr_app_rule_id = 3,
        sr_reservation_id = Some (toy_uid 6 0), sr_reservation_expires_at = Some 978309000,
        sr_state = Reserved, sr_idempotent = False\<rparr>" by code_simp
  then have "reserve_stage toy_host (toy_uid 6) ''q'' ''apply'' 11 1 3 t0 toy_accepted
     = (Inr \<lparr>sr_request_id = ''q'', sr_stage = ''apply'', sr_run_id = 11, sr_run_attempt = 1, sr_app_rule_id = 3,
        sr_reservation_id = Some (toy_uid 6 0), sr_reservation_expires_at = Some 978309000,
        sr_state = Reserved, sr_idempotent = False\<rparr>, toy_reserved)"
    by (simp add: toy_reserved_def prod_eq_iff)
  from reservation_window [OF toy_reach_accepted this] show ?thesis by auto
qed

lemma cas_kept_change:
  assumes "reg_change H s s'" "map_of (r_cas s) hex = Some raw"
  shows "map_of (r_cas s') hex = Some raw"
  using assms by (cases rule: reg_change_elim) (auto elim!: put_json_effect)

lemma cas_kept_ops:
  assumes "(reg_op H)\<^sup>*\<^sup>* s t" "reg_inv H s" "map_of (r_cas s) hex = Some raw"
  shows "map_of (r_cas t) hex = Some raw"
proof -
  have "\<forall>raw. map_of (r_cas s) hex = Some raw \<longrightarrow> map_of (r_cas t) hex = Some raw"
    by (rule ops_monotone [OF assms(1,2), where R = "\<lambda>s t. \<forall>raw. map_of (r_cas s) hex = Some raw
          \<longrightarrow> map_of (r_cas t) hex = Some raw"]) (use cas_kept_change in blast)+
  with assms(3) show ?thesis by blast
qed

lemma register_success:
  assumes "register H uid envelope v spiffe now s = (Inr b, s')"
  obtains raw hex gd i where "canonical_bytes envelope = Inr raw" "digest H envelope = Inr (vb_bundle_digest v)"
    "cas_hex (vb_bundle_digest v) = Inr hex" "map_of (r_cas s') hex = Some raw"
    "digest H (gr_raw (bd_grant (vb_payload v))) = Inr gd" "startswith spiffe ''spiffe://''" "py_len spiffe \<le> 200"
    "gr_registrationPrincipal (bd_grant (vb_payload v)) = spiffe" "intent_of s' (vb_request_id v) = Some i"
    "immutable_part i = immutable_part (row_of_bundle v gd spiffe 0)"
proof -
  from assms obtain c gd where c: "put_json H envelope (vb_bundle_digest v) (r_cas s) = Inr c"
      and g: "digest H (gr_raw (bd_grant (vb_payload v))) = Inr gd"
      "startswith spiffe ''spiffe://''" "py_len spiffe \<le> 200"
      "gr_registrationPrincipal (bd_grant (vb_payload v)) = spiffe"
      and t: "register_txn H uid v (row_of_bundle v gd spiffe (utc_seconds now)) (s\<lparr>r_cas := c\<rparr>) = Inr (b, s')"
    by (auto simp: register_def Let_def transaction_Inr_iff split: if_splits sum.splits)
  from c obtain hex raw where p: "canonical_bytes envelope = Inr raw" "digest H envelope = Inr (vb_bundle_digest v)"
      "cas_hex (vb_bundle_digest v) = Inr hex" "map_of c hex = Some raw" by (elim put_json_effect) simp
  have same: "immutable_part (row_of_bundle v gd spiffe t) = immutable_part (row_of_bundle v gd spiffe 0)" for t
    by (simp add: immutable_part_def row_of_bundle_def Let_def)
  have "r_cas s' = c \<and> (\<exists>i. intent_of s' (vb_request_id v) = Some i
      \<and> immutable_part i = immutable_part (row_of_bundle v gd spiffe 0))"
  proof (cases "intent_of s (vb_request_id v)")
    case (Some i)
    with t same show ?thesis by (auto simp: register_txn_def split: if_splits)
  next
    case None
    let ?row = "row_of_bundle v gd spiffe (utc_seconds now)"
    from None t obtain s1 s2 where s1: "insert_intent ?row (s\<lparr>r_cas := c\<rparr>) = Inr s1"
        and s2: "foldE (register_stage v) (bd_workflowStages (vb_payload v)) s1 = Inr s2"
        and e: "append_event H (uid 0) (vb_request_id v) None None ''Registered''
                  ''SIGNED_INTENT_REGISTERED'' (in_registered_at ?row) s2 = Inr s'"
      by (auto simp: register_txn_def bindE_Inr_iff)
    from register_stages_rows [OF s2] obtain rows where "foldE insert_stage rows s1 = Inr s2" by blast
    from insert_stages_effect(1) [OF this] have "s2 = s1\<lparr>r_stages := r_stages s1 @ rows\<rparr>" .
    moreover from s1 have "s1 = s\<lparr>r_cas := c, r_intents := r_intents s @ [?row]\<rparr>"
      by (auto simp: insert_intent_def split: if_splits)
    moreover have "in_request_id ?row = vb_request_id v" by (simp add: row_of_bundle_def Let_def)
    ultimately have "intent_of s' (vb_request_id v) = Some ?row" "r_cas s' = c"
      using append_event_tables(1,6) [OF e] None by (simp_all add: lookup_by_append)
    with same show ?thesis by blast
  qed
  with p g that show ?thesis by blast
qed

text \<open>
  Registration is idempotent. Once a signed bundle is registered, registering it again at any
  later time and in any later registry answers that nothing new was registered and leaves the
  registry as it is, as long as the store can be read.
\<close>

theorem register_idempotent:
  assumes "reachable H s" "register H uid envelope v spiffe now s = (Inr b, s')" "(reg_op H)\<^sup>*\<^sup>* s' t"
    and "\<And>hex. h_readable H hex"
  shows "register H uid' envelope v spiffe now' t = (Inr False, t)"
proof -
  have "reachable H s'" using assms(1) reg_op.register_op [OF assms(2)] by (rule rtranclp.rtrancl_into_rtrancl)
  then have inv: "reg_inv H s'" by (rule reachable_inv)
  from assms(2) obtain raw hex gd i where p: "canonical_bytes envelope = Inr raw"
      "digest H envelope = Inr (vb_bundle_digest v)" "cas_hex (vb_bundle_digest v) = Inr hex"
      "map_of (r_cas s') hex = Some raw" "digest H (gr_raw (bd_grant (vb_payload v))) = Inr gd"
      "startswith spiffe ''spiffe://''" "py_len spiffe \<le> 200"
      "gr_registrationPrincipal (bd_grant (vb_payload v)) = spiffe" "intent_of s' (vb_request_id v) = Some i"
      "immutable_part i = immutable_part (row_of_bundle v gd spiffe 0)"
    by (rule register_success)
  from intent_kept_ops [OF assms(3) inv p(9)] p(10) obtain i' where i': "intent_of t (vb_request_id v) = Some i'"
      "immutable_part i' = immutable_part (row_of_bundle v gd spiffe 0)" by auto
  have "map_of (r_cas t) hex = Some raw" using cas_kept_ops [OF assms(3) inv p(4)] .
  with p(1-3) assms(4) have "put_json H envelope (vb_bundle_digest v) (r_cas t) = Inr (r_cas t)"
    by (simp add: put_json_def)
  moreover have "immutable_part i' = immutable_part (row_of_bundle v gd spiffe (utc_seconds now'))"
    using i'(2) by (simp add: immutable_part_def row_of_bundle_def Let_def)
  ultimately show ?thesis using p(2,5-8) i'(1)
    by (simp add: register_def Let_def transaction_def register_txn_def)
qed

theorem register_idempotent_witness:
  "register toy_host (toy_uid 30) toy_envelope toy_bundle ''spiffe://c'' t0 toy_registered
     = (Inr False, toy_registered)"
proof -
  have "fst (register toy_host (toy_uid 1) toy_envelope toy_bundle ''spiffe://c'' t0 empty_registry) = Inr True"
    by code_simp
  then have "register toy_host (toy_uid 1) toy_envelope toy_bundle ''spiffe://c'' t0 empty_registry
      = (Inr True, toy_registered)" by (simp add: toy_registered_def prod_eq_iff)
  from register_idempotent [OF rtranclp.rtrancl_refl this rtranclp.rtrancl_refl, of "toy_uid 30" t0] show ?thesis
    by (simp add: toy_host_def)
qed

lemma expire_fold_effect:
  assumes "foldE (expire_one H uid t) irs s = Inr s'"
    and "keys_distinct st_key (r_stages s)" "distinct (map (st_key \<circ> snd) irs)"
    and "\<And>i row. (i, row) \<in> set irs \<Longrightarrow> lookup_by st_key (st_key row) (r_stages s) = Some row"
  shows "lookup_by st_key k (r_stages s') = map_option (\<lambda>r. if k \<in> st_key ` snd ` set irs
      then r\<lparr>st_state := OutcomeOverdue\<rparr> else r) (lookup_by st_key k (r_stages s))"
  using assms
proof (induction irs arbitrary: s)
  case Nil
  then show ?case by (simp add: option.map_ident)
next
  case (Cons ir irs)
  obtain i row where ir: "ir = (i, row)" by (cases ir)
  let ?f = "\<lambda>r :: stage_row. r\<lparr>st_state := OutcomeOverdue\<rparr>"
  from Cons.prems(4) ir have row: "lookup_by st_key (st_key row) (r_stages s) = Some row" by auto
  from Cons.prems(1) ir obtain s1 where one: "expire_one H uid t (i, row) s = Inr s1"
      and rest: "foldE (expire_one H uid t) irs s1 = Inr s'" by (auto simp: bindE_Inr_iff)
  from one have "r_stages s1 = row_update (\<lambda>r. st_key r = st_key row \<and> st_state r = st_state row) ?f (r_stages s)"
    by (auto simp: expire_one_def dest: append_event_tables(2))
  then have stages: "r_stages s1 = row_update (\<lambda>r. st_key r = st_key row) ?f (r_stages s)"
    using row_update_unique [OF Cons.prems(2) row, where P = "\<lambda>r. st_state r = st_state row"] by simp
  have other: "lookup_by st_key k (r_stages s1) = (if k = st_key row then map_option ?f (lookup_by st_key k (r_stages s))
      else lookup_by st_key k (r_stages s))" for k
    by (simp add: stages lookup_row_update_key)
  have "lookup_by st_key k (r_stages s') = map_option (\<lambda>r. if k \<in> st_key ` snd ` set irs
      then r\<lparr>st_state := OutcomeOverdue\<rparr> else r) (lookup_by st_key k (r_stages s1))"
  proof (rule Cons.IH [OF rest])
    show "keys_distinct st_key (r_stages s1)" using Cons.prems(2) by (simp add: stages keys_distinct_row_update)
    show "distinct (map (st_key \<circ> snd) irs)" using Cons.prems(3) by (simp add: comp_def)
    fix j row' assume j: "(j, row') \<in> set irs"
    with Cons.prems(3) ir have "st_key row' \<noteq> st_key row" by force
    with Cons.prems(4) [of j row'] j show "lookup_by st_key (st_key row') (r_stages s1) = Some row'"
      by (simp add: other)
  qed
  moreover have "st_key row \<notin> st_key ` snd ` set irs" using Cons.prems(3) ir by force
  ultimately show ?case using ir by (cases "lookup_by st_key k (r_stages s)") (auto simp: other)
qed

text \<open>
  Expiry is exact. A run of the expiry moves precisely the reserved and approved stages whose
  deadline has passed to \<open>OutcomeOverdue\<close>, changes no other stage, reports how many they were, and
  leaves none behind.
\<close>

theorem expire_exact:
  assumes "reachable H s" "expire_pending_stages H uid now s = (Inr n, s')"
  shows "n = length (filter (overdue (utc_seconds now)) (r_stages s))
    \<and> (\<forall>rid stg. stage_of s' rid stg = map_option (\<lambda>r. if overdue (utc_seconds now) r
         then r\<lparr>st_state := OutcomeOverdue\<rparr> else r) (stage_of s rid stg))
    \<and> (\<forall>rid stg r. stage_of s' rid stg = Some r \<longrightarrow> \<not> overdue (utc_seconds now) r)"
proof -
  let ?t = "utc_seconds now"
  have keys: "keys_distinct st_key (r_stages s)" by (rule stage_keys [OF assms(1)])
  from assms(2) obtain rows where rows: "rows = by_request (filter (overdue ?t) (r_stages s))" "n = length rows"
      and f: "foldE (expire_one H uid ?t) (zip [0..<length rows] rows) s = Inr s'"
    by (auto simp: expire_pending_stages_def transaction_Inr_iff expire_txn_def Let_def bindE_Inr_iff)
  have snd_zip: "map (st_key \<circ> snd) (zip [0..<length rows] rows) = map st_key rows" by (simp flip: map_map)
  have set_zip: "snd ` set (zip [0..<length rows] rows) = set rows"
    by (metis length_map map_nth length_upt minus_nat.diff_0 map_snd_zip set_map)
  have look: "stage_of s' rid stg = map_option (\<lambda>r. if (rid, stg) \<in> st_key ` set rows
      then r\<lparr>st_state := OutcomeOverdue\<rparr> else r) (stage_of s rid stg)" for rid stg
  proof (subst expire_fold_effect [OF f keys])
    show "distinct (map (st_key \<circ> snd) (zip [0..<length rows] rows))"
      using keys by (simp only: snd_zip) (simp add: rows distinct_by_request keys_distinct_def distinct_map_filter)
    fix i row assume "(i, row) \<in> set (zip [0..<length rows] rows)"
    then have "row \<in> set rows" by (rule set_zip_rightD)
    then show "lookup_by st_key (st_key row) (r_stages s) = Some row"
      by (simp add: rows by_request_set in_set_lookup [OF keys])
  qed (simp add: set_zip)
  have mem: "(rid, stg) \<in> st_key ` set rows \<longleftrightarrow> overdue ?t r" if "stage_of s rid stg = Some r" for rid stg r
  proof
    assume "(rid, stg) \<in> st_key ` set rows"
    then obtain x where "x \<in> set (r_stages s)" "st_key x = (rid, stg)" "overdue ?t x"
      by (auto simp: rows(1) by_request_set)
    with that in_set_lookup [OF keys this(1)] show "overdue ?t r" by simp
  qed (use lookup_by_SomeD [OF that] in \<open>auto simp: rows(1) by_request_set image_iff\<close>)
  have step: "stage_of s' rid stg = map_option (\<lambda>r. if overdue ?t r then r\<lparr>st_state := OutcomeOverdue\<rparr> else r)
      (stage_of s rid stg)" for rid stg
    using mem by (cases "stage_of s rid stg") (auto simp: look)
  moreover have "\<not> overdue ?t r" if "stage_of s' rid stg = Some r" for rid stg r
  proof -
    have "\<not> overdue ?t (a\<lparr>st_state := OutcomeOverdue\<rparr>)" for a by (simp add: overdue_def)
    with that step [of rid stg] show ?thesis by (cases "stage_of s rid stg") (auto split: if_splits)
  qed
  moreover have "n = length (filter (overdue ?t) (r_stages s))" by (simp add: rows by_request_def)
  ultimately show ?thesis by blast
qed

theorem expire_exact_witness:
  "fst (expire_pending_stages toy_host (toy_uid 10) 978309600000000 toy_reserved) = Inr 1
   \<and> length (filter (overdue (utc_seconds 978309600000000)) (r_stages toy_reserved)) = 1"
proof -
  have r: "fst (expire_pending_stages toy_host (toy_uid 10) 978309600000000 toy_reserved) = Inr 1" by code_simp
  then have "expire_pending_stages toy_host (toy_uid 10) 978309600000000 toy_reserved
      = (Inr 1, snd (expire_pending_stages toy_host (toy_uid 10) 978309600000000 toy_reserved))"
    by (simp add: prod_eq_iff)
  from expire_exact [OF toy_reach_reserved this] r show ?thesis by (simp only:)
qed

section \<open>The content store\<close>

text \<open>
  The content store returns what was put. After an object is put under its digest, reading
  the digest returns a value with the same canonical form, provided the file is readable, at most
  four MiB, and the JSON parser reads the canonical text back to an object with that text.
\<close>

theorem cas_round_trip:
  assumes "put_json H v d c = Inr c'" "canonical_bytes v = Inr raw" "length raw \<le> 4 * 1024 * 1024"
    and "\<And>hex. h_readable H hex" "h_json_loads H raw = Some (JObj kvs)" "canonical_bytes (JObj kvs) = Inr raw"
  shows "get_json H d c' = Inr (JObj kvs) \<and> jnorm (JObj kvs) = jnorm v"
proof -
  from assms(1,2) obtain hex where p: "digest H v = Inr d" "cas_hex d = Inr hex" "map_of c' hex = Some raw"
    by (elim put_json_effect) simp
  from p(1) assms(2,6) have "digest H (JObj kvs) = Inr d" by (simp add: sha256_digest_def)
  with p assms(3-6) have "get_json H d c' = Inr (JObj kvs)" by (simp add: get_json_def)
  with canonical_bytes_inject [OF assms(6,2)] show ?thesis by simp
qed

definition toy_reader :: host where
  "toy_reader = toy_host\<lparr>h_json_loads := (\<lambda>_. Some toy_envelope)\<rparr>"

theorem cas_round_trip_witness:
  "\<exists>c. put_json toy_reader toy_envelope (vb_bundle_digest toy_bundle) [] = Inr c
     \<and> get_json toy_reader (vb_bundle_digest toy_bundle) c = Inr toy_envelope"
proof -
  let ?raw = "[CHR 0x7B, CHR 0x22, CHR ''e'', CHR 0x22, CHR '':'', CHR ''1'', CHR 0x7D]"
  have c: "put_json toy_reader toy_envelope (vb_bundle_digest toy_bundle) [] = Inr [(toy_sha ''1234567'', ?raw)]"
    by code_simp
  have raw: "canonical_bytes toy_envelope = Inr ?raw" by code_simp
  from cas_round_trip [OF c raw, of "[(''e'', JInt 1)]"] raw c show ?thesis
    by (simp add: toy_reader_def toy_host_def toy_envelope_def)
qed

text \<open>
  The content store cannot be altered unnoticed. Whatever the files hold, a successful read
  of a digest returns a value of that digest; so it has the canonical form of the value that was
  put under the digest, unless SHA-256 has a collision.
\<close>

theorem cas_read_is_authentic:
  assumes "get_json H d c = Inr w" "put_json H v d c0 = Inr c1"
  shows "digest H w = Inr d \<and> (jnorm w = jnorm v \<or> sha_collision (h_sha H))"
proof -
  from assms(1) have w: "digest H w = Inr d"
    by (auto simp: get_json_def bindE_Inr_iff split: option.splits if_splits)
  moreover from assms(2) have "digest H v = Inr d" by (elim put_json_effect) simp
  ultimately show ?thesis using digest_binds_value by blast
qed

theorem cas_read_is_authentic_witness:
  "digest toy_reader toy_envelope = Inr (vb_bundle_digest toy_bundle)"
proof -
  let ?raw = "[CHR 0x7B, CHR 0x22, CHR ''e'', CHR 0x22, CHR '':'', CHR ''1'', CHR 0x7D]"
  have c: "put_json toy_reader toy_envelope (vb_bundle_digest toy_bundle) [] = Inr [(toy_sha ''1234567'', ?raw)]"
    by code_simp
  have "get_json toy_reader (vb_bundle_digest toy_bundle) [(toy_sha ''1234567'', ?raw)] = Inr toy_envelope"
    by code_simp
  from cas_read_is_authentic [OF this c] show ?thesis by blast
qed

text \<open>
  The evidence a registry refers to is kept. Every object in the store of a reachable
  registry is the canonical text of a value whose digest is the name it is stored under, and the
  envelope of every registered intent and the body of every recorded outcome are in the store.
\<close>

theorem evidence_is_retained:
  assumes "reachable H s"
  shows "(\<forall>hex raw. map_of (r_cas s) hex = Some raw \<longrightarrow>
        (\<exists>v. canonical_bytes v = Inr raw \<and> digest H v = Inr (''sha256:'' @ hex)))
    \<and> (\<forall>rid i. intent_of s rid = Some i \<longrightarrow> stored_digest (r_cas s) (in_bundle_digest i))
    \<and> (\<forall>rid stg x. outcome_of s rid stg = Some x \<longrightarrow> stored_digest (r_cas s) (so_outcome_digest x))"
  using reachable_inv [OF assms] by (auto simp: reg_inv_def cas_ok_def dest: lookup_by_SomeD)

theorem evidence_is_retained_witness:
  "\<exists>i. intent_of toy_registered ''q'' = Some i \<and> stored_digest (r_cas toy_registered) (in_bundle_digest i)"
proof -
  have "intent_of toy_registered ''q'' = Some (lit_intent None None Registered)"
    by (simp add: toy_registered_eq)
  with evidence_is_retained [OF toy_reach_registered] show ?thesis by blast
qed

text \<open>
  C18: the registry refines its abstract machine. Every operation, with any arguments and whether
  it succeeds or fails, is a sequence of the atomic changes of the abstract machine.
\<close>

theorem registry_refines_machine:
  assumes "reachable H s" "reg_op H s s'"
  shows "(reg_change H)\<^sup>*\<^sup>* s s'"
  using reachable_inv [OF assms(1)] assms(2) by (rule reg_op_changes)

theorem registry_refines_machine_witness: "(reg_change toy_host)\<^sup>*\<^sup>* toy_accepted toy_reserved"
  using registry_refines_machine [OF toy_reach_accepted toy_op7] .

end
