(* ===== verification/Webhook.thy ===== *)
theory Webhook
  imports Evidence
begin

text \<open>
  The authenticated deployment-protection request of \<^verbatim>\<open>webhook.py\<close>, which the ledger, the
  evaluator and the service pass around.
\<close>

record protection_request =
  pr_delivery_id :: string
  pr_repository_id :: int
  pr_repository :: string
  pr_installation_id :: int
  pr_environment :: string
  pr_head_sha :: string
  pr_intent_ref :: string
  pr_request_id :: string
  pr_run_id :: int
  pr_callback_url :: string
  pr_sender_id :: int
  pr_payload_sha256 :: string
  pr_provenance :: string

end
