(* ===== verification/Ledger.thy ===== *)
theory Ledger
  imports HashChain Webhook
begin

text \<open>
  The append-only observe ledger of \<^verbatim>\<open>ledger.py\<close>: recorded deliveries, the hash-linked
  event log, one decision per run with the state of its callback, and the high-water mark of
  the delivery poller. Sequence numbers are the positions in the event list: SQLite's
  \<^verbatim>\<open>AUTOINCREMENT\<close> counts from one and rows are never deleted.
\<close>

section \<open>State\<close>

datatype verdict = Approved | Denied
datatype callback_status = CbPending | CbSucceeded | CbDefinitiveFailure | CbUnknown

record ledger_event =
  le_event_id :: string
  le_delivery_id :: string
  le_recorded_at :: string
  le_event_type :: string
  le_reason_code :: string
  le_evidence_digest :: "string option"
  le_previous_hash :: "string option"
  le_event_hash :: string

record delivery_row =
  dv_request :: protection_request
  dv_received_at :: stamp

record decision =
  dc_repository_id :: int
  dc_environment :: string
  dc_run_id :: int
  dc_first_delivery_id :: string
  dc_state :: verdict
  dc_reason_code :: string
  dc_evidence_digest :: "string option"
  dc_comment :: string
  dc_callback_status :: callback_status
  dc_callback_http_status :: "int option"
  dc_created_at :: stamp
  dc_updated_at :: stamp

record poller_row =
  pl_last_success_at :: "stamp option"
  pl_high_water_delivery_id :: "int option"
  pl_high_water_delivered_at :: "stamp option"
  pl_high_water_guid :: "string option"

record ledger =
  l_deliveries :: "delivery_row list"
  l_events :: "ledger_event list"
  l_decisions :: "decision list"
  l_poller :: poller_row

definition empty_ledger :: ledger where
  "empty_ledger = \<lparr>l_deliveries = [], l_events = [], l_decisions = [],
     l_poller = \<lparr>pl_last_success_at = None, pl_high_water_delivery_id = None,
       pl_high_water_delivered_at = None, pl_high_water_guid = None\<rparr>\<rparr>"

definition dv_key :: "delivery_row \<Rightarrow> string" where
  "dv_key d = pr_delivery_id (dv_request d)"

definition dc_key :: "decision \<Rightarrow> int \<times> string \<times> int" where
  "dc_key d = (dc_repository_id d, dc_environment d, dc_run_id d)"

definition run_key :: "protection_request \<Rightarrow> int \<times> string \<times> int" where
  "run_key q = (pr_repository_id q, pr_environment q, pr_run_id q)"

abbreviation delivery_of :: "ledger \<Rightarrow> string \<Rightarrow> delivery_row option" where
  "delivery_of L k \<equiv> lookup_by dv_key k (l_deliveries L)"

abbreviation decision_of :: "ledger \<Rightarrow> protection_request \<Rightarrow> decision option" where
  "decision_of L q \<equiv> lookup_by dc_key (run_key q) (l_decisions L)"

section \<open>Operations\<close>

definition record_delivery :: "protection_request \<Rightarrow> datetime \<Rightarrow> ledger \<Rightarrow> bool result \<times> ledger" where
  "record_delivery q now L =
     (case delivery_of L (pr_delivery_id q) of
        None \<Rightarrow> (Inr True, L\<lparr>l_deliveries := l_deliveries L
                   @ [\<lparr>dv_request = q, dv_received_at = utc_seconds now\<rparr>]\<rparr>)
      | Some existing \<Rightarrow>
          if pr_payload_sha256 (dv_request existing) \<noteq> pr_payload_sha256 q
          then (reject ''WEBHOOK_DELIVERY_COLLISION'', L) else (Inr False, L))"

definition ledger_body :: "ledger_event \<Rightarrow> json" where
  "ledger_body e = JObj
     [(''domain'', JStr ''acik.cross-ai-deployment-ledger-event.v1''),
      (''eventId'', JStr (le_event_id e)),
      (''deliveryId'', JStr (le_delivery_id e)),
      (''recordedAt'', JStr (le_recorded_at e)),
      (''eventType'', JStr (le_event_type e)),
      (''reasonCode'', JStr (le_reason_code e)),
      (''evidenceDigest'', json_opt (le_evidence_digest e)),
      (''previousHash'', json_opt (le_previous_hash e))]"

definition ledger_txn :: "host \<Rightarrow> string \<Rightarrow> string \<Rightarrow> string \<Rightarrow> string \<Rightarrow> string option \<Rightarrow> datetime \<Rightarrow> ledger
    \<Rightarrow> ((nat \<times> ledger_event) \<times> ledger) result" where
  "ledger_txn H event_id delivery_id event_type reason_code evidence_digest now L =
     (if delivery_of L delivery_id = None then reject ''LEDGER_DELIVERY_MISSING''
      else let row = \<lparr>le_event_id = event_id, le_delivery_id = delivery_id,
              le_recorded_at = utc_text (utc_seconds now), le_event_type = event_type,
              le_reason_code = reason_code, le_evidence_digest = evidence_digest,
              le_previous_hash = last_hash le_event_hash (l_events L), le_event_hash = ''''\<rparr>
        in bindE (digest H (ledger_body row)) (\<lambda>event_hash.
          if event_id \<in> le_event_id ` set (l_events L) \<or> event_hash \<in> le_event_hash ` set (l_events L)
          then Inl IntegrityError
          else let e = row\<lparr>le_event_hash := event_hash\<rparr> in
            Inr ((Suc (length (l_events L)), e), L\<lparr>l_events := l_events L @ [e]\<rparr>)))"

definition append_ledger_event :: "host \<Rightarrow> string \<Rightarrow> string \<Rightarrow> string \<Rightarrow> string \<Rightarrow> string option \<Rightarrow> datetime
    \<Rightarrow> ledger \<Rightarrow> (nat \<times> ledger_event) result \<times> ledger" where
  "append_ledger_event H event_id delivery_id event_type reason_code evidence_digest now L =
     transaction (ledger_txn H event_id delivery_id event_type reason_code evidence_digest now) L"

definition ledger_counts :: "ledger \<Rightarrow> nat \<times> nat" where
  "ledger_counts L = (length (l_deliveries L), length (l_events L))"

definition poller_state :: "ledger \<Rightarrow> poller_row" where
  "poller_state L = l_poller L"

definition mark_poller_success :: "datetime \<Rightarrow> ledger \<Rightarrow> ledger" where
  "mark_poller_success now L =
     L\<lparr>l_poller := (l_poller L)\<lparr>pl_last_success_at := Some (utc_seconds now)\<rparr>\<rparr>"

text \<open>
  The comparison is Python's on the pair of text and number; an absent mark is the pair of the
  empty text and zero, below every candidate. The texts compare as the instants do.
\<close>

definition at_least_high_water :: "stamp \<Rightarrow> int \<Rightarrow> poller_row \<Rightarrow> bool" where
  "at_least_high_water delivered api_id p =
     (case pl_high_water_delivered_at p of
        None \<Rightarrow> True
      | Some t \<Rightarrow> t < delivered \<or> (t = delivered
          \<and> (case pl_high_water_delivery_id p of None \<Rightarrow> 0 | Some i \<Rightarrow> i) \<le> api_id))"

definition advance_txn :: "protection_request \<Rightarrow> int \<Rightarrow> datetime \<Rightarrow> datetime \<Rightarrow> ledger
    \<Rightarrow> (unit \<times> ledger) result" where
  "advance_txn q api_delivery_id delivered_at now L =
     (if map_option dc_callback_status (decision_of L q) \<noteq> Some CbSucceeded
      then reject ''POLLER_CALLBACK_NOT_SUCCEEDED''
      else if at_least_high_water (utc_seconds delivered_at) api_delivery_id (l_poller L)
      then Inr ((), L\<lparr>l_poller := \<lparr>pl_last_success_at = Some (utc_seconds now),
             pl_high_water_delivery_id = Some api_delivery_id,
             pl_high_water_delivered_at = Some (utc_seconds delivered_at),
             pl_high_water_guid = Some (pr_delivery_id q)\<rparr>\<rparr>)
      else Inr ((), mark_poller_success now L))"

definition advance_poller_after_callback :: "protection_request \<Rightarrow> int \<Rightarrow> datetime \<Rightarrow> datetime \<Rightarrow> ledger
    \<Rightarrow> unit result \<times> ledger" where
  "advance_poller_after_callback q api_delivery_id delivered_at now L =
     (if api_delivery_id < 1 then (reject ''POLLER_STATE_INVALID'', L)
      else transaction (advance_txn q api_delivery_id delivered_at now) L)"

definition callback_succeeded :: "protection_request \<Rightarrow> ledger \<Rightarrow> bool" where
  "callback_succeeded q L = (map_option dc_callback_status (decision_of L q) = Some CbSucceeded)"

definition events_for_delivery :: "string \<Rightarrow> ledger \<Rightarrow> (nat \<times> ledger_event) list" where
  "events_for_delivery delivery_id L =
     filter (\<lambda>(i, e). le_delivery_id e = delivery_id) (zip [1..<Suc (length (l_events L))] (l_events L))"

definition pending_decision :: "protection_request \<Rightarrow> verdict \<Rightarrow> string \<Rightarrow> string option \<Rightarrow> string \<Rightarrow> datetime
    \<Rightarrow> decision" where
  "pending_decision q st reason_code evidence_digest comment now =
     \<lparr>dc_repository_id = pr_repository_id q, dc_environment = pr_environment q,
      dc_run_id = pr_run_id q, dc_first_delivery_id = pr_delivery_id q, dc_state = st,
      dc_reason_code = reason_code, dc_evidence_digest = evidence_digest, dc_comment = comment,
      dc_callback_status = CbPending, dc_callback_http_status = None,
      dc_created_at = utc_seconds now, dc_updated_at = utc_seconds now\<rparr>"

definition claim_decision_txn :: "protection_request \<Rightarrow> verdict \<Rightarrow> string \<Rightarrow> string option \<Rightarrow> string \<Rightarrow> datetime
    \<Rightarrow> ledger \<Rightarrow> ((decision \<times> bool) \<times> ledger) result" where
  "claim_decision_txn q st reason_code evidence_digest comment now L =
     (case decision_of L q of
        Some row \<Rightarrow>
          if dc_state row \<noteq> st \<or> dc_reason_code row \<noteq> reason_code
             \<or> dc_evidence_digest row \<noteq> evidence_digest \<or> dc_comment row \<noteq> comment
          then reject ''DECISION_CONFLICT'' else Inr ((row, False), L)
      | None \<Rightarrow>
          if delivery_of L (pr_delivery_id q) = None then Inl IntegrityError
          else let row = pending_decision q st reason_code evidence_digest comment now in Inr ((row, True), L\<lparr>l_decisions := l_decisions L @ [row]\<rparr>))"

definition claim_decision :: "protection_request \<Rightarrow> verdict \<Rightarrow> string \<Rightarrow> string option \<Rightarrow> string \<Rightarrow> datetime
    \<Rightarrow> ledger \<Rightarrow> (decision \<times> bool) result \<times> ledger" where
  "claim_decision q st reason_code evidence_digest comment now L =
     (if reason_code = '''' \<or> py_len reason_code > 100 \<or> comment = '''' \<or> py_len comment > 1024
      then (reject ''DECISION_RECORD_INVALID'', L)
      else transaction (claim_decision_txn q st reason_code evidence_digest comment now) L)"

definition complete_txn :: "protection_request \<Rightarrow> callback_status \<Rightarrow> int option \<Rightarrow> datetime \<Rightarrow> ledger
    \<Rightarrow> (decision \<times> ledger) result" where
  "complete_txn q cb http_status now L =
     (case decision_of L q of None \<Rightarrow> reject ''DECISION_NOT_CLAIMED'' | Some row \<Rightarrow>
      if dc_callback_status row = CbSucceeded
      then (if cb \<noteq> CbSucceeded then reject ''DECISION_CONFLICT'' else Inr (row, L))
      else if dc_callback_status row = CbDefinitiveFailure \<and> cb \<noteq> CbDefinitiveFailure
      then reject ''DECISION_CONFLICT''
      else let f = (\<lambda>d. d\<lparr>dc_callback_status := cb, dc_callback_http_status := http_status,
                        dc_updated_at := utc_seconds now\<rparr>)
        in Inr (f row, L\<lparr>l_decisions := row_update (\<lambda>d. dc_key d = run_key q) f (l_decisions L)\<rparr>))"

definition complete_decision :: "protection_request \<Rightarrow> callback_status \<Rightarrow> int option \<Rightarrow> datetime \<Rightarrow> ledger
    \<Rightarrow> decision result \<times> ledger" where
  "complete_decision q cb http_status now L =
     (if cb = CbPending then (reject ''DECISION_CALLBACK_STATE_INVALID'', L)
      else transaction (complete_txn q cb http_status now) L)"

section \<open>The ledger as a state machine\<close>

inductive ledger_op :: "host \<Rightarrow> ledger \<Rightarrow> ledger \<Rightarrow> bool" for H where
  delivery_op: "record_delivery q now L = (b, L') \<Longrightarrow> ledger_op H L L'"
| event_op: "append_ledger_event H u delivery_id event_type reason_code evidence now L = (e, L') \<Longrightarrow> ledger_op H L L'"
| mark_op: "ledger_op H L (mark_poller_success now L)"
| advance_op: "advance_poller_after_callback q api delivered now L = (u2, L') \<Longrightarrow> ledger_op H L L'"
| claim_op: "claim_decision q st reason_code evidence comment now L = (d, L') \<Longrightarrow> ledger_op H L L'"
| complete_op: "complete_decision q cb http_status now L = (d2, L') \<Longrightarrow> ledger_op H L L'"

definition ledger_inv :: "host \<Rightarrow> ledger \<Rightarrow> bool" where
  "ledger_inv H L = (keys_distinct dv_key (l_deliveries L) \<and> keys_distinct dc_key (l_decisions L)
     \<and> keys_distinct le_event_id (l_events L) \<and> keys_distinct le_event_hash (l_events L)
     \<and> linked le_previous_hash le_event_hash (\<lambda>e. digest H (ledger_body e)) None (l_events L)
     \<and> (\<forall>e \<in> set (l_events L). delivery_of L (le_delivery_id e) \<noteq> None)
     \<and> (\<forall>d \<in> set (l_decisions L). delivery_of L (dc_first_delivery_id d) \<noteq> None)
     \<and> (pl_high_water_guid (l_poller L) \<noteq> None \<longrightarrow>
          (\<exists>d \<in> set (l_decisions L). dc_callback_status d = CbSucceeded)))"

lemma ledger_body_determines:
  assumes "jnorm (ledger_body e) = jnorm (ledger_body e')" "le_event_hash e = le_event_hash e'"
  shows "e = e'"
proof -
  note eq = assms(1) [unfolded ledger_body_def]
  have d: "distinct (map fst [(''domain'', JStr ''acik.cross-ai-deployment-ledger-event.v1''),
      (''eventId'', JStr (le_event_id x)), (''deliveryId'', JStr (le_delivery_id x)),
      (''recordedAt'', JStr (le_recorded_at x)), (''eventType'', JStr (le_event_type x)),
      (''reasonCode'', JStr (le_reason_code x)), (''evidenceDigest'', json_opt (le_evidence_digest x)),
      (''previousHash'', json_opt (le_previous_hash x))])" for x
    by simp
  note get = jnorm_get_the [OF eq d d]
  have "le_event_id e = le_event_id e'" using get [of "''eventId''"] by simp
  moreover have "le_delivery_id e = le_delivery_id e'" using get [of "''deliveryId''"] by simp
  moreover have "le_recorded_at e = le_recorded_at e'" using get [of "''recordedAt''"] by simp
  moreover have "le_event_type e = le_event_type e'" using get [of "''eventType''"] by simp
  moreover have "le_reason_code e = le_reason_code e'" using get [of "''reasonCode''"] by simp
  moreover have "le_evidence_digest e = le_evidence_digest e'" using get [of "''evidenceDigest''"] by simp
  moreover have "le_previous_hash e = le_previous_hash e'" using get [of "''previousHash''"] by simp
  ultimately show ?thesis using assms(2) by (simp add: ledger_event.equality)
qed

interpretation ledger_log: hash_log le_previous_hash le_event_hash ledger_body
  by unfold_locales (rule ledger_body_determines)

lemma ledger_txn_Inr:
  assumes "ledger_txn H u delivery_id event_type reason_code evidence now L = Inr (v, L')"
  obtains e where "L' = L\<lparr>l_events := l_events L @ [e]\<rparr>" "v = (Suc (length (l_events L)), e)"
    "delivery_of L (le_delivery_id e) \<noteq> None"
    "le_previous_hash e = last_hash le_event_hash (l_events L)" "digest H (ledger_body e) = Inr (le_event_hash e)"
    "le_event_id e \<notin> le_event_id ` set (l_events L)" "le_event_hash e \<notin> le_event_hash ` set (l_events L)"
proof -
  let ?row = "\<lparr>le_event_id = u, le_delivery_id = delivery_id,
              le_recorded_at = utc_text (utc_seconds now), le_event_type = event_type,
              le_reason_code = reason_code, le_evidence_digest = evidence,
              le_previous_hash = last_hash le_event_hash (l_events L), le_event_hash = ''''\<rparr>"
  from assms obtain h where h: "delivery_of L delivery_id \<noteq> None" "digest H (ledger_body ?row) = Inr h"
      "u \<notin> le_event_id ` set (l_events L)" "h \<notin> le_event_hash ` set (l_events L)"
      "v = (Suc (length (l_events L)), ?row\<lparr>le_event_hash := h\<rparr>)"
      and L': "L' = L\<lparr>l_events := l_events L @ [?row\<lparr>le_event_hash := h\<rparr>]\<rparr>"
    by (auto simp: ledger_txn_def Let_def bindE_Inr_iff split: if_splits)
  have "ledger_body (?row\<lparr>le_event_hash := h\<rparr>) = ledger_body ?row" by (simp add: ledger_body_def)
  then show ?thesis using that [OF L'] h by simp
qed

lemma advance_effect:
  assumes "advance_poller_after_callback q api delivered now L = (u, L')"
  shows "L' = L \<or> L' = mark_poller_success now L
    \<or> (\<exists>d. decision_of L q = Some d \<and> dc_callback_status d = CbSucceeded
        \<and> at_least_high_water (utc_seconds delivered) api (l_poller L)
        \<and> L' = L\<lparr>l_poller := \<lparr>pl_last_success_at = Some (utc_seconds now), pl_high_water_delivery_id = Some api,
             pl_high_water_delivered_at = Some (utc_seconds delivered),
             pl_high_water_guid = Some (pr_delivery_id q)\<rparr>\<rparr>)"
proof (cases "api < 1")
  case True
  with assms show ?thesis by (simp add: advance_poller_after_callback_def)
next
  case False
  have "transaction (advance_txn q api delivered now) L = (u, L')"
    using assms False by (simp add: advance_poller_after_callback_def)
  then show ?thesis
    unfolding transaction_def advance_txn_def reject_def map_option_case
    by (cases "decision_of L q") (simp_all split: if_splits)
qed

lemma pending_decision_keys:
  "dc_key (pending_decision q st reason_code evidence comment now) = run_key q"
  "dc_first_delivery_id (pending_decision q st reason_code evidence comment now) = pr_delivery_id q"
  by (simp_all add: pending_decision_def dc_key_def run_key_def)

lemma claim_effect:
  assumes "claim_decision q st reason_code evidence comment now L = (v, L')"
  shows "L' = L \<or> (\<exists>row. L' = L\<lparr>l_decisions := l_decisions L @ [row]\<rparr> \<and> dc_key row = run_key q
      \<and> decision_of L q = None \<and> delivery_of L (dc_first_delivery_id row) \<noteq> None)"
proof (cases "reason_code = [] \<or> py_len reason_code > 100 \<or> comment = [] \<or> py_len comment > 1024")
  case True
  with assms show ?thesis by (simp add: claim_decision_def)
next
  case False
  have "transaction (claim_decision_txn q st reason_code evidence comment now) L = (v, L')"
    using assms False by (simp only: claim_decision_def if_False)
  then show ?thesis
    unfolding transaction_def claim_decision_txn_def reject_def Let_def
    by (cases "decision_of L q"; cases "delivery_of L (pr_delivery_id q)")
      (auto simp: pending_decision_keys split: if_splits)
qed

lemma complete_effect:
  assumes "complete_decision q cb http_status now L = (v, L')"
  shows "L' = L \<or> (\<exists>d. decision_of L q = Some d \<and> dc_callback_status d \<noteq> CbSucceeded
      \<and> (dc_callback_status d = CbDefinitiveFailure \<longrightarrow> cb = CbDefinitiveFailure)
      \<and> L' = L\<lparr>l_decisions := row_update (\<lambda>d. dc_key d = run_key q) (\<lambda>d. d\<lparr>dc_callback_status := cb,
         dc_callback_http_status := http_status, dc_updated_at := utc_seconds now\<rparr>) (l_decisions L)\<rparr>)"
proof (cases "cb = CbPending")
  case True
  with assms show ?thesis by (simp add: complete_decision_def)
next
  case False
  have "transaction (complete_txn q cb http_status now) L = (v, L')"
    using assms False by (simp add: complete_decision_def)
  then show ?thesis
    unfolding transaction_def complete_txn_def reject_def Let_def
    by (cases "decision_of L q") (simp_all split: if_splits)
qed

text \<open>What one operation does.\<close>

lemma ledger_op_effect:
  assumes "ledger_op H L L'"
  obtains (same) "L' = L"
  | (delivered) q now where "delivery_of L (pr_delivery_id q) = None"
      "L' = L\<lparr>l_deliveries := l_deliveries L @ [\<lparr>dv_request = q, dv_received_at = utc_seconds now\<rparr>]\<rparr>"
  | (logged) e where "L' = L\<lparr>l_events := l_events L @ [e]\<rparr>" "delivery_of L (le_delivery_id e) \<noteq> None"
      "le_previous_hash e = last_hash le_event_hash (l_events L)" "digest H (ledger_body e) = Inr (le_event_hash e)"
      "le_event_id e \<notin> le_event_id ` set (l_events L)" "le_event_hash e \<notin> le_event_hash ` set (l_events L)"
  | (marked) now where "L' = mark_poller_success now L"
  | (advanced) q d p where "L' = L\<lparr>l_poller := p\<rparr>" "decision_of L q = Some d" "dc_callback_status d = CbSucceeded"
      "\<exists>delivered api. at_least_high_water delivered api (l_poller L)
         \<and> pl_high_water_delivered_at p = Some delivered \<and> pl_high_water_delivery_id p = Some api"
  | (claimed) q d where "L' = L\<lparr>l_decisions := l_decisions L @ [d]\<rparr>" "dc_key d = run_key q" "decision_of L q = None"
      "delivery_of L (dc_first_delivery_id d) \<noteq> None"
  | (completed) q d cb http now where "decision_of L q = Some d" "dc_callback_status d \<noteq> CbSucceeded"
      "dc_callback_status d = CbDefinitiveFailure \<Longrightarrow> cb = CbDefinitiveFailure"
      "L' = L\<lparr>l_decisions := row_update (\<lambda>d. dc_key d = run_key q) (\<lambda>d. d\<lparr>dc_callback_status := cb,
         dc_callback_http_status := http, dc_updated_at := utc_seconds now\<rparr>) (l_decisions L)\<rparr>"
  using assms
proof (cases rule: ledger_op.cases)
  case (delivery_op q now b)
  then consider "L' = L" | "delivery_of L (pr_delivery_id q) = None"
      "L' = L\<lparr>l_deliveries := l_deliveries L @ [\<lparr>dv_request = q, dv_received_at = utc_seconds now\<rparr>]\<rparr>"
    by (auto simp: record_delivery_def split: option.splits if_splits)
  then show ?thesis by cases (rule that(1) that(2); assumption)+
next
  case (event_op u delivery_id event_type reason_code evidence now e)
  show ?thesis
  proof (cases "ledger_txn H u delivery_id event_type reason_code evidence now L")
    case (Inl err)
    with event_op that(1) show ?thesis by (simp add: append_ledger_event_def transaction_def)
  next
    case (Inr vL)
    with event_op have "ledger_txn H u delivery_id event_type reason_code evidence now L = Inr (fst vL, L')"
      by (auto simp: append_ledger_event_def transaction_def split: prod.splits)
    then show ?thesis by (rule ledger_txn_Inr) (rule that(3))
  qed
next
  case (mark_op now)
  then show ?thesis by (rule that(4))
next
  case (advance_op q api delivered now u2)
  then consider "L' = L" | "L' = mark_poller_success now L" | d where "decision_of L q = Some d"
      "dc_callback_status d = CbSucceeded" "at_least_high_water (utc_seconds delivered) api (l_poller L)"
      "L' = L\<lparr>l_poller := \<lparr>pl_last_success_at = Some (utc_seconds now), pl_high_water_delivery_id = Some api,
         pl_high_water_delivered_at = Some (utc_seconds delivered), pl_high_water_guid = Some (pr_delivery_id q)\<rparr>\<rparr>"
    by (auto dest!: advance_effect)
  then show ?thesis
  proof cases
    case 3
    show ?thesis by (rule that(5) [OF 3(4,1,2)], rule exI [of _ "utc_seconds delivered"], rule exI [of _ api])
        (simp add: 3(3))
  qed (rule that(1) that(4), assumption)+
next
  case (claim_op q st reason_code evidence comment now d)
  then consider "L' = L" | row where "L' = L\<lparr>l_decisions := l_decisions L @ [row]\<rparr>" "dc_key row = run_key q"
      "decision_of L q = None" "delivery_of L (dc_first_delivery_id row) \<noteq> None"
    using claim_effect by metis
  then show ?thesis by cases (rule that(1) that(6); assumption)+
next
  case (complete_op q cb http_status now d2)
  then consider "L' = L" | d where "decision_of L q = Some d" "dc_callback_status d \<noteq> CbSucceeded"
      "dc_callback_status d = CbDefinitiveFailure \<longrightarrow> cb = CbDefinitiveFailure"
      "L' = L\<lparr>l_decisions := row_update (\<lambda>d. dc_key d = run_key q) (\<lambda>d. d\<lparr>dc_callback_status := cb,
         dc_callback_http_status := http_status, dc_updated_at := utc_seconds now\<rparr>) (l_decisions L)\<rparr>"
    using complete_effect by metis
  then show ?thesis
  proof cases
    case 2
    show ?thesis by (rule that(7) [OF 2(1,2) _ 2(4)]) (use 2(3) in blast)
  qed (rule that(1), assumption)
qed
section \<open>Every reachable ledger\<close>

lemma ledger_inv_empty: "ledger_inv H empty_ledger"
  by (simp add: ledger_inv_def empty_ledger_def)

lemma delivery_kept_snoc:
  "delivery_of L k \<noteq> None \<Longrightarrow> lookup_by dv_key k (l_deliveries L @ ds) \<noteq> None"
  by (auto simp: lookup_by_append)

lemma ledger_inv_step:
  assumes inv: "ledger_inv H L" and step: "ledger_op H L L'"
  shows "ledger_inv H L'"
  using step
proof (cases rule: ledger_op_effect)
  case same
  with inv show ?thesis by simp
next
  case (delivered q now)
  with inv show ?thesis
    by (simp add: ledger_inv_def keys_distinct_snoc delivery_kept_snoc dv_key_def)
next
  case (logged e)
  from inv have "linked le_previous_hash le_event_hash (\<lambda>e. digest H (ledger_body e)) None (l_events L)"
    by (simp add: ledger_inv_def)
  from ledger_log.linked_append_event [OF this logged(3,4)] inv logged show ?thesis
    by (simp add: ledger_inv_def keys_distinct_append) (simp add: keys_distinct_def)
next
  case (marked now)
  with inv show ?thesis by (simp add: ledger_inv_def mark_poller_success_def)
next
  case (advanced q d p)
  with inv show ?thesis by (auto simp: ledger_inv_def dest: lookup_by_SomeD)
next
  case (claimed q d)
  with inv show ?thesis by (auto simp: ledger_inv_def keys_distinct_snoc)
next
  case (completed q d cb http now)
  let ?f = "\<lambda>d. d\<lparr>dc_callback_status := cb, dc_callback_http_status := http, dc_updated_at := utc_seconds now\<rparr>"
  let ?u = "row_update (\<lambda>d. dc_key d = run_key q) ?f (l_decisions L)"
  have k: "\<And>d. dc_key (?f d) = dc_key d" "\<And>d. dc_first_delivery_id (?f d) = dc_first_delivery_id d"
    by (simp_all add: dc_key_def)
  from inv have inj: "keys_distinct dc_key (l_decisions L)" by (simp add: ledger_inv_def)
  have keep: "x \<in> set ?u" if "x \<in> set (l_decisions L)" "dc_callback_status x = CbSucceeded" for x
  proof -
    have "dc_key x \<noteq> run_key q"
      using that completed(1,2) in_set_lookup [OF inj that(1)] by auto
    then have "x = (if dc_key x = run_key q then ?f x else x)" by simp
    with that(1) show ?thesis unfolding row_update_def set_map by (rule image_eqI [rotated])
  qed
  have "delivery_of L (dc_first_delivery_id x) \<noteq> None" if "x \<in> set ?u" for x
  proof -
    from that have "dc_first_delivery_id x \<in> dc_first_delivery_id ` set (l_decisions L)"
      using set_key_row_update [where key = dc_first_delivery_id, OF k(2)] by blast
    with inv show ?thesis by (auto simp: ledger_inv_def)
  qed
  with inv keep completed(4) show ?thesis
    by (auto simp: ledger_inv_def keys_distinct_row_update [where key = dc_key, OF k(1)])
qed

interpretation ledger_ops: invariant_system "ledger_op H" "\<lambda>L. L = empty_ledger" "ledger_inv H" for H
  by unfold_locales (auto simp: ledger_inv_empty intro: ledger_inv_step)

abbreviation ledger_reachable :: "host \<Rightarrow> ledger \<Rightarrow> bool" where
  "ledger_reachable H L \<equiv> (ledger_op H)\<^sup>*\<^sup>* empty_ledger L"

lemma ledger_reachable_inv: "ledger_reachable H L \<Longrightarrow> ledger_inv H L"
  by (rule ledger_ops.inv_reachable) simp_all

text \<open>What no operation undoes: a decision, the log, the deliveries and the high-water mark.\<close>

definition decision_kept :: "decision \<Rightarrow> decision \<Rightarrow> bool" where
  "decision_kept d d' =
     (dc_key d' = dc_key d \<and> dc_first_delivery_id d' = dc_first_delivery_id d \<and> dc_state d' = dc_state d
      \<and> dc_reason_code d' = dc_reason_code d \<and> dc_evidence_digest d' = dc_evidence_digest d
      \<and> dc_comment d' = dc_comment d \<and> dc_created_at d' = dc_created_at d
      \<and> (dc_callback_status d = CbSucceeded \<longrightarrow> d' = d)
      \<and> (dc_callback_status d = CbDefinitiveFailure \<longrightarrow> dc_callback_status d' = CbDefinitiveFailure))"

definition high_water :: "poller_row \<Rightarrow> (stamp \<times> int) option" where
  "high_water p = map_option (\<lambda>t. (t, case pl_high_water_delivery_id p of None \<Rightarrow> 0 | Some i \<Rightarrow> i))
     (pl_high_water_delivered_at p)"

definition mark_le :: "(stamp \<times> int) option \<Rightarrow> (stamp \<times> int) option \<Rightarrow> bool" where
  "mark_le a b = (\<forall>t i. a = Some (t, i) \<longrightarrow> (\<exists>t' i'. b = Some (t', i') \<and> (t < t' \<or> t = t' \<and> i \<le> i')))"

lemma mark_le_refl: "mark_le a a"
  by (simp add: mark_le_def)

lemma mark_le_trans: "mark_le a b \<Longrightarrow> mark_le b c \<Longrightarrow> mark_le a c"
  by (cases a; cases b; cases c) (auto simp: mark_le_def)

lemma at_least_mark_le:
  assumes "at_least_high_water t i p" "pl_high_water_delivered_at p' = Some t" "pl_high_water_delivery_id p' = Some i"
  shows "mark_le (high_water p) (high_water p')"
  using assms by (auto simp: at_least_high_water_def mark_le_def high_water_def split: option.splits)

definition ledger_grows :: "ledger \<Rightarrow> ledger \<Rightarrow> bool" where
  "ledger_grows L L' =
     (prefix (l_events L) (l_events L') \<and> prefix (l_deliveries L) (l_deliveries L')
      \<and> (\<forall>q d. decision_of L q = Some d \<longrightarrow> (\<exists>d'. decision_of L' q = Some d' \<and> decision_kept d d'))
      \<and> mark_le (high_water (l_poller L)) (high_water (l_poller L')))"

lemma decision_kept_refl: "decision_kept d d"
  by (simp add: decision_kept_def)

lemma decision_kept_trans: "decision_kept a b \<Longrightarrow> decision_kept b c \<Longrightarrow> decision_kept a c"
  unfolding decision_kept_def by metis

lemma decision_kept_callback:
  assumes "dc_callback_status d \<noteq> CbSucceeded" "dc_callback_status d = CbDefinitiveFailure \<Longrightarrow> cb = CbDefinitiveFailure"
  shows "decision_kept d (d\<lparr>dc_callback_status := cb, dc_callback_http_status := http, dc_updated_at := t\<rparr>)"
  unfolding decision_kept_def dc_key_def
  by (intro conjI impI; (simp; fail)?) (use assms in simp_all)

lemma ledger_grows_refl: "ledger_grows L L"
  by (simp add: ledger_grows_def decision_kept_refl mark_le_refl)

lemma ledger_grows_trans: "ledger_grows a b \<Longrightarrow> ledger_grows b c \<Longrightarrow> ledger_grows a c"
  unfolding ledger_grows_def by (meson prefix_order.trans mark_le_trans decision_kept_trans)

lemma ledger_grows_step:
  assumes "ledger_op H L L'"
  shows "ledger_grows L L'"
  using assms
proof (cases rule: ledger_op_effect)
  case (marked now)
  then show ?thesis
    by (simp add: ledger_grows_def mark_poller_success_def decision_kept_refl mark_le_def high_water_def)
next
  case (advanced q d p)
  then show ?thesis by (auto simp: ledger_grows_def decision_kept_refl intro: at_least_mark_le)
next
  case (claimed q d)
  then show ?thesis
    by (auto simp: ledger_grows_def lookup_by_append decision_kept_refl mark_le_refl)
next
  case (completed q d cb http now)
  let ?f = "\<lambda>d. d\<lparr>dc_callback_status := cb, dc_callback_http_status := http, dc_updated_at := utc_seconds now\<rparr>"
  have k: "\<And>d. dc_key (?f d) = dc_key d" by (simp add: dc_key_def)
  have "decision_kept d (?f d)" by (rule decision_kept_callback [OF completed(2,3)])
  then have "\<exists>d'. decision_of L' q' = Some d' \<and> decision_kept e d'" if "decision_of L q' = Some e" for q' e
    using that completed(1) unfolding completed(4)
    by (cases "run_key q' = run_key q") (simp_all add: lookup_row_update_key [where key = dc_key, OF k] decision_kept_refl)
  then show ?thesis unfolding ledger_grows_def by (simp add: completed(4) mark_le_refl)
qed (simp_all add: ledger_grows_refl, simp_all add: ledger_grows_def decision_kept_refl mark_le_refl)

lemma ledger_grows_ops:
  assumes "(ledger_op H)\<^sup>*\<^sup>* L L'"
  shows "ledger_grows L L'"
  using assms
proof (induction rule: rtranclp_induct)
  case base
  show ?case by (rule ledger_grows_refl)
next
  case (step M N)
  then show ?case using ledger_grows_step ledger_grows_trans by blast
qed

end
