(* ===== verification/LedgerProps.thy ===== *)
theory LedgerProps
  imports Ledger Scenario
begin

text \<open>
  What the ledger guarantees for every sequence of operations on an empty database: one
  decision per run that nothing contradicts, deliveries recorded once, a log that only grows
  and is committed to by its last hash, and a poller mark that never moves back. The instance
  is one delivery that is recorded, logged, decided, called back and acknowledged.
\<close>

section \<open>A concrete delivery\<close>

definition toy_request :: protection_request where
  "toy_request = \<lparr>pr_delivery_id = ''d1'', pr_repository_id = 7, pr_repository = ''o/r'',
     pr_installation_id = 3, pr_environment = ''prod'', pr_head_sha = replicate 40 (CHR ''a''),
     pr_intent_ref = ''i'', pr_request_id = ''q'', pr_run_id = 11, pr_callback_url = ''u'', pr_sender_id = 5,
     pr_payload_sha256 = ''s'', pr_provenance = ''webhook''\<rparr>"

definition toy_l1 :: ledger where
  "toy_l1 = snd (record_delivery toy_request t0 empty_ledger)"

definition toy_l2 :: ledger where
  "toy_l2 = snd (append_ledger_event toy_host ''e1'' ''d1'' ''Received'' ''OK'' None t0 toy_l1)"

definition toy_l3 :: ledger where
  "toy_l3 = snd (claim_decision toy_request Approved ''OK'' None ''c'' t0 toy_l2)"

definition toy_l4 :: ledger where
  "toy_l4 = snd (complete_decision toy_request CbSucceeded (Some 204) t0 toy_l3)"

definition toy_l5 :: ledger where
  "toy_l5 = snd (advance_poller_after_callback toy_request 9 t0 t0 toy_l4)"

lemma toy_l1_reach: "ledger_reachable toy_host toy_l1"
  unfolding toy_l1_def by (rule r_into_rtranclp, rule ledger_op.delivery_op, rule prod.collapse [symmetric])

lemma toy_l2_op: "ledger_op toy_host toy_l1 toy_l2"
  unfolding toy_l2_def by (rule ledger_op.event_op, rule prod.collapse [symmetric])

lemma toy_l3_op: "ledger_op toy_host toy_l2 toy_l3"
  unfolding toy_l3_def by (rule ledger_op.claim_op, rule prod.collapse [symmetric])

lemma toy_l4_op: "ledger_op toy_host toy_l3 toy_l4"
  unfolding toy_l4_def by (rule ledger_op.complete_op, rule prod.collapse [symmetric])

lemma toy_l5_op: "ledger_op toy_host toy_l4 toy_l5"
  unfolding toy_l5_def by (rule ledger_op.advance_op, rule prod.collapse [symmetric])

lemma toy_l3_reach: "ledger_reachable toy_host toy_l3"
  using toy_l1_reach toy_l2_op toy_l3_op by (meson rtranclp.rtrancl_into_rtrancl)

lemma toy_l5_reach: "ledger_reachable toy_host toy_l5"
  using toy_l3_reach toy_l4_op toy_l5_op by (meson rtranclp.rtrancl_into_rtrancl)

lemma toy_l35: "(ledger_op toy_host)\<^sup>*\<^sup>* toy_l3 toy_l5"
  using toy_l4_op toy_l5_op by (meson converse_rtranclp_into_rtranclp r_into_rtranclp)

section \<open>Decisions\<close>

lemma claim_existing:
  assumes "claim_decision q st reason_code evidence comment now L = (Inr (row, created), L')"
    and "decision_of L q = Some d"
  shows "row = d" "\<not> created" "L' = L" "dc_state d = st" "dc_reason_code d = reason_code"
    "dc_evidence_digest d = evidence" "dc_comment d = comment"
  using assms
  by (auto simp: claim_decision_def transaction_Inr_iff claim_decision_txn_def reject_def split: if_splits)

text \<open>
  C7: one decision per run. Once a run of an environment is decided, every later ledger holds
  the same verdict, reason, evidence and comment for it; a callback that succeeded is final;
  and a later claim that is accepted for the run, from whichever delivery, carries the same
  verdict, reason, evidence and comment, creates nothing and changes nothing.
\<close>

theorem decision_never_contradicted:
  assumes "decision_of L q = Some d" "(ledger_op H)\<^sup>*\<^sup>* L M"
  shows "\<exists>d'. decision_of M q = Some d' \<and> decision_kept d d'
    \<and> (\<forall>p st reason_code evidence comment now row created N. run_key p = run_key q \<longrightarrow>
         claim_decision p st reason_code evidence comment now M = (Inr (row, created), N) \<longrightarrow>
         row = d' \<and> \<not> created \<and> N = M \<and> st = dc_state d \<and> reason_code = dc_reason_code d
         \<and> evidence = dc_evidence_digest d \<and> comment = dc_comment d)"
proof -
  from ledger_grows_ops [OF assms(2)] assms(1) obtain d' where d': "decision_of M q = Some d'" "decision_kept d d'"
    by (auto simp: ledger_grows_def)
  from d'(2) have same: "dc_state d' = dc_state d" "dc_reason_code d' = dc_reason_code d"
    "dc_evidence_digest d' = dc_evidence_digest d" "dc_comment d' = dc_comment d" by (simp_all add: decision_kept_def)
  have "row = d' \<and> \<not> created \<and> N = M \<and> st = dc_state d \<and> reason_code = dc_reason_code d
         \<and> evidence = dc_evidence_digest d \<and> comment = dc_comment d"
    if k: "run_key p = run_key q"
      and c: "claim_decision p st reason_code evidence comment now M = (Inr (row, created), N)"
    for p st reason_code evidence comment now row created N
  proof -
    from d'(1) have "decision_of M p = Some d'" by (simp only: k)
    note e = claim_existing [OF c this]
    show ?thesis using e(1-3) unfolding same [symmetric] e(4-7) by simp
  qed
  with d' show ?thesis by blast
qed

theorem decision_never_contradicted_witness:
  "\<exists>d'. decision_of toy_l5 toy_request = Some d' \<and> decision_kept (the (decision_of toy_l3 toy_request)) d'"
proof -
  have "decision_of toy_l3 toy_request \<noteq> None" by code_simp
  then have "decision_of toy_l3 toy_request = Some (the (decision_of toy_l3 toy_request))" by simp
  from decision_never_contradicted [OF this toy_l35] show ?thesis by blast
qed

text \<open>
  The callback machine of a decision. \<^verbatim>\<open>complete_decision\<close> accepts exactly the moves that
  keep a successful callback successful and a definitive failure a failure; everything it
  rejects leaves the ledger as it was, and an accepted one updates only the callback of that
  run's decision.
\<close>

theorem callback_machine:
  "case complete_decision q cb http_status now L of
      (Inl e, M) \<Rightarrow> M = L \<and> (cb = CbPending \<or> decision_of L q = None \<or> (\<exists>d. decision_of L q = Some d
          \<and> dc_callback_status d \<in> {CbSucceeded, CbDefinitiveFailure} \<and> cb \<noteq> dc_callback_status d))
    | (Inr d', M) \<Rightarrow> decision_of M q = Some d' \<and> dc_callback_status d' = cb \<and> cb \<noteq> CbPending
        \<and> (\<exists>d. decision_of L q = Some d \<and> decision_kept d d')
        \<and> (\<forall>p. run_key p \<noteq> run_key q \<longrightarrow> decision_of M p = decision_of L p)
        \<and> l_events M = l_events L \<and> l_deliveries M = l_deliveries L \<and> l_poller M = l_poller L"
proof (cases "complete_decision q cb http_status now L")
  case (Pair r M)
  note run = Pair [unfolded complete_decision_def]
  show ?thesis
  proof (cases r)
    case (Inl e)
    with run have "M = L" "cb = CbPending \<or> complete_txn q cb http_status now L = Inl e"
      by (auto simp: transaction_Inl_iff split: if_splits)
    then show ?thesis unfolding Pair Inl
      by (auto simp: complete_txn_def Let_def reject_def split: option.splits if_splits)
  next
    case (Inr d')
    with run have cb: "cb \<noteq> CbPending" and t: "complete_txn q cb http_status now L = Inr (d', M)"
      by (auto simp: transaction_Inr_iff reject_def split: if_splits)
    let ?f = "\<lambda>d. d\<lparr>dc_callback_status := cb, dc_callback_http_status := http_status, dc_updated_at := utc_seconds now\<rparr>"
    let ?M = "L\<lparr>l_decisions := row_update (\<lambda>d. dc_key d = run_key q) ?f (l_decisions L)\<rparr>"
    have k: "\<And>d. dc_key (?f d) = dc_key d" by (simp add: dc_key_def)
    from t obtain d where d: "decision_of L q = Some d" by (auto simp: complete_txn_def reject_def split: option.splits)
    show ?thesis
    proof (cases "dc_callback_status d = CbSucceeded")
      case True
      with t d have "d' = d" "M = L" "cb = CbSucceeded"
        by (simp_all add: complete_txn_def reject_def split: if_splits)
      with True d show ?thesis unfolding Pair Inr by (simp add: decision_kept_refl)
    next
      case False
      with t d have fin: "dc_callback_status d = CbDefinitiveFailure \<Longrightarrow> cb = CbDefinitiveFailure"
        and eq: "d' = ?f d" "M = ?M"
        by (simp_all add: complete_txn_def reject_def Let_def split: if_splits)
      from d cb decision_kept_callback [OF False fin] show ?thesis unfolding Pair Inr eq
        by (simp add: lookup_row_update_key [where key = dc_key, OF k])
    qed
  qed
qed

theorem callback_machine_witness:
  "case complete_decision toy_request CbSucceeded (Some 204) t0 toy_l3 of
      (Inl e, M) \<Rightarrow> M = toy_l3 \<and> (CbSucceeded = CbPending \<or> decision_of toy_l3 toy_request = None
        \<or> (\<exists>d. decision_of toy_l3 toy_request = Some d
          \<and> dc_callback_status d \<in> {CbSucceeded, CbDefinitiveFailure} \<and> CbSucceeded \<noteq> dc_callback_status d))
    | (Inr d', M) \<Rightarrow> decision_of M toy_request = Some d' \<and> dc_callback_status d' = CbSucceeded
        \<and> (CbSucceeded \<noteq> CbPending)
        \<and> (\<exists>d. decision_of toy_l3 toy_request = Some d \<and> decision_kept d d')
        \<and> (\<forall>p. run_key p \<noteq> run_key toy_request \<longrightarrow> decision_of M p = decision_of toy_l3 p)
        \<and> l_events M = l_events toy_l3 \<and> l_deliveries M = l_deliveries toy_l3 \<and> l_poller M = l_poller toy_l3"
  by (rule callback_machine)

section \<open>Deliveries and the log\<close>

text \<open>
  A delivery is recorded once. In every ledger after the one that recorded a delivery,
  recording the same identifier again answers \<open>False\<close> for the same payload and
  \<^verbatim>\<open>WEBHOOK_DELIVERY_COLLISION\<close> for another one, and changes nothing either way.
\<close>

theorem delivery_recorded_once:
  assumes "record_delivery q now L = (Inr True, L')" "(ledger_op H)\<^sup>*\<^sup>* L' M"
    and "pr_delivery_id p = pr_delivery_id q"
  shows "record_delivery p now' M =
    (if pr_payload_sha256 p = pr_payload_sha256 q then Inr False else reject ''WEBHOOK_DELIVERY_COLLISION'', M)"
proof -
  let ?row = "\<lparr>dv_request = q, dv_received_at = utc_seconds now\<rparr>"
  from assms(1) have "delivery_of L (pr_delivery_id q) = None" "l_deliveries L' = l_deliveries L @ [?row]"
    by (auto simp: record_delivery_def reject_def split: option.splits if_splits)
  then have "delivery_of L' (pr_delivery_id q) = Some ?row"
    by (simp add: lookup_by_append dv_key_def)
  moreover from ledger_grows_ops [OF assms(2)] obtain ds where "l_deliveries M = l_deliveries L' @ ds"
    by (auto simp: ledger_grows_def prefix_def)
  ultimately have "delivery_of M (pr_delivery_id p) = Some ?row" by (simp add: lookup_by_append assms(3))
  then show ?thesis by (simp add: record_delivery_def)
qed

theorem delivery_recorded_once_witness:
  "record_delivery toy_request t0 toy_l5 =
    (if pr_payload_sha256 toy_request = pr_payload_sha256 toy_request then Inr False
     else reject ''WEBHOOK_DELIVERY_COLLISION'', toy_l5)"
proof -
  have "(ledger_op toy_host)\<^sup>*\<^sup>* toy_l1 toy_l5"
    by (rule converse_rtranclp_into_rtranclp [OF toy_l2_op converse_rtranclp_into_rtranclp [OF toy_l3_op toy_l35]])
  moreover have "fst (record_delivery toy_request t0 empty_ledger) = Inr True" by code_simp
  then have "record_delivery toy_request t0 empty_ledger = (Inr True, toy_l1)"
    unfolding toy_l1_def by (simp add: prod_eq_iff)
  ultimately show ?thesis by (intro delivery_recorded_once [OF _ _ refl])
qed

text \<open>
  The observe log is append only and its last hash commits to it. Events and deliveries
  of a ledger are prefixes of those of every later one, and two reachable ledgers whose logs
  end in the same hash have the same log, unless SHA-256 has a collision.
\<close>

theorem ledger_tamper_evident:
  assumes "ledger_reachable H L" "(ledger_op H)\<^sup>*\<^sup>* L M" "ledger_reachable H N"
  shows "prefix (l_events L) (l_events M) \<and> prefix (l_deliveries L) (l_deliveries M)
    \<and> (last_hash le_event_hash (l_events L) = last_hash le_event_hash (l_events N) \<longrightarrow>
         l_events L = l_events N \<or> sha_collision (h_sha H))"
proof -
  note inv = ledger_reachable_inv [OF assms(1)] ledger_reachable_inv [OF assms(3)]
  have "l_events L = l_events N \<or> sha_collision (h_sha H)"
    if "last_hash le_event_hash (l_events L) = last_hash le_event_hash (l_events N)"
    by (rule ledger_log.head_determines_log [OF _ _ that]) (use inv in \<open>simp_all add: ledger_inv_def\<close>)
  with ledger_grows_ops [OF assms(2)] show ?thesis by (simp add: ledger_grows_def)
qed

theorem ledger_tamper_evident_witness:
  "prefix (l_events toy_l3) (l_events toy_l5) \<and> (l_events toy_l3 = l_events toy_l5 \<or> sha_collision (h_sha toy_host))"
proof -
  have "map le_event_hash (l_events toy_l3) = map le_event_hash (l_events toy_l5)" by code_simp
  moreover have "last_hash le_event_hash (l_events toy_l3) = last_hash le_event_hash (l_events toy_l5)" by code_simp
  ultimately show ?thesis using ledger_tamper_evident [OF toy_l3_reach toy_l35 toy_l5_reach] by simp
qed

lemma zip_upt_snoc:
  "zip [Suc 0..<Suc (Suc (length xs))] (xs @ [e]) = zip [Suc 0..<Suc (length xs)] xs @ [(Suc (length xs), e)]"
proof -
  have "[Suc 0..<Suc (Suc (length xs))] = [Suc 0..<Suc (length xs)] @ [Suc (length xs)]"
    by (rule upt_Suc_append) simp
  then show ?thesis by (simp del: upt_Suc)
qed

text \<open>
  What an appended event is. An append succeeds only for a recorded delivery; it returns
  the next sequence number with an event of the given content, and reading the events of that
  delivery back gives the earlier ones followed by it, every other delivery's events being
  the same as before.
\<close>

theorem append_then_read:
  assumes "append_ledger_event H u k event_type reason_code evidence now L = (Inr (n, e), L')"
  shows "delivery_of L k \<noteq> None \<and> n = Suc (length (l_events L)) \<and> le_event_id e = u \<and> le_delivery_id e = k
    \<and> le_event_type e = event_type \<and> le_reason_code e = reason_code \<and> le_evidence_digest e = evidence
    \<and> le_recorded_at e = utc_text (utc_seconds now)
    \<and> events_for_delivery k L' = events_for_delivery k L @ [(n, e)]
    \<and> (\<forall>k'. k' \<noteq> k \<longrightarrow> events_for_delivery k' L' = events_for_delivery k' L)
    \<and> ledger_counts L' = (fst (ledger_counts L), Suc (snd (ledger_counts L)))"
proof -
  from assms have t: "ledger_txn H u k event_type reason_code evidence now L = Inr ((n, e), L')"
    by (simp add: append_ledger_event_def transaction_Inr_iff)
  then have d: "delivery_of L k \<noteq> None" "le_event_id e = u \<and> le_delivery_id e = k
      \<and> le_event_type e = event_type \<and> le_reason_code e = reason_code \<and> le_evidence_digest e = evidence
      \<and> le_recorded_at e = utc_text (utc_seconds now)"
    by (auto simp: ledger_txn_def reject_def Let_def bindE_Inr_iff split: if_splits)
  from t have L': "L' = L\<lparr>l_events := l_events L @ [e]\<rparr>" and n: "n = Suc (length (l_events L))"
    by (auto elim: ledger_txn_Inr)
  from d have "events_for_delivery k' L' = events_for_delivery k' L @ (if k' = k then [(n, e)] else [])" for k'
    unfolding events_for_delivery_def L' n by (simp del: upt_Suc add: zip_upt_snoc)
  with d n L' show ?thesis by (simp add: ledger_counts_def)
qed

theorem append_then_read_witness:
  "length (events_for_delivery ''d1'' toy_l2) = Suc (length (events_for_delivery ''d1'' toy_l1))"
proof -
  have "isl (fst (append_ledger_event toy_host ''e1'' ''d1'' ''Received'' ''OK'' None t0 toy_l1)) = False" by code_simp
  then obtain n e where "fst (append_ledger_event toy_host ''e1'' ''d1'' ''Received'' ''OK'' None t0 toy_l1) = Inr (n, e)"
    by (cases "fst (append_ledger_event toy_host ''e1'' ''d1'' ''Received'' ''OK'' None t0 toy_l1)") auto
  then have "append_ledger_event toy_host ''e1'' ''d1'' ''Received'' ''OK'' None t0 toy_l1 = (Inr (n, e), toy_l2)"
    unfolding toy_l2_def by (simp add: prod_eq_iff)
  from append_then_read [OF this] show ?thesis by simp
qed

section \<open>The poller mark\<close>

text \<open>
  The poller acknowledges only what was called back. The high-water mark never moves
  backwards over any sequence of operations, a mark exists only if some callback succeeded,
  and an advance that is accepted for a request was preceded by the successful callback of
  that request's run and records the time.
\<close>

theorem high_water_monotone:
  assumes "ledger_reachable H L" "(ledger_op H)\<^sup>*\<^sup>* L M"
  shows "mark_le (high_water (poller_state L)) (high_water (poller_state M))
    \<and> (pl_high_water_guid (poller_state M) \<noteq> None \<longrightarrow> (\<exists>d \<in> set (l_decisions M). dc_callback_status d = CbSucceeded))
    \<and> (\<forall>q api delivered now N. advance_poller_after_callback q api delivered now M = (Inr (), N) \<longrightarrow>
         callback_succeeded q M \<and> 1 \<le> api \<and> mark_le (Some (utc_seconds delivered, api)) (high_water (poller_state N))
         \<and> pl_last_success_at (poller_state N) = Some (utc_seconds now))"
proof -
  from assms have "ledger_reachable H M" by (rule rtranclp_trans)
  from ledger_reachable_inv [OF this]
  have "pl_high_water_guid (poller_state M) \<noteq> None \<longrightarrow> (\<exists>d \<in> set (l_decisions M). dc_callback_status d = CbSucceeded)"
    by (simp add: ledger_inv_def poller_state_def)
  moreover have "callback_succeeded q M \<and> 1 \<le> api \<and> mark_le (Some (utc_seconds delivered, api)) (high_water (poller_state N))
         \<and> pl_last_success_at (poller_state N) = Some (utc_seconds now)"
    if "advance_poller_after_callback q api delivered now M = (Inr (), N)" for q api delivered now N
  proof -
    from that have "1 \<le> api" and t: "advance_txn q api delivered now M = Inr ((), N)"
      by (auto simp: advance_poller_after_callback_def transaction_Inr_iff reject_def split: if_splits)
    from t have c: "callback_succeeded q M" by (auto simp: advance_txn_def callback_succeeded_def reject_def split: if_splits)
    have "mark_le (Some (utc_seconds delivered, api)) (high_water (poller_state N))
         \<and> pl_last_success_at (poller_state N) = Some (utc_seconds now)"
    proof (cases "at_least_high_water (utc_seconds delivered) api (l_poller M)")
      case True
      with t c show ?thesis
        by (auto simp: advance_txn_def callback_succeeded_def poller_state_def mark_le_def high_water_def)
    next
      case False
      with t c have "N = mark_poller_success now M"
        by (auto simp: advance_txn_def callback_succeeded_def)
      with False show ?thesis
        by (auto simp: mark_poller_success_def poller_state_def mark_le_def high_water_def at_least_high_water_def
            split: option.splits)
    qed
    with c \<open>1 \<le> api\<close> show ?thesis by simp
  qed
  ultimately show ?thesis using ledger_grows_ops [OF assms(2)] by (simp add: ledger_grows_def poller_state_def)
qed

theorem high_water_monotone_witness:
  "mark_le (high_water (poller_state toy_l3)) (high_water (poller_state toy_l5))
    \<and> (\<exists>d \<in> set (l_decisions toy_l5). dc_callback_status d = CbSucceeded)"
proof -
  have "pl_high_water_guid (poller_state toy_l5) \<noteq> None" by code_simp
  with high_water_monotone [OF toy_l3_reach toy_l35] show ?thesis by simp
qed

end
