(* ===== verification/Dsse.thy ===== *)
theory Dsse
  imports Evidence
begin

text \<open>
  The signed envelopes of \<^verbatim>\<open>dsse.py\<close>: the pre-authentication encoding and the verification
  of a JSON envelope with Ed25519 signatures. The signature scheme is a parameter of the host.
\<close>

section \<open>Encoding\<close>

record verified_envelope =
  ve_payload_type :: string
  ve_payload :: "(string \<times> json) list"
  ve_payload_bytes :: string
  ve_envelope_digest :: string
  ve_signing_key_ids :: "string list"

definition strict_b64 :: "host \<Rightarrow> json \<Rightarrow> string result" where
  "strict_b64 H v = (case v of
     JStr s \<Rightarrow> expect (PolicyError ''DSSE_BASE64_INVALID'') (h_b64decode H s)
   | _ \<Rightarrow> reject ''DSSE_BASE64_INVALID'')"

text \<open>\<^verbatim>\<open>set(obj) == {names}\<close>.\<close>

definition has_fields :: "(string \<times> json) list \<Rightarrow> string list \<Rightarrow> bool" where
  "has_fields kvs names = (fst ` set kvs = set names)"

definition pae_text :: "string \<Rightarrow> string \<Rightarrow> string" where
  "pae_text payload_type payload = nat_dec (length payload_type) @ '' '' @ payload_type @ '' ''
     @ nat_dec (length payload) @ '' '' @ payload"

text \<open>The text is its UTF-8 encoding, so a non-ASCII character is a byte above 127.\<close>

definition pae :: "string \<Rightarrow> string \<Rightarrow> string result" where
  "pae payload_type payload =
     (if payload_type = '''' \<or> list_ex (\<lambda>c. (of_char c :: nat) > 127) payload_type
      then reject ''DSSE_PAYLOAD_TYPE_INVALID''
      else Inr (''DSSEv1 '' @ pae_text payload_type payload))"

definition decode_public_key :: "host \<Rightarrow> json \<Rightarrow> string result" where
  "decode_public_key H v = bindE (strict_b64 H v) (\<lambda>raw.
     if length raw \<noteq> 32 then reject ''TRUST_KEY_INVALID'' else Inr raw)"

section \<open>Verification\<close>

text \<open>One entry of the signature list; \<open>seen\<close> are the key ids accepted so far.\<close>

definition verify_signature :: "host \<Rightarrow> (string \<times> string) list \<Rightarrow> string \<Rightarrow> json \<Rightarrow> string list
    \<Rightarrow> string list result" where
  "verify_signature H allowed_keys msg entry seen = (case entry of
     JObj kvs \<Rightarrow>
       if \<not> has_fields kvs [''keyid'', ''sig''] then reject ''DSSE_SIGNATURE_INVALID''
       else (case jget kvs ''keyid'' of
         JStr key_id \<Rightarrow>
           if key_id \<in> set seen then reject ''DSSE_SIGNATURE_INVALID''
           else (case map_of allowed_keys key_id of
             None \<Rightarrow> reject ''DSSE_KEY_NOT_ALLOWED''
           | Some public_key \<Rightarrow>
               bindE (strict_b64 H (jget kvs ''sig'')) (\<lambda>signature.
               if length signature \<noteq> 64 then reject ''DSSE_SIGNATURE_INVALID''
               else if \<not> h_ed25519 H public_key signature msg then reject ''DSSE_SIGNATURE_INVALID''
               else Inr (seen @ [key_id])))
       | _ \<Rightarrow> reject ''DSSE_SIGNATURE_INVALID'')
   | _ \<Rightarrow> reject ''DSSE_SIGNATURE_INVALID'')"

text \<open>The signature checks of an envelope; the answer is the list of signers.\<close>

definition verify_signatures :: "host \<Rightarrow> json \<Rightarrow> string \<Rightarrow> string \<Rightarrow> (string \<times> string) list \<Rightarrow> string list
    \<Rightarrow> bool \<Rightarrow> string list result" where
  "verify_signatures H signatures payload_type payload_bytes allowed_keys required_key_ids exactly_one =
     (case signatures of
        JArr entries \<Rightarrow>
          if entries = [] then reject ''DSSE_SIGNATURE_MISSING''
          else if exactly_one \<and> length entries \<noteq> 1 then reject ''DSSE_SIGNATURE_COUNT''
          else bindE (pae payload_type payload_bytes) (\<lambda>msg.
            bindE (foldE (verify_signature H allowed_keys msg) entries []) (\<lambda>seen.
            if \<not> set required_key_ids \<subseteq> set seen then reject ''DSSE_REQUIRED_SIGNER_MISSING''
            else Inr seen))
      | _ \<Rightarrow> reject ''DSSE_SIGNATURE_MISSING'')"

definition verify_json_envelope :: "host \<Rightarrow> json \<Rightarrow> string \<Rightarrow> (string \<times> string) list \<Rightarrow> string list
    \<Rightarrow> bool \<Rightarrow> verified_envelope result" where
  "verify_json_envelope H envelope expected_payload_type allowed_keys required_key_ids exactly_one =
     (case envelope of
        JObj env \<Rightarrow>
          if \<not> has_fields env [''payloadType'', ''payload'', ''signatures''] then reject ''DSSE_SCHEMA_INVALID''
          else if \<not> eq_str (jget env ''payloadType'') expected_payload_type
          then reject ''DSSE_PAYLOAD_TYPE_MISMATCH''
          else bindE (strict_b64 H (jget env ''payload'')) (\<lambda>payload_bytes.
            case h_json_loads H payload_bytes of
              Some (JObj payload) \<Rightarrow>
                bindE (canonical_bytes (JObj payload)) (\<lambda>canonical.
                if payload_bytes \<noteq> canonical then reject ''DSSE_PAYLOAD_NON_CANONICAL''
                else bindE (verify_signatures H (jget env ''signatures'') expected_payload_type payload_bytes
                    allowed_keys required_key_ids exactly_one) (\<lambda>seen.
                  bindE (digest H envelope) (\<lambda>envelope_digest.
                  Inr \<lparr>ve_payload_type = expected_payload_type, ve_payload = payload,
                    ve_payload_bytes = payload_bytes, ve_envelope_digest = envelope_digest,
                    ve_signing_key_ids = sort seen\<rparr>)))
            | _ \<Rightarrow> reject ''DSSE_PAYLOAD_INVALID'')
      | _ \<Rightarrow> reject ''DSSE_SCHEMA_INVALID'')"

section \<open>The encoding is unambiguous\<close>

lemma nat_dec_no_space: "CHR '' '' \<notin> set (nat_dec n)"
proof
  assume "CHR '' '' \<in> set (nat_dec n)"
  then have "is_digit (CHR '' '')" by (rule nat_dec_digits)
  then show False by (auto simp: is_digit_def digit_char_def char_of_eq_iff)
qed

lemma split_at_space:
  assumes "xs @ '' '' @ ys = us @ '' '' @ vs" "CHR '' '' \<notin> set xs" "CHR '' '' \<notin> set us"
  shows "xs = us \<and> ys = vs"
  using assms
proof (induction xs arbitrary: us)
  case Nil
  then show ?case by (cases us) auto
next
  case (Cons x xs)
  then show ?case by (cases us) auto
qed

lemma pae_text_inject:
  assumes "pae_text t p = pae_text t' p'"
  shows "t = t' \<and> p = p'"
proof -
  from split_at_space [OF assms [unfolded pae_text_def] nat_dec_no_space nat_dec_no_space]
  have len: "length t = length t'" and rest: "t @ '' '' @ nat_dec (length p) @ '' '' @ p
      = t' @ '' '' @ nat_dec (length p') @ '' '' @ p'" by simp_all
  from rest len have "t = t'" and "nat_dec (length p) @ '' '' @ p = nat_dec (length p') @ '' '' @ p'"
    by (simp_all add: append_eq_append_conv)
  from this(1) split_at_space [OF this(2) nat_dec_no_space nat_dec_no_space] show ?thesis by simp
qed

lemma if_Inr: "(if b then reject c else Inr x) = Inr y \<longleftrightarrow> \<not> b \<and> y = x"
  by auto

text \<open>
  The signed message determines what was signed. Two payload types and payloads with the same
  pre-authentication encoding are equal, so a signature made for one kind of evidence is never a
  signature for another.
\<close>

theorem pae_unambiguous:
  assumes "pae t p = Inr m" "pae t' p' = Inr m"
  shows "t = t' \<and> p = p'"
proof (rule pae_text_inject)
  from assms have "''DSSEv1 '' @ pae_text t p = ''DSSEv1 '' @ pae_text t' p'"
    unfolding pae_def if_Inr by (elim conjE) (rule trans [OF sym])
  then show "pae_text t p = pae_text t' p'" by (rule same_append_eq [THEN iffD1])
qed

theorem pae_unambiguous_witness: "\<forall>t p. pae t p = Inr ''DSSEv1 1 a 1 b'' \<longleftrightarrow> t = ''a'' \<and> p = ''b''"
proof (intro allI iffI)
  have ab: "pae ''a'' ''b'' = Inr ''DSSEv1 1 a 1 b''" by code_simp
  fix t p assume "pae t p = Inr ''DSSEv1 1 a 1 b''"
  then show "t = ''a'' \<and> p = ''b''" using ab by (rule pae_unambiguous)
next
  have ab: "pae ''a'' ''b'' = Inr ''DSSEv1 1 a 1 b''" by code_simp
  fix t p :: string assume "t = ''a'' \<and> p = ''b''"
  with ab show "pae t p = Inr ''DSSEv1 1 a 1 b''" by (elim conjE) (simp only:)
qed

section \<open>Accepted envelopes\<close>

definition signer_ok :: "host \<Rightarrow> (string \<times> string) list \<Rightarrow> string \<Rightarrow> string \<Rightarrow> bool" where
  "signer_ok H allowed_keys msg key_id =
     (\<exists>public_key signature. map_of allowed_keys key_id = Some public_key \<and> length signature = 64
        \<and> h_ed25519 H public_key signature msg)"

lemma verify_signature_step:
  assumes "verify_signature H keys msg entry seen = Inr seen'"
  obtains k where "seen' = seen @ [k]" "k \<notin> set seen" "signer_ok H keys msg k"
  using assms
  by (auto simp: verify_signature_def bindE_Inr_iff signer_ok_def split: json.splits if_splits option.splits)

lemma verify_signatures_fold:
  assumes "foldE (verify_signature H keys msg) entries seen = Inr ids"
    and "distinct seen" "\<forall>k \<in> set seen. signer_ok H keys msg k"
  shows "distinct ids \<and> length ids = length seen + length entries \<and> (\<forall>k \<in> set ids. signer_ok H keys msg k)"
  using assms
proof (induction entries arbitrary: seen)
  case Nil
  then show ?case by simp
next
  case (Cons entry entries)
  from Cons.prems(1) obtain seen' where s: "verify_signature H keys msg entry seen = Inr seen'"
      "foldE (verify_signature H keys msg) entries seen' = Inr ids" by (auto simp: bindE_Inr_iff)
  from s(1) obtain k where "seen' = seen @ [k]" "k \<notin> set seen" "signer_ok H keys msg k"
    by (rule verify_signature_step)
  with Cons.IH [OF s(2)] Cons.prems(2,3) show ?case by simp
qed

lemma verify_signatures_Inr:
  assumes "verify_signatures H sigs ty bytes keys required one = Inr ids"
  shows "\<exists>msg. pae ty bytes = Inr msg \<and> (\<forall>k \<in> set ids. signer_ok H keys msg k)"
    "set required \<subseteq> set ids" "distinct ids" "ids \<noteq> []" "one \<Longrightarrow> length ids = 1"
proof -
  from assms obtain entries msg where e: "entries \<noteq> []" "one \<longrightarrow> length entries = 1" "pae ty bytes = Inr msg"
      "foldE (verify_signature H keys msg) entries [] = Inr ids" "set required \<subseteq> set ids"
    by (auto simp: verify_signatures_def bindE_Inr_iff split: json.splits if_splits)
  from verify_signatures_fold [OF e(4)] have f: "distinct ids" "length ids = length entries"
      "\<forall>k \<in> set ids. signer_ok H keys msg k" by simp_all
  with e show "\<exists>msg. pae ty bytes = Inr msg \<and> (\<forall>k \<in> set ids. signer_ok H keys msg k)"
    "set required \<subseteq> set ids" "distinct ids" "ids \<noteq> []" "one \<Longrightarrow> length ids = 1" by auto
qed

lemma verify_envelope_Inr:
  assumes "verify_json_envelope H envelope ty keys required one = Inr v"
  shows "\<exists>env ids. envelope = JObj env \<and> ve_payload_type v = ty
    \<and> canonical_bytes (JObj (ve_payload v)) = Inr (ve_payload_bytes v)
    \<and> verify_signatures H (jget env ''signatures'') ty (ve_payload_bytes v) keys required one = Inr ids
    \<and> ve_signing_key_ids v = sort ids \<and> digest H envelope = Inr (ve_envelope_digest v)"
proof (cases envelope)
  case (JObj env)
  with assms obtain bytes where b: "strict_b64 H (jget env ''payload'') = Inr bytes"
    and rest: "(case h_json_loads H bytes of
              Some (JObj payload) \<Rightarrow>
                bindE (canonical_bytes (JObj payload)) (\<lambda>canonical.
                if bytes \<noteq> canonical then reject ''DSSE_PAYLOAD_NON_CANONICAL''
                else bindE (verify_signatures H (jget env ''signatures'') ty bytes keys required one) (\<lambda>seen.
                  bindE (digest H envelope) (\<lambda>envelope_digest.
                  Inr \<lparr>ve_payload_type = ty, ve_payload = payload,
                    ve_payload_bytes = bytes, ve_envelope_digest = envelope_digest,
                    ve_signing_key_ids = sort seen\<rparr>)))
            | _ \<Rightarrow> reject ''DSSE_PAYLOAD_INVALID'') = Inr v"
    by (auto simp: verify_json_envelope_def bindE_Inr_iff split: if_splits)
  from rest obtain payload where "h_json_loads H bytes = Some (JObj payload)"
    by (auto split: option.splits json.splits)
  with rest JObj show ?thesis by (auto simp: bindE_Inr_iff split: if_splits)
qed (use assms in \<open>simp_all add: verify_json_envelope_def\<close>)

text \<open>
  A verified envelope is authentic. Its payload bytes are the canonical form of the payload it
  returns, every signer it reports is an allowed key with a 64-byte signature that verifies over
  the encoding of that type and payload, the required signers are among them, none is counted
  twice, and there is exactly one when one is demanded.
\<close>

theorem verified_envelope_authentic:
  assumes "verify_json_envelope H envelope ty keys required one = Inr v"
  shows "canonical_bytes (JObj (ve_payload v)) = Inr (ve_payload_bytes v)
    \<and> (\<exists>msg. pae ty (ve_payload_bytes v) = Inr msg \<and> (\<forall>k \<in> set (ve_signing_key_ids v). \<exists>pk sig.
         map_of keys k = Some pk \<and> length sig = 64 \<and> h_ed25519 H pk sig msg))
    \<and> set required \<subseteq> set (ve_signing_key_ids v) \<and> distinct (ve_signing_key_ids v)
    \<and> ve_signing_key_ids v \<noteq> [] \<and> (one \<longrightarrow> length (ve_signing_key_ids v) = 1)
    \<and> digest H envelope = Inr (ve_envelope_digest v)"
proof -
  from verify_envelope_Inr [OF assms] obtain env ids where e: "canonical_bytes (JObj (ve_payload v)) = Inr (ve_payload_bytes v)"
    "verify_signatures H (jget env ''signatures'') ty (ve_payload_bytes v) keys required one = Inr ids"
    "ve_signing_key_ids v = sort ids" "digest H envelope = Inr (ve_envelope_digest v)" by blast
  note sigs = verify_signatures_Inr [OF e(2)]
  have "length (sort ids) = length ids" by simp
  then have "sort ids \<noteq> []" using sigs(4) by (metis length_0_conv)
  with sigs e show ?thesis by (auto simp: signer_ok_def)
qed

definition toy_dsse_host :: host where
  "toy_dsse_host = \<lparr>h_sha = (\<lambda>_. ''h''), h_iso = (\<lambda>_. None), h_b64decode = (\<lambda>s. Some s),
     h_json_loads = (\<lambda>_. Some (JObj [])), h_ed25519 = (\<lambda>k s m. k = ''key''),
     h_schema = (\<lambda>_ _. True), h_readable = (\<lambda>_. True), h_writable = (\<lambda>_. True)\<rparr>"

definition toy_dsse_envelope :: json where
  "toy_dsse_envelope = JObj [(''payloadType'', JStr ''t''), (''payload'', JStr [CHR 0x7B, CHR 0x7D]),
     (''signatures'', JArr [JObj [(''keyid'', JStr ''k''), (''sig'', JStr (replicate 64 (CHR ''s'')))]])]"

theorem verified_envelope_authentic_witness:
  "verify_json_envelope toy_dsse_host toy_dsse_envelope ''t'' [(''k'', ''key'')] [''k''] True
     = Inr \<lparr>ve_payload_type = ''t'', ve_payload = [], ve_payload_bytes = [CHR 0x7B, CHR 0x7D],
         ve_envelope_digest = ''sha256:h'', ve_signing_key_ids = [''k'']\<rparr>
   \<and> canonical_bytes (JObj []) = Inr [CHR 0x7B, CHR 0x7D]"
proof -
  have v: "verify_json_envelope toy_dsse_host toy_dsse_envelope ''t'' [(''k'', ''key'')] [''k''] True
     = Inr \<lparr>ve_payload_type = ''t'', ve_payload = [], ve_payload_bytes = [CHR 0x7B, CHR 0x7D],
         ve_envelope_digest = ''sha256:h'', ve_signing_key_ids = [''k'']\<rparr>" by code_simp
  from verified_envelope_authentic [OF this] v show ?thesis by simp
qed

end
