(* ===== verification/Payloads.thy ===== *)
theory Payloads
  imports Evidence
begin

text \<open>
  The readers that project a schema-checked JSON object of the evidence to its record: a field
  is \<^verbatim>\<open>obj["k"]\<close>, read once, with the type the JSON schemas of the repository give it. An object
  that a schema admits has all of them; reading any other object is a \<open>KeyError\<close> or a
  \<open>TypeError\<close>, whichever the first missing field raises.
\<close>

section \<open>Bundle\<close>

definition read_subject :: "json \<Rightarrow> subject result" where
  "read_subject v = bindE (obj_of v) (\<lambda>o1.
     bindE (fld_as int_of o1 ''repositoryId'') (\<lambda>repositoryId.
     bindE (fld_as str_of o1 ''repository'') (\<lambda>repository.
     bindE (fld_as str_of o1 ''headSha'') (\<lambda>headSha.
     bindE (fld_as str_of o1 ''intentRef'') (\<lambda>intentRef.
     bindE (fld_as str_of o1 ''environment'') (\<lambda>environment.
     bindE (fld_as str_of o1 ''deploymentClass'') (\<lambda>deploymentClass.
     bindE (fld_as str_of o1 ''policySha256'') (\<lambda>policySha256.
     bindE (fld_as str_of o1 ''artifactSetSha256'') (\<lambda>artifactSetSha256.
     bindE (fld_as str_of o1 ''rollbackPlanSha256'') (\<lambda>rollbackPlanSha256.
     bindE (fld_as str_of o1 ''postDeployVerifierSha256'') (\<lambda>postDeployVerifierSha256.
     bindE (fld_as str_of o1 ''runnerPolicySha256'') (\<lambda>runnerPolicySha256.
     bindE (fld_as str_of o1 ''runnerAdmissionLeaseSha256'') (\<lambda>runnerAdmissionLeaseSha256.
     bindE (fld_as str_of o1 ''bootstrapCredentialSha256'') (\<lambda>bootstrapCredentialSha256.
     bindE (fld_as str_of o1 ''sessionSha256'') (\<lambda>sessionSha256.
     bindE (fld_as str_of o1 ''endpointIdSha256'') (\<lambda>endpointIdSha256.
     bindE (fld_as str_of o1 ''operatorIdSha256'') (\<lambda>operatorIdSha256.
     Inr \<lparr>sj_raw = v, sj_repositoryId = repositoryId, sj_repository = repository,
       sj_headSha = headSha, sj_intentRef = intentRef, sj_environment = environment,
       sj_deploymentClass = deploymentClass, sj_policySha256 = policySha256,
       sj_artifactSetSha256 = artifactSetSha256, sj_rollbackPlanSha256 = rollbackPlanSha256,
       sj_postDeployVerifierSha256 = postDeployVerifierSha256, sj_runnerPolicySha256 = runnerPolicySha256,
       sj_runnerAdmissionLeaseSha256 = runnerAdmissionLeaseSha256,
       sj_bootstrapCredentialSha256 = bootstrapCredentialSha256, sj_sessionSha256 = sessionSha256,
       sj_endpointIdSha256 = endpointIdSha256,
       sj_operatorIdSha256 = operatorIdSha256\<rparr>)))))))))))))))))"

definition read_grant :: "json \<Rightarrow> grant result" where
  "read_grant v = bindE (obj_of v) (\<lambda>o1.
     bindE (fld_as str_of o1 ''requestId'') (\<lambda>requestId.
     bindE (fld_as str_of o1 ''deploymentSessionId'') (\<lambda>deploymentSessionId.
     bindE (fld_as obj_of o1 ''stageNonceSha256'') (\<lambda>stageNonceSha256.
     bindE (fld_as int_of o1 ''triggeringActorId'') (\<lambda>triggeringActorId.
     bindE (fld_as str_of o1 ''registrationPrincipal'') (\<lambda>registrationPrincipal.
     bindE (fld o1 ''notBefore'') (\<lambda>notBefore.
     bindE (fld o1 ''expiresAt'') (\<lambda>expiresAt.
     Inr \<lparr>gr_raw = v, gr_requestId = requestId, gr_deploymentSessionId = deploymentSessionId,
       gr_stageNonceSha256 = stageNonceSha256, gr_triggeringActorId = triggeringActorId,
       gr_registrationPrincipal = registrationPrincipal, gr_notBefore = notBefore,
       gr_expiresAt = expiresAt\<rparr>))))))))"

definition read_stage :: "json \<Rightarrow> workflow_stage result" where
  "read_stage v = bindE (obj_of v) (\<lambda>o1.
     bindE (fld_as str_of o1 ''stage'') (\<lambda>stage.
     bindE (fld_as int_of o1 ''order'') (\<lambda>order.
     bindE (Inr (map_of o1 ''dependsOn'')) (\<lambda>dependsOn.
     bindE (Inr (map_of o1 ''dependsOnFailure'')) (\<lambda>dependsOnFailure.
     bindE (fld_as str_of o1 ''workflowPath'') (\<lambda>workflowPath.
     bindE (fld_as str_of o1 ''workflowBlobSha256'') (\<lambda>workflowBlobSha256.
     bindE (fld_as str_of o1 ''dependencyLockSha256'') (\<lambda>dependencyLockSha256.
     bindE (fld_as str_of o1 ''concurrencyGroupSha256'') (\<lambda>concurrencyGroupSha256.
     bindE (fld_as strs_of o1 ''runsOnLabels'') (\<lambda>runsOnLabels.
     bindE (Inr (map_of o1 ''runnerGroupId'' \<noteq> None)) (\<lambda>runnerGroup.
     Inr \<lparr>ws_stage = stage, ws_order = order, ws_dependsOn = dependsOn,
       ws_dependsOnFailure = dependsOnFailure, ws_workflowPath = workflowPath,
       ws_workflowBlobSha256 = workflowBlobSha256, ws_dependencyLockSha256 = dependencyLockSha256,
       ws_concurrencyGroupSha256 = concurrencyGroupSha256, ws_runsOnLabels = runsOnLabels,
       ws_runnerGroup = runnerGroup\<rparr>)))))))))))"

definition read_closure_entry :: "json \<Rightarrow> closure_entry result" where
  "read_closure_entry v = bindE (obj_of v) (\<lambda>o1.
     bindE (fld_as str_of o1 ''findingId'') (\<lambda>findingId.
     bindE (fld_as str_of o1 ''raisedByReviewSha256'') (\<lambda>raisedByReviewSha256.
     bindE (fld_as str_of o1 ''fixSha256'') (\<lambda>fixSha256.
     bindE (fld_as str_of o1 ''acknowledgedByReviewSha256'') (\<lambda>acknowledgedByReviewSha256.
     Inr \<lparr>ce_findingId = findingId, ce_raisedByReviewSha256 = raisedByReviewSha256,
       ce_fixSha256 = fixSha256, ce_acknowledgedByReviewSha256 = acknowledgedByReviewSha256\<rparr>)))))"

text \<open>The nested objects \<^verbatim>\<open>closure\<close> and \<^verbatim>\<open>consensus\<close> are read in place.\<close>

definition read_in :: "(string \<times> json) list \<Rightarrow> string \<Rightarrow> ((string \<times> json) list \<Rightarrow> 'a result) \<Rightarrow> 'a result" where
  "read_in o1 k f = bindE (fld_as obj_of o1 k) f"

definition list_as :: "(json \<Rightarrow> 'a result) \<Rightarrow> json \<Rightarrow> 'a list result" where
  "list_as f v = bindE (list_of v) (mapE f)"

definition read_bundle :: "json \<Rightarrow> bundle_payload result" where
  "read_bundle v = bindE (obj_of v) (\<lambda>o1.
     bindE (fld_as str_of o1 ''bundleId'') (\<lambda>bundleId.
     bindE (fld_as read_subject o1 ''subject'') (\<lambda>subject.
     bindE (fld o1 ''workflowStages'') (\<lambda>stages_raw.
     bindE (fld_as (list_as read_stage) o1 ''workflowStages'') (\<lambda>workflowStages.
     bindE (fld o1 ''runnerAdmissionLeaseEnvelope'') (\<lambda>leaseEnvelope.
     bindE (fld_as list_of o1 ''reviewEnvelopes'') (\<lambda>reviewEnvelopes.
     bindE (read_in o1 ''closure'' (\<lambda>c. fld_as (list_as read_closure_entry) c ''entries'')) (\<lambda>closure.
     bindE (read_in o1 ''closure'' (\<lambda>c. fld_as str_of c ''closureRootSha256'')) (\<lambda>closureRootSha256.
     bindE (read_in o1 ''consensus'' (\<lambda>c. fld_as strs_of c ''providerFamilies'')) (\<lambda>consensus_providerFamilies.
     bindE (read_in o1 ''consensus'' (\<lambda>c. fld_as strs_of c ''finalAgreeReviewSha256'')) (\<lambda>consensus_finalAgree.
     bindE (read_in o1 ''consensus'' (\<lambda>c. fld_as str_of c ''closureRootSha256'')) (\<lambda>consensus_closureRootSha256.
     bindE (fld_as read_grant o1 ''grant'') (\<lambda>grant.
     Inr \<lparr>bd_bundleId = bundleId, bd_subject = subject, bd_stages_raw = stages_raw,
       bd_workflowStages = workflowStages, bd_leaseEnvelope = leaseEnvelope,
       bd_reviewEnvelopes = reviewEnvelopes, bd_closure = closure, bd_closureRootSha256 = closureRootSha256,
       bd_consensus_providerFamilies = consensus_providerFamilies,
       bd_consensus_finalAgree = consensus_finalAgree,
       bd_consensus_closureRootSha256 = consensus_closureRootSha256, bd_grant = grant\<rparr>)))))))))))))"

section \<open>Reviews and leases\<close>

definition read_review :: "json \<Rightarrow> review_leaf result" where
  "read_review v = bindE (obj_of v) (\<lambda>o1.
     bindE (fld_as str_of o1 ''reviewId'') (\<lambda>reviewId.
     bindE (fld_as str_of o1 ''reviewChainId'') (\<lambda>reviewChainId.
     bindE (fld_as str_of o1 ''providerFamily'') (\<lambda>providerFamily.
     bindE (fld_as str_of o1 ''channel'') (\<lambda>channel.
     bindE (fld_as bool_of o1 ''directProviderCli'') (\<lambda>directProviderCli.
     bindE (fld_as str_of o1 ''modelId'') (\<lambda>modelId.
     bindE (fld_as str_of o1 ''modelIdentityClass'') (\<lambda>modelIdentityClass.
     bindE (fld_as str_of o1 ''subjectSha256'') (\<lambda>subjectSha256.
     bindE (fld_as int_of o1 ''round'') (\<lambda>round.
     bindE (fld_as str_of o1 ''verdict'') (\<lambda>verdict.
     bindE (fld_as (opt_of str_of) o1 ''previousRoundSha256'') (\<lambda>previousRoundSha256.
     bindE (fld_as strs_of o1 ''findingIds'') (\<lambda>findingIds.
     bindE (fld_as strs_of o1 ''resolvedFindingIds'') (\<lambda>resolvedFindingIds.
     bindE (fld_as strs_of o1 ''acknowledgedFindingIds'') (\<lambda>acknowledgedFindingIds.
     bindE (fld_as str_of o1 ''closureRootSha256'') (\<lambda>closureRootSha256.
     bindE (fld o1 ''issuedAt'') (\<lambda>issuedAt.
     bindE (fld o1 ''expiresAt'') (\<lambda>expiresAt.
     bindE (fld_as str_of o1 ''issuer'') (\<lambda>issuer.
     bindE (fld_as str_of o1 ''keyId'') (\<lambda>keyId.
     Inr \<lparr>rv_reviewId = reviewId, rv_reviewChainId = reviewChainId,
       rv_providerFamily = providerFamily, rv_channel = channel, rv_directProviderCli = directProviderCli,
       rv_modelId = modelId, rv_modelIdentityClass = modelIdentityClass, rv_subjectSha256 = subjectSha256,
       rv_round = round, rv_verdict = verdict, rv_previousRoundSha256 = previousRoundSha256,
       rv_findingIds = findingIds, rv_resolvedFindingIds = resolvedFindingIds,
       rv_acknowledgedFindingIds = acknowledgedFindingIds, rv_closureRootSha256 = closureRootSha256,
       rv_issuedAt = issuedAt, rv_expiresAt = expiresAt, rv_issuer = issuer,
       rv_keyId = keyId\<rparr>))))))))))))))))))))"

definition read_runner :: "json \<Rightarrow> eligible_runner result" where
  "read_runner v = bindE (obj_of v) (\<lambda>o1.
     bindE (fld_as int_of o1 ''runnerId'') (\<lambda>runnerId.
     bindE (fld_as str_of o1 ''runnerNameSha256'') (\<lambda>runnerNameSha256.
     bindE (fld_as strs_of o1 ''labels'') (\<lambda>labels.
     Inr \<lparr>er_runnerId = runnerId, er_runnerNameSha256 = runnerNameSha256,
       er_labels = labels\<rparr>))))"

definition read_lease :: "json \<Rightarrow> lease_payload result" where
  "read_lease v = bindE (obj_of v) (\<lambda>o1.
     bindE (fld_as str_of o1 ''leaseId'') (\<lambda>leaseId.
     bindE (fld o1 ''issuedAt'') (\<lambda>issuedAt.
     bindE (fld o1 ''expiresAt'') (\<lambda>expiresAt.
     bindE (fld_as (list_as read_runner) o1 ''eligibleRunners'') (\<lambda>eligibleRunners.
     bindE (fld_as str_of o1 ''inventoryGenerationSha256'') (\<lambda>inventoryGenerationSha256.
     Inr \<lparr>ls_obj = o1, ls_leaseId = leaseId, ls_issuedAt = issuedAt, ls_expiresAt = expiresAt,
       ls_eligibleRunners = eligibleRunners,
       ls_inventoryGenerationSha256 = inventoryGenerationSha256\<rparr>))))))"

section \<open>Trust root and revocations\<close>

definition read_trust_entry :: "json \<Rightarrow> trust_entry result" where
  "read_trust_entry v = bindE (obj_of v) (\<lambda>o1.
     bindE (fld_as str_of o1 ''keyId'') (\<lambda>keyId.
     bindE (fld_as str_of o1 ''role'') (\<lambda>role.
     bindE (fld o1 ''publicKeyBase64'') (\<lambda>publicKeyBase64.
     bindE (fld o1 ''notBefore'') (\<lambda>notBefore.
     bindE (fld o1 ''notAfter'') (\<lambda>notAfter.
     bindE (fld_as (opt_of str_of) o1 ''providerFamily'') (\<lambda>providerFamily.
     bindE (fld_as strs_of o1 ''allowedChannels'') (\<lambda>allowedChannels.
     bindE (fld_as strs_of o1 ''allowedModelIds'') (\<lambda>allowedModelIds.
     bindE (fld_as strs_of o1 ''allowedModelIdentityClasses'') (\<lambda>allowedModelIdentityClasses.
     bindE (fld_as (opt_of bool_of) o1 ''directProviderCli'') (\<lambda>directProviderCli.
     Inr \<lparr>te_keyId = keyId, te_role = role, te_publicKeyBase64 = publicKeyBase64,
       te_notBefore = notBefore, te_notAfter = notAfter, te_providerFamily = providerFamily,
       te_allowedChannels = allowedChannels, te_allowedModelIds = allowedModelIds,
       te_allowedModelIdentityClasses = allowedModelIdentityClasses,
       te_directProviderCli = directProviderCli\<rparr>)))))))))))"

definition read_trust_root :: "json \<Rightarrow> trust_root_payload result" where
  "read_trust_root v = bindE (obj_of v) (\<lambda>o1.
     bindE (fld_as int_of o1 ''maxClockSkewSeconds'') (\<lambda>maxClockSkewSeconds.
     bindE (fld_as strs_of o1 ''requiredProviderFamilies'') (\<lambda>requiredProviderFamilies.
     bindE (fld o1 ''issuedAt'') (\<lambda>issuedAt.
     bindE (fld o1 ''expiresAt'') (\<lambda>expiresAt.
     bindE (fld_as (list_as read_trust_entry) o1 ''keys'') (\<lambda>keys.
     Inr \<lparr>tr_maxClockSkewSeconds = maxClockSkewSeconds,
       tr_requiredProviderFamilies = requiredProviderFamilies, tr_issuedAt = issuedAt,
       tr_expiresAt = expiresAt, tr_keys = keys\<rparr>))))))"

definition read_revocation :: "json \<Rightarrow> revocation_entry result" where
  "read_revocation v = bindE (obj_of v) (\<lambda>o1.
     bindE (fld_as str_of o1 ''type'') (\<lambda>type.
     bindE (fld_as str_of o1 ''id'') (\<lambda>id.
     bindE (fld o1 ''effectiveAt'') (\<lambda>effectiveAt.
     Inr \<lparr>re_type = type, re_id = id, re_effectiveAt = effectiveAt\<rparr>))))"

definition read_revocations :: "json \<Rightarrow> revocations_payload result" where
  "read_revocations v = bindE (obj_of v) (\<lambda>o1.
     bindE (fld o1 ''issuedAt'') (\<lambda>issuedAt.
     bindE (fld o1 ''nextUpdate'') (\<lambda>nextUpdate.
     bindE (fld_as (list_as read_revocation) o1 ''entries'') (\<lambda>entries.
     Inr \<lparr>rs_issuedAt = issuedAt, rs_nextUpdate = nextUpdate, rs_entries = entries\<rparr>))))"

end
