(* ===== verification/Contract.thy ===== *)
theory Contract
  imports Dsse Payloads "HOL-Library.AList" "HOL-Library.Product_Lexorder"
begin

text \<open>
  The evidence verifier of \<^verbatim>\<open>contract.py\<close>: the trust root with its keys, the revocation set, and
  the verification of a signed bundle: grant and session, runner admission lease, provider
  reviews with their chains, the closure of findings and the consensus. Dicts keyed by an
  identifier are lists of their values in insertion order; a Python set is the list its
  members come from, compared as a set.
\<close>

section \<open>Contract versions\<close>

datatype verification_mode = Active | Forensic
datatype contract_version = V1 | V2

type_synonym route = "string \<times> string \<times> string \<times> bool"

definition MAX_GRANT_TTL :: int where
  "MAX_GRANT_TTL = minutes 120"

text \<open>2026-07-18T00:00:00Z.\<close>

definition MINIMAX_NEW_REVIEW_CUTOFF :: datetime where
  "MINIMAX_NEW_REVIEW_CUTOFF = seconds 1784332800"

fun REQUIRED_PROVIDER_ROUTES :: "contract_version \<Rightarrow> (string \<times> route) list" where
  "REQUIRED_PROVIDER_ROUTES V1 =
     [(''anthropic'', ''direct-anthropic-cli'', ''claude-opus-4-8'', ''provider-reported'', True),
      (''minimax'', ''direct-minimax-cli'', ''minimax/MiniMax-M3'', ''provider-reported'', True),
      (''openai'', ''openai-codex'', ''gpt-5.6-sol'', ''provider-reported'', True)]"
| "REQUIRED_PROVIDER_ROUTES V2 =
     [(''anthropic'', ''direct-anthropic-cli'', ''claude-opus-4-8'', ''provider-reported'', True),
      (''openai'', ''openai-codex'', ''gpt-5.6-sol'', ''trusted-launch-attested'', True)]"

fun version_text :: "contract_version \<Rightarrow> string" where
  "version_text V1 = ''v1''"
| "version_text V2 = ''v2''"

text \<open>The attributes that the constructor selects by version.\<close>

definition schema_name :: "string \<Rightarrow> contract_version \<Rightarrow> string" where
  "schema_name kind ver = ''cross-ai-deployment-'' @ kind @ ''-'' @ version_text ver @ ''.schema.json''"

definition payload_type :: "string \<Rightarrow> contract_version \<Rightarrow> string" where
  "payload_type kind ver = ''application/vnd.acik.cross-ai-deployment-'' @ kind @ ''.'' @ version_text ver @ ''+json''"

definition domain_name :: "string \<Rightarrow> contract_version \<Rightarrow> string" where
  "domain_name kind ver = ''acik.cross-ai-deployment-'' @ kind @ ''.'' @ version_text ver"

definition REVOCATIONS_PAYLOAD_TYPE :: string where
  "REVOCATIONS_PAYLOAD_TYPE = ''application/vnd.acik.cross-ai-deployment-revocations.v1+json''"

definition RUNNER_ADMISSION_LEASE_PAYLOAD_TYPE :: string where
  "RUNNER_ADMISSION_LEASE_PAYLOAD_TYPE = ''application/vnd.acik.cross-ai-runner-admission-lease.v1+json''"

definition validate_schema :: "host \<Rightarrow> json \<Rightarrow> string \<Rightarrow> string \<Rightarrow> unit result" where
  "validate_schema H inst path code = require (h_schema H path inst) code"

record verifier =
  vf_mode :: verification_mode
  vf_observed_at :: datetime
  vf_now :: datetime
  vf_expected_policy :: "string option"
  vf_version :: contract_version
  vf_max_skew :: int
  vf_required_families :: "string list"
  vf_minimum_families :: int
  vf_minimum_direct_routes :: int
  vf_keys :: "trust_key list"
  vf_revocations :: "revocation_entry list"

section \<open>Trust keys\<close>

text \<open>A provider key must carry exactly the canonical route of its family, any other key none.\<close>

definition attribution_ok :: "contract_version \<Rightarrow> trust_entry \<Rightarrow> unit result" where
  "attribution_ok ver e =
     (if te_role e = ''provider-review''
      then (case (te_providerFamily e, te_allowedChannels e, te_allowedModelIds e,
              te_allowedModelIdentityClasses e, te_directProviderCli e) of
          (Some family, channel # _, model # _, identity # _, Some direct) \<Rightarrow>
            if family = '''' then reject ''TRUST_KEY_ATTRIBUTION_INVALID''
            else if map_of (REQUIRED_PROVIDER_ROUTES ver) family \<noteq> Some (channel, model, identity, direct)
            then reject ''TRUST_PROVIDER_ROUTE_INVALID'' else Inr ()
        | _ \<Rightarrow> reject ''TRUST_KEY_ATTRIBUTION_INVALID'')
      else if te_providerFamily e \<noteq> None \<or> te_allowedChannels e \<noteq> [] \<or> te_allowedModelIds e \<noteq> []
           \<or> te_allowedModelIdentityClasses e \<noteq> [] \<or> te_directProviderCli e \<noteq> None
      then reject ''TRUST_KEY_ATTRIBUTION_INVALID'' else Inr ())"

definition parse_trust_key :: "host \<Rightarrow> contract_version \<Rightarrow> trust_entry \<Rightarrow> trust_key list \<Rightarrow> trust_key list result" where
  "parse_trust_key H ver e parsed =
     (if te_keyId e \<in> tk_key_id ` set parsed then reject ''TRUST_KEY_DUPLICATE''
      else bindE (decode_public_key H (te_publicKeyBase64 e)) (\<lambda>public_key.
        if public_key \<in> tk_public_key ` set parsed then reject ''TRUST_KEY_REUSED''
        else bindE (attribution_ok ver e) (\<lambda>_.
          bindE (parse_utc H (te_notBefore e)) (\<lambda>not_before.
          bindE (parse_utc H (te_notAfter e)) (\<lambda>not_after.
          if not_after \<le> not_before then reject ''TRUST_KEY_LIFETIME_INVALID''
          else Inr (parsed @ [\<lparr>tk_key_id = te_keyId e, tk_role = te_role e, tk_public_key = public_key,
            tk_provider_family = te_providerFamily e, tk_allowed_channels = te_allowedChannels e,
            tk_allowed_model_ids = te_allowedModelIds e,
            tk_allowed_model_identity_classes = te_allowedModelIdentityClasses e,
            tk_direct_provider_cli = te_directProviderCli e, tk_not_before = not_before,
            tk_not_after = not_after\<rparr>]))))))"

definition provider_families :: "trust_key list \<Rightarrow> string option set" where
  "provider_families keys = tk_provider_family ` {k \<in> set keys. tk_role k = ''provider-review''}"

definition parse_trust_keys :: "host \<Rightarrow> contract_version \<Rightarrow> string list \<Rightarrow> trust_entry list \<Rightarrow> trust_key list result" where
  "parse_trust_keys H ver required entries =
     bindE (foldE (parse_trust_key H ver) entries []) (\<lambda>keys.
     bindE (reject_if
       [(\<not> {''provider-review'', ''coordinator'', ''revocation'', ''runner-management''} \<subseteq> tk_role ` set keys,
           ''TRUST_ROLE_MISSING''),
        (provider_families keys \<noteq> Some ` set required, ''TRUST_PROVIDER_SET_INVALID'')])
     (\<lambda>_. Inr keys))"

definition validate_trust_root_lifetime :: "host \<Rightarrow> datetime \<Rightarrow> int \<Rightarrow> trust_root_payload \<Rightarrow> unit result" where
  "validate_trust_root_lifetime H now max_skew tr =
     bindE (parse_utc H (tr_issuedAt tr)) (\<lambda>issued_at.
     bindE (parse_utc H (tr_expiresAt tr)) (\<lambda>expires_at.
     reject_if [(issued_at > now + max_skew, ''TRUST_ROOT_NOT_YET_VALID''),
       (expires_at < now - max_skew, ''TRUST_ROOT_EXPIRED''),
       (expires_at \<le> issued_at, ''TRUST_ROOT_LIFETIME_INVALID'')]))"

definition key_active :: "verifier \<Rightarrow> string \<Rightarrow> trust_key \<Rightarrow> bool" where
  "key_active v role k = (tk_role k = role \<and> tk_not_before k \<le> vf_now v + vf_max_skew v
     \<and> tk_not_after k \<ge> vf_now v - vf_max_skew v)"

definition active_keys :: "verifier \<Rightarrow> string \<Rightarrow> (string \<times> string) list result" where
  "active_keys v role =
     (let active = map (\<lambda>k. (tk_key_id k, tk_public_key k)) (filter (key_active v role) (vf_keys v))
      in if active = [] then reject ''TRUST_ACTIVE_KEY_MISSING'' else Inr active)"

definition key_of :: "verifier \<Rightarrow> string \<Rightarrow> trust_key result" where
  "key_of v key_id = expect (KeyError key_id) (lookup_by tk_key_id key_id (vf_keys v))"

section \<open>Revocations\<close>

text \<open>The first matching entry decides; its effective time is parsed and not compared.\<close>

fun is_revoked :: "host \<Rightarrow> revocation_entry list \<Rightarrow> string \<Rightarrow> string \<Rightarrow> bool result" where
  "is_revoked H [] kind identifier = Inr False"
| "is_revoked H (e # es) kind identifier =
     (if re_type e \<noteq> kind \<or> re_id e \<noteq> identifier then is_revoked H es kind identifier
      else bindE (parse_utc H (re_effectiveAt e)) (\<lambda>_. Inr True))"

definition refuse_revoked :: "host \<Rightarrow> verifier \<Rightarrow> string \<Rightarrow> string \<Rightarrow> string \<Rightarrow> unit result" where
  "refuse_revoked H v kind identifier code =
     bindE (is_revoked H (vf_revocations v) kind identifier) (\<lambda>r. if r then reject code else Inr ())"

definition validate_key_time :: "host \<Rightarrow> verifier \<Rightarrow> trust_key \<Rightarrow> datetime \<Rightarrow> bool \<Rightarrow> unit result" where
  "validate_key_time H v key issued_at check_revocation =
     bindE (reject_if [(issued_at < tk_not_before key - vf_max_skew v, ''SIGNING_KEY_NOT_YET_VALID''),
       (issued_at > tk_not_after key + vf_max_skew v, ''SIGNING_KEY_EXPIRED'')]) (\<lambda>_.
     if check_revocation then refuse_revoked H v ''key'' (tk_key_id key) ''SIGNING_KEY_REVOKED'' else Inr ())"

definition verify_revocations :: "host \<Rightarrow> verifier \<Rightarrow> json \<Rightarrow> revocation_entry list result" where
  "verify_revocations H v envelope =
     bindE (active_keys v ''revocation'') (\<lambda>allowed.
     bindE (verify_json_envelope H envelope REVOCATIONS_PAYLOAD_TYPE allowed [] True) (\<lambda>verified.
     bindE (validate_schema H (JObj (ve_payload verified)) ''cross-ai-deployment-revocations-v1.schema.json''
              ''REVOCATIONS_SCHEMA_INVALID'') (\<lambda>_.
     bindE (read_revocations (JObj (ve_payload verified))) (\<lambda>payload.
     bindE (parse_utc H (rs_issuedAt payload)) (\<lambda>issued_at.
     bindE (parse_utc H (rs_nextUpdate payload)) (\<lambda>next_update.
     bindE (reject_if [(issued_at > vf_now v + vf_max_skew v, ''REVOCATIONS_NOT_YET_VALID''),
       (next_update < vf_now v - vf_max_skew v, ''REVOCATIONS_STALE''),
       (next_update \<le> issued_at, ''REVOCATIONS_LIFETIME_INVALID'')]) (\<lambda>_.
     bindE (key_of v (hd (ve_signing_key_ids verified))) (\<lambda>signer.
     bindE (validate_key_time H v signer issued_at False) (\<lambda>_.
     Inr (rs_entries payload))))))))))"

section \<open>Construction\<close>

definition select_contract :: "json \<Rightarrow> contract_version result" where
  "select_contract schema_version =
     (if eq_str schema_version ''acik.cross-ai-deployment-trust-root.v1'' then Inr V1
      else if eq_str schema_version ''acik.cross-ai-deployment-trust-root.v2'' then Inr V2
      else reject ''TRUST_ROOT_SCHEMA_INVALID'')"

definition reference_ok :: "verification_mode \<Rightarrow> datetime option \<Rightarrow> datetime \<Rightarrow> unit result" where
  "reference_ok mode reference observed_at = reject_if
     [(mode = Active \<and> reference \<noteq> None, ''FORENSIC_REFERENCE_INVALID''),
      (mode = Forensic \<and> reference = None, ''FORENSIC_REFERENCE_REQUIRED''),
      (case reference of None \<Rightarrow> False | Some t \<Rightarrow> t > observed_at, ''FORENSIC_REFERENCE_INVALID'')]"

definition root_digest_ok :: "host \<Rightarrow> (string \<times> json) list \<Rightarrow> string option \<Rightarrow> unit result" where
  "root_digest_ok H trust_root expected = (case expected of
     None \<Rightarrow> Inr ()
   | Some d \<Rightarrow> bindE (digest H (JObj trust_root)) (\<lambda>actual.
       if actual \<noteq> d then reject ''TRUST_ROOT_DIGEST_MISMATCH'' else Inr ()))"

definition trust_root_ok :: "host \<Rightarrow> verification_mode \<Rightarrow> datetime \<Rightarrow> contract_version \<Rightarrow> trust_root_payload \<Rightarrow> unit result" where
  "trust_root_ok H mode observed_at ver tr =
     (let minimax = (ver = V1 \<and> ''minimax'' \<in> set (tr_requiredProviderFamilies tr)) in
      bindE (reject_if [(minimax \<and> mode = Active \<and> observed_at \<ge> MINIMAX_NEW_REVIEW_CUTOFF,
                          ''MINIMAX_PROVIDER_DEPRECATED'')]) (\<lambda>_.
      bindE (parse_utc H (tr_expiresAt tr)) (\<lambda>expires_at.
      reject_if [(minimax \<and> expires_at > MINIMAX_NEW_REVIEW_CUTOFF, ''MINIMAX_TRUST_ROOT_DEPRECATED'')])))"

definition new_verifier :: "host \<Rightarrow> (string \<times> json) list \<Rightarrow> json \<Rightarrow> datetime \<Rightarrow> string option \<Rightarrow> string option
    \<Rightarrow> verification_mode \<Rightarrow> datetime option \<Rightarrow> verifier result" where
  "new_verifier H trust_root revocations_envelope observed_at expected_policy expected_root mode reference =
     bindE (reference_ok mode reference observed_at) (\<lambda>_.
     let now = (case reference of None \<Rightarrow> observed_at | Some t \<Rightarrow> t) in
     bindE (select_contract (jget trust_root ''schemaVersion'')) (\<lambda>ver.
     bindE (reject_if [(mode = Forensic \<and> ver \<noteq> V1, ''FORENSIC_CONTRACT_INVALID''),
       (mode = Forensic \<and> now \<ge> MINIMAX_NEW_REVIEW_CUTOFF, ''FORENSIC_REFERENCE_INVALID'')]) (\<lambda>_.
     bindE (root_digest_ok H trust_root expected_root) (\<lambda>_.
     bindE (validate_schema H (JObj trust_root) (schema_name ''trust-root'' ver) ''TRUST_ROOT_SCHEMA_INVALID'') (\<lambda>_.
     bindE (read_trust_root (JObj trust_root)) (\<lambda>tr.
     bindE (trust_root_ok H mode observed_at ver tr) (\<lambda>_.
     bindE (fld_as int_of trust_root ''minimumProviderFamilies'') (\<lambda>minimum_families.
     bindE (fld_as int_of trust_root ''minimumDirectProviderRoutes'') (\<lambda>minimum_direct.
     bindE (parse_trust_keys H ver (tr_requiredProviderFamilies tr) (tr_keys tr)) (\<lambda>keys.
     let max_skew = seconds (tr_maxClockSkewSeconds tr) in
     bindE (validate_trust_root_lifetime H now max_skew tr) (\<lambda>_.
     let v = \<lparr>vf_mode = mode, vf_observed_at = observed_at, vf_now = now, vf_expected_policy = expected_policy,
              vf_version = ver, vf_max_skew = max_skew, vf_required_families = tr_requiredProviderFamilies tr,
              vf_minimum_families = minimum_families, vf_minimum_direct_routes = minimum_direct,
              vf_keys = keys, vf_revocations = []\<rparr> in
     bindE (verify_revocations H v revocations_envelope) (\<lambda>entries.
     Inr (v\<lparr>vf_revocations := entries\<rparr>)))))))))))))"

section \<open>Subject and grant\<close>

definition session_body :: "verifier \<Rightarrow> subject \<Rightarrow> grant \<Rightarrow> json" where
  "session_body v sj gr = JObj
     [(''domain'', JStr (domain_name ''session'' (vf_version v))),
      (''requestId'', JStr (gr_requestId gr)),
      (''deploymentSessionId'', JStr (gr_deploymentSessionId gr)),
      (''repositoryId'', JInt (sj_repositoryId sj)),
      (''environment'', JStr (sj_environment sj)),
      (''headSha'', JStr (sj_headSha sj)),
      (''intentRef'', JStr (sj_intentRef sj)),
      (''bootstrapCredentialSha256'', JStr (sj_bootstrapCredentialSha256 sj)),
      (''endpointIdSha256'', JStr (sj_endpointIdSha256 sj)),
      (''operatorIdSha256'', JStr (sj_operatorIdSha256 sj))]"

definition stages_ok :: "workflow_stage list \<Rightarrow> unit result" where
  "stages_ok stages = reject_if
     [(map ws_stage stages \<noteq> [''apply'', ''browser-evidence'', ''compensating-rollback''], ''STAGE_SEQUENCE_INVALID''),
      (map ws_order stages \<noteq> [1, 2, 3], ''STAGE_SEQUENCE_INVALID''),
      ((case ws_dependsOn (stages ! 0) of None \<Rightarrow> JArr [] | Some d \<Rightarrow> d) \<noteq> JArr [], ''STAGE_SEQUENCE_INVALID''),
      (ws_dependsOn (stages ! 1) \<noteq> Some (JArr [JStr ''apply'']), ''STAGE_SEQUENCE_INVALID''),
      (ws_dependsOnFailure (stages ! 2) \<noteq> Some (JArr [JStr ''apply'']), ''STAGE_SEQUENCE_INVALID'')]"

definition verify_subject_and_grant :: "host \<Rightarrow> verifier \<Rightarrow> bundle_payload \<Rightarrow> string \<Rightarrow> unit result" where
  "verify_subject_and_grant H v bundle subject_digest =
     (let sj = bd_subject bundle; gr = bd_grant bundle in
      bindE (parse_utc H (gr_notBefore gr)) (\<lambda>not_before.
      bindE (parse_utc H (gr_expiresAt gr)) (\<lambda>expires_at.
      bindE (reject_if
        [(expires_at \<le> not_before, ''GRANT_LIFETIME_INVALID''),
         (expires_at - not_before > MAX_GRANT_TTL, ''GRANT_TTL_EXCEEDED''),
         (not_before > vf_now v + vf_max_skew v, ''GRANT_NOT_YET_VALID''),
         (expires_at < vf_now v - vf_max_skew v, ''GRANT_EXPIRED''),
         (case vf_expected_policy v of None \<Rightarrow> False | Some p \<Rightarrow> p \<noteq> '''' \<and> sj_policySha256 sj \<noteq> p,
            ''POLICY_DIGEST_MISMATCH''),
         (sj_intentRef sj \<noteq> ''refs/tags/cross-ai-intent/'' @ gr_requestId gr, ''INTENT_REF_MISMATCH'')]) (\<lambda>_.
      bindE (digest H (session_body v sj gr)) (\<lambda>expected_session.
      bindE (reject_if [(sj_sessionSha256 sj \<noteq> expected_session, ''SESSION_BINDING_MISMATCH'')]) (\<lambda>_.
      bindE (stages_ok (bd_workflowStages bundle)) (\<lambda>_.
      reject_if [(\<not> startswith subject_digest ''sha256:'', ''SUBJECT_DIGEST_INVALID'')])))))))"

section \<open>Runner admission lease\<close>

definition lease_binding_ok :: "lease_payload \<Rightarrow> subject \<Rightarrow> grant \<Rightarrow> bool" where
  "lease_binding_ok payload sj gr =
     (let o1 = ls_obj payload in
      eq_str (jget o1 ''requestId'') (gr_requestId gr)
      \<and> eq_int (jget o1 ''repositoryId'') (sj_repositoryId sj)
      \<and> eq_str (jget o1 ''repository'') (sj_repository sj)
      \<and> eq_str (jget o1 ''environment'') (sj_environment sj)
      \<and> eq_str (jget o1 ''headSha'') (sj_headSha sj)
      \<and> eq_str (jget o1 ''intentRef'') (sj_intentRef sj)
      \<and> eq_str (jget o1 ''runnerPolicySha256'') (sj_runnerPolicySha256 sj))"

definition verify_runner_admission_lease :: "host \<Rightarrow> verifier \<Rightarrow> bundle_payload \<Rightarrow> verified_lease result" where
  "verify_runner_admission_lease H v bundle =
     (let sj = bd_subject bundle; gr = bd_grant bundle in
      bindE (active_keys v ''runner-management'') (\<lambda>allowed.
      bindE (verify_json_envelope H (bd_leaseEnvelope bundle) RUNNER_ADMISSION_LEASE_PAYLOAD_TYPE allowed [] True) (\<lambda>verified.
      bindE (validate_schema H (JObj (ve_payload verified)) ''cross-ai-runner-admission-lease-v1.schema.json''
               ''RUNNER_ADMISSION_LEASE_SCHEMA_INVALID'') (\<lambda>_.
      bindE (read_lease (JObj (ve_payload verified))) (\<lambda>payload.
      bindE (reject_if
        [(ve_envelope_digest verified \<noteq> sj_runnerAdmissionLeaseSha256 sj, ''RUNNER_ADMISSION_LEASE_DIGEST_MISMATCH''),
         (\<not> lease_binding_ok payload sj gr, ''RUNNER_ADMISSION_LEASE_BINDING_MISMATCH'')]) (\<lambda>_.
      bindE (parse_utc H (ls_issuedAt payload)) (\<lambda>issued_at.
      bindE (parse_utc H (ls_expiresAt payload)) (\<lambda>expires_at.
      bindE (parse_utc H (gr_notBefore gr)) (\<lambda>grant_start.
      bindE (parse_utc H (gr_expiresAt gr)) (\<lambda>grant_end.
      bindE (reject_if
        [(issued_at > vf_now v + vf_max_skew v \<or> expires_at < vf_now v - vf_max_skew v
          \<or> expires_at \<le> issued_at \<or> issued_at < grant_start - vf_max_skew v \<or> expires_at < grant_end,
            ''RUNNER_ADMISSION_LEASE_LIFETIME_INVALID''),
         (\<not> distinct (map er_runnerId (ls_eligibleRunners payload))
          \<or> \<not> distinct (map er_runnerNameSha256 (ls_eligibleRunners payload)),
            ''RUNNER_ADMISSION_LEASE_AMBIGUOUS'')]) (\<lambda>_.
      bindE (key_of v (hd (ve_signing_key_ids verified))) (\<lambda>key.
      bindE (validate_key_time H v key issued_at True) (\<lambda>_.
      bindE (refuse_revoked H v ''runner-lease'' (ls_leaseId payload) ''EVIDENCE_REVOKED'') (\<lambda>_.
      Inr \<lparr>vl_digest = ve_envelope_digest verified, vl_payload = payload, vl_key = key,
        vl_issued_at = issued_at, vl_expires_at = expires_at\<rparr>))))))))))))))"

section \<open>Reviews\<close>

definition attributed :: "review_leaf \<Rightarrow> trust_key \<Rightarrow> bool" where
  "attributed leaf key =
     (tk_provider_family key = Some (rv_providerFamily leaf)
      \<and> rv_channel leaf \<in> set (tk_allowed_channels key)
      \<and> rv_modelId leaf \<in> set (tk_allowed_model_ids key)
      \<and> tk_direct_provider_cli key = Some (rv_directProviderCli leaf)
      \<and> rv_modelIdentityClass leaf \<in> set (tk_allowed_model_identity_classes key)
      \<and> rv_issuer leaf = ''cross-ai-issuer-'' @ rv_providerFamily leaf)"

definition review_time_ok :: "verifier \<Rightarrow> review_leaf \<Rightarrow> datetime \<Rightarrow> datetime \<Rightarrow> unit result" where
  "review_time_ok v leaf issued_at expires_at =
     (let minimax = (vf_version v = V1 \<and> rv_providerFamily leaf = ''minimax'') in
      reject_if
        [(minimax \<and> vf_mode v = Active \<and> vf_observed_at v \<ge> MINIMAX_NEW_REVIEW_CUTOFF, ''MINIMAX_PROVIDER_DEPRECATED''),
         (minimax \<and> issued_at \<ge> MINIMAX_NEW_REVIEW_CUTOFF, ''MINIMAX_REVIEW_DEPRECATED''),
         (issued_at > vf_now v + vf_max_skew v, ''REVIEW_NOT_YET_VALID''),
         (expires_at < vf_now v - vf_max_skew v, ''REVIEW_EXPIRED''),
         (expires_at \<le> issued_at, ''REVIEW_LIFETIME_INVALID'')])"

definition verify_review :: "host \<Rightarrow> verifier \<Rightarrow> (string \<times> string) list \<Rightarrow> string \<Rightarrow> json \<Rightarrow> verified_review list
    \<Rightarrow> verified_review list result" where
  "verify_review H v provider_keys subject_digest envelope verified =
     bindE (verify_json_envelope H envelope (payload_type ''review'' (vf_version v)) provider_keys [] True) (\<lambda>leaf_envelope.
     bindE (validate_schema H (JObj (ve_payload leaf_envelope)) (schema_name ''review'' (vf_version v))
              ''REVIEW_SCHEMA_INVALID'') (\<lambda>_.
     bindE (read_review (JObj (ve_payload leaf_envelope))) (\<lambda>leaf.
     let key_id = hd (ve_signing_key_ids leaf_envelope) in
     bindE (reject_if [(rv_keyId leaf \<noteq> key_id, ''PROVIDER_ATTRIBUTION_MISMATCH'')]) (\<lambda>_.
     bindE (key_of v key_id) (\<lambda>key.
     bindE (reject_if [(\<not> attributed leaf key, ''PROVIDER_ATTRIBUTION_MISMATCH''),
       (rv_subjectSha256 leaf \<noteq> subject_digest, ''REVIEW_SUBJECT_MISMATCH'')]) (\<lambda>_.
     bindE (parse_utc H (rv_issuedAt leaf)) (\<lambda>issued_at.
     bindE (parse_utc H (rv_expiresAt leaf)) (\<lambda>expires_at.
     bindE (review_time_ok v leaf issued_at expires_at) (\<lambda>_.
     bindE (validate_key_time H v key issued_at True) (\<lambda>_.
     let dg = ve_envelope_digest leaf_envelope in
     bindE (reject_if [(rv_reviewId leaf \<in> rv_reviewId ` vr_payload ` set verified, ''REVIEW_ID_DUPLICATE''),
       (dg \<in> vr_digest ` set verified, ''REVIEW_DUPLICATE'')]) (\<lambda>_.
     bindE (refuse_revoked H v ''review'' dg ''REVIEW_REVOKED'') (\<lambda>_.
     Inr (verified @ [\<lparr>vr_digest = dg, vr_payload = leaf, vr_key = key, vr_issued_at = issued_at,
       vr_expires_at = expires_at\<rparr>])))))))))))))"

text \<open>The finding transitions that one review may carry.\<close>

definition review_findings_ok :: "verified_review \<Rightarrow> unit result" where
  "review_findings_ok r =
     (let leaf = vr_payload r; finding_ids = set (rv_findingIds leaf);
          resolved_ids = set (rv_resolvedFindingIds leaf);
          acknowledged_ids = set (rv_acknowledgedFindingIds leaf);
          transitions = (finding_ids \<noteq> {} \<or> resolved_ids \<noteq> {} \<or> acknowledged_ids \<noteq> {}) in
      reject_if
        [(rv_verdict leaf = ''AGREE'' \<and> transitions, ''REVIEW_AGREE_FINDINGS_INVALID''),
         (rv_verdict leaf \<in> {''REVISE'', ''RED''} \<and> finding_ids = {}, ''REVIEW_DISSENT_FINDINGS_REQUIRED''),
         (rv_verdict leaf = ''PARTIAL'' \<and> \<not> transitions, ''REVIEW_PARTIAL_TRANSITION_REQUIRED''),
         (finding_ids \<inter> (resolved_ids \<union> acknowledged_ids) \<noteq> {}, ''REVIEW_FINDING_STATE_INVALID''),
         (\<not> acknowledged_ids \<subseteq> resolved_ids, ''REVIEW_FINDING_STATE_INVALID'')])"

text \<open>
  The dicts of occurrences: \<open>occurring\<close> lists their keys, \<open>occurrences\<close> the reviews under one
  key, one entry for a review however often it repeats the identifier.
\<close>

definition occurring :: "(review_leaf \<Rightarrow> string list) \<Rightarrow> verified_review list \<Rightarrow> string list" where
  "occurring ids reviews = concat (map (\<lambda>r. ids (vr_payload r)) reviews)"

definition occurrences :: "(review_leaf \<Rightarrow> string list) \<Rightarrow> verified_review list \<Rightarrow> string \<Rightarrow> verified_review list" where
  "occurrences ids reviews f = filter (\<lambda>r. f \<in> set (ids (vr_payload r))) reviews"

definition repeated :: "(review_leaf \<Rightarrow> string list) \<Rightarrow> verified_review list \<Rightarrow> bool" where
  "repeated ids reviews = list_ex (\<lambda>f. length (occurrences ids reviews f) \<noteq> 1) (occurring ids reviews)"

definition acknowledged_late :: "verified_review list \<Rightarrow> string \<Rightarrow> bool" where
  "acknowledged_late reviews f =
     (let raised = hd (occurrences rv_findingIds reviews f);
          acknowledged = hd (occurrences rv_acknowledgedFindingIds reviews f) in
      tk_provider_family (vr_key raised) = tk_provider_family (vr_key acknowledged)
      \<and> vr_issued_at acknowledged > vr_issued_at raised)"

definition findings_ok :: "verified_review list \<Rightarrow> unit result" where
  "findings_ok reviews = reject_if
     [(repeated rv_findingIds reviews, ''REVIEW_FINDING_REUSED''),
      (\<not> set (occurring rv_resolvedFindingIds reviews) \<union> set (occurring rv_acknowledgedFindingIds reviews)
           \<subseteq> set (occurring rv_findingIds reviews), ''REVIEW_FINDING_REFERENCE_INVALID''),
      (repeated rv_resolvedFindingIds reviews, ''REVIEW_FINDING_STATE_INVALID''),
      (repeated rv_acknowledgedFindingIds reviews, ''REVIEW_FINDING_STATE_INVALID''),
      (list_ex (\<lambda>f. \<not> acknowledged_late reviews f) (occurring rv_acknowledgedFindingIds reviews),
         ''REVIEW_FINDING_REFERENCE_INVALID'')]"

abbreviation chain_id :: "verified_review \<Rightarrow> string" where
  "chain_id r \<equiv> rv_reviewChainId (vr_payload r)"

abbreviation round_of :: "verified_review \<Rightarrow> int" where
  "round_of r \<equiv> rv_round (vr_payload r)"

abbreviation family_of :: "verified_review \<Rightarrow> string option" where
  "family_of r \<equiv> tk_provider_family (vr_key r)"

fun links_ok :: "verified_review list \<Rightarrow> bool" where
  "links_ok (previous # current # rest) =
     (rv_previousRoundSha256 (vr_payload current) = Some (vr_digest previous) \<and> links_ok (current # rest))"
| "links_ok _ = True"

definition review_chain_ok :: "verified_review list \<Rightarrow> unit result" where
  "review_chain_ok chain =
     (let ordered = sort_key round_of chain in
      reject_if
        [(card (family_of ` set ordered) \<noteq> 1, ''REVIEW_CHAIN_PROVIDER_MISMATCH''),
         (map round_of ordered \<noteq> map int [1..<Suc (length ordered)], ''REVIEW_CHAIN_GAP''),
         (rv_previousRoundSha256 (vr_payload (hd ordered)) \<noteq> None, ''REVIEW_CHAIN_INVALID''),
         (\<not> links_ok ordered, ''REVIEW_CHAIN_INVALID'')])"

text \<open>The keys of a dict in the order of their first insertion.\<close>

definition dict_keys :: "'a list \<Rightarrow> 'a list" where
  "dict_keys xs = rev (remdups (rev xs))"

definition verify_review_chains :: "verified_review list \<Rightarrow> unit result" where
  "verify_review_chains reviews =
     bindE (forE review_findings_ok reviews) (\<lambda>_.
     bindE (findings_ok reviews) (\<lambda>_.
     forE (\<lambda>c. review_chain_ok (filter (\<lambda>r. chain_id r = c) reviews)) (dict_keys (map chain_id reviews))))"

definition verify_reviews :: "host \<Rightarrow> verifier \<Rightarrow> bundle_payload \<Rightarrow> string \<Rightarrow> verified_review list result" where
  "verify_reviews H v bundle subject_digest =
     bindE (active_keys v ''provider-review'') (\<lambda>provider_keys.
     bindE (foldE (verify_review H v provider_keys subject_digest) (bd_reviewEnvelopes bundle) []) (\<lambda>reviews.
     bindE (verify_review_chains reviews) (\<lambda>_. Inr reviews)))"

section \<open>Closure\<close>

definition closure_entry_ok :: "verified_review list \<Rightarrow> closure_entry \<Rightarrow> unit result" where
  "closure_entry_ok reviews e =
     (case (lookup_by vr_digest (ce_raisedByReviewSha256 e) reviews,
            lookup_by vr_digest (ce_acknowledgedByReviewSha256 e) reviews) of
        (Some raised, Some acknowledged) \<Rightarrow> reject_if
          [(rv_verdict (vr_payload raised) = ''AGREE'' \<or> ce_findingId e \<notin> set (rv_findingIds (vr_payload raised)),
              ''CLOSURE_RAISE_INVALID''),
           (family_of raised \<noteq> family_of acknowledged, ''CLOSURE_ACK_PROVIDER_MISMATCH''),
           (ce_findingId e \<notin> set (rv_resolvedFindingIds (vr_payload acknowledged))
            \<or> ce_findingId e \<notin> set (rv_acknowledgedFindingIds (vr_payload acknowledged)), ''CLOSURE_ACK_MISSING''),
           (vr_issued_at acknowledged \<le> vr_issued_at raised, ''CLOSURE_ACK_ORDER_INVALID'')]
      | _ \<Rightarrow> reject ''CLOSURE_REVIEW_MISSING'')"

definition closure_step :: "verified_review list \<Rightarrow> closure_entry \<Rightarrow> closure_entry list \<Rightarrow> closure_entry list result" where
  "closure_step reviews e entries_done =
     (if ce_findingId e \<in> ce_findingId ` set entries_done then reject ''CLOSURE_DUPLICATE_FINDING''
      else bindE (closure_entry_ok reviews e) (\<lambda>_. Inr (entries_done @ [e])))"

definition closure_projection :: "closure_entry \<Rightarrow> json" where
  "closure_projection e = JObj
     [(''findingId'', JStr (ce_findingId e)),
      (''raisedByReviewSha256'', JStr (ce_raisedByReviewSha256 e)),
      (''fixSha256'', JStr (ce_fixSha256 e)),
      (''acknowledgedByReviewSha256'', JStr (ce_acknowledgedByReviewSha256 e))]"

definition closure_body :: "verifier \<Rightarrow> string \<Rightarrow> closure_entry list \<Rightarrow> json" where
  "closure_body v subject_digest entries = JObj
     [(''domain'', JStr (domain_name ''closure'' (vf_version v))),
      (''subjectSha256'', JStr subject_digest),
      (''entries'', JArr (map closure_projection (sort_key ce_findingId entries)))]"

definition must_fix :: "verified_review list \<Rightarrow> string list" where
  "must_fix reviews = occurring rv_findingIds (filter (\<lambda>r. rv_verdict (vr_payload r) \<noteq> ''AGREE'') reviews)"

definition verify_closure :: "host \<Rightarrow> verifier \<Rightarrow> bundle_payload \<Rightarrow> verified_review list \<Rightarrow> string \<Rightarrow> string result" where
  "verify_closure H v bundle reviews subject_digest =
     bindE (foldE (closure_step reviews) (bd_closure bundle) []) (\<lambda>entries.
     bindE (reject_if [(ce_findingId ` set entries \<noteq> set (must_fix reviews), ''CLOSURE_INCOMPLETE'')]) (\<lambda>_.
     bindE (digest H (closure_body v subject_digest entries)) (\<lambda>closure_root.
     bindE (reject_if [(bd_closureRootSha256 bundle \<noteq> closure_root, ''CLOSURE_ROOT_MISMATCH''),
       (bd_consensus_closureRootSha256 bundle \<noteq> closure_root, ''CLOSURE_ROOT_MISMATCH'')]) (\<lambda>_.
     Inr closure_root))))"

section \<open>Consensus\<close>

text \<open>The latest round of every chain, by digest; the first of two equal rounds stays.\<close>

definition tip_step :: "verified_review list \<Rightarrow> verified_review \<Rightarrow> (string \<times> string) list \<Rightarrow> (string \<times> string) list" where
  "tip_step reviews r tips =
     (case Option.bind (map_of tips (chain_id r)) (\<lambda>d. lookup_by vr_digest d reviews) of
        Some current \<Rightarrow> if round_of current < round_of r then AList.update (chain_id r) (vr_digest r) tips else tips
      | None \<Rightarrow> AList.update (chain_id r) (vr_digest r) tips)"

definition chain_tips :: "verified_review list \<Rightarrow> (string \<times> string) list" where
  "chain_tips reviews = fold (tip_step reviews) reviews []"

definition final_review :: "verified_review list \<Rightarrow> string \<Rightarrow> string \<Rightarrow> string \<Rightarrow> verified_review result" where
  "final_review reviews subject_digest closure_root dg =
     (case lookup_by vr_digest dg reviews of
        None \<Rightarrow> reject ''CONSENSUS_REVIEW_MISSING''
      | Some review \<Rightarrow>
          bindE (reject_if
            [(map_of (chain_tips reviews) (chain_id review) \<noteq> Some dg, ''CONSENSUS_NOT_CHAIN_TIP''),
             (rv_verdict (vr_payload review) \<noteq> ''AGREE'', ''CONSENSUS_VERDICT_INVALID''),
             (rv_subjectSha256 (vr_payload review) \<noteq> subject_digest, ''CONSENSUS_SUBJECT_MISMATCH''),
             (rv_closureRootSha256 (vr_payload review) \<noteq> closure_root, ''CONSENSUS_CLOSURE_MISMATCH'')])
          (\<lambda>_. Inr review))"

definition families_of :: "verified_review list \<Rightarrow> string list" where
  "families_of reviews = List.map_filter family_of reviews"

definition direct_families_of :: "verified_review list \<Rightarrow> string list" where
  "direct_families_of reviews = families_of (filter (\<lambda>r. tk_direct_provider_cli (vr_key r) = Some True) reviews)"

definition verify_consensus :: "host \<Rightarrow> verifier \<Rightarrow> bundle_payload \<Rightarrow> verified_review list \<Rightarrow> string \<Rightarrow> string
    \<Rightarrow> (verified_review list \<times> string list) result" where
  "verify_consensus H v bundle reviews subject_digest closure_root =
     bindE (mapE (final_review reviews subject_digest closure_root) (bd_consensus_finalAgree bundle)) (\<lambda>final_reviews.
     let families = families_of final_reviews in
     bindE (reject_if
       [(snd ` set (chain_tips reviews) \<noteq> set (bd_consensus_finalAgree bundle), ''CONSENSUS_UNCOUNTED_CHAIN''),
        (set families \<noteq> set (vf_required_families v), ''PROVIDER_FAMILY_SET_MISMATCH''),
        (set (direct_families_of final_reviews) \<noteq> set (vf_required_families v), ''DIRECT_PROVIDER_SET_MISMATCH''),
        (set (bd_consensus_providerFamilies bundle) \<noteq> set families, ''CONSENSUS_PROVIDER_MISMATCH'')])
     (\<lambda>_. Inr (final_reviews, families)))"

section \<open>Bundles\<close>

definition subject_body :: "bundle_payload \<Rightarrow> json" where
  "subject_body bundle = JObj
     [(''subject'', sj_raw (bd_subject bundle)), (''workflowStages'', bd_stages_raw bundle),
      (''grant'', gr_raw (bd_grant bundle))]"

definition identity_class :: "verified_review \<Rightarrow> string \<times> string" where
  "identity_class r = (case family_of r of None \<Rightarrow> '''' | Some f \<Rightarrow> f, rv_modelIdentityClass (vr_payload r))"

definition verify_bundle :: "host \<Rightarrow> verifier \<Rightarrow> json \<Rightarrow> verified_bundle result" where
  "verify_bundle H v envelope =
     bindE (active_keys v ''coordinator'') (\<lambda>coordinator_keys.
     bindE (verify_json_envelope H envelope (payload_type ''bundle'' (vf_version v)) coordinator_keys [] True) (\<lambda>outer.
     bindE (validate_schema H (JObj (ve_payload outer)) (schema_name ''bundle'' (vf_version v)) ''BUNDLE_SCHEMA_INVALID'') (\<lambda>_.
     bindE (read_bundle (JObj (ve_payload outer))) (\<lambda>bundle.
     bindE (key_of v (hd (ve_signing_key_ids outer))) (\<lambda>coordinator.
     bindE (parse_utc H (gr_notBefore (bd_grant bundle))) (\<lambda>grant_not_before.
     bindE (validate_key_time H v coordinator grant_not_before True) (\<lambda>_.
     bindE (digest H (subject_body bundle)) (\<lambda>subject_digest.
     bindE (verify_subject_and_grant H v bundle subject_digest) (\<lambda>_.
     bindE (verify_runner_admission_lease H v bundle) (\<lambda>lease.
     bindE (verify_reviews H v bundle subject_digest) (\<lambda>reviews.
     bindE (verify_closure H v bundle reviews subject_digest) (\<lambda>closure_root.
     bindE (verify_consensus H v bundle reviews subject_digest closure_root) (\<lambda>(final_reviews, families).
     bindE (refuse_revoked H v ''bundle'' (bd_bundleId bundle) ''EVIDENCE_REVOKED'') (\<lambda>_.
     bindE (refuse_revoked H v ''subject'' subject_digest ''EVIDENCE_REVOKED'') (\<lambda>_.
     bindE (refuse_revoked H v ''grant'' (gr_requestId (bd_grant bundle)) ''EVIDENCE_REVOKED'') (\<lambda>_.
     bindE (parse_utc H (gr_expiresAt (bd_grant bundle))) (\<lambda>expires_at.
     Inr \<lparr>vb_bundle_id = bd_bundleId bundle, vb_bundle_digest = ve_envelope_digest outer,
       vb_subject_digest = subject_digest, vb_request_id = gr_requestId (bd_grant bundle),
       vb_session_digest = sj_sessionSha256 (bd_subject bundle), vb_expires_at = expires_at,
       vb_provider_families = sort (remdups families),
       vb_provider_identity_classes = sort (map identity_class final_reviews),
       vb_final_review_digests = sort (map vr_digest final_reviews),
       vb_coordinator_key_id = tk_key_id coordinator, vb_runner_admission_lease = lease,
       vb_payload = bundle\<rparr>)))))))))))))))))"

end
