(* ===== verification/EvidenceScenario.thy ===== *)
theory EvidenceScenario
  imports Contract
begin

text \<open>
  A concrete body of evidence on which the verifier's properties are instantiated: a trust root
  with two providers, a coordinator, a revocation and a runner-management key, a revocation
  set, and a bundle with four reviews. One provider raises a finding, acknowledges its fix in
  the second round and agrees in the third; the other agrees at once. The runtime hashes a
  text to its length (the three documents that are stored or consumed to 64 digits) and reads the
  times \<^verbatim>\<open>0Z\<close> to \<^verbatim>\<open>3Z\<close>, \<^verbatim>\<open>8Z\<close> and \<^verbatim>\<open>XZ\<close> as minutes.
\<close>

definition ev_lease :: json where
"ev_lease = (JObj [(''eligibleRunners'', (JArr [(JObj [(''labels'', (JArr [(JStr ''x'')])),
     (''runnerId'', (JInt 3)), (''runnerNameSha256'', (JStr ''sha256:2''))])])), (''environment'', (JStr
     ''prod'')), (''expiresAt'', (JStr ''XZ'')), (''headSha'', (JStr ''h'')), (''intentRef'', (JStr
     ''refs/tags/cross-ai-intent/q'')), (''inventoryGenerationSha256'', (JStr ''g'')), (''issuedAt'',
     (JStr ''0Z'')), (''leaseId'', (JStr ''l'')), (''repository'', (JStr ''o/r'')), (''repositoryId'',
     (JInt 7)), (''requestId'', (JStr ''q'')), (''runnerPolicySha256'', (JStr ''rp''))])"

definition ev_lease_envelope :: json where
"ev_lease_envelope = (JObj [(''payload'', (JStr ''L'')), (''payloadType'', (JStr
     ''application/vnd.acik.cross-ai-runner-admission-lease.v1+json'')), (''signatures'', (JArr [(JObj
     [(''keyid'', (JStr ''m'')), (''sig'', (JStr ''s''))])]))])"

definition ev_review1 :: json where
"ev_review1 = (JObj [(''acknowledgedFindingIds'', (JArr [])), (''channel'', (JStr
     ''direct-anthropic-cli'')), (''closureRootSha256'', (JStr ''sha256:203'')), (''directProviderCli'',
     (JBool True)), (''expiresAt'', (JStr ''XZ'')), (''findingIds'', (JArr [(JStr ''F'')])),
     (''issuedAt'', (JStr ''1Z'')), (''issuer'', (JStr ''cross-ai-issuer-anthropic'')), (''keyId'', (JStr
     ''a'')), (''modelId'', (JStr ''claude-opus-4-8'')), (''modelIdentityClass'', (JStr
     ''provider-reported'')), (''previousRoundSha256'', JNull), (''providerFamily'', (JStr
     ''anthropic'')), (''resolvedFindingIds'', (JArr [])), (''reviewChainId'', (JStr ''A'')),
     (''reviewId'', (JStr ''1'')), (''round'', (JInt 1)), (''subjectSha256'', (JStr ''sha256:1228'')),
     (''verdict'', (JStr ''REVISE''))])"

definition ev_review2 :: json where
"ev_review2 = (JObj [(''acknowledgedFindingIds'', (JArr [(JStr ''F'')])), (''channel'', (JStr
     ''direct-anthropic-cli'')), (''closureRootSha256'', (JStr ''sha256:203'')), (''directProviderCli'',
     (JBool True)), (''expiresAt'', (JStr ''XZ'')), (''findingIds'', (JArr [])), (''issuedAt'', (JStr
     ''2Z'')), (''issuer'', (JStr ''cross-ai-issuer-anthropic'')), (''keyId'', (JStr ''a'')),
     (''modelId'', (JStr ''claude-opus-4-8'')), (''modelIdentityClass'', (JStr ''provider-reported'')),
     (''previousRoundSha256'', (JStr ''sha256:126'')), (''providerFamily'', (JStr ''anthropic'')),
     (''resolvedFindingIds'', (JArr [(JStr ''F'')])), (''reviewChainId'', (JStr ''A'')), (''reviewId'',
     (JStr ''2'')), (''round'', (JInt 2)), (''subjectSha256'', (JStr ''sha256:1228'')), (''verdict'',
     (JStr ''PARTIAL''))])"

definition ev_review3 :: json where
"ev_review3 = (JObj [(''acknowledgedFindingIds'', (JArr [])), (''channel'', (JStr
     ''direct-anthropic-cli'')), (''closureRootSha256'', (JStr ''sha256:203'')), (''directProviderCli'',
     (JBool True)), (''expiresAt'', (JStr ''XZ'')), (''findingIds'', (JArr [])), (''issuedAt'', (JStr
     ''3Z'')), (''issuer'', (JStr ''cross-ai-issuer-anthropic'')), (''keyId'', (JStr ''a'')),
     (''modelId'', (JStr ''claude-opus-4-8'')), (''modelIdentityClass'', (JStr ''provider-reported'')),
     (''previousRoundSha256'', (JStr ''sha256:127'')), (''providerFamily'', (JStr ''anthropic'')),
     (''resolvedFindingIds'', (JArr [])), (''reviewChainId'', (JStr ''A'')), (''reviewId'', (JStr
     ''3'')), (''round'', (JInt 3)), (''subjectSha256'', (JStr ''sha256:1228'')), (''verdict'', (JStr
     ''AGREE''))])"

definition ev_review4 :: json where
"ev_review4 = (JObj [(''acknowledgedFindingIds'', (JArr [])), (''channel'', (JStr ''openai-codex'')),
     (''closureRootSha256'', (JStr ''sha256:203'')), (''directProviderCli'', (JBool True)),
     (''expiresAt'', (JStr ''XZ'')), (''findingIds'', (JArr [])), (''issuedAt'', (JStr ''3Z'')),
     (''issuer'', (JStr ''cross-ai-issuer-openai'')), (''keyId'', (JStr ''o'')), (''modelId'', (JStr
     ''gpt-5.6-sol'')), (''modelIdentityClass'', (JStr ''trusted-launch-attested'')),
     (''previousRoundSha256'', JNull), (''providerFamily'', (JStr ''openai'')), (''resolvedFindingIds'',
     (JArr [])), (''reviewChainId'', (JStr ''O'')), (''reviewId'', (JStr ''4'')), (''round'', (JInt 1)),
     (''subjectSha256'', (JStr ''sha256:1228'')), (''verdict'', (JStr ''AGREE''))])"

definition ev_envelope1 :: json where
"ev_envelope1 = (JObj [(''payload'', (JStr ''P'')), (''payloadType'', (JStr
     ''application/vnd.acik.cross-ai-deployment-review.v2+json'')), (''signatures'', (JArr [(JObj
     [(''keyid'', (JStr ''a'')), (''sig'', (JStr ''s''))])]))])"

definition ev_envelope2 :: json where
"ev_envelope2 = (JObj [(''payload'', (JStr ''PP'')), (''payloadType'', (JStr
     ''application/vnd.acik.cross-ai-deployment-review.v2+json'')), (''signatures'', (JArr [(JObj
     [(''keyid'', (JStr ''a'')), (''sig'', (JStr ''s''))])]))])"

definition ev_envelope3 :: json where
"ev_envelope3 = (JObj [(''payload'', (JStr ''PPP'')), (''payloadType'', (JStr
     ''application/vnd.acik.cross-ai-deployment-review.v2+json'')), (''signatures'', (JArr [(JObj
     [(''keyid'', (JStr ''a'')), (''sig'', (JStr ''s''))])]))])"

definition ev_envelope4 :: json where
"ev_envelope4 = (JObj [(''payload'', (JStr ''PPPP'')), (''payloadType'', (JStr
     ''application/vnd.acik.cross-ai-deployment-review.v2+json'')), (''signatures'', (JArr [(JObj
     [(''keyid'', (JStr ''o'')), (''sig'', (JStr ''s''))])]))])"

definition ev_subject :: json where
"ev_subject = (JObj [(''artifactSetSha256'', (JStr ''a'')), (''bootstrapCredentialSha256'', (JStr ''sha256:64'')), (''deploymentClass'', (JStr ''c'')), (''endpointIdSha256'', (JStr ''e'')),
     (''environment'', (JStr ''prod'')), (''headSha'', (JStr ''h'')), (''intentRef'', (JStr
     ''refs/tags/cross-ai-intent/q'')), (''operatorIdSha256'', (JStr ''op'')), (''policySha256'', (JStr
     ''p'')), (''postDeployVerifierSha256'', (JStr ''v'')), (''repository'', (JStr ''o/r'')),
     (''repositoryId'', (JInt 7)), (''rollbackPlanSha256'', (JStr ''b'')),
     (''runnerAdmissionLeaseSha256'', (JStr ''sha256:131'')), (''runnerPolicySha256'', (JStr ''rp'')),
     (''sessionSha256'', (JStr ''sha256:271''))])"

definition ev_grant :: json where
"ev_grant = (JObj [(''deploymentSessionId'', (JStr ''d'')), (''expiresAt'', (JStr ''XZ'')),
     (''notBefore'', (JStr ''0Z'')), (''registrationPrincipal'', (JStr ''spiffe://c'')), (''requestId'',
     (JStr ''q'')), (''stageNonceSha256'', (JObj [(''apply'', (JStr ''n1'')), (''browser-evidence'',
     (JStr ''n2'')), (''compensating-rollback'', (JStr ''n3''))])), (''triggeringActorId'', (JInt 5))])"

definition ev_stages :: json where
"ev_stages = (JArr [(JObj [(''concurrencyGroupSha256'', (JStr ''cg'')), (''dependencyLockSha256'', (JStr
     ''dl'')), (''order'', (JInt 1)), (''runsOnLabels'', (JArr [(JStr ''x'')])), (''stage'', (JStr
     ''apply'')), (''workflowBlobSha256'', (JStr ''wb'')), (''workflowPath'', (JStr ''w.yml''))]), (JObj
     [(''concurrencyGroupSha256'', (JStr ''cg'')), (''dependencyLockSha256'', (JStr ''dl'')),
     (''dependsOn'', (JArr [(JStr ''apply'')])), (''order'', (JInt 2)), (''runsOnLabels'', (JArr [(JStr
     ''x'')])), (''stage'', (JStr ''browser-evidence'')), (''workflowBlobSha256'', (JStr ''wb'')),
     (''workflowPath'', (JStr ''x.yml''))]), (JObj [(''concurrencyGroupSha256'', (JStr ''cg'')),
     (''dependencyLockSha256'', (JStr ''dl'')), (''dependsOnFailure'', (JArr [(JStr ''apply'')])),
     (''order'', (JInt 3)), (''runsOnLabels'', (JArr [(JStr ''x'')])), (''stage'', (JStr
     ''compensating-rollback'')), (''workflowBlobSha256'', (JStr ''wb'')), (''workflowPath'', (JStr
     ''y.yml''))])])"

definition ev_bundle :: json where
"ev_bundle = (JObj [(''schemaVersion'', (JStr ''acik.cross-ai-deployment-bundle.v2'')), (''bundleId'', (JStr ''b'')),
     (''subject'', ev_subject), (''workflowStages'', ev_stages), (''runnerAdmissionLeaseEnvelope'', ev_lease_envelope),
     (''reviewEnvelopes'', (JArr [ev_envelope1, ev_envelope2, ev_envelope3, ev_envelope4])), (''closure'', (JObj [(''entries'',
     (JArr [(JObj [(''acknowledgedByReviewSha256'', (JStr ''sha256:127'')), (''findingId'', (JStr ''F'')), (''fixSha256'', (JStr ''fx'')),
     (''raisedByReviewSha256'', (JStr ''sha256:126''))])])), (''closureRootSha256'', (JStr ''sha256:203''))])), (''consensus'', (JObj
     [(''providerFamilies'', (JArr [(JStr ''anthropic''), (JStr ''openai'')])), (''finalAgreeReviewSha256'', (JArr [(JStr
     ''sha256:128''), (JStr ''sha256:129'')])), (''closureRootSha256'', (JStr ''sha256:203'')), (''openMustFixFindingCount'', (JInt 0))])),
     (''grant'', ev_grant)])"

definition ev_bundle_envelope :: json where
"ev_bundle_envelope = (JObj [(''payload'', (JStr ''BUNDLEPAYLOAD'')), (''payloadType'', (JStr
     ''application/vnd.acik.cross-ai-deployment-bundle.v2+json'')), (''signatures'', (JArr [(JObj
     [(''keyid'', (JStr ''c'')), (''sig'', (JStr ''s''))])]))])"

definition ev_trust_root :: "(string \<times> json) list" where
"ev_trust_root = [(''expiresAt'', (JStr ''XZ'')), (''issuedAt'', (JStr ''0Z'')), (''keys'', (JArr [(JObj
     [(''allowedChannels'', (JArr [(JStr ''direct-anthropic-cli'')])), (''allowedModelIdentityClasses'',
     (JArr [(JStr ''provider-reported'')])), (''allowedModelIds'', (JArr [(JStr ''claude-opus-4-8'')])),
     (''directProviderCli'', (JBool True)), (''keyId'', (JStr ''a'')), (''notAfter'', (JStr ''XZ'')),
     (''notBefore'', (JStr ''0Z'')), (''providerFamily'', (JStr ''anthropic'')), (''publicKeyBase64'',
     (JStr ''ka'')), (''role'', (JStr ''provider-review''))]), (JObj [(''allowedChannels'', (JArr [(JStr
     ''openai-codex'')])), (''allowedModelIdentityClasses'', (JArr [(JStr
     ''trusted-launch-attested'')])), (''allowedModelIds'', (JArr [(JStr ''gpt-5.6-sol'')])),
     (''directProviderCli'', (JBool True)), (''keyId'', (JStr ''o'')), (''notAfter'', (JStr ''XZ'')),
     (''notBefore'', (JStr ''0Z'')), (''providerFamily'', (JStr ''openai'')), (''publicKeyBase64'', (JStr
     ''ko'')), (''role'', (JStr ''provider-review''))]), (JObj [(''allowedChannels'', (JArr [])),
     (''allowedModelIdentityClasses'', (JArr [])), (''allowedModelIds'', (JArr [])),
     (''directProviderCli'', JNull), (''keyId'', (JStr ''c'')), (''notAfter'', (JStr ''XZ'')),
     (''notBefore'', (JStr ''0Z'')), (''providerFamily'', JNull), (''publicKeyBase64'', (JStr ''kc'')),
     (''role'', (JStr ''coordinator''))]), (JObj [(''allowedChannels'', (JArr [])),
     (''allowedModelIdentityClasses'', (JArr [])), (''allowedModelIds'', (JArr [])),
     (''directProviderCli'', JNull), (''keyId'', (JStr ''r'')), (''notAfter'', (JStr ''XZ'')),
     (''notBefore'', (JStr ''0Z'')), (''providerFamily'', JNull), (''publicKeyBase64'', (JStr ''kr'')),
     (''role'', (JStr ''revocation''))]), (JObj [(''allowedChannels'', (JArr [])),
     (''allowedModelIdentityClasses'', (JArr [])), (''allowedModelIds'', (JArr [])),
     (''directProviderCli'', JNull), (''keyId'', (JStr ''m'')), (''notAfter'', (JStr ''XZ'')),
     (''notBefore'', (JStr ''0Z'')), (''providerFamily'', JNull), (''publicKeyBase64'', (JStr ''km'')),
     (''role'', (JStr ''runner-management''))])])), (''maxClockSkewSeconds'', (JInt 0)),
     (''minimumDirectProviderRoutes'', (JInt 2)), (''minimumProviderFamilies'', (JInt 2)),
     (''requiredProviderFamilies'', (JArr [(JStr ''anthropic''), (JStr ''openai'')])),
     (''schemaVersion'', (JStr ''acik.cross-ai-deployment-trust-root.v2''))]"

definition ev_revocations :: json where
"ev_revocations = (JObj [(''entries'', (JArr [(JObj [(''effectiveAt'', (JStr ''0Z'')), (''id'', (JStr
     ''sha256:0'')), (''type'', (JStr ''review''))])])), (''issuedAt'', (JStr ''0Z'')), (''nextUpdate'',
     (JStr ''XZ''))])"

definition ev_revocations_envelope :: json where
"ev_revocations_envelope = (JObj [(''payload'', (JStr ''V'')), (''payloadType'', (JStr
     ''application/vnd.acik.cross-ai-deployment-revocations.v1+json'')), (''signatures'', (JArr [(JObj
     [(''keyid'', (JStr ''r'')), (''sig'', (JStr ''s''))])]))])"

text \<open>The stage evidence of a successful apply run.\<close>

definition ev_evidence :: "(string \<times> json) list" where
  "ev_evidence = [(''requestId'', JStr ''q''), (''stage'', JStr ''apply''), (''runId'', JInt 11), (''runAttempt'', JInt 1),
     (''repositoryId'', JInt 7), (''repository'', JStr ''o/r''), (''environment'', JStr ''prod''), (''headSha'', JStr ''h''),
     (''intentRef'', JStr ''refs/tags/cross-ai-intent/q''), (''sessionSha256'', JStr ''sha256:271''),
     (''workflowBlobSha256'', JStr ''wb''), (''artifactSetSha256'', JStr ''a''), (''rollbackPlanSha256'', JStr ''b''),
     (''postDeployVerifierSha256'', JStr ''v''), (''createdAt'', JStr ''2Z''), (''conclusion'', JStr ''success''),
     (''watchdogExpiresAt'', JStr ''XZ''), (''productArtifactId'', JNull), (''productArtifactName'', JNull),
     (''productArtifactDigest'', JNull)]"

text \<open>A workload token of that run: its header, its claims and the key set of its issuer.\<close>

definition ev_jwt_header :: "(string \<times> json) list" where
  "ev_jwt_header = [(''alg'', JStr ''RS256''), (''kid'', JStr ''k''), (''typ'', JStr ''JWT'')]"

definition ev_jwt_claims :: "(string \<times> json) list" where
  "ev_jwt_claims = [(''iss'', JStr ''https://token.actions.githubusercontent.com''), (''aud'', JStr ''acik-cross-ai-runner-bootstrap''),
     (''repository_id'', JStr ''7''), (''repository'', JStr ''o/r''), (''environment'', JStr ''prod''),
     (''ref'', JStr ''refs/tags/cross-ai-intent/q''), (''sha'', JStr ''h''), (''event_name'', JStr ''workflow_dispatch''),
     (''runner_environment'', JStr ''self-hosted''), (''workflow_ref'', JStr ''o/r/w.yml@refs/tags/cross-ai-intent/q''),
     (''sub'', JStr ''repo:o/r:environment:prod''), (''iat'', JInt 590), (''nbf'', JInt 590), (''exp'', JInt 900),
     (''run_id'', JStr ''11''), (''run_attempt'', JStr ''1''), (''actor_id'', JStr ''5''), (''jti'', JStr ''0123456789abcdef'')]"

definition ev_jwk :: "(string \<times> json) list" where
  "ev_jwk = [(''kid'', JStr ''k''), (''kty'', JStr ''RSA''), (''use'', JStr ''sig''), (''alg'', JStr ''RS256''),
     (''n'', JStr (replicate 341 (CHR ''_'') @ ''w'')), (''e'', JStr ''AQAB'')]"

definition ev_text :: "json \<Rightarrow> string" where
  "ev_text d = (case canonical_bytes d of Inr s \<Rightarrow> s | Inl e \<Rightarrow> [])"

definition ev_docs :: "(string \<times> json) list" where
  "ev_docs = [(''L'', ev_lease), (''P'', ev_review1), (''PP'', ev_review2), (''PPP'', ev_review3), (''PPPP'', ev_review4), (''BUNDLEPAYLOAD'', ev_bundle), (''V'', ev_revocations)]"

definition ev_b64 :: "string \<Rightarrow> string option" where
  "ev_b64 s = (case map_of ev_docs s of Some d \<Rightarrow> Some (ev_text d)
     | None \<Rightarrow> if s = ''s'' then Some (replicate 64 (CHR ''s'')) else Some (replicate 31 (CHR ''k'') @ [last s]))"

definition ev_host :: host where
  "ev_host = \<lparr>h_sha = (\<lambda>b. let n = length b in case map_of [(138, CHR ''0''), (623, CHR ''e''), (722, CHR ''f'')] n of
       Some c \<Rightarrow> replicate 64 c | None \<Rightarrow> nat_dec n),
     h_iso = (\<lambda>t. map_option (\<lambda>m. (minutes m, Some 0)) (map_of
       [(''0+00:00'', 0), (''1+00:00'', 1), (''2+00:00'', 2), (''3+00:00'', 3), (''8+00:00'', 8), (''X+00:00'', 60)] t)),
     h_b64decode = ev_b64,
     h_json_loads = (\<lambda>b. map_of [(315, ev_lease), (464, ev_review1), (476, ev_review2), (468, ev_review3), (448, ev_review4), (2333, ev_bundle), (100, ev_revocations),
       (138, ev_bundle_envelope), (453, JObj ev_evidence),
       (1, JObj ev_jwt_header), (2, JObj ev_jwt_claims), (3, JObj [(''keys'', JArr [JObj ev_jwk])])] (length b)),
     h_ed25519 = (\<lambda>_ _ _. True), h_schema = (\<lambda>_ _. True), h_readable = (\<lambda>_. True),
     h_writable = (\<lambda>_. True)\<rparr>"

definition ev_new :: "verifier result" where
  "ev_new = new_verifier ev_host ev_trust_root ev_revocations_envelope (minutes 10) (Some ''p'')
     (Some ''sha256:1433'') Active None"

text \<open>The verifier and the accepted bundle as values, so that later evaluations start from them.\<close>

definition ev_key :: "string \<Rightarrow> string \<Rightarrow> string option \<Rightarrow> string list \<Rightarrow> string list \<Rightarrow> string list \<Rightarrow> bool option \<Rightarrow> trust_key" where
  "ev_key key_id role family channels model_ids classes direct = \<lparr>tk_key_id = key_id, tk_role = role,
     tk_public_key = replicate 31 (CHR ''k'') @ key_id, tk_provider_family = family, tk_allowed_channels = channels,
     tk_allowed_model_ids = model_ids, tk_allowed_model_identity_classes = classes, tk_direct_provider_cli = direct,
     tk_not_before = 0, tk_not_after = minutes 60\<rparr>"

definition ev_verifier :: verifier where
  "ev_verifier = \<lparr>vf_mode = Active, vf_observed_at = minutes 10, vf_now = minutes 10, vf_expected_policy = Some ''p'',
     vf_version = V2, vf_max_skew = 0, vf_required_families = [''anthropic'', ''openai''], vf_minimum_families = 2,
     vf_minimum_direct_routes = 2,
     vf_keys = [ev_key ''a'' ''provider-review'' (Some ''anthropic'') [''direct-anthropic-cli''] [''claude-opus-4-8'']
         [''provider-reported''] (Some True),
       ev_key ''o'' ''provider-review'' (Some ''openai'') [''openai-codex''] [''gpt-5.6-sol''] [''trusted-launch-attested''] (Some True),
       ev_key ''c'' ''coordinator'' None [] [] [] None, ev_key ''r'' ''revocation'' None [] [] [] None,
       ev_key ''m'' ''runner-management'' None [] [] [] None],
     vf_revocations = [\<lparr>re_type = ''review'', re_id = ''sha256:0'', re_effectiveAt = JStr ''0Z''\<rparr>]\<rparr>"

definition ev_accepted :: verified_bundle where
  "ev_accepted = \<lparr>vb_bundle_id = ''b'', vb_bundle_digest = ''sha256:'' @ replicate 64 (CHR ''0''),
     vb_subject_digest = ''sha256:1228'', vb_request_id = ''q'', vb_session_digest = ''sha256:271'', vb_expires_at = minutes 60,
     vb_provider_families = [''anthropic'', ''openai''],
     vb_provider_identity_classes = [(''anthropic'', ''provider-reported''), (''openai'', ''trusted-launch-attested'')],
     vb_final_review_digests = [''sha256:128'', ''sha256:129''], vb_coordinator_key_id = ''c'',
     vb_runner_admission_lease = \<lparr>vl_digest = ''sha256:131'', vl_payload = projr (read_lease ev_lease),
       vl_key = ev_key ''m'' ''runner-management'' None [] [] [] None, vl_issued_at = 0, vl_expires_at = minutes 60\<rparr>,
     vb_payload = projr (read_bundle ev_bundle)\<rparr>"

lemma ev_verifier_new: "ev_new = Inr ev_verifier"
  by code_simp

lemma ev_bundle_accepted: "verify_bundle ev_host ev_verifier ev_bundle_envelope = Inr ev_accepted"
  by code_simp

end
