(* ===== verification/ContractProps.thy ===== *)
theory ContractProps
  imports EvidenceScenario
begin

text \<open>
  What acceptance by the evidence verifier means. The lemmas open each stage of the
  verification once; the properties are stated on \<^verbatim>\<open>verify_bundle\<close> and \<^verbatim>\<open>new_verifier\<close>.
\<close>

section \<open>Acceptance, stage by stage\<close>

definition STAGE_SEQUENCE :: "string list" where
  "STAGE_SEQUENCE = [''apply'', ''browser-evidence'', ''compensating-rollback'']"

lemma ex_unit: "(\<exists>x :: unit. P x) \<longleftrightarrow> P ()"
  by auto

lemmas opened = bindE_Inr_iff split_paired_Ex prod.case sum.inject ex_unit Let_def

lemma verify_bundle_Inr:
  assumes "verify_bundle H v envelope = Inr b"
  obtains coordinator_keys outer coordinator nb lease reviews closure_root finals families where
    "active_keys v ''coordinator'' = Inr coordinator_keys"
    "verify_json_envelope H envelope (payload_type ''bundle'' (vf_version v)) coordinator_keys [] True = Inr outer"
    "read_bundle (JObj (ve_payload outer)) = Inr (vb_payload b)"
    "key_of v (hd (ve_signing_key_ids outer)) = Inr coordinator"
    "parse_utc H (gr_notBefore (bd_grant (vb_payload b))) = Inr nb"
    "validate_key_time H v coordinator nb True = Inr ()"
    "digest H (subject_body (vb_payload b)) = Inr (vb_subject_digest b)"
    "verify_subject_and_grant H v (vb_payload b) (vb_subject_digest b) = Inr ()"
    "verify_runner_admission_lease H v (vb_payload b) = Inr lease"
    "verify_reviews H v (vb_payload b) (vb_subject_digest b) = Inr reviews"
    "verify_closure H v (vb_payload b) reviews (vb_subject_digest b) = Inr closure_root"
    "verify_consensus H v (vb_payload b) reviews (vb_subject_digest b) closure_root = Inr (finals, families)"
    "refuse_revoked H v ''bundle'' (vb_bundle_id b) ''EVIDENCE_REVOKED'' = Inr ()"
    "refuse_revoked H v ''subject'' (vb_subject_digest b) ''EVIDENCE_REVOKED'' = Inr ()"
    "refuse_revoked H v ''grant'' (vb_request_id b) ''EVIDENCE_REVOKED'' = Inr ()"
    "parse_utc H (gr_expiresAt (bd_grant (vb_payload b))) = Inr (vb_expires_at b)"
    "vb_bundle_id b = bd_bundleId (vb_payload b)" "vb_request_id b = gr_requestId (bd_grant (vb_payload b))"
    "vb_session_digest b = sj_sessionSha256 (bd_subject (vb_payload b))"
    "vb_runner_admission_lease b = lease" "vb_coordinator_key_id b = tk_key_id coordinator"
    "vb_provider_families b = sort (remdups families)"
    "vb_final_review_digests b = sort (map vr_digest finals)"
    "vb_bundle_digest b = ve_envelope_digest outer"
  using assms unfolding verify_bundle_def opened
  by (elim exE conjE, hypsubst) (rule that; simp only: verified_bundle.select_convs)
text \<open>Keys and revocations.\<close>

definition not_revoked :: "verifier \<Rightarrow> string \<Rightarrow> string \<Rightarrow> bool" where
  "not_revoked v kind identifier = (\<forall>e \<in> set (vf_revocations v). \<not> (re_type e = kind \<and> re_id e = identifier))"

lemma is_revoked_False: "is_revoked H es kind i = Inr False \<longleftrightarrow> (\<forall>e \<in> set es. \<not> (re_type e = kind \<and> re_id e = i))"
  by (induction es) (auto simp: bindE_Inr_iff)

lemma refuse_revoked_Inr: "refuse_revoked H v kind i code = Inr () \<longleftrightarrow> not_revoked v kind i"
  unfolding refuse_revoked_def not_revoked_def is_revoked_False [of H, symmetric]
  by (cases "is_revoked H (vf_revocations v) kind i") auto

lemma key_of_Inr: "key_of v key_id = Inr k \<Longrightarrow> k \<in> set (vf_keys v) \<and> tk_key_id k = key_id"
  by (auto simp: key_of_def dest: lookup_by_SomeD)

lemma validate_key_time_Inr:
  "validate_key_time H v k t True = Inr () \<longleftrightarrow> tk_not_before k - vf_max_skew v \<le> t \<and> t \<le> tk_not_after k + vf_max_skew v
     \<and> not_revoked v ''key'' (tk_key_id k)"
  by (auto simp: validate_key_time_def bindE_Inr_iff refuse_revoked_Inr)

lemma active_keys_Inr:
  assumes "active_keys v role = Inr ks" "map_of ks i = Some pk"
  shows "\<exists>k \<in> set (vf_keys v). key_active v role k \<and> tk_key_id k = i \<and> tk_public_key k = pk"
  using map_of_SomeD [OF assms(2)] assms(1) by (auto simp: active_keys_def Let_def split: if_splits)

text \<open>
  The envelope carries one signature, by the active key \<open>k\<close>, over the encoding of the bytes of its payload; these bytes
  are the canonical text of the JSON object \<open>payload\<close>, and decode to it.
\<close>

definition signed_by :: "host \<Rightarrow> verifier \<Rightarrow> string \<Rightarrow> string \<Rightarrow> json \<Rightarrow> (string \<times> json) list \<Rightarrow> trust_key \<Rightarrow> bool" where
  "signed_by H v role ty envelope payload k = (\<exists>env bytes entry sig msg. envelope = JObj env \<and> jget env ''payloadType'' = JStr ty
     \<and> strict_b64 H (jget env ''payload'') = Inr bytes \<and> canonical_bytes (JObj payload) = Inr bytes
     \<and> h_json_loads H bytes = Some (JObj payload) \<and> jget env ''signatures'' = JArr [JObj entry]
     \<and> jget entry ''keyid'' = JStr (tk_key_id k) \<and> strict_b64 H (jget entry ''sig'') = Inr sig
     \<and> pae ty bytes = Inr msg \<and> h_ed25519 H (tk_public_key k) sig msg
     \<and> k \<in> set (vf_keys v) \<and> key_active v role k)"

lemma single_signature:
  assumes "verify_json_envelope H envelope ty ks [] True = Inr e"
  obtains env entry sig msg i pk where "envelope = JObj env" "jget env ''payloadType'' = JStr ty"
    "strict_b64 H (jget env ''payload'') = Inr (ve_payload_bytes e)" "h_json_loads H (ve_payload_bytes e) = Some (JObj (ve_payload e))"
    "canonical_bytes (JObj (ve_payload e)) = Inr (ve_payload_bytes e)" "pae ty (ve_payload_bytes e) = Inr msg"
    "jget env ''signatures'' = JArr [JObj entry]" "jget entry ''keyid'' = JStr i" "map_of ks i = Some pk"
    "strict_b64 H (jget entry ''sig'') = Inr sig" "h_ed25519 H pk sig msg" "ve_signing_key_ids e = [i]"
proof -
  from verify_envelope_Inr [OF assms] obtain env seen where v: "envelope = JObj env"
    "canonical_bytes (JObj (ve_payload e)) = Inr (ve_payload_bytes e)"
    "verify_signatures H (jget env ''signatures'') ty (ve_payload_bytes e) ks [] True = Inr seen" "ve_signing_key_ids e = sort seen" by blast
  have t: "eq_str (jget env ''payloadType'') ty" using assms unfolding verify_json_envelope_def v(1) by (simp split: if_split_asm)
  have d: "strict_b64 H (jget env ''payload'') = Inr (ve_payload_bytes e) \<and> h_json_loads H (ve_payload_bytes e) = Some (JObj (ve_payload e))"
  proof -
    from assms obtain bytes where b: "strict_b64 H (jget env ''payload'') = Inr bytes"
      "(case h_json_loads H bytes of
              Some (JObj payload) \<Rightarrow>
                bindE (canonical_bytes (JObj payload)) (\<lambda>canonical.
                if bytes \<noteq> canonical then reject ''DSSE_PAYLOAD_NON_CANONICAL''
                else bindE (verify_signatures H (jget env ''signatures'') ty bytes ks [] True) (\<lambda>seen.
                  bindE (digest H envelope) (\<lambda>envelope_digest.
                  Inr \<lparr>ve_payload_type = ty, ve_payload = payload, ve_payload_bytes = bytes, ve_envelope_digest = envelope_digest,
                    ve_signing_key_ids = sort seen\<rparr>)))
            | _ \<Rightarrow> reject ''DSSE_PAYLOAD_INVALID'') = Inr e"
      unfolding verify_json_envelope_def v(1) by (simp add: bindE_Inr_iff split: if_split_asm) blast
    then obtain payload where "h_json_loads H bytes = Some (JObj payload)" by (auto split: option.splits json.splits)
    with b show ?thesis by (auto simp: bindE_Inr_iff split: if_split_asm)
  qed
  from v(3) obtain x msg where "jget env ''signatures'' = JArr [x]" "pae ty (ve_payload_bytes e) = Inr msg" "verify_signature H ks msg x [] = Inr seen"
    by (auto simp: verify_signatures_def bindE_Inr_iff length_Suc_conv split: json.split_asm if_split_asm)
  moreover from this(3) obtain entry i pk sig where "x = JObj entry" "jget entry ''keyid'' = JStr i" "map_of ks i = Some pk"
    "strict_b64 H (jget entry ''sig'') = Inr sig" "h_ed25519 H pk sig msg" "seen = [i]"
    unfolding verify_signature_def by (auto simp: bindE_Inr_iff split: json.split_asm if_split_asm option.split_asm)
  moreover have "jget env ''payloadType'' = JStr ty" using t by (simp add: eq_str_def split: json.split_asm)
  ultimately show thesis using that v d by auto
qed

lemma single_signer:
  assumes "active_keys v role = Inr ks" "verify_json_envelope H envelope ty ks [] True = Inr e"
    and "key_of v (hd (ve_signing_key_ids e)) = Inr k" "keys_distinct tk_key_id (vf_keys v)"
  shows "signed_by H v role ty envelope (ve_payload e) k"
proof -
  obtain env entry sig msg i pk where e: "envelope = JObj env" "jget env ''payloadType'' = JStr ty"
    "strict_b64 H (jget env ''payload'') = Inr (ve_payload_bytes e)" "h_json_loads H (ve_payload_bytes e) = Some (JObj (ve_payload e))"
    "canonical_bytes (JObj (ve_payload e)) = Inr (ve_payload_bytes e)" "pae ty (ve_payload_bytes e) = Inr msg"
    "jget env ''signatures'' = JArr [JObj entry]" "jget entry ''keyid'' = JStr i" "map_of ks i = Some pk"
    "strict_b64 H (jget entry ''sig'') = Inr sig" "h_ed25519 H pk sig msg" "ve_signing_key_ids e = [i]"
    using assms(2) by (rule single_signature)
  from active_keys_Inr [OF assms(1) e(9)] obtain k' where k': "k' \<in> set (vf_keys v)" "key_active v role k'"
    "tk_key_id k' = i" "tk_public_key k' = pk" by blast
  have "lookup_by tk_key_id i (vf_keys v) = Some k'" using in_set_lookup [OF assms(4) k'(1)] k'(3) by simp
  with assms(3) e(12) have "k = k'" by (simp add: key_of_def)
  with k' e show ?thesis unfolding signed_by_def by blast
qed

section \<open>Reviews\<close>

text \<open>What every review that passed \<^verbatim>\<open>_verify_reviews\<close> satisfies by itself.\<close>

definition review_good :: "host \<Rightarrow> verifier \<Rightarrow> string \<Rightarrow> verified_review \<Rightarrow> bool" where
  "review_good H v subject_digest r =
     (vr_key r \<in> set (vf_keys v) \<and> attributed (vr_payload r) (vr_key r)
      \<and> rv_subjectSha256 (vr_payload r) = subject_digest
      \<and> parse_utc H (rv_issuedAt (vr_payload r)) = Inr (vr_issued_at r)
      \<and> parse_utc H (rv_expiresAt (vr_payload r)) = Inr (vr_expires_at r)
      \<and> vr_issued_at r \<le> vf_now v + vf_max_skew v \<and> vf_now v - vf_max_skew v \<le> vr_expires_at r
      \<and> not_revoked v ''review'' (vr_digest r) \<and> not_revoked v ''key'' (tk_key_id (vr_key r))
      \<and> (\<exists>envelope ks e. digest H envelope = Inr (vr_digest r) \<and> active_keys v ''provider-review'' = Inr ks
           \<and> verify_json_envelope H envelope (payload_type ''review'' (vf_version v)) ks [] True = Inr e
           \<and> read_review (JObj (ve_payload e)) = Inr (vr_payload r)
           \<and> key_of v (hd (ve_signing_key_ids e)) = Inr (vr_key r)))"

lemma envelope_digest:
  "verify_json_envelope H envelope ty ks req one = Inr e \<Longrightarrow> digest H envelope = Inr (ve_envelope_digest e)"
  using verify_envelope_Inr by blast

lemma verify_review_Inr:
  assumes "active_keys v ''provider-review'' = Inr ks" "verify_review H v ks subject_digest envelope acc = Inr acc'"
  obtains r where "acc' = acc @ [r]" "review_good H v subject_digest r" "vr_digest r \<notin> vr_digest ` set acc"
proof -
  from assms(2) obtain e leaf key issued_at expires_at where
      x: "verify_json_envelope H envelope (payload_type ''review'' (vf_version v)) ks [] True = Inr e"
      "read_review (JObj (ve_payload e)) = Inr leaf" "key_of v (hd (ve_signing_key_ids e)) = Inr key"
      "attributed leaf key" "rv_subjectSha256 leaf = subject_digest" "parse_utc H (rv_issuedAt leaf) = Inr issued_at"
      "parse_utc H (rv_expiresAt leaf) = Inr expires_at" "review_time_ok v leaf issued_at expires_at = Inr ()"
      "validate_key_time H v key issued_at True = Inr ()" "ve_envelope_digest e \<notin> vr_digest ` set acc"
      "refuse_revoked H v ''review'' (ve_envelope_digest e) ''REVIEW_REVOKED'' = Inr ()"
      and acc': "acc' = acc @ [\<lparr>vr_digest = ve_envelope_digest e, vr_payload = leaf, vr_key = key,
         vr_issued_at = issued_at, vr_expires_at = expires_at\<rparr>]"
    unfolding verify_review_def opened reject_if_Inr not_not
    by (elim exE conjE) (rule that, (assumption | erule sym)+)
  let ?r = "\<lparr>vr_digest = ve_envelope_digest e, vr_payload = leaf, vr_key = key,
         vr_issued_at = issued_at, vr_expires_at = expires_at\<rparr>"
  have t: "issued_at \<le> vf_now v + vf_max_skew v" "vf_now v - vf_max_skew v \<le> expires_at"
    using x(8) by (auto simp: review_time_ok_def)
  have "review_good H v subject_digest ?r"
    unfolding review_good_def verified_review.select_convs
    using x(1-7) x(9,11) t key_of_Inr [OF x(3)] envelope_digest [OF x(1)] assms(1)
    by (simp only: validate_key_time_Inr refuse_revoked_Inr) blast
  with acc' x(10) show ?thesis by (intro that [of ?r]) simp_all
qed

lemma verify_reviews_Inr:
  assumes "verify_reviews H v bundle subject_digest = Inr reviews"
  shows "\<forall>r \<in> set reviews. review_good H v subject_digest r" "keys_distinct vr_digest reviews"
    "verify_review_chains reviews = Inr ()"
proof -
  from assms obtain ks where ks: "active_keys v ''provider-review'' = Inr ks"
      "foldE (verify_review H v ks subject_digest) (bd_reviewEnvelopes bundle) [] = Inr reviews"
      and c: "verify_review_chains reviews = Inr ()"
    unfolding verify_reviews_def opened by blast
  have "(\<forall>r \<in> set reviews. review_good H v subject_digest r) \<and> keys_distinct vr_digest reviews"
  proof (rule foldE_invariant [OF ks(2)])
    fix x acc acc'
    assume a: "(\<forall>r \<in> set acc. review_good H v subject_digest r) \<and> keys_distinct vr_digest acc"
      "verify_review H v ks subject_digest x acc = Inr acc'"
    from verify_review_Inr [OF ks(1) a(2)] obtain r where "acc' = acc @ [r]" "review_good H v subject_digest r"
      "vr_digest r \<notin> vr_digest ` set acc" .
    with a(1) show "(\<forall>r \<in> set acc'. review_good H v subject_digest r) \<and> keys_distinct vr_digest acc'"
      by (simp add: keys_distinct_snoc lookup_by_None_iff)
  qed simp
  with c show "\<forall>r \<in> set reviews. review_good H v subject_digest r" "keys_distinct vr_digest reviews"
    "verify_review_chains reviews = Inr ()" by simp_all
qed
section \<open>Chains\<close>

lemma set_dict_keys [simp]: "set (dict_keys xs) = set xs"
  by (simp add: dict_keys_def)

lemma links_ok_nth:
  "links_ok rs \<Longrightarrow> Suc i < length rs \<Longrightarrow>
     rv_previousRoundSha256 (vr_payload (rs ! Suc i)) = Some (vr_digest (rs ! i))"
proof (induction rs arbitrary: i rule: links_ok.induct)
  case (1 previous current rest)
  then show ?case by (cases i) auto
qed auto

text \<open>
  A well-formed chain: one family, and every round either opens the chain or names the digest
  of the round before it.
\<close>

definition chained :: "verified_review list \<Rightarrow> bool" where
  "chained chain = ((\<forall>r \<in> set chain. \<forall>r' \<in> set chain. family_of r = family_of r')
     \<and> (\<forall>r \<in> set chain. \<forall>r' \<in> set chain. round_of r = round_of r' \<longrightarrow> r = r')
     \<and> (\<forall>r \<in> set chain. if round_of r = 1 then rv_previousRoundSha256 (vr_payload r) = None
          else \<exists>p \<in> set chain. round_of p = round_of r - 1
            \<and> rv_previousRoundSha256 (vr_payload r) = Some (vr_digest p)))"

lemma chained_same:
  "chained chain \<Longrightarrow> r \<in> set chain \<Longrightarrow> r' \<in> set chain \<Longrightarrow> family_of r = family_of r' \<and> (round_of r = round_of r' \<longrightarrow> r = r')"
  unfolding chained_def by blast

lemma chained_previous:
  assumes "chained chain" "r \<in> set chain"
  shows "if round_of r = 1 then rv_previousRoundSha256 (vr_payload r) = None
     else \<exists>p \<in> set chain. round_of p = round_of r - 1 \<and> rv_previousRoundSha256 (vr_payload r) = Some (vr_digest p)"
  using assms unfolding chained_def by blast

lemma review_chain_ok_chained:
  assumes "review_chain_ok chain = Inr ()"
  shows "chained chain"
proof -
  define ordered where "ordered = sort_key round_of chain"
  have set: "set ordered = set chain" by (simp add: ordered_def)
  from assms have fam: "card (family_of ` set ordered) = 1"
      and rounds: "map round_of ordered = map int [1..<Suc (length ordered)]"
      and first: "rv_previousRoundSha256 (vr_payload (hd ordered)) = None" and links: "links_ok ordered"
    by (simp_all add: review_chain_ok_def Let_def ordered_def [symmetric] del: upt_Suc)
  have nth: "round_of (ordered ! i) = int (Suc i)" if "i < length ordered" for i
  proof -
    have "map round_of ordered ! i = map int [1..<Suc (length ordered)] ! i" by (simp only: rounds)
    with that show ?thesis by (simp del: upt_Suc)
  qed
  have "r = r'" if "r \<in> set chain" "r' \<in> set chain" "round_of r = round_of r'" for r r'
    using that nth unfolding set [symmetric] in_set_conv_nth by force
  moreover have "if round_of r = 1 then rv_previousRoundSha256 (vr_payload r) = None
          else \<exists>p \<in> set chain. round_of p = round_of r - 1 \<and> rv_previousRoundSha256 (vr_payload r) = Some (vr_digest p)"
    if r: "r \<in> set chain" for r
  proof -
    from r obtain i where i: "i < length ordered" "r = ordered ! i" unfolding set [symmetric] in_set_conv_nth by blast
    show ?thesis
    proof (cases i)
      case 0
      with i have "r = hd ordered" by (simp add: hd_conv_nth)
      with i 0 nth [of 0] first show ?thesis by simp
    next
      case (Suc j)
      with i nth have "round_of (ordered ! j) = round_of r - 1" "ordered ! j \<in> set chain" "round_of r \<noteq> 1"
        by (simp_all add: set [symmetric])
      with links_ok_nth [OF links, of j] i Suc show ?thesis by auto
    qed
  qed
  moreover have "family_of r = family_of r'" if "r \<in> set chain" "r' \<in> set chain" for r r'
  proof -
    from fam obtain x where "family_of ` set chain = {x}" unfolding set by (auto simp: card_1_singleton_iff)
    with that have "family_of r \<in> {x}" "family_of r' \<in> {x}" by blast+
    then show ?thesis by simp
  qed
  ultimately show ?thesis unfolding chained_def by blast
qed

lemma verify_review_chains_Inr:
  assumes "verify_review_chains reviews = Inr ()"
  shows "\<forall>r \<in> set reviews. review_findings_ok r = Inr ()" "findings_ok reviews = Inr ()"
    "\<forall>c. chained (filter (\<lambda>r. chain_id r = c) reviews)"
proof -
  from assms have a: "\<forall>r \<in> set reviews. review_findings_ok r = Inr ()" "findings_ok reviews = Inr ()"
      "\<forall>c \<in> set (map chain_id reviews). review_chain_ok (filter (\<lambda>r. chain_id r = c) reviews) = Inr ()"
    unfolding verify_review_chains_def opened forE_Inr_iff set_dict_keys by blast+
  have "chained (filter (\<lambda>r. chain_id r = c) reviews)" for c
  proof (cases "c \<in> set (map chain_id reviews)")
    case True
    with a(3) show ?thesis by (blast intro: review_chain_ok_chained)
  next
    case False
    then have "filter (\<lambda>r. chain_id r = c) reviews = []" by (auto simp: filter_empty_conv)
    then show ?thesis by (simp add: chained_def)
  qed
  with a show "\<forall>r \<in> set reviews. review_findings_ok r = Inr ()" "findings_ok reviews = Inr ()"
    "\<forall>c. chained (filter (\<lambda>r. chain_id r = c) reviews)" by blast+
qed

section \<open>Chain tips\<close>

definition is_tip :: "verified_review list \<Rightarrow> verified_review \<Rightarrow> bool" where
  "is_tip reviews r = (r \<in> set reviews \<and> (\<forall>r' \<in> set reviews. chain_id r' = chain_id r \<longrightarrow> round_of r' \<le> round_of r))"

definition tip_entry :: "verified_review list \<Rightarrow> string \<Rightarrow> string option \<Rightarrow> bool" where
  "tip_entry seen c x = (case x of None \<Rightarrow> c \<notin> chain_id ` set seen
     | Some d \<Rightarrow> \<exists>r. vr_digest r = d \<and> chain_id r = c \<and> is_tip seen r)"

definition tips_for :: "verified_review list \<Rightarrow> (string \<times> string) list \<Rightarrow> bool" where
  "tips_for seen tips = (distinct (map fst tips) \<and> (\<forall>c. tip_entry seen c (map_of tips c)))"

lemma tip_entry_other: "c \<noteq> chain_id r \<Longrightarrow> tip_entry seen c x \<Longrightarrow> tip_entry (seen @ [r]) c x"
  by (cases x) (auto simp: tip_entry_def is_tip_def)

lemma is_tip_new: "(\<forall>r' \<in> set seen. chain_id r' = chain_id r \<longrightarrow> round_of r' \<le> round_of r) \<Longrightarrow> is_tip (seen @ [r]) r"
  by (simp add: is_tip_def)

lemma tip_step_tips:
  assumes d: "keys_distinct vr_digest reviews" and s: "set seen \<subseteq> set reviews" "r \<in> set reviews"
    and t: "tips_for seen tips"
  shows "tips_for (seen @ [r]) (tip_step reviews r tips)"
proof -
  from t have dist: "distinct (map fst tips)" and old: "\<And>c. tip_entry seen c (map_of tips c)"
    by (simp_all add: tips_for_def)
  have new: "tips_for (seen @ [r]) (AList.update (chain_id r) (vr_digest r) tips)" if "is_tip (seen @ [r]) r"
  proof -
    have "tip_entry (seen @ [r]) c (map_of (AList.update (chain_id r) (vr_digest r) tips) c)" for c
    proof (cases "c = chain_id r")
      case True
      with that show ?thesis unfolding update_conv' tip_entry_def by auto
    next
      case False
      with tip_entry_other [OF False old] show ?thesis by (simp add: update_conv')
    qed
    with dist show ?thesis by (simp add: tips_for_def distinct_update)
  qed
  show ?thesis
  proof (cases "map_of tips (chain_id r)")
    case None
    with old [of "chain_id r"] have "\<forall>r' \<in> set seen. chain_id r' \<noteq> chain_id r"
      unfolding tip_entry_def by (metis image_eqI option.simps(4))
    with None new [OF is_tip_new] show ?thesis by (simp add: tip_step_def)
  next
    case (Some d')
    with old [of "chain_id r"] obtain p where p: "vr_digest p = d'" "chain_id p = chain_id r" "is_tip seen p"
      unfolding tip_entry_def by auto
    have eq: "tip_step reviews r tips
      = (if round_of p < round_of r then AList.update (chain_id r) (vr_digest r) tips else tips)"
      using in_set_lookup [OF d, of p] p s(1) by (auto simp: tip_step_def Some is_tip_def)
    show ?thesis
    proof (cases "round_of p < round_of r")
      case True
      with p have "is_tip (seen @ [r]) r" by (auto simp: is_tip_def)
      with new True show ?thesis by (simp add: eq)
    next
      case False
      with p have "is_tip (seen @ [r]) p" by (auto simp: is_tip_def)
      with p Some have "tip_entry (seen @ [r]) (chain_id r) (map_of tips (chain_id r))" by (auto simp: tip_entry_def)
      then have "tip_entry (seen @ [r]) c (map_of tips c)" for c
        using tip_entry_other [OF _ old] by (cases "c = chain_id r") auto
      with dist False show ?thesis by (simp add: eq tips_for_def)
    qed
  qed
qed

lemma chain_tips_for:
  assumes "keys_distinct vr_digest reviews"
  shows "tips_for reviews (chain_tips reviews)"
proof -
  have "tips_for (seen @ rs) (fold (tip_step reviews) rs tips)"
    if "set (seen @ rs) \<subseteq> set reviews" "tips_for seen tips" for rs seen tips
    using that
  proof (induction rs arbitrary: seen tips)
    case Nil
    then show ?case by simp
  next
    case (Cons r rs)
    have "tips_for (seen @ [r]) (tip_step reviews r tips)"
      by (rule tip_step_tips [OF assms]) (use Cons.prems in auto)
    from Cons.IH [OF _ this] Cons.prems show ?case by simp
  qed
  from this [of "[]" reviews "[]"] show ?thesis by (simp add: chain_tips_def tips_for_def tip_entry_def)
qed
section \<open>Consensus and closure\<close>

lemma verify_consensus_Inr:
  assumes "verify_consensus H v bundle reviews sd cr = Inr (finals, families)"
  shows "mapE (final_review reviews sd cr) (bd_consensus_finalAgree bundle) = Inr finals"
    "families = families_of finals" "snd ` set (chain_tips reviews) = set (bd_consensus_finalAgree bundle)"
    "set families = set (vf_required_families v)" "set (direct_families_of finals) = set (vf_required_families v)"
  using assms unfolding verify_consensus_def opened reject_if_Inr not_not by (auto simp only:)

lemma keys_distinct_inj:
  "keys_distinct key rows \<Longrightarrow> r \<in> set rows \<Longrightarrow> r' \<in> set rows \<Longrightarrow> key r = key r' \<Longrightarrow> r = r'"
  by (metis in_set_lookup option.inject)

lemma tip_lookup: "keys_distinct vr_digest reviews \<Longrightarrow> tip_entry reviews c (map_of (chain_tips reviews) c)"
  using chain_tips_for by (auto simp: tips_for_def)

lemma final_review_Inr:
  assumes "final_review reviews sd cr dg = Inr r" "keys_distinct vr_digest reviews"
  shows "r \<in> set reviews" "vr_digest r = dg" "is_tip reviews r" "rv_verdict (vr_payload r) = ''AGREE''"
    "rv_subjectSha256 (vr_payload r) = sd" "rv_closureRootSha256 (vr_payload r) = cr"
proof -
  from assms(1) obtain r' where r': "lookup_by vr_digest dg reviews = Some r'"
    by (cases "lookup_by vr_digest dg reviews") (simp_all add: final_review_def)
  with assms(1) have x: "r = r'" "map_of (chain_tips reviews) (chain_id r) = Some dg"
      "rv_verdict (vr_payload r) = ''AGREE''" "rv_subjectSha256 (vr_payload r) = sd"
      "rv_closureRootSha256 (vr_payload r) = cr"
    by (auto simp: final_review_def bindE_Inr_iff)
  from lookup_by_SomeD [OF r'] x(1) have r: "r \<in> set reviews" "vr_digest r = dg" by simp_all
  from tip_lookup [OF assms(2), of "chain_id r"] x(2) obtain t where t: "vr_digest t = dg" "is_tip reviews t"
    by (auto simp: tip_entry_def)
  moreover from t(2) have "t \<in> set reviews" by (simp add: is_tip_def)
  then have "t = r" by (rule keys_distinct_inj [OF assms(2) _ r(1)]) (simp only: t(1) r(2))
  ultimately show "r \<in> set reviews" "vr_digest r = dg" "is_tip reviews r" "rv_verdict (vr_payload r) = ''AGREE''"
    "rv_subjectSha256 (vr_payload r) = sd" "rv_closureRootSha256 (vr_payload r) = cr" using r x by simp_all
qed

text \<open>Contiguous rounds make the tip of a chain unique, so every tip is counted.\<close>

lemma tip_counted:
  assumes "keys_distinct vr_digest reviews" "\<forall>c. chained (filter (\<lambda>r. chain_id r = c) reviews)" "is_tip reviews r"
  shows "vr_digest r \<in> snd ` set (chain_tips reviews)"
proof -
  from assms(3) have "chain_id r \<in> chain_id ` set reviews" by (simp add: is_tip_def)
  with tip_lookup [OF assms(1), of "chain_id r"] obtain d t where t: "map_of (chain_tips reviews) (chain_id r) = Some d"
      "vr_digest t = d" "chain_id t = chain_id r" "is_tip reviews t"
    unfolding tip_entry_def by (cases "map_of (chain_tips reviews) (chain_id r)") auto
  from t(3,4) assms(3) have "round_of t = round_of r" "t \<in> set reviews" "r \<in> set reviews"
    by (auto simp: is_tip_def intro: antisym)
  with assms(2) t(3) have "t = r" unfolding chained_def by (auto dest!: spec [of _ "chain_id r"])
  with t map_of_SomeD [OF t(1)] show ?thesis by force
qed

lemma families_of_mem: "f \<in> set (families_of rs) \<longleftrightarrow> (\<exists>r \<in> set rs. family_of r = Some f)"
  unfolding families_of_def List.map_filter_def by (force simp: image_iff)

lemma mapE_preimage: "mapE f xs = Inr ys \<Longrightarrow> x \<in> set xs \<Longrightarrow> \<exists>y \<in> set ys. f x = Inr y"
proof (induction xs arbitrary: ys)
  case (Cons a xs)
  then show ?case by (force simp: bindE_Inr_iff)
qed simp

text \<open>
  C4: an accepted bundle carries the agreement of every required provider. Among its verified reviews
  each required family has one, signed on its direct route, that says \<open>AGREE\<close> about this very
  subject and closure, is the last round of its chain and is counted by the consensus; no
  chain of any provider ends in another verdict; and the families that the result reports are
  exactly the required ones.
\<close>

theorem accepted_bundle_has_consensus:
  assumes "verify_bundle H v envelope = Inr b"
  shows "\<exists>reviews. verify_reviews H v (vb_payload b) (vb_subject_digest b) = Inr reviews
    \<and> (\<forall>f \<in> set (vf_required_families v). \<exists>r. is_tip reviews r \<and> family_of r = Some f
         \<and> rv_providerFamily (vr_payload r) = f \<and> tk_direct_provider_cli (vr_key r) = Some True
         \<and> rv_verdict (vr_payload r) = ''AGREE'' \<and> rv_subjectSha256 (vr_payload r) = vb_subject_digest b
         \<and> rv_closureRootSha256 (vr_payload r) = bd_closureRootSha256 (vb_payload b)
         \<and> vr_digest r \<in> set (vb_final_review_digests b))
    \<and> (\<forall>r. is_tip reviews r \<longrightarrow> rv_verdict (vr_payload r) = ''AGREE'')
    \<and> set (vb_provider_families b) = set (vf_required_families v)"
proof -
  from assms obtain reviews cr finals families where
      r: "verify_reviews H v (vb_payload b) (vb_subject_digest b) = Inr reviews"
      and c: "verify_closure H v (vb_payload b) reviews (vb_subject_digest b) = Inr cr"
      and k: "verify_consensus H v (vb_payload b) reviews (vb_subject_digest b) cr = Inr (finals, families)"
      and b: "vb_provider_families b = sort (remdups families)" "vb_final_review_digests b = sort (map vr_digest finals)"
    by (rule verify_bundle_Inr)
  note rs = verify_reviews_Inr [OF r] and con = verify_consensus_Inr [OF k]
  note chains = verify_review_chains_Inr(3) [OF rs(3)]
  have cr: "cr = bd_closureRootSha256 (vb_payload b)"
    using c unfolding verify_closure_def opened reject_if_Inr by auto
  have final: "r \<in> set reviews \<and> is_tip reviews r \<and> rv_verdict (vr_payload r) = ''AGREE''
      \<and> rv_subjectSha256 (vr_payload r) = vb_subject_digest b \<and> rv_closureRootSha256 (vr_payload r) = cr"
    if "r \<in> set finals" for r
  proof -
    from mapE_set [OF con(1) that] obtain dg where "final_review reviews (vb_subject_digest b) cr dg = Inr r" by blast
    note fr = final_review_Inr [OF this rs(2)]
    show ?thesis by (intro conjI fr)
  qed
  have "\<exists>r. is_tip reviews r \<and> family_of r = Some f
         \<and> rv_providerFamily (vr_payload r) = f \<and> tk_direct_provider_cli (vr_key r) = Some True
         \<and> rv_verdict (vr_payload r) = ''AGREE'' \<and> rv_subjectSha256 (vr_payload r) = vb_subject_digest b
         \<and> rv_closureRootSha256 (vr_payload r) = bd_closureRootSha256 (vb_payload b)
         \<and> vr_digest r \<in> set (vb_final_review_digests b)" if f: "f \<in> set (vf_required_families v)" for f
  proof -
    from f have "f \<in> set (direct_families_of finals)" by (simp only: con(5))
    then obtain r where x: "r \<in> set finals" "tk_direct_provider_cli (vr_key r) = Some True" "family_of r = Some f"
      by (auto simp: direct_families_of_def families_of_mem)
    from final [OF x(1)] rs(1) have "attributed (vr_payload r) (vr_key r)" by (simp add: review_good_def)
    with x(3) have "rv_providerFamily (vr_payload r) = f" by (simp add: attributed_def)
    with x final [OF x(1)] cr b(2) show ?thesis by auto
  qed
  moreover have "rv_verdict (vr_payload r) = ''AGREE''" if t: "is_tip reviews r" for r
  proof -
    from tip_counted [OF rs(2) chains t] con(3) have "vr_digest r \<in> set (bd_consensus_finalAgree (vb_payload b))" by simp
    from mapE_preimage [OF con(1) this] obtain r' where
      r': "final_review reviews (vb_subject_digest b) cr (vr_digest r) = Inr r'" by blast
    note fr = final_review_Inr [OF r' rs(2)]
    from t have "r \<in> set reviews" by (simp add: is_tip_def)
    from keys_distinct_inj [OF rs(2) fr(1) this fr(2)] have "r' = r" .
    with fr(4) show ?thesis by simp
  qed
  moreover have "set (vb_provider_families b) = set (vf_required_families v)" using b(1) con(4) by simp
  ultimately show ?thesis using r by blast
qed

theorem accepted_bundle_has_consensus_witness:
  "\<exists>reviews. verify_reviews ev_host ev_verifier (vb_payload ev_accepted) (vb_subject_digest ev_accepted) = Inr reviews
    \<and> (\<forall>f \<in> set (vf_required_families ev_verifier). \<exists>r. is_tip reviews r \<and> family_of r = Some f
         \<and> rv_providerFamily (vr_payload r) = f \<and> tk_direct_provider_cli (vr_key r) = Some True
         \<and> rv_verdict (vr_payload r) = ''AGREE'' \<and> rv_subjectSha256 (vr_payload r) = vb_subject_digest ev_accepted
         \<and> rv_closureRootSha256 (vr_payload r) = bd_closureRootSha256 (vb_payload ev_accepted)
         \<and> vr_digest r \<in> set (vb_final_review_digests ev_accepted))
    \<and> (\<forall>r. is_tip reviews r \<longrightarrow> rv_verdict (vr_payload r) = ''AGREE'')
    \<and> set (vb_provider_families ev_accepted) = set (vf_required_families ev_verifier)"
  by (rule accepted_bundle_has_consensus [OF ev_bundle_accepted])

lemma closure_fold:
  assumes "foldE (closure_step reviews) es acc = Inr entries" "\<forall>e \<in> set acc. closure_entry_ok reviews e = Inr ()"
    and "distinct (map ce_findingId acc)"
  shows "entries = acc @ es \<and> (\<forall>e \<in> set entries. closure_entry_ok reviews e = Inr ()) \<and> distinct (map ce_findingId entries)"
  using assms
proof (induction es arbitrary: acc)
  case (Cons e es)
  from Cons.prems(1) obtain acc' where a: "closure_step reviews e acc = Inr acc'" "foldE (closure_step reviews) es acc' = Inr entries"
    by (auto simp: bindE_Inr_iff)
  from a(1) have "closure_entry_ok reviews e = Inr ()" "acc' = acc @ [e]" and new: "ce_findingId e \<notin> ce_findingId ` set acc"
    by (auto simp: closure_step_def bindE_Inr_iff split: if_splits)
  with a(2) have ok: "closure_entry_ok reviews e = Inr ()" "foldE (closure_step reviews) es (acc @ [e]) = Inr entries"
    by simp_all
  have ih: "entries = (acc @ [e]) @ es \<and> (\<forall>e \<in> set entries. closure_entry_ok reviews e = Inr ()) \<and> distinct (map ce_findingId entries)"
    by (rule Cons.IH [OF ok(2)]) (use new Cons.prems(2,3) ok(1) in auto)
  then have "entries = acc @ e # es" by simp
  with ih show ?case by (intro conjI) (assumption | blast)+
qed simp

lemma closure_entry_ok_Inr:
  assumes "closure_entry_ok reviews e = Inr ()"
  obtains raised acknowledged where "raised \<in> set reviews" "vr_digest raised = ce_raisedByReviewSha256 e"
    "acknowledged \<in> set reviews" "vr_digest acknowledged = ce_acknowledgedByReviewSha256 e"
    "ce_findingId e \<in> set (rv_findingIds (vr_payload raised))" "family_of raised = family_of acknowledged"
    "ce_findingId e \<in> set (rv_resolvedFindingIds (vr_payload acknowledged))"
    "ce_findingId e \<in> set (rv_acknowledgedFindingIds (vr_payload acknowledged))"
    "vr_issued_at raised < vr_issued_at acknowledged"
proof -
  from assms obtain p q where l: "lookup_by vr_digest (ce_raisedByReviewSha256 e) reviews = Some p"
      "lookup_by vr_digest (ce_acknowledgedByReviewSha256 e) reviews = Some q"
    by (auto simp: closure_entry_ok_def split: option.splits)
  note m = lookup_by_SomeD [OF l(1)] lookup_by_SomeD [OF l(2)]
  from assms l have c: "ce_findingId e \<in> set (rv_findingIds (vr_payload p))" "family_of p = family_of q"
    "ce_findingId e \<in> set (rv_resolvedFindingIds (vr_payload q))"
    "ce_findingId e \<in> set (rv_acknowledgedFindingIds (vr_payload q))" "vr_issued_at p < vr_issued_at q"
    by (auto simp: closure_entry_ok_def)
  show ?thesis by (rule that [of p q]) (simp_all only: m c)
qed

lemma verify_closure_Inr:
  assumes "verify_closure H v bundle reviews sd = Inr cr"
  shows "\<forall>e \<in> set (bd_closure bundle). closure_entry_ok reviews e = Inr ()"
    "ce_findingId ` set (bd_closure bundle) = set (must_fix reviews)"
    "digest H (closure_body v sd (bd_closure bundle)) = Inr (bd_closureRootSha256 bundle)"
    "cr = bd_closureRootSha256 bundle" "cr = bd_consensus_closureRootSha256 bundle" "distinct (map ce_findingId (bd_closure bundle))"
proof -
  from assms obtain entries where e: "foldE (closure_step reviews) (bd_closure bundle) [] = Inr entries"
      "ce_findingId ` set entries = set (must_fix reviews)" "digest H (closure_body v sd entries) = Inr cr"
      "bd_closureRootSha256 bundle = cr" "bd_consensus_closureRootSha256 bundle = cr"
    unfolding verify_closure_def opened reject_if_Inr not_not by blast
  from closure_fold [OF e(1)] have "entries = bd_closure bundle" "\<forall>e \<in> set (bd_closure bundle). closure_entry_ok reviews e = Inr ()"
    "distinct (map ce_findingId (bd_closure bundle))"
    by auto
  with e show "\<forall>e \<in> set (bd_closure bundle). closure_entry_ok reviews e = Inr ()"
    "ce_findingId ` set (bd_closure bundle) = set (must_fix reviews)"
    "digest H (closure_body v sd (bd_closure bundle)) = Inr (bd_closureRootSha256 bundle)"
    "cr = bd_closureRootSha256 bundle" "cr = bd_consensus_closureRootSha256 bundle" "distinct (map ce_findingId (bd_closure bundle))"
    by simp_all
qed

lemma filter_unique_key:
  "distinct (map f xs) \<Longrightarrow> x \<in> set xs \<Longrightarrow> filter (\<lambda>y. f y = f x) xs = [x]"
  by (induction xs) (auto simp: filter_empty_conv image_iff)

lemma raised_once:
  assumes "findings_ok reviews = Inr ()" "r \<in> set reviews" "r' \<in> set reviews"
    and "f \<in> set (rv_findingIds (vr_payload r))" "f \<in> set (rv_findingIds (vr_payload r'))"
  shows "r = r'"
proof -
  have "f \<in> set (occurring rv_findingIds reviews)" using assms(2,4) by (auto simp: occurring_def)
  with assms(1) have "length (occurrences rv_findingIds reviews f) = 1"
    by (auto simp: findings_ok_def repeated_def list_ex_iff)
  then obtain x where "occurrences rv_findingIds reviews f = [x]" by (auto simp: length_Suc_conv)
  moreover have "r \<in> set (occurrences rv_findingIds reviews f)" "r' \<in> set (occurrences rv_findingIds reviews f)"
    using assms by (simp_all add: occurrences_def)
  ultimately show ?thesis by simp
qed

text \<open>
  C19: no finding is left open. Every finding that any verified review of an accepted bundle raises has
  exactly one closure entry, which names that review and a later review of the same provider in
  the bundle that both resolves and acknowledges it; nothing else is closed; the closure root that every counted
  \<open>AGREE\<close> signs is the digest of these entries.
\<close>

theorem accepted_bundle_closes_findings:
  assumes "verify_bundle H v envelope = Inr b"
  shows "\<exists>reviews. verify_reviews H v (vb_payload b) (vb_subject_digest b) = Inr reviews
    \<and> (\<forall>r \<in> set reviews. \<forall>f \<in> set (rv_findingIds (vr_payload r)).
         \<exists>e. filter (\<lambda>x. ce_findingId x = f) (bd_closure (vb_payload b)) = [e] \<and> (\<exists>a \<in> set reviews.
           ce_raisedByReviewSha256 e = vr_digest r \<and> ce_acknowledgedByReviewSha256 e = vr_digest a
           \<and> family_of a = family_of r \<and> vr_issued_at r < vr_issued_at a
           \<and> f \<in> set (rv_resolvedFindingIds (vr_payload a)) \<and> f \<in> set (rv_acknowledgedFindingIds (vr_payload a))))
    \<and> ce_findingId ` set (bd_closure (vb_payload b)) = (\<Union>r \<in> set reviews. set (rv_findingIds (vr_payload r)))
    \<and> digest H (closure_body v (vb_subject_digest b) (bd_closure (vb_payload b)))
        = Inr (bd_closureRootSha256 (vb_payload b))"
proof -
  from assms obtain reviews cr where
      r: "verify_reviews H v (vb_payload b) (vb_subject_digest b) = Inr reviews"
      and c: "verify_closure H v (vb_payload b) reviews (vb_subject_digest b) = Inr cr"
    by (rule verify_bundle_Inr)
  note rs = verify_reviews_Inr [OF r] and cl = verify_closure_Inr [OF c]
  note ch = verify_review_chains_Inr [OF rs(3)]
  have raised: "set (must_fix reviews) = (\<Union>r \<in> set reviews. set (rv_findingIds (vr_payload r)))"
    using ch(1) by (auto simp: must_fix_def occurring_def review_findings_ok_def Let_def)
  have "\<exists>e. filter (\<lambda>x. ce_findingId x = f) (bd_closure (vb_payload b)) = [e] \<and> (\<exists>a \<in> set reviews.
           ce_raisedByReviewSha256 e = vr_digest r \<and> ce_acknowledgedByReviewSha256 e = vr_digest a
           \<and> family_of a = family_of r \<and> vr_issued_at r < vr_issued_at a
           \<and> f \<in> set (rv_resolvedFindingIds (vr_payload a)) \<and> f \<in> set (rv_acknowledgedFindingIds (vr_payload a)))"
    if f: "r \<in> set reviews" "f \<in> set (rv_findingIds (vr_payload r))" for r f
  proof -
    from f raised have "f \<in> set (must_fix reviews)" by blast
    then have "f \<in> ce_findingId ` set (bd_closure (vb_payload b))" by (simp only: cl(2))
    then obtain e where e: "e \<in> set (bd_closure (vb_payload b))" "ce_findingId e = f" by (rule imageE) simp
    from cl(1) e(1) have "closure_entry_ok reviews e = Inr ()" by blast
    then obtain p a where x: "p \<in> set reviews" "vr_digest p = ce_raisedByReviewSha256 e" "a \<in> set reviews"
      "vr_digest a = ce_acknowledgedByReviewSha256 e" "ce_findingId e \<in> set (rv_findingIds (vr_payload p))"
      "family_of p = family_of a" "ce_findingId e \<in> set (rv_resolvedFindingIds (vr_payload a))"
      "ce_findingId e \<in> set (rv_acknowledgedFindingIds (vr_payload a))" "vr_issued_at p < vr_issued_at a"
      by (rule closure_entry_ok_Inr)
    from raised_once [OF ch(2) f(1) x(1) f(2)] x(5) e(2) have "p = r" by simp
    have "filter (\<lambda>x. ce_findingId x = f) (bd_closure (vb_payload b)) = [e]"
      using filter_unique_key [OF cl(6) e(1)] e(2) by simp
    then show ?thesis
      by (intro exI [of _ e] bexI [OF _ x(3)] conjI)
        (simp_all only: e(2) x(2) [symmetric] x(4) [symmetric] x(6) [symmetric] \<open>p = r\<close> [symmetric] x(9)
          x(7) [unfolded e(2)] x(8) [unfolded e(2)])
  qed
  with r cl(2,3) raised show ?thesis by auto
qed

theorem accepted_bundle_closes_findings_witness:
  "\<exists>reviews. verify_reviews ev_host ev_verifier (vb_payload ev_accepted) (vb_subject_digest ev_accepted) = Inr reviews
    \<and> (\<forall>r \<in> set reviews. \<forall>f \<in> set (rv_findingIds (vr_payload r)).
         \<exists>e. filter (\<lambda>x. ce_findingId x = f) (bd_closure (vb_payload ev_accepted)) = [e] \<and> (\<exists>a \<in> set reviews.
           ce_raisedByReviewSha256 e = vr_digest r \<and> ce_acknowledgedByReviewSha256 e = vr_digest a
           \<and> family_of a = family_of r \<and> vr_issued_at r < vr_issued_at a
           \<and> f \<in> set (rv_resolvedFindingIds (vr_payload a)) \<and> f \<in> set (rv_acknowledgedFindingIds (vr_payload a))))
    \<and> ce_findingId ` set (bd_closure (vb_payload ev_accepted)) = (\<Union>r \<in> set reviews. set (rv_findingIds (vr_payload r)))
    \<and> digest ev_host (closure_body ev_verifier (vb_subject_digest ev_accepted) (bd_closure (vb_payload ev_accepted)))
        = Inr (bd_closureRootSha256 (vb_payload ev_accepted))"
  by (rule accepted_bundle_closes_findings [OF ev_bundle_accepted])

text \<open>
  Review chains are contiguous and hash-linked. In an accepted bundle, the reviews of one chain come
  from one provider family, have distinct rounds, and every round but the first names the
  digest of the round before it, which is in the bundle.
\<close>

theorem review_chains_linked:
  assumes "verify_bundle H v envelope = Inr b"
  shows "\<exists>reviews. verify_reviews H v (vb_payload b) (vb_subject_digest b) = Inr reviews
    \<and> (\<forall>r \<in> set reviews. \<forall>r' \<in> set reviews. chain_id r = chain_id r' \<longrightarrow>
         family_of r = family_of r' \<and> (round_of r = round_of r' \<longrightarrow> r = r'))
    \<and> (\<forall>r \<in> set reviews. if round_of r = 1 then rv_previousRoundSha256 (vr_payload r) = None
         else \<exists>p \<in> set reviews. chain_id p = chain_id r \<and> round_of p = round_of r - 1
           \<and> rv_previousRoundSha256 (vr_payload r) = Some (vr_digest p))"
proof -
  from assms obtain reviews where r: "verify_reviews H v (vb_payload b) (vb_subject_digest b) = Inr reviews"
    by (rule verify_bundle_Inr)
  have c: "chained (filter (\<lambda>r'. chain_id r' = chain_id r) reviews)" for r
    using verify_review_chains_Inr(3) [OF verify_reviews_Inr(3) [OF r]] by blast
  have "family_of r = family_of r' \<and> (round_of r = round_of r' \<longrightarrow> r = r')"
    if "r \<in> set reviews" "r' \<in> set reviews" "chain_id r = chain_id r'" for r r'
    by (rule chained_same [OF c [of r']]) (simp_all add: that)
  moreover have "if round_of r = 1 then rv_previousRoundSha256 (vr_payload r) = None
         else \<exists>p \<in> set reviews. chain_id p = chain_id r \<and> round_of p = round_of r - 1
           \<and> rv_previousRoundSha256 (vr_payload r) = Some (vr_digest p)" if "r \<in> set reviews" for r
    using chained_previous [OF c [of r], of r] that by (auto split: if_splits)
  ultimately show ?thesis using r by blast
qed

theorem review_chains_linked_witness:
  "\<exists>reviews. verify_reviews ev_host ev_verifier (vb_payload ev_accepted) (vb_subject_digest ev_accepted) = Inr reviews
    \<and> (\<forall>r \<in> set reviews. \<forall>r' \<in> set reviews. chain_id r = chain_id r' \<longrightarrow>
         family_of r = family_of r' \<and> (round_of r = round_of r' \<longrightarrow> r = r'))
    \<and> (\<forall>r \<in> set reviews. if round_of r = 1 then rv_previousRoundSha256 (vr_payload r) = None
         else \<exists>p \<in> set reviews. chain_id p = chain_id r \<and> round_of p = round_of r - 1
           \<and> rv_previousRoundSha256 (vr_payload r) = Some (vr_digest p))"
  by (rule review_chains_linked [OF ev_bundle_accepted])

section \<open>Revocation, authenticity and lifetimes\<close>

lemma verify_lease_Inr:
  assumes "verify_runner_admission_lease H v bundle = Inr l"
  obtains ks e gs ge where "active_keys v ''runner-management'' = Inr ks"
    "verify_json_envelope H (bd_leaseEnvelope bundle) RUNNER_ADMISSION_LEASE_PAYLOAD_TYPE ks [] True = Inr e"
    "key_of v (hd (ve_signing_key_ids e)) = Inr (vl_key l)" "vl_digest l = sj_runnerAdmissionLeaseSha256 (bd_subject bundle)"
    "lease_binding_ok (vl_payload l) (bd_subject bundle) (bd_grant bundle)"
    "parse_utc H (gr_notBefore (bd_grant bundle)) = Inr gs" "parse_utc H (gr_expiresAt (bd_grant bundle)) = Inr ge"
    "vl_issued_at l \<le> vf_now v + vf_max_skew v" "gs - vf_max_skew v \<le> vl_issued_at l" "ge \<le> vl_expires_at l"
    "distinct (map er_runnerId (ls_eligibleRunners (vl_payload l)))"
    "validate_key_time H v (vl_key l) (vl_issued_at l) True = Inr ()"
    "refuse_revoked H v ''runner-lease'' (ls_leaseId (vl_payload l)) ''EVIDENCE_REVOKED'' = Inr ()"
    "read_lease (JObj (ve_payload e)) = Inr (vl_payload l)" "digest H (bd_leaseEnvelope bundle) = Inr (vl_digest l)"
proof -
  from assms obtain ks e p ia ea gs ge k where x: "active_keys v ''runner-management'' = Inr ks"
    "verify_json_envelope H (bd_leaseEnvelope bundle) RUNNER_ADMISSION_LEASE_PAYLOAD_TYPE ks [] True = Inr e"
    "ve_envelope_digest e = sj_runnerAdmissionLeaseSha256 (bd_subject bundle)"
    "lease_binding_ok p (bd_subject bundle) (bd_grant bundle)"
    "parse_utc H (gr_notBefore (bd_grant bundle)) = Inr gs" "parse_utc H (gr_expiresAt (bd_grant bundle)) = Inr ge"
    "\<not> (ia > vf_now v + vf_max_skew v \<or> ea < vf_now v - vf_max_skew v
          \<or> ea \<le> ia \<or> ia < gs - vf_max_skew v \<or> ea < ge)"
    "\<not> (\<not> distinct (map er_runnerId (ls_eligibleRunners p))
          \<or> \<not> distinct (map er_runnerNameSha256 (ls_eligibleRunners p)))"
    "key_of v (hd (ve_signing_key_ids e)) = Inr k" "validate_key_time H v k ia True = Inr ()"
    "refuse_revoked H v ''runner-lease'' (ls_leaseId p) ''EVIDENCE_REVOKED'' = Inr ()" "read_lease (JObj (ve_payload e)) = Inr p"
    and l: "\<lparr>vl_digest = ve_envelope_digest e, vl_payload = p, vl_key = k, vl_issued_at = ia, vl_expires_at = ea\<rparr> = l"
    unfolding verify_runner_admission_lease_def opened reject_if_Inr not_not
    by (elim exE conjE) (rule that, assumption+)
  from x(7,8) have t: "ia \<le> vf_now v + vf_max_skew v" "gs - vf_max_skew v \<le> ia" "ge \<le> ea"
    "distinct (map er_runnerId (ls_eligibleRunners p))" by linarith+
  have d: "digest H (bd_leaseEnvelope bundle) = Inr (ve_envelope_digest e)" using x(2) by (rule envelope_digest)
  show ?thesis
    by (rule that [OF x(1,2) _ _ _ x(5,6)]) (simp_all only: l [symmetric] verified_lease.select_convs d x(3,4,9-12) t)
qed

lemma verify_subject_Inr:
  assumes "verify_subject_and_grant H v bundle sd = Inr ()"
  obtains nb ex where "parse_utc H (gr_notBefore (bd_grant bundle)) = Inr nb" "parse_utc H (gr_expiresAt (bd_grant bundle)) = Inr ex"
    "nb < ex" "ex - nb \<le> MAX_GRANT_TTL" "nb \<le> vf_now v + vf_max_skew v" "vf_now v - vf_max_skew v \<le> ex"
    "sj_intentRef (bd_subject bundle) = ''refs/tags/cross-ai-intent/'' @ gr_requestId (bd_grant bundle)"
    "digest H (session_body v (bd_subject bundle) (bd_grant bundle)) = Inr (sj_sessionSha256 (bd_subject bundle))"
    "map ws_stage (bd_workflowStages bundle) = STAGE_SEQUENCE" "map ws_order (bd_workflowStages bundle) = [1, 2, 3]"
    "\<forall>p. vf_expected_policy v = Some p \<longrightarrow> p = [] \<or> sj_policySha256 (bd_subject bundle) = p"
proof -
  from assms obtain nb ex where x: "parse_utc H (gr_notBefore (bd_grant bundle)) = Inr nb"
      "parse_utc H (gr_expiresAt (bd_grant bundle)) = Inr ex"
      "\<not> ex \<le> nb" "\<not> ex - nb > MAX_GRANT_TTL" "\<not> nb > vf_now v + vf_max_skew v" "\<not> ex < vf_now v - vf_max_skew v"
      "\<not> (case vf_expected_policy v of None \<Rightarrow> False | Some p \<Rightarrow> p \<noteq> [] \<and> sj_policySha256 (bd_subject bundle) \<noteq> p)"
      "sj_intentRef (bd_subject bundle) = ''refs/tags/cross-ai-intent/'' @ gr_requestId (bd_grant bundle)"
      "digest H (session_body v (bd_subject bundle) (bd_grant bundle)) = Inr (sj_sessionSha256 (bd_subject bundle))"
      "stages_ok (bd_workflowStages bundle) = Inr ()"
    unfolding verify_subject_and_grant_def opened reject_if_Inr not_not
    by (elim exE conjE) (rule that, (assumption | simp only:)+)
  from x(10) have "map ws_stage (bd_workflowStages bundle) = STAGE_SEQUENCE" "map ws_order (bd_workflowStages bundle) = [1, 2, 3]"
    unfolding stages_ok_def reject_if_Inr STAGE_SEQUENCE_def by simp_all
  with x show ?thesis by (intro that [OF x(1,2)]) (simp_all split: option.splits)
qed

text \<open>
  C20: nothing revoked is accepted. The bundle, its subject, its grant, the runner lease, every review
  and every key that signed one of them are absent from the revocation set, whatever their
  effective time.
\<close>

theorem accepted_bundle_not_revoked:
  assumes "verify_bundle H v envelope = Inr b"
  shows "not_revoked v ''bundle'' (vb_bundle_id b) \<and> not_revoked v ''subject'' (vb_subject_digest b)
    \<and> not_revoked v ''grant'' (vb_request_id b)
    \<and> not_revoked v ''runner-lease'' (ls_leaseId (vl_payload (vb_runner_admission_lease b)))
    \<and> not_revoked v ''key'' (tk_key_id (vl_key (vb_runner_admission_lease b)))
    \<and> not_revoked v ''key'' (vb_coordinator_key_id b)
    \<and> (\<exists>reviews. verify_reviews H v (vb_payload b) (vb_subject_digest b) = Inr reviews
        \<and> (\<forall>r \<in> set reviews. not_revoked v ''review'' (vr_digest r) \<and> not_revoked v ''key'' (tk_key_id (vr_key r))))"
proof -
  from assms obtain coordinator nb lease reviews where
      x: "validate_key_time H v coordinator nb True = Inr ()" "verify_runner_admission_lease H v (vb_payload b) = Inr lease"
      "verify_reviews H v (vb_payload b) (vb_subject_digest b) = Inr reviews"
      "refuse_revoked H v ''bundle'' (vb_bundle_id b) ''EVIDENCE_REVOKED'' = Inr ()"
      "refuse_revoked H v ''subject'' (vb_subject_digest b) ''EVIDENCE_REVOKED'' = Inr ()"
      "refuse_revoked H v ''grant'' (vb_request_id b) ''EVIDENCE_REVOKED'' = Inr ()"
      "vb_runner_admission_lease b = lease" "vb_coordinator_key_id b = tk_key_id coordinator"
    by (rule verify_bundle_Inr)
  from x(2) have l: "validate_key_time H v (vl_key lease) (vl_issued_at lease) True = Inr ()"
      "refuse_revoked H v ''runner-lease'' (ls_leaseId (vl_payload lease)) ''EVIDENCE_REVOKED'' = Inr ()"
    by - (erule verify_lease_Inr, assumption)+
  have "\<forall>r \<in> set reviews. not_revoked v ''review'' (vr_digest r) \<and> not_revoked v ''key'' (tk_key_id (vr_key r))"
    using verify_reviews_Inr(1) [OF x(3)] by (auto simp: review_good_def)
  moreover have "not_revoked v ''key'' (tk_key_id coordinator)" "not_revoked v ''key'' (tk_key_id (vl_key lease))"
    using x(1) l(1) by (simp_all only: validate_key_time_Inr)
  ultimately show ?thesis using x(3) x(4-6) l(2) unfolding refuse_revoked_Inr x(7,8) by blast
qed

theorem accepted_bundle_not_revoked_witness:
  "not_revoked ev_verifier ''bundle'' (vb_bundle_id ev_accepted) \<and> not_revoked ev_verifier ''subject'' (vb_subject_digest ev_accepted)
    \<and> not_revoked ev_verifier ''grant'' (vb_request_id ev_accepted)
    \<and> not_revoked ev_verifier ''runner-lease'' (ls_leaseId (vl_payload (vb_runner_admission_lease ev_accepted)))
    \<and> not_revoked ev_verifier ''key'' (tk_key_id (vl_key (vb_runner_admission_lease ev_accepted)))
    \<and> not_revoked ev_verifier ''key'' (vb_coordinator_key_id ev_accepted)
    \<and> (\<exists>reviews. verify_reviews ev_host ev_verifier (vb_payload ev_accepted) (vb_subject_digest ev_accepted) = Inr reviews
        \<and> (\<forall>r \<in> set reviews. not_revoked ev_verifier ''review'' (vr_digest r) \<and> not_revoked ev_verifier ''key'' (tk_key_id (vr_key r))))"
  by (rule accepted_bundle_not_revoked [OF ev_bundle_accepted])

text \<open>
  C21: the authorization is short lived and bound. An accepted grant lasts at most 120 minutes, is in
  force at the verification time up to the clock skew, its runner lease covers it to its end,
  names the same request and is the one the subject signs; the session digest, the intent ref
  and the three stages are the canonical ones of this request, and the pinned policy is the
  subject's.
\<close>

theorem accepted_grant_bounds:
  assumes "verify_bundle H v envelope = Inr b"
  shows "\<exists>nb. parse_utc H (gr_notBefore (bd_grant (vb_payload b))) = Inr nb
    \<and> nb < vb_expires_at b \<and> vb_expires_at b - nb \<le> minutes 120
    \<and> nb \<le> vf_now v + vf_max_skew v \<and> vf_now v - vf_max_skew v \<le> vb_expires_at b
    \<and> vb_expires_at b \<le> vl_expires_at (vb_runner_admission_lease b)
    \<and> vl_digest (vb_runner_admission_lease b) = sj_runnerAdmissionLeaseSha256 (bd_subject (vb_payload b))
    \<and> lease_binding_ok (vl_payload (vb_runner_admission_lease b)) (bd_subject (vb_payload b)) (bd_grant (vb_payload b))
    \<and> sj_intentRef (bd_subject (vb_payload b)) = ''refs/tags/cross-ai-intent/'' @ vb_request_id b
    \<and> digest H (session_body v (bd_subject (vb_payload b)) (bd_grant (vb_payload b))) = Inr (vb_session_digest b)
    \<and> map ws_stage (bd_workflowStages (vb_payload b)) = [''apply'', ''browser-evidence'', ''compensating-rollback'']
    \<and> map ws_order (bd_workflowStages (vb_payload b)) = [1, 2, 3]
    \<and> (\<forall>p. vf_expected_policy v = Some p \<longrightarrow> p = [] \<or> sj_policySha256 (bd_subject (vb_payload b)) = p)"
proof -
  from assms obtain lease where
      x: "verify_subject_and_grant H v (vb_payload b) (vb_subject_digest b) = Inr ()"
      "verify_runner_admission_lease H v (vb_payload b) = Inr lease"
      "parse_utc H (gr_expiresAt (bd_grant (vb_payload b))) = Inr (vb_expires_at b)"
      "vb_request_id b = gr_requestId (bd_grant (vb_payload b))"
      "vb_session_digest b = sj_sessionSha256 (bd_subject (vb_payload b))" "vb_runner_admission_lease b = lease"
    by (rule verify_bundle_Inr)
  from x(2) obtain ge where l: "vl_digest lease = sj_runnerAdmissionLeaseSha256 (bd_subject (vb_payload b))"
    "lease_binding_ok (vl_payload lease) (bd_subject (vb_payload b)) (bd_grant (vb_payload b))"
    "parse_utc H (gr_expiresAt (bd_grant (vb_payload b))) = Inr ge" "ge \<le> vl_expires_at lease"
    by (rule verify_lease_Inr)
  from x(1) obtain nb ex where g: "parse_utc H (gr_notBefore (bd_grant (vb_payload b))) = Inr nb"
    "parse_utc H (gr_expiresAt (bd_grant (vb_payload b))) = Inr ex"
    "nb < ex" "ex - nb \<le> MAX_GRANT_TTL" "nb \<le> vf_now v + vf_max_skew v" "vf_now v - vf_max_skew v \<le> ex"
    "sj_intentRef (bd_subject (vb_payload b)) = ''refs/tags/cross-ai-intent/'' @ gr_requestId (bd_grant (vb_payload b))"
    "digest H (session_body v (bd_subject (vb_payload b)) (bd_grant (vb_payload b))) = Inr (sj_sessionSha256 (bd_subject (vb_payload b)))"
    "map ws_stage (bd_workflowStages (vb_payload b)) = STAGE_SEQUENCE" "map ws_order (bd_workflowStages (vb_payload b)) = [1, 2, 3]"
    "\<forall>p. vf_expected_policy v = Some p \<longrightarrow> p = [] \<or> sj_policySha256 (bd_subject (vb_payload b)) = p"
    by (rule verify_subject_Inr)
  have "ex = vb_expires_at b" "ge = vb_expires_at b" using g(2) l(3) x(3) by simp_all
  with g l x(4-6) show ?thesis
    by (intro exI [of _ nb] conjI) (simp_all only: MAX_GRANT_TTL_def [symmetric] STAGE_SEQUENCE_def [symmetric])
qed

theorem accepted_grant_bounds_witness:
  "\<exists>nb. parse_utc ev_host (gr_notBefore (bd_grant (vb_payload ev_accepted))) = Inr nb
    \<and> nb < vb_expires_at ev_accepted \<and> vb_expires_at ev_accepted - nb \<le> minutes 120
    \<and> nb \<le> vf_now ev_verifier + vf_max_skew ev_verifier \<and> vf_now ev_verifier - vf_max_skew ev_verifier \<le> vb_expires_at ev_accepted
    \<and> vb_expires_at ev_accepted \<le> vl_expires_at (vb_runner_admission_lease ev_accepted)
    \<and> vl_digest (vb_runner_admission_lease ev_accepted) = sj_runnerAdmissionLeaseSha256 (bd_subject (vb_payload ev_accepted))
    \<and> lease_binding_ok (vl_payload (vb_runner_admission_lease ev_accepted)) (bd_subject (vb_payload ev_accepted)) (bd_grant (vb_payload ev_accepted))
    \<and> sj_intentRef (bd_subject (vb_payload ev_accepted)) = ''refs/tags/cross-ai-intent/'' @ vb_request_id ev_accepted
    \<and> digest ev_host (session_body ev_verifier (bd_subject (vb_payload ev_accepted)) (bd_grant (vb_payload ev_accepted))) = Inr (vb_session_digest ev_accepted)
    \<and> map ws_stage (bd_workflowStages (vb_payload ev_accepted)) = [''apply'', ''browser-evidence'', ''compensating-rollback'']
    \<and> map ws_order (bd_workflowStages (vb_payload ev_accepted)) = [1, 2, 3]
    \<and> (\<forall>p. vf_expected_policy ev_verifier = Some p \<longrightarrow> p = [] \<or> sj_policySha256 (bd_subject (vb_payload ev_accepted)) = p)"
  by (rule accepted_grant_bounds [OF ev_bundle_accepted])

section \<open>The trust root\<close>

text \<open>What the constructor establishes of the keys.\<close>

definition canonical_provider_key :: "contract_version \<Rightarrow> trust_key \<Rightarrow> bool" where
  "canonical_provider_key ver k = (\<exists>f direct. tk_provider_family k = Some f \<and> tk_direct_provider_cli k = Some direct
     \<and> tk_allowed_channels k \<noteq> [] \<and> tk_allowed_model_ids k \<noteq> [] \<and> tk_allowed_model_identity_classes k \<noteq> []
     \<and> map_of (REQUIRED_PROVIDER_ROUTES ver) f = Some (hd (tk_allowed_channels k), hd (tk_allowed_model_ids k),
         hd (tk_allowed_model_identity_classes k), direct))"

definition key_ok :: "contract_version \<Rightarrow> trust_key \<Rightarrow> bool" where
  "key_ok ver k = (tk_not_before k < tk_not_after k \<and> length (tk_public_key k) = 32
     \<and> (if tk_role k = ''provider-review'' then canonical_provider_key ver k
        else tk_provider_family k = None \<and> tk_direct_provider_cli k = None))"

definition trust_ok :: "verifier \<Rightarrow> bool" where
  "trust_ok v = (keys_distinct tk_key_id (vf_keys v) \<and> keys_distinct tk_public_key (vf_keys v)
     \<and> (\<forall>k \<in> set (vf_keys v). key_ok (vf_version v) k)
     \<and> {''provider-review'', ''coordinator'', ''revocation'', ''runner-management''} \<subseteq> tk_role ` set (vf_keys v)
     \<and> provider_families (vf_keys v) = Some ` set (vf_required_families v))"

lemma attribution_ok_Inr:
  assumes "attribution_ok ver e = Inr ()" and "tk_role k = te_role e" "tk_provider_family k = te_providerFamily e"
    "tk_allowed_channels k = te_allowedChannels e" "tk_allowed_model_ids k = te_allowedModelIds e"
    "tk_allowed_model_identity_classes k = te_allowedModelIdentityClasses e"
    "tk_direct_provider_cli k = te_directProviderCli e"
  shows "if tk_role k = ''provider-review'' then canonical_provider_key ver k
        else tk_provider_family k = None \<and> tk_direct_provider_cli k = None"
proof (cases "te_role e = ''provider-review''")
  case True
  with assms(1) show ?thesis unfolding canonical_provider_key_def assms(2-)
    by (auto simp: attribution_ok_def split: option.splits list.splits if_splits)
next
  case False
  with assms(1) show ?thesis unfolding assms(2-)
    by (auto simp: attribution_ok_def split: if_splits)
qed

lemma parse_trust_key_Inr:
  assumes "parse_trust_key H ver e parsed = Inr parsed'"
  obtains k where "parsed' = parsed @ [k]" "key_ok ver k" "tk_key_id k \<notin> tk_key_id ` set parsed"
    "tk_public_key k \<notin> tk_public_key ` set parsed"
proof -
  from assms obtain pk nb na where x: "te_keyId e \<notin> tk_key_id ` set parsed" "decode_public_key H (te_publicKeyBase64 e) = Inr pk"
      "pk \<notin> tk_public_key ` set parsed" "attribution_ok ver e = Inr ()" "\<not> na \<le> nb"
      and p: "parsed' = parsed @ [\<lparr>tk_key_id = te_keyId e, tk_role = te_role e, tk_public_key = pk,
            tk_provider_family = te_providerFamily e, tk_allowed_channels = te_allowedChannels e,
            tk_allowed_model_ids = te_allowedModelIds e,
            tk_allowed_model_identity_classes = te_allowedModelIdentityClasses e,
            tk_direct_provider_cli = te_directProviderCli e, tk_not_before = nb, tk_not_after = na\<rparr>]"
    by (auto simp: parse_trust_key_def bindE_Inr_iff split: if_splits)
  from x(2) have "length pk = 32" by (auto simp: decode_public_key_def bindE_Inr_iff split: if_splits)
  define k where "k = last parsed'"
  have k: "tk_role k = te_role e" "tk_provider_family k = te_providerFamily e" "tk_allowed_channels k = te_allowedChannels e"
    "tk_allowed_model_ids k = te_allowedModelIds e"
    "tk_allowed_model_identity_classes k = te_allowedModelIdentityClasses e"
    "tk_direct_provider_cli k = te_directProviderCli e" "tk_key_id k = te_keyId e" "tk_public_key k = pk"
    "tk_not_before k = nb" "tk_not_after k = na" "parsed' = parsed @ [k]"
    by (simp_all add: k_def p)
  have "key_ok ver k"
    unfolding key_ok_def by (intro conjI attribution_ok_Inr [OF x(4) k(1-6)]) (use x(5) k \<open>length pk = 32\<close> in auto)
  with x(1,3) k show ?thesis by (intro that [of k]) simp_all
qed

lemma parse_trust_keys_Inr:
  assumes "parse_trust_keys H ver required entries = Inr keys"
  shows "keys_distinct tk_key_id keys" "keys_distinct tk_public_key keys" "\<forall>k \<in> set keys. key_ok ver k"
    "{''provider-review'', ''coordinator'', ''revocation'', ''runner-management''} \<subseteq> tk_role ` set keys"
    "provider_families keys = Some ` set required"
proof -
  from assms have f: "foldE (parse_trust_key H ver) entries [] = Inr keys"
      and r: "{''provider-review'', ''coordinator'', ''revocation'', ''runner-management''} \<subseteq> tk_role ` set keys"
      "provider_families keys = Some ` set required"
    unfolding parse_trust_keys_def opened reject_if_Inr not_not by auto
  have "keys_distinct tk_key_id keys \<and> keys_distinct tk_public_key keys \<and> (\<forall>k \<in> set keys. key_ok ver k)"
  proof (rule foldE_invariant [OF f])
    fix e ks ks'
    assume i: "keys_distinct tk_key_id ks \<and> keys_distinct tk_public_key ks \<and> (\<forall>k \<in> set ks. key_ok ver k)"
      "parse_trust_key H ver e ks = Inr ks'"
    from parse_trust_key_Inr [OF i(2)] obtain k where "ks' = ks @ [k]" "key_ok ver k" "tk_key_id k \<notin> tk_key_id ` set ks"
      "tk_public_key k \<notin> tk_public_key ` set ks" .
    with i(1) show "keys_distinct tk_key_id ks' \<and> keys_distinct tk_public_key ks' \<and> (\<forall>k \<in> set ks'. key_ok ver k)"
      by (simp add: keys_distinct_snoc lookup_by_None_iff)
  qed simp
  with r show "keys_distinct tk_key_id keys" "keys_distinct tk_public_key keys" "\<forall>k \<in> set keys. key_ok ver k"
    "{''provider-review'', ''coordinator'', ''revocation'', ''runner-management''} \<subseteq> tk_role ` set keys"
    "provider_families keys = Some ` set required" by blast+
qed

lemma new_verifier_Inr:
  assumes "new_verifier H tr renv observed pol expected mode reference = Inr v"
  obtains payload w entries where "reference_ok mode reference observed = Inr ()"
    "select_contract (jget tr ''schemaVersion'') = Inr (vf_version v)"
    "mode = Forensic \<Longrightarrow> vf_version v = V1 \<and> vf_now v < MINIMAX_NEW_REVIEW_CUTOFF"
    "root_digest_ok H tr expected = Inr ()" "read_trust_root (JObj tr) = Inr payload"
    "trust_root_ok H mode observed (vf_version v) payload = Inr ()"
    "parse_trust_keys H (vf_version v) (vf_required_families v) (tr_keys payload) = Inr (vf_keys v)"
    "validate_trust_root_lifetime H (vf_now v) (vf_max_skew v) payload = Inr ()"
    "verify_revocations H w renv = Inr entries" "v = w\<lparr>vf_revocations := entries\<rparr>"
    "vf_required_families v = tr_requiredProviderFamilies payload" "vf_mode v = mode" "vf_observed_at v = observed"
    "vf_now v = (case reference of None \<Rightarrow> observed | Some t \<Rightarrow> t)" "vf_expected_policy v = pol"
proof -
  let ?now = "case reference of None \<Rightarrow> observed | Some t \<Rightarrow> t"
  from assms obtain ver payload mf md keys entries where x: "reference_ok mode reference observed = Inr ()"
      "select_contract (jget tr ''schemaVersion'') = Inr ver" "\<not> (mode = Forensic \<and> ver \<noteq> V1)"
      "\<not> (mode = Forensic \<and> ?now \<ge> MINIMAX_NEW_REVIEW_CUTOFF)"
      "root_digest_ok H tr expected = Inr ()" "read_trust_root (JObj tr) = Inr payload"
      "trust_root_ok H mode observed ver payload = Inr ()"
      "parse_trust_keys H ver (tr_requiredProviderFamilies payload) (tr_keys payload) = Inr keys"
      "validate_trust_root_lifetime H ?now (seconds (tr_maxClockSkewSeconds payload)) payload = Inr ()"
      "verify_revocations H \<lparr>vf_mode = mode, vf_observed_at = observed, vf_now = ?now, vf_expected_policy = pol,
              vf_version = ver, vf_max_skew = seconds (tr_maxClockSkewSeconds payload),
              vf_required_families = tr_requiredProviderFamilies payload, vf_minimum_families = mf,
              vf_minimum_direct_routes = md, vf_keys = keys, vf_revocations = []\<rparr> renv = Inr entries"
      and v: "\<lparr>vf_mode = mode, vf_observed_at = observed, vf_now = ?now, vf_expected_policy = pol,
              vf_version = ver, vf_max_skew = seconds (tr_maxClockSkewSeconds payload),
              vf_required_families = tr_requiredProviderFamilies payload, vf_minimum_families = mf,
              vf_minimum_direct_routes = md, vf_keys = keys, vf_revocations = []\<rparr>\<lparr>vf_revocations := entries\<rparr> = v"
    unfolding new_verifier_def opened reject_if_Inr
    by (elim exE conjE) (rule that, assumption+)
  have s: "vf_version v = ver" "vf_keys v = keys" "vf_now v = ?now" "vf_max_skew v = seconds (tr_maxClockSkewSeconds payload)"
    "vf_required_families v = tr_requiredProviderFamilies payload" "vf_mode v = mode" "vf_observed_at v = observed"
    "vf_expected_policy v = pol"
    by (simp_all only: v [symmetric] verifier.simps)
  from x(3,4) have forensic: "mode = Forensic \<Longrightarrow> ver = V1 \<and> ?now < MINIMAX_NEW_REVIEW_CUTOFF" by linarith
  show ?thesis
    by (rule that [OF x(1) _ _ x(5,6) _ _ _ x(10) v [symmetric]]; (unfold s)?)
      (fact x(2) x(7) x(8) x(9) refl | erule forensic)+
qed

lemma trust_ok_new:
  assumes "new_verifier H tr renv observed pol expected mode reference = Inr v"
  shows "trust_ok v"
  using assms
proof (rule new_verifier_Inr)
  fix payload w entries
  assume "parse_trust_keys H (vf_version v) (vf_required_families v) (tr_keys payload) = Inr (vf_keys v)"
  from parse_trust_keys_Inr [OF this] show ?thesis unfolding trust_ok_def by blast
qed

text \<open>
  C22: a verifier is built only on a sound trust root. When construction succeeds, key identifiers and
  public keys are unique, every provider key carries the canonical route of its family for the
  contract version and no other key carries provider attribution, all four roles are present,
  and the provider families are exactly the required ones; a pinned digest is the digest of
  the trust root; forensic verification only replays the retired contract before its cutoff;
  and active verification with a \<^verbatim>\<open>minimax\<close> trust root happens before the cutoff.
\<close>

theorem trust_root_sound:
  assumes "new_verifier H tr renv observed pol expected mode reference = Inr v"
  shows "trust_ok v \<and> (\<forall>d. expected = Some d \<longrightarrow> digest H (JObj tr) = Inr d)
    \<and> (mode = Forensic \<longrightarrow> vf_version v = V1 \<and> vf_now v < MINIMAX_NEW_REVIEW_CUTOFF
         \<and> reference = Some (vf_now v) \<and> vf_now v \<le> observed)
    \<and> (mode = Active \<longrightarrow> vf_now v = observed)
    \<and> (vf_version v = V1 \<and> ''minimax'' \<in> set (vf_required_families v) \<and> mode = Active
         \<longrightarrow> observed < MINIMAX_NEW_REVIEW_CUTOFF)"
  using assms
proof (rule new_verifier_Inr)
  fix payload w entries
  assume x: "reference_ok mode reference observed = Inr ()"
    "mode = Forensic \<Longrightarrow> vf_version v = V1 \<and> vf_now v < MINIMAX_NEW_REVIEW_CUTOFF"
    "root_digest_ok H tr expected = Inr ()" "trust_root_ok H mode observed (vf_version v) payload = Inr ()"
    "vf_required_families v = tr_requiredProviderFamilies payload"
    "vf_now v = (case reference of None \<Rightarrow> observed | Some t \<Rightarrow> t)"
  have d: "digest H (JObj tr) = Inr d" if "expected = Some d" for d
    using x(3) that by (auto simp: root_digest_ok_def bindE_Inr_iff split: if_splits)
  have r: "\<not> (mode = Active \<and> reference \<noteq> None)" "\<not> (mode = Forensic \<and> reference = None)"
      "\<not> (case reference of None \<Rightarrow> False | Some t \<Rightarrow> t > observed)"
    using x(1) unfolding reference_ok_def reject_if_Inr by simp_all
  have f: "reference = Some (vf_now v) \<and> vf_now v \<le> observed" if "mode = Forensic"
    using r that x(6) by (cases reference) auto
  have a: "vf_now v = observed" if "mode = Active" using r(1) that x(6) by (cases reference) auto
  have m: "observed < MINIMAX_NEW_REVIEW_CUTOFF"
    if "vf_version v = V1 \<and> ''minimax'' \<in> set (vf_required_families v) \<and> mode = Active"
    using x(4) that unfolding trust_root_ok_def Let_def bindE_Inr_iff reject_if_Inr x(5) by linarith
  show ?thesis using trust_ok_new [OF assms] d x(2) f a m by blast
qed

theorem trust_root_sound_witness:
  "trust_ok ev_verifier \<and> digest ev_host (JObj ev_trust_root) = Inr ''sha256:1433'' \<and> vf_now ev_verifier = minutes 10"
  using trust_root_sound [OF ev_verifier_new [unfolded ev_new_def]] by blast

lemma foldE_pairs:
  assumes "foldE f xs acc = Inr out" "\<And>x a a'. f x a = Inr a' \<Longrightarrow> \<exists>r. a' = a @ [r] \<and> P x r"
  shows "\<exists>rs. out = acc @ rs \<and> list_all2 P xs rs"
  using assms(1)
proof (induction xs arbitrary: acc)
  case (Cons x xs)
  then obtain a' where a: "f x acc = Inr a'" "foldE f xs a' = Inr out" by (auto simp: bindE_Inr_iff)
  from assms(2) [OF a(1)] Cons.IH [OF a(2)] show ?case by (auto intro: exI [of _ "_ # _"])
qed simp

lemma review_signed:
  assumes "active_keys v ''provider-review'' = Inr ks" "verify_review H v ks subject_digest envelope acc = Inr acc'"
    and "keys_distinct tk_key_id (vf_keys v)"
  shows "\<exists>r. acc' = acc @ [r] \<and> (\<exists>payload. signed_by H v ''provider-review'' (payload_type ''review'' (vf_version v)) envelope payload (vr_key r)
    \<and> read_review (JObj payload) = Inr (vr_payload r) \<and> digest H envelope = Inr (vr_digest r)
    \<and> family_of r = Some (rv_providerFamily (vr_payload r)))"
proof -
  from assms(2) obtain e leaf key issued_at expires_at where
    x: "verify_json_envelope H envelope (payload_type ''review'' (vf_version v)) ks [] True = Inr e"
      "read_review (JObj (ve_payload e)) = Inr leaf" "key_of v (hd (ve_signing_key_ids e)) = Inr key" "attributed leaf key"
    and acc': "acc' = acc @ [\<lparr>vr_digest = ve_envelope_digest e, vr_payload = leaf, vr_key = key,
         vr_issued_at = issued_at, vr_expires_at = expires_at\<rparr>]"
    unfolding verify_review_def opened reject_if_Inr not_not
    by (elim exE conjE) (rule that, (assumption | erule sym)+)
  from single_signer [OF assms(1) x(1,3) assms(3)] envelope_digest [OF x(1)] x(2,4) show ?thesis
    unfolding acc' by (auto simp: attributed_def)
qed

text \<open>
  C23: accepted evidence is authentic. With a verifier built from a trust root, the envelope of an accepted bundle
  carries one signature by an active coordinator key, over the bytes from which the accepted payload was read. The
  lease envelope in it is signed in the same way by an active runner-management key, for the lease that was
  accepted, and has the digest that the subject names. The accepted reviews are, in order, those of
  the review envelopes, each signed in the same way by an active provider key whose family is
  the one the review claims and whose route is the canonical one.
\<close>

theorem accepted_evidence_authentic:
  assumes "new_verifier H tr renv observed pol expected mode reference = Inr v"
    and "verify_bundle H v envelope = Inr b"
  shows "(\<exists>payload k. signed_by H v ''coordinator'' (payload_type ''bundle'' (vf_version v)) envelope payload k
        \<and> tk_key_id k = vb_coordinator_key_id b \<and> read_bundle (JObj payload) = Inr (vb_payload b)
        \<and> digest H envelope = Inr (vb_bundle_digest b))
    \<and> (\<exists>payload. signed_by H v ''runner-management'' RUNNER_ADMISSION_LEASE_PAYLOAD_TYPE (bd_leaseEnvelope (vb_payload b)) payload
          (vl_key (vb_runner_admission_lease b))
        \<and> read_lease (JObj payload) = Inr (vl_payload (vb_runner_admission_lease b))
        \<and> digest H (bd_leaseEnvelope (vb_payload b)) = Inr (sj_runnerAdmissionLeaseSha256 (bd_subject (vb_payload b))))
    \<and> (\<exists>reviews. verify_reviews H v (vb_payload b) (vb_subject_digest b) = Inr reviews
        \<and> list_all2 (\<lambda>en r. \<exists>payload.
            signed_by H v ''provider-review'' (payload_type ''review'' (vf_version v)) en payload (vr_key r)
            \<and> read_review (JObj payload) = Inr (vr_payload r) \<and> digest H en = Inr (vr_digest r)
            \<and> family_of r = Some (rv_providerFamily (vr_payload r))
            \<and> canonical_provider_key (vf_version v) (vr_key r)) (bd_reviewEnvelopes (vb_payload b)) reviews)"
proof -
  from trust_ok_new [OF assms(1)] have dist: "keys_distinct tk_key_id (vf_keys v)" and ok: "\<forall>k \<in> set (vf_keys v). key_ok (vf_version v) k"
    by (simp_all add: trust_ok_def)
  from assms(2) obtain cks outer coordinator lease reviews where
      x: "active_keys v ''coordinator'' = Inr cks"
      "verify_json_envelope H envelope (payload_type ''bundle'' (vf_version v)) cks [] True = Inr outer"
      "read_bundle (JObj (ve_payload outer)) = Inr (vb_payload b)" "key_of v (hd (ve_signing_key_ids outer)) = Inr coordinator"
      "verify_runner_admission_lease H v (vb_payload b) = Inr lease"
      "verify_reviews H v (vb_payload b) (vb_subject_digest b) = Inr reviews"
      "vb_runner_admission_lease b = lease" "vb_coordinator_key_id b = tk_key_id coordinator"
      "vb_bundle_digest b = ve_envelope_digest outer"
    by (rule verify_bundle_Inr)
  from x(5) obtain lks le where l: "active_keys v ''runner-management'' = Inr lks"
      "verify_json_envelope H (bd_leaseEnvelope (vb_payload b)) RUNNER_ADMISSION_LEASE_PAYLOAD_TYPE lks [] True = Inr le"
      "key_of v (hd (ve_signing_key_ids le)) = Inr (vl_key lease)"
      "read_lease (JObj (ve_payload le)) = Inr (vl_payload lease)"
      "digest H (bd_leaseEnvelope (vb_payload b)) = Inr (vl_digest lease)"
      "vl_digest lease = sj_runnerAdmissionLeaseSha256 (bd_subject (vb_payload b))"
    by (rule verify_lease_Inr)
  from x(6) obtain ks where ks: "active_keys v ''provider-review'' = Inr ks"
      "foldE (verify_review H v ks (vb_subject_digest b)) (bd_reviewEnvelopes (vb_payload b)) [] = Inr reviews"
    unfolding verify_reviews_def opened by blast
  have route: "canonical_provider_key (vf_version v) k" if "signed_by H v ''provider-review'' ty en payload k" for k ty en payload
    using that ok by (auto simp: signed_by_def key_active_def key_ok_def)
  have rev: "list_all2 (\<lambda>en r. \<exists>payload. signed_by H v ''provider-review'' (payload_type ''review'' (vf_version v)) en payload (vr_key r)
      \<and> read_review (JObj payload) = Inr (vr_payload r) \<and> digest H en = Inr (vr_digest r)
      \<and> family_of r = Some (rv_providerFamily (vr_payload r)) \<and> canonical_provider_key (vf_version v) (vr_key r))
      (bd_reviewEnvelopes (vb_payload b)) reviews" (is "list_all2 ?P _ _")
  proof -
    have "\<exists>r. a' = a @ [r] \<and> ?P en r" if "verify_review H v ks (vb_subject_digest b) en a = Inr a'" for en a a'
      using review_signed [OF ks(1) that dist] route by blast
    from foldE_pairs [where P = ?P, OF ks(2) this] show ?thesis by simp
  qed
  have "digest H envelope = Inr (vb_bundle_digest b)" unfolding x(9) by (rule envelope_digest [OF x(2)])
  with single_signer [OF x(1,2,4) dist] x(3,8)
  have outer: "\<exists>payload k. signed_by H v ''coordinator'' (payload_type ''bundle'' (vf_version v)) envelope payload k
    \<and> tk_key_id k = vb_coordinator_key_id b \<and> read_bundle (JObj payload) = Inr (vb_payload b) \<and> digest H envelope = Inr (vb_bundle_digest b)"
    by auto
  show ?thesis by (intro conjI outer exI [of _ reviews] rev x(6)) (use single_signer [OF l(1-3) dist] l(4-6) x(7) in auto)
qed

theorem accepted_evidence_authentic_witness:
  "(\<exists>payload k. signed_by ev_host ev_verifier ''coordinator'' (payload_type ''bundle'' (vf_version ev_verifier)) ev_bundle_envelope payload k
        \<and> tk_key_id k = vb_coordinator_key_id ev_accepted \<and> read_bundle (JObj payload) = Inr (vb_payload ev_accepted)
        \<and> digest ev_host ev_bundle_envelope = Inr (vb_bundle_digest ev_accepted))
    \<and> (\<exists>payload. signed_by ev_host ev_verifier ''runner-management'' RUNNER_ADMISSION_LEASE_PAYLOAD_TYPE (bd_leaseEnvelope (vb_payload ev_accepted)) payload
          (vl_key (vb_runner_admission_lease ev_accepted))
        \<and> read_lease (JObj payload) = Inr (vl_payload (vb_runner_admission_lease ev_accepted))
        \<and> digest ev_host (bd_leaseEnvelope (vb_payload ev_accepted)) = Inr (sj_runnerAdmissionLeaseSha256 (bd_subject (vb_payload ev_accepted))))
    \<and> (\<exists>reviews. verify_reviews ev_host ev_verifier (vb_payload ev_accepted) (vb_subject_digest ev_accepted) = Inr reviews
        \<and> list_all2 (\<lambda>en r. \<exists>payload.
            signed_by ev_host ev_verifier ''provider-review'' (payload_type ''review'' (vf_version ev_verifier)) en payload (vr_key r)
            \<and> read_review (JObj payload) = Inr (vr_payload r) \<and> digest ev_host en = Inr (vr_digest r)
            \<and> family_of r = Some (rv_providerFamily (vr_payload r))
            \<and> canonical_provider_key (vf_version ev_verifier) (vr_key r)) (bd_reviewEnvelopes (vb_payload ev_accepted)) reviews)"
  by (rule accepted_evidence_authentic [OF ev_verifier_new [unfolded ev_new_def] ev_bundle_accepted])

section \<open>Without an expected policy\<close>

text \<open>Only one check reads the expected policy, and without one it asks nothing.\<close>

abbreviation any_policy :: "verifier \<Rightarrow> verifier" where
  "any_policy v \<equiv> v\<lparr>vf_expected_policy := None\<rparr>"

lemma any_policy_keys [simp]:
  "active_keys (any_policy v) role = active_keys v role" "key_of (any_policy v) key_id = key_of v key_id"
  "refuse_revoked H (any_policy v) kind i code = refuse_revoked H v kind i code"
  "validate_key_time H (any_policy v) key issued_at b = validate_key_time H v key issued_at b"
  "verify_revocations H (any_policy v) revocations = verify_revocations H v revocations"
  unfolding active_keys_def key_active_def key_of_def refuse_revoked_def validate_key_time_def verify_revocations_def by simp_all

lemma any_policy_parts [simp]:
  "verify_runner_admission_lease H (any_policy v) bundle = verify_runner_admission_lease H v bundle"
  "verify_closure H (any_policy v) bundle reviews d = verify_closure H v bundle reviews d"
  "verify_consensus H (any_policy v) bundle reviews d r = verify_consensus H v bundle reviews d r"
  unfolding verify_runner_admission_lease_def verify_closure_def closure_body_def verify_consensus_def by simp_all

lemma any_policy_review: "verify_review H (any_policy v) = verify_review H v"
  unfolding verify_review_def review_time_ok_def fun_eq_iff by simp

lemma any_policy_reviews [simp]: "verify_reviews H (any_policy v) bundle d = verify_reviews H v bundle d"
  unfolding verify_reviews_def any_policy_review by simp

lemma any_policy_subject:
  "verify_subject_and_grant H v bundle d = Inr () \<Longrightarrow> verify_subject_and_grant H (any_policy v) bundle d = Inr ()"
  unfolding verify_subject_and_grant_def Let_def bindE_Inr_iff session_body_def by (auto simp: reject_if_Inr)

lemma any_policy_version [simp]: "vf_version (any_policy v) = vf_version v"
  by simp

lemma verify_bundle_any_policy: "verify_bundle H v envelope = Inr b \<Longrightarrow> verify_bundle H (any_policy v) envelope = Inr b"
  unfolding verify_bundle_def opened any_policy_keys any_policy_parts any_policy_reviews any_policy_version
  by (elim exE conjE, intro exI conjI) (assumption | erule any_policy_subject)+

lemma any_policy_revocations:
  "verify_revocations H \<lparr>vf_mode = m, vf_observed_at = o1, vf_now = n, vf_expected_policy = p, vf_version = ver, vf_max_skew = k,
      vf_required_families = fs, vf_minimum_families = mf, vf_minimum_direct_routes = md, vf_keys = ks, vf_revocations = rs\<rparr> e = Inr es
   \<Longrightarrow> verify_revocations H \<lparr>vf_mode = m, vf_observed_at = o1, vf_now = n, vf_expected_policy = None, vf_version = ver, vf_max_skew = k,
      vf_required_families = fs, vf_minimum_families = mf, vf_minimum_direct_routes = md, vf_keys = ks, vf_revocations = rs\<rparr> e = Inr es"
  using any_policy_keys(5) [of H "\<lparr>vf_mode = m, vf_observed_at = o1, vf_now = n, vf_expected_policy = p, vf_version = ver, vf_max_skew = k,
      vf_required_families = fs, vf_minimum_families = mf, vf_minimum_direct_routes = md, vf_keys = ks, vf_revocations = rs\<rparr>" e]
  by simp

lemma new_verifier_any_policy:
  "new_verifier H trust_root revocations now p r mode reference = Inr v
    \<Longrightarrow> new_verifier H trust_root revocations now None r mode reference = Inr (any_policy v)"
  unfolding new_verifier_def opened
  by (elim exE conjE, intro exI conjI) (assumption | erule any_policy_revocations | (hypsubst, simp))+

end
