(* ===== verification/WebhookParse.thy ===== *)
theory WebhookParse
  imports Webhook
begin

text \<open>
  The intake of \<^verbatim>\<open>webhook.py\<close>: secrets, the HMAC over the raw body, the callback URL and the
  parsing of a deployment-protection payload, from a webhook or from the App's delivery API.
  The regular expressions are predicates on the UTF-8 text.
\<close>

section \<open>The runtime of the intake\<close>

text \<open>
  \<open>w_hmac\<close> is \<^verbatim>\<open>hmac.new(secret, body, sha256).hexdigest()\<close>. \<open>w_json_events\<close> is what
  \<^verbatim>\<open>json.loads\<close> hands to its hooks before it returns or fails, in that order: the keys of every
  object it completes (\<^verbatim>\<open>object_pairs_hook\<close>) and every float or constant it reads
  (\<^verbatim>\<open>parse_float\<close>, \<^verbatim>\<open>parse_constant\<close>). \<open>w_netloc_ok\<close> tells whether the checks of
  \<^verbatim>\<open>urlsplit\<close> on a bracketed or non-ASCII authority pass.
\<close>

datatype json_event = ObjectRead "string list" | FloatRead

record web_host =
  w_hmac :: "string \<Rightarrow> string \<Rightarrow> string"
  w_json_events :: "string \<Rightarrow> json_event list"
  w_netloc_ok :: "string \<Rightarrow> bool"

definition w_json_keys :: "web_host \<Rightarrow> string \<Rightarrow> string list list" where
  "w_json_keys W raw = List.map_filter (\<lambda>e. case e of ObjectRead keys \<Rightarrow> Some keys | FloatRead \<Rightarrow> None) (w_json_events W raw)"

section \<open>Text helpers\<close>

definition ascii_lower :: "char \<Rightarrow> char" where
  "ascii_lower c = (let n = (of_char c :: nat) in if 65 \<le> n \<and> n \<le> 90 then char_of (n + 32) else c)"

definition lower :: "string \<Rightarrow> string" where
  "lower s = map ascii_lower s"

fun split_on :: "char \<Rightarrow> string \<Rightarrow> string list" where
  "split_on c [] = [[]]"
| "split_on c (d # s) = (if d = c then [] # split_on c s
     else (case split_on c s of [] \<Rightarrow> [[d]] | w # ws \<Rightarrow> (d # w) # ws))"

text \<open>\<^verbatim>\<open>str.strip\<close> and \<^verbatim>\<open>bytes.strip\<close>, over the encodings of the white space characters.\<close>

function lstrip :: "string list \<Rightarrow> string \<Rightarrow> string" where
  "lstrip spaces s = (case List.find (\<lambda>w. w \<noteq> [] \<and> s \<noteq> [] \<and> startswith s w) spaces of
     None \<Rightarrow> s | Some w \<Rightarrow> lstrip spaces (drop (length w) s))"
  by pat_completeness auto
termination
  by (relation "measure (length \<circ> snd)") (auto simp: find_Some_iff)

declare lstrip.simps [simp del]

definition strip :: "string list \<Rightarrow> string \<Rightarrow> string" where
  "strip spaces s = rev (lstrip (map rev spaces) (rev (lstrip spaces s)))"

definition bytes_spaces :: "string list" where
  "bytes_spaces = [[CHR 0x20], [CHR 0x09], [CHR 0x0A], [CHR 0x0D], [CHR 0x0B], [CHR 0x0C]]"

definition str_spaces :: "string list" where
  "str_spaces = bytes_spaces @ [[CHR 0x1C], [CHR 0x1D], [CHR 0x1E], [CHR 0x1F],
     [CHR 0xC2, CHR 0x85], [CHR 0xC2, CHR 0xA0], [CHR 0xE1, CHR 0x9A, CHR 0x80]]
     @ map (\<lambda>n. [CHR 0xE2, CHR 0x80, char_of n]) [128..<139 :: nat]
     @ [[CHR 0xE2, CHR 0x80, CHR 0xA8], [CHR 0xE2, CHR 0x80, CHR 0xA9], [CHR 0xE2, CHR 0x80, CHR 0xAF],
        [CHR 0xE2, CHR 0x81, CHR 0x9F], [CHR 0xE3, CHR 0x80, CHR 0x80]]"

section \<open>Patterns\<close>

definition MAX_WEBHOOK_BYTES :: nat where
  "MAX_WEBHOOK_BYTES = 1024 * 1024"

definition WEBHOOK_HEADER_NAMES :: "string list" where
  "WEBHOOK_HEADER_NAMES = [''content-type'', ''x-github-event'', ''x-github-delivery'', ''x-hub-signature-256'']"

definition SIGNATURE :: "string \<Rightarrow> string option" where
  "SIGNATURE s = (let hex = drop 7 s in
     if startswith s ''sha256='' \<and> length hex = 64 \<and> all_lower_hex hex then Some hex else None)"

definition uuid_classes :: "string list" where
  "uuid_classes = replicate 8 hex_digits @ [''-''] @ replicate 4 hex_digits @ [''-'']
     @ [''12345678''] @ replicate 3 hex_digits @ [''-''] @ [''89ab''] @ replicate 3 hex_digits @ [''-'']
     @ replicate 12 hex_digits"

definition DELIVERY_ID :: "string \<Rightarrow> bool" where
  "DELIVERY_ID s = list_all2 (\<lambda>c cls. ascii_lower c \<in> set cls) s uuid_classes"

definition name_char :: "char \<Rightarrow> bool" where
  "name_char c = (let n = (of_char c :: nat) in
     65 \<le> n \<and> n \<le> 90 \<or> 97 \<le> n \<and> n \<le> 122 \<or> 48 \<le> n \<and> n \<le> 57 \<or> c \<in> {CHR ''_'', CHR ''.'', CHR ''-''})"

definition REPOSITORY :: "string \<Rightarrow> bool" where
  "REPOSITORY s = (case split_on (CHR ''/'') s of
     [owner, name] \<Rightarrow> owner \<noteq> [] \<and> list_all name_char owner \<and> name \<noteq> [] \<and> list_all name_char name
   | _ \<Rightarrow> False)"

definition HEAD_SHA :: "string \<Rightarrow> bool" where
  "HEAD_SHA s = (length s = 40 \<and> all_lower_hex s)"

text \<open>
  A literal under \<^verbatim>\<open>re.IGNORECASE\<close>: beside the two cases of a letter, the long s matches
  \<^verbatim>\<open>s\<close>, and the capital I with dot and the dotless i match \<^verbatim>\<open>i\<close>. The value is the unmatched rest.
\<close>

definition case_variant :: "char \<Rightarrow> string \<Rightarrow> bool" where
  "case_variant c s = (c = CHR ''s'' \<and> startswith s [CHR 0xC5, CHR 0xBF]
     \<or> c = CHR ''i'' \<and> (startswith s [CHR 0xC4, CHR 0xB0] \<or> startswith s [CHR 0xC4, CHR 0xB1]))"

fun match_ignorecase :: "string \<Rightarrow> string \<Rightarrow> string option" where
  "match_ignorecase [] s = Some s"
| "match_ignorecase (c # p) s =
     (if s \<noteq> [] \<and> ascii_lower (hd s) = c then match_ignorecase p (tl s)
      else if case_variant c s then match_ignorecase p (drop 2 s)
      else None)"

definition INTENT_REF :: "string \<Rightarrow> string option" where
  "INTENT_REF s = (case match_ignorecase ''refs/tags/cross-ai-intent/'' s of
     Some uuid \<Rightarrow> if DELIVERY_ID uuid then Some uuid else None
   | None \<Rightarrow> None)"

section \<open>Secrets and signature\<close>

text \<open>A secret file is its content, or \<open>None\<close> when it cannot be read.\<close>

definition load_secret :: "string option \<Rightarrow> string list \<Rightarrow> string list result" where
  "load_secret content secrets = (case content of
     None \<Rightarrow> reject ''WEBHOOK_SECRET_UNAVAILABLE''
   | Some text1 \<Rightarrow>
       let raw = strip bytes_spaces text1 in
       bindE (reject_if
         [(length raw < 32 \<or> length raw > 512 \<or> CHR 0x00 \<in> set raw, ''WEBHOOK_SECRET_INVALID''),
          (raw \<in> set secrets, ''WEBHOOK_SECRET_DUPLICATE'')]) (\<lambda>_. Inr (secrets @ [raw])))"

definition load_secret_files :: "string option list \<Rightarrow> string list result" where
  "load_secret_files paths =
     bindE (foldE load_secret paths []) (\<lambda>secrets.
     bindE (reject_if [(secrets = [], ''WEBHOOK_SECRET_MISSING''),
       (length secrets > 2, ''WEBHOOK_SECRET_COUNT'')]) (\<lambda>_. Inr secrets))"

definition verify_webhook_signature :: "web_host \<Rightarrow> string \<Rightarrow> string option \<Rightarrow> string list \<Rightarrow> unit result" where
  "verify_webhook_signature W raw_body signature_header secrets =
     (if length raw_body > MAX_WEBHOOK_BYTES then reject ''WEBHOOK_BODY_TOO_LARGE''
      else case SIGNATURE (case signature_header of None \<Rightarrow> [] | Some s \<Rightarrow> s) of
        None \<Rightarrow> reject ''WEBHOOK_SIGNATURE_MISSING''
      | Some supplied \<Rightarrow>
          let matched = fold (\<lambda>secret m. w_hmac W secret raw_body = supplied \<or> m) secrets False in
          reject_if [(length secrets = 0, ''WEBHOOK_SECRET_MISSING''),
            (\<not> matched, ''WEBHOOK_SIGNATURE_INVALID'')])"

section \<open>The callback URL\<close>

record split_url =
  su_scheme :: string
  su_netloc :: string
  su_path :: string
  su_query :: string
  su_fragment :: string

definition scheme_char :: "char \<Rightarrow> bool" where
  "scheme_char c = (let n = (of_char c :: nat) in
     65 \<le> n \<and> n \<le> 90 \<or> 97 \<le> n \<and> n \<le> 122 \<or> 48 \<le> n \<and> n \<le> 57 \<or> c \<in> {CHR ''+'', CHR ''-'', CHR ''.''})"

definition ascii_alpha :: "char \<Rightarrow> bool" where
  "ascii_alpha c = (let n = (of_char c :: nat) in 65 \<le> n \<and> n \<le> 90 \<or> 97 \<le> n \<and> n \<le> 122)"

definition split_scheme :: "string \<Rightarrow> string \<times> string" where
  "split_scheme url = (let s = takeWhile (\<lambda>c. c \<noteq> CHR '':'') url in
     if length s < length url \<and> s \<noteq> [] \<and> ascii_alpha (hd s) \<and> list_all scheme_char s
     then (lower s, drop (Suc (length s)) url) else ([], url))"

definition split_netloc :: "string \<Rightarrow> string \<times> string" where
  "split_netloc url =
     (if take 2 url = ''//'' then
        (let rest = drop 2 url in
          (takeWhile (\<lambda>c. c \<notin> set ''/?#'') rest, dropWhile (\<lambda>c. c \<notin> set ''/?#'') rest))
      else ([], url))"

text \<open>\<^verbatim>\<open>url.split(c, 1)\<close> when \<^verbatim>\<open>c\<close> occurs; otherwise the second part is empty.\<close>

definition split_first :: "char \<Rightarrow> string \<Rightarrow> string \<times> string" where
  "split_first c url = (takeWhile (\<lambda>d. d \<noteq> c) url, tl (dropWhile (\<lambda>d. d \<noteq> c) url))"

definition urlsplit :: "web_host \<Rightarrow> string \<Rightarrow> split_url result" where
  "urlsplit W url0 =
     (let url1 = filter (\<lambda>c. c \<notin> {CHR 0x09, CHR 0x0D, CHR 0x0A})
                   (dropWhile (\<lambda>c. (of_char c :: nat) \<le> 32) url0);
          (scheme, url2) = split_scheme url1;
          (netloc, url3) = split_netloc url2;
          (url4, fragment) = split_first (CHR ''#'') url3;
          (path, query) = split_first (CHR ''?'') url4
      in if (CHR ''['' \<in> set netloc) \<noteq> (CHR '']'' \<in> set netloc) \<or> \<not> w_netloc_ok W netloc then Inl ValueError
         else Inr \<lparr>su_scheme = scheme, su_netloc = netloc, su_path = path, su_query = query, su_fragment = fragment\<rparr>)"

text \<open>
  \<^verbatim>\<open>unquote\<close> changes a text exactly when it has a percent sign before two hexadecimal digits:
  every such triple shrinks to at most one character.
\<close>

fun has_escape :: "string \<Rightarrow> bool" where
  "has_escape (a # b # c # s) =
     (a = CHR ''%'' \<and> ascii_lower b \<in> set hex_digits \<and> ascii_lower c \<in> set hex_digits \<or> has_escape (b # c # s))"
| "has_escape _ = False"

text \<open>
  \<^verbatim>\<open>int\<close> of a run of decimal digits. The other spellings that \<^verbatim>\<open>int\<close> accepts (signs, underscores,
  spaces, digits of other scripts) fail the comparison with the canonical URL, with the
  same error.
\<close>

definition parse_run_id :: "string \<Rightarrow> int option" where
  "parse_run_id s = (if s \<noteq> [] \<and> list_all is_digit s then Some (int (dec_val s)) else None)"

definition callback_prefix :: "string \<Rightarrow> string" where
  "callback_prefix repository = ''/repos/'' @ repository @ ''/actions/runs/''"

definition validate_callback_url :: "web_host \<Rightarrow> string \<Rightarrow> string list \<Rightarrow> json \<Rightarrow> (int \<times> string) result" where
  "validate_callback_url W repository allowed_api_origins v = (case v of
     JStr url \<Rightarrow>
       if py_len url > 500 then reject ''CALLBACK_URL_INVALID''
       else bindE (urlsplit W url) (\<lambda>parsed.
         let origin = su_scheme parsed @ ''://'' @ su_netloc parsed;
             path = su_path parsed;
             expected_prefix = callback_prefix repository;
             parts = split_on (CHR ''/'') (drop (length expected_prefix) path) in
         if su_scheme parsed \<noteq> ''https'' \<or> CHR ''@'' \<in> set (su_netloc parsed) \<or> su_query parsed \<noteq> []
            \<or> su_fragment parsed \<noteq> [] \<or> origin \<notin> set allowed_api_origins
         then reject ''CALLBACK_URL_INVALID''
         else if has_escape path \<or> \<not> startswith path expected_prefix then reject ''CALLBACK_URL_INVALID''
         else if length parts \<noteq> 2 \<or> parts ! 1 \<noteq> ''deployment_protection_rule'' then reject ''CALLBACK_URL_INVALID''
         else case parse_run_id (parts ! 0) of
           None \<Rightarrow> reject ''CALLBACK_URL_INVALID''
         | Some run_id \<Rightarrow>
             let reconstructed = origin @ expected_prefix @ int_dec run_id @ ''/deployment_protection_rule'' in
             if run_id < 1 \<or> reconstructed \<noteq> url then reject ''CALLBACK_URL_INVALID''
             else Inr (run_id, reconstructed))
   | _ \<Rightarrow> reject ''CALLBACK_URL_INVALID'')"

section \<open>Payloads\<close>

definition as_object :: "json \<Rightarrow> (string \<times> json) list result" where
  "as_object v = (case v of JObj o1 \<Rightarrow> Inr o1 | _ \<Rightarrow> reject ''WEBHOOK_PAYLOAD_INVALID'')"

definition positive_int :: "json \<Rightarrow> int result" where
  "positive_int v = (case v of JInt n \<Rightarrow> if n < 1 then reject ''WEBHOOK_PAYLOAD_INVALID'' else Inr n
     | _ \<Rightarrow> reject ''WEBHOOK_PAYLOAD_INVALID'')"

text \<open>\<^verbatim>\<open>if not isinstance(value, str) or \<dots>: reject(WEBHOOK_PAYLOAD_INVALID)\<close>.\<close>

definition text_that :: "(string \<Rightarrow> bool) \<Rightarrow> json \<Rightarrow> string result" where
  "text_that ok v = (case v of JStr s \<Rightarrow> if ok s then Inr s else reject ''WEBHOOK_PAYLOAD_INVALID''
     | _ \<Rightarrow> reject ''WEBHOOK_PAYLOAD_INVALID'')"

definition ENVIRONMENT :: "string \<Rightarrow> bool" where
  "ENVIRONMENT s = (1 \<le> py_len s \<and> py_len s \<le> 120 \<and> list_all name_char s)"

definition parse_deployment_protection_payload :: "host \<Rightarrow> web_host \<Rightarrow> (string \<times> json) list \<Rightarrow> string \<Rightarrow> string
    \<Rightarrow> string list \<Rightarrow> protection_request result" where
  "parse_deployment_protection_payload H W payload delivery_id provenance allowed_api_origins =
     (if \<not> eq_str (jget payload ''action'') ''requested'' then reject ''WEBHOOK_ACTION_INVALID'' else
      bindE (as_object (jget payload ''repository'')) (\<lambda>repository_object.
      bindE (positive_int (jget repository_object ''id'')) (\<lambda>repository_id.
      bindE (text_that REPOSITORY (jget repository_object ''full_name'')) (\<lambda>repository.
      bindE (as_object (jget payload ''installation'')) (\<lambda>installation.
      bindE (positive_int (jget installation ''id'')) (\<lambda>installation_id.
      bindE (as_object (jget payload ''sender'')) (\<lambda>sender.
      bindE (positive_int (jget sender ''id'')) (\<lambda>sender_id.
      bindE (text_that ENVIRONMENT (jget payload ''environment'')) (\<lambda>environment.
      bindE (text_that HEAD_SHA (jget payload ''sha'')) (\<lambda>head_sha.
      bindE (text_that (\<lambda>_. True) (jget payload ''ref'')) (\<lambda>intent_ref.
      case INTENT_REF intent_ref of
        None \<Rightarrow> reject ''INTENT_REF_INVALID''
      | Some uuid \<Rightarrow>
          bindE (validate_callback_url W repository allowed_api_origins (jget payload ''deployment_callback_url''))
            (\<lambda>(run_id, callback_url).
          bindE (digest H (JObj payload)) (\<lambda>payload_sha256.
          Inr \<lparr>pr_delivery_id = lower delivery_id, pr_repository_id = repository_id, pr_repository = repository,
            pr_installation_id = installation_id, pr_environment = environment, pr_head_sha = head_sha,
            pr_intent_ref = intent_ref, pr_request_id = lower uuid, pr_run_id = run_id,
            pr_callback_url = callback_url, pr_sender_id = sender_id, pr_payload_sha256 = payload_sha256,
            pr_provenance = provenance\<rparr>)))))))))))))"

definition parse_deployment_protection_delivery :: "host \<Rightarrow> web_host \<Rightarrow> json \<Rightarrow> string \<Rightarrow> string list
    \<Rightarrow> protection_request result" where
  "parse_deployment_protection_delivery H W payload delivery_id allowed_api_origins =
     (if \<not> DELIVERY_ID delivery_id then reject ''WEBHOOK_DELIVERY_INVALID''
      else case payload of
        JObj o1 \<Rightarrow> parse_deployment_protection_payload H W o1 delivery_id ''github_app_delivery_api_v1'' allowed_api_origins
      | _ \<Rightarrow> reject ''WEBHOOK_PAYLOAD_INVALID'')"

section \<open>The webhook\<close>

text \<open>
  \<^verbatim>\<open>casefold\<close> of a header name, as far as the four names need it: the long s is the only
  character outside ASCII whose folding occurs in one of them.
\<close>

fun casefold :: "string \<Rightarrow> string" where
  "casefold [] = []"
| "casefold (c # s) = (if c = CHR 0xC5 \<and> s \<noteq> [] \<and> hd s = CHR 0xBF then CHR ''s'' # casefold (tl s)
     else ascii_lower c # casefold s)"

definition normalize_header :: "string \<times> string \<Rightarrow> (string \<times> string) list \<Rightarrow> (string \<times> string) list result" where
  "normalize_header h normalized = (let name = casefold (fst h) in
     if name \<notin> set WEBHOOK_HEADER_NAMES then Inr normalized
     else if name \<in> fst ` set normalized then reject ''WEBHOOK_HEADER_DUPLICATE''
     else Inr (normalized @ [(name, snd h)]))"

definition content_type :: "string option \<Rightarrow> string" where
  "content_type v = lower (strip str_spaces (takeWhile (\<lambda>c. c \<noteq> CHR '';'') (case v of None \<Rightarrow> [] | Some s \<Rightarrow> s)))"

definition no_duplicate_object :: "string list \<Rightarrow> unit result" where
  "no_duplicate_object keys = require (distinct keys) ''WEBHOOK_JSON_DUPLICATE_KEY''"

definition parse_deployment_protection_webhook :: "host \<Rightarrow> web_host \<Rightarrow> string \<Rightarrow> (string \<times> string) list \<Rightarrow> string list
    \<Rightarrow> string list \<Rightarrow> protection_request result" where
  "parse_deployment_protection_webhook H W raw_body headers secrets allowed_api_origins =
     bindE (foldE normalize_header headers []) (\<lambda>normalized.
     let delivery_id = (case map_of normalized ''x-github-delivery'' of None \<Rightarrow> [] | Some d \<Rightarrow> d) in
     bindE (reject_if
       [(content_type (map_of normalized ''content-type'') \<noteq> ''application/json'', ''WEBHOOK_CONTENT_TYPE_INVALID''),
        (map_of normalized ''x-github-event'' \<noteq> Some ''deployment_protection_rule'', ''WEBHOOK_EVENT_INVALID''),
        (\<not> DELIVERY_ID delivery_id, ''WEBHOOK_DELIVERY_INVALID'')]) (\<lambda>_.
     bindE (verify_webhook_signature W raw_body (map_of normalized ''x-hub-signature-256'') secrets) (\<lambda>_.
     bindE (forE no_duplicate_object (w_json_keys W raw_body)) (\<lambda>_.
     case h_json_loads H raw_body of
       None \<Rightarrow> reject ''WEBHOOK_JSON_INVALID''
     | Some (JObj payload) \<Rightarrow>
         parse_deployment_protection_payload H W payload delivery_id ''github_webhook_hmac_sha256_v1'' allowed_api_origins
     | Some _ \<Rightarrow> reject ''WEBHOOK_PAYLOAD_INVALID''))))"

end
