(* ===== verification/IntakeProps.thy ===== *)
theory IntakeProps
  imports WebhookParse
begin

text \<open>
  Properties of the intake: what an accepted request is bound to, the exact set of callback
  URLs that pass, and that the two ways in (webhook and delivery API) agree.
\<close>

section \<open>Text lemmas\<close>

lemma ascii_lower_idem [simp]: "ascii_lower (ascii_lower c) = ascii_lower c"
proof -
  have "of_char (char_of (n + 32) :: char) = n + 32" if "n \<le> 90" for n :: nat
    using that by simp
  then show ?thesis by (auto simp: ascii_lower_def Let_def)
qed

lemma lower_lower [simp]: "lower (lower s) = lower s"
  by (simp add: lower_def)

lemma DELIVERY_ID_lower [simp]: "DELIVERY_ID (lower s) = DELIVERY_ID s"
  by (simp add: DELIVERY_ID_def lower_def list.rel_map)

lemma split_on_nonempty [simp]: "split_on c s \<noteq> []"
  by (induction s) (auto split: list.splits)

lemma split_on_plain: "c \<notin> set s \<Longrightarrow> split_on c s = [s]"
  by (induction s) auto

lemma split_on_append: "c \<notin> set a \<Longrightarrow> split_on c (a @ c # b) = a # split_on c b"
  by (induction a) auto

lemma split_on_two:
  assumes "split_on c s = [a, b]"
  shows "s = a @ c # b \<and> c \<notin> set a \<and> c \<notin> set b"
  using assms
proof (induction s arbitrary: a)
  case Nil
  then show ?case by simp
next
  case (Cons d s)
  have single: "s = b \<and> c \<notin> set b" if "split_on c s = [b]" for s b
    using that by (induction s arbitrary: b) (auto split: if_splits list.splits)
  from Cons show ?case
    by (cases "split_on c s") (auto split: if_splits dest: single)
qed

lemma filter_all: "list_all p xs \<Longrightarrow> filter p xs = xs"
  by (induction xs) auto

lemma nat_dec_pos_digits: "list_all is_digit (nat_dec n)"
  using nat_dec_digits by (auto simp: list_all_iff)

lemma parse_run_id_int_dec: "0 \<le> n \<Longrightarrow> parse_run_id (int_dec n) = Some n"
  by (simp add: parse_run_id_def int_dec_def nat_dec_pos_digits)
section \<open>Callback URLs\<close>

text \<open>The characters of a canonical callback path.\<close>

definition path_char :: "char \<Rightarrow> bool" where
  "path_char c = (name_char c \<or> c = CHR ''/'')"

lemma path_char_no: "path_char c \<Longrightarrow> c \<notin> {CHR ''#'', CHR ''?'', CHR ''%'', CHR 0x09, CHR 0x0A, CHR 0x0D}"
  by (auto simp: path_char_def name_char_def Let_def)

lemma path_char_digit: "num_char c \<Longrightarrow> path_char c"
  by (auto simp: path_char_def name_char_def num_char_def is_digit_def Let_def)

lemma slash_no_name: "\<not> name_char (CHR ''/'')"
  by (simp add: name_char_def)

lemma REPOSITORY_chars:
  assumes "REPOSITORY s"
  shows "list_all path_char s"
proof -
  from assms obtain a b where ab: "split_on (CHR ''/'') s = [a, b]" "list_all name_char a" "list_all name_char b"
    by (auto simp: REPOSITORY_def split: list.splits)
  with split_on_two [OF ab(1)] show ?thesis
    by (auto simp: list_all_iff path_char_def)
qed

definition callback_path :: "string \<Rightarrow> int \<Rightarrow> string" where
  "callback_path repository run = callback_prefix repository @ int_dec run @ ''/deployment_protection_rule''"

lemma callback_path_chars:
  assumes "REPOSITORY repository"
  shows "list_all path_char (callback_path repository run)"
proof -
  have d: "list_all path_char (int_dec run)"
    by (auto simp: list_all_iff intro: path_char_digit int_dec_chars)
  have "list_all path_char ''/repos/''" "list_all path_char ''/actions/runs/''"
    "list_all path_char ''/deployment_protection_rule''"
    by (simp_all add: path_char_def name_char_def)
  with d REPOSITORY_chars [OF assms] show ?thesis
    by (simp only: callback_path_def callback_prefix_def list_all_append)
qed

lemma no_escape: "CHR ''%'' \<notin> set s \<Longrightarrow> \<not> has_escape s"
  by (induction s rule: has_escape.induct) auto

lemma split_first_absent: "c \<notin> set s \<Longrightarrow> split_first c s = (s, [])"
  by (induction s) (auto simp: split_first_def)

lemma urlsplit_api:
  assumes chars: "list_all path_char path" and path: "path = CHR ''/'' # rest" and ok: "w_netloc_ok W ''api.github.com''"
  shows "urlsplit W (''https://api.github.com'' @ path) = Inr \<lparr>su_scheme = ''https'', su_netloc = ''api.github.com'',
    su_path = path, su_query = [], su_fragment = []\<rparr>"
proof -
  have no: "c \<notin> set path" if "c \<in> {CHR ''#'', CHR ''?'', CHR ''%'', CHR 0x09, CHR 0x0A, CHR 0x0D}" for c
    using chars path_char_no that by (auto simp: list_all_iff)
  have f: "filter (\<lambda>c. c \<notin> {CHR 0x09, CHR 0x0D, CHR 0x0A}) path = path"
    using no by (intro filter_all) (auto simp: list_all_iff)
  have scheme: "split_scheme (''https://api.github.com'' @ path) = (''https'', ''//api.github.com'' @ path)"
    by (simp add: split_scheme_def ascii_alpha_def scheme_char_def lower_def ascii_lower_def Let_def)
  have netloc: "split_netloc (''//api.github.com'' @ path) = (''api.github.com'', path)"
    by (simp add: split_netloc_def path Let_def)
  have parts: "split_first (CHR ''#'') path = (path, [])" "split_first (CHR ''?'') path = (path, [])"
    using no by (simp_all add: split_first_absent)
  have url1: "filter (\<lambda>c. c \<notin> {CHR 0x09, CHR 0x0D, CHR 0x0A})
      (dropWhile (\<lambda>c. (of_char c :: nat) \<le> 32) (''https://api.github.com'' @ path)) = ''https://api.github.com'' @ path"
    using f by simp
  show ?thesis
    unfolding urlsplit_def Let_def url1 scheme netloc prod.case parts using ok by simp
qed

lemma validate_callback_url_exact:
  assumes repository: "REPOSITORY repository" and ok: "w_netloc_ok W ''api.github.com''"
  shows "validate_callback_url W repository [''https://api.github.com''] v = Inr (run, u) \<longleftrightarrow>
    v = JStr u \<and> 1 \<le> run \<and> u = ''https://api.github.com'' @ callback_path repository run \<and> py_len u \<le> 500"
    (is "?accepted \<longleftrightarrow> ?canonical")
proof
  assume ?accepted
  then show ?canonical
    by (auto simp: validate_callback_url_def callback_path_def bindE_Inr_iff Let_def
        split: json.splits if_splits option.splits)
next
  assume c: ?canonical
  let ?path = "callback_path repository run"
  have chars: "list_all path_char ?path" by (rule callback_path_chars [OF repository])
  obtain rest where rest: "?path = CHR ''/'' # rest"
    by (simp add: callback_path_def callback_prefix_def)
  have esc: "\<not> has_escape ?path"
    using chars path_char_no by (intro no_escape) (auto simp: list_all_iff)
  have pre: "startswith ?path (callback_prefix repository)"
    by (simp add: callback_path_def)
  have dropped: "drop (length (callback_prefix repository)) ?path = int_dec run @ CHR ''/'' # ''deployment_protection_rule''"
    by (simp add: callback_path_def)
  have nodash: "CHR ''/'' \<notin> set (int_dec run)"
    using int_dec_chars [of "CHR ''/''" run] by (auto simp: num_char_def is_digit_def)
  have parts: "split_on (CHR ''/'') (drop (length (callback_prefix repository)) ?path)
      = [int_dec run, ''deployment_protection_rule'']"
    unfolding dropped split_on_append [OF nodash] by simp
  have run: "parse_run_id (int_dec run) = Some run" using c by (simp add: parse_run_id_int_dec)
  have u: "u = ''https://api.github.com'' @ ?path" and v: "v = JStr u" and len: "\<not> py_len u > 500" and r1: "\<not> run < 1"
    using c by auto
  show ?accepted
    unfolding validate_callback_url_def v json.case if_not_P [OF len] u urlsplit_api [OF chars rest ok]
    using esc pre parts run r1 len u by (simp add: callback_path_def [symmetric] Let_def)
qed
section \<open>Accepted requests\<close>

lemma SIGNATURE_Some: "SIGNATURE s = Some hex \<Longrightarrow> s = ''sha256='' @ hex"
proof -
  assume "SIGNATURE s = Some hex"
  then have "take 7 s = ''sha256=''" "drop 7 s = hex"
    by (auto simp: SIGNATURE_def startswith_def Let_def eval_nat_numeral split: if_splits)
  then show ?thesis by (metis append_take_drop_id)
qed

lemma any_matched: "fold (\<lambda>x m. p x \<or> m) xs b \<longleftrightarrow> b \<or> (\<exists>x \<in> set xs. p x)"
  by (induction xs arbitrary: b) auto

lemma verify_webhook_signature_Inr:
  assumes "verify_webhook_signature W raw sig secrets = Inr ()"
  shows "length raw \<le> MAX_WEBHOOK_BYTES \<and> (\<exists>secret \<in> set secrets. sig = Some (''sha256='' @ w_hmac W secret raw))"
proof -
  let ?sig = "case sig of None \<Rightarrow> [] | Some s \<Rightarrow> s"
  from assms have len: "length raw \<le> MAX_WEBHOOK_BYTES"
    by (auto simp: verify_webhook_signature_def split: if_splits)
  from assms obtain hex where hex: "SIGNATURE ?sig = Some hex" "\<exists>secret \<in> set secrets. w_hmac W secret raw = hex"
    by (auto simp: verify_webhook_signature_def any_matched Let_def split: if_splits option.splits)
  from SIGNATURE_Some [OF hex(1)] have "sig = Some (''sha256='' @ hex)"
    by (cases sig) auto
  with len hex show ?thesis by auto
qed

lemma normalized_headers:
  assumes "foldE normalize_header headers [] = Inr normalized" and "map_of normalized name = Some v"
  shows "\<exists>n. (n, v) \<in> set headers \<and> casefold n = name"
proof -
  have "\<forall>(m, v) \<in> set normalized. \<exists>n. (n, v) \<in> set headers \<and> casefold n = m"
    by (rule foldE_invariant [OF assms(1)])
      (auto simp: normalize_header_def Let_def split: if_splits)
  with map_of_SomeD [OF assms(2)] show ?thesis by auto
qed

lemma text_that_Inr [simp]: "text_that ok v = Inr s \<longleftrightarrow> v = JStr s \<and> ok s"
  by (auto simp: text_that_def split: json.splits)

lemma positive_int_Inr [simp]: "positive_int v = Inr n \<longleftrightarrow> v = JInt n \<and> 1 \<le> n"
  by (auto simp: positive_int_def split: json.splits)

lemma as_object_Inr [simp]: "as_object v = Inr o1 \<longleftrightarrow> v = JObj o1"
  by (auto simp: as_object_def split: json.splits)

lemma validate_callback_url_Inr:
  assumes "validate_callback_url W repository origins v = Inr (run, u)"
  shows "1 \<le> run \<and> (\<exists>origin \<in> set origins. startswith origin ''https://'' \<and> u = origin @ callback_path repository run)"
  using assms
  by (auto simp: validate_callback_url_def callback_path_def startswith_def bindE_Inr_iff Let_def
      split: json.splits if_splits option.splits)

text \<open>What a parsed payload binds the request to.\<close>

definition request_bound :: "host \<Rightarrow> string list \<Rightarrow> (string \<times> json) list \<Rightarrow> protection_request \<Rightarrow> bool" where
  "request_bound H origins payload r \<longleftrightarrow>
     eq_str (jget payload ''action'') ''requested''
     \<and> digest H (JObj payload) = Inr (pr_payload_sha256 r)
     \<and> jget payload ''ref'' = JStr (pr_intent_ref r)
     \<and> map_option lower (INTENT_REF (pr_intent_ref r)) = Some (pr_request_id r)
     \<and> jget payload ''sha'' = JStr (pr_head_sha r) \<and> HEAD_SHA (pr_head_sha r)
     \<and> jget payload ''environment'' = JStr (pr_environment r) \<and> ENVIRONMENT (pr_environment r)
     \<and> REPOSITORY (pr_repository r)
     \<and> (\<exists>o1. jget payload ''repository'' = JObj o1 \<and> jget o1 ''id'' = JInt (pr_repository_id r)
          \<and> jget o1 ''full_name'' = JStr (pr_repository r))
     \<and> 1 \<le> pr_repository_id r \<and> 1 \<le> pr_installation_id r \<and> 1 \<le> pr_sender_id r \<and> 1 \<le> pr_run_id r
     \<and> (\<exists>origin \<in> set origins. startswith origin ''https://''
          \<and> pr_callback_url r = origin @ callback_path (pr_repository r) (pr_run_id r))"

lemma payload_bound:
  assumes "parse_deployment_protection_payload H W payload delivery_id provenance origins = Inr r"
  shows "request_bound H origins payload r \<and> pr_delivery_id r = lower delivery_id \<and> pr_provenance r = provenance"
  using assms
  by (auto simp: parse_deployment_protection_payload_def request_bound_def bindE_Inr_iff
      split: if_splits option.splits dest!: validate_callback_url_Inr)

lemma parse_webhook_Inr:
  assumes "parse_deployment_protection_webhook H W raw headers secrets origins = Inr r"
  obtains normalized payload delivery_id where
    "foldE normalize_header headers [] = Inr normalized"
    "map_of normalized ''x-github-delivery'' = Some delivery_id" "DELIVERY_ID delivery_id"
    "verify_webhook_signature W raw (map_of normalized ''x-hub-signature-256'') secrets = Inr ()"
    "\<forall>keys \<in> set (w_json_keys W raw). distinct keys"
    "h_json_loads H raw = Some (JObj payload)"
    "parse_deployment_protection_payload H W payload delivery_id ''github_webhook_hmac_sha256_v1'' origins = Inr r"
proof -
  have empty: "\<not> DELIVERY_ID []" by (simp add: DELIVERY_ID_def uuid_classes_def)
  obtain normalized where n: "foldE normalize_header headers [] = Inr normalized"
    using assms by (auto simp: parse_deployment_protection_webhook_def bindE_Inr_iff)
  define delivery_id where d: "delivery_id = (case map_of normalized ''x-github-delivery'' of None \<Rightarrow> [] | Some d \<Rightarrow> d)"
  have r: "DELIVERY_ID delivery_id" "verify_webhook_signature W raw (map_of normalized ''x-hub-signature-256'') secrets = Inr ()"
    "forE no_duplicate_object (w_json_keys W raw) = Inr ()"
    "(case h_json_loads H raw of None \<Rightarrow> reject ''WEBHOOK_JSON_INVALID''
       | Some (JObj payload) \<Rightarrow>
           parse_deployment_protection_payload H W payload delivery_id ''github_webhook_hmac_sha256_v1'' origins
       | Some _ \<Rightarrow> reject ''WEBHOOK_PAYLOAD_INVALID'') = Inr r"
    unfolding d using assms n by (simp_all add: parse_deployment_protection_webhook_def bindE_Inr_iff Let_def)
  from r(1) empty have "map_of normalized ''x-github-delivery'' = Some delivery_id"
    by (cases "map_of normalized ''x-github-delivery''") (simp_all add: d)
  moreover from r(3) have "\<forall>keys \<in> set (w_json_keys W raw). distinct keys"
    by (simp add: forE_Inr_iff no_duplicate_object_def)
  moreover from r(4) obtain payload where "h_json_loads H raw = Some (JObj payload)"
    "parse_deployment_protection_payload H W payload delivery_id ''github_webhook_hmac_sha256_v1'' origins = Inr r"
    by (auto split: option.splits json.splits)
  ultimately show thesis using n r(1,2) that by blast
qed

text \<open>A continuation moves into the branches of what precedes it.\<close>

lemma bindE_push:
  "bindE (bindE m f) g = bindE m (\<lambda>x. bindE (f x) g)"
  "bindE (if b then m1 else m2) g = (if b then bindE m1 g else bindE m2 g)"
  "bindE (case v of None \<Rightarrow> m1 | Some x \<Rightarrow> f' x) g = (case v of None \<Rightarrow> bindE m1 g | Some x \<Rightarrow> bindE (f' x) g)"
  "bindE (case p of (x, y) \<Rightarrow> f2 x y) g = (case p of (x, y) \<Rightarrow> bindE (f2 x y) g)"
  "bindE (reject code) g = reject code"
  by (simp_all add: bindE_def reject_def split: sum.splits option.splits prod.splits)

lemma payload_relabel:
  "parse_deployment_protection_payload H W payload d' p' origins =
     bindE (parse_deployment_protection_payload H W payload d p origins)
       (\<lambda>r. Inr (r\<lparr>pr_delivery_id := lower d', pr_provenance := p'\<rparr>))"
  unfolding parse_deployment_protection_payload_def bindE_push bindE_simps protection_request.update_convs ..

text \<open>
  C8: A request that the webhook parser returns is authentic and bound: one configured secret
  authenticates the raw body of at most one MiB under the signature header, and no object of the
  body repeats a key. The ref, the commit, the Environment and the repository of the request are the fields of
  the parsed payload, the digest is that of the payload, the request id is the one of the intent ref, the
  identifiers are positive, and the callback URL is the one of an allowed origin for this repository and run.
\<close>

theorem webhook_request_authentic:
  assumes "parse_deployment_protection_webhook H W raw headers secrets origins = Inr r"
  shows "\<exists>secret \<in> set secrets. \<exists>n payload. (n, ''sha256='' @ w_hmac W secret raw) \<in> set headers
    \<and> casefold n = ''x-hub-signature-256'' \<and> length raw \<le> MAX_WEBHOOK_BYTES
    \<and> (\<forall>keys \<in> set (w_json_keys W raw). distinct keys)
    \<and> h_json_loads H raw = Some (JObj payload) \<and> request_bound H origins payload r
    \<and> DELIVERY_ID (pr_delivery_id r) \<and> pr_provenance r = ''github_webhook_hmac_sha256_v1''"
proof -
  from assms obtain normalized payload delivery_id where a:
    "foldE normalize_header headers [] = Inr normalized" "DELIVERY_ID delivery_id"
    "verify_webhook_signature W raw (map_of normalized ''x-hub-signature-256'') secrets = Inr ()"
    "\<forall>keys \<in> set (w_json_keys W raw). distinct keys" "h_json_loads H raw = Some (JObj payload)"
    "parse_deployment_protection_payload H W payload delivery_id ''github_webhook_hmac_sha256_v1'' origins = Inr r"
    by (rule parse_webhook_Inr)
  from verify_webhook_signature_Inr [OF a(3)] obtain secret where s: "length raw \<le> MAX_WEBHOOK_BYTES"
    "secret \<in> set secrets" "map_of normalized ''x-hub-signature-256'' = Some (''sha256='' @ w_hmac W secret raw)"
    by blast
  from normalized_headers [OF a(1) s(3)] obtain n where
    "(n, ''sha256='' @ w_hmac W secret raw) \<in> set headers" "casefold n = ''x-hub-signature-256''" by blast
  with s a payload_bound [OF a(6)] show ?thesis by auto
qed

text \<open>
  C24: The two ways in agree: the payload of an accepted webhook, read from the delivery API
  under the same delivery id, gives the same request with the API's provenance.
\<close>

theorem delivery_agrees_with_webhook:
  assumes "parse_deployment_protection_webhook H W raw headers secrets origins = Inr r"
  shows "\<exists>payload. h_json_loads H raw = Some payload
    \<and> parse_deployment_protection_delivery H W payload (pr_delivery_id r) origins
      = Inr (r\<lparr>pr_provenance := ''github_app_delivery_api_v1''\<rparr>)"
proof -
  from assms obtain payload delivery_id where a: "DELIVERY_ID delivery_id" "h_json_loads H raw = Some (JObj payload)"
    "parse_deployment_protection_payload H W payload delivery_id ''github_webhook_hmac_sha256_v1'' origins = Inr r"
    by (rule parse_webhook_Inr)
  have d: "pr_delivery_id r = lower delivery_id" using payload_bound [OF a(3)] by simp
  have "parse_deployment_protection_payload H W payload (lower delivery_id) ''github_app_delivery_api_v1'' origins
      = Inr (r\<lparr>pr_provenance := ''github_app_delivery_api_v1''\<rparr>)"
    unfolding payload_relabel [of H W payload "lower delivery_id" "''github_app_delivery_api_v1''" origins
        delivery_id "''github_webhook_hmac_sha256_v1''"] a(3)
    using d by (cases r) simp
  with a(1,2) d show ?thesis by (simp add: parse_deployment_protection_delivery_def)
qed
section \<open>An accepted webhook\<close>

definition in_uuid :: string where
  "in_uuid = ''0A1B2C3D-0000-4000-8000-000000000001''"

definition in_payload :: "(string \<times> json) list" where
  "in_payload =
     [(''action'', JStr ''requested''), (''environment'', JStr ''prod''),
      (''sha'', JStr (replicate 40 (CHR ''a''))), (''ref'', JStr (''refs/tags/cross-ai-intent/'' @ in_uuid)),
      (''repository'', JObj [(''id'', JInt 7), (''full_name'', JStr ''o/r'')]),
      (''installation'', JObj [(''id'', JInt 8)]), (''sender'', JObj [(''id'', JInt 9)]),
      (''deployment_callback_url'', JStr ''https://api.github.com/repos/o/r/actions/runs/42/deployment_protection_rule'')]"

definition in_host :: host where
  "in_host = \<lparr>h_sha = (\<lambda>_. ''digest''), h_iso = (\<lambda>_. None), h_b64decode = (\<lambda>_. None),
     h_json_loads = (\<lambda>s. if s = ''body'' then Some (JObj in_payload) else None),
     h_ed25519 = (\<lambda>_ _ _. False), h_schema = (\<lambda>_ _. False), h_readable = (\<lambda>_. True), h_writable = (\<lambda>_. True)\<rparr>"

definition in_web :: web_host where
  "in_web = \<lparr>w_hmac = (\<lambda>secret _. replicate 64 (if secret = ''new'' then CHR ''b'' else CHR ''c'')),
     w_json_events = (\<lambda>_. [ObjectRead [''id'', ''full_name''], ObjectRead (map fst in_payload)]), w_netloc_ok = (\<lambda>_. True)\<rparr>"

definition in_headers :: "(string \<times> string) list" where
  "in_headers = [(''Content-Type'', ''application/json; charset=utf-8''), (''X-GitHub-Event'', ''deployment_protection_rule''),
     (''X-GitHub-Delivery'', in_uuid), (''User-Agent'', ''GitHub-Hookshot''),
     (''X-Hub-Signature-256'', ''sha256='' @ replicate 64 (CHR ''b''))]"

definition in_request :: protection_request where
  "in_request = \<lparr>pr_delivery_id = lower in_uuid, pr_repository_id = 7, pr_repository = ''o/r'',
     pr_installation_id = 8, pr_environment = ''prod'', pr_head_sha = replicate 40 (CHR ''a''),
     pr_intent_ref = ''refs/tags/cross-ai-intent/'' @ in_uuid, pr_request_id = lower in_uuid, pr_run_id = 42,
     pr_callback_url = ''https://api.github.com/repos/o/r/actions/runs/42/deployment_protection_rule'',
     pr_sender_id = 9, pr_payload_sha256 = ''sha256:digest'', pr_provenance = ''github_webhook_hmac_sha256_v1''\<rparr>"

lemma in_accepted:
  "parse_deployment_protection_webhook in_host in_web ''body'' in_headers [''old'', ''new''] [''https://api.github.com'']
     = Inr in_request"
  by code_simp

theorem webhook_request_authentic_witness:
  "parse_deployment_protection_webhook in_host in_web ''body'' in_headers [''old'', ''new''] [''https://api.github.com'']
     = Inr in_request
   \<and> (\<exists>secret \<in> set [''old'', ''new'']. \<exists>n payload. (n, ''sha256='' @ w_hmac in_web secret ''body'') \<in> set in_headers
    \<and> casefold n = ''x-hub-signature-256'' \<and> length ''body'' \<le> MAX_WEBHOOK_BYTES
    \<and> (\<forall>keys \<in> set (w_json_keys in_web ''body''). distinct keys)
    \<and> h_json_loads in_host ''body'' = Some (JObj payload)
    \<and> request_bound in_host [''https://api.github.com''] payload in_request
    \<and> DELIVERY_ID (pr_delivery_id in_request) \<and> pr_provenance in_request = ''github_webhook_hmac_sha256_v1'')"
  using in_accepted webhook_request_authentic [OF in_accepted] by (rule conjI)

theorem delivery_agrees_with_webhook_witness:
  "\<exists>payload. h_json_loads in_host ''body'' = Some payload
    \<and> parse_deployment_protection_delivery in_host in_web payload (pr_delivery_id in_request) [''https://api.github.com'']
      = Inr (in_request\<lparr>pr_provenance := ''github_app_delivery_api_v1''\<rparr>)"
  by (rule delivery_agrees_with_webhook [OF in_accepted])

end
