(* ===== verification/Dispatcher.thy ===== *)
theory Dispatcher
  imports IntentOps
begin

text \<open>
  The dispatch of signed intents of \<^verbatim>\<open>dispatcher.py\<close>. \<^verbatim>\<open>dispatch_stage\<close> touches the outside world
  between registry transactions that other processes may interleave with, and it may crash
  anywhere, so it is a machine whose steps each hold one interaction: a registry transaction,
  a read of live runs, or the POST. \<open>dispatch_stage\<close> is the machine run to its end, one step
  after the other.
\<close>

section \<open>The ports\<close>

record intent_ref =
  ir_ref_object_id :: string
  ir_head_sha :: string
  ir_annotated :: bool

record dispatch_result =
  dr_accepted :: bool
  dr_ambiguous :: bool
  dr_status :: "int option"
  dr_reason_code :: string

text \<open>
  What the outside answers during one step: the clock, the identifiers that the registry draws,
  the verification of an envelope at that moment, and GitHub's answers to
  \<^verbatim>\<open>create_intent_ref\<close>, \<^verbatim>\<open>dispatch_workflow\<close>, \<^verbatim>\<open>intent_ref\<close> and \<^verbatim>\<open>workflow_runs_for_dispatch\<close>.
\<close>

record surroundings =
  nv_now :: datetime
  nv_uid :: "nat \<Rightarrow> string"
  nv_verify :: "json \<Rightarrow> verified_bundle result"
  nv_create_ref :: "int \<Rightarrow> string \<Rightarrow> string \<Rightarrow> string \<Rightarrow> intent_ref result"
  nv_dispatch :: "int \<Rightarrow> string \<Rightarrow> string \<Rightarrow> string \<Rightarrow> dispatch_result result"
  nv_intent_ref :: "int \<Rightarrow> string \<Rightarrow> string \<Rightarrow> intent_ref result"
  nv_runs :: "int \<Rightarrow> string \<Rightarrow> string \<Rightarrow> string \<Rightarrow> string \<Rightarrow> string \<Rightarrow> (string \<times> json) list list result"

record orchestrator =
  oc_installation_id :: int
  oc_registration_principal :: string

definition MAX_DISPATCH_DELAY :: int where
  "MAX_DISPATCH_DELAY = minutes 10"

definition new_orchestrator :: "int \<Rightarrow> string \<Rightarrow> orchestrator result" where
  "new_orchestrator installation_id registration_principal =
     bindE (reject_if [(installation_id < 1, ''DISPATCH_TARGET_INVALID''),
       (\<not> startswith registration_principal ''spiffe://'', ''REGISTRATION_PRINCIPAL_INVALID'')]) (\<lambda>_.
     Inr \<lparr>oc_installation_id = installation_id, oc_registration_principal = registration_principal\<rparr>)"

section \<open>Verified records\<close>

definition projection_ok :: "verified_bundle \<Rightarrow> intent_row \<Rightarrow> bool" where
  "projection_ok v row =
     (let sj = bd_subject (vb_payload v); gr = bd_grant (vb_payload v) in
      vb_request_id v = in_request_id row \<and> vb_bundle_digest v = in_bundle_digest row
      \<and> vb_subject_digest v = in_subject_digest row \<and> vb_session_digest v = in_session_digest row
      \<and> sj_repositoryId sj = in_repository_id row \<and> sj_repository sj = in_repository row
      \<and> sj_headSha sj = in_head_sha row \<and> sj_intentRef sj = in_intent_ref row
      \<and> in_triggering_actor_id row = Some (gr_triggeringActorId gr))"

definition verified_record :: "host \<Rightarrow> surroundings \<Rightarrow> string \<Rightarrow> registry \<Rightarrow> (intent_row \<times> json \<times> verified_bundle) result" where
  "verified_record H N rid s =
     bindE (get_finalized H rid s) (\<lambda>(row, envelope).
     bindE (nv_verify N envelope) (\<lambda>v.
     if \<not> projection_ok v row then reject ''INTENT_BUNDLE_MISMATCH'' else Inr (row, envelope, v)))"

section \<open>Dispatching one stage\<close>

text \<open>A POST to the \<^verbatim>\<open>workflow_dispatch\<close> endpoint, and the stage it was made for.\<close>

record post =
  po_request_id :: string
  po_stage :: string
  po_installation_id :: int
  po_repository :: string
  po_workflow_path :: string

record dispatch_world =
  dw_registry :: registry
  dw_posts :: "post list"

datatype dispatch_pc =
    Begin
  | ToQueue intent_row datetime
  | ToClaim intent_row datetime
  | ToSnapshot intent_row dispatch_job
  | ToWatermark dispatch_job datetime int
  | ToPost dispatch_job
  | ToRecord dispatch_result
  | Finished "dispatch_job result"

text \<open>A registry operation: an error ends the call, a result decides the next step.\<close>

definition on_registry :: "(registry \<Rightarrow> 'a result \<times> registry) \<Rightarrow> ('a \<Rightarrow> dispatch_pc) \<Rightarrow> dispatch_world
    \<Rightarrow> dispatch_pc \<times> dispatch_world" where
  "on_registry f next w = (case f (dw_registry w) of
     (Inl e, s) \<Rightarrow> (Finished (Inl e), w\<lparr>dw_registry := s\<rparr>)
   | (Inr x, s) \<Rightarrow> (next x, w\<lparr>dw_registry := s\<rparr>))"

text \<open>\<^verbatim>\<open>run.get("id")\<close> must be a positive integer, and not a bool.\<close>

definition snapshot_run_id :: "(string \<times> json) list \<Rightarrow> int result" where
  "snapshot_run_id run = (case jget run ''id'' of
     JInt n \<Rightarrow> if n < 1 then reject ''DISPATCH_WATERMARK_INVALID'' else Inr n
   | _ \<Rightarrow> reject ''DISPATCH_WATERMARK_INVALID'')"

definition intent_branch :: "intent_row \<Rightarrow> string" where
  "intent_branch row = removeprefix (in_intent_ref row) ''refs/tags/''"

definition dispatch_step :: "host \<Rightarrow> orchestrator \<Rightarrow> surroundings \<Rightarrow> string \<Rightarrow> string \<Rightarrow> dispatch_pc \<Rightarrow> dispatch_world
    \<Rightarrow> dispatch_pc \<times> dispatch_world" where
  "dispatch_step H O1 N rid stg pc w = (case pc of
     Begin \<Rightarrow>
       (case verified_record H N rid (dw_registry w) of
          Inl e \<Rightarrow> (Finished (Inl e), w)
        | Inr (row, _, _) \<Rightarrow> (ToQueue row (nv_now N), w))
   | ToQueue row current \<Rightarrow>
       on_registry (queue_dispatch H (nv_uid N) rid stg (oc_installation_id O1) (in_repository row) current)
         (\<lambda>job. if dj_state job \<noteq> DPending then Finished (Inr job) else ToClaim row current) w
   | ToClaim row current \<Rightarrow>
       on_registry (claim_dispatch H (nv_uid N) rid stg current) (ToSnapshot row) w
   | ToSnapshot row claimed \<Rightarrow>
       (case bindE (nv_runs N (dj_installation_id claimed) (dj_repository claimed) (dj_workflow_path claimed)
                     (intent_branch row)
                     (utc_text (case in_finalized_at row of Some t \<Rightarrow> t | None \<Rightarrow> in_registered_at row))
                     (utc_text (utc_seconds (nv_now N)))) (mapE snapshot_run_id) of
          Inl e \<Rightarrow> (Finished (Inl e), w)
        | Inr run_ids \<Rightarrow> (ToWatermark claimed (nv_now N) (fold max run_ids 0), w))
   | ToWatermark claimed snapshot_at watermark \<Rightarrow>
       on_registry (record_dispatch_watermark rid stg watermark snapshot_at) (\<lambda>_. ToPost claimed) w
   | ToPost claimed \<Rightarrow>
       (case nv_dispatch N (dj_installation_id claimed) (dj_repository claimed) (dj_workflow_path claimed)
               (dj_request_id claimed) of
          Inl e \<Rightarrow> Finished (Inl e) | Inr result \<Rightarrow> ToRecord result,
        w\<lparr>dw_posts := dw_posts w @ [\<lparr>po_request_id = dj_request_id claimed, po_stage = stg,
            po_installation_id = dj_installation_id claimed, po_repository = dj_repository claimed,
            po_workflow_path = dj_workflow_path claimed\<rparr>]\<rparr>)
   | ToRecord result \<Rightarrow>
       if dr_accepted result
       then (case dr_status result of
           None \<Rightarrow> (Finished (reject ''DISPATCH_STATUS_INVALID''), w)
         | Some status \<Rightarrow>
             on_registry (mark_dispatch_posted rid stg (dr_reason_code result) status (nv_now N)) (\<lambda>job. Finished (Inr job)) w)
       else on_registry (resolve_dispatch H (nv_uid N) rid stg (if dr_ambiguous result then DUncertain else DRejected)
              (dr_reason_code result) (dr_status result) (nv_now N)) (\<lambda>job. Finished (Inr job)) w
   | Finished r \<Rightarrow> (Finished r, w))"

text \<open>The call: at most seven steps, the \<open>i\<close>-th in the surroundings \<open>Ns i\<close>.\<close>

fun dispatch_steps :: "host \<Rightarrow> orchestrator \<Rightarrow> (nat \<Rightarrow> surroundings) \<Rightarrow> string \<Rightarrow> string \<Rightarrow> nat \<Rightarrow> nat
    \<Rightarrow> dispatch_pc \<times> dispatch_world \<Rightarrow> dispatch_pc \<times> dispatch_world" where
  "dispatch_steps H O1 Ns rid stg i 0 c = c"
| "dispatch_steps H O1 Ns rid stg i (Suc n) c =
     (case c of (pc, w) \<Rightarrow> dispatch_steps H O1 Ns rid stg (Suc i) n (dispatch_step H O1 (Ns i) rid stg pc w))"

definition dispatch_stage :: "host \<Rightarrow> orchestrator \<Rightarrow> (nat \<Rightarrow> surroundings) \<Rightarrow> string \<Rightarrow> string \<Rightarrow> dispatch_world
    \<Rightarrow> dispatch_pc \<times> dispatch_world" where
  "dispatch_stage H O1 Ns rid stg w = dispatch_steps H O1 Ns rid stg 0 7 (Begin, w)"

section \<open>Registration followed by the first dispatch\<close>

text \<open>The surroundings \<open>N\<close> are those of the calls before \<^verbatim>\<open>dispatch_stage\<close>, \<open>Ns\<close> those of its steps.\<close>

definition register_and_dispatch_apply :: "host \<Rightarrow> orchestrator \<Rightarrow> surroundings \<Rightarrow> (nat \<Rightarrow> surroundings) \<Rightarrow> (nat \<Rightarrow> string)
    \<Rightarrow> json \<Rightarrow> dispatch_world \<Rightarrow> dispatch_pc \<times> dispatch_world" where
  "register_and_dispatch_apply H O1 N Ns uid2 envelope w =
     (let current = nv_now N; fail = (\<lambda>e w. (Finished (Inl e), w)) in
      case nv_verify N envelope of Inl e \<Rightarrow> fail e w | Inr v \<Rightarrow>
      (case register H (nv_uid N) envelope v (oc_registration_principal O1) current (dw_registry w) of
         (Inl e, s1) \<Rightarrow> fail e (w\<lparr>dw_registry := s1\<rparr>)
       | (Inr _, s1) \<Rightarrow>
          let sj = bd_subject (vb_payload v) in
          (case nv_create_ref N (oc_installation_id O1) (sj_repository sj) (vb_request_id v) (sj_headSha sj) of
             Inl e \<Rightarrow> fail e (w\<lparr>dw_registry := s1\<rparr>)
           | Inr live_ref \<Rightarrow>
              (case finalize_ref H uid2 (vb_request_id v) (ir_ref_object_id live_ref) (ir_head_sha live_ref) current s1 of
                 (Inl e, s2) \<Rightarrow> fail e (w\<lparr>dw_registry := s2\<rparr>)
               | (Inr _, s2) \<Rightarrow> dispatch_stage H O1 Ns (vb_request_id v) ''apply'' (w\<lparr>dw_registry := s2\<rparr>)))))"

section \<open>Reconciliation with live runs\<close>

definition matching_run :: "host \<Rightarrow> dispatch_job \<Rightarrow> intent_row \<Rightarrow> datetime \<Rightarrow> datetime \<Rightarrow> datetime \<Rightarrow> int
    \<Rightarrow> (string \<times> json) list \<Rightarrow> bool" where
  "matching_run H job row window_start window_end now watermark run =
     (case (jget run ''repository'', jget run ''head_repository'', jget run ''triggering_actor'',
            jget run ''id'', jget run ''run_attempt'') of
        (JObj repository, JObj head_repository, JObj actor, JInt run_id, JInt run_attempt) \<Rightarrow>
          \<not> run_id < 1 \<and> \<not> run_id \<le> watermark \<and> \<not> run_attempt < 1
          \<and> eq_str (jget run ''event'') ''workflow_dispatch''
          \<and> eq_str (jget run ''head_branch'') (intent_branch row)
          \<and> eq_str (jget run ''head_sha'') (in_head_sha row)
          \<and> eq_str (jget run ''path'') (dj_workflow_path job)
          \<and> eq_int (jget actor ''id'') (dj_expected_actor_id job)
          \<and> eq_int (jget repository ''id'') (in_repository_id row)
          \<and> eq_str (jget repository ''full_name'') (in_repository row)
          \<and> eq_int (jget head_repository ''id'') (in_repository_id row)
          \<and> eq_str (jget head_repository ''full_name'') (in_repository row)
          \<and> (case parse_utc H (jget run ''created_at'') of
               Inl _ \<Rightarrow> False
             | Inr created_at \<Rightarrow> window_start \<le> created_at \<and> created_at \<le> window_end
                 \<and> created_at \<le> now + seconds 60)
      | _ \<Rightarrow> False)"

definition reconciliation_window :: "dispatch_job \<Rightarrow> intent_row \<Rightarrow> stamp \<Rightarrow> datetime \<times> datetime" where
  "reconciliation_window job row claimed_at =
     (stamp_dt claimed_at, min (stamp_dt claimed_at + MAX_DISPATCH_DELAY) (stamp_dt (in_expires_at row)))"

text \<open>The reads of a reconciliation: the job, the intent, the end of the window and the matching live runs.\<close>

definition reconciliation_view :: "host \<Rightarrow> surroundings \<Rightarrow> string \<Rightarrow> string \<Rightarrow> registry
    \<Rightarrow> (dispatch_job \<times> intent_row \<times> datetime \<times> (string \<times> json) list list) result" where
  "reconciliation_view H N rid stg s =
     bindE (get_dispatch rid stg s) (\<lambda>job.
     bindE (reject_if [(dj_state job \<notin> {DSending, DUncertain} \<or> dj_claimed_at job = None, ''DISPATCH_STATE_INVALID''),
       (dj_snapshot_at job = None \<or> dj_watermark job = None, ''DISPATCH_CORRELATION_INVALID'')]) (\<lambda>_.
     bindE (verified_record H N rid s) (\<lambda>(row, _, _).
     let (window_start, window_end) = reconciliation_window job row (the (dj_claimed_at job)) in
     bindE (reject_if [(window_end \<le> window_start, ''DISPATCH_WINDOW_INVALID'')]) (\<lambda>_.
     bindE (nv_runs N (dj_installation_id job) (dj_repository job) (dj_workflow_path job) (intent_branch row)
              (utc_text (utc_seconds window_start)) (utc_text (utc_seconds window_end))) (\<lambda>runs.
     Inr (job, row, window_end,
       filter (matching_run H job row window_start window_end (nv_now N) (the (dj_watermark job))) runs))))))"

definition orchestrator_reconcile_dispatch :: "host \<Rightarrow> surroundings \<Rightarrow> string \<Rightarrow> string \<Rightarrow> registry
    \<Rightarrow> dispatch_job result \<times> registry" where
  "orchestrator_reconcile_dispatch H N rid stg s =
     (let current = nv_now N in
      case reconciliation_view H N rid stg s of
        Inl e \<Rightarrow> (Inl e, s)
      | Inr (job, row, window_end, matches) \<Rightarrow>
          (case matches of
             [] \<Rightarrow>
               if dj_state job = DSending \<and> current > window_end
               then resolve_dispatch H (nv_uid N) rid stg DUncertain ''DISPATCH_RECONCILIATION_EMPTY''
                      (dj_http_status job) current s
               else (Inr job, s)
           | [run] \<Rightarrow>
               (case nv_intent_ref N (dj_installation_id job) (dj_repository job) rid of
                  Inl e \<Rightarrow> (Inl e, s)
                | Inr live_ref \<Rightarrow>
                    if ir_head_sha live_ref \<noteq> in_head_sha row \<or> Some (ir_ref_object_id live_ref) \<noteq> in_ref_object_id row
                    then (reject ''INTENT_REF_MOVED'', s)
                    else (case int_of (jget run ''id'') of
                        Inl e \<Rightarrow> (Inl e, s)
                      | Inr run_id \<Rightarrow> reconcile_dispatch H (nv_uid N) rid stg run_id current s))
           | _ \<Rightarrow>
               if dj_state job = DSending
               then (case resolve_dispatch H (nv_uid N) rid stg DUncertain ''DISPATCH_RECONCILIATION_AMBIGUOUS''
                            (dj_http_status job) current s of
                   (Inl e, s1) \<Rightarrow> (Inl e, s1)
                 | (Inr _, s1) \<Rightarrow> (reject ''DISPATCH_RECONCILIATION_AMBIGUOUS'', s1))
               else (reject ''DISPATCH_RECONCILIATION_AMBIGUOUS'', s)))"

end
