(* ===== verification/DispatcherProps.thy ===== *)
theory DispatcherProps
  imports Dispatcher IntentProps
begin

text \<open>
  At-most-once dispatch. Any number of calls of \<^verbatim>\<open>dispatch_stage\<close> run as machines over one
  registry, in any interleaving with each other and with every other registry operation; a
  crash is a call that takes no further step. In every state that this system reaches, a stage
  has been posted at most once, and only under a durable claim with its watermark.
\<close>

section \<open>The system of concurrent calls\<close>

record dispatch_call =
  dc_request_id :: string
  dc_stage :: string
  dc_pc :: dispatch_pc

record dispatch_system =
  sys_world :: dispatch_world
  sys_calls :: "dispatch_call list"

abbreviation sys_registry :: "dispatch_system \<Rightarrow> registry" where
  "sys_registry S \<equiv> dw_registry (sys_world S)"

abbreviation sys_posts :: "dispatch_system \<Rightarrow> post list" where
  "sys_posts S \<equiv> dw_posts (sys_world S)"

definition initial_system :: dispatch_system where
  "initial_system = \<lparr>sys_world = \<lparr>dw_registry = empty_registry, dw_posts = []\<rparr>, sys_calls = []\<rparr>"

inductive system_step :: "host \<Rightarrow> dispatch_system \<Rightarrow> dispatch_system \<Rightarrow> bool" for H where
  called: "system_step H S (S\<lparr>sys_calls := sys_calls S @ [\<lparr>dc_request_id = rid, dc_stage = stg, dc_pc = Begin\<rparr>]\<rparr>)"
| advanced: "\<lbrakk>i < length (sys_calls S); sys_calls S ! i = c;
    dispatch_step H O1 N (dc_request_id c) (dc_stage c) (dc_pc c) (sys_world S) = (pc, w)\<rbrakk>
    \<Longrightarrow> system_step H S (S\<lparr>sys_world := w, sys_calls := (sys_calls S)[i := c\<lparr>dc_pc := pc\<rparr>]\<rparr>)"
| elsewhere: "reg_op H (sys_registry S) s \<Longrightarrow> system_step H S (S\<lparr>sys_world := (sys_world S)\<lparr>dw_registry := s\<rparr>\<rparr>)"

section \<open>What the registry keeps of a claimed dispatch\<close>

definition claim_kept :: "dispatch_job \<Rightarrow> dispatch_job \<Rightarrow> bool" where
  "claim_kept d d' = (dj_state d' \<noteq> DPending \<and> dispatch_target d' = dispatch_target d
     \<and> (dj_watermark d \<noteq> None \<longrightarrow> dj_watermark d' = dj_watermark d))"

lemma claim_kept_change:
  assumes "reg_inv H s" "reg_change H s s'" "dispatch_of s rid stg = Some d" "dj_state d \<noteq> DPending"
  shows "\<exists>d'. dispatch_of s' rid stg = Some d' \<and> claim_kept d d'"
proof -
  from dispatch_kept [OF assms(2,3,4)] obtain d' where d': "dispatch_of s' rid stg = Some d'" "dj_state d' \<noteq> DPending"
    by blast
  from dispatch_lookup_change [OF assms(2) d'(1)] assms(3) d'(2) assms(4)
  have "claim_kept d d'"
    by (auto simp: claim_kept_def dispatch_move_def dispatch_note_def split: dispatch_state.splits)
  with d'(1) show ?thesis by blast
qed

lemma claim_kept_ops:
  assumes "(reg_op H)\<^sup>*\<^sup>* s t" "reg_inv H s" "dispatch_of s rid stg = Some d" "dj_state d \<noteq> DPending"
  shows "\<exists>d'. dispatch_of t rid stg = Some d' \<and> claim_kept d d'"
proof -
  let ?R = "\<lambda>s t. \<forall>d. dispatch_of s rid stg = Some d \<longrightarrow> dj_state d \<noteq> DPending
    \<longrightarrow> (\<exists>d'. dispatch_of t rid stg = Some d' \<and> claim_kept d d')"
  have "?R s t"
  proof (rule ops_monotone [OF assms(1,2)])
    show "?R x z" if "?R x y" "?R y z" for x y z
      using that unfolding claim_kept_def by metis
    show "?R x y" if "reg_inv H x" "reg_change H x y" for x y
      using claim_kept_change [OF that] by blast
  qed (simp add: claim_kept_def)
  with assms(3,4) show ?thesis by blast
qed

lemma watermark_success:
  assumes "record_dispatch_watermark rid stg watermark now s = (Inr d, s')"
  shows "\<exists>d'. dispatch_of s' rid stg = Some d' \<and> dj_state d' = DSending \<and> dj_watermark d' \<noteq> None"
proof -
  let ?f = "\<lambda>d. d\<lparr>dj_snapshot_at := Some (utc_seconds now), dj_watermark := Some watermark\<rparr>"
  from assms have txn: "watermark_txn rid stg watermark now s = Inr (d, s')"
    by (auto simp: record_dispatch_watermark_def transaction_Inr_iff split: if_splits)
  then obtain row where row: "dispatch_of s rid stg = Some row" "dj_state row = DSending"
    and alt: "s' = s \<and> dj_watermark row \<noteq> None \<or> update_dispatch rid stg ?f s = Inr s'"
    by (auto simp: watermark_txn_def Let_def bindE_Inr_iff split: option.splits if_splits)
  moreover have "dj_key (?f x) = dj_key x" for x by (simp add: dj_key_def)
  ultimately show ?thesis
    by (auto simp: update_dispatch_def Let_def lookup_row_update_key split: if_splits)
qed
section \<open>One step of a call\<close>

text \<open>The job under whose durable claim a call may still post.\<close>

fun held_job :: "dispatch_pc \<Rightarrow> dispatch_job option" where
  "held_job (ToSnapshot _ job) = Some job"
| "held_job (ToWatermark job _ _) = Some job"
| "held_job (ToPost job) = Some job"
| "held_job _ = None"

definition post_of :: "string \<Rightarrow> dispatch_job \<Rightarrow> post" where
  "post_of stg job = \<lparr>po_request_id = dj_request_id job, po_stage = stg, po_installation_id = dj_installation_id job,
     po_repository = dj_repository job, po_workflow_path = dj_workflow_path job\<rparr>"

lemma claim_pending:
  assumes "claim_dispatch H uid rid stg now s = (Inr d, s')"
  shows "\<exists>row. dispatch_of s rid stg = Some row \<and> dj_state row = DPending"
  using assms
  by (auto simp: claim_dispatch_def transaction_Inr_iff claim_txn_def Let_def bindE_Inr_iff
      split: option.splits if_splits)

lemma on_registry_cases:
  assumes "on_registry f next w = (pc, w')"
  obtains (failed) e s where "f (dw_registry w) = (Inl e, s)" "pc = Finished (Inl e)" "w' = w\<lparr>dw_registry := s\<rparr>"
  | (went) x s where "f (dw_registry w) = (Inr x, s)" "pc = next x" "w' = w\<lparr>dw_registry := s\<rparr>"
  using assms by (auto simp: on_registry_def split: prod.splits sum.splits)

definition quiet_step :: "host \<Rightarrow> string \<Rightarrow> string \<Rightarrow> dispatch_pc \<Rightarrow> dispatch_world \<Rightarrow> dispatch_pc \<Rightarrow> dispatch_world \<Rightarrow> bool" where
  "quiet_step H rid stg pc w pc' w' \<longleftrightarrow> dw_posts w' = dw_posts w
     \<and> (reg_op H)\<^sup>*\<^sup>* (dw_registry w) (dw_registry w')
     \<and> (held_job pc' \<noteq> None \<longrightarrow> held_job pc' = held_job pc)
     \<and> (\<forall>job. pc' = ToPost job \<longrightarrow>
          (\<exists>d. dispatch_of (dw_registry w') rid stg = Some d \<and> dj_watermark d \<noteq> None))"

definition claim_step :: "host \<Rightarrow> string \<Rightarrow> string \<Rightarrow> dispatch_world \<Rightarrow> dispatch_pc \<Rightarrow> dispatch_world \<Rightarrow> bool" where
  "claim_step H rid stg w pc' w' \<longleftrightarrow> dw_posts w' = dw_posts w \<and> reg_op H (dw_registry w) (dw_registry w')
     \<and> (\<exists>row job. pc' = ToSnapshot row job \<and> dispatch_of (dw_registry w') rid stg = Some job \<and> dj_state job = DSending)
     \<and> (\<exists>d. dispatch_of (dw_registry w) rid stg = Some d \<and> dj_state d = DPending)"

definition post_step :: "string \<Rightarrow> dispatch_pc \<Rightarrow> dispatch_world \<Rightarrow> dispatch_pc \<Rightarrow> dispatch_world \<Rightarrow> bool" where
  "post_step stg pc w pc' w' \<longleftrightarrow> (\<exists>job. pc = ToPost job \<and> held_job pc' = None
     \<and> w' = w\<lparr>dw_posts := dw_posts w @ [post_of stg job]\<rparr>)"

lemma quiet_registry:
  assumes "on_registry f next w = (pc', w')" and "\<And>r s. f (dw_registry w) = (r, s) \<Longrightarrow> reg_op H (dw_registry w) s"
    and "\<And>x. held_job (next x) = None"
  shows "quiet_step H rid stg pc w pc' w'"
  using assms(1)
proof (cases rule: on_registry_cases)
  case (failed e s)
  with assms(2) show ?thesis by (auto simp: quiet_step_def)
next
  case (went x s)
  with assms(2) assms(3) [of x] show ?thesis by (auto simp: quiet_step_def)
qed

lemma dispatch_step_cases:
  assumes "dispatch_step H O1 N rid stg pc w = (pc', w')"
  shows "quiet_step H rid stg pc w pc' w' \<or> claim_step H rid stg w pc' w' \<and> held_job pc = None
    \<or> post_step stg pc w pc' w'"
proof (cases pc)
  case Begin
  with assms show ?thesis
    by (auto simp: dispatch_step_def quiet_step_def split: sum.splits prod.splits)
next
  case (ToQueue row current)
  with assms have "quiet_step H rid stg pc w pc' w'"
    by (intro quiet_registry) (auto simp: dispatch_step_def intro: reg_op.queue_op)
  then show ?thesis ..
next
  case (ToClaim row current)
  with assms have "on_registry (claim_dispatch H (nv_uid N) rid stg current) (ToSnapshot row) w = (pc', w')"
    by (simp add: dispatch_step_def)
  then show ?thesis
  proof (cases rule: on_registry_cases)
    case (failed e s)
    then show ?thesis by (auto simp: quiet_step_def intro: reg_op.claim_op)
  next
    case (went d s)
    then have "claim_step H rid stg w pc' w'"
      using claim_success [OF went(1)] claim_pending [OF went(1)] by (auto simp: claim_step_def intro: reg_op.claim_op)
    with ToClaim show ?thesis by simp
  qed
next
  case (ToSnapshot row claimed)
  with assms show ?thesis
    by (auto simp: dispatch_step_def quiet_step_def split: sum.splits)
next
  case (ToWatermark claimed snapshot_at watermark)
  with assms have "on_registry (record_dispatch_watermark rid stg watermark snapshot_at) (\<lambda>_. ToPost claimed) w = (pc', w')"
    by (simp add: dispatch_step_def)
  then have "quiet_step H rid stg pc w pc' w'"
  proof (cases rule: on_registry_cases)
    case (failed e s)
    then show ?thesis by (auto simp: quiet_step_def intro: reg_op.watermark_op)
  next
    case (went d s)
    with watermark_success [OF went(1)] ToWatermark show ?thesis
      by (auto simp: quiet_step_def intro: reg_op.watermark_op)
  qed
  then show ?thesis ..
next
  case (ToPost claimed)
  with assms have "post_step stg pc w pc' w'"
    by (auto simp: dispatch_step_def post_step_def post_of_def split: sum.splits)
  then show ?thesis by simp
next
  case (ToRecord result)
  have "quiet_step H rid stg pc w pc' w'"
  proof (cases "dr_accepted result")
    case True
    show ?thesis
    proof (cases "dr_status result")
      case None
      with True ToRecord assms show ?thesis by (auto simp: dispatch_step_def quiet_step_def)
    next
      case (Some status)
      with True ToRecord assms show ?thesis
        by (intro quiet_registry) (auto simp: dispatch_step_def intro: reg_op.posted_op)
    qed
  next
    case False
    with ToRecord assms show ?thesis
      by (intro quiet_registry) (auto simp: dispatch_step_def intro: reg_op.resolve_op)
  qed
  then show ?thesis ..
next
  case (Finished r)
  with assms show ?thesis by (auto simp: dispatch_step_def quiet_step_def)
qed
section \<open>The invariant of the system\<close>

abbreviation post_key :: "post \<Rightarrow> string \<times> string" where
  "post_key p \<equiv> (po_request_id p, po_stage p)"

abbreviation call_key :: "dispatch_call \<Rightarrow> string \<times> string" where
  "call_key c \<equiv> (dc_request_id c, dc_stage c)"

definition holding :: "string \<times> string \<Rightarrow> dispatch_call \<Rightarrow> bool" where
  "holding k c \<longleftrightarrow> call_key c = k \<and> held_job (dc_pc c) \<noteq> None"

text \<open>The posts made for a stage and the calls that may still make one.\<close>

definition permits :: "dispatch_system \<Rightarrow> string \<times> string \<Rightarrow> nat" where
  "permits S k = length (filter (\<lambda>p. post_key p = k) (sys_posts S)) + length (filter (holding k) (sys_calls S))"

text \<open>The dispatch that a post or a held job stands for, as the registry has it.\<close>

definition backed :: "registry \<Rightarrow> string \<times> string \<Rightarrow> dispatch_job \<Rightarrow> bool" where
  "backed s k job \<longleftrightarrow> dj_key job = k \<and> (\<exists>d. lookup_by dj_key k (r_dispatches s) = Some d
     \<and> dj_state d \<noteq> DPending \<and> dispatch_target d = dispatch_target job)"

definition watermarked :: "registry \<Rightarrow> string \<times> string \<Rightarrow> bool" where
  "watermarked s k \<longleftrightarrow> (\<exists>d. lookup_by dj_key k (r_dispatches s) = Some d \<and> dj_state d \<noteq> DPending \<and> dj_watermark d \<noteq> None)"

definition call_ok :: "registry \<Rightarrow> dispatch_call \<Rightarrow> bool" where
  "call_ok s c \<longleftrightarrow> (\<forall>job. held_job (dc_pc c) = Some job \<longrightarrow> backed s (call_key c) job)
     \<and> (\<forall>job. dc_pc c = ToPost job \<longrightarrow> watermarked s (call_key c))"

definition post_ok :: "registry \<Rightarrow> post \<Rightarrow> bool" where
  "post_ok s p \<longleftrightarrow> watermarked s (post_key p) \<and> (\<exists>job. backed s (post_key p) job \<and> p = post_of (po_stage p) job)"

definition system_inv :: "host \<Rightarrow> dispatch_system \<Rightarrow> bool" where
  "system_inv H S \<longleftrightarrow> reg_inv H (sys_registry S) \<and> (\<forall>k. permits S k \<le> 1)
     \<and> (\<forall>c \<in> set (sys_calls S). call_ok (sys_registry S) c) \<and> (\<forall>p \<in> set (sys_posts S). post_ok (sys_registry S) p)"

lemma backed_ops: "(reg_op H)\<^sup>*\<^sup>* s t \<Longrightarrow> reg_inv H s \<Longrightarrow> backed s k job \<Longrightarrow> backed t k job"
  using claim_kept_ops [of H s t "fst k" "snd k"] by (fastforce simp: backed_def claim_kept_def)

lemma watermarked_ops: "(reg_op H)\<^sup>*\<^sup>* s t \<Longrightarrow> reg_inv H s \<Longrightarrow> watermarked s k \<Longrightarrow> watermarked t k"
  using claim_kept_ops [of H s t "fst k" "snd k"] by (fastforce simp: watermarked_def claim_kept_def)

lemma ok_ops:
  assumes "(reg_op H)\<^sup>*\<^sup>* s t" "reg_inv H s"
  shows "call_ok s c \<Longrightarrow> call_ok t c" "post_ok s p \<Longrightarrow> post_ok t p"
  using backed_ops [OF assms] watermarked_ops [OF assms] by (auto simp: call_ok_def post_ok_def)

lemma permit_backed:
  assumes "system_inv H S" "permits S k \<noteq> 0"
  shows "\<exists>d. lookup_by dj_key k (r_dispatches (sys_registry S)) = Some d \<and> dj_state d \<noteq> DPending"
proof -
  from assms(2) consider p where "p \<in> set (sys_posts S)" "post_key p = k"
    | c where "c \<in> set (sys_calls S)" "holding k c"
    by (auto simp: permits_def filter_empty_conv)
  then show ?thesis
  proof cases
    case 1
    with assms(1) show ?thesis by (auto simp: system_inv_def post_ok_def watermarked_def)
  next
    case 2
    then obtain job where "held_job (dc_pc c) = Some job" "call_key c = k" by (auto simp: holding_def)
    moreover have "call_ok (sys_registry S) c" using assms(1) 2(1) by (simp add: system_inv_def)
    ultimately show ?thesis by (auto simp: call_ok_def backed_def)
  qed
qed

lemma filter_update:
  assumes "i < length xs"
  shows "length (filter P (xs[i := y])) + (if P (xs ! i) then 1 else 0) = length (filter P xs) + (if P y then 1 else 0)"
  using assms
proof (induction xs arbitrary: i)
  case Nil
  then show ?case by simp
next
  case (Cons x xs)
  then show ?case by (cases i) auto
qed

lemma set_update: "c' \<in> set (xs[i := c]) \<Longrightarrow> c' = c \<or> c' \<in> set xs"
  using set_update_subset_insert by fast
lemma update_call_ok:
  assumes "\<forall>c \<in> set calls. call_ok s c" "(reg_op H)\<^sup>*\<^sup>* s t" "reg_inv H s" "call_ok t c'"
  shows "\<forall>c \<in> set (calls[i := c']). call_ok t c"
  using assms ok_ops(1) [OF assms(2,3)] by (auto dest!: set_update)

lemma quiet_inv:
  assumes "system_inv H S" "i < length (sys_calls S)" "sys_calls S ! i = c"
    and q: "quiet_step H (dc_request_id c) (dc_stage c) (dc_pc c) (sys_world S) pc w"
  shows "system_inv H (S\<lparr>sys_world := w, sys_calls := (sys_calls S)[i := c\<lparr>dc_pc := pc\<rparr>]\<rparr>)"
proof -
  let ?c = "c\<lparr>dc_pc := pc\<rparr>"
  have inv: "reg_inv H (sys_registry S)" "\<forall>k. permits S k \<le> 1" "\<forall>c \<in> set (sys_calls S). call_ok (sys_registry S) c"
    "\<forall>p \<in> set (sys_posts S). post_ok (sys_registry S) p" using assms(1) by (simp_all add: system_inv_def)
  have ops: "(reg_op H)\<^sup>*\<^sup>* (sys_registry S) (dw_registry w)" and posts: "dw_posts w = sys_posts S"
    and held: "held_job pc \<noteq> None \<longrightarrow> held_job pc = held_job (dc_pc c)" using q by (simp_all add: quiet_step_def)
  have "c \<in> set (sys_calls S)" using assms(2,3) by auto
  then have c: "call_ok (dw_registry w) c" using inv(3) ok_ops(1) [OF ops inv(1)] by blast
  have "call_ok (dw_registry w) ?c"
    using c held q by (fastforce simp: call_ok_def quiet_step_def watermarked_def backed_def)
  moreover have "holding k ?c \<Longrightarrow> holding k c" for k using held by (auto simp: holding_def)
  then have "permits (S\<lparr>sys_world := w, sys_calls := (sys_calls S)[i := ?c]\<rparr>) k \<le> permits S k" for k
    using filter_update [OF assms(2), of "holding k" ?c] assms(3) posts by (auto simp: permits_def split: if_splits)
  then have "permits (S\<lparr>sys_world := w, sys_calls := (sys_calls S)[i := ?c]\<rparr>) k \<le> 1" for k
    using inv(2) le_trans by blast
  ultimately show ?thesis
    using inv ops posts ok_ops(2) [OF ops inv(1)] update_call_ok [OF inv(3) ops inv(1)] ops.inv_steps [OF ops inv(1)]
    by (simp add: system_inv_def)
qed

lemma claim_inv:
  assumes "system_inv H S" "i < length (sys_calls S)" "sys_calls S ! i = c" "held_job (dc_pc c) = None"
    and q: "claim_step H (dc_request_id c) (dc_stage c) (sys_world S) pc w"
  shows "system_inv H (S\<lparr>sys_world := w, sys_calls := (sys_calls S)[i := c\<lparr>dc_pc := pc\<rparr>]\<rparr>)"
proof -
  let ?c = "c\<lparr>dc_pc := pc\<rparr>"
  have inv: "reg_inv H (sys_registry S)" "\<forall>k. permits S k \<le> 1" "\<forall>c \<in> set (sys_calls S). call_ok (sys_registry S) c"
    "\<forall>p \<in> set (sys_posts S). post_ok (sys_registry S) p" using assms(1) by (simp_all add: system_inv_def)
  have op: "reg_op H (sys_registry S) (dw_registry w)" and posts: "dw_posts w = sys_posts S"
    using q by (simp_all add: claim_step_def)
  have ops: "(reg_op H)\<^sup>*\<^sup>* (sys_registry S) (dw_registry w)" using op by blast
  obtain row job where pc: "pc = ToSnapshot row job" and d: "dispatch_of (dw_registry w) (dc_request_id c) (dc_stage c) = Some job"
    "dj_state job = DSending" using q by (auto simp: claim_step_def)
  have "permits S (call_key c) = 0"
  proof (rule ccontr)
    assume "permits S (call_key c) \<noteq> 0"
    from permit_backed [OF assms(1) this] q show False by (auto simp: claim_step_def)
  qed
  then have one: "permits (S\<lparr>sys_world := w, sys_calls := (sys_calls S)[i := ?c]\<rparr>) (call_key c) \<le> 1"
    using filter_update [OF assms(2), of "holding (call_key c)" ?c] posts by (auto simp: permits_def split: if_splits)
  have "permits (S\<lparr>sys_world := w, sys_calls := (sys_calls S)[i := ?c]\<rparr>) k \<le> permits S k" if "k \<noteq> call_key c" for k
    using filter_update [OF assms(2), of "holding k" ?c] that posts by (auto simp: permits_def holding_def split: if_splits)
  with one inv(2) have permits: "permits (S\<lparr>sys_world := w, sys_calls := (sys_calls S)[i := ?c]\<rparr>) k \<le> 1" for k
    by (metis le_trans)
  have "call_ok (dw_registry w) ?c"
    using d lookup_by_SomeD [OF d(1)] pc by (auto simp: call_ok_def backed_def)
  with permits show ?thesis
    using inv posts ok_ops(2) [OF ops inv(1)] update_call_ok [OF inv(3) ops inv(1)] ops.inv_step [OF inv(1) op]
    by (simp add: system_inv_def)
qed

lemma post_inv:
  assumes "system_inv H S" "i < length (sys_calls S)" "sys_calls S ! i = c"
    and q: "post_step (dc_stage c) (dc_pc c) (sys_world S) pc w"
  shows "system_inv H (S\<lparr>sys_world := w, sys_calls := (sys_calls S)[i := c\<lparr>dc_pc := pc\<rparr>]\<rparr>)"
proof -
  let ?c = "c\<lparr>dc_pc := pc\<rparr>"
  have inv: "reg_inv H (sys_registry S)" "\<forall>k. permits S k \<le> 1" "\<forall>c \<in> set (sys_calls S). call_ok (sys_registry S) c"
    "\<forall>p \<in> set (sys_posts S). post_ok (sys_registry S) p" using assms(1) by (simp_all add: system_inv_def)
  obtain job where job: "dc_pc c = ToPost job" "held_job pc = None"
    and w: "w = (sys_world S)\<lparr>dw_posts := sys_posts S @ [post_of (dc_stage c) job]\<rparr>" using q by (auto simp: post_step_def)
  have "c \<in> set (sys_calls S)" using assms(2,3) by auto
  then have c: "call_ok (sys_registry S) c" using inv(3) by blast
  then have backed: "backed (sys_registry S) (call_key c) job" "watermarked (sys_registry S) (call_key c)"
    using job(1) by (auto simp: call_ok_def)
  then have key: "post_key (post_of (dc_stage c) job) = call_key c" by (auto simp: backed_def dj_key_def post_of_def)
  have "holding k c \<longleftrightarrow> k = call_key c" "\<not> holding k ?c" for k using job by (auto simp: holding_def)
  then have "permits (S\<lparr>sys_world := w, sys_calls := (sys_calls S)[i := ?c]\<rparr>) k = permits S k" for k
    using filter_update [OF assms(2), of "holding k" ?c] assms(3) w key by (auto simp: permits_def)
  moreover have "call_ok (sys_registry S) ?c" using job(2) by (auto simp: call_ok_def)
  then have "\<forall>c' \<in> set ((sys_calls S)[i := ?c]). call_ok (sys_registry S) c'"
    using inv(3) by (auto dest!: set_update)
  moreover have "post_ok (sys_registry S) (post_of (dc_stage c) job)"
    using backed key by (auto simp: post_ok_def post_of_def)
  ultimately show ?thesis using inv w by (simp add: system_inv_def)
qed

lemma system_inv_step: "system_inv H S \<Longrightarrow> system_step H S S' \<Longrightarrow> system_inv H S'"
proof (erule system_step.cases)
  assume "system_inv H S"
  fix Sa rid stg assume "S = Sa" "S' = Sa\<lparr>sys_calls := sys_calls Sa @ [\<lparr>dc_request_id = rid, dc_stage = stg, dc_pc = Begin\<rparr>]\<rparr>"
  with \<open>system_inv H S\<close> show "system_inv H S'" by (auto simp: system_inv_def permits_def holding_def call_ok_def)
next
  assume inv: "system_inv H S"
  fix i Sa c O1 N pc w
  assume a: "S = Sa" "S' = Sa\<lparr>sys_world := w, sys_calls := (sys_calls Sa)[i := c\<lparr>dc_pc := pc\<rparr>]\<rparr>" "i < length (sys_calls Sa)"
    "sys_calls Sa ! i = c" "dispatch_step H O1 N (dc_request_id c) (dc_stage c) (dc_pc c) (sys_world Sa) = (pc, w)"
  from dispatch_step_cases [OF a(5)] a(1-4) inv show "system_inv H S'"
    by (auto intro: quiet_inv claim_inv post_inv)
next
  assume inv: "system_inv H S"
  fix Sa s assume a: "S = Sa" "S' = Sa\<lparr>sys_world := (sys_world Sa)\<lparr>dw_registry := s\<rparr>\<rparr>" "reg_op H (sys_registry Sa) s"
  have "(reg_op H)\<^sup>*\<^sup>* (sys_registry S) s" using a by blast
  from ok_ops [OF this] inv ops.inv_step [of H "sys_registry S" s] a show "system_inv H S'"
    by (auto simp: system_inv_def permits_def)
qed

interpretation system: invariant_system "system_step H" "\<lambda>S. S = initial_system" "system_inv H" for H
proof unfold_locales
  show "system_inv H S" if "S = initial_system" for S
    using that by (simp add: initial_system_def system_inv_def permits_def reg_inv_empty)
qed (rule system_inv_step)
section \<open>At most one POST\<close>

text \<open>
  C6: at-most-once dispatch under crashes and concurrency. However many calls of
  \<open>dispatch_stage\<close> run, interleave with each other and with other registry operations, and stop
  part-way, every stage of every intent is posted at most once; a stage that was posted has a
  dispatch in the registry that is durably claimed, carries its pre-dispatch watermark, and names
  the installation, repository and workflow of the POST.
\<close>

theorem dispatch_at_most_once:
  assumes "(system_step H)\<^sup>*\<^sup>* initial_system S"
  shows "length (filter (\<lambda>p. po_request_id p = rid \<and> po_stage p = stg) (sys_posts S)) \<le> 1
    \<and> (\<forall>p \<in> set (sys_posts S). \<exists>d. dispatch_of (sys_registry S) (po_request_id p) (po_stage p) = Some d
         \<and> dj_state d \<noteq> DPending \<and> dj_watermark d \<noteq> None \<and> dj_installation_id d = po_installation_id p
         \<and> dj_repository d = po_repository p \<and> dj_workflow_path d = po_workflow_path p)"
proof -
  from system.inv_reachable [OF _ assms] have inv: "system_inv H S" by simp
  then have "permits S (rid, stg) \<le> 1" by (simp add: system_inv_def)
  then have "length (filter (\<lambda>p. po_request_id p = rid \<and> po_stage p = stg) (sys_posts S)) \<le> 1"
    by (simp add: permits_def)
  moreover have "\<exists>d. dispatch_of (sys_registry S) (po_request_id p) (po_stage p) = Some d
         \<and> dj_state d \<noteq> DPending \<and> dj_watermark d \<noteq> None \<and> dj_installation_id d = po_installation_id p
         \<and> dj_repository d = po_repository p \<and> dj_workflow_path d = po_workflow_path p" if "p \<in> set (sys_posts S)" for p
  proof -
    from inv that have "post_ok (sys_registry S) p" by (simp add: system_inv_def)
    then obtain job where "watermarked (sys_registry S) (post_key p)" "backed (sys_registry S) (post_key p) job"
      and p: "p = post_of (po_stage p) job" by (auto simp: post_ok_def)
    moreover have "po_installation_id p = dj_installation_id job" "po_repository p = dj_repository job"
      "po_workflow_path p = dj_workflow_path job" by (subst p, simp add: post_of_def)+
    ultimately show ?thesis by (auto simp: watermarked_def backed_def dispatch_target_def)
  qed
  ultimately show ?thesis by blast
qed

section \<open>A call ends\<close>

fun pc_rank :: "dispatch_pc \<Rightarrow> nat" where
  "pc_rank Begin = 7"
| "pc_rank (ToQueue _ _) = 6"
| "pc_rank (ToClaim _ _) = 5"
| "pc_rank (ToSnapshot _ _) = 4"
| "pc_rank (ToWatermark _ _ _) = 3"
| "pc_rank (ToPost _) = 2"
| "pc_rank (ToRecord _) = 1"
| "pc_rank (Finished _) = 0"

lemma on_registry_rank: "(\<And>x. pc_rank (next x) \<le> n) \<Longrightarrow> pc_rank (fst (on_registry f next w)) \<le> n"
  by (auto simp: on_registry_def split: prod.splits sum.splits)

lemma dispatch_step_rank: "pc_rank (fst (dispatch_step H O1 N rid stg pc w)) \<le> pc_rank pc - 1"
proof (cases pc)
  case (ToRecord result)
  then show ?thesis
    by (auto simp: dispatch_step_def on_registry_def split: option.splits prod.splits sum.splits)
qed (auto simp: dispatch_step_def split: sum.splits prod.splits intro!: on_registry_rank)

lemma pc_rank_0: "pc_rank pc = 0 \<Longrightarrow> \<exists>r. pc = Finished r"
  by (cases pc) auto

lemma dispatch_steps_rank:
  "pc_rank (fst c) \<le> n \<Longrightarrow> \<exists>r w. dispatch_steps H O1 Ns rid stg i n c = (Finished r, w)"
proof (induction n arbitrary: i c)
  case 0
  then show ?case using pc_rank_0 [of "fst c"] by (cases c) auto
next
  case (Suc n)
  obtain pc w where c: "c = (pc, w)" by (cases c)
  have "pc_rank (fst (dispatch_step H O1 (Ns i) rid stg pc w)) \<le> n"
    using dispatch_step_rank [of H O1 "Ns i" rid stg pc w] Suc.prems c by simp
  from Suc.IH [OF this] show ?case using c by simp
qed

text \<open>The seven accesses of \<open>dispatch_stage\<close> are enough for every call to end with a result.\<close>

lemma dispatch_stage_finishes: "\<exists>r w'. dispatch_stage H O1 Ns rid stg w = (Finished r, w')"
  using dispatch_steps_rank [of "(Begin, w)" 7 H O1 Ns rid stg 0] by (auto simp: dispatch_stage_def)

section \<open>Reconciliation\<close>

lemma resolve_state:
  assumes "resolve_dispatch H uid rid stg st reason status now s = (Inr job, s')"
  shows "dj_state job = st"
  using assms
  by (auto simp: resolve_dispatch_def transaction_Inr_iff resolve_txn_def Let_def bindE_Inr_iff
      split: option.splits if_splits)

lemma reconcile_success:
  assumes "reconcile_dispatch H uid rid stg run now s = (Inr job, s')"
  shows "dispatch_of s' rid stg = Some job \<and> dj_run_id job = Some run"
proof -
  let ?f = "\<lambda>d. d\<lparr>dj_state := DAccepted, dj_resolved_at := Some (utc_seconds now),
                        dj_reason_code := Some ''DISPATCH_RECONCILED_LIVE_RUN'', dj_run_id := Some run\<rparr>"
  from assms have "integrity_as ''DISPATCH_RUN_REUSED'' (reconcile_txn H uid rid stg run now s) = Inr (job, s')"
    by (auto simp: reconcile_dispatch_def transaction_Inr_iff split: if_splits)
  then have txn: "reconcile_txn H uid rid stg run now s = Inr (job, s')"
    by (auto simp: integrity_as_def split: sum.splits perror.splits)
  then obtain row where row: "dispatch_of s rid stg = Some row"
    and alt: "s' = s \<and> job = row \<and> dj_run_id row = Some run \<or>
      (\<exists>s1 fr. job = ?f row \<and> update_dispatch rid stg ?f s = Inr s1
         \<and> append_event H (uid 0) rid (Some stg) fr (dispatch_name DAccepted)
             ''DISPATCH_RECONCILED_LIVE_RUN'' (utc_seconds now) s1 = Inr s')"
    by (auto simp: reconcile_txn_def Let_def bindE_Inr_iff split: option.splits if_splits)
  from alt show ?thesis
  proof (elim disjE exE conjE)
    fix s1 fr
    assume a: "job = ?f row" "update_dispatch rid stg ?f s = Inr s1"
      and e: "append_event H (uid 0) rid (Some stg) fr (dispatch_name DAccepted)
             ''DISPATCH_RECONCILED_LIVE_RUN'' (utc_seconds now) s1 = Inr s'"
    from a(2) have "r_dispatches s1 = row_update (\<lambda>d. dj_key d = (rid, stg)) ?f (r_dispatches s)"
      by (auto simp: update_dispatch_def Let_def split: if_splits)
    moreover have "dj_key (?f x) = dj_key x" for x by (simp add: dj_key_def)
    ultimately show ?thesis
      using append_event_tables(3) [OF e] row a(1) lookup_row_update_key [of dj_key ?f "(rid, stg)" "(rid, stg)"] by simp
  qed (use row in simp)
qed

lemma matching_run_facts:
  assumes "matching_run H job row ws we now watermark run"
  obtains n where "jget run ''id'' = JInt n" "watermark < n" "jget run ''head_sha'' = JStr (in_head_sha row)"
    "jget run ''head_branch'' = JStr (intent_branch row)" "jget run ''path'' = JStr (dj_workflow_path job)"
    "\<exists>t. parse_utc H (jget run ''created_at'') = Inr t \<and> ws \<le> t \<and> t \<le> we"
  using assms by (auto simp: matching_run_def eq_str_def split: json.splits sum.splits)

lemma reconciliation_view_Inr:
  assumes "reconciliation_view H N rid stg s = Inr (job, row, window_end, matches)"
  obtains claimed_at watermark envelope v runs where
    "dispatch_of s rid stg = Some job" "dj_state job \<in> {DSending, DUncertain}" "dj_claimed_at job = Some claimed_at"
    "dj_watermark job = Some watermark" "verified_record H N rid s = Inr (row, envelope, v)"
    "nv_runs N (dj_installation_id job) (dj_repository job) (dj_workflow_path job) (intent_branch row)
       (utc_text (utc_seconds (fst (reconciliation_window job row claimed_at))))
       (utc_text (utc_seconds (snd (reconciliation_window job row claimed_at)))) = Inr runs"
    "matches = filter (matching_run H job row (fst (reconciliation_window job row claimed_at))
       (snd (reconciliation_window job row claimed_at)) (nv_now N) watermark) runs"
  using assms
  by (auto simp: reconciliation_view_def bindE_Inr_iff get_dispatch_def Let_def case_prod_beta)

text \<open>
  C25: reconciliation accepts a dispatch only for the one live run that is provably its own: the
  evidence still verifies, the intent ref has not moved, exactly one listed run matches, that run
  is newer than the watermark, was created within the claim's window, and runs the registered
  workflow at the registered commit; the registry then holds this run.
\<close>

theorem reconciled_run_is_own:
  assumes "orchestrator_reconcile_dispatch H N rid stg s = (Inr job, s')" "dj_state job = DAccepted"
  shows "\<exists>old claimed_at watermark row envelope v runs run n live_ref.
     dispatch_of s rid stg = Some old \<and> dj_claimed_at old = Some claimed_at \<and> dj_watermark old = Some watermark
     \<and> verified_record H N rid s = Inr (row, envelope, v)
     \<and> nv_runs N (dj_installation_id old) (dj_repository old) (dj_workflow_path old) (intent_branch row)
          (utc_text (utc_seconds (fst (reconciliation_window old row claimed_at))))
          (utc_text (utc_seconds (snd (reconciliation_window old row claimed_at)))) = Inr runs
     \<and> filter (matching_run H old row (fst (reconciliation_window old row claimed_at))
          (snd (reconciliation_window old row claimed_at)) (nv_now N) watermark) runs = [run]
     \<and> jget run ''id'' = JInt n \<and> watermark < n \<and> jget run ''head_sha'' = JStr (in_head_sha row)
     \<and> jget run ''path'' = JStr (dj_workflow_path old)
     \<and> nv_intent_ref N (dj_installation_id old) (dj_repository old) rid = Inr live_ref
     \<and> ir_head_sha live_ref = in_head_sha row \<and> in_ref_object_id row = Some (ir_ref_object_id live_ref)
     \<and> dj_run_id job = Some n \<and> dispatch_of s' rid stg = Some job"
proof -
  from assms(1) obtain old row window_end matches where view: "reconciliation_view H N rid stg s = Inr (old, row, window_end, matches)"
    by (auto simp: orchestrator_reconcile_dispatch_def Let_def split: sum.splits)
  from reconciliation_view_Inr [OF this] obtain claimed_at watermark envelope v runs where v:
    "dispatch_of s rid stg = Some old" "dj_state old \<in> {DSending, DUncertain}" "dj_claimed_at old = Some claimed_at"
    "dj_watermark old = Some watermark" "verified_record H N rid s = Inr (row, envelope, v)"
    "nv_runs N (dj_installation_id old) (dj_repository old) (dj_workflow_path old) (intent_branch row)
       (utc_text (utc_seconds (fst (reconciliation_window old row claimed_at))))
       (utc_text (utc_seconds (snd (reconciliation_window old row claimed_at)))) = Inr runs"
    "matches = filter (matching_run H old row (fst (reconciliation_window old row claimed_at))
       (snd (reconciliation_window old row claimed_at)) (nv_now N) watermark) runs" .
  from assms(1) [unfolded orchestrator_reconcile_dispatch_def Let_def view sum.case prod.case] assms(2) v(2)
  obtain run where run: "matches = [run]"
    by (auto split: list.splits if_splits prod.splits sum.splits dest!: resolve_state)
  then have "matching_run H old row (fst (reconciliation_window old row claimed_at))
       (snd (reconciliation_window old row claimed_at)) (nv_now N) watermark run"
    unfolding v(7) by (metis filter_eq_ConsD list.set_intros(1))
  then obtain n where n: "jget run ''id'' = JInt n" "watermark < n" "jget run ''head_sha'' = JStr (in_head_sha row)"
    "jget run ''path'' = JStr (dj_workflow_path old)" by (auto elim: matching_run_facts)
  from assms(1) [unfolded orchestrator_reconcile_dispatch_def Let_def view sum.case prod.case run list.case]
  obtain live_ref where ref: "nv_intent_ref N (dj_installation_id old) (dj_repository old) rid = Inr live_ref"
    "ir_head_sha live_ref = in_head_sha row" "in_ref_object_id row = Some (ir_ref_object_id live_ref)"
    "reconcile_dispatch H (nv_uid N) rid stg n (nv_now N) s = (Inr job, s')"
    using n(1) by (auto simp: int_of_def split: sum.splits if_splits)
  show ?thesis
    using v run n ref reconcile_success [OF ref(4)] by blast
qed
section \<open>A dispatch and its reconciliation\<close>

definition disp_host :: host where
  "disp_host = toy_host\<lparr>h_json_loads := (\<lambda>_. Some toy_envelope)\<rparr>"

definition disp_run :: "int \<Rightarrow> (string \<times> json) list" where
  "disp_run n = [(''id'', JInt n), (''run_attempt'', JInt 1), (''event'', JStr ''workflow_dispatch''),
     (''head_branch'', JStr ''refs/i''), (''head_sha'', JStr (replicate 40 (CHR ''a''))), (''path'', JStr ''w.yml''),
     (''triggering_actor'', JObj [(''id'', JInt 5)]),
     (''repository'', JObj [(''id'', JInt 7), (''full_name'', JStr ''o/r'')]),
     (''head_repository'', JObj [(''id'', JInt 7), (''full_name'', JStr ''o/r'')]),
     (''created_at'', JStr ''2001-01-01T00:00:00Z'')]"

definition disp_ref :: intent_ref where
  "disp_ref = \<lparr>ir_ref_object_id = replicate 40 (CHR ''b''), ir_head_sha = replicate 40 (CHR ''a''), ir_annotated = False\<rparr>"

definition disp_result :: dispatch_result where
  "disp_result = \<lparr>dr_accepted = True, dr_ambiguous = False, dr_status = Some 204, dr_reason_code = ''POSTED''\<rparr>"

definition disp_env :: "nat \<Rightarrow> (string \<times> json) list list \<Rightarrow> surroundings" where
  "disp_env k runs = \<lparr>nv_now = t0, nv_uid = toy_uid k, nv_verify = (\<lambda>_. Inr toy_bundle),
     nv_create_ref = (\<lambda>_ _ _ _. Inr disp_ref), nv_dispatch = (\<lambda>_ _ _ _. Inr disp_result),
     nv_intent_ref = (\<lambda>_ _ _. Inr disp_ref), nv_runs = (\<lambda>_ _ _ _ _ _. Inr runs)\<rparr>"

definition disp_orchestrator :: orchestrator where
  "disp_orchestrator = \<lparr>oc_installation_id = 2, oc_registration_principal = ''spiffe://c''\<rparr>"

definition disp_job :: "int option \<Rightarrow> dispatch_job" where
  "disp_job watermark = lit_dispatch DSending (Some 978307200) (map_option (\<lambda>_. 978307200) watermark) watermark None None None"

abbreviation disp_world :: "registry \<Rightarrow> post list \<Rightarrow> dispatch_world" where
  "disp_world s ps \<equiv> \<lparr>dw_registry = s, dw_posts = ps\<rparr>"

abbreviation disp_system :: "registry \<Rightarrow> post list \<Rightarrow> dispatch_pc \<Rightarrow> dispatch_system" where
  "disp_system s ps pc \<equiv> \<lparr>sys_world = disp_world s ps, sys_calls = [\<lparr>dc_request_id = ''q'', dc_stage = ''apply'', dc_pc = pc\<rparr>]\<rparr>"

lemma disp_advance:
  assumes "dispatch_step disp_host disp_orchestrator N ''q'' ''apply'' pc (disp_world s ps) = (pc', disp_world s' ps')"
  shows "system_step disp_host (disp_system s ps pc) (disp_system s' ps' pc')"
  using system_step.advanced [of 0 "disp_system s ps pc" "\<lparr>dc_request_id = ''q'', dc_stage = ''apply'', dc_pc = pc\<rparr>"
      disp_host disp_orchestrator N pc' "disp_world s' ps'"] assms by simp

lemma disp_registered: "reg_op disp_host empty_registry toy_registered"
  by (rule reg_op.register_op [of _ "toy_uid 1" toy_envelope toy_bundle "''spiffe://c''" t0 _ "Inr True"]) code_simp

lemma disp_finalized: "reg_op disp_host toy_registered toy_finalized"
  by (rule reg_op.finalize_op [of _ "toy_uid 2" "''q''" "replicate 40 (CHR ''b'')" "replicate 40 (CHR ''a'')" t0 _ "Inr True"]) code_simp

lemma disp_step1: "dispatch_step disp_host disp_orchestrator (disp_env 3 []) ''q'' ''apply'' Begin (disp_world toy_finalized [])
    = (ToQueue lit_final t0, disp_world toy_finalized [])"
  by code_simp

lemma disp_step2: "dispatch_step disp_host disp_orchestrator (disp_env 3 []) ''q'' ''apply'' (ToQueue lit_final t0) (disp_world toy_finalized [])
    = (ToClaim lit_final t0, disp_world toy_queued [])"
  by code_simp

lemma disp_step3: "dispatch_step disp_host disp_orchestrator (disp_env 4 []) ''q'' ''apply'' (ToClaim lit_final t0) (disp_world toy_queued [])
    = (ToSnapshot lit_final (disp_job None), disp_world toy_claimed [])"
  by code_simp

lemma disp_step4: "dispatch_step disp_host disp_orchestrator (disp_env 5 [disp_run 7, disp_run 10]) ''q'' ''apply''
      (ToSnapshot lit_final (disp_job None)) (disp_world toy_claimed [])
    = (ToWatermark (disp_job None) t0 10, disp_world toy_claimed [])"
  by code_simp

lemma disp_step5: "dispatch_step disp_host disp_orchestrator (disp_env 5 []) ''q'' ''apply''
      (ToWatermark (disp_job None) t0 10) (disp_world toy_claimed [])
    = (ToPost (disp_job None), disp_world toy_watermarked [])"
  by code_simp

lemma disp_step6: "dispatch_step disp_host disp_orchestrator (disp_env 5 []) ''q'' ''apply''
      (ToPost (disp_job None)) (disp_world toy_watermarked [])
    = (ToRecord disp_result, disp_world toy_watermarked [post_of ''apply'' (disp_job None)])"
  by code_simp

lemma disp_start: "(system_step disp_host)\<^sup>*\<^sup>* initial_system (disp_system toy_finalized [] Begin)"
proof -
  have s1: "system_step disp_host initial_system (initial_system\<lparr>sys_world := disp_world toy_registered []\<rparr>)"
    using system_step.elsewhere [of disp_host initial_system] disp_registered by (simp add: initial_system_def)
  have s2: "system_step disp_host (initial_system\<lparr>sys_world := disp_world toy_registered []\<rparr>)
      (initial_system\<lparr>sys_world := disp_world toy_finalized []\<rparr>)"
    using system_step.elsewhere [of disp_host "initial_system\<lparr>sys_world := disp_world toy_registered []\<rparr>"] disp_finalized by simp
  have s3: "system_step disp_host (initial_system\<lparr>sys_world := disp_world toy_finalized []\<rparr>) (disp_system toy_finalized [] Begin)"
    using system_step.called [of disp_host "initial_system\<lparr>sys_world := disp_world toy_finalized []\<rparr>" "''q''" "''apply''"]
    by (simp add: initial_system_def)
  from s1 s2 s3 show ?thesis by (meson converse_rtranclp_into_rtranclp r_into_rtranclp)
qed

lemma disp_posted: "(system_step disp_host)\<^sup>*\<^sup>* initial_system
    (disp_system toy_watermarked [post_of ''apply'' (disp_job None)] (ToRecord disp_result))"
  by (rule disp_start [THEN rtranclp.rtrancl_into_rtrancl, OF disp_advance [OF disp_step1],
        THEN rtranclp.rtrancl_into_rtrancl, OF disp_advance [OF disp_step2],
        THEN rtranclp.rtrancl_into_rtrancl, OF disp_advance [OF disp_step3],
        THEN rtranclp.rtrancl_into_rtrancl, OF disp_advance [OF disp_step4],
        THEN rtranclp.rtrancl_into_rtrancl, OF disp_advance [OF disp_step5],
        THEN rtranclp.rtrancl_into_rtrancl, OF disp_advance [OF disp_step6]])

theorem dispatch_at_most_once_witness:
  "\<exists>S. (system_step disp_host)\<^sup>*\<^sup>* initial_system S \<and> sys_posts S = [post_of ''apply'' (disp_job None)]
    \<and> length (filter (\<lambda>p. po_request_id p = ''q'' \<and> po_stage p = ''apply'') (sys_posts S)) \<le> 1"
  using disp_posted dispatch_at_most_once [OF disp_posted, of "''q''" "''apply''"]
  by (intro exI [of _ "disp_system toy_watermarked [post_of ''apply'' (disp_job None)] (ToRecord disp_result)"]) simp

lemma disp_reconciled: "orchestrator_reconcile_dispatch disp_host (disp_env 5 [disp_run 7, disp_run 11]) ''q'' ''apply'' toy_watermarked
    = (Inr (lit_dispatch DAccepted (Some 978307200) (Some 978307200) (Some 10) (Some 978307200)
        (Some ''DISPATCH_RECONCILED_LIVE_RUN'') (Some 11)), toy_accepted)"
  by code_simp

theorem reconciled_run_is_own_witness:
  "\<exists>job. orchestrator_reconcile_dispatch disp_host (disp_env 5 [disp_run 7, disp_run 11]) ''q'' ''apply'' toy_watermarked
      = (Inr job, toy_accepted) \<and> dispatch_of toy_accepted ''q'' ''apply'' = Some job"
proof -
  from reconciled_run_is_own [OF disp_reconciled] disp_reconciled show ?thesis by auto
qed

end
