(* ===== verification/Policy.thy ===== *)
theory Policy
  imports WebhookParse
begin

text \<open>
  The deployment policy of \<^verbatim>\<open>policy.py\<close> and the bounded JSON loading of \<^verbatim>\<open>jsonutil.py\<close>. A file is
  its content, or \<open>None\<close> when it cannot be read.
\<close>

section \<open>Configuration JSON\<close>

definition hook_ok :: "json_event \<Rightarrow> unit result" where
  "hook_ok e = (case e of
     ObjectRead keys \<Rightarrow> require (distinct keys) ''JSON_DUPLICATE_KEY''
   | FloatRead \<Rightarrow> reject ''JSON_FLOAT_FORBIDDEN'')"

definition loads_json_bytes :: "host \<Rightarrow> web_host \<Rightarrow> nat \<Rightarrow> string \<Rightarrow> (string \<times> json) list result" where
  "loads_json_bytes H W max_bytes raw =
     (if raw = [] \<or> length raw > max_bytes then reject ''JSON_FILE_SIZE_INVALID''
      else bindE (forE hook_ok (w_json_events W raw)) (\<lambda>_.
        case h_json_loads H raw of
          Some (JObj o1) \<Rightarrow> Inr o1
        | _ \<Rightarrow> reject ''JSON_FILE_INVALID''))"

definition load_json_file :: "host \<Rightarrow> web_host \<Rightarrow> string option \<Rightarrow> (string \<times> json) list result" where
  "load_json_file H W file = (case file of
     None \<Rightarrow> reject ''JSON_FILE_UNAVAILABLE''
   | Some raw \<Rightarrow> loads_json_bytes H W (4 * 1024 * 1024) raw)"

section \<open>The policy\<close>

record stage_policy =
  sp_stage :: string
  sp_workflow_path :: string
  sp_required_runs_on_labels :: "string list"
  sp_require_runner_group :: bool

record deployment_policy =
  dp_payload :: "(string \<times> json) list"
  dp_digest :: string
  dp_phase :: string
  dp_machine_only_enabled :: bool
  dp_repository_id :: int
  dp_repository :: string
  dp_environment :: string
  dp_allowed_api_origins :: "string list"
  dp_runner_bootstrap_url :: string
  dp_allowed_installation_ids :: "int list"
  dp_allowed_dispatcher_installation_ids :: "int list"
  dp_allowed_dispatcher_actor_ids :: "int list"
  dp_allowed_deployment_classes :: "string list"
  dp_max_grant_ttl_minutes :: int
  dp_required_custom_rule_app_ids :: "int list"
  dp_stages :: "stage_policy list"

definition REQUIRED_HUMAN_CLASSES :: "string list" where
  "REQUIRED_HUMAN_CLASSES = [''attended-consent'', ''legal-dpo'', ''named-authority'', ''production-secret-owner'',
     ''irreversible-production'', ''production'', ''break-glass'']"

definition ints_of :: "json \<Rightarrow> int list result" where
  "ints_of v = bindE (list_of v) (mapE int_of)"

definition read_stage_policy :: "json \<Rightarrow> stage_policy result" where
  "read_stage_policy v =
     bindE (obj_of v) (\<lambda>o1.
     bindE (fld_as str_of o1 ''stage'') (\<lambda>stage.
     bindE (fld_as str_of o1 ''workflowPath'') (\<lambda>path.
     bindE (fld_as strs_of o1 ''requiredRunsOnLabels'') (\<lambda>labels.
     bindE (fld_as bool_of o1 ''requireRunnerGroup'') (\<lambda>runner_group.
     Inr \<lparr>sp_stage = stage, sp_workflow_path = path, sp_required_runs_on_labels = labels,
       sp_require_runner_group = runner_group\<rparr>)))))"

definition read_policy :: "host \<Rightarrow> (string \<times> json) list \<Rightarrow> stage_policy list \<Rightarrow> deployment_policy result" where
  "read_policy H payload stages =
     bindE (digest H (JObj payload)) (\<lambda>policy_digest.
     bindE (fld_as str_of payload ''phase'') (\<lambda>phase.
     bindE (fld_as bool_of payload ''machineOnlyEnabled'') (\<lambda>machine_only.
     bindE (fld_as int_of payload ''repositoryId'') (\<lambda>repository_id.
     bindE (fld_as str_of payload ''repository'') (\<lambda>repository.
     bindE (fld_as str_of payload ''environment'') (\<lambda>environment.
     bindE (fld_as strs_of payload ''allowedApiOrigins'') (\<lambda>origins.
     bindE (fld_as str_of payload ''runnerBootstrapUrl'') (\<lambda>bootstrap_url.
     bindE (fld_as ints_of payload ''allowedInstallationIds'') (\<lambda>installations.
     bindE (fld_as ints_of payload ''allowedDispatcherInstallationIds'') (\<lambda>dispatchers.
     bindE (fld_as ints_of payload ''allowedDispatcherActorIds'') (\<lambda>actors.
     bindE (fld_as strs_of payload ''allowedDeploymentClasses'') (\<lambda>classes.
     bindE (fld_as int_of payload ''maxGrantTtlMinutes'') (\<lambda>ttl.
     bindE (fld_as ints_of payload ''requiredCustomRuleAppIds'') (\<lambda>apps.
     Inr \<lparr>dp_payload = payload, dp_digest = policy_digest, dp_phase = phase, dp_machine_only_enabled = machine_only,
       dp_repository_id = repository_id, dp_repository = repository, dp_environment = environment,
       dp_allowed_api_origins = origins, dp_runner_bootstrap_url = bootstrap_url,
       dp_allowed_installation_ids = installations, dp_allowed_dispatcher_installation_ids = dispatchers,
       dp_allowed_dispatcher_actor_ids = actors, dp_allowed_deployment_classes = classes,
       dp_max_grant_ttl_minutes = ttl, dp_required_custom_rule_app_ids = apps, dp_stages = stages\<rparr>))))))))))))))"

definition load_policy :: "host \<Rightarrow> web_host \<Rightarrow> string option \<Rightarrow> string option \<Rightarrow> deployment_policy result" where
  "load_policy H W policy_file schema_file =
     bindE (load_json_file H W policy_file) (\<lambda>payload.
     bindE (load_json_file H W schema_file) (\<lambda>_.
     bindE (require (h_schema H ''cross-ai-deployment-policy-v1.schema.json'' (JObj payload)) ''POLICY_SCHEMA_INVALID'') (\<lambda>_.
     bindE (fld_as strs_of payload ''humanRequiredClasses'') (\<lambda>human_classes.
     bindE (reject_if [(set human_classes \<noteq> set REQUIRED_HUMAN_CLASSES, ''POLICY_HUMAN_BOUNDARY_INVALID'')]) (\<lambda>_.
     bindE (bindE (fld_as list_of payload ''workflowStages'') (mapE read_stage_policy)) (\<lambda>stages.
     bindE (reject_if [(map sp_stage stages \<noteq> [''apply'', ''browser-evidence'', ''compensating-rollback''],
       ''POLICY_STAGE_ORDER_INVALID'')]) (\<lambda>_.
     read_policy H payload stages)))))))"

end
