(* ===== verification/Evaluator.thy ===== *)
theory Evaluator
  imports Policy Contract Dispatcher
begin

text \<open>
  The evaluation of a deployment-protection request against signed evidence and live GitHub
  truth, \<^verbatim>\<open>evaluator.py\<close>. GitHub's answers, the revocation set and the inspection of the workflow
  file are arguments, gathered in \<open>truth\<close>.
\<close>

section \<open>Ports and configuration\<close>

datatype evaluator_mode = Observe | Enforce

record workflow_inspection =
  wi_workflow_sha256 :: string
  wi_dependency_lock_sha256 :: string
  wi_concurrency_group_sha256 :: string

text \<open>
  One evaluation reads the clock twice: at the start (\<open>tq_now\<close>) and when it bounds the creation
  time of the run (\<open>tq_now_run\<close>). \<open>tq_inspect\<close> is \<^verbatim>\<open>inspect_workflow\<close> of \<^verbatim>\<open>workflow.py\<close>: the raw
  file, the stage's policy, the Environment and the bootstrap URL.
\<close>

record truth =
  tq_now :: datetime
  tq_now_run :: datetime
  tq_revocations :: "json result"
  tq_repository :: "int \<Rightarrow> string \<Rightarrow> (string \<times> json) list result"
  tq_environment :: "int \<Rightarrow> string \<Rightarrow> string \<Rightarrow> (string \<times> json) list result"
  tq_workflow_run :: "int \<Rightarrow> string \<Rightarrow> int \<Rightarrow> (string \<times> json) list result"
  tq_intent_ref :: "int \<Rightarrow> string \<Rightarrow> string \<Rightarrow> intent_ref result"
  tq_runners :: "int \<Rightarrow> string \<Rightarrow> (string \<times> json) list list result"
  tq_workflow_bytes :: "int \<Rightarrow> string \<Rightarrow> string \<Rightarrow> string \<Rightarrow> string result"
  tq_inspect :: "string \<Rightarrow> stage_policy \<Rightarrow> string \<Rightarrow> string \<Rightarrow> workflow_inspection result"

record evaluator =
  eva_policy :: deployment_policy
  eva_trust_root :: "(string \<times> json) list"
  eva_expected_trust_root :: string
  eva_mode :: evaluator_mode

record evaluation_result =
  er_approval_candidate :: bool
  er_reason_code :: string
  er_request_id :: string
  er_stage :: string
  er_run_id :: int
  er_run_attempt :: int
  er_app_rule_id :: int
  er_evidence_digest :: string
  er_policy_digest :: string
  er_provider_families :: "string list"

definition ZERO_TRUST_ROOT_SHA256 :: string where
  "ZERO_TRUST_ROOT_SHA256 = ''sha256:'' @ replicate 64 (CHR ''0'')"

definition INERT_POLICY_IDS :: "int list" where
  "INERT_POLICY_IDS = [900000001, 900000002, 900000003, 900000004]"

definition policy_authority_ids :: "deployment_policy \<Rightarrow> int list" where
  "policy_authority_ids p = dp_allowed_installation_ids p @ dp_allowed_dispatcher_installation_ids p
     @ dp_allowed_dispatcher_actor_ids p @ dp_required_custom_rule_app_ids p"

definition new_evaluator :: "deployment_policy \<Rightarrow> (string \<times> json) list \<Rightarrow> string \<Rightarrow> evaluator_mode \<Rightarrow> evaluator result" where
  "new_evaluator p trust_root expected mode =
     bindE (reject_if
       [(mode = Enforce \<and> dp_phase p = ''observe'', ''ENFORCE_PHASE_INVALID''),
        (mode = Enforce \<and> expected = ZERO_TRUST_ROOT_SHA256, ''TRUST_ROOT_PIN_SENTINEL''),
        (mode = Enforce \<and> set (policy_authority_ids p) \<inter> set INERT_POLICY_IDS \<noteq> {}, ''POLICY_AUTHORITY_SENTINEL''),
        (dp_phase p = ''machine-only-nonprod'' \<and> \<not> dp_machine_only_enabled p, ''MACHINE_ONLY_DISABLED'')]) (\<lambda>_.
     Inr \<lparr>eva_policy = p, eva_trust_root = trust_root, eva_expected_trust_root = expected, eva_mode = mode\<rparr>)"

section \<open>Bindings\<close>

definition truth_object :: "json \<Rightarrow> (string \<times> json) list result" where
  "truth_object v = (case v of JObj o1 \<Rightarrow> Inr o1 | _ \<Rightarrow> reject ''GITHUB_TRUTH_INVALID'')"

definition truth_positive_int :: "json \<Rightarrow> int result" where
  "truth_positive_int v = (case v of JInt n \<Rightarrow> if n < 1 then reject ''GITHUB_TRUTH_INVALID'' else Inr n
     | _ \<Rightarrow> reject ''GITHUB_TRUTH_INVALID'')"

definition policy_binding :: "deployment_policy \<Rightarrow> protection_request \<Rightarrow> unit result" where
  "policy_binding p q = reject_if
     [(pr_repository_id q \<noteq> dp_repository_id p \<or> pr_repository q \<noteq> dp_repository p, ''POLICY_REPOSITORY_MISMATCH''),
      (pr_environment q \<noteq> dp_environment p, ''POLICY_ENVIRONMENT_MISMATCH''),
      (pr_installation_id q \<notin> set (dp_allowed_installation_ids p), ''POLICY_INSTALLATION_MISMATCH'')]"

text \<open>One protection rule: the custom Apps seen so far, and whether a reviewer rule was seen.\<close>

definition protection_rule :: "json \<Rightarrow> int list \<times> bool \<Rightarrow> (int list \<times> bool) result" where
  "protection_rule rule_value acc = (case acc of (custom_apps, required_reviewer) \<Rightarrow>
     bindE (truth_object rule_value) (\<lambda>rule.
     if eq_str (jget rule ''type'') ''required_reviewers'' then Inr (custom_apps, True)
     else if eq_str (jget rule ''type'') ''custom''
     then bindE (truth_object (jget rule ''app'')) (\<lambda>app.
          bindE (truth_positive_int (jget app ''id'')) (\<lambda>app_id.
          Inr (List.insert app_id custom_apps, required_reviewer)))
     else Inr (custom_apps, required_reviewer)))"

definition environment_binding :: "evaluator \<Rightarrow> (string \<times> json) list \<Rightarrow> int result" where
  "environment_binding ev value1 =
     (let p = eva_policy ev in
      bindE (reject_if [(\<not> eq_str (jget value1 ''name'') (dp_environment p), ''ENVIRONMENT_SNAPSHOT_MISMATCH'')]) (\<lambda>_.
      case jget value1 ''protection_rules'' of
        JArr rules \<Rightarrow>
          bindE (foldE protection_rule rules ([], False)) (\<lambda>(custom_apps, required_reviewer).
          bindE (reject_if
            [(set custom_apps \<noteq> set (dp_required_custom_rule_app_ids p), ''ENVIRONMENT_CUSTOM_RULE_DRIFT''),
             (length custom_apps \<noteq> 1, ''ENVIRONMENT_CUSTOM_RULE_DRIFT''),
             (eva_mode ev = Enforce \<and> jget value1 ''can_admins_bypass'' \<noteq> JBool False, ''ENVIRONMENT_ADMIN_BYPASS_UNVERIFIED''),
             (dp_phase p = ''dual-gate'' \<and> \<not> required_reviewer, ''ENVIRONMENT_REVIEWER_DRIFT''),
             (dp_phase p = ''machine-only-nonprod'' \<and> required_reviewer, ''ENVIRONMENT_REVIEWER_DRIFT'')]) (\<lambda>_.
          bindE (truth_object (jget value1 ''deployment_branch_policy'')) (\<lambda>branch.
          bindE (reject_if
            [(jget branch ''protected_branches'' \<noteq> JBool False \<or> jget branch ''custom_branch_policies'' \<noteq> JBool True,
                ''ENVIRONMENT_BRANCH_POLICY_DRIFT'')]) (\<lambda>_.
          Inr (hd custom_apps)))))
      | _ \<Rightarrow> reject ''ENVIRONMENT_SNAPSHOT_INVALID''))"

text \<open>\<^verbatim>\<open>status not in {\<dots>}\<close>: a list or a dict is not hashable.\<close>

definition run_status_ok :: "json \<Rightarrow> unit result" where
  "run_status_ok status = (case status of
     JArr _ \<Rightarrow> Inl TypeError
   | JObj _ \<Rightarrow> Inl TypeError
   | JStr s \<Rightarrow> require (s \<in> set [''queued'', ''waiting'', ''pending'', ''in_progress'']) ''RUN_STATE_INVALID''
   | _ \<Rightarrow> reject ''RUN_STATE_INVALID'')"

definition run_binding :: "host \<Rightarrow> evaluator \<Rightarrow> truth \<Rightarrow> protection_request \<Rightarrow> (string \<times> json) list \<Rightarrow> stamp
    \<Rightarrow> stamp option \<Rightarrow> (string \<times> int) result" where
  "run_binding H ev T q run registered_at finalized =
     (let p = eva_policy ev in
      bindE (truth_positive_int (jget run ''id'')) (\<lambda>run_id.
      bindE (reject_if
        [(run_id \<noteq> pr_run_id q, ''RUN_ID_MISMATCH''),
         (\<not> eq_str (jget run ''event'') ''workflow_dispatch'', ''RUN_EVENT_MISMATCH''),
         (\<not> eq_str (jget run ''head_sha'') (pr_head_sha q), ''HEAD_OR_WORKFLOW_MISMATCH''),
         (\<not> eq_str (jget run ''head_branch'') (removeprefix (pr_intent_ref q) ''refs/tags/''), ''INTENT_REF_MISMATCH'')]) (\<lambda>_.
      bindE (truth_object (jget run ''repository'')) (\<lambda>repository.
      bindE (truth_object (jget run ''head_repository'')) (\<lambda>head_repository.
      bindE (reject_if
        [(\<not> eq_int (jget repository ''id'') (dp_repository_id p) \<or> \<not> eq_str (jget repository ''full_name'') (dp_repository p)
          \<or> \<not> eq_int (jget head_repository ''id'') (dp_repository_id p)
          \<or> \<not> eq_str (jget head_repository ''full_name'') (dp_repository p), ''RUN_REPOSITORY_MISMATCH'')]) (\<lambda>_.
      bindE (truth_object (jget run ''triggering_actor'')) (\<lambda>actor.
      bindE (truth_positive_int (jget actor ''id'')) (\<lambda>actor_id.
      bindE (reject_if [(actor_id \<notin> set (dp_allowed_dispatcher_actor_ids p), ''RUN_ACTOR_MISMATCH'')]) (\<lambda>_.
      bindE (truth_positive_int (jget run ''run_attempt'')) (\<lambda>run_attempt.
      bindE (run_status_ok (jget run ''status'')) (\<lambda>_.
      bindE (case jget run ''path'' of JStr s \<Rightarrow> Inr s | _ \<Rightarrow> reject ''GITHUB_TRUTH_INVALID'') (\<lambda>workflow_path.
      bindE (parse_utc H (jget run ''created_at'')) (\<lambda>created_at.
      let finalized_at = stamp_dt (case finalized of Some t \<Rightarrow> t | None \<Rightarrow> registered_at) in
      bindE (reject_if
        [(created_at < finalized_at \<or> created_at > finalized_at + MAX_DISPATCH_DELAY, ''RUN_DISPATCH_WINDOW_INVALID''),
         (created_at > tq_now_run T + seconds 60, ''RUN_DISPATCH_WINDOW_INVALID'')]) (\<lambda>_.
      Inr (workflow_path, run_attempt)))))))))))))))"

section \<open>The live runner inventory\<close>

definition runner_name_digest :: "host \<Rightarrow> string \<Rightarrow> string" where
  "runner_name_digest H name = ''sha256:'' @ h_sha H name"

definition label_name :: "json \<Rightarrow> string result" where
  "label_name v = (case v of
     JObj o1 \<Rightarrow> (case jget o1 ''name'' of JStr s \<Rightarrow> Inr s | _ \<Rightarrow> reject ''GITHUB_RUNNER_INVENTORY_INVALID'')
   | _ \<Rightarrow> reject ''GITHUB_RUNNER_INVENTORY_INVALID'')"

definition add_eligible :: "host \<Rightarrow> string list \<Rightarrow> (string \<times> json) list \<Rightarrow> eligible_runner list
    \<Rightarrow> eligible_runner list result" where
  "add_eligible H required_labels runner eligible =
     (case (jget runner ''id'', jget runner ''name'', jget runner ''busy'', jget runner ''labels'') of
        (JInt runner_id, JStr name, JBool _, JArr labels_value) \<Rightarrow>
          if runner_id < 1 \<or> name = [] \<or> \<not> eq_str (jget runner ''status'') ''online''
          then reject ''GITHUB_RUNNER_INVENTORY_INVALID''
          else bindE (mapE label_name labels_value) (\<lambda>labels.
            if \<not> distinct labels then reject ''GITHUB_RUNNER_INVENTORY_INVALID''
            else Inr (if set required_labels \<subseteq> set labels
              then eligible @ [\<lparr>er_runnerId = runner_id, er_runnerNameSha256 = runner_name_digest H name,
                     er_labels = sort labels\<rparr>]
              else eligible))
      | _ \<Rightarrow> reject ''GITHUB_RUNNER_INVENTORY_INVALID'')"

definition runner_json :: "eligible_runner \<Rightarrow> json" where
  "runner_json r = JObj [(''runnerId'', JInt (er_runnerId r)), (''runnerNameSha256'', JStr (er_runnerNameSha256 r)),
     (''labels'', JArr (map JStr (er_labels r)))]"

definition generation_body :: "eligible_runner list \<Rightarrow> json" where
  "generation_body runners = JObj [(''domain'', JStr ''acik.cross-ai-runner-inventory-generation.v1''),
     (''runners'', JArr (map runner_json runners))]"

definition signed_projection :: "lease_payload \<Rightarrow> eligible_runner list" where
  "signed_projection lease = sort_key er_runnerId
     (map (\<lambda>r. r\<lparr>er_labels := sort (er_labels r)\<rparr>) (ls_eligibleRunners lease))"

definition verify_live_runner_inventory :: "host \<Rightarrow> truth \<Rightarrow> int \<Rightarrow> string \<Rightarrow> string list \<Rightarrow> lease_payload \<Rightarrow> unit result" where
  "verify_live_runner_inventory H T installation_id repository required_labels lease =
     (if ''self-hosted'' \<notin> set required_labels then Inr ()
      else bindE (tq_runners T installation_id repository) (\<lambda>live.
        bindE (foldE (add_eligible H required_labels) live []) (\<lambda>eligible.
        let live_projection = sort_key er_runnerId eligible in
        bindE (digest H (generation_body live_projection)) (\<lambda>generation.
        reject_if [(live_projection = [] \<or> live_projection \<noteq> signed_projection lease
            \<or> generation \<noteq> ls_inventoryGenerationSha256 lease, ''RUNNER_ADMISSION_LEASE_DRIFT'')]))))"

section \<open>Evaluation\<close>

definition intent_matches_request :: "intent_row \<Rightarrow> protection_request \<Rightarrow> bool" where
  "intent_matches_request row q = (in_repository_id row = pr_repository_id q \<and> in_repository row = pr_repository q
     \<and> in_environment row = pr_environment q \<and> in_head_sha row = pr_head_sha q \<and> in_intent_ref row = pr_intent_ref q)"

text \<open>Everything read from the registry and the signed bundle, before GitHub is asked.\<close>

definition verified_evidence :: "host \<Rightarrow> evaluator \<Rightarrow> truth \<Rightarrow> protection_request \<Rightarrow> registry
    \<Rightarrow> (intent_row \<times> verified_bundle) result" where
  "verified_evidence H ev T q s =
     (let p = eva_policy ev in
      bindE (policy_binding p q) (\<lambda>_.
      bindE (get_finalized H (pr_request_id q) s) (\<lambda>(row, envelope).
      bindE (reject_if [(\<not> intent_matches_request row q, ''INTENT_WEBHOOK_BINDING_MISMATCH'')]) (\<lambda>_.
      bindE (tq_revocations T) (\<lambda>revocations.
      bindE (new_verifier H (eva_trust_root ev) revocations (tq_now T) (Some (dp_digest p))
               (Some (eva_expected_trust_root ev)) Active None) (\<lambda>verifier1.
      bindE (verify_bundle H verifier1 envelope) (\<lambda>v.
      let sj = bd_subject (vb_payload v); gr = bd_grant (vb_payload v) in
      bindE (reject_if
        [(dp_phase p = ''machine-only-nonprod''
          \<and> list_ex (\<lambda>(_, identity1). identity1 \<noteq> ''provider-reported'') (vb_provider_identity_classes v),
            ''MACHINE_ONLY_IDENTITY_UNTRUSTED''),
         (vb_bundle_digest v \<noteq> in_bundle_digest row \<or> vb_subject_digest v \<noteq> in_subject_digest row
          \<or> vb_session_digest v \<noteq> in_session_digest row, ''INTENT_BUNDLE_MISMATCH''),
         (sj_deploymentClass sj \<notin> set (dp_allowed_deployment_classes p), ''HUMAN_REQUIRED_CLASS''),
         (gr_triggeringActorId gr \<notin> set (dp_allowed_dispatcher_actor_ids p), ''RUN_ACTOR_MISMATCH'')]) (\<lambda>_.
      bindE (parse_utc H (gr_notBefore gr)) (\<lambda>grant_start.
      bindE (parse_utc H (gr_expiresAt gr)) (\<lambda>grant_end.
      bindE (reject_if [(grant_end - grant_start > minutes (dp_max_grant_ttl_minutes p), ''GRANT_TTL_EXCEEDED'')]) (\<lambda>_.
      Inr (row, v))))))))))))"

definition live_run :: "host \<Rightarrow> evaluator \<Rightarrow> truth \<Rightarrow> protection_request \<Rightarrow> intent_row
    \<Rightarrow> (int \<times> (string \<times> json) list \<times> string \<times> int) result" where
  "live_run H ev T q row =
     (let p = eva_policy ev in
      bindE (tq_repository T (pr_installation_id q) (pr_repository q)) (\<lambda>repository.
      bindE (reject_if
        [(\<not> eq_int (jget repository ''id'') (dp_repository_id p)
          \<or> \<not> eq_str (jget repository ''full_name'') (dp_repository p), ''GITHUB_REPOSITORY_MISMATCH''),
         (jget repository ''fork'' \<noteq> JBool False, ''GITHUB_REPOSITORY_MISMATCH'')]) (\<lambda>_.
      bindE (tq_environment T (pr_installation_id q) (pr_repository q) (pr_environment q)) (\<lambda>environment.
      bindE (environment_binding ev environment) (\<lambda>app_rule_id.
      bindE (tq_workflow_run T (pr_installation_id q) (pr_repository q) (pr_run_id q)) (\<lambda>run.
      bindE (run_binding H ev T q run (in_registered_at row) (in_finalized_at row)) (\<lambda>(workflow_path, run_attempt).
      bindE (tq_intent_ref T (pr_installation_id q) (pr_repository q) (pr_request_id q)) (\<lambda>live_ref.
      bindE (reject_if
        [(ir_head_sha live_ref \<noteq> pr_head_sha q \<or> Some (ir_ref_object_id live_ref) \<noteq> in_ref_object_id row,
            ''INTENT_REF_MOVED'')]) (\<lambda>_.
      Inr (app_rule_id, run, workflow_path, run_attempt))))))))))"

definition dispatch_matches :: "deployment_policy \<Rightarrow> protection_request \<Rightarrow> string \<Rightarrow> int \<Rightarrow> dispatch_job \<Rightarrow> bool" where
  "dispatch_matches p q workflow_path actor d =
     (dj_state d = DAccepted \<and> dj_run_id d = Some (pr_run_id q)
      \<and> dj_installation_id d \<in> set (dp_allowed_dispatcher_installation_ids p)
      \<and> dj_repository_id d = Some (dp_repository_id p) \<and> dj_repository d = dp_repository p
      \<and> dj_workflow_path d = workflow_path \<and> dj_intent_ref d = Some (pr_intent_ref q)
      \<and> dj_head_sha d = Some (pr_head_sha q) \<and> dj_expected_actor_id d = actor
      \<and> (case dj_watermark d of None \<Rightarrow> False | Some w \<Rightarrow> \<not> pr_run_id q \<le> w))"

definition signed_stage :: "host \<Rightarrow> evaluator \<Rightarrow> protection_request \<Rightarrow> verified_bundle \<Rightarrow> string \<Rightarrow> registry
    \<Rightarrow> (workflow_stage \<times> stage_policy) result" where
  "signed_stage H ev q v workflow_path s =
     (let p = eva_policy ev in
      case filter (\<lambda>ws. ws_workflowPath ws = workflow_path) (bd_workflowStages (vb_payload v)) of
        [ws] \<Rightarrow>
          (case lookup_by sp_stage (ws_stage ws) (dp_stages p) of
             None \<Rightarrow> reject ''HEAD_OR_WORKFLOW_MISMATCH''
           | Some sp \<Rightarrow>
               if sp_workflow_path sp \<noteq> workflow_path then reject ''HEAD_OR_WORKFLOW_MISMATCH''
               else bindE (get_dispatch (pr_request_id q) (ws_stage ws) s) (\<lambda>dispatch.
                 bindE (reject_if
                   [(\<not> dispatch_matches p q workflow_path (gr_triggeringActorId (bd_grant (vb_payload v))) dispatch,
                       ''DISPATCH_CORRELATION_MISMATCH''),
                    (ws_runsOnLabels ws \<noteq> sp_required_runs_on_labels sp, ''RUNNER_POLICY_OR_INPUT_AUTHORITY_MISMATCH''),
                    (sp_require_runner_group sp \<noteq> ws_runnerGroup ws, ''RUNNER_POLICY_OR_INPUT_AUTHORITY_MISMATCH'')]) (\<lambda>_.
                 Inr (ws, sp))))
      | _ \<Rightarrow> reject ''HEAD_OR_WORKFLOW_MISMATCH'')"

definition evaluate :: "host \<Rightarrow> evaluator \<Rightarrow> truth \<Rightarrow> registry \<Rightarrow> protection_request \<Rightarrow> evaluation_result result" where
  "evaluate H ev T s q =
     (let p = eva_policy ev in
      bindE (verified_evidence H ev T q s) (\<lambda>(row, v).
      bindE (live_run H ev T q row) (\<lambda>(app_rule_id, run, workflow_path, run_attempt).
      bindE (signed_stage H ev q v workflow_path s) (\<lambda>(ws, sp).
      bindE (verify_live_runner_inventory H T (pr_installation_id q) (pr_repository q) (sp_required_runs_on_labels sp)
               (vl_payload (vb_runner_admission_lease v))) (\<lambda>_.
      bindE (tq_workflow_bytes T (pr_installation_id q) (pr_repository q) workflow_path (pr_head_sha q)) (\<lambda>raw.
      bindE (tq_inspect T raw sp (pr_environment q) (dp_runner_bootstrap_url p)) (\<lambda>inspection.
      bindE (reject_if
        [(wi_workflow_sha256 inspection \<noteq> ws_workflowBlobSha256 ws
          \<or> wi_dependency_lock_sha256 inspection \<noteq> ws_dependencyLockSha256 ws
          \<or> wi_concurrency_group_sha256 inspection \<noteq> ws_concurrencyGroupSha256 ws,
            ''INTENT_REF_OR_DEPENDENCY_LOCK_MISMATCH'')]) (\<lambda>_.
      bindE (bindE (fld run ''triggering_actor'') truth_object) (\<lambda>actor.
      bindE (fld actor ''id'') (\<lambda>actor_id.
      bindE (reject_if [(\<not> eq_int actor_id (gr_triggeringActorId (bd_grant (vb_payload v))), ''RUN_ACTOR_MISMATCH'')]) (\<lambda>_.
      Inr \<lparr>er_approval_candidate = True, er_reason_code = ''SIGNED_EVIDENCE_AND_GITHUB_TRUTH_VALID'',
        er_request_id = pr_request_id q, er_stage = ws_stage ws, er_run_id = pr_run_id q, er_run_attempt = run_attempt,
        er_app_rule_id = app_rule_id, er_evidence_digest = vb_bundle_digest v, er_policy_digest = dp_digest p,
        er_provider_families = vb_provider_families v\<rparr>)))))))))))"

end
