(* ===== verification/EvaluatorProps.thy ===== *)
theory EvaluatorProps
  imports Evaluator ContractProps
begin

text \<open>
  Soundness of the evaluation: what a positive evaluation proves about the signed evidence, the
  registry and the live state of GitHub.
\<close>

section \<open>What each part of an evaluation establishes\<close>

lemma truth_object_Inr [simp]: "truth_object v = Inr o1 \<longleftrightarrow> v = JObj o1"
  by (auto simp: truth_object_def split: json.splits)

lemma truth_positive_int_Inr [simp]: "truth_positive_int v = Inr n \<longleftrightarrow> v = JInt n \<and> 1 \<le> n"
  by (auto simp: truth_positive_int_def split: json.splits)

lemma policy_binding_Inr:
  "policy_binding p q = Inr () \<longleftrightarrow> pr_repository_id q = dp_repository_id p \<and> pr_repository q = dp_repository p
     \<and> pr_environment q = dp_environment p \<and> pr_installation_id q \<in> set (dp_allowed_installation_ids p)"
  by (auto simp: policy_binding_def)

lemma verified_evidence_Inr:
  assumes "verified_evidence H ev T q s = Inr (row, v)"
  obtains envelope revocations verifier1 where
    "policy_binding (eva_policy ev) q = Inr ()" "get_finalized H (pr_request_id q) s = Inr (row, envelope)"
    "intent_matches_request row q" "tq_revocations T = Inr revocations"
    "new_verifier H (eva_trust_root ev) revocations (tq_now T) (Some (dp_digest (eva_policy ev)))
       (Some (eva_expected_trust_root ev)) Active None = Inr verifier1"
    "verify_bundle H verifier1 envelope = Inr v"
    "vb_bundle_digest v = in_bundle_digest row" "vb_subject_digest v = in_subject_digest row"
    "vb_session_digest v = in_session_digest row"
    "sj_deploymentClass (bd_subject (vb_payload v)) \<in> set (dp_allowed_deployment_classes (eva_policy ev))"
    "gr_triggeringActorId (bd_grant (vb_payload v)) \<in> set (dp_allowed_dispatcher_actor_ids (eva_policy ev))"
  using assms unfolding verified_evidence_def opened reject_if_Inr not_not de_Morgan_disj prod.inject
  by (elim exE conjE, hypsubst) (rule that, (assumption | simp only: prod.sel)+)

lemma run_binding_Inr:
  assumes "run_binding H ev T q run registered fin = Inr (workflow_path, attempt)"
  shows "jget run ''id'' = JInt (pr_run_id q) \<and> jget run ''head_sha'' = JStr (pr_head_sha q)
    \<and> jget run ''event'' = JStr ''workflow_dispatch'' \<and> jget run ''path'' = JStr workflow_path
    \<and> jget run ''run_attempt'' = JInt attempt \<and> 1 \<le> attempt"
  using assms
  by (auto simp: run_binding_def bindE_Inr_iff Let_def eq_str_def split: json.splits)

lemma foldE_protection_rule:
  assumes "foldE protection_rule rules ([], False) = Inr (apps, reviewer)"
  shows "distinct apps \<and> list_all (\<lambda>i. 1 \<le> i) apps"
proof -
  have "distinct (fst (apps, reviewer)) \<and> list_all (\<lambda>i. 1 \<le> i) (fst (apps, reviewer))"
    by (rule foldE_invariant [OF assms])
      (auto simp: protection_rule_def bindE_Inr_iff list_all_iff split: if_splits prod.splits)
  then show ?thesis by simp
qed

lemma environment_binding_Inr:
  assumes "environment_binding ev env = Inr app"
  shows "set (dp_required_custom_rule_app_ids (eva_policy ev)) = {app} \<and> 1 \<le> app
    \<and> (eva_mode ev = Enforce \<longrightarrow> jget env ''can_admins_bypass'' = JBool False)"
proof -
  from assms obtain rules apps reviewer where r: "foldE protection_rule rules ([], False) = Inr (apps, reviewer)"
    and x: "set apps = set (dp_required_custom_rule_app_ids (eva_policy ev))" "length apps = 1" "app = hd apps"
      "eva_mode ev = Enforce \<longrightarrow> jget env ''can_admins_bypass'' = JBool False"
    unfolding environment_binding_def Let_def by (auto simp: bindE_Inr_iff split: json.splits)
  from x(2) obtain a where "apps = [a]" by (auto simp: length_Suc_conv)
  with x foldE_protection_rule [OF r] show ?thesis by auto
qed

lemma live_run_Inr:
  assumes "live_run H ev T q row = Inr (app, run, workflow_path, attempt)"
  shows "tq_workflow_run T (pr_installation_id q) (pr_repository q) (pr_run_id q) = Inr run
    \<and> run_binding H ev T q run (in_registered_at row) (in_finalized_at row) = Inr (workflow_path, attempt)
    \<and> (\<exists>env. tq_environment T (pr_installation_id q) (pr_repository q) (pr_environment q) = Inr env
         \<and> environment_binding ev env = Inr app)
    \<and> (\<exists>live_ref. tq_intent_ref T (pr_installation_id q) (pr_repository q) (pr_request_id q) = Inr live_ref
         \<and> ir_head_sha live_ref = pr_head_sha q \<and> in_ref_object_id row = Some (ir_ref_object_id live_ref))"
  using assms by (auto simp: live_run_def bindE_Inr_iff Let_def)

lemma signed_stage_Inr:
  assumes "signed_stage H ev q v workflow_path s = Inr (ws, sp)"
  shows "filter (\<lambda>w. ws_workflowPath w = workflow_path) (bd_workflowStages (vb_payload v)) = [ws]
    \<and> lookup_by sp_stage (ws_stage ws) (dp_stages (eva_policy ev)) = Some sp
    \<and> (\<exists>d. dispatch_of s (pr_request_id q) (ws_stage ws) = Some d
         \<and> dispatch_matches (eva_policy ev) q workflow_path (gr_triggeringActorId (bd_grant (vb_payload v))) d)"
  using assms
  by (auto simp: signed_stage_def get_dispatch_def bindE_Inr_iff Let_def split: list.splits option.splits if_splits)

lemma signed_stage_path: "signed_stage H ev q v workflow_path s = Inr (ws, sp) \<Longrightarrow> sp_workflow_path sp = workflow_path"
  by (auto simp: signed_stage_def bindE_Inr_iff Let_def split: list.split_asm option.split_asm if_split_asm)

lemma evaluate_Inr:
  assumes "evaluate H ev T s q = Inr r"
  obtains row v app run workflow_path attempt ws sp raw inspection where
    "verified_evidence H ev T q s = Inr (row, v)" "live_run H ev T q row = Inr (app, run, workflow_path, attempt)"
    "signed_stage H ev q v workflow_path s = Inr (ws, sp)"
    "verify_live_runner_inventory H T (pr_installation_id q) (pr_repository q) (sp_required_runs_on_labels sp)
       (vl_payload (vb_runner_admission_lease v)) = Inr ()"
    "tq_workflow_bytes T (pr_installation_id q) (pr_repository q) workflow_path (pr_head_sha q) = Inr raw"
    "tq_inspect T raw sp (pr_environment q) (dp_runner_bootstrap_url (eva_policy ev)) = Inr inspection"
    "wi_workflow_sha256 inspection = ws_workflowBlobSha256 ws"
    "er_request_id r = pr_request_id q" "er_stage r = ws_stage ws" "er_run_id r = pr_run_id q" "er_run_attempt r = attempt"
    "er_app_rule_id r = app" "er_evidence_digest r = vb_bundle_digest v" "er_provider_families r = vb_provider_families v"
    "er_approval_candidate r"
  using assms unfolding evaluate_def opened reject_if_Inr not_not de_Morgan_disj
  by (elim exE conjE, hypsubst) (rule that, (assumption | simp only: prod.sel evaluation_result.select_convs)+)
section \<open>A positive evaluation is sound\<close>

text \<open>
  C3: an evaluation approves only what is signed, registered and live. A positive evaluation under
  a policy with a digest shows that the trust root is the pinned one, that the registered envelope
  of the request passes the whole evidence verification at the evaluation time, for exactly this
  policy and an allowed deployment class; that the request, the finalized intent and the live ref
  name the same repository, Environment and commit; that the run is the one the dispatcher's
  accepted dispatch of this stage is bound to; and that the workflow file at that commit has the
  signed digest. The result repeats exactly these facts.
\<close>

theorem evaluation_sound:
  assumes "evaluate H ev T s q = Inr r" "dp_digest (eva_policy ev) \<noteq> []"
  shows "\<exists>row envelope revocations vf v ws sp d run live_ref raw inspection.
      digest H (JObj (eva_trust_root ev)) = Inr (eva_expected_trust_root ev)
    \<and> get_finalized H (pr_request_id q) s = Inr (row, envelope) \<and> intent_matches_request row q
    \<and> new_verifier H (eva_trust_root ev) revocations (tq_now T) (Some (dp_digest (eva_policy ev)))
         (Some (eva_expected_trust_root ev)) Active None = Inr vf
    \<and> verify_bundle H vf envelope = Inr v \<and> vb_bundle_digest v = in_bundle_digest row
    \<and> sj_policySha256 (bd_subject (vb_payload v)) = dp_digest (eva_policy ev)
    \<and> sj_deploymentClass (bd_subject (vb_payload v)) \<in> set (dp_allowed_deployment_classes (eva_policy ev))
    \<and> pr_repository q = dp_repository (eva_policy ev) \<and> pr_environment q = dp_environment (eva_policy ev)
    \<and> filter (\<lambda>w. ws_workflowPath w = ws_workflowPath ws) (bd_workflowStages (vb_payload v)) = [ws]
    \<and> dispatch_of s (pr_request_id q) (ws_stage ws) = Some d
    \<and> dispatch_matches (eva_policy ev) q (ws_workflowPath ws) (gr_triggeringActorId (bd_grant (vb_payload v))) d
    \<and> tq_workflow_run T (pr_installation_id q) (pr_repository q) (pr_run_id q) = Inr run
    \<and> jget run ''id'' = JInt (pr_run_id q) \<and> jget run ''head_sha'' = JStr (pr_head_sha q)
    \<and> jget run ''path'' = JStr (ws_workflowPath ws) \<and> jget run ''run_attempt'' = JInt (er_run_attempt r)
    \<and> tq_intent_ref T (pr_installation_id q) (pr_repository q) (pr_request_id q) = Inr live_ref
    \<and> ir_head_sha live_ref = pr_head_sha q \<and> in_ref_object_id row = Some (ir_ref_object_id live_ref)
    \<and> tq_workflow_bytes T (pr_installation_id q) (pr_repository q) (ws_workflowPath ws) (pr_head_sha q) = Inr raw
    \<and> tq_inspect T raw sp (pr_environment q) (dp_runner_bootstrap_url (eva_policy ev)) = Inr inspection
    \<and> wi_workflow_sha256 inspection = ws_workflowBlobSha256 ws
    \<and> set (dp_required_custom_rule_app_ids (eva_policy ev)) = {er_app_rule_id r}
    \<and> er_request_id r = pr_request_id q \<and> er_run_id r = pr_run_id q \<and> er_stage r = ws_stage ws
    \<and> er_evidence_digest r = in_bundle_digest row"
proof -
  from assms(1) obtain row v app run workflow_path attempt ws sp raw inspection where e:
    "verified_evidence H ev T q s = Inr (row, v)" "live_run H ev T q row = Inr (app, run, workflow_path, attempt)"
    "signed_stage H ev q v workflow_path s = Inr (ws, sp)"
    "tq_workflow_bytes T (pr_installation_id q) (pr_repository q) workflow_path (pr_head_sha q) = Inr raw"
    "tq_inspect T raw sp (pr_environment q) (dp_runner_bootstrap_url (eva_policy ev)) = Inr inspection"
    "wi_workflow_sha256 inspection = ws_workflowBlobSha256 ws"
    and r: "er_request_id r = pr_request_id q" "er_stage r = ws_stage ws" "er_run_id r = pr_run_id q" "er_run_attempt r = attempt"
    "er_app_rule_id r = app" "er_evidence_digest r = vb_bundle_digest v"
    by (rule evaluate_Inr)
  from e(1) obtain envelope revocations vf where x: "policy_binding (eva_policy ev) q = Inr ()"
    "get_finalized H (pr_request_id q) s = Inr (row, envelope)" "intent_matches_request row q"
    "new_verifier H (eva_trust_root ev) revocations (tq_now T) (Some (dp_digest (eva_policy ev)))
       (Some (eva_expected_trust_root ev)) Active None = Inr vf"
    "verify_bundle H vf envelope = Inr v" "vb_bundle_digest v = in_bundle_digest row"
    "sj_deploymentClass (bd_subject (vb_payload v)) \<in> set (dp_allowed_deployment_classes (eva_policy ev))"
    by (rule verified_evidence_Inr)
  from x(4) have vf: "root_digest_ok H (eva_trust_root ev) (Some (eva_expected_trust_root ev)) = Inr ()"
    "vf_expected_policy vf = Some (dp_digest (eva_policy ev))" by (rule new_verifier_Inr; simp)+
  then have pin: "digest H (JObj (eva_trust_root ev)) = Inr (eva_expected_trust_root ev)"
    by (auto simp: root_digest_ok_def bindE_Inr_iff split: if_splits)
  from x(5) have "verify_subject_and_grant H vf (vb_payload v) (vb_subject_digest v) = Inr ()" by (rule verify_bundle_Inr)
  then have "\<forall>p. vf_expected_policy vf = Some p \<longrightarrow> p = [] \<or> sj_policySha256 (bd_subject (vb_payload v)) = p"
    by (rule verify_subject_Inr)
  then have policy: "sj_policySha256 (bd_subject (vb_payload v)) = dp_digest (eva_policy ev)" using vf(2) assms(2) by blast
  from signed_stage_Inr [OF e(3)] obtain d where st:
    "filter (\<lambda>w. ws_workflowPath w = workflow_path) (bd_workflowStages (vb_payload v)) = [ws]"
    "dispatch_of s (pr_request_id q) (ws_stage ws) = Some d"
    "dispatch_matches (eva_policy ev) q workflow_path (gr_triggeringActorId (bd_grant (vb_payload v))) d" by blast
  have path: "ws_workflowPath ws = workflow_path" using st(1) by (metis (mono_tags) filter_eq_ConsD)
  from live_run_Inr [OF e(2)] obtain env live_ref where l:
    "tq_workflow_run T (pr_installation_id q) (pr_repository q) (pr_run_id q) = Inr run"
    "run_binding H ev T q run (in_registered_at row) (in_finalized_at row) = Inr (workflow_path, attempt)"
    "environment_binding ev env = Inr app"
    "tq_intent_ref T (pr_installation_id q) (pr_repository q) (pr_request_id q) = Inr live_ref"
    "ir_head_sha live_ref = pr_head_sha q" "in_ref_object_id row = Some (ir_ref_object_id live_ref)" by blast
  note facts = pin x(2-7) policy st l(1,4-6) e(4-6) r(1-4) run_binding_Inr [OF l(2)] environment_binding_Inr [OF l(3)]
    x(1) [unfolded policy_binding_Inr]
  show ?thesis
    by (rule exI [of _ row], rule exI [of _ envelope], rule exI [of _ revocations], rule exI [of _ vf], rule exI [of _ v],
        rule exI [of _ ws], rule exI [of _ sp], rule exI [of _ d], rule exI [of _ run], rule exI [of _ live_ref],
        rule exI [of _ raw], rule exI [of _ inspection])
      (use facts path r(5,6) in \<open>simp only: path\<close>)
qed
section \<open>A positive evaluation\<close>

definition eval_policy :: deployment_policy where
  "eval_policy = \<lparr>dp_payload = [], dp_digest = ''p'', dp_phase = ''dual-gate'', dp_machine_only_enabled = False,
     dp_repository_id = 7, dp_repository = ''o/r'', dp_environment = ''prod'', dp_allowed_api_origins = [''https://api.github.com''],
     dp_runner_bootstrap_url = ''https://b'', dp_allowed_installation_ids = [2], dp_allowed_dispatcher_installation_ids = [4],
     dp_allowed_dispatcher_actor_ids = [5], dp_allowed_deployment_classes = [''c''], dp_max_grant_ttl_minutes = 60,
     dp_required_custom_rule_app_ids = [3],
     dp_stages = [\<lparr>sp_stage = ''apply'', sp_workflow_path = ''w.yml'', sp_required_runs_on_labels = [''x''], sp_require_runner_group = False\<rparr>]\<rparr>"

definition eval_evaluator :: evaluator where
  "eval_evaluator = \<lparr>eva_policy = eval_policy, eva_trust_root = ev_trust_root, eva_expected_trust_root = ''sha256:1433'', eva_mode = Enforce\<rparr>"

definition eval_request :: protection_request where
  "eval_request = \<lparr>pr_delivery_id = ''g'', pr_repository_id = 7, pr_repository = ''o/r'', pr_installation_id = 2,
     pr_environment = ''prod'', pr_head_sha = ''h'', pr_intent_ref = ''refs/tags/cross-ai-intent/q'', pr_request_id = ''q'',
     pr_run_id = 11, pr_callback_url = ''https://api.github.com'', pr_sender_id = 9, pr_payload_sha256 = ''sha256:0'',
     pr_provenance = ''github_webhook_hmac_sha256_v1''\<rparr>"

definition eval_row :: intent_row where
  "eval_row = \<lparr>in_request_id = ''q'', in_bundle_digest = ''sha256:'' @ replicate 64 (CHR ''0''), in_subject_digest = ''sha256:1228'',
     in_grant_digest = ''sha256:223'', in_repository_id = 7, in_repository = ''o/r'', in_environment = ''prod'', in_head_sha = ''h'',
     in_intent_ref = ''refs/tags/cross-ai-intent/q'', in_session_digest = ''sha256:271'', in_artifact_set_digest = ''a'',
     in_rollback_plan_digest = ''b'', in_post_deploy_verifier_digest = ''v'', in_expires_at = 3600,
     in_registration_principal = ''spiffe://c'', in_triggering_actor_id = Some 5, in_registered_at = 0,
     in_ref_object_id = Some ''r'', in_finalized_at = Some 0, in_state = Finalized\<rparr>"

definition eval_dispatch :: dispatch_job where
  "eval_dispatch = \<lparr>dj_request_id = ''q'', dj_stage = ''apply'', dj_installation_id = 4, dj_repository_id = Some 7,
     dj_repository = ''o/r'', dj_workflow_path = ''w.yml'', dj_intent_ref = Some ''refs/tags/cross-ai-intent/q'',
     dj_head_sha = Some ''h'', dj_expected_actor_id = 5, dj_correlation_key = Some ''k'', dj_state = DAccepted,
     dj_queued_at = 0, dj_claimed_at = Some 0, dj_snapshot_at = Some 0, dj_watermark = Some 10, dj_resolved_at = Some 0,
     dj_http_status = Some 204, dj_reason_code = Some ''x'', dj_run_id = Some 11\<rparr>"

definition eval_stage :: "string \<Rightarrow> int \<Rightarrow> stage_row" where
  "eval_stage stg k = \<lparr>st_request_id = ''q'', st_repository_id = 7, st_environment = ''prod'', st_stage = stg,
     st_stage_order = k, st_nonce_digest = stg, st_workflow_path = Some ''w.yml'', st_workflow_blob_digest = ''wb'',
     st_state = Available, st_run_id = None, st_run_attempt = None, st_app_rule_id = None, st_reservation_id = None,
     st_reservation_expires_at = None\<rparr>"

definition eval_registry :: registry where
  "eval_registry = \<lparr>r_intents = [eval_row], r_stages = [eval_stage ''apply'' 1, eval_stage ''browser-evidence'' 2,
       eval_stage ''compensating-rollback'' 3], r_dispatches = [eval_dispatch],
     r_events = [], r_outcomes = [], r_bootstraps = [], r_cas = [(replicate 64 (CHR ''0''), ev_text ev_bundle_envelope)]\<rparr>"

definition eval_run :: "(string \<times> json) list" where
  "eval_run = [(''id'', JInt 11), (''run_attempt'', JInt 1), (''event'', JStr ''workflow_dispatch''),
     (''head_branch'', JStr ''cross-ai-intent/q''), (''head_sha'', JStr ''h''), (''path'', JStr ''w.yml''),
     (''status'', JStr ''waiting''), (''triggering_actor'', JObj [(''id'', JInt 5)]),
     (''repository'', JObj [(''id'', JInt 7), (''full_name'', JStr ''o/r'')]),
     (''head_repository'', JObj [(''id'', JInt 7), (''full_name'', JStr ''o/r'')]), (''created_at'', JStr ''1Z'')]"

definition eval_environment :: "(string \<times> json) list" where
  "eval_environment = [(''name'', JStr ''prod''), (''can_admins_bypass'', JBool False),
     (''protection_rules'', JArr [JObj [(''type'', JStr ''required_reviewers'')],
        JObj [(''type'', JStr ''custom''), (''app'', JObj [(''id'', JInt 3)])]]),
     (''deployment_branch_policy'', JObj [(''protected_branches'', JBool False), (''custom_branch_policies'', JBool True)])]"

definition eval_truth :: truth where
  "eval_truth = \<lparr>tq_now = minutes 10, tq_now_run = minutes 10, tq_revocations = Inr ev_revocations_envelope,
     tq_repository = (\<lambda>_ _. Inr [(''id'', JInt 7), (''full_name'', JStr ''o/r''), (''fork'', JBool False)]),
     tq_environment = (\<lambda>_ _ _. Inr eval_environment), tq_workflow_run = (\<lambda>_ _ _. Inr eval_run),
     tq_intent_ref = (\<lambda>_ _ _. Inr \<lparr>ir_ref_object_id = ''r'', ir_head_sha = ''h'', ir_annotated = False\<rparr>),
     tq_runners = (\<lambda>_ _. Inr []), tq_workflow_bytes = (\<lambda>_ _ _ _. Inr ''on: workflow_dispatch''),
     tq_inspect = (\<lambda>_ _ _ _. Inr \<lparr>wi_workflow_sha256 = ''wb'', wi_dependency_lock_sha256 = ''dl'', wi_concurrency_group_sha256 = ''cg''\<rparr>)\<rparr>"

definition eval_result :: evaluation_result where
  "eval_result = \<lparr>er_approval_candidate = True, er_reason_code = ''SIGNED_EVIDENCE_AND_GITHUB_TRUTH_VALID'', er_request_id = ''q'',
     er_stage = ''apply'', er_run_id = 11, er_run_attempt = 1, er_app_rule_id = 3,
     er_evidence_digest = ''sha256:'' @ replicate 64 (CHR ''0''), er_policy_digest = ''p'', er_provider_families = [''anthropic'', ''openai'']\<rparr>"

lemma eval_finalized: "get_finalized ev_host ''q'' eval_registry = Inr (eval_row, ev_bundle_envelope)"
  by code_simp

lemma eval_evidence: "verified_evidence ev_host eval_evaluator eval_truth eval_request eval_registry = Inr (eval_row, ev_accepted)"
proof -
  have b: "policy_binding eval_policy eval_request = Inr ()" by code_simp
  have s: "eva_policy eval_evaluator = eval_policy" "eva_trust_root eval_evaluator = ev_trust_root"
    "eva_expected_trust_root eval_evaluator = ''sha256:1433''" "pr_request_id eval_request = ''q''" "tq_now eval_truth = minutes 10"
    "tq_revocations eval_truth = Inr ev_revocations_envelope" "dp_digest eval_policy = ''p''"
    by (simp_all add: eval_evaluator_def eval_request_def eval_truth_def eval_policy_def)
  show ?thesis
    unfolding verified_evidence_def Let_def s b eval_finalized bindE_simps prod.case
      ev_verifier_new [unfolded ev_new_def] ev_bundle_accepted by code_simp
qed

lemma eval_positive: "evaluate ev_host eval_evaluator eval_truth eval_registry eval_request = Inr eval_result"
  unfolding evaluate_def Let_def eval_evidence bindE_simps prod.case by code_simp

theorem evaluation_sound_witness:
  "\<exists>row v vf envelope. get_finalized ev_host ''q'' eval_registry = Inr (row, envelope) \<and> verify_bundle ev_host vf envelope = Inr v
    \<and> sj_policySha256 (bd_subject (vb_payload v)) = ''p''"
proof -
  have "dp_digest (eva_policy eval_evaluator) \<noteq> []" by (simp add: eval_evaluator_def eval_policy_def)
  from evaluation_sound [OF eval_positive this] show ?thesis
    by (auto simp: eval_evaluator_def eval_policy_def eval_request_def)
qed

end
