(* ===== verification/Service.thy ===== *)
theory Service
  imports Evaluator Ledger
begin

text \<open>
  The webhook service of \<^verbatim>\<open>server.py\<close>: intake into a bounded queue, the worker that observes or
  enforces, and the decision callback. The HTTP server and the threads are left out; what
  other threads and processes do to the ledger and the registry between two accesses is an
  argument.
\<close>

section \<open>State and surroundings\<close>

record callback_result =
  cr_accepted :: bool
  cr_ambiguous :: bool
  cr_status :: "int option"
  cr_reason_code :: string

text \<open>A decision posted to GitHub.\<close>

record callback =
  cb_request :: protection_request
  cb_state :: verdict
  cb_comment :: string

record service =
  sv_registry :: registry
  sv_ledger :: ledger
  sv_queue :: "protection_request list"
  sv_callbacks :: "callback list"

record service_config =
  sc_mode :: evaluator_mode
  sc_secrets :: "string list"
  sc_allowed_api_origins :: "string list"
  sc_queue_capacity :: int
  sc_evaluator :: "evaluator option"
  sc_registry :: bool
  sc_decision_client :: bool
  sc_outcome_sweeper :: bool
  sc_bootstrap_authorizer :: bool

text \<open>
  The surroundings of one call. Its accesses are numbered in the order of the code: \<open>se_now\<close> is
  the clock and \<open>se_uid\<close>, \<open>se_event_id\<close> the identifiers drawn in an access, \<open>se_ledger\<close> and
  \<open>se_registry\<close> what others did to the database just before it, \<open>se_truth\<close> the live state that
  an evaluation sees, and \<open>se_post\<close> GitHub's answer to the callback.
\<close>

record service_env =
  se_now :: "nat \<Rightarrow> datetime"
  se_event_id :: "nat \<Rightarrow> string"
  se_uid :: "nat \<Rightarrow> nat \<Rightarrow> string"
  se_ledger :: "nat \<Rightarrow> ledger \<Rightarrow> ledger"
  se_registry :: "nat \<Rightarrow> registry \<Rightarrow> registry"
  se_truth :: "nat \<Rightarrow> truth"
  se_post :: "int \<Rightarrow> string \<Rightarrow> int \<Rightarrow> string \<Rightarrow> verdict \<Rightarrow> string \<Rightarrow> callback_result result"

definition new_service :: "service_config \<Rightarrow> service_config result" where
  "new_service C =
     bindE (reject_if
       [(sc_secrets C = [], ''WEBHOOK_SECRET_MISSING''),
        (sc_mode C = Enforce \<and> (sc_evaluator C = None \<or> \<not> sc_registry C \<or> \<not> sc_decision_client C
          \<or> \<not> sc_outcome_sweeper C \<or> \<not> sc_bootstrap_authorizer C), ''ENFORCEMENT_DEPENDENCY_MISSING'')]) (\<lambda>_. Inr C)"

section \<open>Sequencing\<close>

definition bindS :: "'a result \<times> 's \<Rightarrow> ('a \<Rightarrow> 's \<Rightarrow> 'b result \<times> 's) \<Rightarrow> 'b result \<times> 's" where
  "bindS m f = (case m of (Inl e, s) \<Rightarrow> (Inl e, s) | (Inr x, s) \<Rightarrow> f x s)"

lemma bindS_Inr: "bindS (Inr x, t) f = f x t"
  by (simp add: bindS_def)

lemma bindS_Inr_iff: "bindS m f = (Inr y, t) \<longleftrightarrow> (\<exists>x s. m = (Inr x, s) \<and> f x s = (Inr y, t))"
  by (auto simp: bindS_def split: prod.splits sum.splits)

lemma bindS_InrE:
  assumes "bindS m f = (Inr y, t)"
  obtains x s where "m = (Inr x, s)" "f x s = (Inr y, t)"
  using assms by (auto simp: bindS_Inr_iff)

text \<open>\<^verbatim>\<open>try: \<dots> except PolicyError as exc: \<dots>\<close>; no other exception is caught.\<close>

definition catchS :: "'a result \<times> 's \<Rightarrow> (string \<Rightarrow> 's \<Rightarrow> 'a result \<times> 's) \<Rightarrow> 'a result \<times> 's" where
  "catchS m h = (case m of (Inl (PolicyError code), s) \<Rightarrow> h code s | _ \<Rightarrow> m)"

definition on_ledger :: "service_env \<Rightarrow> nat \<Rightarrow> (ledger \<Rightarrow> 'a result \<times> ledger) \<Rightarrow> service \<Rightarrow> 'a result \<times> service" where
  "on_ledger E i f s = (case f (se_ledger E i (sv_ledger s)) of (r, L) \<Rightarrow> (r, s\<lparr>sv_ledger := L\<rparr>))"

definition on_intents :: "service_env \<Rightarrow> nat \<Rightarrow> (registry \<Rightarrow> 'a result \<times> registry) \<Rightarrow> service \<Rightarrow> 'a result \<times> service" where
  "on_intents E i f s = (case f (se_registry E i (sv_registry s)) of (r, t) \<Rightarrow> (r, s\<lparr>sv_registry := t\<rparr>))"

definition log_event :: "host \<Rightarrow> service_env \<Rightarrow> nat \<Rightarrow> protection_request \<Rightarrow> string \<Rightarrow> string \<Rightarrow> string option \<Rightarrow> service
    \<Rightarrow> unit result \<times> service" where
  "log_event H E i q event_type reason_code evidence s =
     bindS (on_ledger E i (append_ledger_event H (se_event_id E i) (pr_delivery_id q) event_type reason_code evidence (se_now E i)) s)
       (\<lambda>_ s. (Inr (), s))"

definition evaluate_live :: "host \<Rightarrow> service_env \<Rightarrow> nat \<Rightarrow> evaluator \<Rightarrow> protection_request \<Rightarrow> service
    \<Rightarrow> evaluation_result result \<times> service" where
  "evaluate_live H E i ev q s = on_intents E i (\<lambda>t. (evaluate H ev (se_truth E i) t q, t)) s"

section \<open>Comments\<close>

text \<open>The first code points of a text.\<close>

fun py_take :: "nat \<Rightarrow> string \<Rightarrow> string" where
  "py_take n [] = []"
| "py_take n (c # s) = (if continuation_byte c then c # py_take n s
     else if n = 0 then [] else c # py_take (n - 1) s)"

definition approval_comment :: "evaluation_result \<Rightarrow> string" where
  "approval_comment r = ''APPROVED evidence=sha256:'' @ py_take 16 (removeprefix (er_evidence_digest r) ''sha256:'')
     @ '' stage='' @ er_stage r @ '' policy=v1''"

definition rejection_comment :: "string \<Rightarrow> string" where
  "rejection_comment code = ''REJECTED code='' @ (if py_len code \<le> 80 then code else ''POLICY_REJECTED'')"

section \<open>The callback\<close>

definition replay_code :: "callback_status \<Rightarrow> string" where
  "replay_code cb = (if cb = CbSucceeded then ''CALLBACK_SUCCEEDED'' else ''CALLBACK_DEFINITIVEFAILURE'')"

text \<open>After GitHub accepted the callback.\<close>

definition callback_accepted :: "host \<Rightarrow> service_env \<Rightarrow> protection_request \<Rightarrow> verdict \<Rightarrow> string \<Rightarrow> string option
    \<Rightarrow> stage_reservation option \<Rightarrow> callback_result \<Rightarrow> service \<Rightarrow> unit result \<times> service" where
  "callback_accepted H E q st reason_code evidence reservation callback s =
     bindS (on_ledger E 22 (complete_decision q CbSucceeded (cr_status callback) (se_now E 22)) s) (\<lambda>_ s.
     bindS (case reservation of
         None \<Rightarrow> (Inr (), s)
       | Some res \<Rightarrow> on_intents E 23 (transition_stage H (se_uid E 23) (sr_request_id res) (sr_stage res)
           ApprovedPendingOutcome ''CALLBACK_ACCEPTED_204'' (se_now E 23)) s) (\<lambda>_ s.
     log_event H E 24 q (if st = Approved then ''DECISION_APPROVED'' else ''DECISION_REJECTED'') reason_code evidence s))"

text \<open>After GitHub refused the callback or its answer is unknown.\<close>

definition callback_failed :: "host \<Rightarrow> service_env \<Rightarrow> protection_request \<Rightarrow> string option
    \<Rightarrow> stage_reservation option \<Rightarrow> callback_result \<Rightarrow> service \<Rightarrow> unit result \<times> service" where
  "callback_failed H E q evidence reservation callback s =
     bindS (on_ledger E 22 (complete_decision q (if cr_ambiguous callback then CbUnknown else CbDefinitiveFailure)
              (cr_status callback) (se_now E 22)) s) (\<lambda>_ s.
     bindS (case reservation of
         None \<Rightarrow> (Inr (), s)
       | Some res \<Rightarrow>
           if cr_ambiguous callback \<or> sr_state res = Reserved
           then on_intents E 23 (transition_stage H (se_uid E 23) (sr_request_id res) (sr_stage res)
             (if cr_ambiguous callback then OutcomeOverdue else Rejected) (cr_reason_code callback) (se_now E 23)) s
           else (Inr (), s)) (\<lambda>_ s.
     log_event H E 24 q (if cr_ambiguous callback then ''CALLBACK_UNKNOWN'' else ''CALLBACK_DEFINITIVE_FAILURE'')
       (cr_reason_code callback) evidence s))"

definition post_claimed_decision :: "host \<Rightarrow> service_config \<Rightarrow> service_env \<Rightarrow> protection_request \<Rightarrow> verdict \<Rightarrow> string
    \<Rightarrow> string option \<Rightarrow> string \<Rightarrow> stage_reservation option \<Rightarrow> service \<Rightarrow> unit result \<times> service" where
  "post_claimed_decision H C E q st reason_code evidence comment reservation s =
     (if \<not> sc_decision_client C then (reject ''ENFORCEMENT_DEPENDENCY_MISSING'', s)
      else bindS (on_ledger E 20 (claim_decision q st reason_code evidence comment (se_now E 20)) s) (\<lambda>(record1, _) s.
        if dc_callback_status record1 \<in> {CbSucceeded, CbDefinitiveFailure}
        then log_event H E 21 q ''DECISION_REPLAYED'' (replay_code (dc_callback_status record1)) evidence s
        else bindS (se_post E (pr_installation_id q) (pr_repository q) (pr_run_id q) (pr_environment q) st comment,
                s\<lparr>sv_callbacks := sv_callbacks s @ [\<lparr>cb_request = q, cb_state = st, cb_comment = comment\<rparr>]\<rparr>) (\<lambda>callback s.
          if cr_accepted callback then callback_accepted H E q st reason_code evidence reservation callback s
          else callback_failed H E q evidence reservation callback s)))"

section \<open>Enforcement\<close>

text \<open>The guarded part: evaluate, reserve, evaluate again. The reservation survives a later rejection.\<close>

definition reserve_evaluated :: "host \<Rightarrow> service_env \<Rightarrow> evaluator \<Rightarrow> protection_request \<Rightarrow> service
    \<Rightarrow> (evaluation_result result \<times> stage_reservation option) \<times> service" where
  "reserve_evaluated H E ev q s =
     (case evaluate_live H E 1 ev q s of
        (Inl e, s1) \<Rightarrow> ((Inl e, None), s1)
      | (Inr result, s1) \<Rightarrow>
          (case on_intents E 2 (reserve_stage H (se_uid E 2) (er_request_id result) (er_stage result) (er_run_id result)
                  (er_run_attempt result) (er_app_rule_id result) (se_now E 2)) s1 of
             (Inl e, s2) \<Rightarrow> ((Inl e, None), s2)
           | (Inr res, s2) \<Rightarrow>
               (case evaluate_live H E 3 ev q s2 of
                  (Inl e, s3) \<Rightarrow> ((Inl e, Some res), s3)
                | (Inr rechecked, s3) \<Rightarrow>
                    if rechecked \<noteq> result then ((reject ''GITHUB_TRUTH_CHANGED'', Some res), s3)
                    else ((Inr result, Some res), s3))))"

definition post_rejection :: "host \<Rightarrow> service_config \<Rightarrow> service_env \<Rightarrow> protection_request \<Rightarrow> string \<Rightarrow> service \<Rightarrow> unit result \<times> service" where
  "post_rejection H C E q code s =
     catchS (post_claimed_decision H C E q Denied code None (rejection_comment code) None s) (\<lambda>decision_code s.
       if decision_code \<noteq> ''DECISION_CONFLICT'' then (reject decision_code, s)
       else log_event H E 30 q ''DECISION_CONFLICT_BLOCKED'' decision_code None s)"

definition enforce :: "host \<Rightarrow> service_config \<Rightarrow> service_env \<Rightarrow> protection_request \<Rightarrow> service
    \<Rightarrow> evaluation_result option result \<times> service" where
  "enforce H C E q s =
     (case sc_evaluator C of None \<Rightarrow> (Inl AssertionError, s) | Some ev \<Rightarrow>
      if \<not> sc_registry C then (Inl AssertionError, s)
      else bindS (log_event H E 0 q ''ENFORCEMENT_REQUESTED'' ''AUTHENTICATED_WEBHOOK_ENQUEUED'' None s) (\<lambda>_ s.
        case reserve_evaluated H E ev q s of
          ((Inr result, res), s) \<Rightarrow>
            bindS (post_claimed_decision H C E q Approved (er_reason_code result) (Some (er_evidence_digest result))
                     (approval_comment result) res s) (\<lambda>_ s. (Inr (Some result), s))
        | ((Inl (PolicyError code), res), s) \<Rightarrow>
            bindS (case res of
                Some reservation \<Rightarrow>
                  if sr_state reservation = Reserved
                  then on_intents E 4 (transition_stage H (se_uid E 4) (sr_request_id reservation) (sr_stage reservation)
                         Rejected code (se_now E 4)) s
                  else (Inr (), s)
              | None \<Rightarrow> (Inr (), s)) (\<lambda>_ s.
            bindS (post_rejection H C E q code s) (\<lambda>_ s. (Inr None, s)))
        | ((Inl e, res), s) \<Rightarrow> (Inl e, s)))"

section \<open>Observation\<close>

definition observe :: "host \<Rightarrow> service_config \<Rightarrow> service_env \<Rightarrow> protection_request \<Rightarrow> service
    \<Rightarrow> evaluation_result option result \<times> service" where
  "observe H C E q s =
     bindS (log_event H E 0 q ''OBSERVED'' ''OBSERVE_MODE_NO_CALLBACK'' None s) (\<lambda>_ s.
     case sc_evaluator C of
       None \<Rightarrow> (Inr None, s)
     | Some ev \<Rightarrow>
         catchS
           (bindS (evaluate_live H E 1 ev q s) (\<lambda>result s.
            bindS (log_event H E 2 q ''EVALUATION_APPROVAL_CANDIDATE'' (er_reason_code result)
                     (Some (er_evidence_digest result)) s) (\<lambda>_ s. (Inr (Some result), s))))
           (\<lambda>code s. bindS (log_event H E 3 q ''EVALUATION_REJECTED'' code None s) (\<lambda>_ s. (Inr None, s))))"

section \<open>Intake, worker and poller entry\<close>

text \<open>\<^verbatim>\<open>queue.full()\<close>: a queue without a positive capacity is never full.\<close>

definition queue_full :: "service_config \<Rightarrow> service \<Rightarrow> bool" where
  "queue_full C s = (0 < sc_queue_capacity C \<and> sc_queue_capacity C \<le> int (length (sv_queue s)))"

definition accept :: "host \<Rightarrow> web_host \<Rightarrow> service_config \<Rightarrow> service_env \<Rightarrow> string \<Rightarrow> (string \<times> string) list \<Rightarrow> service
    \<Rightarrow> (protection_request \<times> bool) result \<times> service" where
  "accept H W C E raw_body headers s =
     (case parse_deployment_protection_webhook H W raw_body headers (sc_secrets C) (sc_allowed_api_origins C) of
        Inl e \<Rightarrow> (Inl e, s)
      | Inr q \<Rightarrow>
          if queue_full C s then (reject ''OBSERVE_QUEUE_FULL'', s)
          else bindS (on_ledger E 0 (record_delivery q (se_now E 0)) s) (\<lambda>inserted s.
            (Inr (q, \<not> inserted), if inserted then s\<lparr>sv_queue := sv_queue s @ [q]\<rparr> else s)))"

definition process_polled :: "host \<Rightarrow> service_config \<Rightarrow> service_env \<Rightarrow> protection_request \<Rightarrow> service \<Rightarrow> bool result \<times> service" where
  "process_polled H C E q s =
     (if sc_mode C \<noteq> Enforce then (reject ''POLLER_MODE_INVALID'', s)
      else if pr_provenance q \<noteq> ''github_app_delivery_api_v1'' then (reject ''POLLER_PROVENANCE_INVALID'', s)
      else bindS (on_ledger E 40 (record_delivery q (se_now E 40)) s) (\<lambda>_ s.
        bindS (on_ledger E 41 (\<lambda>L. (Inr (callback_succeeded q L), L)) s) (\<lambda>done s.
        if done then (Inr True, s)
        else bindS (enforce H C E q s) (\<lambda>_ s. on_ledger E 42 (\<lambda>L. (Inr (callback_succeeded q L), L)) s))))"

text \<open>
  One iteration of the worker over a queued request: any exception is recorded as one ledger
  event, and a failure to record it is dropped.
\<close>

definition process_queued :: "host \<Rightarrow> service_config \<Rightarrow> service_env \<Rightarrow> protection_request \<Rightarrow> service \<Rightarrow> service" where
  "process_queued H C E q s =
     (case (if sc_mode C = Observe then observe H C E q s else enforce H C E q s) of
        (Inr _, s1) \<Rightarrow> s1
      | (Inl _, s1) \<Rightarrow> snd (log_event H E 50 q ''PROCESSING_FAILED'' ''OBSERVE_PROCESSING_ERROR'' None s1))"

definition worker_step :: "host \<Rightarrow> service_config \<Rightarrow> service_env \<Rightarrow> service \<Rightarrow> service" where
  "worker_step H C E s = (case sv_queue s of [] \<Rightarrow> s | q # rest \<Rightarrow> process_queued H C E q (s\<lparr>sv_queue := rest\<rparr>))"

end
