(* ===== verification/ServiceProps.thy ===== *)
theory ServiceProps
  imports Service EvaluatorProps LedgerProps IntentProps
begin

text \<open>
  What the service guarantees of the callbacks it posts, whatever other threads and processes
  do to the ledger and the registry between its own accesses: every callback repeats the one
  decision that the ledger holds for its run, and an approval is posted only between two equal
  positive evaluations with the reservation of the stage in between.
\<close>

section \<open>Relations kept by sequencing\<close>

text \<open>
  A relation between the states before and after a computation that sequencing and exception
  handling carry over.
\<close>

locale kept_relation =
  fixes R :: "'s \<Rightarrow> 's \<Rightarrow> bool"
  assumes R_refl: "R s s"
    and R_trans: "R s t \<Longrightarrow> R t u \<Longrightarrow> R s u"
begin

lemma bindS_kept:
  assumes "R s (snd m)" "\<And>x t. m = (Inr x, t) \<Longrightarrow> R t (snd (f x t))"
  shows "R s (snd (bindS m f))"
  using assms by (auto simp: bindS_def split: prod.splits sum.splits intro: R_trans)

lemma catchS_kept:
  assumes "R s (snd m)" "\<And>code t. m = (Inl (PolicyError code), t) \<Longrightarrow> R t (snd (h code t))"
  shows "R s (snd (catchS m h))"
  using assms by (auto simp: catchS_def split: prod.splits sum.splits perror.splits intro: R_trans)

end

text \<open>A callback repeats the decision the ledger holds for its run.\<close>

definition backed :: "ledger \<Rightarrow> callback \<Rightarrow> bool" where
  "backed L c = (\<exists>d. decision_of L (cb_request c) = Some d \<and> dc_state d = cb_state c \<and> dc_comment d = cb_comment c)"

definition served :: "host \<Rightarrow> service \<Rightarrow> service \<Rightarrow> bool" where
  "served H s s' = ((ledger_op H)\<^sup>*\<^sup>* (sv_ledger s) (sv_ledger s') \<and> (reg_op H)\<^sup>*\<^sup>* (sv_registry s) (sv_registry s')
     \<and> (\<exists>cs. sv_callbacks s' = sv_callbacks s @ cs \<and> (\<forall>c \<in> set cs. backed (sv_ledger s') c)))"

lemma backed_later: "backed L c \<Longrightarrow> (ledger_op H)\<^sup>*\<^sup>* L L' \<Longrightarrow> backed L' c"
  by (drule ledger_grows_ops) (fastforce simp: backed_def ledger_grows_def decision_kept_def)

lemma served_trans: "served H s t \<Longrightarrow> served H t u \<Longrightarrow> served H s u"
  unfolding served_def by (elim conjE exE) (auto intro: rtranclp_trans dest: backed_later)

interpretation sv: kept_relation "served H" for H
  by unfold_locales (simp add: served_def, rule served_trans)

text \<open>What others do between the accesses are operations of the ledger and of the registry.\<close>

definition fair_env :: "host \<Rightarrow> service_env \<Rightarrow> bool" where
  "fair_env H E = (\<forall>i. (\<forall>L. (ledger_op H)\<^sup>*\<^sup>* L (se_ledger E i L)) \<and> (\<forall>t. (reg_op H)\<^sup>*\<^sup>* t (se_registry E i t)))"

lemma served_ledger: "fair_env H E \<Longrightarrow> (ledger_op H)\<^sup>*\<^sup>* (se_ledger E i (sv_ledger s)) L' \<Longrightarrow> served H s (s\<lparr>sv_ledger := L'\<rparr>)"
  by (auto simp: served_def fair_env_def intro: rtranclp_trans)

lemma served_registry: "fair_env H E \<Longrightarrow> (reg_op H)\<^sup>*\<^sup>* (se_registry E i (sv_registry s)) t' \<Longrightarrow> served H s (s\<lparr>sv_registry := t'\<rparr>)"
  by (auto simp: served_def fair_env_def intro: rtranclp_trans)

lemma on_ledger_served:
  assumes "fair_env H E" "\<And>L. (ledger_op H)\<^sup>*\<^sup>* L (snd (f L))"
  shows "served H s (snd (on_ledger E i f s))"
  using served_ledger [OF assms(1), of i s] assms(2) by (auto simp: on_ledger_def split: prod.splits) (metis snd_conv)

lemma on_intents_served:
  assumes "fair_env H E" "\<And>t. (reg_op H)\<^sup>*\<^sup>* t (snd (f t))"
  shows "served H s (snd (on_intents E i f s))"
  using served_registry [OF assms(1), of i s] assms(2) by (auto simp: on_intents_def split: prod.splits) (metis snd_conv)

lemma ledger_op_snd:
  "(ledger_op H)\<^sup>*\<^sup>* L (snd (append_ledger_event H u delivery_id event_type reason_code evidence now L))"
  "(ledger_op H)\<^sup>*\<^sup>* L (snd (complete_decision q cb http_status now L))"
  "(ledger_op H)\<^sup>*\<^sup>* L (snd (claim_decision q st reason_code evidence comment now L))"
  "(ledger_op H)\<^sup>*\<^sup>* L (snd (record_delivery q now L))"
  by (rule r_into_rtranclp, rule ledger_op.intros, rule prod.collapse [symmetric])+

lemma reg_op_snd:
  "(reg_op H)\<^sup>*\<^sup>* t (snd (reserve_stage H uid rid stg run_id run_attempt app_rule_id now t))"
  "(reg_op H)\<^sup>*\<^sup>* t (snd (transition_stage H uid rid stg to_state reason_code now t))"
  by (rule r_into_rtranclp, rule reg_op.intros, rule prod.collapse [symmetric])+

lemmas served_access = on_ledger_served [OF _ ledger_op_snd(1)] on_ledger_served [OF _ ledger_op_snd(2)]
  on_ledger_served [OF _ ledger_op_snd(4)] on_intents_served [OF _ reg_op_snd(1)] on_intents_served [OF _ reg_op_snd(2)]

lemma on_intents_read: "fair_env H E \<Longrightarrow> served H s (snd (on_intents E i (\<lambda>t. (f t, t)) s))"
  by (rule on_intents_served) auto

lemma on_ledger_read: "fair_env H E \<Longrightarrow> served H s (snd (on_ledger E i (\<lambda>L. (f L, L)) s))"
  by (rule on_ledger_served) auto

lemma log_event_served: "fair_env H E \<Longrightarrow> served H s (snd (log_event H E i q event_type reason_code evidence s))"
  unfolding log_event_def by (rule sv.bindS_kept) (simp_all add: served_access sv.R_refl)

lemma evaluate_live_served: "fair_env H E \<Longrightarrow> served H s (snd (evaluate_live H E i ev q s))"
  unfolding evaluate_live_def by (rule on_intents_read)

section \<open>The callback repeats the decision\<close>

text \<open>A claim that succeeds leaves a decision with the claimed verdict and comment.\<close>

lemma claim_backs:
  assumes "claim_decision q st reason_code evidence comment now L = (Inr v, L')"
  shows "backed L' \<lparr>cb_request = q, cb_state = st, cb_comment = comment\<rparr>"
proof (cases "decision_of L q")
  case None
  with assms show ?thesis
    by (auto simp: claim_decision_def transaction_Inr_iff claim_decision_txn_def reject_def backed_def lookup_by_append dc_key_def
        pending_decision_def run_key_def Let_def split: if_splits)
next
  case (Some d)
  obtain row created where v: "v = (row, created)" by (cases v)
  from claim_existing [OF assms [unfolded v] Some] Some show ?thesis by (simp add: backed_def)
qed

lemma posted_served:
  assumes "backed (sv_ledger s) c"
  shows "served H s (s\<lparr>sv_callbacks := sv_callbacks s @ [c]\<rparr>)"
  using assms by (simp add: served_def)

lemma callback_accepted_served:
  "fair_env H E \<Longrightarrow> served H s (snd (callback_accepted H E q st reason_code evidence res cr s))"
  unfolding callback_accepted_def
  by (intro sv.bindS_kept) (auto simp: served_access log_event_served sv.R_refl split: option.splits)

lemma callback_failed_served:
  "fair_env H E \<Longrightarrow> served H s (snd (callback_failed H E q evidence res cr s))"
  unfolding callback_failed_def
  by (intro sv.bindS_kept) (auto simp: served_access log_event_served sv.R_refl split: option.splits)

lemma claim_served:
  assumes "fair_env H E" "on_ledger E i (claim_decision q st reason_code evidence comment now) s = (Inr v, t)"
  shows "backed (sv_ledger t) \<lparr>cb_request = q, cb_state = st, cb_comment = comment\<rparr>"
  using assms(2) by (auto simp: on_ledger_def split: prod.splits dest: claim_backs)

lemma post_claimed_served:
  assumes "fair_env H E"
  shows "served H s (snd (post_claimed_decision H C E q st reason_code evidence comment res s))"
  unfolding post_claimed_decision_def
proof (simp add: sv.R_refl, intro impI sv.bindS_kept)
  show "served H s (snd (on_ledger E 20 (claim_decision q st reason_code evidence comment (se_now E 20)) s))"
    by (rule on_ledger_served [OF assms ledger_op_snd(3)])
next
  fix v t
  assume c: "on_ledger E 20 (claim_decision q st reason_code evidence comment (se_now E 20)) s = (Inr v, t)"
  note posted = posted_served [OF claim_served [OF assms c]]
  show "served H t (snd ((case v of (record1, _) \<Rightarrow> \<lambda>s.
      if dc_callback_status record1 = CbSucceeded \<or> dc_callback_status record1 = CbDefinitiveFailure
      then log_event H E 21 q ''DECISION_REPLAYED'' (replay_code (dc_callback_status record1)) evidence s
      else bindS (se_post E (pr_installation_id q) (pr_repository q) (pr_run_id q) (pr_environment q) st comment,
             s\<lparr>sv_callbacks := sv_callbacks s @ [\<lparr>cb_request = q, cb_state = st, cb_comment = comment\<rparr>]\<rparr>)
           (\<lambda>callback s. if cr_accepted callback then callback_accepted H E q st reason_code evidence res callback s
             else callback_failed H E q evidence res callback s)) t))"
    by (auto simp: log_event_served [OF assms] callback_accepted_served [OF assms] callback_failed_served [OF assms] posted
        split: prod.splits intro!: sv.bindS_kept)
qed

lemma reserve_evaluated_served:
  assumes "fair_env H E"
  shows "served H s (snd (reserve_evaluated H E ev q s))"
proof -
  obtain r1 s1 where 1: "evaluate_live H E 1 ev q s = (r1, s1)" by fastforce
  with evaluate_live_served [OF assms, of s 1 ev q] have a: "served H s s1" by simp
  show ?thesis
  proof (cases r1)
    case (Inl e)
    with a show ?thesis unfolding reserve_evaluated_def 1 by simp
  next
    case (Inr result)
    let ?m = "on_intents E 2 (reserve_stage H (se_uid E 2) (er_request_id result) (er_stage result)
        (er_run_id result) (er_run_attempt result) (er_app_rule_id result) (se_now E 2)) s1"
    obtain r2 s2 where 2: "?m = (r2, s2)" by fastforce
    obtain r3 s3 where 3: "evaluate_live H E 3 ev q s2 = (r3, s3)" by fastforce
    have "served H s1 (snd ?m)" by (rule on_intents_served [OF assms reg_op_snd(1)])
    then have b: "served H s1 s2" by (simp add: 2)
    from 3 evaluate_live_served [OF assms, of s2 3 ev q] have "served H s2 s3" by simp
    note all = served_trans [OF a b] served_trans [OF served_trans [OF a b] this]
    show ?thesis unfolding reserve_evaluated_def 1 Inr by (simp add: 2 3 all split: sum.splits)
  qed
qed

lemma post_rejection_served: "fair_env H E \<Longrightarrow> served H s (snd (post_rejection H C E q code s))"
  unfolding post_rejection_def
  by (intro sv.catchS_kept) (auto simp: post_claimed_served log_event_served sv.R_refl)

lemma transition_served:
  "fair_env H E \<Longrightarrow> served H s (snd (case res of None \<Rightarrow> (Inr (), s) | Some r \<Rightarrow>
     if sr_state r = Reserved then on_intents E i (transition_stage H uid (sr_request_id r) (sr_stage r) to code now) s
     else (Inr (), s)))"
  by (auto simp: served_access sv.R_refl split: option.splits)

lemma enforce_served:
  assumes "fair_env H E"
  shows "served H s (snd (enforce H C E q s))"
proof -
  have go: "served H t (snd (case reserve_evaluated H E ev q t of
          ((Inr result, res), s) \<Rightarrow>
            bindS (post_claimed_decision H C E q Approved (er_reason_code result) (Some (er_evidence_digest result))
                     (approval_comment result) res s) (\<lambda>_ s. (Inr (Some result), s))
        | ((Inl (PolicyError code), res), s) \<Rightarrow>
            bindS (case res of
                Some reservation \<Rightarrow>
                  if sr_state reservation = Reserved
                  then on_intents E 4 (transition_stage H (se_uid E 4) (sr_request_id reservation) (sr_stage reservation)
                         Rejected code (se_now E 4)) s
                  else (Inr (), s)
              | None \<Rightarrow> (Inr (), s)) (\<lambda>_ s.
            bindS (post_rejection H C E q code s) (\<lambda>_ s. (Inr None, s)))
        | ((Inl e, res), s) \<Rightarrow> (Inl e, s)))" for ev t
  proof -
    obtain r res u where r: "reserve_evaluated H E ev q t = ((r, res), u)" by (metis surj_pair)
    with reserve_evaluated_served [OF assms, of t ev q] have u: "served H t u" by simp
    show ?thesis unfolding r
      by (rule served_trans [OF u])
        (simp add: sv.R_refl post_claimed_served [OF assms] post_rejection_served [OF assms] transition_served [OF assms]
          sv.bindS_kept split: sum.splits perror.splits)
  qed
  show ?thesis unfolding enforce_def
    by (auto simp: sv.R_refl log_event_served [OF assms] go intro!: sv.bindS_kept split: option.splits)
qed

lemma observe_served: "fair_env H E \<Longrightarrow> served H s (snd (observe H C E q s))"
  unfolding observe_def
  by (auto simp: sv.R_refl log_event_served evaluate_live_served intro!: sv.bindS_kept sv.catchS_kept split: option.splits)

lemma accept_served: "fair_env H E \<Longrightarrow> served H s (snd (accept H W C E raw_body headers s))"
  unfolding accept_def
  by (auto simp: sv.R_refl served_access intro!: sv.bindS_kept split: sum.splits) (simp add: served_def)

lemma process_polled_served: "fair_env H E \<Longrightarrow> served H s (snd (process_polled H C E q s))"
  unfolding process_polled_def
  by (auto simp: sv.R_refl served_access enforce_served on_ledger_read intro!: sv.bindS_kept)

lemma process_queued_served:
  assumes "fair_env H E"
  shows "served H s (process_queued H C E q s)"
proof -
  obtain r t where r: "(if sc_mode C = Observe then observe H C E q s else enforce H C E q s) = (r, t)" by fastforce
  with enforce_served [OF assms, of s C q] observe_served [OF assms, of s C q] have "served H s t"
    by (auto split: if_splits)
  with served_trans [OF this log_event_served [OF assms]] show ?thesis
    unfolding process_queued_def r by (simp split: sum.splits)
qed

lemma worker_served: "fair_env H E \<Longrightarrow> served H s (worker_step H C E s)"
proof (cases "sv_queue s")
  case (Cons q rest)
  assume "fair_env H E"
  moreover have "served H s (s\<lparr>sv_queue := rest\<rparr>)" by (simp add: served_def)
  ultimately show ?thesis unfolding worker_step_def Cons by (simp add: served_trans [OF _ process_queued_served])
qed (simp add: worker_step_def sv.R_refl)

section \<open>Histories of the service\<close>

text \<open>
  Steps of the service process: a webhook arrives, the worker takes a request, the poller hands
  one over, and in between others work on the ledger and the registry.
\<close>

inductive service_step :: "host \<Rightarrow> web_host \<Rightarrow> service_config \<Rightarrow> service \<Rightarrow> service \<Rightarrow> bool" for H W C where
  intake: "fair_env H E \<Longrightarrow> accept H W C E raw_body headers s = (r, s') \<Longrightarrow> service_step H W C s s'"
| work: "fair_env H E \<Longrightarrow> service_step H W C s (worker_step H C E s)"
| polled: "fair_env H E \<Longrightarrow> process_polled H C E q s = (r2, s') \<Longrightarrow> service_step H W C s s'"
| ledger_work: "ledger_op H (sv_ledger s) L \<Longrightarrow> service_step H W C s (s\<lparr>sv_ledger := L\<rparr>)"
| registry_work: "reg_op H (sv_registry s) t \<Longrightarrow> service_step H W C s (s\<lparr>sv_registry := t\<rparr>)"

lemma step_served: "service_step H W C s s' \<Longrightarrow> served H s s'"
proof (induction rule: service_step.induct)
  case (intake E raw_body headers s r s')
  then show ?case using accept_served [of H E s W C raw_body headers] by simp
next
  case (polled E q s r2 s')
  then show ?case using process_polled_served [of H E s C q] by simp
qed (auto simp: worker_served, auto simp: served_def)

lemma steps_served: "(service_step H W C)\<^sup>*\<^sup>* s s' \<Longrightarrow> served H s s'"
  by (induction rule: rtranclp_induct) (auto simp: sv.R_refl intro: served_trans step_served)

text \<open>
  C1: callbacks never contradict each other. Starting from a service that has posted nothing,
  whatever webhooks, polled deliveries, worker iterations and operations of other processes
  follow, every callback repeats the verdict and comment of the decision the ledger holds for
  its run, and any two callbacks for the same run carry the same verdict and the same comment.
\<close>

theorem callbacks_never_contradict:
  assumes "sv_callbacks s = []" "(service_step H W C)\<^sup>*\<^sup>* s s'" "c \<in> set (sv_callbacks s')"
  shows "(\<exists>d. decision_of (sv_ledger s') (cb_request c) = Some d \<and> dc_state d = cb_state c \<and> dc_comment d = cb_comment c)
    \<and> (\<forall>c' \<in> set (sv_callbacks s'). run_key (cb_request c') = run_key (cb_request c)
         \<longrightarrow> cb_state c' = cb_state c \<and> cb_comment c' = cb_comment c)"
proof -
  from steps_served [OF assms(2)] assms(1) have "\<forall>c \<in> set (sv_callbacks s'). backed (sv_ledger s') c"
    by (auto simp: served_def)
  with assms(3) show ?thesis unfolding backed_def by (metis option.inject)
qed

section \<open>An approval is evaluated twice and reserved\<close>

definition quiet :: "service \<Rightarrow> service \<Rightarrow> bool" where
  "quiet s t = (sv_callbacks t = sv_callbacks s)"

interpretation qt: kept_relation quiet
  by unfold_locales (simp_all add: quiet_def)

lemma quiet_access: "quiet s (snd (on_ledger E i f s))" "quiet s (snd (on_intents E i g s))"
  by (simp_all add: quiet_def on_ledger_def on_intents_def split: prod.splits)

lemma log_event_quiet: "quiet s (snd (log_event H E i q event_type reason_code evidence s))"
  unfolding log_event_def by (rule qt.bindS_kept) (simp_all add: quiet_access qt.R_refl)

lemma answered_quiet:
  "quiet s (snd (callback_accepted H E q st reason_code evidence res cr s))"
  "quiet s (snd (callback_failed H E q evidence res cr s))"
  unfolding callback_accepted_def callback_failed_def
  by (intro qt.bindS_kept; auto simp: quiet_access log_event_quiet qt.R_refl split: option.splits)+

lemma log_event_registry: "sv_registry (snd (log_event H E i q event_type reason_code evidence s)) = sv_registry s"
  by (simp add: log_event_def bindS_def on_ledger_def split: prod.splits sum.splits)

definition posts :: "callback \<Rightarrow> service \<Rightarrow> service \<Rightarrow> bool" where
  "posts c s t = (sv_callbacks t = sv_callbacks s \<or> sv_callbacks t = sv_callbacks s @ [c])"

lemma posts_quiet: "posts c s t \<Longrightarrow> quiet t u \<Longrightarrow> posts c s u" "quiet s t \<Longrightarrow> posts c t u \<Longrightarrow> posts c s u"
  by (simp_all add: posts_def quiet_def)

lemma post_claimed_posts:
  "posts \<lparr>cb_request = q, cb_state = st, cb_comment = comment\<rparr> s
     (snd (post_claimed_decision H C E q st reason_code evidence comment res s))"
proof (cases "on_ledger E 20 (claim_decision q st reason_code evidence comment (se_now E 20)) s")
  case (Pair r t)
  with quiet_access(1) [of s E 20 "claim_decision q st reason_code evidence comment (se_now E 20)"]
  have t: "quiet s t" by simp
  let ?c = "\<lparr>cb_request = q, cb_state = st, cb_comment = comment\<rparr>"
  have p: "posts ?c s (t\<lparr>sv_callbacks := sv_callbacks t @ [?c]\<rparr>)" using t by (simp add: posts_def quiet_def)
  note p' = posts_quiet(1) [OF p answered_quiet(1)] posts_quiet(1) [OF p answered_quiet(2)]
  have l: "posts ?c s (snd (log_event H E i q ty co ed t))" for i ty co ed
    using posts_quiet(2) [OF t] log_event_quiet [of t] by (simp add: posts_def quiet_def)
  have "posts ?c s t" "posts ?c s s" using t by (simp_all add: posts_def quiet_def)
  then show ?thesis using p p' l
    by (simp add: post_claimed_decision_def Pair bindS_def split: sum.splits prod.splits)
qed

lemma reserve_evaluated_quiet: "quiet s (snd (reserve_evaluated H E ev q s))"
  by (simp add: quiet_def reserve_evaluated_def evaluate_live_def on_intents_def split: prod.splits sum.splits)

lemma reserve_evaluated_Inr:
  assumes "reserve_evaluated H E ev q s = ((Inr result, res), u)"
  obtains r t where "evaluate H ev (se_truth E 1) (se_registry E 1 (sv_registry s)) q = Inr result"
    "reserve_stage H (se_uid E 2) (er_request_id result) (er_stage result) (er_run_id result) (er_run_attempt result)
       (er_app_rule_id result) (se_now E 2) (se_registry E 2 (se_registry E 1 (sv_registry s))) = (Inr r, t)"
    "evaluate H ev (se_truth E 3) (se_registry E 3 t) q = Inr result" "res = Some r"
  using assms
  by (auto simp: reserve_evaluated_def evaluate_live_def on_intents_def reject_def split: prod.splits sum.splits if_splits)

lemma post_rejection_posts:
  "posts \<lparr>cb_request = q, cb_state = Denied, cb_comment = rejection_comment code\<rparr> s (snd (post_rejection H C E q code s))"
proof (cases "post_claimed_decision H C E q Denied code None (rejection_comment code) None s")
  case (Pair r t)
  with post_claimed_posts [of q Denied "rejection_comment code" s H C E code None None] have t:
    "posts \<lparr>cb_request = q, cb_state = Denied, cb_comment = rejection_comment code\<rparr> s t" by simp
  from t posts_quiet(1) [OF t log_event_quiet] show ?thesis
    by (simp add: post_rejection_def catchS_def Pair split: sum.splits perror.splits)
qed

lemma lookup_row_update_first:
  assumes "lookup_by key k rows = Some r" "P r" "\<And>x. key (f x) = key x"
  shows "lookup_by key k (row_update (\<lambda>x. key x = k \<and> P x) f rows) = Some (f r)"
  using assms by (induction rows) (auto simp: lookup_by_def row_update_def split: if_splits)

text \<open>A reservation that succeeds leaves the stage bound to the run.\<close>

lemma reserve_binds:
  assumes "reserve_stage H uid rid stg run att rule now s = (Inr v, s')"
  obtains r where "stage_of s' rid stg = Some r" "st_state r \<noteq> Available" "st_run_id r = Some run"
    "st_run_attempt r = Some att" "st_app_rule_id r = Some rule"
proof -
  from assms obtain r where r: "stage_of s rid stg = Some r"
    by (auto simp: reserve_stage_def reserve_txn_def transaction_Inr_iff reject_def split: if_splits option.splits)
  show ?thesis
  proof (cases "st_state r = Available")
    case False
    from reserve_bound [OF assms r False] r False show ?thesis by (intro that [of r]) simp_all
  next
    case True
    with assms r obtain d s1 where s1: "update_reserve rid stg run att rule (uid 0) d s = Inr s1"
      and e: "append_event H (uid 1) rid (Some stg) (Some (stage_name Available)) (stage_name Reserved)
                   ''STAGE_GRANT_RESERVED'' (utc_seconds now) s1 = Inr s'"
      by (auto simp: reserve_stage_def reserve_txn_def transaction_Inr_iff Let_def bindE_Inr_iff
          integrity_as_Inr split: if_splits option.splits)
    from s1 have "r_stages s1 = row_update (\<lambda>r. st_key r = (rid, stg) \<and> st_state r = Available)
        (reserve_row run att rule (uid 0) d) (r_stages s)"
      by (auto simp: update_reserve_def Let_def reserve_row_abs split: if_splits)
    with lookup_row_update_first [OF r, of "\<lambda>r. st_state r = Available" "reserve_row run att rule (uid 0) d"] True
    have "stage_of s' rid stg = Some (reserve_row run att rule (uid 0) d r)" by (simp add: append_event_tables(2) [OF e])
    then show ?thesis by (rule that) (simp_all add: reserve_row_def)
  qed
qed

lemma refusal_posts:
  assumes "quiet s u"
  shows "\<exists>c. posts c s (snd (bindS (case res of
        Some v \<Rightarrow> if sr_state v = Reserved
          then on_intents E 4 (transition_stage H (se_uid E 4) (sr_request_id v) (sr_stage v) Rejected code (se_now E 4)) u
          else (Inr (), u)
      | None \<Rightarrow> (Inr (), u)) (\<lambda>_ s. bindS (post_rejection H C E q code s)
        (\<lambda>_ s. (Inr None :: evaluation_result option result, s))))) \<and> cb_state c = Denied"
    (is "\<exists>c. posts c s (snd (bindS ?m _)) \<and> _")
proof -
  let ?c = "\<lparr>cb_request = q, cb_state = Denied, cb_comment = rejection_comment code\<rparr>"
  obtain r w where w: "?m = (r, w)" by fastforce
  have "quiet u (snd ?m)" by (auto simp: quiet_access qt.R_refl split: option.splits)
  with w assms have q: "quiet s w" by (simp add: quiet_def)
  with posts_quiet(2) [OF q post_rejection_posts [of q code w H C E]] show ?thesis
    unfolding w by (intro exI [of _ ?c]) (auto simp: posts_def quiet_def bindS_def split: sum.splits prod.splits)
qed

lemma enforce_posts:
  assumes "enforce H C E q s = (r, s')" "sv_callbacks s' \<noteq> sv_callbacks s" "cb_state (last (sv_callbacks s')) = Approved"
  obtains ev result res t u where "sc_evaluator C = Some ev" "sv_registry t = sv_registry s"
    "reserve_evaluated H E ev q t = ((Inr result, res), u)"
    "sv_callbacks s' = sv_callbacks s @ [\<lparr>cb_request = q, cb_state = Approved, cb_comment = approval_comment result\<rparr>]"
proof -
  let ?l = "log_event H E 0 q ''ENFORCEMENT_REQUESTED'' ''AUTHENTICATED_WEBHOOK_ENQUEUED'' None s"
  obtain r0 t where l: "?l = (r0, t)" by fastforce
  have t: "quiet s t" "sv_registry t = sv_registry s"
    using log_event_quiet [of s H E 0 q "''ENFORCEMENT_REQUESTED''" "''AUTHENTICATED_WEBHOOK_ENQUEUED''" None]
      log_event_registry [of H E 0 q "''ENFORCEMENT_REQUESTED''" "''AUTHENTICATED_WEBHOOK_ENQUEUED''" None s]
    by (simp_all add: l)
  from assms(1,2) obtain ev where ev: "sc_evaluator C = Some ev" "sc_registry C"
    by (auto simp: enforce_def split: option.splits if_splits)
  with assms(1,2) l t(1) have "\<exists>x. r0 = Inr x"
    by (auto simp: enforce_def bindS_def quiet_def split: sum.splits)
  then obtain x where x: "r0 = Inr x" ..
  obtain r1 res u where u: "reserve_evaluated H E ev q t = ((r1, res), u)" by (metis surj_pair)
  with reserve_evaluated_quiet [of t H E ev q] t(1) have q: "quiet s u" by (simp add: quiet_def)
  note run = assms(1) [unfolded enforce_def ev(1) option.case eqTrueI [OF ev(2)] not_True_eq_False if_False
      l x bindS_Inr prod.case sum.case u]
  show ?thesis
  proof (cases r1)
    case (Inr result)
    from run [unfolded Inr sum.case] have "s' = snd (post_claimed_decision H C E q Approved (er_reason_code result)
        (Some (er_evidence_digest result)) (approval_comment result) res u)"
      by (auto simp: bindS_def split: prod.splits sum.splits)
    with post_claimed_posts [of q Approved "approval_comment result" u] q assms(2)
    have "sv_callbacks s' = sv_callbacks s @ [\<lparr>cb_request = q, cb_state = Approved, cb_comment = approval_comment result\<rparr>]"
      by (metis posts_def quiet_def)
    with ev(1) t(2) u [unfolded Inr] show ?thesis by (rule that)
  next
    case (Inl e)
    have "\<exists>c. posts c s s' \<and> cb_state c = Denied"
    proof (cases e)
      case (PolicyError code)
      from refusal_posts [OF q, where res = res and code = code and H = H and C = C and E = E and q = q] show ?thesis
        unfolding run [unfolded Inl PolicyError sum.case perror.case] by simp
    qed (use run [unfolded Inl sum.case] q in \<open>auto simp: posts_def quiet_def
        intro: exI [of _ "\<lparr>cb_request = q, cb_state = Denied, cb_comment = []\<rparr>"]\<close>)
    with assms(2,3) show ?thesis by (auto simp: posts_def)
  qed
qed

text \<open>
  C2: an approval is evaluated twice and reserved in between. When one enforcement posts an
  approval, the live evaluation was positive before and after the reservation with the same
  result, the reservation of the evaluated stage for this request's run succeeded between the
  two and left the stage bound to this run, its attempt and the App rule, and the approval with the
  evidence comment of that result is the only callback of the enforcement.
\<close>

theorem approval_is_reserved:
  assumes "enforce H C E q s = (r, s')" "sv_callbacks s' \<noteq> sv_callbacks s" "cb_state (last (sv_callbacks s')) = Approved"
  shows "\<exists>ev result res t row. sc_evaluator C = Some ev
    \<and> evaluate H ev (se_truth E 1) (se_registry E 1 (sv_registry s)) q = Inr result
    \<and> reserve_stage H (se_uid E 2) (pr_request_id q) (er_stage result) (pr_run_id q) (er_run_attempt result)
         (er_app_rule_id result) (se_now E 2) (se_registry E 2 (se_registry E 1 (sv_registry s))) = (Inr res, t)
    \<and> stage_of t (pr_request_id q) (er_stage result) = Some row \<and> st_state row \<noteq> Available
    \<and> st_run_id row = Some (pr_run_id q) \<and> st_run_attempt row = Some (er_run_attempt result)
    \<and> st_app_rule_id row = Some (er_app_rule_id result)
    \<and> evaluate H ev (se_truth E 3) (se_registry E 3 t) q = Inr result
    \<and> sv_callbacks s' = sv_callbacks s @ [\<lparr>cb_request = q, cb_state = Approved, cb_comment = approval_comment result\<rparr>]"
proof -
  from assms obtain ev result res t u where e: "sc_evaluator C = Some ev" "sv_registry t = sv_registry s"
    "reserve_evaluated H E ev q t = ((Inr result, res), u)"
    "sv_callbacks s' = sv_callbacks s @ [\<lparr>cb_request = q, cb_state = Approved, cb_comment = approval_comment result\<rparr>]"
    by (rule enforce_posts)
  from e(3) obtain v t' where v: "evaluate H ev (se_truth E 1) (se_registry E 1 (sv_registry s)) q = Inr result"
    "reserve_stage H (se_uid E 2) (er_request_id result) (er_stage result) (er_run_id result) (er_run_attempt result)
       (er_app_rule_id result) (se_now E 2) (se_registry E 2 (se_registry E 1 (sv_registry s))) = (Inr v, t')"
    "evaluate H ev (se_truth E 3) (se_registry E 3 t') q = Inr result"
    unfolding e(2) [symmetric] by (rule reserve_evaluated_Inr)
  from v(1) have k: "er_request_id result = pr_request_id q" "er_run_id result = pr_run_id q" by (auto elim: evaluate_Inr)
  from v(2) obtain row where "stage_of t' (er_request_id result) (er_stage result) = Some row" "st_state row \<noteq> Available"
    "st_run_id row = Some (er_run_id result)" "st_run_attempt row = Some (er_run_attempt result)"
    "st_app_rule_id row = Some (er_app_rule_id result)" by (rule reserve_binds)
  with e(1,4) v show ?thesis unfolding k by blast
qed

section \<open>A concrete enforcement\<close>

text \<open>A run of the evaluation scenario that GitHub accepts, with nobody else at work.\<close>

definition enf_config :: service_config where
  "enf_config = \<lparr>sc_mode = Enforce, sc_secrets = [''k''], sc_allowed_api_origins = [''https://api.github.com''],
     sc_queue_capacity = 10, sc_evaluator = Some eval_evaluator, sc_registry = True, sc_decision_client = True,
     sc_outcome_sweeper = True, sc_bootstrap_authorizer = True\<rparr>"

definition enf_env :: service_env where
  "enf_env = \<lparr>se_now = (\<lambda>_. seconds 1), se_event_id = (\<lambda>i. replicate i (CHR ''e'')), se_uid = (\<lambda>i k. replicate (3 * i + k) (CHR ''u'')),
     se_ledger = (\<lambda>_ L. L), se_registry = (\<lambda>_ t. t), se_truth = (\<lambda>_. eval_truth),
     se_post = (\<lambda>_ _ _ _ _ _. Inr \<lparr>cr_accepted = True, cr_ambiguous = False, cr_status = Some 204, cr_reason_code = ''x''\<rparr>)\<rparr>"

definition enf_start :: service where
  "enf_start = \<lparr>sv_registry = eval_registry, sv_ledger = snd (record_delivery eval_request (seconds 1) empty_ledger),
     sv_queue = [], sv_callbacks = []\<rparr>"

lemma enf_fair: "fair_env H enf_env"
  by (simp add: fair_env_def enf_env_def)

text \<open>An evaluation reads only the intents, the dispatches and the content store.\<close>

lemma evaluate_reads:
  assumes "r_intents t = r_intents s" "r_dispatches t = r_dispatches s" "r_cas t = r_cas s"
  shows "evaluate H ev T t q = evaluate H ev T s q"
  using assms unfolding evaluate_def verified_evidence_def signed_stage_def get_finalized_def get_intent_def get_dispatch_def
  by presburger

lemma reserve_reads:
  assumes "reserve_stage H uid rid stg run att rule now s = (r, t)"
  shows "r_intents t = r_intents s" "r_dispatches t = r_dispatches s" "r_cas t = r_cas s"
  using assms
  by (auto simp: reserve_stage_def reserve_txn_def transaction_def update_reserve_def Let_def bindE_def integrity_as_def
      split: if_splits option.splits sum.splits dest: append_event_tables)

lemma enf_reserved:
  "reserve_stage ev_host (\<lambda>k. replicate (6 + k) (CHR ''u'')) ''q'' ''apply'' 11 1 3 (seconds 1) eval_registry
     = (Inr \<lparr>sr_request_id = ''q'', sr_stage = ''apply'', sr_run_id = 11, sr_run_attempt = 1, sr_app_rule_id = 3,
              sr_reservation_id = Some ''uuuuuu'', sr_reservation_expires_at = Some 1801, sr_state = Reserved, sr_idempotent = False\<rparr>,
        snd (reserve_stage ev_host (\<lambda>k. replicate (6 + k) (CHR ''u'')) ''q'' ''apply'' 11 1 3 (seconds 1) eval_registry))"
  (is "?m = (?r, _)")
proof -
  have "fst ?m = ?r" by code_simp
  then show ?thesis by (metis prod.collapse)
qed

definition enf_res :: stage_reservation where
  "enf_res = \<lparr>sr_request_id = ''q'', sr_stage = ''apply'', sr_run_id = 11, sr_run_attempt = 1, sr_app_rule_id = 3,
     sr_reservation_id = Some ''uuuuuu'', sr_reservation_expires_at = Some 1801, sr_state = Reserved, sr_idempotent = False\<rparr>"

definition enf_registry :: registry where
  "enf_registry = snd (reserve_stage ev_host (\<lambda>k. replicate (6 + k) (CHR ''u'')) ''q'' ''apply'' 11 1 3 (seconds 1) eval_registry)"

lemma enf_reserve_evaluated:
  assumes "sv_registry s = eval_registry"
  shows "reserve_evaluated ev_host enf_env eval_evaluator eval_request s
    = ((Inr eval_result, Some enf_res), s\<lparr>sv_registry := enf_registry\<rparr>)"
proof -
  note kept = evaluate_reads [OF reserve_reads [OF enf_reserved], folded enf_registry_def, of ev_host eval_evaluator eval_truth eval_request]
  have r: "reserve_stage ev_host (se_uid enf_env 2) ''q'' ''apply'' 11 1 3 (seconds 1) eval_registry = (Inr enf_res, enf_registry)"
    using enf_reserved by (simp add: enf_env_def enf_registry_def enf_res_def)
  have f: "er_request_id eval_result = ''q''" "er_stage eval_result = ''apply''" "er_run_id eval_result = 11"
    "er_run_attempt eval_result = 1" "er_app_rule_id eval_result = 3" by (simp_all add: eval_result_def)
  have E: "se_truth enf_env i = eval_truth" "se_registry enf_env i = (\<lambda>t. t)" "se_now enf_env i = seconds 1" for i
    by (simp_all add: enf_env_def)
  show ?thesis
    unfolding reserve_evaluated_def evaluate_live_def on_intents_def E assms eval_positive prod.case sum.case f
    by (simp add: r kept eval_positive)
qed

definition enf_logged :: service where
  "enf_logged = snd (log_event ev_host enf_env 0 eval_request ''ENFORCEMENT_REQUESTED'' ''AUTHENTICATED_WEBHOOK_ENQUEUED'' None enf_start)"

lemma enf_log: "log_event ev_host enf_env 0 eval_request ''ENFORCEMENT_REQUESTED'' ''AUTHENTICATED_WEBHOOK_ENQUEUED'' None enf_start
    = (Inr (), enf_logged)"
  (is "?m = _")
proof -
  have "fst ?m = Inr ()" by code_simp
  then show ?thesis unfolding enf_logged_def by (metis prod.collapse)
qed

lemma enf_post:
  "sv_callbacks (snd (post_claimed_decision ev_host enf_config enf_env eval_request Approved (er_reason_code eval_result)
     (Some (er_evidence_digest eval_result)) (approval_comment eval_result) (Some enf_res) (enf_logged\<lparr>sv_registry := enf_registry\<rparr>)))
   = [\<lparr>cb_request = eval_request, cb_state = Approved, cb_comment = ''APPROVED evidence=sha256:0000000000000000 stage=apply policy=v1''\<rparr>]"
  by code_simp

lemma enf_enforced:
  "sv_callbacks (snd (enforce ev_host enf_config enf_env eval_request enf_start))
   = [\<lparr>cb_request = eval_request, cb_state = Approved, cb_comment = ''APPROVED evidence=sha256:0000000000000000 stage=apply policy=v1''\<rparr>]"
proof -
  have "sv_registry enf_logged = eval_registry"
    using log_event_registry [of ev_host enf_env 0 eval_request "''ENFORCEMENT_REQUESTED''" "''AUTHENTICATED_WEBHOOK_ENQUEUED''" None enf_start]
    by (simp add: enf_log) (simp add: enf_start_def)
  note r = enf_reserve_evaluated [OF this]
  have c: "sc_evaluator enf_config = Some eval_evaluator" "sc_registry enf_config" by (simp_all add: enf_config_def)
  obtain x t where p: "post_claimed_decision ev_host enf_config enf_env eval_request Approved (er_reason_code eval_result)
     (Some (er_evidence_digest eval_result)) (approval_comment eval_result) (Some enf_res) (enf_logged\<lparr>sv_registry := enf_registry\<rparr>) = (x, t)"
    by fastforce
  show ?thesis using enf_post
    unfolding enforce_def c(1) option.case eqTrueI [OF c(2)] not_True_eq_False if_False enf_log bindS_Inr r prod.case sum.case p
    by (simp add: bindS_def split: sum.splits)
qed

theorem approval_is_reserved_witness:
  "\<exists>t row. stage_of t ''q'' ''apply'' = Some row \<and> st_state row \<noteq> Available \<and> st_run_id row = Some 11
     \<and> evaluate ev_host eval_evaluator eval_truth t eval_request = Inr eval_result"
proof -
  obtain r s' where e: "enforce ev_host enf_config enf_env eval_request enf_start = (r, s')" by fastforce
  with enf_enforced have "sv_callbacks s' \<noteq> sv_callbacks enf_start" "cb_state (last (sv_callbacks s')) = Approved"
    by (simp_all add: enf_start_def)
  from approval_is_reserved [OF e this] obtain result t row where x:
    "evaluate ev_host eval_evaluator eval_truth eval_registry eval_request = Inr result"
    "stage_of t ''q'' (er_stage result) = Some row" "st_state row \<noteq> Available" "st_run_id row = Some 11"
    "evaluate ev_host eval_evaluator eval_truth t eval_request = Inr result"
    by (auto simp: enf_config_def enf_env_def enf_start_def eval_request_def)
  from x(1) have "result = eval_result" by (simp add: eval_positive)
  with x(2-5) show ?thesis by (auto simp: eval_result_def)
qed

theorem callbacks_never_contradict_witness:
  "\<exists>s :: service. sv_callbacks s = [\<lparr>cb_request = eval_request, cb_state = Approved,
        cb_comment = ''APPROVED evidence=sha256:0000000000000000 stage=apply policy=v1''\<rparr>]
     \<and> map_option dc_state (decision_of (sv_ledger s) eval_request) = Some Approved"
proof -
  let ?s = "enf_start\<lparr>sv_queue := [eval_request]\<rparr>"
  let ?t = "worker_step ev_host enf_config enf_env ?s"
  obtain r u where e: "enforce ev_host enf_config enf_env eval_request enf_start = (r, u)" by fastforce
  have "?t = process_queued ev_host enf_config enf_env eval_request enf_start"
    by (simp add: worker_step_def enf_start_def)
  moreover have "quiet u (process_queued ev_host enf_config enf_env eval_request enf_start)"
  proof -
    have "sc_mode enf_config \<noteq> Observe" by (simp add: enf_config_def)
    then show ?thesis by (simp add: process_queued_def e log_event_quiet qt.R_refl split: sum.splits)
  qed
  ultimately have c: "sv_callbacks ?t = sv_callbacks u" by (simp add: quiet_def)
  have "(service_step ev_host W enf_config)\<^sup>*\<^sup>* ?s ?t" for W by (rule r_into_rtranclp, rule service_step.work, rule enf_fair)
  note step = callbacks_never_contradict [OF _ this, of "last (sv_callbacks u)"]
  from enf_enforced e have u: "sv_callbacks u = [\<lparr>cb_request = eval_request, cb_state = Approved,
        cb_comment = ''APPROVED evidence=sha256:0000000000000000 stage=apply policy=v1''\<rparr>]" by simp
  have "sv_callbacks ?s = []" by (simp add: enf_start_def)
  from step [OF this] have "\<exists>d. decision_of (sv_ledger ?t) eval_request = Some d \<and> dc_state d = Approved"
    unfolding c u by auto
  then show ?thesis using c u by (intro exI [of _ ?t] conjI) auto
qed

end
