(* ===== verification/Poller.thy ===== *)
theory Poller
  imports Service "HOL-Library.Product_Lexorder"
begin

text \<open>
  The delivery poller of \<^verbatim>\<open>delivery_poller.py\<close>: one bounded read of the App's webhook deliveries,
  the enforcement of the failed ones in order, the mark in the ledger and the delays of the loop.
  The reader of the GitHub API is an argument. Finite floats are the rationals they denote.
\<close>

section \<open>Delivery items\<close>

definition TARGET_EVENT :: string where "TARGET_EVENT = ''deployment_protection_rule''"

definition TARGET_ACTION :: string where "TARGET_ACTION = ''requested''"

definition MAX_PAGES :: nat where "MAX_PAGES = 5"

definition MAX_CANDIDATES :: nat where "MAX_CANDIDATES = 100"

record delivery_item =
  di_api_delivery_id :: int
  di_guid :: string
  di_delivered_at :: datetime
  di_redelivery :: bool
  di_status :: string
  di_status_code :: int
  di_event :: string
  di_action :: "string option"
  di_installation_id :: "int option"
  di_repository_id :: "int option"

abbreviation shape_invalid :: "'a result" where
  "shape_invalid \<equiv> reject ''GITHUB_DELIVERY_SHAPE_INVALID''"

definition delivery_integer :: "bool \<Rightarrow> json \<Rightarrow> int result" where
  "delivery_integer positive v = (case v of
     JInt n \<Rightarrow> if positive \<and> n < 1 then shape_invalid else Inr n | _ \<Rightarrow> shape_invalid)"

definition nullable_positive :: "json \<Rightarrow> int option result" where
  "nullable_positive v = (if v = JNull then Inr None else bindE (delivery_integer True v) (\<lambda>n. Inr (Some n)))"

text \<open>
  An integer from this bound on has no float; \<^verbatim>\<open>math.isfinite\<close> and the product with a float
  raise \<open>OverflowError\<close> for it.
\<close>

definition float_overflows :: "int \<Rightarrow> bool" where
  "float_overflows n = (2 ^ 1024 - 2 ^ 970 \<le> \<bar>n\<bar>)"

definition duration_ok :: "json \<Rightarrow> unit result" where
  "duration_ok v = (case v of
     JInt n \<Rightarrow> if float_overflows n then Inl OverflowError
               else if 0 \<le> n \<and> n \<le> 600 then Inr () else shape_invalid
   | JFloat (Some x) \<Rightarrow> if 0 \<le> x \<and> x \<le> 600 then Inr () else shape_invalid
   | _ \<Rightarrow> shape_invalid)"

definition delivery_text :: "nat \<Rightarrow> nat \<Rightarrow> json \<Rightarrow> string result" where
  "delivery_text low high v = (case v of
     JStr s \<Rightarrow> if low \<le> py_len s \<and> py_len s \<le> high then Inr s else shape_invalid | _ \<Rightarrow> shape_invalid)"

definition delivery_required :: "string list" where
  "delivery_required = [''id'', ''guid'', ''delivered_at'', ''redelivery'', ''duration'', ''status'', ''status_code'',
     ''event'', ''action'', ''installation_id'', ''repository_id'']"

text \<open>
  \<^verbatim>\<open>guid.lower()\<close> acts here on the letters of ASCII: a GUID with any other character is rejected
  before it is used.
\<close>

definition delivery_item_of :: "host \<Rightarrow> (string \<times> json) list \<Rightarrow> delivery_item result" where
  "delivery_item_of H v =
     (if \<not> list_all (\<lambda>k. map_of v k \<noteq> None) delivery_required then shape_invalid
      else bindE (delivery_integer True (jget v ''id'')) (\<lambda>api_delivery_id.
        bindE (delivery_text 36 36 (jget v ''guid'')) (\<lambda>guid.
        bindE (parse_utc H (jget v ''delivered_at'')) (\<lambda>delivered_at.
        bindE (case jget v ''redelivery'' of JBool b \<Rightarrow> Inr b | _ \<Rightarrow> shape_invalid) (\<lambda>redelivery.
        bindE (duration_ok (jget v ''duration'')) (\<lambda>_.
        bindE (delivery_text 1 500 (jget v ''status'')) (\<lambda>status.
        bindE (delivery_text 1 100 (jget v ''event'')) (\<lambda>event.
        bindE (if jget v ''action'' = JNull then Inr None
               else bindE (delivery_text 0 100 (jget v ''action'')) (\<lambda>a. Inr (Some a))) (\<lambda>action.
        bindE (delivery_integer False (jget v ''status_code'')) (\<lambda>status_code.
        bindE (nullable_positive (jget v ''installation_id'')) (\<lambda>installation_id.
        bindE (nullable_positive (jget v ''repository_id'')) (\<lambda>repository_id.
        Inr \<lparr>di_api_delivery_id = api_delivery_id, di_guid = lower guid, di_delivered_at = delivered_at,
          di_redelivery = redelivery, di_status = status, di_status_code = status_code, di_event = event,
          di_action = action, di_installation_id = installation_id, di_repository_id = repository_id\<rparr>))))))))))))"

section \<open>Cross-check of the detail\<close>

text \<open>Python's \<^verbatim>\<open>==\<close> with a bool, an optional integer and an optional text.\<close>

definition eq_bool :: "json \<Rightarrow> bool \<Rightarrow> bool" where
  "eq_bool v b = eq_int v (if b then 1 else 0)"

definition eq_int_opt :: "json \<Rightarrow> int option \<Rightarrow> bool" where
  "eq_int_opt v n = (case n of None \<Rightarrow> v = JNull | Some m \<Rightarrow> eq_int v m)"

definition eq_str_opt :: "json \<Rightarrow> string option \<Rightarrow> bool" where
  "eq_str_opt v s = (case s of None \<Rightarrow> v = JNull | Some t \<Rightarrow> eq_str v t)"

definition detail_agrees :: "delivery_item \<Rightarrow> (string \<times> json) list \<Rightarrow> bool" where
  "detail_agrees item detail =
     (eq_int (jget detail ''id'') (di_api_delivery_id item)
      \<and> (case jget detail ''guid'' of JStr g \<Rightarrow> lower g = di_guid item | _ \<Rightarrow> False)
      \<and> eq_bool (jget detail ''redelivery'') (di_redelivery item)
      \<and> eq_str (jget detail ''status'') (di_status item)
      \<and> eq_int (jget detail ''status_code'') (di_status_code item)
      \<and> eq_str (jget detail ''event'') (di_event item)
      \<and> eq_str_opt (jget detail ''action'') (di_action item)
      \<and> eq_int_opt (jget detail ''installation_id'') (di_installation_id item)
      \<and> eq_int_opt (jget detail ''repository_id'') (di_repository_id item))"

text \<open>An object with exactly the keys \<^verbatim>\<open>headers\<close> and \<^verbatim>\<open>payload\<close>.\<close>

definition message_shape :: "json \<Rightarrow> (string \<times> json) list result" where
  "message_shape v = (case v of
     JObj kvs \<Rightarrow> if fst ` set kvs = {''headers'', ''payload''} then Inr kvs else shape_invalid
   | _ \<Rightarrow> shape_invalid)"

definition is_object :: "json \<Rightarrow> bool" where
  "is_object v = (case v of JObj _ \<Rightarrow> True | _ \<Rightarrow> False)"

definition cross_check_detail :: "host \<Rightarrow> delivery_item \<Rightarrow> (string \<times> json) list \<Rightarrow> string \<Rightarrow> json result" where
  "cross_check_detail H item detail expected_webhook_url =
     (if \<not> detail_agrees item detail then reject ''GITHUB_DELIVERY_LIST_DETAIL_MISMATCH''
      else bindE (parse_utc H (jget detail ''delivered_at'')) (\<lambda>delivered_at.
        if delivered_at \<noteq> di_delivered_at item then reject ''GITHUB_DELIVERY_LIST_DETAIL_MISMATCH''
        else if \<not> eq_str (jget detail ''url'') expected_webhook_url then reject ''GITHUB_DELIVERY_TARGET_MISMATCH''
        else bindE (message_shape (jget detail ''request'')) (\<lambda>request.
          if jget request ''headers'' \<noteq> JNull \<and> \<not> is_object (jget request ''headers'') then shape_invalid
          else if \<not> is_object (jget request ''payload'') then shape_invalid
          else bindE (message_shape (jget detail ''response'')) (\<lambda>_. Inr (jget request ''payload'')))))"

section \<open>Construction\<close>

text \<open>\<^verbatim>\<open>_hostinfo\<close> of a network location: the host name and the text of the port.\<close>

definition hostinfo :: "string \<Rightarrow> string \<times> string" where
  "hostinfo netloc =
     (let info = rev (takeWhile (\<lambda>c. c \<noteq> CHR ''@'') (rev netloc)) in
      if CHR ''['' \<in> set info
      then (let (hostname, rest) = split_first (CHR '']'') (snd (split_first (CHR ''['') info))
            in (hostname, snd (split_first (CHR '':'') rest)))
      else split_first (CHR '':'') info)"

definition url_port :: "string \<Rightarrow> int option result" where
  "url_port netloc =
     (let port = snd (hostinfo netloc) in
      if port = [] then Inr None
      else if \<not> list_all is_digit port \<or> length port > 4300 then Inl ValueError
      else if dec_val port > 65535 then Inl ValueError
      else Inr (Some (int (dec_val port))))"

record poller =
  pc_expected_webhook_url :: string
  pc_expected_installation_id :: int
  pc_expected_repository_id :: int
  pc_allowed_api_origins :: "string list"
  pc_interval_seconds :: rat
  pc_jitter_seconds :: rat
  pc_max_delivery_age :: int
  pc_overlap :: int
  pc_stale_after :: int

text \<open>\<^verbatim>\<open>timedelta(seconds=x)\<close>: the nearest microsecond, the even one of two.\<close>

definition timedelta_seconds :: "rat \<Rightarrow> int" where
  "timedelta_seconds x =
     (let y = 1000000 * x; r = round y in if y + 1 / 2 = of_int r \<and> odd r then r - 1 else r)"

definition new_poller :: "web_host \<Rightarrow> poller \<Rightarrow> poller result" where
  "new_poller W P =
     bindE (reject_if
       [(pc_interval_seconds P < 30 \<or> \<not> (0 \<le> pc_jitter_seconds P \<and> pc_jitter_seconds P \<le> 5), ''POLLER_INTERVAL_INVALID''),
        (pc_expected_installation_id P < 1 \<or> pc_expected_repository_id P < 1, ''POLLER_SCOPE_INVALID'')]) (\<lambda>_.
     bindE (urlsplit W (pc_expected_webhook_url P)) (\<lambda>target.
     bindE (case url_port (su_netloc target) of Inl ValueError \<Rightarrow> reject ''POLLER_CONFIG_INVALID'' | r \<Rightarrow> r) (\<lambda>port.
     bindE (reject_if
       [(su_scheme target \<noteq> ''https'' \<or> fst (hostinfo (su_netloc target)) = [] \<or> CHR ''@'' \<in> set (su_netloc target)
         \<or> su_query target \<noteq> [] \<or> su_fragment target \<noteq> [] \<or> port \<notin> {None, Some 443}
         \<or> \<not> startswith (su_path target) ''/'' \<or> py_len (pc_expected_webhook_url P) > 500
         \<or> pc_max_delivery_age P \<le> 0 \<or> pc_overlap P \<le> 0
         \<or> pc_stale_after P \<le> timedelta_seconds (pc_interval_seconds P + pc_jitter_seconds P), ''POLLER_CONFIG_INVALID'')]) (\<lambda>_.
     Inr P))))"

section \<open>Reading the window\<close>

record hook_page =
  hp_items :: "(string \<times> json) list list"
  hp_next_cursor :: "string option"

text \<open>One read cycle of the API: pages of deliveries and the detail of one.\<close>

record hook_reader =
  hr_list_deliveries :: "string option \<Rightarrow> hook_page result"
  hr_delivery :: "int \<Rightarrow> (string \<times> json) list result"

definition cutoff :: "poller \<Rightarrow> datetime \<Rightarrow> ledger \<Rightarrow> datetime" where
  "cutoff P now L =
     (case pl_high_water_delivered_at (poller_state L) of
        None \<Rightarrow> now - pc_max_delivery_age P
      | Some t \<Rightarrow> max (now - pc_max_delivery_age P) (stamp_dt t - pc_overlap P))"

record collected =
  co_items :: "delivery_item list"
  co_seen_ids :: "int list"
  co_previous :: "(datetime \<times> int) option"
  co_has_old :: bool

definition delivery_order :: "delivery_item \<Rightarrow> datetime \<times> int" where
  "delivery_order i = (di_delivered_at i, di_api_delivery_id i)"

definition collect_item :: "host \<Rightarrow> datetime \<Rightarrow> datetime \<Rightarrow> (string \<times> json) list \<Rightarrow> collected \<Rightarrow> collected result" where
  "collect_item H now since raw c =
     bindE (delivery_item_of H raw) (\<lambda>parsed.
     bindE (reject_if
       [(case co_previous c of None \<Rightarrow> False | Some p \<Rightarrow> delivery_order parsed > p, ''GITHUB_DELIVERY_ORDER_INVALID''),
        (di_api_delivery_id parsed \<in> set (co_seen_ids c), ''GITHUB_DELIVERY_DUPLICATE''),
        (di_delivered_at parsed > now + seconds 30, ''GITHUB_DELIVERY_FUTURE'')]) (\<lambda>_.
     let c1 = c\<lparr>co_previous := Some (delivery_order parsed), co_seen_ids := di_api_delivery_id parsed # co_seen_ids c\<rparr> in
     Inr (if di_delivered_at parsed < since then c1\<lparr>co_has_old := True\<rparr>
          else c1\<lparr>co_items := co_items c @ [parsed]\<rparr>)))"

text \<open>The loop over the pages, with the number of pages that may still be read.\<close>

fun collect_pages :: "host \<Rightarrow> hook_reader \<Rightarrow> datetime \<Rightarrow> datetime \<Rightarrow> nat \<Rightarrow> string option \<Rightarrow> collected
    \<Rightarrow> delivery_item list result" where
  "collect_pages H R now since 0 cursor c = reject ''GITHUB_DELIVERY_WINDOW_TRUNCATED''"
| "collect_pages H R now since (Suc n) cursor c =
     bindE (hr_list_deliveries R cursor) (\<lambda>page.
     bindE (foldE (collect_item H now since) (hp_items page) (c\<lparr>co_has_old := False\<rparr>)) (\<lambda>c1.
     if hp_next_cursor page = None \<or> co_has_old c1 then Inr (co_items c1)
     else if n = 0 then reject ''GITHUB_DELIVERY_WINDOW_TRUNCATED''
     else collect_pages H R now since n (hp_next_cursor page) c1))"

definition collect :: "host \<Rightarrow> hook_reader \<Rightarrow> datetime \<Rightarrow> datetime \<Rightarrow> delivery_item list result" where
  "collect H R now since =
     collect_pages H R now since MAX_PAGES None \<lparr>co_items = [], co_seen_ids = [], co_previous = None, co_has_old = False\<rparr>"

section \<open>One poll\<close>

definition candidate :: "poller \<Rightarrow> delivery_item \<Rightarrow> bool" where
  "candidate P i = (di_event i = TARGET_EVENT \<and> di_action i = Some TARGET_ACTION
     \<and> di_installation_id i = Some (pc_expected_installation_id P)
     \<and> di_repository_id i = Some (pc_expected_repository_id P)
     \<and> \<not> (200 \<le> di_status_code i \<and> di_status_code i \<le> 399))"

definition polled_request :: "host \<Rightarrow> web_host \<Rightarrow> poller \<Rightarrow> hook_reader \<Rightarrow> delivery_item \<Rightarrow> protection_request result" where
  "polled_request H W P R item =
     bindE (hr_delivery R (di_api_delivery_id item)) (\<lambda>detail.
     bindE (cross_check_detail H item detail (pc_expected_webhook_url P)) (\<lambda>payload.
     bindE (parse_deployment_protection_delivery H W payload (di_guid item) (pc_allowed_api_origins P)) (\<lambda>q.
     if pr_installation_id q \<noteq> pc_expected_installation_id P \<or> pr_repository_id q \<noteq> pc_expected_repository_id P
     then reject ''GITHUB_DELIVERY_PAYLOAD_SCOPE_MISMATCH'' else Inr q)))"

definition poll_item :: "host \<Rightarrow> web_host \<Rightarrow> service_config \<Rightarrow> poller \<Rightarrow> hook_reader \<Rightarrow> service_env \<Rightarrow> datetime
    \<Rightarrow> delivery_item \<Rightarrow> service \<Rightarrow> unit result \<times> service" where
  "poll_item H W C P R E now item s =
     bindS (polled_request H W P R item, s) (\<lambda>q s.
     bindS (process_polled H C E q s) (\<lambda>done s.
     if \<not> done then (reject ''POLLER_CALLBACK_NOT_SUCCEEDED'', s)
     else on_ledger E 43 (advance_poller_after_callback q (di_api_delivery_id item) (di_delivered_at item) now) s))"

text \<open>The surroundings of each item are its own.\<close>

fun poll_items :: "host \<Rightarrow> web_host \<Rightarrow> service_config \<Rightarrow> poller \<Rightarrow> hook_reader \<Rightarrow> (nat \<Rightarrow> service_env) \<Rightarrow> datetime
    \<Rightarrow> nat \<Rightarrow> delivery_item list \<Rightarrow> service \<Rightarrow> nat result \<times> service" where
  "poll_items H W C P R Es now n [] s = (Inr n, s)"
| "poll_items H W C P R Es now n (item # rest) s =
     bindS (poll_item H W C P R (Es n) now item s) (\<lambda>_ s. poll_items H W C P R Es now (Suc n) rest s)"

definition poll_once :: "host \<Rightarrow> web_host \<Rightarrow> service_config \<Rightarrow> poller \<Rightarrow> hook_reader result \<Rightarrow> service_env
    \<Rightarrow> (nat \<Rightarrow> service_env) \<Rightarrow> service \<Rightarrow> nat result \<times> service" where
  "poll_once H W C P cycle E Es s =
     (let now = se_now E 50 in
      bindS (cycle, s) (\<lambda>R s.
      bindS (on_ledger E 51 (\<lambda>L. (Inr (cutoff P now L), L)) s) (\<lambda>since s.
      bindS (collect H R now since, s) (\<lambda>listed s.
      let candidates = filter (candidate P) listed in
      if length candidates > MAX_CANDIDATES then (reject ''GITHUB_DELIVERY_CANDIDATE_LIMIT'', s)
      else bindS (poll_items H W C P R Es now 0 (sort_key delivery_order candidates) s) (\<lambda>processed s.
        on_ledger E 52 (\<lambda>L. (Inr processed, mark_poller_success now L)) s)))))"

section \<open>The loop\<close>

definition success_delay :: "poller \<Rightarrow> rat \<Rightarrow> rat" where
  "success_delay P jitter = max 30 (pc_interval_seconds P + jitter)"

text \<open>The product with a power of two that has no float raises; an infinite product is capped like any other.\<close>

definition failure_delay :: "poller \<Rightarrow> nat \<Rightarrow> rat \<Rightarrow> rat result" where
  "failure_delay P failures jitter =
     (if float_overflows (2 ^ (failures - 1)) then Inl OverflowError
      else Inr (min 300 (pc_interval_seconds P * 2 ^ (failures - 1) + jitter)))"

record poller_loop =
  lp_failures :: nat
  lp_delay :: rat
  lp_healthy :: bool
  lp_last_success :: "datetime option"

text \<open>
  One iteration of the loop, given the result of the poll, the clock and the random jitter. An
  exception that the delay of a failure raises is raised inside the handler and ends the thread.
\<close>

definition loop_step :: "poller \<Rightarrow> nat result \<Rightarrow> datetime \<Rightarrow> rat \<Rightarrow> poller_loop \<Rightarrow> unit result \<times> poller_loop" where
  "loop_step P polled now jitter l =
     (case polled of
        Inr processed \<Rightarrow> (Inr (), l\<lparr>lp_healthy := True, lp_last_success := Some now, lp_failures := 0,
          lp_delay := success_delay P jitter\<rparr>)
      | Inl e \<Rightarrow>
          let l1 = l\<lparr>lp_failures := Suc (lp_failures l), lp_healthy := False\<rparr> in
          (case failure_delay P (lp_failures l1) jitter of
             Inl e \<Rightarrow> (Inl e, l1)
           | Inr delay \<Rightarrow> (Inr (), l1\<lparr>lp_delay := delay\<rparr>)))"

definition poller_ready :: "poller \<Rightarrow> datetime \<Rightarrow> poller_loop \<Rightarrow> bool" where
  "poller_ready P now l = (lp_healthy l
     \<and> (case lp_last_success l of None \<Rightarrow> False | Some t \<Rightarrow> now - t \<le> pc_stale_after P))"

end
