(* ===== verification/PollerProps.thy ===== *)
theory PollerProps
  imports Poller ServiceProps IntakeProps
begin

text \<open>
  What a poll guarantees: the window it reads is complete and in order, every failed delivery in
  it is answered before the poll reports success, a repeated poll succeeds again and posts nothing,
  and the delays of the loop are bounded until the power of two has no float.
\<close>

section \<open>Reading the window\<close>

definition newest_first :: "delivery_item list \<Rightarrow> bool" where
  "newest_first items = (sorted_wrt (\<lambda>a b. delivery_order b \<le> delivery_order a) items \<and> distinct (map di_api_delivery_id items))"

lemma newest_first_snoc:
  "newest_first (xs @ [x]) \<longleftrightarrow> newest_first xs \<and> (xs \<noteq> [] \<longrightarrow> delivery_order x \<le> delivery_order (last xs))
     \<and> di_api_delivery_id x \<notin> di_api_delivery_id ` set xs"
proof -
  have "\<forall>a \<in> set xs. delivery_order (last xs) \<le> delivery_order a" if "sorted_wrt (\<lambda>a b. delivery_order b \<le> delivery_order a) xs"
    using that by (induction xs rule: rev_induct) (auto simp: sorted_wrt_append)
  then show ?thesis by (auto simp: newest_first_def sorted_wrt_append image_iff intro: order_trans)
qed

text \<open>The state of the loop after the raw items \<open>raws\<close>, which denote \<open>items\<close>.\<close>

definition collected_from :: "host \<Rightarrow> datetime \<Rightarrow> datetime \<Rightarrow> (string \<times> json) list list \<Rightarrow> delivery_item list \<Rightarrow> collected \<Rightarrow> bool" where
  "collected_from H now since raws items c =
     (mapE (delivery_item_of H) raws = Inr items \<and> co_items c = filter (\<lambda>i. since \<le> di_delivered_at i) items
      \<and> set (co_seen_ids c) = di_api_delivery_id ` set items \<and> newest_first items
      \<and> (\<forall>i \<in> set items. di_delivered_at i \<le> now + seconds 30)
      \<and> co_previous c = (if items = [] then None else Some (delivery_order (last items))))"

lemma mapE_snoc: "mapE f (xs @ [x]) = bindE (mapE f xs) (\<lambda>ys. bindE (f x) (\<lambda>y. Inr (ys @ [y])))"
  by (induction xs) (auto simp: bindE_def split: sum.splits)

lemma collect_item_from:
  assumes "collected_from H now since raws items c" "collect_item H now since raw c = Inr c'"
  obtains i where "delivery_item_of H raw = Inr i" "collected_from H now since (raws @ [raw]) (items @ [i]) c'"
    "co_has_old c' \<longleftrightarrow> co_has_old c \<or> di_delivered_at i < since"
proof -
  from assms(2) obtain i where i: "delivery_item_of H raw = Inr i"
    and ok: "\<not> (case co_previous c of None \<Rightarrow> False | Some p \<Rightarrow> delivery_order i > p)"
      "di_api_delivery_id i \<notin> set (co_seen_ids c)" "\<not> di_delivered_at i > now + seconds 30"
    and c': "c' = (let c1 = c\<lparr>co_previous := Some (delivery_order i), co_seen_ids := di_api_delivery_id i # co_seen_ids c\<rparr> in
       if di_delivered_at i < since then c1\<lparr>co_has_old := True\<rparr> else c1\<lparr>co_items := co_items c @ [i]\<rparr>)"
    unfolding collect_item_def bindE_Inr_iff reject_if_Inr by (auto simp: Let_def)
  have "collected_from H now since (raws @ [raw]) (items @ [i]) c'"
    using assms(1) ok i unfolding collected_from_def newest_first_snoc c'
    by (auto simp: Let_def mapE_snoc split: if_splits)
  moreover have "co_has_old c' \<longleftrightarrow> co_has_old c \<or> di_delivered_at i < since" by (simp add: c' Let_def)
  ultimately show ?thesis using i by (intro that)
qed

lemma collect_fold_from:
  assumes "foldE (collect_item H now since) new c = Inr c'" "collected_from H now since raws items c"
  obtains more where "collected_from H now since (raws @ new) (items @ more) c'"
    "co_has_old c' \<longleftrightarrow> co_has_old c \<or> (\<exists>i \<in> set more. di_delivered_at i < since)"
  using assms
proof (induction new arbitrary: c raws items thesis)
  case Nil
  from Nil.prems(1) [of "[]"] Nil.prems(2,3) show ?case by simp
next
  case (Cons raw new)
  from Cons.prems(2) obtain c1 where c1: "collect_item H now since raw c = Inr c1" "foldE (collect_item H now since) new c1 = Inr c'"
    by (auto simp: bindE_Inr_iff)
  from Cons.prems(3) c1(1) obtain i where i: "collected_from H now since (raws @ [raw]) (items @ [i]) c1"
    "co_has_old c1 \<longleftrightarrow> co_has_old c \<or> di_delivered_at i < since" by (rule collect_item_from)
  from Cons.IH [OF _ c1(2) i(1)] obtain more where "collected_from H now since (raws @ raw # new) (items @ i # more) c'"
    "co_has_old c' \<longleftrightarrow> co_has_old c1 \<or> (\<exists>i \<in> set more. di_delivered_at i < since)" by auto
  with i(2) Cons.prems(1) [of "i # more"] show ?case by auto
qed

text \<open>The pages that are read, each from the cursor of the one before.\<close>

fun page_chain :: "hook_reader \<Rightarrow> string option \<Rightarrow> hook_page list \<Rightarrow> bool" where
  "page_chain R cursor [] = False"
| "page_chain R cursor [p] = (hr_list_deliveries R cursor = Inr p)"
| "page_chain R cursor (p # ps) =
     (hr_list_deliveries R cursor = Inr p \<and> hp_next_cursor p \<noteq> None \<and> page_chain R (hp_next_cursor p) ps)"

definition page_items :: "hook_page list \<Rightarrow> (string \<times> json) list list" where
  "page_items pages = concat (map hp_items pages)"

lemma collect_page_step:
  assumes "collect_pages H R now since (Suc n) cursor c = Inr listed"
  obtains page c1 where "hr_list_deliveries R cursor = Inr page"
    "foldE (collect_item H now since) (hp_items page) (c\<lparr>co_has_old := False\<rparr>) = Inr c1"
    "hp_next_cursor page = None \<or> co_has_old c1 \<longrightarrow> listed = co_items c1"
    "\<not> (hp_next_cursor page = None \<or> co_has_old c1) \<longrightarrow> n \<noteq> 0 \<and> collect_pages H R now since n (hp_next_cursor page) c1 = Inr listed"
proof -
  from assms obtain page where p: "hr_list_deliveries R cursor = Inr page" by (auto simp: bindE_Inr_iff)
  with assms obtain c1 where "foldE (collect_item H now since) (hp_items page) (c\<lparr>co_has_old := False\<rparr>) = Inr c1"
    by (auto simp: bindE_Inr_iff)
  with assms p show ?thesis by (intro that [of page c1]) (auto simp: reject_def split: if_splits)
qed

lemma collect_pages_from:
  assumes "collect_pages H R now since n cursor c = Inr listed" "collected_from H now since raws items c"
  obtains pages more c' where "page_chain R cursor pages" "length pages \<le> n"
    "collected_from H now since (raws @ page_items pages) (items @ more) c'" "listed = co_items c'"
    "hp_next_cursor (last pages) = None \<or> (\<exists>i \<in> set more. di_delivered_at i < since)"
  using assms
proof (induction n arbitrary: cursor c raws items thesis)
  case 0
  then show ?case by (simp add: reject_def)
next
  case (Suc n)
  from Suc.prems(2) obtain page c1 where p: "hr_list_deliveries R cursor = Inr page"
    "foldE (collect_item H now since) (hp_items page) (c\<lparr>co_has_old := False\<rparr>) = Inr c1"
    and rest: "hp_next_cursor page = None \<or> co_has_old c1 \<longrightarrow> listed = co_items c1"
    "\<not> (hp_next_cursor page = None \<or> co_has_old c1) \<longrightarrow> n \<noteq> 0 \<and> collect_pages H R now since n (hp_next_cursor page) c1 = Inr listed"
    by (rule collect_page_step)
  from Suc.prems(3) have "collected_from H now since raws items (c\<lparr>co_has_old := False\<rparr>)" by (simp add: collected_from_def)
  from collect_fold_from [OF p(2) this] obtain more where m: "collected_from H now since (raws @ hp_items page) (items @ more) c1"
    "co_has_old c1 \<longleftrightarrow> (\<exists>i \<in> set more. di_delivered_at i < since)" by auto
  show ?case
  proof (cases "hp_next_cursor page = None \<or> co_has_old c1")
    case True
    with rest(1) m p(1) Suc.prems(1) [of "[page]" more c1] show ?thesis by (auto simp: page_items_def)
  next
    case False
    with rest(2) have "collect_pages H R now since n (hp_next_cursor page) c1 = Inr listed" by simp
    from Suc.IH [OF _ this m(1)] obtain pages more' c' where x: "page_chain R (hp_next_cursor page) pages" "length pages \<le> n"
      "collected_from H now since ((raws @ hp_items page) @ page_items pages) ((items @ more) @ more') c'" "listed = co_items c'"
      "hp_next_cursor (last pages) = None \<or> (\<exists>i \<in> set more'. di_delivered_at i < since)" by blast
    from x(1) have ne: "pages \<noteq> []" by auto
    then have "page_chain R cursor (page # pages)" using x(1) p(1) False by (cases pages) auto
    with x ne Suc.prems(1) [of "page # pages" "more @ more'" c'] show ?thesis by (auto simp: page_items_def)
  qed
qed

text \<open>
  C27: the window is read completely and in order. When the deliveries are collected, at most five
  pages were read, each from the cursor of the one before; every item on them is well formed, no identifier
  occurs twice, the order is newest first and none is from the future; the result is exactly the
  items that are not older than the cutoff, in that order, and reading stopped only at the
  end of the list or after an item older than the cutoff, so no newer delivery was left unread.
\<close>

theorem window_read_complete:
  assumes "collect H R now since = Inr listed"
  shows "\<exists>pages items. page_chain R None pages \<and> length pages \<le> MAX_PAGES
    \<and> mapE (delivery_item_of H) (page_items pages) = Inr items \<and> newest_first items
    \<and> (\<forall>i \<in> set items. di_delivered_at i \<le> now + seconds 30)
    \<and> listed = filter (\<lambda>i. since \<le> di_delivered_at i) items
    \<and> (hp_next_cursor (last pages) = None \<or> (\<exists>i \<in> set items. di_delivered_at i < since))"
proof -
  have "collected_from H now since [] [] \<lparr>co_items = [], co_seen_ids = [], co_previous = None, co_has_old = False\<rparr>"
    by (simp add: collected_from_def newest_first_def)
  from collect_pages_from [OF assms [unfolded collect_def] this] obtain pages more c' where
    "page_chain R None pages" "length pages \<le> MAX_PAGES" "collected_from H now since (page_items pages) more c'"
    "listed = co_items c'" "hp_next_cursor (last pages) = None \<or> (\<exists>i \<in> set more. di_delivered_at i < since)"
    unfolding append_Nil by blast
  then show ?thesis unfolding collected_from_def by blast
qed

section \<open>Answered deliveries\<close>

text \<open>
  A listed delivery is settled when its request is recorded, its callback was accepted and the mark
  has reached it.
\<close>

definition known_delivery :: "ledger \<Rightarrow> protection_request \<Rightarrow> bool" where
  "known_delivery L q = (\<exists>d. delivery_of L (pr_delivery_id q) = Some d \<and> pr_payload_sha256 (dv_request d) = pr_payload_sha256 q)"

definition settled :: "host \<Rightarrow> web_host \<Rightarrow> poller \<Rightarrow> hook_reader \<Rightarrow> ledger \<Rightarrow> delivery_item \<Rightarrow> bool" where
  "settled H W P R L item = (\<exists>q. polled_request H W P R item = Inr q \<and> pr_provenance q = ''github_app_delivery_api_v1''
     \<and> known_delivery L q \<and> callback_succeeded q L \<and> 1 \<le> di_api_delivery_id item
     \<and> mark_le (Some (utc_seconds (di_delivered_at item), di_api_delivery_id item)) (high_water (l_poller L)))"

lemma known_later: "known_delivery L q \<Longrightarrow> ledger_grows L L' \<Longrightarrow> known_delivery L' q"
  by (auto simp: known_delivery_def ledger_grows_def prefix_def lookup_by_append)

lemma callback_later: "callback_succeeded q L \<Longrightarrow> ledger_grows L L' \<Longrightarrow> callback_succeeded q L'"
  by (fastforce simp: callback_succeeded_def ledger_grows_def decision_kept_def)

lemma settled_later: "settled H W P R L item \<Longrightarrow> (ledger_op H)\<^sup>*\<^sup>* L L' \<Longrightarrow> settled H W P R L' item"
  by (drule ledger_grows_ops) (meson settled_def known_later callback_later ledger_grows_def mark_le_trans)

lemma served_ledger_ops: "served H s t \<Longrightarrow> (ledger_op H)\<^sup>*\<^sup>* (sv_ledger s) (sv_ledger t)"
  by (simp add: served_def)

lemma record_known: "record_delivery q now L = (Inr b, L') \<Longrightarrow> known_delivery L' q"
  by (auto simp: record_delivery_def known_delivery_def lookup_by_append dv_key_def reject_def split: option.splits if_splits)

lemma record_again: "known_delivery L q \<Longrightarrow> record_delivery q now L = (Inr False, L)"
  by (auto simp: record_delivery_def known_delivery_def)

lemma advance_settles:
  assumes "advance_poller_after_callback q api delivered now L = (Inr u, L')"
  shows "callback_succeeded q L'" "1 \<le> api" "mark_le (Some (utc_seconds delivered, api)) (high_water (l_poller L'))"
  using assms
  by (auto simp: advance_poller_after_callback_def advance_txn_def transaction_Inr_iff callback_succeeded_def reject_def
      mark_le_def high_water_def at_least_high_water_def mark_poller_success_def not_less split: if_splits option.splits)

lemma advance_again:
  assumes "callback_succeeded q L" "1 \<le> api"
  shows "\<exists>L'. advance_poller_after_callback q api delivered now L = (Inr (), L')"
  using assms by (auto simp: advance_poller_after_callback_def advance_txn_def transaction_Inr_iff callback_succeeded_def)

lemma advance_op: "(ledger_op H)\<^sup>*\<^sup>* L (snd (advance_poller_after_callback q api delivered now L))"
  by (rule r_into_rtranclp, rule ledger_op.advance_op, rule prod.collapse [symmetric])

lemma poll_item_served: "fair_env H E \<Longrightarrow> served H s (snd (poll_item H W C P R E now item s))"
  unfolding poll_item_def
  by (auto simp: sv.R_refl process_polled_served on_ledger_served [OF _ advance_op] intro!: sv.bindS_kept)

lemma on_ledger_Inr:
  assumes "on_ledger E i f s = (r, t)"
  shows "f (se_ledger E i (sv_ledger s)) = (r, sv_ledger t)" "sv_callbacks t = sv_callbacks s"
  using assms by (auto simp: on_ledger_def split: prod.splits)

lemma process_polled_known:
  assumes "fair_env H E" "process_polled H C E q s = (Inr b, t)"
  shows "known_delivery (sv_ledger t) q" "sc_mode C = Enforce" "pr_provenance q = ''github_app_delivery_api_v1''"
proof -
  show m: "sc_mode C = Enforce" "pr_provenance q = ''github_app_delivery_api_v1''"
    using assms(2) by (auto simp: process_polled_def reject_def split: if_splits)
  let ?rest = "\<lambda>x s. bindS (on_ledger E 41 (\<lambda>L. (Inr (callback_succeeded q L), L)) s) (\<lambda>done s.
        if done then (Inr True, s)
        else bindS (enforce H C E q s) (\<lambda>_ s. on_ledger E 42 (\<lambda>L. (Inr (callback_succeeded q L), L)) s))"
  from assms(2) m have "bindS (on_ledger E 40 (record_delivery q (se_now E 40)) s) ?rest = (Inr b, t)"
    by (simp add: process_polled_def)
  then obtain x u where u: "on_ledger E 40 (record_delivery q (se_now E 40)) s = (Inr x, u)" "?rest x u = (Inr b, t)"
    by (rule bindS_InrE)
  have "served H u (snd (?rest x u))"
    by (auto simp: sv.R_refl on_ledger_read [OF assms(1)] enforce_served [OF assms(1)] intro!: sv.bindS_kept)
  then have "(ledger_op H)\<^sup>*\<^sup>* (sv_ledger u) (sv_ledger t)" using u(2) by (simp add: served_ledger_ops)
  with record_known [OF on_ledger_Inr(1) [OF u(1)]] show "known_delivery (sv_ledger t) q"
    by (meson known_later ledger_grows_ops)
qed

lemma poll_item_settles:
  assumes "fair_env H E" "poll_item H W C P R E now item s = (Inr u, t)"
  shows "settled H W P R (sv_ledger t) item" "sc_mode C = Enforce"
proof -
  from assms(2) obtain q s1 where q: "polled_request H W P R item = Inr q" "bindS (process_polled H C E q s) (\<lambda>done s.
     if \<not> done then (reject ''POLLER_CALLBACK_NOT_SUCCEEDED'', s)
     else on_ledger E 43 (advance_poller_after_callback q (di_api_delivery_id item) (di_delivered_at item) now) s) = (Inr u, t)"
    unfolding poll_item_def by (auto elim: bindS_InrE)
  from q(2) obtain b s1 where b: "process_polled H C E q s = (Inr b, s1)"
    and a: "on_ledger E 43 (advance_poller_after_callback q (di_api_delivery_id item) (di_delivered_at item) now) s1 = (Inr u, t)"
    by (rule bindS_InrE) (auto simp: reject_def split: if_splits)
  note p = process_polled_known [OF assms(1) b]
  have "served H s1 (snd (on_ledger E 43 (advance_poller_after_callback q (di_api_delivery_id item) (di_delivered_at item) now) s1))"
    by (rule on_ledger_served [OF assms(1) advance_op])
  then have "known_delivery (sv_ledger t) q"
    using p(1) a by (metis known_later ledger_grows_ops served_ledger_ops snd_conv)
  with advance_settles [OF on_ledger_Inr(1) [OF a]] q(1) p(3) show "settled H W P R (sv_ledger t) item" by (auto simp: settled_def)
  show "sc_mode C = Enforce" by (rule p(2))
qed

lemma poll_items_settle:
  assumes "\<And>i. fair_env H (Es i)" "poll_items H W C P R Es now n items s = (Inr m, t)"
  shows "(\<forall>item \<in> set items. settled H W P R (sv_ledger t) item) \<and> m = n + length items \<and> served H s t
    \<and> (items \<noteq> [] \<longrightarrow> sc_mode C = Enforce)"
  using assms(2)
proof (induction items arbitrary: n s)
  case Nil
  then show ?case by (simp add: sv.R_refl)
next
  case (Cons item items)
  from Cons.prems obtain u where u: "poll_item H W C P R (Es n) now item s = (Inr (), u)"
    "poll_items H W C P R Es now (Suc n) items u = (Inr m, t)" by (auto elim: bindS_InrE)
  note i = poll_item_settles [OF assms(1) u(1)] and r = Cons.IH [OF u(2)]
  from u(1) poll_item_served [OF assms(1) [of n], of s W C P R now item] have su: "served H s u" by simp
  have "settled H W P R (sv_ledger t) item" using i(1) r by (blast intro: settled_later served_ledger_ops)
  with i(2) r su show ?case by (auto intro: served_trans)
qed

text \<open>An access of the service, with the ledger it meets.\<close>

lemma on_ledger_eq: "f (se_ledger E i (sv_ledger s)) = (r, L) \<Longrightarrow> on_ledger E i f s = (r, s\<lparr>sv_ledger := L\<rparr>)"
  by (simp add: on_ledger_def)

lemma fair_grows: "fair_env H E \<Longrightarrow> ledger_grows L (se_ledger E i L)"
  by (rule ledger_grows_ops) (auto simp: fair_env_def)

lemma poll_item_again:
  assumes "fair_env H E" "settled H W P R (sv_ledger s) item" "sc_mode C = Enforce"
  shows "\<exists>t. poll_item H W C P R E now item s = (Inr (), t) \<and> quiet s t"
proof -
  from assms(2) obtain q where q: "polled_request H W P R item = Inr q" "pr_provenance q = ''github_app_delivery_api_v1''"
    "known_delivery (sv_ledger s) q" "callback_succeeded q (sv_ledger s)" "1 \<le> di_api_delivery_id item"
    by (auto simp: settled_def)
  note grow = fair_grows [OF assms(1)]
  let ?a = "se_ledger E 40 (sv_ledger s)"
  let ?b = "se_ledger E 41 ?a"
  let ?c = "se_ledger E 43 ?b"
  have k: "known_delivery ?a q" and c: "callback_succeeded q ?b" "callback_succeeded q ?c"
    using q(3,4) grow by (blast intro: known_later callback_later)+
  from advance_again [OF c(2) q(5)] obtain L where
    L: "advance_poller_after_callback q (di_api_delivery_id item) (di_delivered_at item) now ?c = (Inr (), L)" by blast
  have "on_ledger E 40 (record_delivery q (se_now E 40)) s = (Inr False, s\<lparr>sv_ledger := ?a\<rparr>)"
    by (rule on_ledger_eq) (rule record_again [OF k])
  then have "process_polled H C E q s = (Inr True, s\<lparr>sv_ledger := ?b\<rparr>)"
    using assms(3) q(2) c(1) by (simp add: process_polled_def bindS_Inr on_ledger_def)
  then have "poll_item H W C P R E now item s = (Inr (), s\<lparr>sv_ledger := L\<rparr>)"
    using q(1) L by (simp add: poll_item_def bindS_Inr on_ledger_def)
  then show ?thesis by (simp add: quiet_def)
qed

lemma poll_items_again:
  assumes "\<And>i. fair_env H (Es i)" "sc_mode C = Enforce" "\<forall>item \<in> set items. settled H W P R (sv_ledger s) item"
  shows "\<exists>t. poll_items H W C P R Es now n items s = (Inr (n + length items), t) \<and> quiet s t"
  using assms(3)
proof (induction items arbitrary: n s)
  case Nil
  then show ?case by (simp add: qt.R_refl)
next
  case (Cons item items)
  from poll_item_again [OF assms(1) _ assms(2)] Cons.prems obtain u where
    u: "poll_item H W C P R (Es n) now item s = (Inr (), u)" "quiet s u" by (metis list.set_intros(1))
  from u(1) poll_item_served [OF assms(1) [of n], of s W C P R now item] have "served H s u" by simp
  with Cons.prems have "\<forall>item \<in> set items. settled H W P R (sv_ledger u) item"
    by (auto intro: settled_later served_ledger_ops)
  from Cons.IH [OF this, of "Suc n"] u show ?case by (auto simp: bindS_Inr intro: qt.R_trans)
qed

section \<open>Successful polls\<close>

lemma sort_key_Nil: "sort_key f xs = [] \<longleftrightarrow> xs = []"
  by (metis length_0_conv length_sort)

lemma length_filter_filter: "length (filter P (filter Q xs)) \<le> length (filter P xs)"
  by (induction xs) auto

lemma mark_poller_op: "(ledger_op H)\<^sup>*\<^sup>* L (mark_poller_success now L)"
  by (rule r_into_rtranclp, rule ledger_op.mark_op)

text \<open>The steps of a poll that succeeded.\<close>

lemma poll_once_Inr:
  assumes "poll_once H W C P cycle E Es s = (Inr n, t)" "fair_env H E" "\<And>i. fair_env H (Es i)"
  obtains R listed where "cycle = Inr R" "collect H R (se_now E 50) (cutoff P (se_now E 50) (se_ledger E 51 (sv_ledger s))) = Inr listed"
    "n = length (filter (candidate P) listed)" "n \<le> MAX_CANDIDATES"
    "\<forall>i \<in> set listed. candidate P i \<longrightarrow> settled H W P R (sv_ledger t) i"
    "filter (candidate P) listed \<noteq> [] \<longrightarrow> sc_mode C = Enforce"
    "(ledger_op H)\<^sup>*\<^sup>* (se_ledger E 51 (sv_ledger s)) (sv_ledger t)"
    "pl_last_success_at (l_poller (sv_ledger t)) = Some (utc_seconds (se_now E 50))"
proof -
  let ?now = "se_now E 50"
  from assms(1) obtain R where R: "cycle = Inr R" unfolding poll_once_def Let_def by (auto elim: bindS_InrE)
  let ?L = "se_ledger E 51 (sv_ledger s)"
  let ?s = "s\<lparr>sv_ledger := ?L\<rparr>"
  from assms(1) obtain listed where l: "collect H R ?now (cutoff P ?now ?L) = Inr listed"
    and r: "(if length (filter (candidate P) listed) > MAX_CANDIDATES then (reject ''GITHUB_DELIVERY_CANDIDATE_LIMIT'', ?s)
      else bindS (poll_items H W C P R Es ?now 0 (sort_key delivery_order (filter (candidate P) listed)) ?s) (\<lambda>processed s.
        on_ledger E 52 (\<lambda>L. (Inr processed, mark_poller_success ?now L)) s)) = (Inr n, t)"
    unfolding poll_once_def Let_def R bindS_Inr on_ledger_def prod.case by (auto simp: bindS_Inr elim!: bindS_InrE)
  from r have len: "length (filter (candidate P) listed) \<le> MAX_CANDIDATES" by (auto simp: reject_def split: if_splits)
  with r obtain m u where m: "poll_items H W C P R Es ?now 0 (sort_key delivery_order (filter (candidate P) listed)) ?s = (Inr m, u)"
    and e: "on_ledger E 52 (\<lambda>L. (Inr m, mark_poller_success ?now L)) u = (Inr n, t)"
    by (auto simp: bindS_Inr elim!: bindS_InrE)
  note x = poll_items_settle [OF assms(3) m]
  have "served H u (snd (on_ledger E 52 (\<lambda>L. (Inr m, mark_poller_success ?now L)) u))"
    by (rule on_ledger_served [OF assms(2)]) (simp add: mark_poller_op)
  with e have ut: "served H u t" by simp
  have st: "(ledger_op H)\<^sup>*\<^sup>* ?L (sv_ledger t)" using x ut served_ledger_ops [of H ?s t] by (auto intro: served_trans)
  from e have "sv_ledger t = mark_poller_success ?now (se_ledger E 52 (sv_ledger u))" "m = n" by (auto simp: on_ledger_def)
  then have "pl_last_success_at (l_poller (sv_ledger t)) = Some (utc_seconds ?now)" "m = n" by (simp_all add: mark_poller_success_def)
  with x len ut st R l show ?thesis
    by (intro that [of R listed]) (auto simp: sort_key_Nil intro: settled_later served_ledger_ops)
qed

text \<open>
  C11: a successful poll leaves no failed delivery unanswered. When a poll reports \<open>n\<close> processed
  deliveries, then \<open>n\<close> is the number of failed deliveries of the target event, repository
  and installation in the window it read, and for each of them the request of its payload is recorded,
  GitHub has accepted its callback, and the mark has reached it, whatever others did to
  the ledger meanwhile.
\<close>

theorem poll_answers_window:
  assumes "poll_once H W C P cycle E Es s = (Inr n, t)" "fair_env H E" "\<forall>i. fair_env H (Es i)"
  shows "\<exists>R listed. cycle = Inr R
    \<and> collect H R (se_now E 50) (cutoff P (se_now E 50) (se_ledger E 51 (sv_ledger s))) = Inr listed
    \<and> n = length (filter (candidate P) listed) \<and> n \<le> MAX_CANDIDATES
    \<and> pl_last_success_at (l_poller (sv_ledger t)) = Some (utc_seconds (se_now E 50))
    \<and> (\<forall>i \<in> set listed. candidate P i \<longrightarrow> (\<exists>q. polled_request H W P R i = Inr q
         \<and> (\<exists>d. delivery_of (sv_ledger t) (pr_delivery_id q) = Some d \<and> pr_payload_sha256 (dv_request d) = pr_payload_sha256 q)
         \<and> callback_succeeded q (sv_ledger t)
         \<and> mark_le (Some (utc_seconds (di_delivered_at i), di_api_delivery_id i)) (high_water (l_poller (sv_ledger t)))))"
proof -
  from poll_once_Inr [OF assms(1,2)] assms(3) obtain R listed where x: "cycle = Inr R"
    "collect H R (se_now E 50) (cutoff P (se_now E 50) (se_ledger E 51 (sv_ledger s))) = Inr listed"
    "n = length (filter (candidate P) listed)" "n \<le> MAX_CANDIDATES"
    "pl_last_success_at (l_poller (sv_ledger t)) = Some (utc_seconds (se_now E 50))"
    "\<forall>i \<in> set listed. candidate P i \<longrightarrow> settled H W P R (sv_ledger t) i" by metis
  from x(6) show ?thesis unfolding settled_def known_delivery_def using x(1-5) by blast
qed

section \<open>A repeated poll\<close>

text \<open>Two states of the reading loop, the second with a later clock and cutoff.\<close>

definition narrowed :: "datetime \<Rightarrow> collected \<Rightarrow> collected \<Rightarrow> bool" where
  "narrowed since' c d = (co_seen_ids d = co_seen_ids c \<and> co_previous d = co_previous c
     \<and> co_items d = filter (\<lambda>i. since' \<le> di_delivered_at i) (co_items c) \<and> (co_has_old c \<longrightarrow> co_has_old d))"

lemma collect_item_narrowed:
  assumes "collect_item H now since raw c = Inr c1" "narrowed since' c d" "now \<le> now'" "since \<le> since'"
  shows "\<exists>d1. collect_item H now' since' raw d = Inr d1 \<and> narrowed since' c1 d1"
proof -
  from assms(1) obtain i where i: "delivery_item_of H raw = Inr i"
    and ok: "\<not> (case co_previous c of None \<Rightarrow> False | Some p \<Rightarrow> delivery_order i > p)"
      "di_api_delivery_id i \<notin> set (co_seen_ids c)" "\<not> di_delivered_at i > now + seconds 30"
    and c1: "c1 = (let c1 = c\<lparr>co_previous := Some (delivery_order i), co_seen_ids := di_api_delivery_id i # co_seen_ids c\<rparr> in
       if di_delivered_at i < since then c1\<lparr>co_has_old := True\<rparr> else c1\<lparr>co_items := co_items c @ [i]\<rparr>)"
    unfolding collect_item_def bindE_Inr_iff reject_if_Inr by (auto simp: Let_def)
  let ?d = "let d1 = d\<lparr>co_previous := Some (delivery_order i), co_seen_ids := di_api_delivery_id i # co_seen_ids d\<rparr> in
       if di_delivered_at i < since' then d1\<lparr>co_has_old := True\<rparr> else d1\<lparr>co_items := co_items d @ [i]\<rparr>"
  from ok assms(2,3) have "\<not> (case co_previous d of None \<Rightarrow> False | Some p \<Rightarrow> delivery_order i > p)"
      "di_api_delivery_id i \<notin> set (co_seen_ids d)" "\<not> di_delivered_at i > now' + seconds 30" by (auto simp: narrowed_def)
  then have "collect_item H now' since' raw d = Inr ?d"
    unfolding collect_item_def bindE_Inr_iff reject_if_Inr using i by (auto simp: Let_def)
  moreover have "narrowed since' c1 ?d" using assms(2,4) by (auto simp: narrowed_def c1 Let_def)
  ultimately show ?thesis by blast
qed

lemma collect_fold_narrowed:
  assumes "foldE (collect_item H now since) raws c = Inr c1" "narrowed since' c d" "now \<le> now'" "since \<le> since'"
  shows "\<exists>d1. foldE (collect_item H now' since') raws d = Inr d1 \<and> narrowed since' c1 d1"
  using assms(1,2)
proof (induction raws arbitrary: c d)
  case (Cons raw raws)
  from Cons.prems obtain c0 where "collect_item H now since raw c = Inr c0" "foldE (collect_item H now since) raws c0 = Inr c1"
    by (auto simp: bindE_Inr_iff)
  with Cons collect_item_narrowed [OF _ _ assms(3,4)] show ?case by (metis bindE_simps(2) foldE.simps(2))
qed simp

lemma collect_item_grows: "collect_item H now since raw c = Inr c1 \<Longrightarrow> prefix (co_items c) (co_items c1)"
  by (auto simp: collect_item_def bindE_Inr_iff Let_def)

lemma collect_fold_grows: "foldE (collect_item H now since) raws c = Inr c1 \<Longrightarrow> prefix (co_items c) (co_items c1)"
  by (induction raws arbitrary: c) (auto simp: bindE_Inr_iff dest: collect_item_grows intro: prefix_order.trans)

lemma collect_pages_grows: "collect_pages H R now since n cursor c = Inr listed \<Longrightarrow> prefix (co_items c) listed"
proof (induction n arbitrary: cursor c)
  case (Suc n)
  from Suc.prems obtain page c1 where "hr_list_deliveries R cursor = Inr page"
    and f: "foldE (collect_item H now since) (hp_items page) (c\<lparr>co_has_old := False\<rparr>) = Inr c1"
    and r: "hp_next_cursor page = None \<or> co_has_old c1 \<longrightarrow> listed = co_items c1"
    "\<not> (hp_next_cursor page = None \<or> co_has_old c1) \<longrightarrow> n \<noteq> 0 \<and> collect_pages H R now since n (hp_next_cursor page) c1 = Inr listed"
    by (rule collect_page_step)
  from collect_fold_grows [OF f] have "prefix (co_items c) (co_items c1)" by simp
  moreover have "prefix (co_items c1) listed" using r Suc.IH by blast
  ultimately show ?case by (rule prefix_order.trans)
qed (simp add: reject_def)

lemma collect_pages_narrowed:
  assumes "collect_pages H R now since n cursor c = Inr listed" "narrowed since' c d" "now \<le> now'" "since \<le> since'"
  shows "\<exists>xs. collect_pages H R now' since' n cursor d = Inr (filter (\<lambda>i. since' \<le> di_delivered_at i) xs) \<and> prefix xs listed"
  using assms(1,2)
proof (induction n arbitrary: cursor c d)
  case 0
  then show ?case by (simp add: reject_def)
next
  case (Suc n)
  from Suc.prems(1) obtain page c1 where p: "hr_list_deliveries R cursor = Inr page"
    "foldE (collect_item H now since) (hp_items page) (c\<lparr>co_has_old := False\<rparr>) = Inr c1"
    and r: "hp_next_cursor page = None \<or> co_has_old c1 \<longrightarrow> listed = co_items c1"
    "\<not> (hp_next_cursor page = None \<or> co_has_old c1) \<longrightarrow> n \<noteq> 0 \<and> collect_pages H R now since n (hp_next_cursor page) c1 = Inr listed"
    by (rule collect_page_step)
  from Suc.prems(2) have "narrowed since' (c\<lparr>co_has_old := False\<rparr>) (d\<lparr>co_has_old := False\<rparr>)" by (simp add: narrowed_def)
  from collect_fold_narrowed [OF p(2) this assms(3,4)] obtain d1 where
    d1: "foldE (collect_item H now' since') (hp_items page) (d\<lparr>co_has_old := False\<rparr>) = Inr d1" "narrowed since' c1 d1" by blast
  have pre: "prefix (co_items c1) listed" using r collect_pages_grows by blast
  show ?case
  proof (cases "hp_next_cursor page = None \<or> co_has_old d1")
    case True
    then show ?thesis using p(1) d1 pre by (intro exI [of _ "co_items c1"]) (simp add: narrowed_def)
  next
    case False
    then have "\<not> (hp_next_cursor page = None \<or> co_has_old c1)" using d1(2) by (auto simp: narrowed_def)
    with r(2) have n: "n \<noteq> 0" "collect_pages H R now since n (hp_next_cursor page) c1 = Inr listed" by blast+
    have "collect_pages H R now' since' (Suc n) cursor d = collect_pages H R now' since' n (hp_next_cursor page) d1"
      using False n(1) by (simp only: collect_pages.simps p(1) d1(1) bindE_simps if_False)
    with Suc.IH [OF n(2) d1(2)] show ?thesis by simp
  qed
qed

lemma collect_narrowed:
  assumes "collect H R now since = Inr listed" "now \<le> now'" "since \<le> since'"
  shows "\<exists>xs. collect H R now' since' = Inr (filter (\<lambda>i. since' \<le> di_delivered_at i) xs) \<and> prefix xs listed"
  unfolding collect_def
  by (rule collect_pages_narrowed [OF assms(1) [unfolded collect_def] _ assms(2,3)]) (simp add: narrowed_def)

lemma cutoff_later:
  assumes "ledger_grows L L'" "now \<le> now'"
  shows "cutoff P now L \<le> cutoff P now' L'"
proof -
  from assms(1) have "mark_le (high_water (l_poller L)) (high_water (l_poller L'))" by (simp add: ledger_grows_def)
  then have "\<exists>t'. pl_high_water_delivered_at (l_poller L') = Some t' \<and> t \<le> t'"
    if "pl_high_water_delivered_at (l_poller L) = Some t" for t
    using that by (fastforce simp: mark_le_def high_water_def)
  then show ?thesis using assms(2)
    by (fastforce simp: cutoff_def poller_state_def stamp_dt_def max_def split: option.splits)
qed

text \<open>
  Success is stable. After a successful poll, a later poll over the same deliveries succeeds as
  well, with no more deliveries than before, and posts no callback, whatever others do
  to the ledger in between: a restart of the poller never answers a delivery twice.
\<close>

theorem poll_repeats_quietly:
  assumes "poll_once H W C P cycle E Es s = (Inr n, t)" "fair_env H E" "\<forall>i. fair_env H (Es i)"
    and "served H t u" "fair_env H E'" "\<forall>i. fair_env H (Es' i)" "se_now E 50 \<le> se_now E' 50"
  shows "\<exists>m v. poll_once H W C P cycle E' Es' u = (Inr m, v) \<and> m \<le> n \<and> sv_callbacks v = sv_callbacks u"
proof -
  let ?now = "se_now E 50" and ?now' = "se_now E' 50"
  let ?L = "se_ledger E 51 (sv_ledger s)" and ?L' = "se_ledger E' 51 (sv_ledger u)"
  from poll_once_Inr [OF assms(1,2)] assms(3) obtain R listed where x: "cycle = Inr R"
    "collect H R ?now (cutoff P ?now ?L) = Inr listed" "n = length (filter (candidate P) listed)" "n \<le> MAX_CANDIDATES"
    "\<forall>i \<in> set listed. candidate P i \<longrightarrow> settled H W P R (sv_ledger t) i"
    "filter (candidate P) listed \<noteq> [] \<longrightarrow> sc_mode C = Enforce" "(ledger_op H)\<^sup>*\<^sup>* ?L (sv_ledger t)" by metis
  have tL: "(ledger_op H)\<^sup>*\<^sup>* (sv_ledger t) ?L'"
    using served_ledger_ops [OF assms(4)] assms(5) by (auto simp: fair_env_def intro: rtranclp_trans)
  have since: "cutoff P ?now ?L \<le> cutoff P ?now' ?L'"
    using x(7) tL assms(7) by (blast intro: cutoff_later ledger_grows_ops rtranclp_trans)
  from collect_narrowed [OF x(2) assms(7) since] obtain xs where
    xs: "collect H R ?now' (cutoff P ?now' ?L') = Inr (filter (\<lambda>i. cutoff P ?now' ?L' \<le> di_delivered_at i) xs)" "prefix xs listed"
    by blast
  let ?cs = "filter (candidate P) (filter (\<lambda>i. cutoff P ?now' ?L' \<le> di_delivered_at i) xs)"
  from xs(2) obtain ys where ys: "listed = xs @ ys" by (auto simp: prefix_def)
  have sub: "set ?cs \<subseteq> set (filter (candidate P) listed)" by (auto simp: ys)
  have len: "length ?cs \<le> n" unfolding x(3) ys by (rule order_trans [OF length_filter_filter]) simp
  let ?u = "u\<lparr>sv_ledger := ?L'\<rparr>"
  have "\<forall>item \<in> set (sort_key delivery_order ?cs). settled H W P R (sv_ledger ?u) item"
    using sub x(5) tL by (auto intro: settled_later)
  moreover have "?cs \<noteq> [] \<longrightarrow> sc_mode C = Enforce" using sub x(6) by (metis list.set(1) set_empty subset_empty)
  ultimately have "\<exists>v. poll_items H W C P R Es' ?now' 0 (sort_key delivery_order ?cs) ?u = (Inr (length ?cs), v) \<and> quiet ?u v"
    using poll_items_again [of H Es' C "sort_key delivery_order ?cs" W P R ?u ?now' 0] assms(6)
    by (cases "?cs = []") (auto simp: qt.R_refl)
  then obtain v where v: "poll_items H W C P R Es' ?now' 0 (sort_key delivery_order ?cs) ?u = (Inr (length ?cs), v)" "quiet ?u v"
    by blast
  have "poll_once H W C P cycle E' Es' u
    = (Inr (length ?cs), v\<lparr>sv_ledger := mark_poller_success ?now' (se_ledger E' 52 (sv_ledger v))\<rparr>)"
    using len x(4) v(1) unfolding poll_once_def Let_def x(1) bindS_Inr on_ledger_def prod.case xs(1) by (simp add: bindS_Inr)
  with len v(2) show ?thesis by (auto simp: quiet_def)
qed

section \<open>The delays of the loop\<close>

lemma float_overflows_power: "float_overflows (2 ^ k) \<longleftrightarrow> 1024 \<le> k"
proof (cases "1024 \<le> k")
  case True
  then have "(2 :: int) ^ 1024 \<le> 2 ^ k" by (rule power_increasing) simp
  moreover have "(2 :: int) ^ 1024 - 2 ^ 970 \<le> 2 ^ 1024" by simp
  ultimately have "(2 :: int) ^ 1024 - 2 ^ 970 \<le> 2 ^ k" by (rule order_trans [rotated])
  with True show ?thesis unfolding float_overflows_def power_abs by simp
next
  case False
  then have "(2 :: int) ^ k \<le> 2 ^ 1023" by (intro power_increasing) auto
  also have "(2 :: int) ^ 1023 < 2 ^ 1024 - 2 ^ 970" by simp
  finally show ?thesis using False unfolding float_overflows_def power_abs by simp
qed

lemma new_poller_bounds:
  assumes "new_poller W P0 = Inr P"
  shows "30 \<le> pc_interval_seconds P" "0 \<le> pc_jitter_seconds P" "pc_jitter_seconds P \<le> 5" "P = P0"
  using assms unfolding new_poller_def bindE_Inr_iff reject_if_Inr by (auto simp: not_less)

text \<open>
  C28: the retry delay is bounded, and the loop ends after 1025 failures in a row. Each of the first 1024
  failures in a row is followed by a delay between 30 and 300 seconds, of exactly 300 from the fifth on,
  and leaves the poller not ready; one more failure raises in the handler and ends the thread.
  A success resets the count and makes the poller ready for \<open>stale_after\<close>.
\<close>

theorem retry_delay_bounded:
  assumes "new_poller W P0 = Inr P" "0 \<le> jitter" "jitter \<le> pc_jitter_seconds P"
  shows "(lp_failures l < 1024 \<longrightarrow> (\<exists>delay. 30 \<le> delay \<and> delay \<le> 300 \<and> (4 \<le> lp_failures l \<longrightarrow> delay = 300)
        \<and> loop_step P (Inl e) now jitter l
          = (Inr (), l\<lparr>lp_failures := Suc (lp_failures l), lp_delay := delay, lp_healthy := False\<rparr>)))
    \<and> (1024 \<le> lp_failures l \<longrightarrow> fst (loop_step P (Inl e) now jitter l) = Inl OverflowError)
    \<and> \<not> poller_ready P now' (snd (loop_step P (Inl e) now jitter l))
    \<and> (case loop_step P (Inr n) now (- jitter) l of (r, l') \<Rightarrow> r = Inr () \<and> lp_failures l' = 0 \<and> 30 \<le> lp_delay l'
        \<and> (poller_ready P now' l' \<longleftrightarrow> now' - now \<le> pc_stale_after P))"
proof -
  let ?k = "lp_failures l" and ?i = "pc_interval_seconds P"
  let ?d = "min 300 (?i * 2 ^ ?k + jitter)"
  note b = new_poller_bounds [OF assms(1)]
  have "?i \<le> ?i * 2 ^ ?k" using b(1) mult_left_mono [of 1 "2 ^ ?k" ?i] by simp
  then have "30 \<le> ?i * 2 ^ ?k + jitter" using b(1) assms(2) by linarith
  then have low: "30 \<le> ?d" by simp
  have top: "?d = 300" if "4 \<le> ?k"
  proof -
    have "(16 :: rat) \<le> 2 ^ ?k" using power_increasing [OF that, of "2 :: rat"] by simp
    then have "30 * 16 \<le> ?i * 2 ^ ?k" using b(1) by (intro mult_mono) simp_all
    with assms(2) show ?thesis by simp
  qed
  have fl: "loop_step P (Inl e) now jitter l = (if ?k < 1024
      then (Inr (), l\<lparr>lp_failures := Suc ?k, lp_delay := ?d, lp_healthy := False\<rparr>)
      else (Inl OverflowError, l\<lparr>lp_failures := Suc ?k, lp_healthy := False\<rparr>))"
    by (simp add: loop_step_def failure_delay_def float_overflows_power)
  have "\<exists>delay. 30 \<le> delay \<and> delay \<le> 300 \<and> (4 \<le> ?k \<longrightarrow> delay = 300)
      \<and> loop_step P (Inl e) now jitter l = (Inr (), l\<lparr>lp_failures := Suc ?k, lp_delay := delay, lp_healthy := False\<rparr>)" if "?k < 1024"
    using that low top by (intro exI [of _ ?d]) (simp add: fl)
  moreover have "\<not> poller_ready P now' (snd (loop_step P (Inl e) now jitter l))" by (simp add: fl poller_ready_def)
  moreover have "fst (loop_step P (Inl e) now jitter l) = Inl OverflowError" if "1024 \<le> ?k" using that by (simp add: fl)
  ultimately show ?thesis by (simp add: loop_step_def [of P "Inr n"] success_delay_def poller_ready_def)
qed

section \<open>A concrete poll\<close>

text \<open>
  One page with a delivery that failed and one that succeeded. The failed one asks for a run whose callback
  GitHub accepted before, as after a restart between the callback and the mark.
\<close>

definition poll_host :: host where
  "poll_host = in_host\<lparr>h_iso := (\<lambda>_. Some (seconds 100, Some 0))\<rparr>"

definition poll_raw :: "int \<Rightarrow> int \<Rightarrow> (string \<times> json) list" where
  "poll_raw api code = [(''id'', JInt api), (''guid'', JStr in_uuid), (''delivered_at'', JStr ''1Z''), (''redelivery'', JBool False),
     (''duration'', JFloat (Some (1 / 2))), (''status'', JStr ''s''), (''status_code'', JInt code),
     (''event'', JStr ''deployment_protection_rule''), (''action'', JStr ''requested''), (''installation_id'', JInt 8), (''repository_id'', JInt 7)]"

definition poll_detail :: "(string \<times> json) list" where
  "poll_detail = (''url'', JStr ''https://h/w'') # (''request'', JObj [(''headers'', JNull), (''payload'', JObj in_payload)])
     # (''response'', JObj [(''headers'', JNull), (''payload'', JNull)]) # poll_raw 5 500"

definition poll_reader :: hook_reader where
  "poll_reader = \<lparr>hr_list_deliveries = (\<lambda>_. Inr \<lparr>hp_items = [poll_raw 5 500, poll_raw 4 200], hp_next_cursor = None\<rparr>),
     hr_delivery = (\<lambda>_. Inr poll_detail)\<rparr>"

definition poll_config :: poller where
  "poll_config = \<lparr>pc_expected_webhook_url = ''https://h/w'', pc_expected_installation_id = 8, pc_expected_repository_id = 7,
     pc_allowed_api_origins = [''https://api.github.com''], pc_interval_seconds = 30, pc_jitter_seconds = 5,
     pc_max_delivery_age = minutes 15, pc_overlap = minutes 5, pc_stale_after = minutes 2\<rparr>"

definition poll_env :: service_env where
  "poll_env = enf_env\<lparr>se_now := (\<lambda>_. seconds 110)\<rparr>"

definition poll_start :: service where
  "poll_start = \<lparr>sv_registry = eval_registry,
     sv_ledger = snd (complete_decision in_request CbSucceeded (Some 204) (seconds 101)
       (snd (claim_decision in_request Approved ''OK'' None ''c'' (seconds 101)
         (snd (record_delivery in_request (seconds 100) empty_ledger))))),
     sv_queue = [], sv_callbacks = []\<rparr>"

definition poll_end :: service where
  "poll_end = snd (poll_once poll_host in_web enf_config poll_config (Inr poll_reader) poll_env (\<lambda>_. poll_env) poll_start)"

lemma poll_fair: "fair_env H poll_env"
  by (simp add: fair_env_def poll_env_def enf_env_def)

lemma poll_done: "poll_once poll_host in_web enf_config poll_config (Inr poll_reader) poll_env (\<lambda>_. poll_env) poll_start = (Inr 1, poll_end)"
proof -
  have "fst (poll_once poll_host in_web enf_config poll_config (Inr poll_reader) poll_env (\<lambda>_. poll_env) poll_start) = Inr 1"
    by code_simp
  then show ?thesis unfolding poll_end_def by (metis prod.collapse)
qed

lemma poll_config_ok: "new_poller in_web poll_config = Inr poll_config"
  by code_simp

theorem window_read_complete_witness:
  "\<exists>listed pages items. collect poll_host poll_reader (seconds 110) 0 = Inr listed \<and> length listed = 2
    \<and> page_chain poll_reader None pages \<and> length pages \<le> MAX_PAGES
    \<and> mapE (delivery_item_of poll_host) (page_items pages) = Inr items \<and> newest_first items
    \<and> listed = filter (\<lambda>i. 0 \<le> di_delivered_at i) items"
proof -
  have "(case collect poll_host poll_reader (seconds 110) 0 of Inl _ \<Rightarrow> 0 | Inr listed \<Rightarrow> length listed) = 2" by code_simp
  then obtain listed where l: "collect poll_host poll_reader (seconds 110) 0 = Inr listed" "length listed = 2"
    by (auto split: sum.splits)
  from window_read_complete [OF l(1)] l show ?thesis by blast
qed

theorem poll_answers_window_witness:
  "\<exists>i q. candidate poll_config i \<and> polled_request poll_host in_web poll_config poll_reader i = Inr q
    \<and> callback_succeeded q (sv_ledger poll_end)"
proof -
  have "\<forall>i. fair_env poll_host poll_env" by (simp add: poll_fair)
  note p = poll_answers_window [OF poll_done poll_fair this]
  then obtain listed where n: "1 = length (filter (candidate poll_config) listed)"
    and a: "\<forall>i \<in> set listed. candidate poll_config i \<longrightarrow> (\<exists>q. polled_request poll_host in_web poll_config poll_reader i = Inr q
      \<and> callback_succeeded q (sv_ledger poll_end))" by (metis sum.inject(2))
  from n have "filter (candidate poll_config) listed \<noteq> []" by auto
  then obtain i where "i \<in> set listed" "candidate poll_config i" by (auto simp: filter_empty_conv)
  with a show ?thesis by blast
qed

theorem poll_repeats_quietly_witness:
  "\<exists>m v. poll_once poll_host in_web enf_config poll_config (Inr poll_reader) poll_env (\<lambda>_. poll_env) poll_end = (Inr m, v)
    \<and> m \<le> 1 \<and> sv_callbacks v = sv_callbacks poll_end"
  by (rule poll_repeats_quietly [OF poll_done poll_fair _ sv.R_refl poll_fair]) (simp_all add: poll_fair)

theorem retry_delay_bounded_witness:
  "fst (loop_step poll_config (Inl ValueError) 0 1 \<lparr>lp_failures = 1024, lp_delay = 300, lp_healthy = False, lp_last_success = None\<rparr>)
     = Inl OverflowError"
proof -
  let ?l = "\<lparr>lp_failures = 1024, lp_delay = 300, lp_healthy = False, lp_last_success = None\<rparr>"
  have "0 \<le> (1 :: rat)" "1 \<le> pc_jitter_seconds poll_config" by (simp_all add: poll_config_def)
  from retry_delay_bounded [OF poll_config_ok this, of ?l ValueError 0] show ?thesis by simp
qed

end
