(* ===== verification/Outcome.thy ===== *)
theory Outcome
  imports Policy Contract IntentOps
begin

text \<open>
  The verification of one stage outcome, \<^verbatim>\<open>outcome.py\<close>: the outcome document must repeat the signed
  and the live facts of its run, lie inside the signed grant, and have the fields that its
  stage and conclusion require.
\<close>

section \<open>Membership\<close>

text \<open>\<^verbatim>\<open>value in {\<dots>}\<close> over texts: a list or dict has no hash and raises.\<close>

definition member_of :: "json \<Rightarrow> string list \<Rightarrow> bool result" where
  "member_of v names = (case v of
     JArr _ \<Rightarrow> Inl TypeError | JObj _ \<Rightarrow> Inl TypeError | JStr s \<Rightarrow> Inr (s \<in> set names) | _ \<Rightarrow> Inr False)"

definition reject_unless_member :: "json \<Rightarrow> string list \<Rightarrow> string \<Rightarrow> unit result" where
  "reject_unless_member v names code = bindE (member_of v names) (\<lambda>b. require b code)"

section \<open>The outcome\<close>

definition MAX_CLOCK_SKEW :: int where
  "MAX_CLOCK_SKEW = seconds 60"

record verified_stage_outcome =
  vo_request_id :: string
  vo_stage :: string
  vo_run_id :: int
  vo_run_attempt :: int
  vo_outcome_digest :: string
  vo_target_state :: stage_state
  vo_payload :: "(string \<times> json) list"

text \<open>What the caller knows of the run.\<close>

record expected_outcome =
  ex_stage :: string
  ex_run_id :: int
  ex_run_attempt :: int
  ex_run_started_at :: string
  ex_critical_jobs_sha256 :: string
  ex_source_artifact_name :: string
  ex_source_archive_sha256 :: string

definition exact_fields :: "verified_bundle \<Rightarrow> workflow_stage \<Rightarrow> expected_outcome \<Rightarrow> (string \<times> (json \<Rightarrow> bool)) list" where
  "exact_fields b ws x = (let sj = bd_subject (vb_payload b) in
     [(''requestId'', \<lambda>v. eq_str v (vb_request_id b)), (''stage'', \<lambda>v. eq_str v (ex_stage x)),
      (''runId'', \<lambda>v. eq_int v (ex_run_id x)), (''runAttempt'', \<lambda>v. eq_int v (ex_run_attempt x)),
      (''runStartedAt'', \<lambda>v. eq_str v (ex_run_started_at x)), (''repositoryId'', \<lambda>v. eq_int v (sj_repositoryId sj)),
      (''repository'', \<lambda>v. eq_str v (sj_repository sj)), (''environment'', \<lambda>v. eq_str v (sj_environment sj)),
      (''headSha'', \<lambda>v. eq_str v (sj_headSha sj)), (''intentRef'', \<lambda>v. eq_str v (sj_intentRef sj)),
      (''sessionSha256'', \<lambda>v. eq_str v (sj_sessionSha256 sj)), (''workflowBlobSha256'', \<lambda>v. eq_str v (ws_workflowBlobSha256 ws)),
      (''criticalJobsSha256'', \<lambda>v. eq_str v (ex_critical_jobs_sha256 x)),
      (''sourceArtifactName'', \<lambda>v. eq_str v (ex_source_artifact_name x)),
      (''sourceArchiveSha256'', \<lambda>v. eq_str v (ex_source_archive_sha256 x)),
      (''artifactSetSha256'', \<lambda>v. eq_str v (sj_artifactSetSha256 sj)),
      (''rollbackPlanSha256'', \<lambda>v. eq_str v (sj_rollbackPlanSha256 sj)),
      (''postDeployVerifierSha256'', \<lambda>v. eq_str v (sj_postDeployVerifierSha256 sj))])"

definition exact_field :: "(string \<times> json) list \<Rightarrow> string \<times> (json \<Rightarrow> bool) \<Rightarrow> unit result" where
  "exact_field payload = (\<lambda>(k, ok). bindE (fld payload k) (\<lambda>v. require (ok v) ''STAGE_OUTCOME_BINDING_MISMATCH''))"

definition signed_stage_of :: "verified_bundle \<Rightarrow> string \<Rightarrow> string \<Rightarrow> workflow_stage result" where
  "signed_stage_of b stg code = (case filter (\<lambda>ws. ws_stage ws = stg) (bd_workflowStages (vb_payload b)) of
     [ws] \<Rightarrow> Inr ws | _ \<Rightarrow> reject code)"

text \<open>The times of the outcome and of its run, against the signed grant and the clock.\<close>

definition outcome_times_ok :: "datetime \<Rightarrow> datetime \<Rightarrow> datetime \<Rightarrow> datetime \<Rightarrow> datetime \<Rightarrow> unit result" where
  "outcome_times_ok created_at run_started_at grant_start grant_end current = reject_if
     [(created_at < grant_start - MAX_CLOCK_SKEW \<or> created_at > grant_end + MAX_CLOCK_SKEW, ''STAGE_OUTCOME_TIME_INVALID''),
      (created_at > current + MAX_CLOCK_SKEW, ''STAGE_OUTCOME_TIME_INVALID''),
      (run_started_at < grant_start - MAX_CLOCK_SKEW \<or> run_started_at > created_at
         \<or> run_started_at > current + MAX_CLOCK_SKEW, ''STAGE_OUTCOME_TIME_INVALID'')]"

text \<open>The triple of the product artifact.\<close>

definition no_product :: "json \<times> json \<times> json \<Rightarrow> bool" where
  "no_product p = (p = (JNull, JNull, JNull))"

definition product_bound :: "int \<Rightarrow> json \<times> json \<times> json \<Rightarrow> bool" where
  "product_bound run_id = (\<lambda>(i, name, dg).
     (case i of JInt n \<Rightarrow> \<not> n < 1 | _ \<Rightarrow> False)
     \<and> eq_str name (''faz22-6-view-only-viewer-browser-evidence-'' @ int_dec run_id)
     \<and> (case dg of JStr _ \<Rightarrow> True | _ \<Rightarrow> False))"

definition apply_outcome_ok :: "host \<Rightarrow> json \<Rightarrow> json \<Rightarrow> datetime \<Rightarrow> datetime \<Rightarrow> unit result" where
  "apply_outcome_ok H conclusion watchdog created_at grant_end =
     bindE (reject_unless_member conclusion [''success'', ''failure''] ''STAGE_OUTCOME_STATE_INVALID'') (\<lambda>_.
     bindE (reject_if [(eq_str conclusion ''success'' \<and> watchdog = JNull, ''STAGE_OUTCOME_STATE_INVALID'')]) (\<lambda>_.
     if watchdog = JNull then Inr ()
     else bindE (parse_utc H watchdog) (\<lambda>watchdog_end.
       reject_if [(watchdog_end \<le> created_at \<or> watchdog_end > grant_end, ''STAGE_OUTCOME_WATCHDOG_INVALID'')])))"

definition browser_outcome_ok :: "int \<Rightarrow> json \<Rightarrow> json \<Rightarrow> json \<times> json \<times> json \<Rightarrow> unit result" where
  "browser_outcome_ok run_id conclusion watchdog product_artifact =
     bindE (reject_unless_member conclusion [''success'', ''failure''] ''STAGE_OUTCOME_STATE_INVALID'') (\<lambda>_.
     reject_if
       [(watchdog \<noteq> JNull, ''STAGE_OUTCOME_STATE_INVALID''),
        (eq_str conclusion ''success'' \<and> \<not> product_bound run_id product_artifact, ''STAGE_OUTCOME_PRODUCT_ARTIFACT_INVALID''),
        (eq_str conclusion ''failure'' \<and> \<not> no_product product_artifact, ''STAGE_OUTCOME_PRODUCT_ARTIFACT_INVALID'')])"

definition rollback_outcome_ok :: "json \<Rightarrow> json \<Rightarrow> unit result" where
  "rollback_outcome_ok conclusion watchdog =
     bindE (reject_unless_member conclusion [''rolled-back'', ''failure''] ''STAGE_OUTCOME_STATE_INVALID'') (\<lambda>_.
     reject_if [(watchdog \<noteq> JNull, ''STAGE_OUTCOME_STATE_INVALID'')])"

text \<open>The shape that the stage and the conclusion require.\<close>

definition outcome_shape_ok :: "host \<Rightarrow> string \<Rightarrow> int \<Rightarrow> json \<Rightarrow> json \<Rightarrow> json \<times> json \<times> json \<Rightarrow> datetime \<Rightarrow> datetime
    \<Rightarrow> unit result" where
  "outcome_shape_ok H stg run_id conclusion watchdog product_artifact created_at grant_end =
     bindE (if stg = ''apply'' then apply_outcome_ok H conclusion watchdog created_at grant_end
            else if stg = ''browser-evidence'' then browser_outcome_ok run_id conclusion watchdog product_artifact
            else rollback_outcome_ok conclusion watchdog) (\<lambda>_.
     reject_if [(stg \<noteq> ''browser-evidence'' \<and> \<not> no_product product_artifact, ''STAGE_OUTCOME_PRODUCT_ARTIFACT_INVALID'')])"

definition verify_stage_outcome :: "host \<Rightarrow> (string \<times> json) list \<Rightarrow> verified_bundle \<Rightarrow> expected_outcome \<Rightarrow> datetime
    \<Rightarrow> verified_stage_outcome result" where
  "verify_stage_outcome H payload b x current =
     (let gr = bd_grant (vb_payload b) in
      bindE (validate_schema H (JObj payload) ''cross-ai-deployment-stage-outcome-v1.schema.json'' ''STAGE_OUTCOME_SCHEMA_INVALID'') (\<lambda>_.
      bindE (signed_stage_of b (ex_stage x) ''STAGE_OUTCOME_BINDING_MISMATCH'') (\<lambda>ws.
      bindE (reject_if [(ex_source_artifact_name x
               \<noteq> source_artifact_name (vb_request_id b) (ex_stage x) (ex_run_id x) (ex_run_attempt x),
             ''STAGE_OUTCOME_BINDING_MISMATCH'')]) (\<lambda>_.
      bindE (forE (exact_field payload) (exact_fields b ws x)) (\<lambda>_.
      bindE (fld_as (parse_utc H) payload ''createdAt'') (\<lambda>created_at.
      bindE (fld_as (parse_utc H) payload ''runStartedAt'') (\<lambda>run_started_at.
      bindE (parse_utc H (gr_notBefore gr)) (\<lambda>grant_start.
      bindE (parse_utc H (gr_expiresAt gr)) (\<lambda>grant_end.
      bindE (outcome_times_ok created_at run_started_at grant_start grant_end current) (\<lambda>_.
      bindE (fld payload ''conclusion'') (\<lambda>conclusion.
      bindE (fld payload ''watchdogExpiresAt'') (\<lambda>watchdog.
      bindE (fld payload ''productArtifactId'') (\<lambda>p1.
      bindE (fld payload ''productArtifactName'') (\<lambda>p2.
      bindE (fld payload ''productArtifactDigest'') (\<lambda>p3.
      bindE (outcome_shape_ok H (ex_stage x) (ex_run_id x) conclusion watchdog (p1, p2, p3) created_at grant_end) (\<lambda>_.
      bindE (expect (KeyError ''conclusion'') (conclusion_target conclusion)) (\<lambda>target_state.
      bindE (digest H (JObj payload)) (\<lambda>outcome_digest.
      Inr \<lparr>vo_request_id = vb_request_id b, vo_stage = ex_stage x, vo_run_id = ex_run_id x,
        vo_run_attempt = ex_run_attempt x, vo_outcome_digest = outcome_digest, vo_target_state = target_state,
        vo_payload = payload\<rparr>))))))))))))))))))"

end
