(* ===== verification/Reconciler.thy ===== *)
theory Reconciler
  imports Outcome Service
begin

text \<open>
  The outcome reconciler of \<^verbatim>\<open>reconciler.py\<close>: it reads the finished run of a reserved stage, the
  digests of its jobs and of its artifact, and records the verified outcome; the sweeper does so
  for every pending stage. GitHub and the ZIP reader are arguments; what others do to the
  registry between two accesses is one too. The sweeper's thread is left out.
\<close>

section \<open>The stage artifact\<close>

definition STAGE_EVIDENCE_FILE :: string where
  "STAGE_EVIDENCE_FILE = ''cross-ai-stage-evidence.json''"

definition MAX_STAGE_EVIDENCE_BYTES :: nat where
  "MAX_STAGE_EVIDENCE_BYTES = 1024 * 1024"

definition MAX_ZIP_COMPRESSION_RATIO :: int where
  "MAX_ZIP_COMPRESSION_RATIO = 100"

definition TERMINAL_CONCLUSIONS :: "string list" where
  "TERMINAL_CONCLUSIONS = [''success'', ''failure'', ''cancelled'', ''timed_out'', ''action_required'', ''startup_failure'', ''stale'']"

text \<open>
  A member of an archive with the text it decompresses to. Opening the archive and reading
  a member give \<open>Inr None\<close> for a \<^verbatim>\<open>BadZipFile\<close>, \<^verbatim>\<open>KeyError\<close> or \<^verbatim>\<open>RuntimeError\<close>, which the code catches,
  and \<open>Inl\<close> for any other exception.
\<close>

record zip_info =
  zi_filename :: string
  zi_external_attr :: int
  zi_flag_bits :: int
  zi_file_size :: int
  zi_compress_size :: int
  zi_read :: "string option result"

type_synonym zip_reader = "string \<Rightarrow> zip_info list option result"

text \<open>\<^verbatim>\<open>stat.S_ISLNK\<close>: the file type in the upper four of the sixteen mode bits is 0xA.\<close>

definition is_link :: "int \<Rightarrow> bool" where
  "is_link mode = (mode div 4096 mod 16 = 10)"

definition zip_entry_unsafe :: "zip_info \<Rightarrow> bool" where
  "zip_entry_unsafe info =
     (endswith (zi_filename info) ''/'' \<or> odd (zi_flag_bits info) \<or> is_link (zi_external_attr info div 65536)
      \<or> \<not> (1 \<le> zi_file_size info \<and> zi_file_size info \<le> int MAX_STAGE_EVIDENCE_BYTES)
      \<or> zi_compress_size info < 1 \<or> zi_file_size info > zi_compress_size info * MAX_ZIP_COMPRESSION_RATIO)"

definition stage_evidence_from_archive :: "host \<Rightarrow> web_host \<Rightarrow> zip_reader \<Rightarrow> string \<Rightarrow> (string \<times> json) list result" where
  "stage_evidence_from_archive H W Z archive =
     bindE (reject_if [(archive = [], ''STAGE_ARTIFACT_INVALID'')]) (\<lambda>_.
     bindE (Z archive) (\<lambda>opened. case opened of
         Some [info] \<Rightarrow>
           bindE (reject_if [(zi_filename info \<noteq> STAGE_EVIDENCE_FILE \<or> zip_entry_unsafe info, ''STAGE_ARTIFACT_INVALID'')]) (\<lambda>_.
           bindE (zi_read info) (\<lambda>r. case r of None \<Rightarrow> reject ''STAGE_ARTIFACT_INVALID'' | Some raw \<Rightarrow>
             bindE (reject_if [(int (length raw) \<noteq> zi_file_size info, ''STAGE_ARTIFACT_INVALID'')]) (\<lambda>_.
             bindE (loads_json_bytes H W MAX_STAGE_EVIDENCE_BYTES raw) (\<lambda>v.
             bindE (canonical_bytes (JObj v)) (\<lambda>canonical.
             bindE (reject_if [(canonical \<noteq> raw, ''STAGE_ARTIFACT_NON_CANONICAL'')]) (\<lambda>_.
             bindE (validate_schema H (JObj v) ''cross-ai-deployment-stage-evidence-v1.schema.json'' ''STAGE_EVIDENCE_SCHEMA_INVALID'') (\<lambda>_.
             Inr v)))))))
       | _ \<Rightarrow> reject ''STAGE_ARTIFACT_INVALID''))"

section \<open>The jobs of a run\<close>

record job_step =
  js_number :: int
  js_name :: string
  js_conclusion :: string

record job_projection =
  jp_name :: string
  jp_conclusion :: string
  jp_steps :: "job_step list"

definition str_or_invalid :: "json \<Rightarrow> string result" where
  "str_or_invalid v = (case v of JStr s \<Rightarrow> if s = [] then reject ''GITHUB_JOBS_INVALID'' else Inr s | _ \<Rightarrow> reject ''GITHUB_JOBS_INVALID'')"

text \<open>A conclusion among the given texts, as the text.\<close>

definition conclusion_in :: "json \<Rightarrow> string list \<Rightarrow> string result" where
  "conclusion_in v names =
     bindE (reject_unless_member v names ''GITHUB_JOBS_INVALID'') (\<lambda>_. str_or_invalid v)"

definition critical_step :: "bool \<Rightarrow> json \<Rightarrow> job_step list \<Rightarrow> job_step list result" where
  "critical_step require_success step steps =
     (case step of
        JObj kvs \<Rightarrow>
          (case jget kvs ''number'' of
             JInt number \<Rightarrow>
               bindE (reject_if [(number < 1 \<or> number \<in> js_number ` set steps, ''GITHUB_JOBS_INVALID'')]) (\<lambda>_.
               bindE (str_or_invalid (jget kvs ''name'')) (\<lambda>name.
               bindE (reject_if [(\<not> eq_str (jget kvs ''status'') ''completed'', ''GITHUB_JOBS_INVALID'')]) (\<lambda>_.
               bindE (conclusion_in (jget kvs ''conclusion'') (TERMINAL_CONCLUSIONS @ [''skipped''])) (\<lambda>conclusion.
               bindE (reject_if [(require_success \<and> conclusion \<noteq> ''success'', ''GITHUB_CRITICAL_JOB_FAILED'')]) (\<lambda>_.
               Inr (steps @ [\<lparr>js_number = number, js_name = name, js_conclusion = conclusion\<rparr>]))))))
           | _ \<Rightarrow> reject ''GITHUB_JOBS_INVALID'')
      | _ \<Rightarrow> reject ''GITHUB_JOBS_INVALID'')"

definition critical_job :: "int \<Rightarrow> bool \<Rightarrow> (string \<times> json) list \<Rightarrow> job_projection list \<Rightarrow> job_projection list result" where
  "critical_job run_attempt require_success job projection =
     bindE (str_or_invalid (jget job ''name'')) (\<lambda>name.
     bindE (reject_if [(name \<in> jp_name ` set projection \<or> \<not> eq_int (jget job ''run_attempt'') run_attempt
              \<or> \<not> eq_str (jget job ''status'') ''completed'', ''GITHUB_JOBS_INVALID'')]) (\<lambda>_.
     bindE (conclusion_in (jget job ''conclusion'') TERMINAL_CONCLUSIONS) (\<lambda>conclusion.
     bindE (reject_if [(require_success \<and> conclusion \<noteq> ''success'', ''GITHUB_CRITICAL_JOB_FAILED'')]) (\<lambda>_.
     case jget job ''steps'' of
       JArr (s # ss) \<Rightarrow>
         bindE (foldE (critical_step require_success) (s # ss) []) (\<lambda>steps.
         Inr (projection @ [\<lparr>jp_name = name, jp_conclusion = conclusion, jp_steps = sort_key js_number steps\<rparr>]))
     | _ \<Rightarrow> reject ''GITHUB_JOBS_INVALID''))))"

definition step_json :: "job_step \<Rightarrow> json" where
  "step_json s = JObj [(''number'', JInt (js_number s)), (''name'', JStr (js_name s)), (''conclusion'', JStr (js_conclusion s))]"

definition job_json :: "job_projection \<Rightarrow> json" where
  "job_json j = JObj [(''name'', JStr (jp_name j)), (''conclusion'', JStr (jp_conclusion j)), (''steps'', JArr (map step_json (jp_steps j)))]"

definition critical_jobs_digest :: "host \<Rightarrow> (string \<times> json) list list \<Rightarrow> int \<Rightarrow> bool \<Rightarrow> string result" where
  "critical_jobs_digest H jobs run_attempt require_success =
     bindE (foldE (critical_job run_attempt require_success) jobs []) (\<lambda>projection.
     digest H (JObj [(''domain'', JStr ''acik.cross-ai-critical-jobs.v1''),
       (''jobs'', JArr (map job_json (sort_key jp_name projection)))]))"

section \<open>The reconciler\<close>

record outcome_reconciler =
  rc_installation_id :: int
  rc_trust_root :: "(string \<times> json) list"
  rc_expected_trust_root :: string

definition new_outcome_reconciler :: "int \<Rightarrow> (string \<times> json) list \<Rightarrow> string \<Rightarrow> outcome_reconciler result" where
  "new_outcome_reconciler installation_id trust_root expected =
     bindE (reject_if [(installation_id < 1, ''GITHUB_INSTALLATION_ID_INVALID'')]) (\<lambda>_.
     Inr \<lparr>rc_installation_id = installation_id, rc_trust_root = trust_root, rc_expected_trust_root = expected\<rparr>)"

text \<open>
  The surroundings of one reconciliation: the clock, identifiers, what others did to the registry
  before each numbered access, the revocation file, GitHub and the artifact source.
\<close>

record outcome_env =
  oe_now :: datetime
  oe_uid :: "nat \<Rightarrow> nat \<Rightarrow> string"
  oe_registry :: "nat \<Rightarrow> registry \<Rightarrow> registry"
  oe_revocations :: "json result"
  oe_run_attempt :: "int \<Rightarrow> string \<Rightarrow> int \<Rightarrow> int \<Rightarrow> (string \<times> json) list result"
  oe_jobs :: "int \<Rightarrow> string \<Rightarrow> int \<Rightarrow> int \<Rightarrow> (string \<times> json) list list result"
  oe_fetch :: "int \<Rightarrow> string \<Rightarrow> int \<Rightarrow> string \<Rightarrow> int option \<Rightarrow> string result"

text \<open>\<^verbatim>\<open>GitHubStageArtifactSource.fetch\<close> over the reader's lookup of an artifact and its download.\<close>

definition artifact_fetch :: "(int \<Rightarrow> string \<Rightarrow> int \<Rightarrow> string \<Rightarrow> (int \<times> 'a) result) \<Rightarrow> (int \<Rightarrow> string \<Rightarrow> 'a \<Rightarrow> string result)
    \<Rightarrow> int \<Rightarrow> string \<Rightarrow> int \<Rightarrow> string \<Rightarrow> int option \<Rightarrow> string result" where
  "artifact_fetch lookup download installation_id repository run_id artifact_name expected_artifact_id =
     bindE (lookup installation_id repository run_id artifact_name) (\<lambda>(artifact_id, artifact).
     bindE (reject_if [(expected_artifact_id \<noteq> None \<and> expected_artifact_id \<noteq> Some artifact_id, ''STAGE_PRODUCT_ARTIFACT_MISMATCH'')]) (\<lambda>_.
     download installation_id repository artifact))"

definition on_reg :: "outcome_env \<Rightarrow> nat \<Rightarrow> (registry \<Rightarrow> 'a result \<times> registry) \<Rightarrow> registry \<Rightarrow> 'a result \<times> registry" where
  "on_reg E i f t = f (oe_registry E i t)"

definition run_is_reserved :: "intent_row \<Rightarrow> stage_reservation \<Rightarrow> workflow_stage \<Rightarrow> (string \<times> json) list \<Rightarrow> bool" where
  "run_is_reserved row res ws run =
     (eq_int (jget run ''id'') (sr_run_id res) \<and> eq_int (jget run ''run_attempt'') (sr_run_attempt res)
      \<and> eq_str (jget run ''event'') ''workflow_dispatch'' \<and> eq_str (jget run ''head_sha'') (in_head_sha row)
      \<and> eq_str (jget run ''head_branch'') (intent_branch row) \<and> eq_str (jget run ''path'') (ws_workflowPath ws)
      \<and> (case (jget run ''repository'', jget run ''head_repository'') of
           (JObj repository, JObj head_repository) \<Rightarrow>
             eq_int (jget repository ''id'') (in_repository_id row) \<and> eq_str (jget repository ''full_name'') (in_repository row)
             \<and> eq_int (jget head_repository ''id'') (in_repository_id row)
             \<and> eq_str (jget head_repository ''full_name'') (in_repository row)
         | _ \<Rightarrow> False))"

definition run_terminal :: "(string \<times> json) list \<Rightarrow> unit result" where
  "run_terminal run =
     bindE (reject_if [(\<not> eq_str (jget run ''status'') ''completed'', ''STAGE_OUTCOME_RUN_NOT_TERMINAL'')]) (\<lambda>_.
     reject_unless_member (jget run ''conclusion'') TERMINAL_CONCLUSIONS ''STAGE_OUTCOME_RUN_NOT_TERMINAL'')"

text \<open>The product of a successful browser stage must be the artifact its evidence names.\<close>

definition product_ok :: "host \<Rightarrow> outcome_env \<Rightarrow> outcome_reconciler \<Rightarrow> string \<Rightarrow> intent_row \<Rightarrow> stage_reservation
    \<Rightarrow> (string \<times> json) list \<Rightarrow> unit result" where
  "product_ok H E R stg row res evidence =
     (if stg \<noteq> ''browser-evidence'' then Inr ()
      else bindE (fld evidence ''conclusion'') (\<lambda>conclusion.
        if \<not> eq_str conclusion ''success'' then Inr ()
        else bindE (fld evidence ''productArtifactId'') (\<lambda>p1.
          bindE (fld evidence ''productArtifactName'') (\<lambda>p2.
          bindE (fld evidence ''productArtifactDigest'') (\<lambda>p3.
          case (p1, p2, p3) of
            (JInt artifact_id, JStr name, JStr dg) \<Rightarrow>
              if artifact_id < 1 \<or> name = [] then reject ''STAGE_PRODUCT_ARTIFACT_MISMATCH''
              else bindE (oe_fetch E (rc_installation_id R) (in_repository row) (sr_run_id res) name (Some artifact_id)) (\<lambda>archive.
                reject_if [(''sha256:'' @ h_sha H archive \<noteq> dg, ''STAGE_PRODUCT_ARTIFACT_MISMATCH'')])
          | _ \<Rightarrow> reject ''STAGE_PRODUCT_ARTIFACT_MISMATCH'')))))"

text \<open>\<^verbatim>\<open>d[key] = value\<close> on a dict.\<close>

fun dict_set :: "string \<Rightarrow> json \<Rightarrow> (string \<times> json) list \<Rightarrow> (string \<times> json) list" where
  "dict_set k v [] = [(k, v)]"
| "dict_set k v ((k', v') # kvs) = (if k' = k then (k, v) # kvs else (k', v') # dict_set k v kvs)"

definition expected_conclusion :: "string \<Rightarrow> json \<Rightarrow> string" where
  "expected_conclusion stg conclusion =
     (case conclusion of
        JStr c \<Rightarrow>
          if stg = ''compensating-rollback'' \<and> c = ''success'' then ''rolled-back''
          else if c \<in> {''success'', ''failure'', ''rolled-back''} then c else ''failure''
      | _ \<Rightarrow> ''failure'')"

text \<open>From the finished run to the verified outcome; nothing here changes the registry.\<close>

definition sealed_outcome :: "host \<Rightarrow> web_host \<Rightarrow> zip_reader \<Rightarrow> outcome_env \<Rightarrow> outcome_reconciler \<Rightarrow> string \<Rightarrow> string \<Rightarrow> intent_row
    \<Rightarrow> verified_bundle \<Rightarrow> stage_reservation \<Rightarrow> (string \<times> json) list \<Rightarrow> verified_stage_outcome result" where
  "sealed_outcome H W Z E R rid stg row b res run =
     (case jget run ''run_started_at'' of
        JStr run_started_at \<Rightarrow>
          bindE (parse_utc H (JStr run_started_at)) (\<lambda>_.
          bindE (oe_jobs E (rc_installation_id R) (in_repository row) (sr_run_id res) (sr_run_attempt res)) (\<lambda>jobs.
          bindE (critical_jobs_digest H jobs (sr_run_attempt res) (eq_str (jget run ''conclusion'') ''success'')) (\<lambda>jobs_sha.
          let artifact_name = source_artifact_name rid stg (sr_run_id res) (sr_run_attempt res) in
          bindE (oe_fetch E (rc_installation_id R) (in_repository row) (sr_run_id res) artifact_name None) (\<lambda>archive.
          let archive_sha256 = ''sha256:'' @ h_sha H archive in
          bindE (stage_evidence_from_archive H W Z archive) (\<lambda>evidence.
          bindE (product_ok H E R stg row res evidence) (\<lambda>_.
          let outcome = dict_set ''sourceArchiveSha256'' (JStr archive_sha256)
               (dict_set ''sourceArtifactName'' (JStr artifact_name)
               (dict_set ''criticalJobsSha256'' (JStr jobs_sha)
               (dict_set ''runStartedAt'' (JStr run_started_at)
               (dict_set ''schemaVersion'' (JStr ''acik.cross-ai-deployment-stage-outcome.v1'') evidence)))) in
          bindE (reject_if [(\<not> eq_str (jget outcome ''conclusion'') (expected_conclusion stg (jget run ''conclusion'')),
                   ''STAGE_OUTCOME_RUN_MISMATCH'')]) (\<lambda>_.
          verify_stage_outcome H outcome b
            \<lparr>ex_stage = stg, ex_run_id = sr_run_id res, ex_run_attempt = sr_run_attempt res, ex_run_started_at = run_started_at,
             ex_critical_jobs_sha256 = jobs_sha, ex_source_artifact_name = artifact_name,
             ex_source_archive_sha256 = archive_sha256\<rparr> (oe_now E))))))))
      | _ \<Rightarrow> reject ''STAGE_OUTCOME_RUN_MISMATCH'')"

definition verified_again :: "host \<Rightarrow> outcome_env \<Rightarrow> outcome_reconciler \<Rightarrow> json \<Rightarrow> verified_bundle result" where
  "verified_again H E R envelope =
     bindE (oe_revocations E) (\<lambda>revocations.
     bindE (new_verifier H (rc_trust_root R) revocations (oe_now E) None (Some (rc_expected_trust_root R)) Active None) (\<lambda>v.
     verify_bundle H v envelope))"

definition reconcile :: "host \<Rightarrow> web_host \<Rightarrow> zip_reader \<Rightarrow> outcome_env \<Rightarrow> outcome_reconciler \<Rightarrow> string \<Rightarrow> string \<Rightarrow> registry
    \<Rightarrow> verified_stage_outcome result \<times> registry" where
  "reconcile H W Z E R rid stg s =
     bindS (on_reg E 0 (\<lambda>t. (get_finalized H rid t, t)) s) (\<lambda>(row, envelope) s.
     bindS (verified_again H E R envelope, s) (\<lambda>b s.
     bindS (on_reg E 1 (\<lambda>t. (get_stage rid stg t, t)) s) (\<lambda>res s.
     bindS (signed_stage_of b stg ''STAGE_OUTCOME_BINDING_MISMATCH'', s) (\<lambda>ws s.
     bindS (oe_run_attempt E (rc_installation_id R) (in_repository row) (sr_run_id res) (sr_run_attempt res), s) (\<lambda>run s.
     bindS (reject_if [(\<not> run_is_reserved row res ws run, ''STAGE_OUTCOME_RUN_MISMATCH'')], s) (\<lambda>_ s.
     bindS (run_terminal run, s) (\<lambda>_ s.
     bindS (if sr_state res = OutcomeOverdue
            then on_reg E 2 (transition_stage H (oe_uid E 2) rid stg CallbackUnknown ''TERMINAL_RUN_WITH_UNSEALED_OUTCOME'' (oe_now E)) s
            else (Inr (), s)) (\<lambda>_ s.
     bindS (sealed_outcome H W Z E R rid stg row b res run, s) (\<lambda>vo s.
     bindS (on_reg E 3 (record_stage_outcome H (oe_uid E 3) (vo_request_id vo) (vo_stage vo) (vo_run_id vo) (vo_run_attempt vo)
              (vo_payload vo) (vo_outcome_digest vo) (vo_target_state vo) (oe_now E)) s) (\<lambda>_ s.
     (Inr vo, s)))))))))))"

section \<open>The sweeper\<close>

text \<open>
  One reconciliation per pending stage, each in its own surroundings; an error of one, a
  \<^verbatim>\<open>PolicyError\<close> or any other exception, is logged and the next stage follows.
\<close>

fun sweep_stages :: "host \<Rightarrow> web_host \<Rightarrow> zip_reader \<Rightarrow> (nat \<Rightarrow> outcome_env) \<Rightarrow> outcome_reconciler \<Rightarrow> nat \<Rightarrow> nat \<Rightarrow> stage_row list
    \<Rightarrow> registry \<Rightarrow> (nat \<times> nat) \<times> registry" where
  "sweep_stages H W Z Es R attempted completed [] s = ((attempted, completed), s)"
| "sweep_stages H W Z Es R attempted completed (row # rows) s =
     (case reconcile H W Z (Es attempted) R (st_request_id row) (st_stage row) s of
        (r, s1) \<Rightarrow> sweep_stages H W Z Es R (Suc attempted) (case r of Inl _ \<Rightarrow> completed | Inr _ \<Rightarrow> Suc completed) rows s1)"

definition run_once :: "host \<Rightarrow> web_host \<Rightarrow> zip_reader \<Rightarrow> outcome_env \<Rightarrow> (nat \<Rightarrow> outcome_env) \<Rightarrow> outcome_reconciler \<Rightarrow> registry
    \<Rightarrow> (nat \<times> nat) result \<times> registry" where
  "run_once H W Z E Es R s =
     bindS (on_reg E 0 (expire_pending_stages H (oe_uid E 0) (oe_now E)) s) (\<lambda>_ s.
     bindS (on_reg E 1 (\<lambda>t. (pending_stages 100 t, t)) s) (\<lambda>rows s.
     case sweep_stages H W Z Es R 0 0 rows s of (counts, s1) \<Rightarrow> (Inr counts, s1)))"

end
