(* ===== verification/ReconcilerProps.thy ===== *)
theory ReconcilerProps
  imports IntakeProps Reconciler ServiceProps IntentProps
begin

text \<open>
  The properties of the outcome reconciler: an outcome it records is that of the reserved run,
  under evidence that still verifies, and its sweep visits every pending stage.
\<close>

section \<open>The checks behind a verified outcome\<close>

lemma reject_unless_member_Inr: "reject_unless_member v names code = Inr u \<longleftrightarrow> (\<exists>s. v = JStr s \<and> s \<in> set names)"
  by (cases v) (auto simp: reject_unless_member_def member_of_def bindE_def require_def reject_def)

lemma forE_exact:
  assumes "forE (exact_field payload) checks = Inr u" "(k, ok) \<in> set checks"
  shows "ok (jget payload k)"
  using assms
proof (induction checks arbitrary: u)
  case (Cons c checks)
  then show ?case
    by (cases c) (auto simp: bindE_Inr_iff exact_field_def fld_def jget_def require_def reject_def expect_def
        split: if_splits option.splits)
qed simp

lemma fld_jget: "fld payload k = Inr v \<Longrightarrow> jget payload k = v"
  by (auto simp: fld_def jget_def expect_def split: option.splits)

lemma fld_as_jget: "fld_as f payload k = Inr v \<Longrightarrow> f (jget payload k) = Inr v"
  by (auto simp: fld_as_def bindE_Inr_iff dest: fld_jget)

lemma outcome_times_ok_Inr:
  "outcome_times_ok created_at run_started_at grant_start grant_end current = Inr u
    \<Longrightarrow> run_started_at \<le> created_at \<and> created_at \<le> current + MAX_CLOCK_SKEW"
  by (auto simp: outcome_times_ok_def reject_if_Inr)

lemma verify_stage_outcome_Inr:
  assumes "verify_stage_outcome H payload b x current = Inr vo"
  shows "\<exists>ws created_at run_started_at. signed_stage_of b (ex_stage x) ''STAGE_OUTCOME_BINDING_MISMATCH'' = Inr ws
    \<and> ex_source_artifact_name x = source_artifact_name (vb_request_id b) (ex_stage x) (ex_run_id x) (ex_run_attempt x)
    \<and> (\<forall>(k, ok) \<in> set (exact_fields b ws x). ok (jget payload k))
    \<and> parse_utc H (jget payload ''createdAt'') = Inr created_at \<and> parse_utc H (jget payload ''runStartedAt'') = Inr run_started_at
    \<and> run_started_at \<le> created_at \<and> created_at \<le> current + MAX_CLOCK_SKEW
    \<and> conclusion_target (jget payload ''conclusion'') = Some (vo_target_state vo)
    \<and> digest H (JObj payload) = Inr (vo_outcome_digest vo)
    \<and> vo_request_id vo = vb_request_id b \<and> vo_stage vo = ex_stage x \<and> vo_run_id vo = ex_run_id x
    \<and> vo_run_attempt vo = ex_run_attempt x \<and> vo_payload vo = payload"
  using assms unfolding verify_stage_outcome_def Let_def bindE_Inr_iff reject_if_Inr
  by (elim exE conjE) (auto dest!: fld_jget fld_as_jget outcome_times_ok_Inr intro: forE_exact)

text \<open>A successful run has only successful jobs and steps.\<close>

definition step_succeeded :: "json \<Rightarrow> bool" where
  "step_succeeded step = (\<exists>kvs. step = JObj kvs \<and> jget kvs ''status'' = JStr ''completed'' \<and> jget kvs ''conclusion'' = JStr ''success'')"

definition job_succeeded :: "int \<Rightarrow> (string \<times> json) list \<Rightarrow> bool" where
  "job_succeeded run_attempt job = (eq_int (jget job ''run_attempt'') run_attempt \<and> jget job ''status'' = JStr ''completed''
     \<and> jget job ''conclusion'' = JStr ''success''
     \<and> (\<exists>steps. jget job ''steps'' = JArr steps \<and> steps \<noteq> [] \<and> list_all step_succeeded steps))"

lemma conclusion_in_Inr: "conclusion_in v names = Inr c \<Longrightarrow> v = JStr c"
  by (auto simp: conclusion_in_def bindE_Inr_iff reject_unless_member_Inr str_or_invalid_def reject_def split: if_splits)

lemma eq_str_JStr: "eq_str v s \<longleftrightarrow> v = JStr s"
  by (cases v) (simp_all add: eq_str_def)

lemma critical_step_True: "critical_step True step steps = Inr r \<Longrightarrow> step_succeeded step"
  by (cases step) (auto simp: critical_step_def step_succeeded_def bindE_Inr_iff reject_if_Inr reject_def eq_str_JStr
      dest: conclusion_in_Inr split: json.splits)

lemma foldE_all:
  assumes "foldE f xs a = Inr r" "\<And>x a r. x \<in> set xs \<Longrightarrow> f x a = Inr r \<Longrightarrow> P x"
  shows "list_all P xs"
  using assms by (induction xs arbitrary: a) (auto simp: bindE_Inr_iff)

lemma critical_job_True:
  assumes "critical_job run_attempt True job projection = Inr r"
  shows "job_succeeded run_attempt job"
proof -
  from assms obtain s ss where steps: "jget job ''steps'' = JArr (s # ss)"
    unfolding critical_job_def bindE_Inr_iff reject_def
    by (cases "jget job ''steps''") (auto simp: neq_Nil_conv split: list.split_asm)
  with assms have r: "eq_int (jget job ''run_attempt'') run_attempt" "jget job ''status'' = JStr ''completed''"
      "conclusion_in (jget job ''conclusion'') TERMINAL_CONCLUSIONS = Inr ''success''"
      "\<exists>x. foldE (critical_step True) (s # ss) [] = Inr x"
    unfolding critical_job_def by (auto simp: bindE_Inr_iff reject_if_Inr eq_str_JStr)
  then have "list_all step_succeeded (s # ss)" by (elim exE foldE_all) (rule critical_step_True)
  with r(1,2) steps conclusion_in_Inr [OF r(3)] show ?thesis by (simp add: job_succeeded_def)
qed

lemma critical_jobs_True: "critical_jobs_digest H jobs run_attempt True = Inr d \<Longrightarrow> list_all (job_succeeded run_attempt) jobs"
  by (auto simp: critical_jobs_digest_def bindE_Inr_iff intro: critical_job_True foldE_all)

section \<open>From the run to the recorded outcome\<close>

lemma sealed_outcome_Inr:
  assumes "sealed_outcome H W Z E R rid stg row b res run = Inr vo"
  shows "\<exists>started jobs jobs_sha archive outcome.
    jget run ''run_started_at'' = JStr started
    \<and> oe_jobs E (rc_installation_id R) (in_repository row) (sr_run_id res) (sr_run_attempt res) = Inr jobs
    \<and> critical_jobs_digest H jobs (sr_run_attempt res) (eq_str (jget run ''conclusion'') ''success'') = Inr jobs_sha
    \<and> oe_fetch E (rc_installation_id R) (in_repository row) (sr_run_id res)
        (source_artifact_name rid stg (sr_run_id res) (sr_run_attempt res)) None = Inr archive
    \<and> jget outcome ''conclusion'' = JStr (expected_conclusion stg (jget run ''conclusion''))
    \<and> verify_stage_outcome H outcome b
        \<lparr>ex_stage = stg, ex_run_id = sr_run_id res, ex_run_attempt = sr_run_attempt res, ex_run_started_at = started,
         ex_critical_jobs_sha256 = jobs_sha,
         ex_source_artifact_name = source_artifact_name rid stg (sr_run_id res) (sr_run_attempt res),
         ex_source_archive_sha256 = ''sha256:'' @ h_sha H archive\<rparr> (oe_now E) = Inr vo"
proof -
  from assms obtain started where st: "jget run ''run_started_at'' = JStr started"
    by (auto simp: sealed_outcome_def reject_def split: json.splits)
  show ?thesis
    using assms unfolding sealed_outcome_def st json.case Let_def bindE_Inr_iff reject_if_Inr eq_str_JStr not_not
    by (elim exE conjE, intro exI conjI) (rule refl | assumption)+
qed

lemma reconcile_Inr:
  assumes "reconcile H W Z E R rid stg s = (Inr vo, t)"
  shows "\<exists>row envelope b res ws run s3 c.
    get_finalized H rid (oe_registry E 0 s) = Inr (row, envelope)
    \<and> verified_again H E R envelope = Inr b
    \<and> get_stage rid stg (oe_registry E 1 (oe_registry E 0 s)) = Inr res
    \<and> signed_stage_of b stg ''STAGE_OUTCOME_BINDING_MISMATCH'' = Inr ws
    \<and> oe_run_attempt E (rc_installation_id R) (in_repository row) (sr_run_id res) (sr_run_attempt res) = Inr run
    \<and> run_is_reserved row res ws run \<and> run_terminal run = Inr ()
    \<and> sealed_outcome H W Z E R rid stg row b res run = Inr vo
    \<and> record_stage_outcome H (oe_uid E 3) (vo_request_id vo) (vo_stage vo) (vo_run_id vo) (vo_run_attempt vo)
        (vo_payload vo) (vo_outcome_digest vo) (vo_target_state vo) (oe_now E) s3 = (Inr c, t)"
  using assms unfolding reconcile_def on_reg_def bindS_Inr_iff split_paired_Ex prod.case prod.inject
  by (elim exE conjE) (auto simp: reject_if_Inr)

lemma record_outcome_stored:
  assumes "record_stage_outcome H uid rid stg run att outcome dg target now s = (Inr c, t)"
  shows "\<exists>old. outcome_of t rid stg = Some old \<and> so_outcome_digest old = dg \<and> so_target_state old = target
    \<and> eq_str (jget outcome ''sourceArchiveSha256'') (so_source_archive_sha256 old)"
proof -
  from assms obtain archive where a: "jget outcome ''sourceArchiveSha256'' = JStr archive"
    by (auto simp: record_stage_outcome_def reject_def split: json.splits if_splits)
  show ?thesis
  proof (cases "outcome_checks H rid stg run att outcome dg archive target now s")
    case (Inr r)
    then show ?thesis
    proof (cases r)
      case None
      with Inr assms a show ?thesis
        by (auto simp: record_stage_outcome_def outcome_checks_def eq_str_JStr reject_def bindE_Inr_iff
            split: option.splits if_splits sum.splits)
    next
      case (Some row)
      with Inr assms a obtain v c' where w: "outcome_writes H uid row \<lparr>so_request_id = rid, so_stage = stg, so_run_id = run,
          so_run_attempt = att, so_outcome_digest = dg, so_source_archive_sha256 = archive, so_target_state = target,
          so_recorded_at = utc_seconds now\<rparr> (s\<lparr>r_cas := c'\<rparr>) = Inr (v, t)"
        by (auto simp: record_stage_outcome_def reject_def transaction_Inr_iff split: if_splits sum.splits)
      show ?thesis
        by (rule outcome_writes_effect [OF w, of rid stg]) (auto simp: so_key_def lookup_by_append a eq_str_JStr)
    qed
  qed (use assms a in \<open>auto simp: record_stage_outcome_def reject_def split: if_splits sum.splits\<close>)
qed

lemma signed_stage_of_Inr:
  "signed_stage_of b stg code = Inr ws \<Longrightarrow> ws \<in> set (bd_workflowStages (vb_payload b)) \<and> ws_stage ws = stg"
proof -
  assume "signed_stage_of b stg code = Inr ws"
  then have "filter (\<lambda>ws. ws_stage ws = stg) (bd_workflowStages (vb_payload b)) = [ws]"
    by (auto simp: signed_stage_of_def reject_def split: list.splits)
  then have "ws \<in> set (filter (\<lambda>ws. ws_stage ws = stg) (bd_workflowStages (vb_payload b)))" by simp
  then show ?thesis by simp
qed

lemma run_terminal_Inr:
  "run_terminal run = Inr u \<Longrightarrow> jget run ''status'' = JStr ''completed'' \<and> (\<exists>c \<in> set TERMINAL_CONCLUSIONS. jget run ''conclusion'' = JStr c)"
  by (auto simp: run_terminal_def bindE_Inr_iff reject_if_Inr eq_str_JStr reject_unless_member_Inr)

lemma expected_conclusion_target:
  assumes "conclusion_target (JStr (expected_conclusion stg conclusion)) = Some target" "conclusion \<noteq> JStr ''rolled-back''"
  shows "target = (if conclusion \<noteq> JStr ''success'' then Failed else if stg = ''compensating-rollback'' then RolledBack else Succeeded)"
  using assms by (cases conclusion) (auto simp: expected_conclusion_def conclusion_target_def eq_str_JStr split: if_splits)

text \<open>The evidence of a recorded outcome, in the registries that the reconciliation reads.\<close>

definition authentic_outcome :: "host \<Rightarrow> outcome_env \<Rightarrow> outcome_reconciler \<Rightarrow> string \<Rightarrow> string \<Rightarrow> intent_row \<Rightarrow> stage_reservation
    \<Rightarrow> workflow_stage \<Rightarrow> (string \<times> json) list \<Rightarrow> verified_stage_outcome \<Rightarrow> bool" where
  "authentic_outcome H E R rid stg row res ws run vo =
     (oe_run_attempt E (rc_installation_id R) (in_repository row) (sr_run_id res) (sr_run_attempt res) = Inr run
      \<and> run_is_reserved row res ws run \<and> jget run ''status'' = JStr ''completed''
      \<and> vo_request_id vo = rid \<and> vo_stage vo = stg \<and> vo_run_id vo = sr_run_id res \<and> vo_run_attempt vo = sr_run_attempt res
      \<and> vo_target_state vo = (if jget run ''conclusion'' \<noteq> JStr ''success'' then Failed
           else if stg = ''compensating-rollback'' then RolledBack else Succeeded)
      \<and> (\<exists>jobs jobs_sha archive.
           oe_jobs E (rc_installation_id R) (in_repository row) (sr_run_id res) (sr_run_attempt res) = Inr jobs
           \<and> critical_jobs_digest H jobs (sr_run_attempt res) (jget run ''conclusion'' = JStr ''success'') = Inr jobs_sha
           \<and> jget (vo_payload vo) ''criticalJobsSha256'' = JStr jobs_sha
           \<and> (vo_target_state vo \<noteq> Failed \<longrightarrow> list_all (job_succeeded (sr_run_attempt res)) jobs)
           \<and> oe_fetch E (rc_installation_id R) (in_repository row) (sr_run_id res)
               (source_artifact_name rid stg (sr_run_id res) (sr_run_attempt res)) None = Inr archive
           \<and> jget (vo_payload vo) ''sourceArchiveSha256'' = JStr (''sha256:'' @ h_sha H archive)
           \<and> jget (vo_payload vo) ''workflowBlobSha256'' = JStr (ws_workflowBlobSha256 ws)
           \<and> jget (vo_payload vo) ''runStartedAt'' = jget run ''run_started_at''))"

lemma sealed_outcome_authentic:
  assumes sealed: "sealed_outcome H W Z E R rid stg row b res run = Inr vo"
    and stage: "signed_stage_of b stg ''STAGE_OUTCOME_BINDING_MISMATCH'' = Inr ws"
    and run: "oe_run_attempt E (rc_installation_id R) (in_repository row) (sr_run_id res) (sr_run_attempt res) = Inr run"
      "run_is_reserved row res ws run" "run_terminal run = Inr ()"
  shows "authentic_outcome H E R rid stg row res ws run vo \<and> vb_request_id b = rid
    \<and> digest H (JObj (vo_payload vo)) = Inr (vo_outcome_digest vo)"
proof -
  obtain started jobs jobs_sha archive outcome where o:
      "jget run ''run_started_at'' = JStr started"
      "oe_jobs E (rc_installation_id R) (in_repository row) (sr_run_id res) (sr_run_attempt res) = Inr jobs"
      "critical_jobs_digest H jobs (sr_run_attempt res) (eq_str (jget run ''conclusion'') ''success'') = Inr jobs_sha"
      "oe_fetch E (rc_installation_id R) (in_repository row) (sr_run_id res)
        (source_artifact_name rid stg (sr_run_id res) (sr_run_attempt res)) None = Inr archive"
      "jget outcome ''conclusion'' = JStr (expected_conclusion stg (jget run ''conclusion''))"
      and v: "verify_stage_outcome H outcome b
        \<lparr>ex_stage = stg, ex_run_id = sr_run_id res, ex_run_attempt = sr_run_attempt res, ex_run_started_at = started,
         ex_critical_jobs_sha256 = jobs_sha,
         ex_source_artifact_name = source_artifact_name rid stg (sr_run_id res) (sr_run_attempt res),
         ex_source_archive_sha256 = ''sha256:'' @ h_sha H archive\<rparr> (oe_now E) = Inr vo"
    using sealed_outcome_Inr [OF sealed] by blast
  note facts = verify_stage_outcome_Inr [OF v, simplified stage expected_outcome.simps sum.inject]
  from facts have rid: "vb_request_id b = rid" by (auto simp: source_artifact_name_def)
  from facts have t: "conclusion_target (jget outcome ''conclusion'') = Some (vo_target_state vo)" by blast
  obtain c where c: "jget run ''status'' = JStr ''completed''" "jget run ''conclusion'' = JStr c" "c \<in> set TERMINAL_CONCLUSIONS"
    using run_terminal_Inr [OF run(3)] by blast
  then have target: "vo_target_state vo = (if jget run ''conclusion'' \<noteq> JStr ''success'' then Failed
      else if stg = ''compensating-rollback'' then RolledBack else Succeeded)"
    by (intro expected_conclusion_target) (use t o(5) in \<open>auto simp: TERMINAL_CONCLUSIONS_def\<close>)
  have jobs: "vo_target_state vo \<noteq> Failed \<longrightarrow> list_all (job_succeeded (sr_run_attempt res)) jobs"
    using target o(3) critical_jobs_True [of H jobs "sr_run_attempt res"] by (auto simp: eq_str_JStr split: if_splits)
  have "jget outcome ''criticalJobsSha256'' = JStr jobs_sha"
    "jget outcome ''sourceArchiveSha256'' = JStr (''sha256:'' @ h_sha H archive)"
    "jget outcome ''workflowBlobSha256'' = JStr (ws_workflowBlobSha256 ws)" "jget outcome ''runStartedAt'' = JStr started"
    using facts by (auto simp: exact_fields_def Let_def eq_str_JStr)
  with facts rid target jobs o(1-4) run(1,2) c(1) show ?thesis
    unfolding authentic_outcome_def by (auto simp: eq_str_JStr)
qed

lemma recorded_outcome_ends:
  assumes "reconcile H W Z E R rid stg s = (Inr vo, t)"
  shows "\<exists>old. outcome_of t rid stg = Some old \<and> so_outcome_digest old = vo_outcome_digest vo \<and> so_target_state old = vo_target_state vo"
proof -
  obtain row b res ws run s3 c where r:
    "signed_stage_of b stg ''STAGE_OUTCOME_BINDING_MISMATCH'' = Inr ws"
    "oe_run_attempt E (rc_installation_id R) (in_repository row) (sr_run_id res) (sr_run_attempt res) = Inr run"
    "run_is_reserved row res ws run" "run_terminal run = Inr ()"
    "sealed_outcome H W Z E R rid stg row b res run = Inr vo"
    and rec: "record_stage_outcome H (oe_uid E 3) (vo_request_id vo) (vo_stage vo) (vo_run_id vo) (vo_run_attempt vo)
        (vo_payload vo) (vo_outcome_digest vo) (vo_target_state vo) (oe_now E) s3 = (Inr c, t)"
    using reconcile_Inr [OF assms] by blast
  then have "vo_request_id vo = rid" "vo_stage vo = stg"
    using sealed_outcome_authentic [OF r(5,1-4)] by (simp_all add: authentic_outcome_def)
  with record_outcome_stored [OF rec] show ?thesis by auto
qed

text \<open>
  C9: a reconciled outcome is authentic. When a reconciliation succeeds, the evidence of the finalized
  intent verifies again under the pinned trust root and the current revocations; the run that
  GitHub reports is the reserved one, of the signed workflow, and is completed; the outcome
  is of this request and stage, repeats the digests of the live jobs and of the downloaded
  archive, and its state follows from the run's conclusion: success (with every job and every
  step of it successful) gives \<open>Succeeded\<close>, or \<open>RolledBack\<close> for the rollback stage, anything else
  \<open>Failed\<close>. The registry then holds exactly this outcome for the stage.
\<close>

theorem recorded_outcome_authentic:
  assumes "reconcile H W Z E R rid stg s = (Inr vo, t)"
  shows "\<exists>row envelope revocations v b res ws run old.
    get_finalized H rid (oe_registry E 0 s) = Inr (row, envelope)
    \<and> oe_revocations E = Inr revocations
    \<and> new_verifier H (rc_trust_root R) revocations (oe_now E) None (Some (rc_expected_trust_root R)) Active None = Inr v
    \<and> verify_bundle H v envelope = Inr b \<and> vb_request_id b = rid
    \<and> get_stage rid stg (oe_registry E 1 (oe_registry E 0 s)) = Inr res
    \<and> ws \<in> set (bd_workflowStages (vb_payload b)) \<and> ws_stage ws = stg
    \<and> authentic_outcome H E R rid stg row res ws run vo
    \<and> digest H (JObj (vo_payload vo)) = Inr (vo_outcome_digest vo)
    \<and> outcome_of t rid stg = Some old \<and> so_outcome_digest old = vo_outcome_digest vo
    \<and> so_target_state old = vo_target_state vo"
proof -
  obtain row envelope b res ws run where r:
    "get_finalized H rid (oe_registry E 0 s) = Inr (row, envelope)"
    "verified_again H E R envelope = Inr b"
    "get_stage rid stg (oe_registry E 1 (oe_registry E 0 s)) = Inr res"
    "signed_stage_of b stg ''STAGE_OUTCOME_BINDING_MISMATCH'' = Inr ws"
    "oe_run_attempt E (rc_installation_id R) (in_repository row) (sr_run_id res) (sr_run_attempt res) = Inr run"
    "run_is_reserved row res ws run" "run_terminal run = Inr ()"
    "sealed_outcome H W Z E R rid stg row b res run = Inr vo"
    using reconcile_Inr [OF assms] by blast
  note a = sealed_outcome_authentic [OF r(8,4-7)]
  from r(2) obtain revocations v where "oe_revocations E = Inr revocations"
    "new_verifier H (rc_trust_root R) revocations (oe_now E) None (Some (rc_expected_trust_root R)) Active None = Inr v"
    "verify_bundle H v envelope = Inr b"
    by (auto simp: verified_again_def bindE_Inr_iff)
  with a r(1,3) signed_stage_of_Inr [OF r(4)] recorded_outcome_ends [OF assms] show ?thesis by blast
qed

section \<open>The sweep\<close>

interpretation rg: kept_relation "(reg_op H)\<^sup>*\<^sup>*" for H
  by unfold_locales auto

text \<open>What others do between the accesses are operations of the registry.\<close>

definition fair_outcome_env :: "host \<Rightarrow> outcome_env \<Rightarrow> bool" where
  "fair_outcome_env H E = (\<forall>i t. (reg_op H)\<^sup>*\<^sup>* t (oe_registry E i t))"

lemma on_reg_kept:
  assumes "fair_outcome_env H E" "\<And>t. (reg_op H)\<^sup>*\<^sup>* t (snd (f t))"
  shows "(reg_op H)\<^sup>*\<^sup>* s (snd (on_reg E i f s))"
  using assms unfolding on_reg_def fair_outcome_env_def by (meson rg.R_trans)

lemma sweep_op_snd:
  "(reg_op H)\<^sup>*\<^sup>* t (snd (expire_pending_stages H uid now t))"
  "(reg_op H)\<^sup>*\<^sup>* t (snd (record_stage_outcome H uid rid stg run att outcome dg target now t))"
  by (rule r_into_rtranclp, rule reg_op.intros, rule prod.collapse [symmetric])+

lemma reconcile_ops: "fair_outcome_env H E \<Longrightarrow> (reg_op H)\<^sup>*\<^sup>* s (snd (reconcile H W Z E R rid stg s))"
  unfolding reconcile_def
  by (intro rg.bindS_kept)
    (auto intro!: rg.bindS_kept intro: on_reg_kept on_reg_kept [OF _ reg_op_snd(2)] on_reg_kept [OF _ sweep_op_snd(2)])

text \<open>The reconciliations of a sweep, one after the other: \<open>results\<close> from the registries \<open>states\<close>.\<close>

definition sweep_trace :: "host \<Rightarrow> web_host \<Rightarrow> zip_reader \<Rightarrow> (nat \<Rightarrow> outcome_env) \<Rightarrow> outcome_reconciler \<Rightarrow> nat \<Rightarrow> stage_row list
    \<Rightarrow> registry list \<Rightarrow> verified_stage_outcome result list \<Rightarrow> bool" where
  "sweep_trace H W Z Es R k rows states results =
     (length results = length rows \<and> length states = Suc (length rows)
      \<and> (\<forall>i < length rows. reconcile H W Z (Es (k + i)) R (st_request_id (rows ! i)) (st_stage (rows ! i)) (states ! i)
           = (results ! i, states ! Suc i)))"

lemma sweep_trace_Cons:
  assumes "reconcile H W Z (Es k) R (st_request_id row) (st_stage row) s = (r, hd states)"
    and "sweep_trace H W Z Es R (Suc k) rows states results"
  shows "sweep_trace H W Z Es R k (row # rows) (s # states) (r # results)"
  using assms by (cases states) (auto simp: sweep_trace_def nth_Cons split: nat.splits)

abbreviation succeeded :: "verified_stage_outcome result list \<Rightarrow> nat" where
  "succeeded results \<equiv> length (filter (\<lambda>r. \<not> isl r) results)"

lemma sweep_stages_trace:
  "\<exists>states results. sweep_stages H W Z Es R k c rows s = ((k + length rows, c + succeeded results), last states)
     \<and> hd states = s \<and> sweep_trace H W Z Es R k rows states results"
proof (induction rows arbitrary: k c s)
  case Nil
  show ?case by (intro exI [of _ "[s]"] exI [of _ "[]"]) (simp add: sweep_trace_def)
next
  case (Cons row rows)
  obtain r s1 where r: "reconcile H W Z (Es k) R (st_request_id row) (st_stage row) s = (r, s1)" by fastforce
  let ?c = "case r of Inl _ \<Rightarrow> c | Inr _ \<Rightarrow> Suc c"
  from Cons.IH obtain states results where IH:
    "sweep_stages H W Z Es R (Suc k) ?c rows s1 = ((Suc k + length rows, ?c + succeeded results), last states)"
    "hd states = s1" "sweep_trace H W Z Es R (Suc k) rows states results" by blast
  from IH(3) have "states \<noteq> []" by (auto simp: sweep_trace_def)
  with IH(1) r have "sweep_stages H W Z Es R k c (row # rows) s
      = ((k + length (row # rows), c + succeeded (r # results)), last (s # states))"
    by (auto split: sum.splits)
  with sweep_trace_Cons [of H W Z Es k R row s r states rows results] r IH(2,3) show ?case
    by (metis list.sel(1))
qed

lemma sweep_trace_ops:
  assumes "sweep_trace H W Z Es R k rows states results" "\<And>i. fair_outcome_env H (Es i)" "i \<le> j" "j \<le> length rows"
  shows "(reg_op H)\<^sup>*\<^sup>* (states ! i) (states ! j)"
  using assms(3,4)
proof (induction j rule: dec_induct)
  case (step j)
  then have "reconcile H W Z (Es (k + j)) R (st_request_id (rows ! j)) (st_stage (rows ! j)) (states ! j) = (results ! j, states ! Suc j)"
    using assms(1) by (simp add: sweep_trace_def)
  with reconcile_ops [OF assms(2) [of "k + j"], of "states ! j" W Z R] have "(reg_op H)\<^sup>*\<^sup>* (states ! j) (states ! Suc j)"
    by (metis snd_conv)
  moreover from step have "(reg_op H)\<^sup>*\<^sup>* (states ! i) (states ! j)" by simp
  ultimately show ?case by (rule rtranclp_trans [rotated])
qed simp

lemma outcome_kept_ops:
  assumes "(reg_op H)\<^sup>*\<^sup>* s t" "reachable H s" "outcome_of s rid stg = Some old"
  shows "outcome_of t rid stg = Some old"
  using outcomes_prefix_ops [OF assms(1) reachable_inv [OF assms(2)]] assms(3) by (auto simp: prefix_def lookup_by_append)

lemma pending_all:
  assumes "pending_stages 100 s = Inr rows" "length (filter (pending_row s) (r_stages s)) \<le> 100"
  shows "set rows = {r \<in> set (r_stages s). pending_row s r}"
  using assms by (auto simp: pending_stages_def by_request_def)

lemma run_once_sweeps:
  assumes "expire_pending_stages H (oe_uid E 0) (oe_now E) (oe_registry E 0 s) = (Inr n, s1)"
    and "pending_stages 100 (oe_registry E 1 s1) = Inr rows"
  shows "\<exists>states results. run_once H W Z E Es R s = (Inr (length rows, succeeded results), last states)
    \<and> hd states = oe_registry E 1 s1 \<and> sweep_trace H W Z Es R 0 rows states results"
proof -
  obtain states results where tr: "sweep_stages H W Z Es R 0 0 rows (oe_registry E 1 s1) = ((length rows, succeeded results), last states)"
      "hd states = oe_registry E 1 s1" "sweep_trace H W Z Es R 0 rows states results"
    using sweep_stages_trace [of H W Z Es R 0 0 rows "oe_registry E 1 s1"] by auto
  have "run_once H W Z E Es R s = (Inr (length rows, succeeded results), last states)"
    unfolding run_once_def on_reg_def assms bindS_Inr tr(1) by simp
  with tr(2,3) show ?thesis by blast
qed

text \<open>
  C26: a sweep visits every pending stage. Once the expiry has run, the sweep returns: it reconciles each
  of the first hundred pending stages exactly once, in their order, counts the successes, and
  no failure, a refusal or any other exception, stops it; with at most a hundred pending
  stages none is left out. Every outcome recorded on the way is still recorded at its end.
\<close>

theorem sweep_visits_all_pending:
  assumes "expire_pending_stages H (oe_uid E 0) (oe_now E) (oe_registry E 0 s) = (Inr n, s1)"
    and "fair_outcome_env H E" "\<And>i. fair_outcome_env H (Es i)"
  shows "\<exists>rows states results t. pending_stages 100 (oe_registry E 1 s1) = Inr rows
    \<and> run_once H W Z E Es R s = (Inr (length rows, succeeded results), t)
    \<and> hd states = oe_registry E 1 s1 \<and> last states = t \<and> sweep_trace H W Z Es R 0 rows states results
    \<and> (length (filter (pending_row (hd states)) (r_stages (hd states))) \<le> 100 \<longrightarrow>
         set rows = {r \<in> set (r_stages (hd states)). pending_row (hd states) r})
    \<and> (reachable H s \<longrightarrow> (\<forall>i < length rows. \<forall>vo. results ! i = Inr vo \<longrightarrow>
         (\<exists>old. outcome_of t (st_request_id (rows ! i)) (st_stage (rows ! i)) = Some old
            \<and> so_outcome_digest old = vo_outcome_digest vo \<and> so_target_state old = vo_target_state vo)))"
proof -
  obtain rows where rows: "pending_stages 100 (oe_registry E 1 s1) = Inr rows" by (auto simp: pending_stages_def)
  from run_once_sweeps [OF assms(1) rows] obtain states results where
    tr: "run_once H W Z E Es R s = (Inr (length rows, succeeded results), last states)"
      "hd states = oe_registry E 1 s1" "sweep_trace H W Z Es R 0 rows states results" by blast
  have "\<exists>old. outcome_of (last states) (st_request_id (rows ! i)) (st_stage (rows ! i)) = Some old
      \<and> so_outcome_digest old = vo_outcome_digest vo \<and> so_target_state old = vo_target_state vo"
    if i: "reachable H s" "i < length rows" "results ! i = Inr vo" for i vo
  proof -
    have len: "length states = Suc (length rows)" and
      step: "reconcile H W Z (Es i) R (st_request_id (rows ! i)) (st_stage (rows ! i)) (states ! i) = (Inr vo, states ! Suc i)"
      using tr(3) i(2,3) by (auto simp: sweep_trace_def)
    have "(reg_op H)\<^sup>*\<^sup>* s (hd states)"
      using sweep_op_snd(1) [of H "oe_registry E 0 s" "oe_uid E 0" "oe_now E"] assms(1,2) tr(2)
      unfolding fair_outcome_env_def by (metis rtranclp_trans snd_conv)
    then have "reachable H (states ! 0)" using reachable_trans [OF i(1)] len by (metis hd_conv_nth list.size(3) nat.simps(3))
    then have "reachable H (states ! Suc i)"
      using reachable_trans sweep_trace_ops [OF tr(3) assms(3), of 0 "Suc i"] i(2) by (meson Suc_leI le0)
    moreover have "(reg_op H)\<^sup>*\<^sup>* (states ! Suc i) (last states)"
      using sweep_trace_ops [OF tr(3) assms(3), of "Suc i" "length rows"] i(2) len
      by (metis Suc_leI diff_Suc_1 last_conv_nth le_refl list.size(3) nat.simps(3))
    ultimately show ?thesis using recorded_outcome_ends [OF step] outcome_kept_ops by blast
  qed
  then show ?thesis using rows tr pending_all [of "hd states" rows] by (metis (no_types, lifting))
qed

section \<open>A concrete reconciliation\<close>

text \<open>
  The evaluation scenario after its apply run: the stage is reserved for run 11, which succeeded.
  The archive of the run is a text of 138 characters, so that its digest has 64 digits.
\<close>

definition rec_archive :: string where
  "rec_archive = replicate 138 (CHR ''z'')"

definition rec_zip :: zip_reader where
  "rec_zip archive = Inr (Some [\<lparr>zi_filename = STAGE_EVIDENCE_FILE, zi_external_attr = 0, zi_flag_bits = 0,
     zi_file_size = int (length (ev_text (JObj ev_evidence))), zi_compress_size = 100,
     zi_read = Inr (Some (ev_text (JObj ev_evidence)))\<rparr>])"

definition rec_run :: "(string \<times> json) list" where
  "rec_run = [(''id'', JInt 11), (''run_attempt'', JInt 1), (''event'', JStr ''workflow_dispatch''),
     (''head_branch'', JStr ''cross-ai-intent/q''), (''head_sha'', JStr ''h''), (''path'', JStr ''w.yml''),
     (''status'', JStr ''completed''), (''conclusion'', JStr ''success''), (''run_started_at'', JStr ''1Z''),
     (''repository'', JObj [(''id'', JInt 7), (''full_name'', JStr ''o/r'')]),
     (''head_repository'', JObj [(''id'', JInt 7), (''full_name'', JStr ''o/r'')])]"

definition rec_job :: "(string \<times> json) list" where
  "rec_job = [(''name'', JStr ''deploy''), (''run_attempt'', JInt 1), (''status'', JStr ''completed''), (''conclusion'', JStr ''success''),
     (''steps'', JArr [JObj [(''number'', JInt 1), (''name'', JStr ''apply''), (''status'', JStr ''completed''), (''conclusion'', JStr ''success'')]])]"

definition rec_env :: outcome_env where
  "rec_env = \<lparr>oe_now = minutes 10, oe_uid = (\<lambda>i k. replicate (3 * i + k) (CHR ''o'')), oe_registry = (\<lambda>_ t. t),
     oe_revocations = Inr ev_revocations_envelope, oe_run_attempt = (\<lambda>_ _ _ _. Inr rec_run),
     oe_jobs = (\<lambda>_ _ _ _. Inr [rec_job]), oe_fetch = (\<lambda>_ _ _ _ _. Inr rec_archive)\<rparr>"

definition rec_config :: outcome_reconciler where
  "rec_config = \<lparr>rc_installation_id = 2, rc_trust_root = ev_trust_root, rc_expected_trust_root = ''sha256:1433''\<rparr>"

definition rec_start :: registry where
  "rec_start = eval_registry\<lparr>r_stages := [(eval_stage ''apply'' 1)\<lparr>st_state := Reserved, st_run_id := Some 11, st_run_attempt := Some 1,
       st_app_rule_id := Some 3, st_reservation_id := Some ''u'', st_reservation_expires_at := Some 1801\<rparr>,
     eval_stage ''browser-evidence'' 2, eval_stage ''compensating-rollback'' 3]\<rparr>"

lemma rec_fair: "fair_outcome_env H rec_env"
  by (simp add: fair_outcome_env_def rec_env_def)

definition rec_res :: stage_reservation where
  "rec_res = \<lparr>sr_request_id = ''q'', sr_stage = ''apply'', sr_run_id = 11, sr_run_attempt = 1, sr_app_rule_id = 3,
     sr_reservation_id = Some ''u'', sr_reservation_expires_at = Some 1801, sr_state = Reserved, sr_idempotent = True\<rparr>"

definition rec_sealed :: verified_stage_outcome where
  "rec_sealed = \<lparr>vo_request_id = ''q'', vo_stage = ''apply'', vo_run_id = 11, vo_run_attempt = 1,
     vo_outcome_digest = ''sha256:'' @ replicate 64 (CHR ''f''), vo_target_state = Succeeded,
     vo_payload = ev_evidence @ [(''schemaVersion'', JStr ''acik.cross-ai-deployment-stage-outcome.v1''), (''runStartedAt'', JStr ''1Z''),
       (''criticalJobsSha256'', JStr ''sha256:154''), (''sourceArtifactName'', JStr ''cross-ai-stage-outcome-q-apply-11-1''),
       (''sourceArchiveSha256'', JStr (''sha256:'' @ replicate 64 (CHR ''0'')))]\<rparr>"

lemma rec_sealed_ok:
  "sealed_outcome ev_host in_web rec_zip rec_env rec_config ''q'' ''apply'' eval_row ev_accepted rec_res rec_run = Inr rec_sealed"
  by code_simp

lemma rec_verified: "verified_again ev_host rec_env rec_config ev_bundle_envelope = Inr ev_accepted"
proof -
  have s: "oe_revocations rec_env = Inr ev_revocations_envelope" "oe_now rec_env = minutes 10"
    "rc_trust_root rec_config = ev_trust_root" "rc_expected_trust_root rec_config = ''sha256:1433''"
    by (simp_all add: rec_env_def rec_config_def)
  show ?thesis
    unfolding verified_again_def s bindE_simps new_verifier_any_policy [OF ev_verifier_new [unfolded ev_new_def]]
    by (rule verify_bundle_any_policy [OF ev_bundle_accepted])
qed

definition rec_end :: registry where
  "rec_end = snd (record_stage_outcome ev_host (oe_uid rec_env 3) (vo_request_id rec_sealed) (vo_stage rec_sealed) (vo_run_id rec_sealed)
     (vo_run_attempt rec_sealed) (vo_payload rec_sealed) (vo_outcome_digest rec_sealed) (vo_target_state rec_sealed) (minutes 10) rec_start)"

lemma rec_recorded:
  "record_stage_outcome ev_host (oe_uid rec_env 3) (vo_request_id rec_sealed) (vo_stage rec_sealed) (vo_run_id rec_sealed)
     (vo_run_attempt rec_sealed) (vo_payload rec_sealed) (vo_outcome_digest rec_sealed) (vo_target_state rec_sealed) (minutes 10) rec_start
   = (Inr True, rec_end)" (is "?m = _")
proof -
  have "fst ?m = Inr True" by code_simp
  then show ?thesis by (metis rec_end_def prod.collapse)
qed

lemma rec_reconciled: "reconcile ev_host in_web rec_zip rec_env rec_config ''q'' ''apply'' rec_start = (Inr rec_sealed, rec_end)"
proof -
  have f: "get_finalized ev_host ''q'' rec_start = Inr (eval_row, ev_bundle_envelope)" by code_simp
  have g: "get_stage ''q'' ''apply'' rec_start = Inr rec_res" by code_simp
  have ws: "\<exists>ws. signed_stage_of ev_accepted ''apply'' ''STAGE_OUTCOME_BINDING_MISMATCH'' = Inr ws \<and> run_is_reserved eval_row rec_res ws rec_run"
    by (rule exI [of _ "projr (signed_stage_of ev_accepted ''apply'' [])"]) code_simp
  then obtain ws where ws: "signed_stage_of ev_accepted ''apply'' ''STAGE_OUTCOME_BINDING_MISMATCH'' = Inr ws"
    "run_is_reserved eval_row rec_res ws rec_run" by blast
  have t: "run_terminal rec_run = Inr ()" by code_simp
  have E: "oe_registry rec_env i = (\<lambda>t. t)" "oe_run_attempt rec_env = (\<lambda>_ _ _ _. Inr rec_run)" "oe_now rec_env = minutes 10"
    "sr_state rec_res \<noteq> OutcomeOverdue" for i by (simp_all add: rec_env_def rec_res_def)
  show ?thesis
    unfolding reconcile_def on_reg_def E(1-3) f bindS_Inr prod.case rec_verified g ws(1) eqTrueI [OF ws(2)] not_True_eq_False
      reject_if.simps fst_conv snd_conv if_False t if_not_P [OF E(4)] rec_sealed_ok rec_recorded ..
qed

theorem recorded_outcome_authentic_witness:
  "\<exists>run old. jget run ''conclusion'' = JStr ''success'' \<and> vo_target_state rec_sealed = Succeeded
     \<and> outcome_of rec_end ''q'' ''apply'' = Some old \<and> so_target_state old = Succeeded"
proof -
  have s: "vo_target_state rec_sealed = Succeeded" by (simp add: rec_sealed_def)
  from recorded_outcome_authentic [OF rec_reconciled] obtain run old ws row res where
    "authentic_outcome ev_host rec_env rec_config ''q'' ''apply'' row res ws run rec_sealed"
    "outcome_of rec_end ''q'' ''apply'' = Some old" "so_target_state old = vo_target_state rec_sealed" by blast
  with s show ?thesis by (auto simp: authentic_outcome_def split: if_splits)
qed

theorem sweep_visits_all_pending_witness:
  "\<exists>t. run_once ev_host in_web rec_zip rec_env (\<lambda>_. rec_env) rec_config rec_start = (Inr (1, 1), t)
     \<and> map_option so_target_state (outcome_of t ''q'' ''apply'') = Some Succeeded"
proof -
  have e: "expire_pending_stages ev_host (oe_uid rec_env 0) (oe_now rec_env) (oe_registry rec_env 0 rec_start) = (Inr 0, rec_start)"
    by code_simp
  have p: "pending_stages 100 (oe_registry rec_env 1 rec_start) = Inr [hd (r_stages rec_start)]" by code_simp
  have k: "st_request_id (hd (r_stages rec_start)) = ''q''" "st_stage (hd (r_stages rec_start)) = ''apply''"
    by (simp_all add: rec_start_def eval_stage_def)
  from sweep_visits_all_pending [OF e rec_fair, of "\<lambda>_. rec_env" in_web rec_zip rec_config] p rec_fair
  obtain states results t where r: "run_once ev_host in_web rec_zip rec_env (\<lambda>_. rec_env) rec_config rec_start = (Inr (1, succeeded results), t)"
    "hd states = oe_registry rec_env 1 rec_start" "last states = t"
    "sweep_trace ev_host in_web rec_zip (\<lambda>_. rec_env) rec_config 0 [hd (r_stages rec_start)] states results" by fastforce
  from r(2,4) rec_reconciled k have x: "results = [Inr rec_sealed]" "states = [rec_start, rec_end]"
    by (auto simp: sweep_trace_def length_Suc_conv rec_env_def)
  from recorded_outcome_ends [OF rec_reconciled] have "map_option so_target_state (outcome_of rec_end ''q'' ''apply'') = Some Succeeded"
    by (auto simp: rec_sealed_def)
  with r(1,3) x show ?thesis by auto
qed

end
