(* ===== verification/Oidc.thy ===== *)
theory Oidc
  imports Service
begin

text \<open>
  The workload identity of a runner, \<^verbatim>\<open>oidc.py\<close>: unpadded Base64url, the cached key set of the token
  issuer and the verification of a token against one run. The answer to a download of the key
  set, the monotonic clock and the RSA signature check of the \<^verbatim>\<open>cryptography\<close> package are arguments.
\<close>

section \<open>Base64url\<close>

definition ISSUER :: string where
  "ISSUER = ''https://token.actions.githubusercontent.com''"

definition AUDIENCE :: string where
  "AUDIENCE = ''acik-cross-ai-runner-bootstrap''"

definition MAX_JWT_BYTES :: nat where
  "MAX_JWT_BYTES = 32 * 1024"

definition MAX_JWKS_BYTES :: nat where
  "MAX_JWKS_BYTES = 256 * 1024"

abbreviation byte :: "char \<Rightarrow> nat" where
  "byte c \<equiv> of_char c"

text \<open>
  \<^verbatim>\<open>urlsafe_b64encode\<close> without its padding and \<^verbatim>\<open>b64decode\<close> with \<^verbatim>\<open>altchars=b"-_"\<close>, which still reads
  \<^verbatim>\<open>+\<close> and \<^verbatim>\<open>/\<close> and ignores the unused bits of the last character; one character too many is an error.
\<close>

definition b64_char :: "nat \<Rightarrow> char" where
  "b64_char n = (if n < 26 then char_of (65 + n) else if n < 52 then char_of (71 + n) else if n < 62 then char_of (n - 4)
     else if n = 62 then CHR ''-'' else CHR ''_'')"

definition b64_value :: "char \<Rightarrow> nat option" where
  "b64_value c = (let n = byte c in
     if 65 \<le> n \<and> n \<le> 90 then Some (n - 65) else if 97 \<le> n \<and> n \<le> 122 then Some (n - 71)
     else if 48 \<le> n \<and> n \<le> 57 then Some (n + 4) else if c = CHR ''-'' \<or> c = CHR ''+'' then Some 62
     else if c = CHR ''_'' \<or> c = CHR ''/'' then Some 63 else None)"

fun sextets :: "nat list \<Rightarrow> nat list" where
  "sextets [] = []"
| "sextets [x] = [x div 4, x mod 4 * 16]"
| "sextets [x, y] = [x div 4, x mod 4 * 16 + y div 16, y mod 16 * 4]"
| "sextets (x # y # z # bs) = [x div 4, x mod 4 * 16 + y div 16, y mod 16 * 4 + z div 64, z mod 64] @ sextets bs"

fun octets :: "nat list \<Rightarrow> nat list option" where
  "octets [] = Some []"
| "octets [a] = None"
| "octets [a, b] = Some [a * 4 + b div 16]"
| "octets [a, b, c] = Some [a * 4 + b div 16, b mod 16 * 16 + c div 4]"
| "octets (a # b # c # d # ss) =
     map_option (\<lambda>bs. [a * 4 + b div 16, b mod 16 * 16 + c div 4, c mod 4 * 64 + d] @ bs) (octets ss)"

definition b64url_encode :: "string \<Rightarrow> string" where
  "b64url_encode bs = map b64_char (sextets (map byte bs))"

definition b64url_decode :: "string \<Rightarrow> string option" where
  "b64url_decode s = map_option (map char_of)
     (Option.bind (those (map b64_value s)) octets)"

definition b64url :: "string \<Rightarrow> string result" where
  "b64url s =
     (if s = [] \<or> CHR ''='' \<in> set s then reject ''BOOTSTRAP_OIDC_INVALID''
      else case b64url_decode s of
        None \<Rightarrow> reject ''BOOTSTRAP_OIDC_INVALID''
      | Some decoded \<Rightarrow> if b64url_encode decoded \<noteq> s then reject ''BOOTSTRAP_OIDC_INVALID'' else Inr decoded)"

definition jwt_json :: "host \<Rightarrow> web_host \<Rightarrow> string \<Rightarrow> (string \<times> json) list result" where
  "jwt_json H W s = bindE (b64url s) (loads_json_bytes H W (16 * 1024))"

section \<open>The key set\<close>

text \<open>Times of the monotonic clock are in microseconds.\<close>

record jwks_loader =
  jl_cache_seconds :: int
  jl_cached :: "(string \<times> json) list option"
  jl_cached_at :: int
  jl_last_forced_at :: int

definition new_jwks_loader :: "int \<Rightarrow> jwks_loader result" where
  "new_jwks_loader cache_seconds =
     (if \<not> (30 \<le> cache_seconds \<and> cache_seconds \<le> 3600) then reject ''BOOTSTRAP_OIDC_CONFIG_INVALID''
      else Inr \<lparr>jl_cache_seconds = cache_seconds, jl_cached = None, jl_cached_at = 0, jl_last_forced_at = 0\<rparr>)"

text \<open>The end of a download: a response with what was read of its body, or one of the caught exceptions.\<close>

datatype jwks_reply = Replied (rp_status: int) (rp_content_type: string) (rp_body: string) | Unreachable

definition fetch_jwks :: "host \<Rightarrow> web_host \<Rightarrow> jwks_reply \<Rightarrow> (string \<times> json) list result" where
  "fetch_jwks H W reply = (case reply of
     Unreachable \<Rightarrow> reject ''BOOTSTRAP_OIDC_JWKS_UNAVAILABLE''
   | Replied status content body \<Rightarrow>
       bindE (reject_if [(status \<noteq> 200 \<or> content \<noteq> ''application/json'', ''BOOTSTRAP_OIDC_JWKS_UNAVAILABLE''),
         (length body > MAX_JWKS_BYTES, ''BOOTSTRAP_OIDC_JWKS_UNAVAILABLE'')]) (\<lambda>_.
       bindE (loads_json_bytes H W MAX_JWKS_BYTES body) (\<lambda>v.
       case jget v ''keys'' of
         JArr keys \<Rightarrow> if \<not> (1 \<le> length keys \<and> length keys \<le> 20) then reject ''BOOTSTRAP_OIDC_JWKS_INVALID'' else Inr v
       | _ \<Rightarrow> reject ''BOOTSTRAP_OIDC_JWKS_INVALID'')))"

text \<open>The cached set that a call returns without a download.\<close>

definition cache_hit :: "int \<Rightarrow> bool \<Rightarrow> jwks_loader \<Rightarrow> (string \<times> json) list option" where
  "cache_hit now force_refresh l =
     (if (if force_refresh then now - jl_last_forced_at l < seconds 30 else now - jl_cached_at l \<le> seconds (jl_cache_seconds l))
      then jl_cached l else None)"

definition load_jwks :: "host \<Rightarrow> web_host \<Rightarrow> int \<Rightarrow> jwks_reply \<Rightarrow> bool \<Rightarrow> jwks_loader \<Rightarrow> (string \<times> json) list result \<times> jwks_loader" where
  "load_jwks H W now reply force_refresh l =
     (case cache_hit now force_refresh l of
        Some cached \<Rightarrow> (Inr cached, l)
      | None \<Rightarrow>
          let l1 = (if force_refresh then l\<lparr>jl_last_forced_at := now\<rparr> else l) in
          (case fetch_jwks H W reply of
             Inl e \<Rightarrow> (Inl e, l1)
           | Inr v \<Rightarrow> (Inr v, l1\<lparr>jl_cached := Some v, jl_cached_at := now\<rparr>)))"

section \<open>The token\<close>

text \<open>\<^verbatim>\<open>int(moment.timestamp())\<close> cuts toward zero.\<close>

definition int_timestamp :: "datetime \<Rightarrow> int" where
  "int_timestamp t = (if t < 0 then - ((- t) div seconds 1) else t div seconds 1)"

text \<open>\<^verbatim>\<open>int\<close> refuses a text of more than 4300 digits with a \<^verbatim>\<open>ValueError\<close>, which nothing catches.\<close>

definition positive_claim :: "(string \<times> json) list \<Rightarrow> string \<Rightarrow> int result" where
  "positive_claim claims name =
     (case jget claims name of
        JStr s \<Rightarrow>
          if s = [] \<or> \<not> list_all (\<lambda>c. c \<in> set ''0123456789'') s \<or> startswith s ''0'' then reject ''BOOTSTRAP_OIDC_CLAIM_MISMATCH''
          else if length s > 4300 then Inl ValueError else Inr (int (dec_val s))
      | _ \<Rightarrow> reject ''BOOTSTRAP_OIDC_CLAIM_MISMATCH'')"

definition claim_is :: "(string \<times> json) list \<Rightarrow> string \<Rightarrow> int \<Rightarrow> unit result" where
  "claim_is claims name expected =
     bindE (positive_claim claims name) (\<lambda>v. reject_if [(v \<noteq> expected, ''BOOTSTRAP_OIDC_CLAIM_MISMATCH'')])"

definition oidc_header_ok :: "(string \<times> json) list \<Rightarrow> bool" where
  "oidc_header_ok header =
     ({''alg'', ''kid'', ''typ''} \<subseteq> fst ` set header \<and> fst ` set header \<subseteq> {''alg'', ''kid'', ''typ'', ''x5t''}
      \<and> eq_str (jget header ''alg'') ''RS256'' \<and> eq_str (jget header ''typ'') ''JWT''
      \<and> (''x5t'' \<in> fst ` set header \<longrightarrow> (case jget header ''x5t'' of JStr _ \<Rightarrow> True | _ \<Rightarrow> False)))"

definition key_id_of :: "(string \<times> json) list \<Rightarrow> string result" where
  "key_id_of header = (case jget header ''kid'' of
     JStr kid \<Rightarrow> if \<not> (1 \<le> py_len kid \<and> py_len kid \<le> 200) then reject ''BOOTSTRAP_OIDC_INVALID'' else Inr kid
   | _ \<Rightarrow> reject ''BOOTSTRAP_OIDC_INVALID'')"

definition jwks_matches :: "string \<Rightarrow> (string \<times> json) list \<Rightarrow> (string \<times> json) list list result" where
  "jwks_matches kid jwks = (case jget jwks ''keys'' of
     JArr keys \<Rightarrow> Inr (filter (\<lambda>entry. eq_str (jget entry ''kid'') kid)
        (List.map_filter (\<lambda>v. case v of JObj kvs \<Rightarrow> Some kvs | _ \<Rightarrow> None) keys))
   | _ \<Rightarrow> reject ''BOOTSTRAP_OIDC_JWKS_INVALID'')"

text \<open>\<^verbatim>\<open>int.from_bytes(\<dots>, "big")\<close>.\<close>

definition from_bytes :: "string \<Rightarrow> int" where
  "from_bytes bs = foldl (\<lambda>n c. n * 256 + int (byte c)) 0 bs"

definition rsa_key :: "(string \<times> json) list \<Rightarrow> (int \<times> int) result" where
  "rsa_key jwk =
     (case (jget jwk ''n'', jget jwk ''e'') of
        (JStr n, JStr e) \<Rightarrow>
          bindE (reject_if [(\<not> eq_str (jget jwk ''kty'') ''RSA'' \<or> \<not> eq_str (jget jwk ''use'') ''sig''
                   \<or> \<not> eq_str (jget jwk ''alg'') ''RS256'', ''BOOTSTRAP_OIDC_JWKS_INVALID'')]) (\<lambda>_.
          bindE (b64url n) (\<lambda>nb. bindE (b64url e) (\<lambda>eb.
          bindE (reject_if [(from_bytes nb < 2 ^ 2047 \<or> from_bytes eb \<noteq> 65537, ''BOOTSTRAP_OIDC_JWKS_INVALID'')]) (\<lambda>_.
          Inr (from_bytes eb, from_bytes nb)))))
      | _ \<Rightarrow> reject ''BOOTSTRAP_OIDC_JWKS_INVALID'')"

definition oidc_times_ok :: "int \<Rightarrow> (string \<times> json) list \<Rightarrow> bool" where
  "oidc_times_ok current claims = (case (jget claims ''iat'', jget claims ''nbf'', jget claims ''exp'') of
     (JInt iat, JInt nbf, JInt expiry) \<Rightarrow>
       \<not> (iat > current + 60 \<or> nbf > current + 60 \<or> expiry < current - 30 \<or> expiry - iat > 600 \<or> expiry \<le> nbf)
   | _ \<Rightarrow> False)"

text \<open>The run that a token must name.\<close>

record oidc_binding =
  ob_repository_id :: int
  ob_repository :: string
  ob_environment :: string
  ob_intent_ref :: string
  ob_head_sha :: string
  ob_workflow_path :: string
  ob_run_id :: int
  ob_run_attempt :: int
  ob_actor_id :: int

definition exact_claims :: "oidc_binding \<Rightarrow> (string \<times> string) list" where
  "exact_claims b =
     [(''iss'', ISSUER), (''aud'', AUDIENCE), (''repository_id'', int_dec (ob_repository_id b)), (''repository'', ob_repository b),
      (''environment'', ob_environment b), (''ref'', ob_intent_ref b), (''sha'', ob_head_sha b),
      (''event_name'', ''workflow_dispatch''), (''runner_environment'', ''self-hosted''),
      (''workflow_ref'', ob_repository b @ ''/'' @ ob_workflow_path b @ ''@'' @ ob_intent_ref b),
      (''sub'', ''repo:'' @ ob_repository b @ '':environment:'' @ ob_environment b)]"

definition oidc_claims_ok :: "oidc_binding \<Rightarrow> (string \<times> json) list \<Rightarrow> unit result" where
  "oidc_claims_ok b claims =
     bindE (reject_if [(list_ex (\<lambda>(name, v). \<not> eq_str (jget claims name) v) (exact_claims b), ''BOOTSTRAP_OIDC_CLAIM_MISMATCH'')]) (\<lambda>_.
     bindE (claim_is claims ''run_id'' (ob_run_id b)) (\<lambda>_.
     bindE (claim_is claims ''run_attempt'' (ob_run_attempt b)) (\<lambda>_.
     bindE (claim_is claims ''actor_id'' (ob_actor_id b)) (\<lambda>_.
     reject_if [((case jget claims ''jti'' of JStr jti \<Rightarrow> \<not> (16 \<le> py_len jti \<and> py_len jti \<le> 200) | _ \<Rightarrow> True),
       ''BOOTSTRAP_OIDC_CLAIM_MISMATCH'')]))))"

text \<open>
  The surroundings of a verification: wall clock, monotonic clock and download of the two calls of the
  loader, and the RSA check of exponent, modulus, signature and message.
\<close>

record oidc_env =
  oi_now :: datetime
  oi_monotonic :: "bool \<Rightarrow> int"
  oi_reply :: "bool \<Rightarrow> jwks_reply"
  oi_rsa :: "int \<Rightarrow> int \<Rightarrow> string \<Rightarrow> string \<Rightarrow> bool"

definition signing_key :: "host \<Rightarrow> web_host \<Rightarrow> oidc_env \<Rightarrow> string \<Rightarrow> jwks_loader \<Rightarrow> (string \<times> json) list result \<times> jwks_loader" where
  "signing_key H W E kid l =
     bindS (load_jwks H W (oi_monotonic E False) (oi_reply E False) False l) (\<lambda>jwks l.
     bindS (jwks_matches kid jwks, l) (\<lambda>found l.
     bindS (if found \<noteq> [] then (Inr found, l)
            else bindS (load_jwks H W (oi_monotonic E True) (oi_reply E True) True l) (\<lambda>jwks l. (jwks_matches kid jwks, l))) (\<lambda>found l.
     (case found of [jwk] \<Rightarrow> Inr jwk | _ \<Rightarrow> reject ''BOOTSTRAP_OIDC_JWKS_INVALID'', l))))"

definition verify_oidc :: "host \<Rightarrow> web_host \<Rightarrow> oidc_env \<Rightarrow> oidc_binding \<Rightarrow> string \<Rightarrow> jwks_loader
    \<Rightarrow> (string \<times> json) list result \<times> jwks_loader" where
  "verify_oidc H W E b token l =
     (if \<not> (100 \<le> py_len token \<and> py_len token \<le> MAX_JWT_BYTES) then (reject ''BOOTSTRAP_OIDC_INVALID'', l)
      else case split_on (CHR ''.'') token of
        [p0, p1, p2] \<Rightarrow>
          bindS (jwt_json H W p0, l) (\<lambda>header l.
          bindS (jwt_json H W p1, l) (\<lambda>claims l.
          bindS (b64url p2, l) (\<lambda>signature l.
          bindS (reject_if [(\<not> oidc_header_ok header, ''BOOTSTRAP_OIDC_INVALID'')], l) (\<lambda>_ l.
          bindS (key_id_of header, l) (\<lambda>kid l.
          bindS (signing_key H W E kid l) (\<lambda>jwk l.
          bindS (rsa_key jwk, l) (\<lambda>(exponent, modulus) l.
          bindS (reject_if [(\<not> oi_rsa E exponent modulus signature (p0 @ ''.'' @ p1), ''BOOTSTRAP_OIDC_SIGNATURE_INVALID''),
            (\<not> oidc_times_ok (int_timestamp (oi_now E)) claims, ''BOOTSTRAP_OIDC_TIME_INVALID'')], l) (\<lambda>_ l.
          bindS (oidc_claims_ok b claims, l) (\<lambda>_ l.
          (Inr claims, l))))))))))
      | _ \<Rightarrow> (reject ''BOOTSTRAP_OIDC_INVALID'', l))"

end
