(* ===== verification/OidcProps.thy ===== *)
theory OidcProps
  imports Oidc IntakeProps EvidenceScenario
begin

text \<open>
  The properties of the workload identity check: Base64url texts are canonical, an accepted token
  is signed by the key it names and is bound to one run, and refreshes of the key set are rare.
\<close>

section \<open>Base64url\<close>

lemma b64_value_char: "n < 64 \<Longrightarrow> b64_value (b64_char n) = Some n"
proof -
  have "\<forall>n \<in> set [0..<64]. b64_value (b64_char n) = Some n" by code_simp
  then show "n < 64 \<Longrightarrow> b64_value (b64_char n) = Some n" by simp
qed

lemma b64_char_plain: "n < 64 \<Longrightarrow> b64_char n \<noteq> CHR ''=''"
proof -
  have "\<forall>n \<in> set [0..<64]. b64_char n \<noteq> CHR ''=''" by code_simp
  then show "n < 64 \<Longrightarrow> b64_char n \<noteq> CHR ''=''" by simp
qed

lemma sextets_small: "list_all (\<lambda>x. x < 256) bs \<Longrightarrow> list_all (\<lambda>n. n < 64) (sextets bs)"
proof (induction bs rule: sextets.induct)
  case (3 x y)
  then have "x div 4 < 64" "x mod 4 < 4" "y div 16 < 16" "y mod 16 < 16" by auto
  then show ?case by simp
next
  case (4 x y z bs)
  then have d: "x div 4 < 64" "y div 16 < 16" "z div 64 < 4" by auto
  have "x mod 4 < 4" "y mod 16 < 16" by auto
  with d have "x mod 4 * 16 + y div 16 < 64" "y mod 16 * 4 + z div 64 < 64" by linarith+
  with 4 d show ?case by simp
qed auto

lemma octets_sextets: "list_all (\<lambda>x. x < 256) bs \<Longrightarrow> octets (sextets bs) = Some bs"
proof (induction bs rule: sextets.induct)
  case (3 x y)
  then have "x mod 4 < 4" "y div 16 < 16" by auto
  then show ?case by simp
next
  case (4 x y z bs)
  then have "x mod 4 < 4" "y div 16 < 16" "z div 64 < 4" by auto
  with 4 show ?case by simp
qed simp_all

lemma sextets_Nil [simp]: "sextets bs = [] \<longleftrightarrow> bs = []"
  by (cases bs rule: sextets.cases) simp_all

lemma those_values: "list_all (\<lambda>n. n < 64) ns \<Longrightarrow> those (map b64_value (map b64_char ns)) = Some ns"
  by (induction ns) (simp_all add: b64_value_char)

lemma bytes_small: "list_all (\<lambda>x. x < 256) (map byte bs)"
  by (induction bs) simp_all

lemma b64url_decode_encode: "b64url_decode (b64url_encode bs) = Some bs"
  unfolding b64url_decode_def b64url_encode_def
  by (simp only: those_values [OF sextets_small [OF bytes_small]] bind.bind_lunit octets_sextets [OF bytes_small])
    (simp add: comp_def)

lemma b64url_encode_plain: "CHR ''='' \<notin> set (b64url_encode bs)"
  using sextets_small [OF bytes_small [of bs]] b64_char_plain by (fastforce simp: b64url_encode_def list_all_iff)

lemma b64url_encoded: "bs \<noteq> [] \<Longrightarrow> b64url (b64url_encode bs) = Inr bs"
  using b64url_encode_plain [of bs] b64url_decode_encode [of bs] by (simp add: b64url_def) (simp add: b64url_encode_def)

text \<open>
  Base64url texts of a token are canonical. A text is accepted exactly when it is the unpadded
  encoding of the bytes it decodes to, and these are not empty: encoding and decoding are inverse,
  and no two texts, a token's parts or the numbers of a key, stand for the same bytes.
\<close>

theorem b64url_canonical: "b64url t = Inr bs \<longleftrightarrow> bs \<noteq> [] \<and> t = b64url_encode bs"
proof
  assume "b64url t = Inr bs"
  then have "t \<noteq> []" "b64url_encode bs = t" by (auto simp: b64url_def reject_def split: if_splits option.splits)
  then show "bs \<noteq> [] \<and> t = b64url_encode bs" by (auto simp: b64url_encode_def)
next
  assume "bs \<noteq> [] \<and> t = b64url_encode bs"
  then show "b64url t = Inr bs" by (simp add: b64url_encoded)
qed

section \<open>The key set\<close>

lemma load_jwks_cached: "load_jwks H W now reply force_refresh l = (Inr v, l') \<Longrightarrow> jl_cached l' = Some v"
  by (auto simp: load_jwks_def cache_hit_def Let_def split: option.splits sum.splits if_splits)

text \<open>Calls of the loader, one after the other.\<close>

definition call_jwks :: "host \<Rightarrow> web_host \<Rightarrow> int \<times> jwks_reply \<times> bool \<Rightarrow> jwks_loader \<Rightarrow> jwks_loader" where
  "call_jwks H W = (\<lambda>(now, reply, force_refresh) l. snd (load_jwks H W now reply force_refresh l))"

lemma call_jwks_forced:
  assumes "jl_last_forced_at l = t" "jl_cached l \<noteq> None" "now < t + seconds 30"
  shows "jl_last_forced_at (call_jwks H W (now, reply, force_refresh) l) = t"
    and "jl_cached (call_jwks H W (now, reply, force_refresh) l) \<noteq> None"
  using assms by (auto simp: call_jwks_def load_jwks_def cache_hit_def Let_def split: option.splits sum.splits)

lemma calls_jwks_forced:
  assumes "jl_last_forced_at l = t" "jl_cached l \<noteq> None" "list_all (\<lambda>c. fst c < t + seconds 30) calls"
  shows "jl_last_forced_at (fold (call_jwks H W) calls l) = t \<and> jl_cached (fold (call_jwks H W) calls l) \<noteq> None"
  using assms
proof (induction calls arbitrary: l)
  case (Cons c calls)
  then show ?case using call_jwks_forced [of l t "fst c" H W "fst (snd c)" "snd (snd c)"] by simp
qed simp

text \<open>
  Refreshes of the key set are rare. After a forced refresh that leaves a key set in the cache,
  whatever calls of the loader follow within thirty seconds, another forced refresh in that time
  downloads nothing: it returns the cached set and changes nothing, so that tokens with unknown
  key ids cannot make the service flood the issuer. A call that is not forced returns a set that is
  at most \<open>cache_seconds\<close> old.
\<close>

theorem jwks_refresh_limited:
  assumes "cache_hit now True l = None" "load_jwks H W now reply True l = (r, l1)" "jl_cached l1 \<noteq> None"
    and "list_all (\<lambda>c. fst c < now + seconds 30) calls" "later < now + seconds 30"
  shows "(\<exists>v. load_jwks H W later reply' True (fold (call_jwks H W) calls l1) = (Inr v, fold (call_jwks H W) calls l1)
      \<and> jl_cached (fold (call_jwks H W) calls l1) = Some v)
    \<and> (\<forall>t reply2 l2 v l3. load_jwks H W t reply2 False l2 = (Inr v, l3) \<longrightarrow> 0 \<le> jl_cache_seconds l2 \<longrightarrow>
         jl_cached l3 = Some v \<and> t - jl_cached_at l3 \<le> seconds (jl_cache_seconds l2))"
proof -
  have "jl_last_forced_at l1 = now" using assms(1,2) by (auto simp: load_jwks_def Let_def split: sum.splits)
  from calls_jwks_forced [OF this assms(3,4), of H W] assms(5)
  have "\<exists>v. load_jwks H W later reply' True (fold (call_jwks H W) calls l1) = (Inr v, fold (call_jwks H W) calls l1)
    \<and> jl_cached (fold (call_jwks H W) calls l1) = Some v"
    by (auto simp: load_jwks_def cache_hit_def)
  moreover have "jl_cached l3 = Some v \<and> t - jl_cached_at l3 \<le> seconds (jl_cache_seconds l2)"
    if "load_jwks H W t reply2 False l2 = (Inr v, l3)" "0 \<le> jl_cache_seconds l2" for t reply2 l2 v l3
    using that by (auto simp: load_jwks_def cache_hit_def Let_def seconds_def split: option.splits sum.splits if_splits)
  ultimately show ?thesis by blast
qed

section \<open>The token\<close>

lemma claim_is_Inr:
  "claim_is claims name n = Inr u \<Longrightarrow> \<exists>digits. jget claims name = JStr digits \<and> int (dec_val digits) = n"
  by (auto simp: claim_is_def positive_claim_def bindE_Inr_iff reject_if_Inr reject_def split: json.splits if_splits)

lemma oidc_claims_ok_Inr:
  assumes "oidc_claims_ok b claims = Inr u"
  shows "\<forall>(name, v) \<in> set (exact_claims b). jget claims name = JStr v"
    and "\<exists>digits. jget claims ''run_id'' = JStr digits \<and> int (dec_val digits) = ob_run_id b"
    and "\<exists>digits. jget claims ''run_attempt'' = JStr digits \<and> int (dec_val digits) = ob_run_attempt b"
    and "\<exists>digits. jget claims ''actor_id'' = JStr digits \<and> int (dec_val digits) = ob_actor_id b"
  using assms unfolding oidc_claims_ok_def
  by (auto simp: bindE_Inr_iff reject_if_Inr list_ex_iff eq_str_def dest!: claim_is_Inr)

lemma only_one: "(case xs of [x] \<Rightarrow> f x | _ \<Rightarrow> reject code) = Inr y \<longleftrightarrow> (\<exists>x. xs = [x] \<and> f x = Inr y)"
  by (auto simp: reject_def split: list.splits)

lemma signing_key_Inr:
  assumes "signing_key H W E kid l = (Inr jwk, l')"
  shows "\<exists>jwks. jl_cached l' = Some jwks \<and> jwks_matches kid jwks = Inr [jwk]"
  using assms unfolding signing_key_def
  by (auto simp: bindS_Inr_iff only_one split: if_splits dest!: load_jwks_cached)

lemma rsa_key_strong: "rsa_key jwk = Inr (e, n) \<Longrightarrow> e = 65537 \<and> 2 ^ 2047 \<le> n"
  by (auto simp: rsa_key_def bindE_Inr_iff reject_if_Inr reject_def simp del: power_numeral numeral_pow split: json.splits)

text \<open>
  C29: an accepted token is signed for exactly one run. Its header and claims are the canonical
  encodings in the token; the cached key set of the issuer has exactly one key of the named id,
  an RSA key with exponent 65537 and at least 2048 bits, and that key signed header and claims; the
  lifetime is at most ten minutes and not over; issuer, audience, repository, environment,
  commit, workflow and subject are the expected ones, and the run, its attempt and the actor are
  those of the reservation.
\<close>

theorem verified_token_bound:
  assumes "verify_oidc H W E b token l = (Inr claims, l')"
  shows "\<exists>p0 p1 p2 header signature kid jwks jwk e n iat nbf expiry.
    split_on (CHR ''.'') token = [p0, p1, p2] \<and> jwt_json H W p0 = Inr header \<and> jwt_json H W p1 = Inr claims
    \<and> p2 = b64url_encode signature \<and> jget header ''alg'' = JStr ''RS256'' \<and> jget header ''kid'' = JStr kid
    \<and> jl_cached l' = Some jwks \<and> jwks_matches kid jwks = Inr [jwk]
    \<and> rsa_key jwk = Inr (e, n) \<and> e = 65537 \<and> 2 ^ 2047 \<le> n \<and> oi_rsa E e n signature (p0 @ ''.'' @ p1)
    \<and> jget claims ''iat'' = JInt iat \<and> jget claims ''nbf'' = JInt nbf \<and> jget claims ''exp'' = JInt expiry
    \<and> expiry - iat \<le> 600 \<and> int_timestamp (oi_now E) \<le> expiry + 30 \<and> nbf \<le> int_timestamp (oi_now E) + 60
    \<and> (\<forall>(name, v) \<in> set (exact_claims b). jget claims name = JStr v)
    \<and> (\<exists>digits. jget claims ''run_id'' = JStr digits \<and> int (dec_val digits) = ob_run_id b)
    \<and> (\<exists>digits. jget claims ''run_attempt'' = JStr digits \<and> int (dec_val digits) = ob_run_attempt b)
    \<and> (\<exists>digits. jget claims ''actor_id'' = JStr digits \<and> int (dec_val digits) = ob_actor_id b)"
proof -
  from assms obtain p0 p1 p2 where p: "split_on (CHR ''.'') token = [p0, p1, p2]"
    by (auto simp: verify_oidc_def reject_def split: list.splits if_splits)
  with assms obtain header signature kid jwk e n where
    v: "jwt_json H W p0 = Inr header" "jwt_json H W p1 = Inr claims" "b64url p2 = Inr signature" "oidc_header_ok header"
      "key_id_of header = Inr kid" "signing_key H W E kid l = (Inr jwk, l')" "rsa_key jwk = Inr (e, n)"
      "oi_rsa E e n signature (p0 @ ''.'' @ p1)" "oidc_times_ok (int_timestamp (oi_now E)) claims" "oidc_claims_ok b claims = Inr ()"
    unfolding verify_oidc_def by (auto simp: bindS_Inr_iff reject_if_Inr reject_def split: if_splits)
  from v(9) obtain iat nbf expiry where t: "jget claims ''iat'' = JInt iat" "jget claims ''nbf'' = JInt nbf"
      "jget claims ''exp'' = JInt expiry" "expiry - iat \<le> 600" "int_timestamp (oi_now E) \<le> expiry + 30"
      "nbf \<le> int_timestamp (oi_now E) + 60"
    by (auto simp: oidc_times_ok_def split: json.splits)
  have h: "jget header ''alg'' = JStr ''RS256''" "jget header ''kid'' = JStr kid"
    using v(4,5) by (auto simp: oidc_header_ok_def eq_str_def key_id_of_def reject_def split: json.splits if_splits)
  from v(3) have "p2 = b64url_encode signature" by (auto simp: b64url_def reject_def split: if_splits option.splits)
  with p v(1,2,7,8) t h signing_key_Inr [OF v(6)] rsa_key_strong [OF v(7)] oidc_claims_ok_Inr [OF v(10)] show ?thesis by blast
qed

section \<open>A concrete token\<close>

text \<open>A token of run 11 of the evaluation scenario, with its key set downloaded once.\<close>

definition oidc_token :: string where
  "oidc_token = b64url_encode ''H'' @ ''.'' @ b64url_encode ''CC'' @ ''.'' @ b64url_encode (replicate 100 (CHR ''s''))"

definition oidc_reply :: jwks_reply where
  "oidc_reply = Replied 200 ''application/json'' ''KKK''"

definition oidc_run :: oidc_env where
  "oidc_run = \<lparr>oi_now = minutes 10, oi_monotonic = (\<lambda>_. seconds 100), oi_reply = (\<lambda>_. oidc_reply), oi_rsa = (\<lambda>_ _ _ _. True)\<rparr>"

definition oidc_target :: oidc_binding where
  "oidc_target = \<lparr>ob_repository_id = 7, ob_repository = ''o/r'', ob_environment = ''prod'', ob_intent_ref = ''refs/tags/cross-ai-intent/q'',
     ob_head_sha = ''h'', ob_workflow_path = ''w.yml'', ob_run_id = 11, ob_run_attempt = 1, ob_actor_id = 5\<rparr>"

definition oidc_loader :: jwks_loader where
  "oidc_loader = \<lparr>jl_cache_seconds = 300, jl_cached = None, jl_cached_at = 0, jl_last_forced_at = 0\<rparr>"

definition oidc_loaded :: jwks_loader where
  "oidc_loaded = \<lparr>jl_cache_seconds = 300, jl_cached = Some [(''keys'', JArr [JObj ev_jwk])], jl_cached_at = seconds 100, jl_last_forced_at = 0\<rparr>"

lemma from_bytes_ff: "from_bytes (replicate k (CHR 0xFF)) = 256 ^ k - 1"
proof (induction k)
  case (Suc k)
  have "replicate (Suc k) (CHR 0xFF) = replicate k (CHR 0xFF) @ [CHR 0xFF]" by (simp add: replicate_append_same)
  with Suc show ?case by (simp only: from_bytes_def foldl_append) simp
qed (simp add: from_bytes_def)

lemma oidc_rsa_key: "rsa_key ev_jwk = Inr (65537, 256 ^ 256 - 1)"
proof -
  have n: "replicate 341 (CHR ''_'') @ ''w'' = b64url_encode (replicate 256 (CHR 0xFF))" by code_simp
  have "b64url (replicate 341 (CHR ''_'') @ ''w'') = Inr (replicate 256 (CHR 0xFF))"
    unfolding n by (rule b64url_encoded) simp
  moreover have "b64url ''AQAB'' = Inr [CHR 0x01, CHR 0x00, CHR 0x01]" by code_simp
  moreover have "from_bytes [CHR 0x01, CHR 0x00, CHR 0x01] = 65537" by code_simp
  moreover have "(2 :: int) ^ 2047 \<le> 256 ^ 256 - 1" by simp
  ultimately show ?thesis
    by (simp add: rsa_key_def ev_jwk_def jget_def eq_str_def from_bytes_ff reject_if.simps del: replicate.simps power_numeral numeral_pow)
qed

lemma oidc_verified: "verify_oidc ev_host in_web oidc_run oidc_target oidc_token oidc_loader = (Inr ev_jwt_claims, oidc_loaded)"
proof -
  have t: "100 \<le> py_len oidc_token \<and> py_len oidc_token \<le> MAX_JWT_BYTES" by code_simp
  have p: "split_on (CHR ''.'') oidc_token
      = [b64url_encode ''H'', b64url_encode ''CC'', b64url_encode (replicate 100 (CHR ''s''))]" by code_simp
  have j: "jwt_json ev_host in_web (b64url_encode ''H'') = Inr ev_jwt_header" "jwt_json ev_host in_web (b64url_encode ''CC'') = Inr ev_jwt_claims"
    by code_simp+
  have g: "b64url (b64url_encode (replicate 100 (CHR ''s''))) = Inr (replicate 100 (CHR ''s''))" by (rule b64url_encoded) simp
  have h: "reject_if [(\<not> oidc_header_ok ev_jwt_header, ''BOOTSTRAP_OIDC_INVALID'')] = Inr ()" "key_id_of ev_jwt_header = Inr ''k''"
    by code_simp+
  have k: "signing_key ev_host in_web oidc_run ''k'' oidc_loader = (Inr ev_jwk, oidc_loaded)" by code_simp
  have c: "oidc_claims_ok oidc_target ev_jwt_claims = Inr ()" by code_simp
  have r: "oi_rsa oidc_run = (\<lambda>_ _ _ _. True)" by (simp add: oidc_run_def)
  have "oidc_times_ok (int_timestamp (oi_now oidc_run)) ev_jwt_claims" by code_simp
  then have e: "reject_if [(False, ''BOOTSTRAP_OIDC_SIGNATURE_INVALID''),
      (\<not> oidc_times_ok (int_timestamp (oi_now oidc_run)) ev_jwt_claims, ''BOOTSTRAP_OIDC_TIME_INVALID'')] = Inr ()" by simp
  show ?thesis
    unfolding verify_oidc_def eqTrueI [OF t] not_True_eq_False if_False p list.case j bindS_Inr g h k oidc_rsa_key prod.case r e c ..
qed

theorem verified_token_bound_witness:
  "\<exists>p0 p1 p2. split_on (CHR ''.'') oidc_token = [p0, p1, p2] \<and> jwt_json ev_host in_web p1 = Inr ev_jwt_claims
     \<and> jl_cached oidc_loaded = Some [(''keys'', JArr [JObj ev_jwk])] \<and> jget ev_jwt_claims ''run_id'' = JStr ''11''"
proof -
  have "jget ev_jwt_claims ''run_id'' = JStr ''11''" by (simp add: ev_jwt_claims_def jget_def)
  with verified_token_bound [OF oidc_verified] show ?thesis by (fastforce simp: oidc_loaded_def)
qed

theorem jwks_refresh_limited_witness:
  "load_jwks ev_host in_web (seconds 129) Unreachable True (oidc_loaded\<lparr>jl_last_forced_at := seconds 100\<rparr>)
    = (Inr [(''keys'', JArr [JObj ev_jwk])], oidc_loaded\<lparr>jl_last_forced_at := seconds 100\<rparr>)"
proof -
  have h: "cache_hit (seconds 100) True oidc_loader = None" by (simp add: cache_hit_def oidc_loader_def)
  have l: "load_jwks ev_host in_web (seconds 100) oidc_reply True oidc_loader
      = (Inr [(''keys'', JArr [JObj ev_jwk])], oidc_loaded\<lparr>jl_last_forced_at := seconds 100\<rparr>)" by code_simp
  have "jl_cached (oidc_loaded\<lparr>jl_last_forced_at := seconds 100\<rparr>) \<noteq> None" by (simp add: oidc_loaded_def)
  from jwks_refresh_limited [OF h l this, of "[]" "seconds 129" Unreachable] show ?thesis
    by (auto simp: seconds_def oidc_loaded_def)
qed

end
