(* ===== verification/Bootstrap.thy ===== *)
theory Bootstrap
  imports Oidc Outcome Evaluator
begin

text \<open>
  The runner bootstrap of \<^verbatim>\<open>bootstrap.py\<close>: a runner that holds the signed credential and the token of the
  approved run receives the evidence, once per stage. What GitHub answers and what others do to
  the registry between two accesses are arguments.
\<close>

section \<open>The request\<close>

definition REQUEST_ID :: "string \<Rightarrow> bool" where
  "REQUEST_ID s = list_all2 (\<lambda>c cls. c \<in> set cls) s uuid_classes"

definition FULL_SHA :: "string \<Rightarrow> bool" where
  "FULL_SHA s = (length s = 40 \<and> all_lower_hex s)"

definition STAGES :: "string list" where
  "STAGES = [''apply'', ''browser-evidence'', ''compensating-rollback'']"

definition MAX_BOOTSTRAP_DELAY :: int where
  "MAX_BOOTSTRAP_DELAY = minutes 2"

record runner_bootstrap_request =
  rb_request_id :: string
  rb_stage :: string
  rb_run_id :: int
  rb_run_attempt :: int
  rb_intent_ref :: string
  rb_head_sha :: string
  rb_workflow_path :: string
  rb_runner_name :: string

definition BOOTSTRAP_FIELDS :: "string list" where
  "BOOTSTRAP_FIELDS = [''requestId'', ''stage'', ''runId'', ''runAttempt'', ''intentRef'', ''headSha'', ''workflowPath'', ''runnerName'']"

definition invalid_request :: "'a result" where
  "invalid_request = reject ''BOOTSTRAP_REQUEST_INVALID''"

definition text_where :: "(string \<Rightarrow> bool) \<Rightarrow> json \<Rightarrow> string result" where
  "text_where ok v = (case v of JStr s \<Rightarrow> if ok s then Inr s else invalid_request | _ \<Rightarrow> invalid_request)"

definition positive_number :: "json \<Rightarrow> int result" where
  "positive_number v = (case v of JInt n \<Rightarrow> if n < 1 then invalid_request else Inr n | _ \<Rightarrow> invalid_request)"

definition workflow_path_ok :: "string \<Rightarrow> bool" where
  "workflow_path_ok p = (startswith p ''.github/workflows/'' \<and> (endswith p ''.yml'' \<or> endswith p ''.yaml''))"

definition runner_name_ok :: "string \<Rightarrow> bool" where
  "runner_name_ok n = (1 \<le> py_len n \<and> py_len n \<le> 200 \<and> list_all (\<lambda>c. c \<notin> {CHR 0x0D, CHR 0x0A, CHR 0x00}) n)"

definition parse_bootstrap_request :: "json \<Rightarrow> runner_bootstrap_request result" where
  "parse_bootstrap_request v = (case v of
     JObj o1 \<Rightarrow>
       if fst ` set o1 \<noteq> set BOOTSTRAP_FIELDS then invalid_request
       else bindE (text_where REQUEST_ID (jget o1 ''requestId'')) (\<lambda>request_id.
         bindE (reject_unless_member (jget o1 ''stage'') STAGES ''BOOTSTRAP_REQUEST_INVALID'') (\<lambda>_.
         bindE (text_where (\<lambda>_. True) (jget o1 ''stage'')) (\<lambda>stg.
         bindE (positive_number (jget o1 ''runId'')) (\<lambda>run_id.
         bindE (positive_number (jget o1 ''runAttempt'')) (\<lambda>run_attempt.
         bindE (text_where (\<lambda>r. r = ''refs/tags/cross-ai-intent/'' @ request_id) (jget o1 ''intentRef'')) (\<lambda>intent_ref.
         bindE (text_where FULL_SHA (jget o1 ''headSha'')) (\<lambda>head_sha.
         bindE (text_where workflow_path_ok (jget o1 ''workflowPath'')) (\<lambda>workflow_path.
         bindE (text_where runner_name_ok (jget o1 ''runnerName'')) (\<lambda>runner_name.
         Inr \<lparr>rb_request_id = request_id, rb_stage = stg, rb_run_id = run_id, rb_run_attempt = run_attempt,
           rb_intent_ref = intent_ref, rb_head_sha = head_sha, rb_workflow_path = workflow_path,
           rb_runner_name = runner_name\<rparr>)))))))))
   | _ \<Rightarrow> invalid_request)"

section \<open>The authorizer\<close>

record bootstrap_authorizer =
  ba_evaluator :: evaluator
  ba_installation_id :: int

definition new_bootstrap_authorizer :: "evaluator \<Rightarrow> int \<Rightarrow> bootstrap_authorizer result" where
  "new_bootstrap_authorizer ev installation_id =
     bindE (reject_if [(installation_id \<notin> set (dp_allowed_installation_ids (eva_policy ev)), ''BOOTSTRAP_INSTALLATION_INVALID'')]) (\<lambda>_.
     Inr \<lparr>ba_evaluator = ev, ba_installation_id = installation_id\<rparr>)"

definition credential_digest :: "host \<Rightarrow> string \<Rightarrow> string result" where
  "credential_digest H credential =
     (if \<not> (64 \<le> length credential \<and> length credential \<le> 512) \<or> CHR 0x00 \<in> set credential
      then reject ''BOOTSTRAP_CREDENTIAL_INVALID'' else Inr (''sha256:'' @ h_sha H credential))"

text \<open>\<^verbatim>\<open>hmac.compare_digest\<close> on texts raises when one is not ASCII.\<close>

definition compare_digest :: "string \<Rightarrow> string \<Rightarrow> bool result" where
  "compare_digest a b = (if list_all (\<lambda>c. byte c < 128) (a @ b) then Inr (a = b) else Inl TypeError)"

record bootstrap_env =
  be_now :: datetime
  be_uid :: "nat \<Rightarrow> string"
  be_registry :: "nat \<Rightarrow> registry \<Rightarrow> registry"
  be_truth :: truth
  be_run_attempt :: "int \<Rightarrow> string \<Rightarrow> int \<Rightarrow> int \<Rightarrow> (string \<times> json) list result"
  be_jobs :: "int \<Rightarrow> string \<Rightarrow> int \<Rightarrow> int \<Rightarrow> (string \<times> json) list list result"
  be_oidc :: oidc_env

text \<open>The state that an authorization changes: the registry and the cached key set.\<close>

record bootstrap_state =
  bs_registry :: registry
  bs_jwks :: jwks_loader

definition of_repository :: "int \<Rightarrow> string \<Rightarrow> json \<Rightarrow> bool" where
  "of_repository repository_id repository v = (case v of
     JObj o1 \<Rightarrow> eq_int (jget o1 ''id'') repository_id \<and> eq_str (jget o1 ''full_name'') repository | _ \<Rightarrow> False)"

definition bootstrap_run_ok :: "runner_bootstrap_request \<Rightarrow> int \<Rightarrow> string \<Rightarrow> (string \<times> json) list \<Rightarrow> unit result" where
  "bootstrap_run_ok q repository_id repository run =
     bindE (reject_if
       [(\<not> eq_int (jget run ''id'') (rb_run_id q) \<or> \<not> eq_int (jget run ''run_attempt'') (rb_run_attempt q)
         \<or> \<not> eq_str (jget run ''event'') ''workflow_dispatch'' \<or> \<not> eq_str (jget run ''head_sha'') (rb_head_sha q)
         \<or> \<not> eq_str (jget run ''head_branch'') (removeprefix (rb_intent_ref q) ''refs/tags/'')
         \<or> \<not> eq_str (jget run ''path'') (rb_workflow_path q), ''BOOTSTRAP_RUN_MISMATCH'')]) (\<lambda>_.
     bindE (reject_unless_member (jget run ''status'') [''queued'', ''pending'', ''in_progress''] ''BOOTSTRAP_RUN_MISMATCH'') (\<lambda>_.
     reject_if [(\<not> of_repository repository_id repository (jget run ''repository'')
       \<or> \<not> of_repository repository_id repository (jget run ''head_repository''), ''BOOTSTRAP_RUN_MISMATCH'')]))"

text \<open>The runner of a job in progress under the given name.\<close>

definition assigned_runner :: "string \<Rightarrow> (string \<times> json) list \<Rightarrow> int option" where
  "assigned_runner runner_name job =
     (if eq_str (jget job ''runner_name'') runner_name \<and> eq_str (jget job ''status'') ''in_progress''
      then (case jget job ''runner_id'' of JInt n \<Rightarrow> if n > 0 then Some n else None | _ \<Rightarrow> None) else None)"

definition verify_live_run_and_runner :: "host \<Rightarrow> bootstrap_env \<Rightarrow> bootstrap_authorizer \<Rightarrow> runner_bootstrap_request \<Rightarrow> int \<Rightarrow> string
    \<Rightarrow> eligible_runner list \<Rightarrow> int result" where
  "verify_live_run_and_runner H E A q repository_id repository eligible =
     bindE (be_run_attempt E (ba_installation_id A) repository (rb_run_id q) (rb_run_attempt q)) (\<lambda>run.
     bindE (bootstrap_run_ok q repository_id repository run) (\<lambda>_.
     bindE (be_jobs E (ba_installation_id A) repository (rb_run_id q) (rb_run_attempt q)) (\<lambda>jobs.
     case List.map_filter (assigned_runner (rb_runner_name q)) jobs of
       [runner_id] \<Rightarrow>
         bindE (reject_if [(length (filter (\<lambda>e. er_runnerId e = runner_id
              \<and> er_runnerNameSha256 e = runner_name_digest H (rb_runner_name q)) eligible) \<noteq> 1,
            ''BOOTSTRAP_RUNNER_NOT_ADMITTED'')]) (\<lambda>_. Inr runner_id)
     | _ \<Rightarrow> reject ''BOOTSTRAP_RUNNER_ASSIGNMENT_INVALID'')))"

section \<open>Authorization\<close>

definition bootstrap_intent_ok :: "deployment_policy \<Rightarrow> runner_bootstrap_request \<Rightarrow> intent_row \<Rightarrow> verified_bundle \<Rightarrow> bool" where
  "bootstrap_intent_ok p q row v = (let sj = bd_subject (vb_payload v) in
     vb_bundle_digest v = in_bundle_digest row \<and> vb_subject_digest v = in_subject_digest row
     \<and> in_repository_id row = sj_repositoryId sj \<and> in_repository row = sj_repository sj \<and> in_environment row = sj_environment sj
     \<and> in_head_sha row = rb_head_sha q \<and> in_intent_ref row = rb_intent_ref q
     \<and> sj_headSha sj = rb_head_sha q \<and> sj_intentRef sj = rb_intent_ref q
     \<and> sj_repositoryId sj = dp_repository_id p \<and> sj_repository sj = dp_repository p \<and> sj_environment sj = dp_environment p)"

definition bootstrap_evidence :: "host \<Rightarrow> bootstrap_env \<Rightarrow> bootstrap_authorizer \<Rightarrow> runner_bootstrap_request \<Rightarrow> intent_row \<Rightarrow> json
    \<Rightarrow> verified_bundle result" where
  "bootstrap_evidence H E A q row envelope =
     (let ev = ba_evaluator A in
      bindE (tq_revocations (be_truth E)) (\<lambda>revocations.
      bindE (new_verifier H (eva_trust_root ev) revocations (be_now E) (Some (dp_digest (eva_policy ev)))
               (Some (eva_expected_trust_root ev)) Active None) (\<lambda>verifier1.
      bindE (verify_bundle H verifier1 envelope) (\<lambda>v.
      bindE (reject_if [(\<not> bootstrap_intent_ok (eva_policy ev) q row v, ''BOOTSTRAP_INTENT_MISMATCH'')]) (\<lambda>_.
      Inr v)))))"

definition bootstrap_binding :: "runner_bootstrap_request \<Rightarrow> intent_row \<Rightarrow> verified_bundle \<Rightarrow> oidc_binding" where
  "bootstrap_binding q row v =
     \<lparr>ob_repository_id = in_repository_id row, ob_repository = in_repository row, ob_environment = in_environment row,
      ob_intent_ref = rb_intent_ref q, ob_head_sha = rb_head_sha q, ob_workflow_path = rb_workflow_path q,
      ob_run_id = rb_run_id q, ob_run_attempt = rb_run_attempt q, ob_actor_id = gr_triggeringActorId (bd_grant (vb_payload v))\<rparr>"

definition credential_ok :: "host \<Rightarrow> string \<Rightarrow> verified_bundle \<Rightarrow> unit result" where
  "credential_ok H credential v =
     bindE (credential_digest H credential) (\<lambda>actual.
     bindE (compare_digest actual (sj_bootstrapCredentialSha256 (bd_subject (vb_payload v)))) (\<lambda>same.
     reject_if [(\<not> same, ''BOOTSTRAP_CREDENTIAL_MISMATCH'')]))"

definition bootstrap_stage :: "deployment_policy \<Rightarrow> runner_bootstrap_request \<Rightarrow> verified_bundle \<Rightarrow> stage_policy result" where
  "bootstrap_stage p q v =
     bindE (signed_stage_of v (rb_stage q) ''BOOTSTRAP_STAGE_MISMATCH'') (\<lambda>ws.
     case lookup_by sp_stage (rb_stage q) (dp_stages p) of
       None \<Rightarrow> reject ''BOOTSTRAP_STAGE_MISMATCH''
     | Some sp \<Rightarrow> bindE (reject_if [(ws_workflowPath ws \<noteq> rb_workflow_path q \<or> sp_workflow_path sp \<noteq> rb_workflow_path q,
           ''BOOTSTRAP_STAGE_MISMATCH'')]) (\<lambda>_. Inr sp))"

definition bootstrap_window_ok :: "host \<Rightarrow> datetime \<Rightarrow> string \<Rightarrow> unit result" where
  "bootstrap_window_ok H current approved =
     bindE (parse_utc H (JStr approved)) (\<lambda>approved_at.
     reject_if [(current < approved_at \<or> current > approved_at + MAX_BOOTSTRAP_DELAY, ''BOOTSTRAP_WINDOW_EXPIRED'')])"

definition live_facts_ok :: "host \<Rightarrow> bootstrap_env \<Rightarrow> bootstrap_authorizer \<Rightarrow> runner_bootstrap_request \<Rightarrow> intent_row \<Rightarrow> verified_bundle
    \<Rightarrow> stage_policy \<Rightarrow> int result" where
  "live_facts_ok H E A q row v sp =
     (let lease = vl_payload (vb_runner_admission_lease v) in
      bindE (tq_intent_ref (be_truth E) (ba_installation_id A) (in_repository row) (rb_request_id q)) (\<lambda>live_ref.
      bindE (reject_if [(ir_head_sha live_ref \<noteq> rb_head_sha q \<or> Some (ir_ref_object_id live_ref) \<noteq> in_ref_object_id row,
               ''INTENT_REF_MOVED'')]) (\<lambda>_.
      bindE (verify_live_runner_inventory H (be_truth E) (ba_installation_id A) (in_repository row) (sp_required_runs_on_labels sp) lease) (\<lambda>_.
      verify_live_run_and_runner H E A q (in_repository_id row) (in_repository row) (ls_eligibleRunners lease)))))"

text \<open>
  What a dependent stage is told of the apply stage: its state and its outcome, or no outcome when the
  rollback follows an apply stage whose callback is unknown.
\<close>

record prior_stage =
  ps_state :: string
  ps_outcome :: "(string \<times> json) option"

definition prior_outcome :: "host \<Rightarrow> string \<Rightarrow> stage_state \<Rightarrow> string \<Rightarrow> registry \<Rightarrow> (string \<times> json) option result" where
  "prior_outcome H stg prior_state rid s =
     (case get_stage_outcome H rid ''apply'' s of
        Inr r \<Rightarrow> Inr (Some r)
      | Inl (PolicyError code) \<Rightarrow>
          if stg \<noteq> ''compensating-rollback'' \<or> prior_state \<noteq> CallbackUnknown \<or> code \<noteq> ''STAGE_OUTCOME_NOT_FOUND''
          then Inl (PolicyError code) else Inr None
      | Inl e \<Rightarrow> Inl e)"

definition on_bs :: "bootstrap_env \<Rightarrow> nat \<Rightarrow> (registry \<Rightarrow> 'a result \<times> registry) \<Rightarrow> bootstrap_state \<Rightarrow> 'a result \<times> bootstrap_state" where
  "on_bs E i f s = (case f (be_registry E i (bs_registry s)) of (r, t) \<Rightarrow> (r, s\<lparr>bs_registry := t\<rparr>))"

definition read_prior :: "host \<Rightarrow> bootstrap_env \<Rightarrow> runner_bootstrap_request \<Rightarrow> bootstrap_state
    \<Rightarrow> prior_stage option result \<times> bootstrap_state" where
  "read_prior H E q s =
     (if rb_stage q \<notin> {''browser-evidence'', ''compensating-rollback''} then (Inr None, s)
      else bindS (on_bs E 3 (\<lambda>t. (get_stage (rb_request_id q) ''apply'' t, t)) s) (\<lambda>prior s.
        bindS (on_bs E 4 (\<lambda>t. (prior_outcome H (rb_stage q) (sr_state prior) (rb_request_id q) t, t)) s) (\<lambda>outcome s.
        (Inr (Some \<lparr>ps_state = stage_name (sr_state prior), ps_outcome = outcome\<rparr>), s))))"

definition opt_json :: "('a \<Rightarrow> json) \<Rightarrow> 'a option \<Rightarrow> json" where
  "opt_json f v = (case v of None \<Rightarrow> JNull | Some x \<Rightarrow> f x)"

definition bootstrap_response :: "datetime \<Rightarrow> runner_bootstrap_request \<Rightarrow> json \<Rightarrow> verified_bundle \<Rightarrow> stage_reservation \<Rightarrow> int
    \<Rightarrow> prior_stage option \<Rightarrow> (string \<times> json) list" where
  "bootstrap_response current q envelope v res runner_id prior =
     [(''schemaVersion'', JStr ''acik.cross-ai-runner-bootstrap-response.v1''), (''requestId'', JStr (rb_request_id q)),
      (''stage'', JStr (rb_stage q)), (''runId'', JInt (rb_run_id q)), (''runAttempt'', JInt (rb_run_attempt q)),
      (''runnerId'', JInt runner_id), (''headSha'', JStr (rb_head_sha q)), (''intentRef'', JStr (rb_intent_ref q)),
      (''workflowPath'', JStr (rb_workflow_path q)), (''bundleSha256'', JStr (vb_bundle_digest v)), (''bundleEnvelope'', envelope),
      (''priorStage'', opt_json (\<lambda>_. JStr ''apply'') prior), (''priorStageState'', opt_json (JStr \<circ> ps_state) prior),
      (''priorStageOutcomeSha256'', opt_json (JStr \<circ> fst) (Option.bind prior ps_outcome)),
      (''priorStageOutcome'', opt_json snd (Option.bind prior ps_outcome)),
      (''issuedAt'', JStr (utc_text (utc_seconds current))),
      (''expiresAt'', opt_json (JStr \<circ> utc_text) (sr_reservation_expires_at res))]"

definition authorize :: "host \<Rightarrow> web_host \<Rightarrow> bootstrap_env \<Rightarrow> bootstrap_authorizer \<Rightarrow> runner_bootstrap_request \<Rightarrow> string \<Rightarrow> string
    \<Rightarrow> bootstrap_state \<Rightarrow> (string \<times> json) list result \<times> bootstrap_state" where
  "authorize H W E A q credential oidc_token s =
     (let p = eva_policy (ba_evaluator A) in
      bindS (on_bs E 0 (\<lambda>t. (get_finalized H (rb_request_id q) t, t)) s) (\<lambda>(row, envelope) s.
      bindS (bootstrap_evidence H E A q row envelope, s) (\<lambda>v s.
      bindS (case verify_oidc H W (be_oidc E) (bootstrap_binding q row v) oidc_token (bs_jwks s) of
               (r, l) \<Rightarrow> (r, s\<lparr>bs_jwks := l\<rparr>)) (\<lambda>_ s.
      bindS (credential_ok H credential v, s) (\<lambda>_ s.
      bindS (bootstrap_stage p q v, s) (\<lambda>sp s.
      bindS (on_bs E 1 (\<lambda>t. (get_stage (rb_request_id q) (rb_stage q) t, t)) s) (\<lambda>res s.
      bindS (reject_if [(sr_state res \<noteq> ApprovedPendingOutcome \<or> sr_run_id res \<noteq> rb_run_id q
               \<or> sr_run_attempt res \<noteq> rb_run_attempt q, ''BOOTSTRAP_STAGE_NOT_APPROVED'')], s) (\<lambda>_ s.
      bindS (on_bs E 2 (\<lambda>t. (stage_approved_at (rb_request_id q) (rb_stage q) t, t)) s) (\<lambda>approved s.
      bindS (bootstrap_window_ok H (be_now E) approved, s) (\<lambda>_ s.
      bindS (live_facts_ok H E A q row v sp, s) (\<lambda>runner_id s.
      bindS (read_prior H E q s) (\<lambda>prior s.
      let response = bootstrap_response (be_now E) q envelope v res runner_id prior in
      bindS (digest H (JObj response), s) (\<lambda>response_digest s.
      bindS (on_bs E 5 (consume_bootstrap H (be_uid E) (rb_request_id q) (rb_stage q) (rb_run_id q) (rb_run_attempt q)
               runner_id response_digest (be_now E)) s) (\<lambda>_ s.
      (Inr (response @ [(''responseSha256'', JStr response_digest)]), s)))))))))))))))"

end
