(* ===== verification/BootstrapProps.thy ===== *)
theory BootstrapProps
  imports Bootstrap OidcProps ReconcilerProps
begin

text \<open>
  The property of the runner bootstrap: an authorization rests on the signed evidence, credential, token
  and runner of the approved run, and is the only one of its stage.
\<close>

section \<open>The registry under an authorization\<close>

definition fair_bootstrap_env :: "host \<Rightarrow> bootstrap_env \<Rightarrow> bool" where
  "fair_bootstrap_env H E = (\<forall>i t. (reg_op H)\<^sup>*\<^sup>* t (be_registry E i t))"

definition bs_later :: "host \<Rightarrow> bootstrap_state \<Rightarrow> bootstrap_state \<Rightarrow> bool" where
  "bs_later H s t = (reg_op H)\<^sup>*\<^sup>* (bs_registry s) (bs_registry t)"

interpretation bl: kept_relation "bs_later H" for H
  by unfold_locales (auto simp: bs_later_def)

lemma on_bs_read:
  assumes "fair_bootstrap_env H E" "on_bs E i (\<lambda>t. (f t, t)) s = (r, s1)"
  shows "bs_later H s s1" "f (bs_registry s1) = r" "bs_jwks s1 = bs_jwks s"
  using assms by (auto simp: on_bs_def bs_later_def fair_bootstrap_env_def)

lemma read_prior_later:
  assumes "fair_bootstrap_env H E" "read_prior H E q s = (Inr prior, s1)"
  shows "bs_later H s s1" "bs_jwks s1 = bs_jwks s"
proof -
  consider "s1 = s" | s2 x y where "on_bs E 3 (\<lambda>t. (get_stage (rb_request_id q) ''apply'' t, t)) s = (Inr x, s2)"
      "on_bs E 4 (\<lambda>t. (prior_outcome H (rb_stage q) (sr_state x) (rb_request_id q) t, t)) s2 = (Inr y, s1)"
    using assms(2) unfolding read_prior_def by (auto simp: bindS_Inr_iff split: if_splits)
  then have "bs_later H s s1 \<and> bs_jwks s1 = bs_jwks s"
  proof cases
    case 1
    then show ?thesis by (simp add: bl.R_refl)
  next
    case 2
    from on_bs_read [OF assms(1) 2(1)] on_bs_read [OF assms(1) 2(2)] show ?thesis using bl.R_trans by metis
  qed
  then show "bs_later H s s1" "bs_jwks s1 = bs_jwks s" by simp_all
qed

lemma authorize_Inr:
  assumes "authorize H W E A q credential token s = (Inr response, s')" and fair: "fair_bootstrap_env H E"
  shows "\<exists>row envelope v claims sp res t2 approved runner_id prior dg u c.
    get_finalized H (rb_request_id q) (be_registry E 0 (bs_registry s)) = Inr (row, envelope)
    \<and> bootstrap_evidence H E A q row envelope = Inr v
    \<and> verify_oidc H W (be_oidc E) (bootstrap_binding q row v) token (bs_jwks s) = (Inr claims, bs_jwks s')
    \<and> credential_ok H credential v = Inr () \<and> bootstrap_stage (eva_policy (ba_evaluator A)) q v = Inr sp
    \<and> (reg_op H)\<^sup>*\<^sup>* (bs_registry s) t2 \<and> stage_approved_at (rb_request_id q) (rb_stage q) t2 = Inr approved
    \<and> bootstrap_window_ok H (be_now E) approved = Inr () \<and> live_facts_ok H E A q row v sp = Inr runner_id
    \<and> digest H (JObj (bootstrap_response (be_now E) q envelope v res runner_id prior)) = Inr dg
    \<and> response = bootstrap_response (be_now E) q envelope v res runner_id prior @ [(''responseSha256'', JStr dg)]
    \<and> (reg_op H)\<^sup>*\<^sup>* t2 u
    \<and> consume_bootstrap H (be_uid E) (rb_request_id q) (rb_stage q) (rb_run_id q) (rb_run_attempt q) runner_id dg (be_now E) u
        = (Inr c, bs_registry s')"
proof -
  from assms(1) obtain row envelope s1 v claims l sp res s3 approved s4 runner_id prior s5 dg c where
    a: "on_bs E 0 (\<lambda>t. (get_finalized H (rb_request_id q) t, t)) s = (Inr (row, envelope), s1)"
      "bootstrap_evidence H E A q row envelope = Inr v"
      "verify_oidc H W (be_oidc E) (bootstrap_binding q row v) token (bs_jwks s1) = (Inr claims, l)"
      "credential_ok H credential v = Inr ()" "bootstrap_stage (eva_policy (ba_evaluator A)) q v = Inr sp"
      "on_bs E 1 (\<lambda>t. (get_stage (rb_request_id q) (rb_stage q) t, t)) (s1\<lparr>bs_jwks := l\<rparr>) = (Inr res, s3)"
      "on_bs E 2 (\<lambda>t. (stage_approved_at (rb_request_id q) (rb_stage q) t, t)) s3 = (Inr approved, s4)"
      "bootstrap_window_ok H (be_now E) approved = Inr ()" "live_facts_ok H E A q row v sp = Inr runner_id"
      "read_prior H E q s4 = (Inr prior, s5)"
      "digest H (JObj (bootstrap_response (be_now E) q envelope v res runner_id prior)) = Inr dg"
      "on_bs E 5 (consume_bootstrap H (be_uid E) (rb_request_id q) (rb_stage q) (rb_run_id q) (rb_run_attempt q) runner_id dg (be_now E)) s5
        = (Inr c, s')"
      "response = bootstrap_response (be_now E) q envelope v res runner_id prior @ [(''responseSha256'', JStr dg)]"
    unfolding authorize_def Let_def bindS_Inr_iff split_paired_Ex prod.case prod.inject
    by (elim exE conjE) (auto split: prod.splits)
  note r = on_bs_read [OF fair a(1)] on_bs_read [OF fair a(6)] on_bs_read [OF fair a(7)] read_prior_later [OF fair a(10)]
  have f: "get_finalized H (rb_request_id q) (be_registry E 0 (bs_registry s)) = Inr (row, envelope)"
    using a(1) by (simp add: on_bs_def)
  from a(12) have c: "consume_bootstrap H (be_uid E) (rb_request_id q) (rb_stage q) (rb_run_id q) (rb_run_attempt q) runner_id dg (be_now E)
      (be_registry E 5 (bs_registry s5)) = (Inr c, bs_registry s')" and l: "bs_jwks s' = bs_jwks s5"
    by (auto simp: on_bs_def split: prod.splits)
  have t2: "(reg_op H)\<^sup>*\<^sup>* (bs_registry s) (bs_registry s4)" and u: "(reg_op H)\<^sup>*\<^sup>* (bs_registry s4) (be_registry E 5 (bs_registry s5))"
    using r fair by (auto simp: bs_later_def fair_bootstrap_env_def intro: rtranclp_trans)
  have "bs_jwks s' = l" "bs_jwks s1 = bs_jwks s" using r l by simp_all
  with a(3) have o: "verify_oidc H W (be_oidc E) (bootstrap_binding q row v) token (bs_jwks s) = (Inr claims, bs_jwks s')" by simp
  show ?thesis using f a(2) o a(4,5) t2 r(8) a(8,9,11,13) u c by blast
qed

section \<open>What an authorization rests on\<close>

lemma bootstrap_evidence_Inr:
  "bootstrap_evidence H E A q row envelope = Inr v \<Longrightarrow> \<exists>revocations vf. tq_revocations (be_truth E) = Inr revocations
    \<and> new_verifier H (eva_trust_root (ba_evaluator A)) revocations (be_now E) (Some (dp_digest (eva_policy (ba_evaluator A))))
        (Some (eva_expected_trust_root (ba_evaluator A))) Active None = Inr vf
    \<and> verify_bundle H vf envelope = Inr v \<and> bootstrap_intent_ok (eva_policy (ba_evaluator A)) q row v"
  by (auto simp: bootstrap_evidence_def Let_def bindE_Inr_iff reject_if_Inr)

lemma credential_ok_Inr:
  "credential_ok H credential v = Inr u \<Longrightarrow> 64 \<le> length credential
    \<and> sj_bootstrapCredentialSha256 (bd_subject (vb_payload v)) = ''sha256:'' @ h_sha H credential"
  by (auto simp: credential_ok_def credential_digest_def compare_digest_def bindE_Inr_iff reject_if_Inr reject_def split: if_splits)

lemma bootstrap_window_Inr:
  "bootstrap_window_ok H current approved = Inr u \<Longrightarrow> \<exists>approved_at. parse_utc H (JStr approved) = Inr approved_at
    \<and> approved_at \<le> current \<and> current \<le> approved_at + minutes 2"
  by (auto simp: bootstrap_window_ok_def bindE_Inr_iff reject_if_Inr MAX_BOOTSTRAP_DELAY_def)

lemma live_facts_Inr:
  assumes "live_facts_ok H E A q row v sp = Inr runner_id"
  shows "\<exists>jobs e. be_jobs E (ba_installation_id A) (in_repository row) (rb_run_id q) (rb_run_attempt q) = Inr jobs
    \<and> List.map_filter (assigned_runner (rb_runner_name q)) jobs = [runner_id]
    \<and> e \<in> set (ls_eligibleRunners (vl_payload (vb_runner_admission_lease v)))
    \<and> er_runnerId e = runner_id \<and> er_runnerNameSha256 e = runner_name_digest H (rb_runner_name q)"
proof -
  let ?ok = "\<lambda>e. er_runnerId e = runner_id \<and> er_runnerNameSha256 e = runner_name_digest H (rb_runner_name q)"
  from assms obtain jobs where j: "be_jobs E (ba_installation_id A) (in_repository row) (rb_run_id q) (rb_run_attempt q) = Inr jobs"
      "List.map_filter (assigned_runner (rb_runner_name q)) jobs = [runner_id]"
      "length (filter ?ok (ls_eligibleRunners (vl_payload (vb_runner_admission_lease v)))) = 1"
    unfolding live_facts_ok_def verify_live_run_and_runner_def Let_def
    by (auto simp: bindE_Inr_iff reject_if_Inr only_one)
  from j(3) obtain e where "filter ?ok (ls_eligibleRunners (vl_payload (vb_runner_admission_lease v))) = [e]"
    by (auto simp: length_Suc_conv)
  then have "e \<in> set (filter ?ok (ls_eligibleRunners (vl_payload (vb_runner_admission_lease v))))" by simp
  with j show ?thesis by auto
qed

lemma consumed_once: "bootstrap_of t rid stg \<noteq> None \<Longrightarrow> consume_bootstrap H uid rid stg run att runner dg now t \<noteq> (Inr c, t')"
  by (auto simp: consume_bootstrap_def transaction_Inr_iff bootstrap_txn_def Let_def split: if_splits sum.splits option.splits)

lemma consumed_digest: "consume_bootstrap H uid rid stg run att runner dg now t = (Inr c, t') \<Longrightarrow> bc_response_digest c = dg"
  by (auto simp: consume_bootstrap_def transaction_Inr_iff bootstrap_txn_def Let_def bindE_Inr_iff reject_def
      split: if_splits sum.splits option.splits)

lemma second_authorization_fails:
  assumes "bootstrap_of t (rb_request_id q) (rb_stage q) \<noteq> None" "reachable H t"
    and "(reg_op H)\<^sup>*\<^sup>* t (bs_registry s)" "fair_bootstrap_env H E"
  shows "isl (fst (authorize H W E A q credential token s))"
proof (rule ccontr)
  assume "\<not> ?thesis"
  then obtain response s' where "authorize H W E A q credential token s = (Inr response, s')"
    by (metis isl_def prod.collapse sum.collapse(2))
  from authorize_Inr [OF this assms(4)] obtain u t2 runner dg c t' where
    c: "(reg_op H)\<^sup>*\<^sup>* (bs_registry s) t2" "(reg_op H)\<^sup>*\<^sup>* t2 u"
      "consume_bootstrap H (be_uid E) (rb_request_id q) (rb_stage q) (rb_run_id q) (rb_run_attempt q) runner dg (be_now E) u = (Inr c, t')"
    by blast
  with assms(3) have "(reg_op H)\<^sup>*\<^sup>* t u" by (meson rtranclp_trans)
  from bootstrap_kept_ops [OF this reachable_inv [OF assms(2)] assms(1)] c(3) show False by (meson consumed_once)
qed

text \<open>What the signed evidence, the token, the credential and GitHub must say for an authorization.\<close>

definition bootstrap_basis :: "host \<Rightarrow> web_host \<Rightarrow> bootstrap_env \<Rightarrow> bootstrap_authorizer \<Rightarrow> runner_bootstrap_request \<Rightarrow> string \<Rightarrow> string
    \<Rightarrow> jwks_loader \<Rightarrow> intent_row \<Rightarrow> json \<Rightarrow> int \<Rightarrow> bool" where
  "bootstrap_basis H W E A q credential token jwks row envelope runner_id =
     (let ev = ba_evaluator A in \<exists>revocations vf v claims jwks' jobs e.
        tq_revocations (be_truth E) = Inr revocations
        \<and> new_verifier H (eva_trust_root ev) revocations (be_now E) (Some (dp_digest (eva_policy ev)))
            (Some (eva_expected_trust_root ev)) Active None = Inr vf
        \<and> verify_bundle H vf envelope = Inr v \<and> bootstrap_intent_ok (eva_policy ev) q row v
        \<and> verify_oidc H W (be_oidc E) (bootstrap_binding q row v) token jwks = (Inr claims, jwks')
        \<and> 64 \<le> length credential \<and> sj_bootstrapCredentialSha256 (bd_subject (vb_payload v)) = ''sha256:'' @ h_sha H credential
        \<and> be_jobs E (ba_installation_id A) (in_repository row) (rb_run_id q) (rb_run_attempt q) = Inr jobs
        \<and> List.map_filter (assigned_runner (rb_runner_name q)) jobs = [runner_id]
        \<and> e \<in> set (ls_eligibleRunners (vl_payload (vb_runner_admission_lease v)))
        \<and> er_runnerId e = runner_id \<and> er_runnerNameSha256 e = runner_name_digest H (rb_runner_name q))"

lemma bootstrap_basis_holds:
  assumes "bootstrap_evidence H E A q row envelope = Inr v" "credential_ok H credential v = Inr ()"
    and "verify_oidc H W (be_oidc E) (bootstrap_binding q row v) token jwks = (Inr claims, jwks')"
    and "live_facts_ok H E A q row v sp = Inr runner_id"
  shows "bootstrap_basis H W E A q credential token jwks row envelope runner_id"
  using bootstrap_evidence_Inr [OF assms(1)] credential_ok_Inr [OF assms(2)] assms(3) live_facts_Inr [OF assms(4)]
  unfolding bootstrap_basis_def Let_def by blast

text \<open>
  C10: a runner bootstrap is authorized once, for the approved run. When a runner receives the evidence,
  the bundle of the finalized intent verified under the pinned trust root and policy; the token is valid
  for the run, the credential is the signed one, and the one job in progress under the runner's name
  has a runner of the signed admission lease. The approval of the stage is at most two minutes old
  and the stage awaits the outcome of exactly this run attempt. The consumption is recorded with the
  digest of the response, and every later authorization of the stage fails, whoever asks and with
  whatever credentials.
\<close>

theorem bootstrap_authorized_once:
  assumes "authorize H W E A q credential token s = (Inr response, s')" "fair_bootstrap_env H E"
  shows "\<exists>row envelope body runner_id t2 approved approved_at u r c.
    get_finalized H (rb_request_id q) (be_registry E 0 (bs_registry s)) = Inr (row, envelope)
    \<and> bootstrap_basis H W E A q credential token (bs_jwks s) row envelope runner_id
    \<and> (reg_op H)\<^sup>*\<^sup>* (bs_registry s) t2 \<and> stage_approved_at (rb_request_id q) (rb_stage q) t2 = Inr approved
    \<and> parse_utc H (JStr approved) = Inr approved_at \<and> approved_at \<le> be_now E \<and> be_now E \<le> approved_at + minutes 2
    \<and> (reg_op H)\<^sup>*\<^sup>* t2 u \<and> stage_of u (rb_request_id q) (rb_stage q) = Some r \<and> st_state r = ApprovedPendingOutcome
    \<and> st_run_id r = Some (rb_run_id q) \<and> st_run_attempt r = Some (rb_run_attempt q)
    \<and> bootstrap_of (bs_registry s') (rb_request_id q) (rb_stage q) = Some c \<and> bc_runner_id c = runner_id
    \<and> response = body @ [(''responseSha256'', JStr (bc_response_digest c))] \<and> digest H (JObj body) = Inr (bc_response_digest c)
    \<and> (reachable H (bs_registry s) \<longrightarrow> (\<forall>s2 E2 A2 q2 credential2 token2. (reg_op H)\<^sup>*\<^sup>* (bs_registry s') (bs_registry s2)
         \<longrightarrow> fair_bootstrap_env H E2 \<longrightarrow> rb_request_id q2 = rb_request_id q \<longrightarrow> rb_stage q2 = rb_stage q
         \<longrightarrow> isl (fst (authorize H W E2 A2 q2 credential2 token2 s2))))"
proof -
  obtain row envelope v claims sp res t2 approved runner_id prior dg u c where a:
    "get_finalized H (rb_request_id q) (be_registry E 0 (bs_registry s)) = Inr (row, envelope)"
    "bootstrap_evidence H E A q row envelope = Inr v" "credential_ok H credential v = Inr ()"
    "verify_oidc H W (be_oidc E) (bootstrap_binding q row v) token (bs_jwks s) = (Inr claims, bs_jwks s')"
    "live_facts_ok H E A q row v sp = Inr runner_id"
    "(reg_op H)\<^sup>*\<^sup>* (bs_registry s) t2" "stage_approved_at (rb_request_id q) (rb_stage q) t2 = Inr approved"
    "bootstrap_window_ok H (be_now E) approved = Inr ()" "(reg_op H)\<^sup>*\<^sup>* t2 u"
    "digest H (JObj (bootstrap_response (be_now E) q envelope v res runner_id prior)) = Inr dg"
    "response = bootstrap_response (be_now E) q envelope v res runner_id prior @ [(''responseSha256'', JStr dg)]"
    and c: "consume_bootstrap H (be_uid E) (rb_request_id q) (rb_stage q) (rb_run_id q) (rb_run_attempt q) runner_id dg (be_now E) u
        = (Inr c, bs_registry s')"
    using authorize_Inr [OF assms] by blast
  note consumed = bootstrap_success [OF c] consumed_digest [OF c]
  have again: "isl (fst (authorize H W E2 A2 q2 credential2 token2 s2))"
    if "reachable H (bs_registry s)" "(reg_op H)\<^sup>*\<^sup>* (bs_registry s') (bs_registry s2)" "fair_bootstrap_env H E2"
      "rb_request_id q2 = rb_request_id q" "rb_stage q2 = rb_stage q" for s2 E2 A2 q2 credential2 token2
  proof (rule second_authorization_fails [OF _ _ that(2,3)])
    show "bootstrap_of (bs_registry s') (rb_request_id q2) (rb_stage q2) \<noteq> None" using consumed(1) that(4,5) by simp
    have "reachable H u" using reachable_trans [OF that(1)] a(6,9) by (meson rtranclp_trans)
    then show "reachable H (bs_registry s')" using reg_op.bootstrap_op [OF c] by (rule rtranclp.rtrancl_into_rtrancl)
  qed
  show ?thesis
    using a(1) bootstrap_basis_holds [OF a(2-5)] a(6,7) bootstrap_window_Inr [OF a(8)] a(9) consumed(1,2,3) a(10,11) consumed(4) again
    by blast
qed

section \<open>A concrete bootstrap\<close>

text \<open>The apply stage of the evaluation scenario, approved at minute eight; runner 3 asks at minute ten.\<close>

definition boot_start :: bootstrap_state where
  "boot_start = \<lparr>bs_registry = rec_start\<lparr>r_stages := [(hd (r_stages rec_start))\<lparr>st_state := ApprovedPendingOutcome\<rparr>],
       r_events := [\<lparr>ev_event_id = ''e'', ev_request_id = ''q'', ev_stage = Some ''apply'', ev_recorded_at = ''8Z'', ev_from_state = Some ''Reserved'',
         ev_to_state = ''ApprovedPendingOutcome'', ev_reason_code = ''x'', ev_previous_hash = None, ev_event_hash = ''y''\<rparr>]\<rparr>,
     bs_jwks = oidc_loader\<rparr>"

definition boot_env :: bootstrap_env where
  "boot_env = \<lparr>be_now = minutes 10, be_uid = (\<lambda>k. replicate k (CHR ''b'')), be_registry = (\<lambda>_ t. t), be_truth = eval_truth,
     be_run_attempt = (\<lambda>_ _ _ _. Inr [(''id'', JInt 11), (''run_attempt'', JInt 1), (''event'', JStr ''workflow_dispatch''), (''head_sha'', JStr ''h''),
       (''head_branch'', JStr ''cross-ai-intent/q''), (''path'', JStr ''w.yml''), (''status'', JStr ''in_progress''),
       (''repository'', JObj [(''id'', JInt 7), (''full_name'', JStr ''o/r'')]), (''head_repository'', JObj [(''id'', JInt 7), (''full_name'', JStr ''o/r'')])]),
     be_jobs = (\<lambda>_ _ _ _. Inr [[(''runner_name'', JStr ''rn''), (''status'', JStr ''in_progress''), (''runner_id'', JInt 3)]]),
     be_oidc = oidc_run\<rparr>"

definition boot_authorizer :: bootstrap_authorizer where
  "boot_authorizer = \<lparr>ba_evaluator = eval_evaluator, ba_installation_id = 2\<rparr>"

definition boot_request :: runner_bootstrap_request where
  "boot_request = \<lparr>rb_request_id = ''q'', rb_stage = ''apply'', rb_run_id = 11, rb_run_attempt = 1,
     rb_intent_ref = ''refs/tags/cross-ai-intent/q'', rb_head_sha = ''h'', rb_workflow_path = ''w.yml'', rb_runner_name = ''rn''\<rparr>"

definition boot_credential :: string where
  "boot_credential = replicate 64 (CHR ''c'')"

definition boot_res :: stage_reservation where
  "boot_res = rec_res\<lparr>sr_state := ApprovedPendingOutcome\<rparr>"

definition boot_digest :: string where
  "boot_digest = ''sha256:'' @ replicate 64 (CHR ''e'')"

lemma boot_fair: "fair_bootstrap_env H boot_env"
  by (simp add: fair_bootstrap_env_def boot_env_def)

lemma boot_evidence: "bootstrap_evidence ev_host boot_env boot_authorizer boot_request eval_row ev_bundle_envelope = Inr ev_accepted"
proof -
  have s: "tq_revocations (be_truth boot_env) = Inr ev_revocations_envelope" "be_now boot_env = minutes 10"
    "ba_evaluator boot_authorizer = eval_evaluator" "eva_trust_root eval_evaluator = ev_trust_root"
    "eva_expected_trust_root eval_evaluator = ''sha256:1433''" "eva_policy eval_evaluator = eval_policy" "dp_digest eval_policy = ''p''"
    by (simp_all add: boot_env_def eval_truth_def boot_authorizer_def eval_evaluator_def eval_policy_def)
  have i: "bootstrap_intent_ok eval_policy boot_request eval_row ev_accepted" by code_simp
  show ?thesis
    unfolding bootstrap_evidence_def Let_def s bindE_simps ev_verifier_new [unfolded ev_new_def] ev_bundle_accepted
    by (simp add: i reject_if.simps)
qed

lemma boot_binding: "bootstrap_binding boot_request eval_row ev_accepted = oidc_target"
  by code_simp

lemma boot_digested:
  "digest ev_host (JObj (bootstrap_response (minutes 10) boot_request ev_bundle_envelope ev_accepted boot_res 3 None)) = Inr boot_digest"
  by code_simp

definition boot_end :: registry where
  "boot_end = snd (consume_bootstrap ev_host (be_uid boot_env) ''q'' ''apply'' 11 1 3 boot_digest (minutes 10) (bs_registry boot_start))"

lemma boot_consumed:
  "\<exists>c. consume_bootstrap ev_host (be_uid boot_env) ''q'' ''apply'' 11 1 3 boot_digest (minutes 10) (bs_registry boot_start) = (Inr c, boot_end)"
  (is "\<exists>c. ?m = _")
proof -
  have "\<not> isl (fst ?m)" by code_simp
  then show ?thesis unfolding boot_end_def by (metis prod.collapse sum.collapse(2))
qed

lemma boot_read: "on_bs boot_env i (\<lambda>t. (f t, t)) s = (f (bs_registry s), s)"
  by (simp add: on_bs_def boot_env_def)

lemma boot_authorized:
  "\<exists>response. authorize ev_host in_web boot_env boot_authorizer boot_request boot_credential oidc_token boot_start
     = (Inr response, \<lparr>bs_registry = boot_end, bs_jwks = oidc_loaded\<rparr>)"
proof -
  let ?s = "boot_start\<lparr>bs_jwks := oidc_loaded\<rparr>"
  have q: "rb_request_id boot_request = ''q''" "rb_stage boot_request = ''apply''" "rb_run_id boot_request = 11"
    "rb_run_attempt boot_request = 1" by (simp_all add: boot_request_def)
  have e: "eva_policy (ba_evaluator boot_authorizer) = eval_policy" "be_oidc boot_env = oidc_run" "be_now boot_env = minutes 10"
    "bs_jwks boot_start = oidc_loader" "bs_registry ?s = bs_registry boot_start"
    by (simp_all add: boot_authorizer_def eval_evaluator_def boot_env_def boot_start_def)
  have f: "get_finalized ev_host ''q'' (bs_registry boot_start) = Inr (eval_row, ev_bundle_envelope)" by code_simp
  have c: "credential_ok ev_host boot_credential ev_accepted = Inr ()" by code_simp
  obtain sp where sp: "bootstrap_stage eval_policy boot_request ev_accepted = Inr sp" "live_facts_ok ev_host boot_env boot_authorizer boot_request eval_row ev_accepted sp = Inr 3"
  proof
    show "bootstrap_stage eval_policy boot_request ev_accepted = Inr (hd (dp_stages eval_policy))" by code_simp
    show "live_facts_ok ev_host boot_env boot_authorizer boot_request eval_row ev_accepted (hd (dp_stages eval_policy)) = Inr 3" by code_simp
  qed
  have g: "get_stage ''q'' ''apply'' (bs_registry boot_start) = Inr boot_res" by code_simp
  have g': "reject_if [(sr_state boot_res \<noteq> ApprovedPendingOutcome \<or> sr_run_id boot_res \<noteq> 11 \<or> sr_run_attempt boot_res \<noteq> 1,
      ''BOOTSTRAP_STAGE_NOT_APPROVED'')] = Inr ()" by code_simp
  have a: "stage_approved_at ''q'' ''apply'' (bs_registry boot_start) = Inr ''8Z''" "bootstrap_window_ok ev_host (minutes 10) ''8Z'' = Inr ()"
    by code_simp+
  have p: "read_prior ev_host boot_env boot_request ?s = (Inr None, ?s)" by (simp add: read_prior_def q)
  from boot_consumed obtain b where b: "consume_bootstrap ev_host (be_uid boot_env) ''q'' ''apply'' 11 1 3 boot_digest (minutes 10) (bs_registry boot_start) = (Inr b, boot_end)" ..
  have "on_bs boot_env 5 (consume_bootstrap ev_host (be_uid boot_env) ''q'' ''apply'' 11 1 3 boot_digest (minutes 10)) ?s
      = (Inr b, \<lparr>bs_registry = boot_end, bs_jwks = oidc_loaded\<rparr>)"
    unfolding on_bs_def e(5) by (simp add: boot_env_def [THEN arg_cong, of be_registry] b)
  then show ?thesis
    unfolding authorize_def Let_def q boot_read f bindS_Inr prod.case boot_evidence boot_binding e(1-5) oidc_verified c sp g g' a p boot_digested
    by (simp add: bindS_def)
qed

theorem bootstrap_authorized_once_witness:
  "\<exists>row envelope c. get_finalized ev_host ''q'' (bs_registry boot_start) = Inr (row, envelope)
     \<and> bootstrap_basis ev_host in_web boot_env boot_authorizer boot_request boot_credential oidc_token oidc_loader row envelope 3
     \<and> bootstrap_of boot_end ''q'' ''apply'' = Some c \<and> bc_runner_id c = 3"
proof -
  obtain response where a: "authorize ev_host in_web boot_env boot_authorizer boot_request boot_credential oidc_token boot_start
     = (Inr response, \<lparr>bs_registry = boot_end, bs_jwks = oidc_loaded\<rparr>)" using boot_authorized ..
  have k: "rb_request_id boot_request = ''q''" "rb_stage boot_request = ''apply''" "be_registry boot_env 0 t = t" "bs_jwks boot_start = oidc_loader" for t
    by (simp_all add: boot_request_def boot_env_def boot_start_def)
  from boot_consumed obtain b where b: "bootstrap_of boot_end ''q'' ''apply'' = Some b" "bc_runner_id b = 3"
    using bootstrap_success by meson
  from bootstrap_authorized_once [OF a boot_fair, unfolded k] b show ?thesis by auto
qed

end
