(* ===== verification/Github.thy ===== *)
theory Github
  imports Bootstrap Poller
begin

text \<open>
  The GitHub App client of \<^verbatim>\<open>github.py\<close>: the HTTP transport, the cache of installation tokens, the
  reads of live state, the artifact download, the decision callback and the dispatcher's POSTs.
  Its state is the token cache and the requests handed to \<^verbatim>\<open>urllib\<close>, in their order; what comes
  back for a request, the clock and the App's private key are arguments.
\<close>

section \<open>URLs\<close>

text \<open>
  \<^verbatim>\<open>urllib.parse\<close> over UTF-8 bytes: \<^verbatim>\<open>quote\<close> keeps the unreserved and the safe characters,
  \<^verbatim>\<open>urlencode\<close> also writes a space as a plus sign.
\<close>

definition unreserved :: "char \<Rightarrow> bool" where
  "unreserved c = (name_char c \<or> c = CHR ''~'')"

definition hex_upper :: "nat \<Rightarrow> char" where
  "hex_upper d = (if d < 10 then char_of (48 + d) else char_of (55 + d))"

definition percent :: "char \<Rightarrow> string" where
  "percent c = [CHR ''%'', hex_upper (byte c div 16), hex_upper (byte c mod 16)]"

definition quote :: "string \<Rightarrow> string \<Rightarrow> string" where
  "quote safe s = concat (map (\<lambda>c. if unreserved c \<or> c \<in> set safe then [c] else percent c) s)"

definition quote_plus :: "string \<Rightarrow> string" where
  "quote_plus s = map (\<lambda>c. if c = CHR '' '' then CHR ''+'' else c) (quote '' '' s)"

fun urlencode :: "(string \<times> string) list \<Rightarrow> string" where
  "urlencode [] = []"
| "urlencode [(k, v)] = quote_plus k @ ''='' @ quote_plus v"
| "urlencode ((k, v) # q) = quote_plus k @ ''='' @ quote_plus v @ ''&'' @ urlencode q"

definition hex_value :: "char \<Rightarrow> nat" where
  "hex_value c = (let n = byte (ascii_lower c) in if n < 58 then n - 48 else n - 87)"

fun unquote_to_bytes :: "string \<Rightarrow> string" where
  "unquote_to_bytes (a # b # c # s) =
     (if a = CHR ''%'' \<and> ascii_lower b \<in> set hex_digits \<and> ascii_lower c \<in> set hex_digits
      then char_of (16 * hex_value b + hex_value c) # unquote_to_bytes s else a # unquote_to_bytes (b # c # s))"
| "unquote_to_bytes s = s"

text \<open>
  \<^verbatim>\<open>parse_qs\<close> with \<^verbatim>\<open>keep_blank_values\<close> and \<^verbatim>\<open>strict_parsing\<close>: every field needs an equals sign.
  \<open>utf8\<close> is \<^verbatim>\<open>bytes.decode("utf-8", "replace")\<close>. The value is the list of fields; an empty
  query has none.
\<close>

definition parse_field :: "(string \<Rightarrow> string) \<Rightarrow> string \<Rightarrow> (string \<times> string) option" where
  "parse_field utf8 field =
     (if CHR ''='' \<notin> set field then None
      else let text = (\<lambda>s. utf8 (unquote_to_bytes (map (\<lambda>c. if c = CHR ''+'' then CHR '' '' else c) s)));
               (name, v) = split_first (CHR ''='') field in Some (text name, text v))"

definition parse_qs :: "(string \<Rightarrow> string) \<Rightarrow> string \<Rightarrow> (string \<times> string) list option" where
  "parse_qs utf8 query = (if query = [] then Some [] else those (map (parse_field utf8) (split_on (CHR ''&'') query)))"

definition qs_values :: "(string \<times> string) list \<Rightarrow> string \<Rightarrow> string list" where
  "qs_values q name = map snd (filter (\<lambda>f. fst f = name) q)"

text \<open>
  \<^verbatim>\<open>username\<close> and \<^verbatim>\<open>password\<close> of an authority are \<^verbatim>\<open>None\<close> exactly without an at sign. The host is
  compared only with names for which lowering the letters of ASCII is enough.
\<close>

definition url_hostname :: "split_url \<Rightarrow> string" where
  "url_hostname u = (let host = fst (hostinfo (su_netloc u)); name = takeWhile (\<lambda>c. c \<noteq> CHR ''%'') host
     in lower name @ drop (length name) host)"

section \<open>Transport\<close>

definition MAX_GITHUB_RESPONSE_BYTES :: nat where
  "MAX_GITHUB_RESPONSE_BYTES = 4 * 1024 * 1024"

definition MAX_STAGE_ARTIFACT_BYTES :: nat where
  "MAX_STAGE_ARTIFACT_BYTES = 16 * 1024 * 1024"

record http_request =
  rq_method :: string
  rq_url :: string
  rq_headers :: "(string \<times> string) list"
  rq_body :: "string option"

record http_response =
  hr_status :: int
  hr_headers :: "(string \<times> string) list"
  hr_body :: string

text \<open>
  The end of \<^verbatim>\<open>opener.open\<close> and the read of the body: an open response or an \<^verbatim>\<open>HTTPError\<close> (every other
  status, redirects included, for the handlers refuse them) with status, header items and the whole
  body; one of \<^verbatim>\<open>URLError\<close>, \<^verbatim>\<open>TimeoutError\<close>, \<^verbatim>\<open>OSError\<close>; or an exception that is not caught.
\<close>

datatype opened = OpenOk int "(string \<times> string) list" string | OpenHttpError int "(string \<times> string) list" string
  | OpenFailed | OpenRaises perror

record cached_token =
  ct_token :: string
  ct_expires_at :: datetime

record gh =
  gh_tokens :: "int \<rightharpoonup> cached_token"
  gh_sent :: "http_request list"
  gh_reads :: nat

text \<open>
  \<open>ge_open\<close> answers the request with that number, \<open>ge_now\<close> is the clock at its reads, \<open>ge_sign\<close>
  the RSA signature with the App's key.
\<close>

record gh_env =
  ge_open :: "nat \<Rightarrow> http_request \<Rightarrow> opened"
  ge_now :: "nat \<Rightarrow> datetime"
  ge_sign :: "string \<Rightarrow> string"
  ge_utf8 :: "string \<Rightarrow> string"

text \<open>\<^verbatim>\<open>dict(headers.items())\<close>: a later item of the same name replaces the value.\<close>

definition header_dict :: "(string \<times> string) list \<Rightarrow> (string \<times> string) list" where
  "header_dict items = fold (\<lambda>(k, v) d. if k \<in> fst ` set d then map (\<lambda>f. if fst f = k then (k, v) else f) d else d @ [(k, v)]) items []"

definition send :: "gh_env \<Rightarrow> http_request \<Rightarrow> gh \<Rightarrow> opened \<times> gh" where
  "send E rq s = (ge_open E (length (gh_sent s)) rq, s\<lparr>gh_sent := gh_sent s @ [rq]\<rparr>)"

definition transport_request :: "gh_env \<Rightarrow> http_request \<Rightarrow> gh \<Rightarrow> http_response result \<times> gh" where
  "transport_request E rq s = (case send E rq s of (reply, s1) \<Rightarrow>
     (case reply of
        OpenOk status headers body \<Rightarrow>
          let data = take (MAX_GITHUB_RESPONSE_BYTES + 1) body in
          if length data > MAX_GITHUB_RESPONSE_BYTES then reject ''GITHUB_RESPONSE_TOO_LARGE''
          else Inr \<lparr>hr_status = status, hr_headers = header_dict headers, hr_body = data\<rparr>
      | OpenHttpError status headers body \<Rightarrow>
          Inr \<lparr>hr_status = status, hr_headers = header_dict headers, hr_body = take (MAX_GITHUB_RESPONSE_BYTES + 1) body\<rparr>
      | OpenFailed \<Rightarrow> reject ''GITHUB_API_UNAVAILABLE''
      | OpenRaises e \<Rightarrow> Inl e, s1))"

definition json_object :: "host \<Rightarrow> string \<Rightarrow> (string \<times> json) list result" where
  "json_object H body = (case h_json_loads H body of
     Some (JObj v) \<Rightarrow> Inr v | _ \<Rightarrow> reject ''GITHUB_RESPONSE_INVALID'')"

definition json_array :: "host \<Rightarrow> string \<Rightarrow> json list result" where
  "json_array H body = (case h_json_loads H body of
     Some (JArr v) \<Rightarrow> Inr v | _ \<Rightarrow> reject ''GITHUB_RESPONSE_INVALID'')"

section \<open>App tokens\<close>

record token_provider =
  tp_app_id :: int
  tp_api_origin :: string

text \<open>
  The private key file is its content, if it can be read, and what \<^verbatim>\<open>load_pem_private_key\<close> makes of
  it: nothing, a key of another kind, or an RSA key of that many bits.
\<close>

datatype loaded_key = NoKey | OtherKey | RsaKey int

definition new_token_provider :: "web_host \<Rightarrow> int \<Rightarrow> string \<Rightarrow> string option \<Rightarrow> (string \<Rightarrow> loaded_key) \<Rightarrow> token_provider result" where
  "new_token_provider W app_id api_origin pem_file load =
     (if app_id < 1 then reject ''GITHUB_APP_ID_INVALID''
      else bindE (urlsplit W api_origin) (\<lambda>parsed.
        if su_scheme parsed \<noteq> ''https'' \<or> su_path parsed \<noteq> [] \<or> su_query parsed \<noteq> [] \<or> su_fragment parsed \<noteq> []
        then reject ''GITHUB_API_ORIGIN_INVALID''
        else case pem_file of
          None \<Rightarrow> reject ''GITHUB_APP_KEY_UNAVAILABLE''
        | Some pem \<Rightarrow>
            if length pem > 64 * 1024 then reject ''GITHUB_APP_KEY_INVALID''
            else case load pem of
              RsaKey bits \<Rightarrow> if bits < 2048 then reject ''GITHUB_APP_KEY_INVALID''
                else Inr \<lparr>tp_app_id = app_id, tp_api_origin = api_origin\<rparr>
            | _ \<Rightarrow> reject ''GITHUB_APP_KEY_INVALID''))"

definition read_clock :: "gh_env \<Rightarrow> gh \<Rightarrow> datetime result \<times> gh" where
  "read_clock E s = (Inr (ge_now E (gh_reads s)), s\<lparr>gh_reads := Suc (gh_reads s)\<rparr>)"

definition jwt_claims :: "token_provider \<Rightarrow> datetime \<Rightarrow> json" where
  "jwt_claims P now = JObj [(''iat'', JInt (int_timestamp (now - seconds 60))), (''exp'', JInt (int_timestamp (now + minutes 4))),
     (''iss'', JStr (int_dec (tp_app_id P)))]"

definition app_jwt :: "gh_env \<Rightarrow> token_provider \<Rightarrow> gh \<Rightarrow> string result \<times> gh" where
  "app_jwt E P s =
     bindS (read_clock E s) (\<lambda>now s.
     (bindE (canonical_bytes (JObj [(''alg'', JStr ''RS256''), (''typ'', JStr ''JWT'')])) (\<lambda>header.
      bindE (canonical_bytes (jwt_claims P now)) (\<lambda>payload.
      let signing_input = b64url_encode header @ ''.'' @ b64url_encode payload in
      Inr (signing_input @ ''.'' @ b64url_encode (ge_sign E signing_input)))), s))"

text \<open>The headers of an authenticated call, in the order of the code.\<close>

definition api_headers :: "string \<Rightarrow> string \<Rightarrow> (string \<times> string) list" where
  "api_headers bearer agent =
     [(''Accept'', ''application/vnd.github+json''), (''Authorization'', ''Bearer '' @ bearer),
      (''X-GitHub-Api-Version'', ''2022-11-28''), (''User-Agent'', agent)]"

definition json_content :: "(string \<times> string) list" where
  "json_content = [(''Content-Type'', ''application/json'')]"

definition POLICY_AGENT :: string where
  "POLICY_AGENT = ''acik-cross-ai-deployment-policy/1''"

definition token_answer :: "host \<Rightarrow> datetime \<Rightarrow> http_response \<Rightarrow> cached_token result" where
  "token_answer H now response =
     (if hr_status response \<noteq> 201 then reject ''GITHUB_INSTALLATION_TOKEN_FAILED''
      else bindE (json_object H (hr_body response)) (\<lambda>payload.
        bindE (parse_utc H (jget payload ''expires_at'')) (\<lambda>expires_at.
        case jget payload ''token'' of
          JStr bearer \<Rightarrow>
            if py_len bearer < 20 then reject ''GITHUB_INSTALLATION_TOKEN_INVALID''
            else if expires_at \<le> now + minutes 2 then reject ''GITHUB_INSTALLATION_TOKEN_INVALID''
            else Inr \<lparr>ct_token = bearer, ct_expires_at = expires_at\<rparr>
        | _ \<Rightarrow> reject ''GITHUB_INSTALLATION_TOKEN_INVALID'')))"

definition token_request :: "token_provider \<Rightarrow> int \<Rightarrow> string \<Rightarrow> http_request" where
  "token_request P installation_id jwt =
     \<lparr>rq_method = ''POST'', rq_url = tp_api_origin P @ ''/app/installations/'' @ int_dec installation_id @ ''/access_tokens'',
      rq_headers = api_headers jwt POLICY_AGENT @ json_content, rq_body = Some ''{}''\<rparr>"

definition fetch_token :: "host \<Rightarrow> gh_env \<Rightarrow> token_provider \<Rightarrow> int \<Rightarrow> datetime \<Rightarrow> gh \<Rightarrow> string result \<times> gh" where
  "fetch_token H E P installation_id now s =
     bindS (app_jwt E P s) (\<lambda>jwt s.
     bindS (transport_request E (token_request P installation_id jwt) s) (\<lambda>response s.
     case token_answer H now response of
       Inl e \<Rightarrow> (Inl e, s)
     | Inr t \<Rightarrow> (Inr (ct_token t), s\<lparr>gh_tokens := (gh_tokens s)(installation_id \<mapsto> t)\<rparr>)))"

definition token :: "host \<Rightarrow> gh_env \<Rightarrow> token_provider \<Rightarrow> int \<Rightarrow> gh \<Rightarrow> string result \<times> gh" where
  "token H E P installation_id s =
     (if installation_id < 1 then (reject ''GITHUB_INSTALLATION_ID_INVALID'', s)
      else bindS (read_clock E s) (\<lambda>now s.
        case gh_tokens s installation_id of
          Some cached \<Rightarrow>
            if ct_expires_at cached > now + minutes 2 then (Inr (ct_token cached), s) else fetch_token H E P installation_id now s
        | None \<Rightarrow> fetch_token H E P installation_id now s))"

section \<open>Webhook deliveries\<close>

text \<open>A delivery cycle holds one App JWT; \<open>same_origin\<close> is the check of the four constructors.\<close>

definition same_origin :: "token_provider \<Rightarrow> string \<Rightarrow> unit result" where
  "same_origin P api_origin = require (api_origin = tp_api_origin P) ''GITHUB_API_ORIGIN_MISMATCH''"

definition delivery_get :: "gh_env \<Rightarrow> token_provider \<Rightarrow> string \<Rightarrow> string \<Rightarrow> gh \<Rightarrow> http_response result \<times> gh" where
  "delivery_get E P jwt path s =
     bindS (transport_request E \<lparr>rq_method = ''GET'', rq_url = tp_api_origin P @ path,
         rq_headers = api_headers jwt ''acik-cross-ai-delivery-poller/1'', rq_body = None\<rparr> s) (\<lambda>response s.
     (bindE (reject_if [(hr_status response \<in> {403, 429}, ''GITHUB_DELIVERY_RATE_LIMITED''),
        (hr_status response \<noteq> 200, ''GITHUB_DELIVERY_READ_FAILED'')]) (\<lambda>_. Inr response), s))"

definition rstrip :: "string \<Rightarrow> string" where
  "rstrip s = rev (lstrip (map rev str_spaces) (rev s))"

text \<open>\<^verbatim>\<open>re.search(r';\s*rel="next"\s*$', part)\<close>\<close>

definition rel_next :: string where
  "rel_next = ''rel=\"next\"''"

definition is_next_link :: "string \<Rightarrow> bool" where
  "is_next_link part = (let s = rstrip part in
     endswith s rel_next \<and> endswith (rstrip (take (length s - length rel_next) s)) '';'')"

text \<open>\<^verbatim>\<open>re.fullmatch(r'<([^>]+)>;\s*rel="next"', link)\<close>\<close>

definition next_target :: "string \<Rightarrow> string option" where
  "next_target link = (let target = takeWhile (\<lambda>c. c \<noteq> CHR ''>'') (tl link); rest = drop (length target) (tl link) in
     if startswith link ''<'' \<and> target \<noteq> [] \<and> startswith rest ''>;'' \<and> lstrip str_spaces (drop 2 rest) = rel_next
     then Some target else None)"

fun has_space :: "string \<Rightarrow> bool" where
  "has_space [] = False"
| "has_space (c # s) = (list_ex (startswith (c # s)) str_spaces \<or> has_space s)"

text \<open>\<^verbatim>\<open>name.casefold() == "link"\<close>: beside the letters of ASCII, the Kelvin sign folds to k.\<close>

definition is_link_header :: "string \<Rightarrow> bool" where
  "is_link_header name = (lower name = ''link'' \<or> lower (take 3 name) = ''lin'' \<and> drop 3 name = [CHR 0xE2, CHR 0x84, CHR 0xAA])"

abbreviation cursor_invalid :: "'a result" where
  "cursor_invalid \<equiv> reject ''GITHUB_DELIVERY_CURSOR_INVALID''"

definition cursor_of_query :: "(string \<times> string) list \<Rightarrow> string result" where
  "cursor_of_query q =
     (if \<not> fst ` set q \<subseteq> {''cursor'', ''per_page''} \<or> length (qs_values q ''cursor'') \<noteq> 1 then cursor_invalid
      else if qs_values q ''per_page'' \<noteq> [] \<and> qs_values q ''per_page'' \<noteq> [''100''] then cursor_invalid
      else let cursor = hd (qs_values q ''cursor'') in
        if cursor = [] \<or> py_len cursor > 2048 \<or> has_space cursor then cursor_invalid else Inr cursor)"

definition next_cursor :: "web_host \<Rightarrow> gh_env \<Rightarrow> token_provider \<Rightarrow> (string \<times> string) list \<Rightarrow> string option result" where
  "next_cursor W E P headers =
     (case List.find (\<lambda>h. is_link_header (fst h)) headers of
        None \<Rightarrow> Inr None
      | Some (_, link) \<Rightarrow>
          (case filter is_next_link (split_on (CHR '','') link) of
             [part] \<Rightarrow>
               (case next_target (strip str_spaces part) of
                  None \<Rightarrow> cursor_invalid
                | Some target \<Rightarrow>
                    bindE (urlsplit W target) (\<lambda>parsed.
                    if su_scheme parsed @ ''://'' @ su_netloc parsed \<noteq> tp_api_origin P
                       \<or> su_path parsed \<noteq> ''/app/hook/deliveries'' \<or> su_fragment parsed \<noteq> []
                    then cursor_invalid
                    else case parse_qs (ge_utf8 E) (su_query parsed) of
                      None \<Rightarrow> cursor_invalid
                    | Some q \<Rightarrow> bindE (cursor_of_query q) (\<lambda>cursor. Inr (Some cursor))))
           | _ \<Rightarrow> cursor_invalid))"

definition objects_of :: "json list \<Rightarrow> (string \<times> json) list list option" where
  "objects_of vs = those (map (\<lambda>v. case v of JObj o1 \<Rightarrow> Some o1 | _ \<Rightarrow> None) vs)"

definition delivery_page :: "host \<Rightarrow> web_host \<Rightarrow> gh_env \<Rightarrow> token_provider \<Rightarrow> http_response \<Rightarrow> hook_page result" where
  "delivery_page H W E P response =
     bindE (json_array H (hr_body response)) (\<lambda>values.
     case objects_of values of
       None \<Rightarrow> reject ''GITHUB_DELIVERY_LIST_INVALID''
     | Some items \<Rightarrow>
         if length values > 100 then reject ''GITHUB_DELIVERY_LIST_INVALID''
         else bindE (next_cursor W E P (hr_headers response)) (\<lambda>cursor.
           Inr \<lparr>hp_items = items, hp_next_cursor = cursor\<rparr>))"

definition list_deliveries :: "host \<Rightarrow> web_host \<Rightarrow> gh_env \<Rightarrow> token_provider \<Rightarrow> string \<Rightarrow> string option \<Rightarrow> gh
    \<Rightarrow> hook_page result \<times> gh" where
  "list_deliveries H W E P jwt cursor s =
     (if (case cursor of None \<Rightarrow> False | Some c \<Rightarrow> c = [] \<or> py_len c > 2048) then (cursor_invalid, s)
      else let query = (''per_page'', ''100'') # (case cursor of None \<Rightarrow> [] | Some c \<Rightarrow> [(''cursor'', c)]) in
        bindS (delivery_get E P jwt (''/app/hook/deliveries?'' @ urlencode query) s) (\<lambda>response s.
        (delivery_page H W E P response, s)))"

definition delivery :: "host \<Rightarrow> gh_env \<Rightarrow> token_provider \<Rightarrow> string \<Rightarrow> int \<Rightarrow> gh \<Rightarrow> (string \<times> json) list result \<times> gh" where
  "delivery H E P jwt delivery_id s =
     (if delivery_id < 1 then (reject ''GITHUB_DELIVERY_ID_INVALID'', s)
      else bindS (delivery_get E P jwt (''/app/hook/deliveries/'' @ int_dec delivery_id) s) (\<lambda>response s.
        (json_object H (hr_body response), s)))"

section \<open>Live state\<close>

definition get_url :: "token_provider \<Rightarrow> string \<Rightarrow> (string \<times> string) list \<Rightarrow> string" where
  "get_url P path query = tp_api_origin P @ path @ (if query = [] then [] else ''?'' @ urlencode query)"

definition reader_get :: "host \<Rightarrow> gh_env \<Rightarrow> token_provider \<Rightarrow> int \<Rightarrow> string \<Rightarrow> (string \<times> string) list \<Rightarrow> gh
    \<Rightarrow> (string \<times> json) list result \<times> gh" where
  "reader_get H E P installation_id path query s =
     bindS (token H E P installation_id s) (\<lambda>bearer s.
     bindS (transport_request E \<lparr>rq_method = ''GET'', rq_url = get_url P path query,
         rq_headers = api_headers bearer POLICY_AGENT, rq_body = None\<rparr> s) (\<lambda>response s.
     (if hr_status response \<noteq> 200 then reject ''GITHUB_TRUTH_READ_FAILED'' else json_object H (hr_body response), s)))"

abbreviation repo_path :: "string \<Rightarrow> string" where
  "repo_path repository \<equiv> ''/repos/'' @ repository"

abbreviation run_path :: "string \<Rightarrow> int \<Rightarrow> string" where
  "run_path repository run_id \<equiv> repo_path repository @ ''/actions/runs/'' @ int_dec run_id"

definition repository_of :: "host \<Rightarrow> gh_env \<Rightarrow> token_provider \<Rightarrow> int \<Rightarrow> string \<Rightarrow> gh \<Rightarrow> (string \<times> json) list result \<times> gh" where
  "repository_of H E P installation_id repository = reader_get H E P installation_id (repo_path repository) []"

definition workflow_run :: "host \<Rightarrow> gh_env \<Rightarrow> token_provider \<Rightarrow> int \<Rightarrow> string \<Rightarrow> int \<Rightarrow> gh \<Rightarrow> (string \<times> json) list result \<times> gh" where
  "workflow_run H E P installation_id repository run_id = reader_get H E P installation_id (run_path repository run_id) []"

text \<open>
  A list and its \<^verbatim>\<open>total_count\<close>, an integer that is no bool: the list is complete. The lower bound
  is 0 or 1.
\<close>

definition complete_list :: "nat \<Rightarrow> string \<Rightarrow> (string \<times> json) list \<Rightarrow> json list option" where
  "complete_list low name v = (case (jget v name, jget v ''total_count'') of
     (JArr items, JInt count) \<Rightarrow>
       if count = int (length items) \<and> int low \<le> count \<and> count \<le> 100 then Some items else None
   | _ \<Rightarrow> None)"

definition complete_objects :: "nat \<Rightarrow> string \<Rightarrow> (string \<times> json) list \<Rightarrow> (string \<times> json) list list option" where
  "complete_objects low name v = Option.bind (complete_list low name v) objects_of"

text \<open>\<^verbatim>\<open>[.]github/workflows/[A-Za-z0-9_.-]+[.]ya?ml\<close>\<close>

definition WORKFLOW_PATH :: "string \<Rightarrow> bool" where
  "WORKFLOW_PATH s = (let name = drop (length ''.github/workflows/'') s in
     startswith s ''.github/workflows/'' \<and> list_all name_char name
     \<and> (endswith name ''.yml'' \<and> length name > 4 \<or> endswith name ''.yaml'' \<and> length name > 5))"

definition INTENT_BRANCH :: "string \<Rightarrow> bool" where
  "INTENT_BRANCH s = (startswith s ''cross-ai-intent/'' \<and> REQUEST_ID (drop (length ''cross-ai-intent/'') s))"

definition dispatch_window_ok :: "host \<Rightarrow> string \<Rightarrow> string \<Rightarrow> unit result" where
  "dispatch_window_ok H created_from created_to =
     bindE (parse_utc H (JStr created_from)) (\<lambda>start.
     bindE (parse_utc H (JStr created_to)) (\<lambda>end1.
     reject_if [(end1 \<le> start \<or> end1 - start > minutes 15, ''GITHUB_DISPATCH_QUERY_INVALID'')]))"

definition workflow_runs_for_dispatch :: "host \<Rightarrow> gh_env \<Rightarrow> token_provider \<Rightarrow> int \<Rightarrow> string \<Rightarrow> string \<Rightarrow> string \<Rightarrow> string \<Rightarrow> string
    \<Rightarrow> gh \<Rightarrow> (string \<times> json) list list result \<times> gh" where
  "workflow_runs_for_dispatch H E P installation_id repository workflow_path branch created_from created_to s =
     (if \<not> REPOSITORY repository \<or> \<not> WORKFLOW_PATH workflow_path \<or> \<not> INTENT_BRANCH branch
      then (reject ''GITHUB_DISPATCH_QUERY_INVALID'', s)
      else bindS (dispatch_window_ok H created_from created_to, s) (\<lambda>_ s.
        bindS (reader_get H E P installation_id
            (repo_path repository @ ''/actions/workflows/'' @ quote [] workflow_path @ ''/runs'')
            [(''event'', ''workflow_dispatch''), (''created'', created_from @ ''..'' @ created_to), (''per_page'', ''100'')] s) (\<lambda>v s.
        (case complete_objects 0 ''workflow_runs'' v of
           None \<Rightarrow> reject ''GITHUB_DISPATCH_RUNS_INVALID'' | Some runs \<Rightarrow> Inr runs, s))))"

abbreviation ref_invalid :: "'a result" where
  "ref_invalid \<equiv> reject ''GITHUB_REF_INVALID''"

definition ref_target :: "(string \<times> json) list \<Rightarrow> (json \<times> string) result" where
  "ref_target v = (case jget v ''object'' of
     JObj target \<Rightarrow> (case jget target ''sha'' of JStr sha \<Rightarrow> Inr (jget target ''type'', sha) | _ \<Rightarrow> ref_invalid)
   | _ \<Rightarrow> ref_invalid)"

definition live_intent_ref :: "host \<Rightarrow> gh_env \<Rightarrow> token_provider \<Rightarrow> int \<Rightarrow> string \<Rightarrow> string \<Rightarrow> gh \<Rightarrow> intent_ref result \<times> gh" where
  "live_intent_ref H E P installation_id repository request_id s =
     bindS (reader_get H E P installation_id
        (repo_path repository @ ''/git/ref/'' @ quote ''/'' (''tags/cross-ai-intent/'' @ request_id)) [] s) (\<lambda>v s.
     bindS (ref_target v, s) (\<lambda>(target_type, target_sha) s.
     if eq_str target_type ''commit''
     then (Inr \<lparr>ir_ref_object_id = target_sha, ir_head_sha = target_sha, ir_annotated = False\<rparr>, s)
     else if \<not> eq_str target_type ''tag'' then (ref_invalid, s)
     else bindS (reader_get H E P installation_id (repo_path repository @ ''/git/tags/'' @ quote [] target_sha) [] s) (\<lambda>tag s.
       bindS (ref_target tag, s) (\<lambda>(tagged_type, sha) s.
       (if \<not> eq_str tagged_type ''commit'' then ref_invalid
        else Inr \<lparr>ir_ref_object_id = target_sha, ir_head_sha = sha, ir_annotated = True\<rparr>, s)))))"

definition intent_ref_head :: "host \<Rightarrow> gh_env \<Rightarrow> token_provider \<Rightarrow> int \<Rightarrow> string \<Rightarrow> string \<Rightarrow> gh \<Rightarrow> string result \<times> gh" where
  "intent_ref_head H E P installation_id repository request_id s =
     bindS (live_intent_ref H E P installation_id repository request_id s) (\<lambda>r s. (Inr (ir_head_sha r), s))"

text \<open>\<^verbatim>\<open>"".join(content.split())\<close>\<close>

function compact :: "string \<Rightarrow> string" where
  "compact s = (case s of [] \<Rightarrow> [] | c # r \<Rightarrow>
     (case List.find (startswith s) str_spaces of Some w \<Rightarrow> compact (drop (length w - 1) r) | None \<Rightarrow> c # compact r))"
  by pat_completeness auto
termination
  by (relation "measure length") auto

declare compact.simps [simp del]

definition workflow_content :: "host \<Rightarrow> (string \<times> json) list \<Rightarrow> string result" where
  "workflow_content H v =
     (if \<not> eq_str (jget v ''type'') ''file'' \<or> \<not> eq_str (jget v ''encoding'') ''base64'' then reject ''GITHUB_WORKFLOW_INVALID''
      else case jget v ''content'' of
        JStr content \<Rightarrow>
          (case h_b64decode H (compact content) of
             None \<Rightarrow> reject ''GITHUB_WORKFLOW_INVALID''
           | Some raw \<Rightarrow> if length raw > 1024 * 1024 then reject ''GITHUB_WORKFLOW_INVALID'' else Inr raw)
      | _ \<Rightarrow> reject ''GITHUB_WORKFLOW_INVALID'')"

definition workflow_bytes :: "host \<Rightarrow> gh_env \<Rightarrow> token_provider \<Rightarrow> int \<Rightarrow> string \<Rightarrow> string \<Rightarrow> string \<Rightarrow> gh \<Rightarrow> string result \<times> gh" where
  "workflow_bytes H E P installation_id repository workflow_path head_sha s =
     bindS (reader_get H E P installation_id (repo_path repository @ ''/contents/'' @ quote ''/'' workflow_path) [(''ref'', head_sha)] s)
       (\<lambda>v s. (workflow_content H v, s))"

definition environment_of :: "host \<Rightarrow> gh_env \<Rightarrow> token_provider \<Rightarrow> int \<Rightarrow> string \<Rightarrow> string \<Rightarrow> gh \<Rightarrow> (string \<times> json) list result \<times> gh" where
  "environment_of H E P installation_id repository environment =
     reader_get H E P installation_id (repo_path repository @ ''/environments/'' @ quote [] environment) []"

definition repository_runners :: "host \<Rightarrow> gh_env \<Rightarrow> token_provider \<Rightarrow> int \<Rightarrow> string \<Rightarrow> gh \<Rightarrow> (string \<times> json) list list result \<times> gh" where
  "repository_runners H E P installation_id repository s =
     bindS (reader_get H E P installation_id (repo_path repository @ ''/actions/runners'') [(''per_page'', ''100'')] s) (\<lambda>v s.
     (case complete_objects 1 ''runners'' v of
        None \<Rightarrow> reject ''GITHUB_RUNNER_INVENTORY_INVALID'' | Some runners \<Rightarrow> Inr runners, s))"

definition attempt_path :: "string \<Rightarrow> int \<Rightarrow> int \<Rightarrow> string" where
  "attempt_path repository run_id run_attempt = run_path repository run_id @ ''/attempts/'' @ int_dec run_attempt"

definition workflow_run_attempt :: "host \<Rightarrow> gh_env \<Rightarrow> token_provider \<Rightarrow> int \<Rightarrow> string \<Rightarrow> int \<Rightarrow> int \<Rightarrow> gh
    \<Rightarrow> (string \<times> json) list result \<times> gh" where
  "workflow_run_attempt H E P installation_id repository run_id run_attempt s =
     (if min run_id run_attempt < 1 then (reject ''GITHUB_RUN_ATTEMPT_INVALID'', s)
      else reader_get H E P installation_id (attempt_path repository run_id run_attempt) [] s)"

definition workflow_jobs :: "host \<Rightarrow> gh_env \<Rightarrow> token_provider \<Rightarrow> int \<Rightarrow> string \<Rightarrow> int \<Rightarrow> int \<Rightarrow> gh
    \<Rightarrow> (string \<times> json) list list result \<times> gh" where
  "workflow_jobs H E P installation_id repository run_id run_attempt s =
     (if min run_id run_attempt < 1 then (reject ''GITHUB_RUN_ATTEMPT_INVALID'', s)
      else bindS (reader_get H E P installation_id (attempt_path repository run_id run_attempt @ ''/jobs'') [(''per_page'', ''100'')] s) (\<lambda>v s.
        (case complete_objects 1 ''jobs'' v of
           None \<Rightarrow> reject ''GITHUB_JOBS_INVALID''
         | Some jobs \<Rightarrow> if list_ex (\<lambda>job. \<not> eq_int (jget job ''run_attempt'') run_attempt) jobs then reject ''GITHUB_JOBS_INVALID''
             else Inr jobs, s)))"

section \<open>Stage artifacts\<close>

record github_artifact =
  ga_artifact_id :: int
  ga_name :: string
  ga_size_in_bytes :: int

definition artifact_metadata :: "int \<Rightarrow> string \<Rightarrow> (string \<times> json) list \<Rightarrow> github_artifact result" where
  "artifact_metadata run_id artifact_name artifact =
     (case (jget artifact ''id'', jget artifact ''size_in_bytes'') of
        (JInt artifact_id, JInt size1) \<Rightarrow>
          if artifact_id < 1 \<or> \<not> (1 \<le> size1 \<and> size1 \<le> int MAX_STAGE_ARTIFACT_BYTES) \<or> jget artifact ''expired'' \<noteq> JBool False
             \<or> (case jget artifact ''workflow_run'' of JNull \<Rightarrow> False | JObj run \<Rightarrow> \<not> eq_int (jget run ''id'') run_id | _ \<Rightarrow> True)
          then reject ''GITHUB_ARTIFACT_INVALID''
          else Inr \<lparr>ga_artifact_id = artifact_id, ga_name = artifact_name, ga_size_in_bytes = size1\<rparr>
      | _ \<Rightarrow> reject ''GITHUB_ARTIFACT_INVALID'')"

definition named_artifacts :: "string \<Rightarrow> json list \<Rightarrow> (string \<times> json) list list" where
  "named_artifacts artifact_name items =
     List.map_filter (\<lambda>item. case item of JObj o1 \<Rightarrow> if eq_str (jget o1 ''name'') artifact_name then Some o1 else None | _ \<Rightarrow> None) items"

definition workflow_artifact :: "host \<Rightarrow> gh_env \<Rightarrow> token_provider \<Rightarrow> int \<Rightarrow> string \<Rightarrow> int \<Rightarrow> string \<Rightarrow> gh \<Rightarrow> github_artifact result \<times> gh" where
  "workflow_artifact H E P installation_id repository run_id artifact_name s =
     bindS (reader_get H E P installation_id (run_path repository run_id @ ''/artifacts'') [(''per_page'', ''100'')] s) (\<lambda>v s.
     (case complete_list 0 ''artifacts'' v of
        None \<Rightarrow> reject ''GITHUB_ARTIFACT_LIST_INVALID''
      | Some artifacts \<Rightarrow>
          (case named_artifacts artifact_name artifacts of
             [artifact] \<Rightarrow> artifact_metadata run_id artifact_name artifact
           | _ \<Rightarrow> reject ''GITHUB_ARTIFACT_AMBIGUOUS''), s))"

definition redirect_host_ok :: "string \<Rightarrow> bool" where
  "redirect_host_ok hostname = (hostname = ''objects.githubusercontent.com'' \<or> endswith hostname ''.blob.core.windows.net'')"

text \<open>A \<^verbatim>\<open>ValueError\<close> of \<^verbatim>\<open>urlsplit\<close> or of \<^verbatim>\<open>port\<close> is caught.\<close>

definition validated_artifact_redirect :: "web_host \<Rightarrow> string \<Rightarrow> string result" where
  "validated_artifact_redirect W v =
     (case bindE (urlsplit W v) (\<lambda>parsed. bindE (url_port (su_netloc parsed)) (\<lambda>port. Inr (parsed, port))) of
        Inl e \<Rightarrow> reject ''GITHUB_ARTIFACT_REDIRECT_INVALID''
      | Inr (parsed, port) \<Rightarrow>
          if su_scheme parsed \<noteq> ''https'' \<or> \<not> redirect_host_ok (url_hostname parsed) \<or> CHR ''@'' \<in> set (su_netloc parsed)
             \<or> port \<notin> {None, Some 443} \<or> \<not> startswith (su_path parsed) ''/'' \<or> su_fragment parsed \<noteq> []
          then reject ''GITHUB_ARTIFACT_REDIRECT_INVALID'' else Inr v)"

text \<open>An \<^verbatim>\<open>HTTPError\<close> keeps its status and headers and an empty body.\<close>

definition artifact_open :: "gh_env \<Rightarrow> http_request \<Rightarrow> gh \<Rightarrow> http_response result \<times> gh" where
  "artifact_open E rq s = (case send E rq s of (reply, s1) \<Rightarrow>
     (case reply of
        OpenOk status headers body \<Rightarrow>
          let data = take (MAX_STAGE_ARTIFACT_BYTES + 1) body in
          if length data > MAX_STAGE_ARTIFACT_BYTES then reject ''GITHUB_ARTIFACT_TOO_LARGE''
          else Inr \<lparr>hr_status = status, hr_headers = header_dict headers, hr_body = data\<rparr>
      | OpenHttpError status headers body \<Rightarrow> Inr \<lparr>hr_status = status, hr_headers = header_dict headers, hr_body = []\<rparr>
      | OpenFailed \<Rightarrow> reject ''GITHUB_API_UNAVAILABLE''
      | OpenRaises e \<Rightarrow> Inl e, s1))"

definition redirect_location :: "http_response \<Rightarrow> string result" where
  "redirect_location first =
     (let get = map_of (hr_headers first);
          location = (if get ''Location'' \<in> {None, Some []} then get ''location'' else get ''Location'') in
      if hr_status first \<noteq> 302 then reject ''GITHUB_ARTIFACT_DOWNLOAD_FAILED''
      else case location of None \<Rightarrow> reject ''GITHUB_ARTIFACT_DOWNLOAD_FAILED'' | Some l \<Rightarrow> Inr l)"

definition redirect_request :: "string \<Rightarrow> http_request" where
  "redirect_request url = \<lparr>rq_method = ''GET'', rq_url = url, rq_headers = [(''User-Agent'', POLICY_AGENT)], rq_body = None\<rparr>"

definition download :: "host \<Rightarrow> web_host \<Rightarrow> gh_env \<Rightarrow> token_provider \<Rightarrow> int \<Rightarrow> string \<Rightarrow> github_artifact \<Rightarrow> gh \<Rightarrow> string result \<times> gh" where
  "download H W E P installation_id repository artifact s =
     (if \<not> REPOSITORY repository then (reject ''GITHUB_ARTIFACT_INVALID'', s)
      else bindS (token H E P installation_id s) (\<lambda>bearer s.
        bindS (artifact_open E \<lparr>rq_method = ''GET'',
            rq_url = tp_api_origin P @ repo_path repository @ ''/actions/artifacts/'' @ int_dec (ga_artifact_id artifact) @ ''/zip'',
            rq_headers = api_headers bearer POLICY_AGENT, rq_body = None\<rparr> s) (\<lambda>first s.
        bindS (bindE (redirect_location first) (validated_artifact_redirect W), s) (\<lambda>redirect s.
        bindS (artifact_open E (redirect_request redirect) s) (\<lambda>second s.
        (if hr_status second \<noteq> 200 \<or> int (length (hr_body second)) \<noteq> ga_size_in_bytes artifact
         then reject ''GITHUB_ARTIFACT_DOWNLOAD_FAILED'' else Inr (hr_body second), s))))))"

section \<open>The decision callback\<close>

definition ambiguous_status :: "int \<Rightarrow> bool" where
  "ambiguous_status status = (status \<in> {408, 409, 422, 425, 429} \<or> 500 \<le> status \<and> status \<le> 599)"

definition printable :: "string \<Rightarrow> bool" where
  "printable s = list_all (\<lambda>c. 32 \<le> byte c \<and> byte c \<le> 126) s"

definition decision_body :: "string \<Rightarrow> string \<Rightarrow> string \<Rightarrow> json" where
  "decision_body environment state comment =
     JObj [(''comment'', JStr comment), (''environment_name'', JStr environment), (''state'', JStr state)]"

definition callback_answer :: "http_response \<Rightarrow> callback_result" where
  "callback_answer response =
     (let status = hr_status response in
      if status = 204 then
        (if hr_body response \<noteq> [] then \<lparr>cr_accepted = False, cr_ambiguous = True, cr_status = Some 204, cr_reason_code = ''CALLBACK_RESPONSE_AMBIGUOUS''\<rparr>
         else \<lparr>cr_accepted = True, cr_ambiguous = False, cr_status = Some 204, cr_reason_code = ''CALLBACK_ACCEPTED_204''\<rparr>)
      else if ambiguous_status status
      then \<lparr>cr_accepted = False, cr_ambiguous = True, cr_status = Some status, cr_reason_code = ''CALLBACK_HTTP_AMBIGUOUS''\<rparr>
      else \<lparr>cr_accepted = False, cr_ambiguous = False, cr_status = Some status, cr_reason_code = ''CALLBACK_HTTP_REJECTED''\<rparr>)"

definition decision_url :: "token_provider \<Rightarrow> string \<Rightarrow> int \<Rightarrow> string" where
  "decision_url P repository run_id = tp_api_origin P @ run_path repository run_id @ ''/deployment_protection_rule''"

text \<open>An authenticated POST: the token is drawn first, also when it takes a request of its own.\<close>

definition authorized_post :: "host \<Rightarrow> gh_env \<Rightarrow> token_provider \<Rightarrow> int \<Rightarrow> string \<Rightarrow> string \<Rightarrow> string \<Rightarrow> gh \<Rightarrow> http_response result \<times> gh" where
  "authorized_post H E P installation_id agent url body s =
     bindS (token H E P installation_id s) (\<lambda>bearer s.
     transport_request E \<lparr>rq_method = ''POST'', rq_url = url, rq_headers = api_headers bearer agent @ json_content, rq_body = Some body\<rparr> s)"

definition post_decision :: "host \<Rightarrow> gh_env \<Rightarrow> token_provider \<Rightarrow> int \<Rightarrow> string \<Rightarrow> int \<Rightarrow> string \<Rightarrow> string \<Rightarrow> string \<Rightarrow> gh
    \<Rightarrow> callback_result result \<times> gh" where
  "post_decision H E P installation_id repository run_id environment state comment s =
     bindS (reject_if
       [(\<not> REPOSITORY repository \<or> run_id < 1, ''GITHUB_CALLBACK_TARGET_INVALID''),
        (state \<notin> {''approved'', ''rejected''}, ''GITHUB_CALLBACK_STATE_INVALID''),
        (\<not> (1 \<le> py_len environment \<and> py_len environment \<le> 120) \<or> \<not> (1 \<le> py_len comment \<and> py_len comment \<le> 1024) \<or> \<not> printable comment,
         ''GITHUB_CALLBACK_BODY_INVALID'')], s) (\<lambda>_ s.
     bindS (canonical_bytes (decision_body environment state comment), s) (\<lambda>body s.
     catchS (bindS (authorized_post H E P installation_id POLICY_AGENT (decision_url P repository run_id) body s)
         (\<lambda>response s. (Inr (callback_answer response), s))) (\<lambda>code s.
       (if code = ''GITHUB_API_UNAVAILABLE''
        then Inr \<lparr>cr_accepted = False, cr_ambiguous = True, cr_status = None, cr_reason_code = ''CALLBACK_TRANSPORT_AMBIGUOUS''\<rparr>
        else reject code, s))))"

section \<open>The dispatcher's POSTs\<close>

definition DISPATCH_AGENT :: string where
  "DISPATCH_AGENT = ''acik-cross-ai-intent-dispatcher/1''"

text \<open>The token is drawn before the payload is rendered.\<close>

definition dispatcher_post :: "host \<Rightarrow> gh_env \<Rightarrow> token_provider \<Rightarrow> int \<Rightarrow> string \<Rightarrow> json \<Rightarrow> gh \<Rightarrow> http_response result \<times> gh" where
  "dispatcher_post H E P installation_id path payload s =
     bindS (token H E P installation_id s) (\<lambda>bearer s.
     bindS (canonical_bytes payload, s) (\<lambda>body s.
     transport_request E \<lparr>rq_method = ''POST'', rq_url = tp_api_origin P @ path,
       rq_headers = api_headers bearer DISPATCH_AGENT @ json_content, rq_body = Some body\<rparr> s))"

definition create_intent_ref :: "host \<Rightarrow> gh_env \<Rightarrow> token_provider \<Rightarrow> int \<Rightarrow> string \<Rightarrow> string \<Rightarrow> string \<Rightarrow> gh \<Rightarrow> intent_ref result \<times> gh" where
  "create_intent_ref H E P installation_id repository request_id head_sha s =
     (if \<not> REPOSITORY repository \<or> \<not> REQUEST_ID request_id \<or> \<not> HEAD_SHA head_sha then (reject ''GITHUB_INTENT_REF_INVALID'', s)
      else bindS (dispatcher_post H E P installation_id (repo_path repository @ ''/git/refs'')
          (JObj [(''ref'', JStr (''refs/tags/cross-ai-intent/'' @ request_id)), (''sha'', JStr head_sha)]) s) (\<lambda>response s.
        bindS (reject_if [(hr_status response \<notin> {201, 422}, ''GITHUB_INTENT_REF_CREATE_FAILED'')], s) (\<lambda>_ s.
        bindS (live_intent_ref H E P installation_id repository request_id s) (\<lambda>live_ref s.
        (if ir_head_sha live_ref \<noteq> head_sha then reject ''GITHUB_INTENT_REF_COLLISION'' else Inr live_ref, s)))))"

definition dispatch_answer :: "http_response \<Rightarrow> dispatch_result" where
  "dispatch_answer response =
     (let status = hr_status response in
      if status = 204 \<and> hr_body response = []
      then \<lparr>dr_accepted = True, dr_ambiguous = False, dr_status = Some 204, dr_reason_code = ''DISPATCH_ACCEPTED_204''\<rparr>
      else if status = 204 \<or> ambiguous_status status
      then \<lparr>dr_accepted = False, dr_ambiguous = True, dr_status = Some status, dr_reason_code = ''DISPATCH_HTTP_AMBIGUOUS''\<rparr>
      else \<lparr>dr_accepted = False, dr_ambiguous = False, dr_status = Some status, dr_reason_code = ''DISPATCH_HTTP_REJECTED''\<rparr>)"

definition dispatch_workflow :: "host \<Rightarrow> gh_env \<Rightarrow> token_provider \<Rightarrow> int \<Rightarrow> string \<Rightarrow> string \<Rightarrow> string \<Rightarrow> gh \<Rightarrow> dispatch_result result \<times> gh" where
  "dispatch_workflow H E P installation_id repository workflow_path request_id s =
     (if \<not> REPOSITORY repository \<or> \<not> startswith workflow_path ''.github/workflows/'' \<or> \<not> REQUEST_ID request_id
      then (reject ''GITHUB_WORKFLOW_DISPATCH_INVALID'', s)
      else catchS (bindS (dispatcher_post H E P installation_id
            (repo_path repository @ ''/actions/workflows/'' @ quote [] workflow_path @ ''/dispatches'')
            (JObj [(''ref'', JStr (''cross-ai-intent/'' @ request_id))]) s)
          (\<lambda>response s. (Inr (dispatch_answer response), s))) (\<lambda>code s.
        (if code = ''GITHUB_API_UNAVAILABLE''
         then Inr \<lparr>dr_accepted = False, dr_ambiguous = True, dr_status = None, dr_reason_code = ''DISPATCH_TRANSPORT_AMBIGUOUS''\<rparr>
         else reject code, s)))"

end
