(* ===== verification/GithubProps.thy ===== *)
theory GithubProps
  imports Github ServiceProps IntakeProps
begin

text \<open>
  What the GitHub client guarantees: where the App's credentials travel, which tokens it hands
  out, and what its answers say about the requests that GitHub saw.
\<close>

section \<open>Requests\<close>

definition has_authorization :: "http_request \<Rightarrow> bool" where
  "has_authorization rq = (\<exists>v. (''Authorization'', v) \<in> set (rq_headers rq))"

text \<open>A request with credentials goes to the API, one without to an allowlisted artifact host.\<close>

definition proper :: "web_host \<Rightarrow> token_provider \<Rightarrow> http_request \<Rightarrow> bool" where
  "proper W P rq =
     (if has_authorization rq then startswith (rq_url rq) (tp_api_origin P @ ''/'')
      else rq_body rq = None \<and> validated_artifact_redirect W (rq_url rq) = Inr (rq_url rq))"

definition sends_proper :: "web_host \<Rightarrow> token_provider \<Rightarrow> gh \<Rightarrow> gh \<Rightarrow> bool" where
  "sends_proper W P s t = (\<exists>rs. gh_sent t = gh_sent s @ rs \<and> (\<forall>rq \<in> set rs. proper W P rq))"

interpretation pr: kept_relation "sends_proper W P" for W P
proof unfold_locales
  show "sends_proper W P s u" if "sends_proper W P s t" "sends_proper W P t u" for s t u
    using that unfolding sends_proper_def by (metis Un_iff append.assoc set_append)
qed (simp add: sends_proper_def)

lemma authorized_proper:
  "proper W P \<lparr>rq_method = m, rq_url = tp_api_origin P @ CHR ''/'' # path, rq_headers = api_headers bearer agent @ extra, rq_body = b\<rparr>"
proof -
  have "tp_api_origin P @ CHR ''/'' # path = (tp_api_origin P @ ''/'') @ path" by simp
  then have "startswith (tp_api_origin P @ CHR ''/'' # path) (tp_api_origin P @ ''/'')" by (metis startswith_append)
  then show ?thesis by (auto simp: proper_def has_authorization_def api_headers_def)
qed

lemmas authorized_bare = authorized_proper [where extra = "[]", unfolded append_Nil2]

lemma redirect_value: "validated_artifact_redirect W v = Inr u \<Longrightarrow> u = v"
  by (auto simp: validated_artifact_redirect_def split: sum.splits if_splits prod.splits)

lemma redirect_proper: "validated_artifact_redirect W v = Inr u \<Longrightarrow> proper W P (redirect_request u)"
  using redirect_value [of W v u] by (auto simp: proper_def has_authorization_def redirect_request_def)

lemma request_sends:
  assumes "proper W P rq"
  shows "sends_proper W P s (snd (transport_request E rq s))" "sends_proper W P s (snd (artifact_open E rq s))"
  using assms by (simp_all add: sends_proper_def transport_request_def artifact_open_def send_def)

lemma clock_sends: "sends_proper W P s (snd (read_clock E s))"
  by (simp add: sends_proper_def read_clock_def)

lemma jwt_sends: "sends_proper W P s (snd (app_jwt E P s))"
  unfolding app_jwt_def by (rule pr.bindS_kept [OF clock_sends]) (simp add: pr.R_refl)

lemma token_request_proper: "proper W P (token_request P i jwt)"
  by (simp add: token_request_def authorized_proper)

lemma cache_update_sends: "sends_proper W P s (s\<lparr>gh_tokens := c\<rparr>)"
  by (simp add: sends_proper_def)

lemma fetch_token_sends: "sends_proper W P s (snd (fetch_token H E P i now s))"
  unfolding fetch_token_def
  by (intro pr.bindS_kept jwt_sends request_sends token_request_proper) (simp add: cache_update_sends pr.R_refl split: sum.splits)

lemma token_sends: "sends_proper W P s (snd (token H E P i s))"
  unfolding token_def
  by (auto intro!: pr.bindS_kept [OF clock_sends] simp: fetch_token_sends pr.R_refl split: option.splits)

lemma reader_get_sends: "sends_proper W P s (snd (reader_get H E P i (CHR ''/'' # path) query s))"
  unfolding reader_get_def get_url_def
  by (intro pr.bindS_kept token_sends request_sends) (simp_all add: authorized_bare pr.R_refl)

lemma delivery_get_sends: "sends_proper W P s (snd (delivery_get E P jwt (CHR ''/'' # path) s))"
  unfolding delivery_get_def by (intro pr.bindS_kept request_sends) (simp_all add: authorized_bare pr.R_refl)

lemma dispatcher_post_sends: "sends_proper W P s (snd (dispatcher_post H E P i (CHR ''/'' # path) payload s))"
  unfolding dispatcher_post_def
  by (intro pr.bindS_kept token_sends request_sends) (simp_all add: authorized_proper pr.R_refl)

lemma authorized_post_sends: "sends_proper W P s (snd (authorized_post H E P i agent (tp_api_origin P @ CHR ''/'' # path) body s))"
  unfolding authorized_post_def
  by (intro pr.bindS_kept token_sends request_sends) (simp_all add: authorized_proper)

section \<open>Every operation of the client\<close>

text \<open>One call of the client, by any component and with whatever GitHub answers.\<close>

inductive gh_step :: "host \<Rightarrow> web_host \<Rightarrow> token_provider \<Rightarrow> gh \<Rightarrow> gh \<Rightarrow> bool" where
  jwt_step: "gh_step H W P s (snd (app_jwt E P s))"
| token_step: "gh_step H W P s (snd (token H E P i s))"
| list_step: "gh_step H W P s (snd (list_deliveries H W E P jwt cursor s))"
| delivery_step: "gh_step H W P s (snd (delivery H E P jwt d s))"
| repository_step: "gh_step H W P s (snd (repository_of H E P i r s))"
| run_step: "gh_step H W P s (snd (workflow_run H E P i r n s))"
| runs_step: "gh_step H W P s (snd (workflow_runs_for_dispatch H E P i r wp b c1 c2 s))"
| ref_step: "gh_step H W P s (snd (live_intent_ref H E P i r rid s))"
| head_step: "gh_step H W P s (snd (intent_ref_head H E P i r rid s))"
| bytes_step: "gh_step H W P s (snd (workflow_bytes H E P i r wp sha s))"
| environment_step: "gh_step H W P s (snd (environment_of H E P i r e s))"
| runners_step: "gh_step H W P s (snd (repository_runners H E P i r s))"
| attempt_step: "gh_step H W P s (snd (workflow_run_attempt H E P i r n a s))"
| jobs_step: "gh_step H W P s (snd (workflow_jobs H E P i r n a s))"
| artifact_step: "gh_step H W P s (snd (workflow_artifact H E P i r n name s))"
| download_step: "gh_step H W P s (snd (download H W E P i r art s))"
| decision_step: "gh_step H W P s (snd (post_decision H E P i r n e st c s))"
| create_step: "gh_step H W P s (snd (create_intent_ref H E P i r rid sha s))"
| dispatch_step: "gh_step H W P s (snd (dispatch_workflow H E P i r wp rid s))"

lemmas read_sends = pr.bindS_kept [OF reader_get_sends]

lemma read_ops_send:
  "sends_proper W P s (snd (repository_of H E P i r s))"
  "sends_proper W P s (snd (workflow_run H E P i r n s))"
  "sends_proper W P s (snd (environment_of H E P i r e s))"
  "sends_proper W P s (snd (workflow_run_attempt H E P i r n a s))"
  by (simp_all add: repository_of_def workflow_run_def environment_of_def workflow_run_attempt_def attempt_path_def reader_get_sends pr.R_refl)

lemma list_ops_send:
  "sends_proper W P s (snd (workflow_bytes H E P i r wp sha s))"
  "sends_proper W P s (snd (repository_runners H E P i r s))"
  "sends_proper W P s (snd (workflow_jobs H E P i r n a s))"
  "sends_proper W P s (snd (workflow_artifact H E P i r n name s))"
  by (simp_all add: workflow_bytes_def repository_runners_def workflow_jobs_def attempt_path_def workflow_artifact_def read_sends pr.R_refl)

lemma runs_send: "sends_proper W P s (snd (workflow_runs_for_dispatch H E P i r wp b c1 c2 s))"
  by (auto simp: workflow_runs_for_dispatch_def pr.R_refl intro!: pr.bindS_kept [where s = s] read_sends)

lemma ref_sends: "sends_proper W P s (snd (live_intent_ref H E P i r rid s))"
  unfolding live_intent_ref_def
  by (auto simp: pr.R_refl split: prod.splits intro!: read_sends pr.bindS_kept [where m = "(x, t)" for x t])

lemma head_sends: "sends_proper W P s (snd (intent_ref_head H E P i r rid s))"
  unfolding intent_ref_head_def by (rule pr.bindS_kept [OF ref_sends]) (simp add: pr.R_refl)

lemma deliveries_send:
  "sends_proper W P s (snd (list_deliveries H W E P jwt cursor s))"
  "sends_proper W P s (snd (delivery H E P jwt d s))"
  by (auto simp: list_deliveries_def delivery_def Let_def pr.R_refl intro!: pr.bindS_kept [OF delivery_get_sends])

lemma download_sends: "sends_proper W P s (snd (download H W E P i r art s))"
proof -
  have "sends_proper W P s (snd (bindS (bindE m (validated_artifact_redirect W), s) (\<lambda>redirect s.
      bindS (artifact_open E (redirect_request redirect) s) (\<lambda>second s. (f second, s)))))" for m s and f :: "http_response \<Rightarrow> string result"
    by (intro pr.bindS_kept request_sends) (auto simp: pr.R_refl bindE_Inr_iff intro: redirect_proper)
  then show ?thesis
    unfolding download_def
    by (auto simp: pr.R_refl authorized_bare intro!: pr.bindS_kept [OF token_sends] pr.bindS_kept [OF request_sends(2)])
qed

lemma decision_sends: "sends_proper W P s (snd (post_decision H E P i r n e st c s))"
  unfolding post_decision_def decision_url_def
  by (intro pr.bindS_kept [where m = "(x, t)" for x t] pr.catchS_kept pr.bindS_kept [OF authorized_post_sends]
    | simp add: pr.R_refl authorized_post_sends)+

lemma dispatch_sends: "sends_proper W P s (snd (dispatch_workflow H E P i r wp rid s))"
  by (auto simp: dispatch_workflow_def pr.R_refl intro!: pr.catchS_kept pr.bindS_kept [OF dispatcher_post_sends])

lemma create_sends: "sends_proper W P s (snd (create_intent_ref H E P i r rid sha s))"
  by (auto simp: create_intent_ref_def pr.R_refl
      intro!: pr.bindS_kept [OF dispatcher_post_sends] pr.bindS_kept [OF ref_sends] pr.bindS_kept [where m = "(x, t)" for x t])

lemma step_sends: "gh_step H W P s t \<Longrightarrow> sends_proper W P s t"
  by (induction rule: gh_step.induct)
    (simp_all add: jwt_sends token_sends deliveries_send read_ops_send list_ops_send runs_send ref_sends head_sends download_sends
      decision_sends create_sends dispatch_sends)

section \<open>Where credentials travel\<close>

definition all_proper :: "web_host \<Rightarrow> token_provider \<Rightarrow> gh \<Rightarrow> bool" where
  "all_proper W P s = (\<forall>rq \<in> set (gh_sent s). proper W P rq)"

interpretation gi: invariant_system "gh_step H W P" "\<lambda>s. gh_sent s = []" "all_proper W P" for H W P
  by unfold_locales (auto simp: all_proper_def sends_proper_def dest!: step_sends)

lemma redirect_allowed:
  assumes "validated_artifact_redirect W v = Inr u"
  obtains parsed where "urlsplit W v = Inr parsed" "su_scheme parsed = ''https''" "redirect_host_ok (url_hostname parsed)"
    "CHR ''@'' \<notin> set (su_netloc parsed)" "url_port (su_netloc parsed) \<in> {Inr None, Inr (Some 443)}"
  using assms by (auto simp: validated_artifact_redirect_def bindE_Inr_iff split: sum.splits if_splits prod.splits)

text \<open>
  C32: the App's credentials stay at the API origin. Through any sequence of client calls and
  whatever GitHub answers, every request with an Authorization header goes to a path below
  the configured origin; every other request is a body-less download from an allowlisted artifact
  host over HTTPS, without user information and on the default port.
\<close>

theorem credentials_stay_at_origin:
  assumes "(gh_step H W P)\<^sup>*\<^sup>* s t" "gh_sent s = []" "rq \<in> set (gh_sent t)"
  shows "if has_authorization rq then startswith (rq_url rq) (tp_api_origin P @ ''/'')
    else rq_body rq = None \<and> (\<exists>u. urlsplit W (rq_url rq) = Inr u \<and> su_scheme u = ''https''
      \<and> (url_hostname u = ''objects.githubusercontent.com'' \<or> endswith (url_hostname u) ''.blob.core.windows.net'')
      \<and> CHR ''@'' \<notin> set (su_netloc u) \<and> url_port (su_netloc u) \<in> {Inr None, Inr (Some 443)})"
proof -
  have "all_proper W P t" using gi.inv_reachable [OF assms(2,1)] .
  with assms(3) have "proper W P rq" by (simp add: all_proper_def)
  then show ?thesis unfolding proper_def redirect_host_ok_def [symmetric]
    by (metis (no_types, lifting) redirect_allowed)
qed

section \<open>Tokens\<close>

lemma bindE_InrE:
  assumes "bindE m f = Inr y"
  obtains x where "m = Inr x" "f x = Inr y"
  using assms by (auto simp: bindE_Inr_iff)

lemma read_clock_eq: "read_clock E s = (Inr (ge_now E (gh_reads s)), s\<lparr>gh_reads := Suc (gh_reads s)\<rparr>)"
  by (simp add: read_clock_def)

lemma app_jwt_frame: "app_jwt E P s = (r, t) \<Longrightarrow> gh_tokens t = gh_tokens s \<and> gh_sent t = gh_sent s"
  by (auto simp: app_jwt_def read_clock_eq bindS_Inr)

lemma transport_frame: "transport_request E rq s = (r, t) \<Longrightarrow> gh_tokens t = gh_tokens s \<and> gh_sent t = gh_sent s @ [rq]"
  by (auto simp: transport_request_def send_def)

text \<open>GitHub's answer: its status and body.\<close>

definition reply_of :: "opened \<Rightarrow> (int \<times> string) option" where
  "reply_of r = (case r of OpenOk status _ body \<Rightarrow> Some (status, body) | OpenHttpError status _ body \<Rightarrow> Some (status, body) | _ \<Rightarrow> None)"

lemma transport_answer:
  assumes "transport_request E rq s = (Inr response, t)"
  obtains body where "reply_of (ge_open E (length (gh_sent s)) rq) = Some (hr_status response, body)"
    "hr_body response = take (MAX_GITHUB_RESPONSE_BYTES + 1) body"
  using assms by (auto simp: transport_request_def send_def reply_of_def Let_def split: opened.split_asm if_split_asm)

lemma token_answer_Inr:
  "token_answer H now response = Inr c \<Longrightarrow> hr_status response = 201 \<and> 20 \<le> py_len (ct_token c) \<and> ct_expires_at c > now + minutes 2
    \<and> (\<exists>payload. json_object H (hr_body response) = Inr payload \<and> jget payload ''token'' = JStr (ct_token c)
         \<and> parse_utc H (jget payload ''expires_at'') = Inr (ct_expires_at c))"
  unfolding token_answer_def by (auto elim!: bindE_InrE split: if_split_asm json.split_asm)

text \<open>
  The cache entry \<open>c\<close> is what GitHub's answer to the token request says: status 201 and a JSON object
  with this text as its token and this instant as its expiry, more than two minutes after \<open>now\<close>.
\<close>

definition answered_token :: "host \<Rightarrow> opened \<Rightarrow> datetime \<Rightarrow> cached_token \<Rightarrow> bool" where
  "answered_token H reply now c = (\<exists>body payload. reply_of reply = Some (201, body)
     \<and> json_object H (take (MAX_GITHUB_RESPONSE_BYTES + 1) body) = Inr payload \<and> jget payload ''token'' = JStr (ct_token c)
     \<and> parse_utc H (jget payload ''expires_at'') = Inr (ct_expires_at c) \<and> ct_expires_at c > now + minutes 2
     \<and> 20 \<le> py_len (ct_token c))"

lemma fetch_token_Inr:
  assumes "fetch_token H E P i now s = (Inr bearer, t)"
  obtains c jwt where "gh_tokens t = (gh_tokens s)(i \<mapsto> c)" "ct_token c = bearer" "fst (app_jwt E P s) = Inr jwt"
    "gh_sent t = gh_sent s @ [token_request P i jwt]"
    "answered_token H (ge_open E (length (gh_sent s)) (token_request P i jwt)) now c"
proof -
  from assms obtain jwt u response v c where f:
    "app_jwt E P s = (Inr jwt, u)" "transport_request E (token_request P i jwt) u = (Inr response, v)"
    "token_answer H now response = Inr c" "bearer = ct_token c" "t = v\<lparr>gh_tokens := (gh_tokens v)(i \<mapsto> c)\<rparr>"
    unfolding fetch_token_def by (elim bindS_InrE) (auto split: sum.split_asm)
  note u = app_jwt_frame [OF f(1)] and v = transport_frame [OF f(2)] and c = token_answer_Inr [OF f(3)]
  obtain body where "reply_of (ge_open E (length (gh_sent u)) (token_request P i jwt)) = Some (hr_status response, body)"
    "hr_body response = take (MAX_GITHUB_RESPONSE_BYTES + 1) body" using f(2) by (rule transport_answer)
  with u c have "answered_token H (ge_open E (length (gh_sent s)) (token_request P i jwt)) now c"
    unfolding answered_token_def by auto
  with that [of c jwt] u v f show thesis by simp
qed

text \<open>
  C33: no stale token is used. A call that returns a token either returns the cached one, which is valid for more than two
  minutes from the moment of the call, and changes nothing; or no such token was cached, exactly one token
  request with a fresh App JWT was sent, and the token and the expiry that are cached with it are those of GitHub's
  answer to this request, with status 201, at least twenty characters and more than two minutes left. The tokens of
  other installations are untouched.
\<close>

theorem token_is_fresh:
  assumes "token H E P i s = (Inr bearer, t)"
  shows "1 \<le> i \<and> (if \<exists>c. gh_tokens s i = Some c \<and> ct_expires_at c > ge_now E (gh_reads s) + minutes 2
    then gh_tokens t = gh_tokens s \<and> gh_sent t = gh_sent s \<and> map_option ct_token (gh_tokens s i) = Some bearer
    else \<exists>jwt body payload c. gh_tokens t = (gh_tokens s)(i \<mapsto> c) \<and> ct_token c = bearer
      \<and> fst (app_jwt E P (s\<lparr>gh_reads := Suc (gh_reads s)\<rparr>)) = Inr jwt \<and> gh_sent t = gh_sent s @ [token_request P i jwt]
      \<and> reply_of (ge_open E (length (gh_sent s)) (token_request P i jwt)) = Some (201, body)
      \<and> json_object H (take (MAX_GITHUB_RESPONSE_BYTES + 1) body) = Inr payload \<and> jget payload ''token'' = JStr bearer
      \<and> parse_utc H (jget payload ''expires_at'') = Inr (ct_expires_at c)
      \<and> ct_expires_at c > ge_now E (gh_reads s) + minutes 2 \<and> 20 \<le> py_len bearer)"
proof -
  define u now where "u = s\<lparr>gh_reads := Suc (gh_reads s)\<rparr>" and "now = ge_now E (gh_reads s)"
  then have u: "gh_tokens u = gh_tokens s" "gh_sent u = gh_sent s" and clock: "read_clock E s = (Inr now, u)"
    by (simp_all add: read_clock_eq)
  from assms have i: "1 \<le> i" by (simp add: token_def split: if_split_asm)
  from assms i have eq: "(case gh_tokens s i of Some c \<Rightarrow> if ct_expires_at c > now + minutes 2 then (Inr (ct_token c), u)
      else fetch_token H E P i now u | None \<Rightarrow> fetch_token H E P i now u) = (Inr bearer, t)"
    unfolding token_def clock bindS_Inr u by simp
  show ?thesis
  proof (cases "\<exists>c. gh_tokens s i = Some c \<and> ct_expires_at c > now + minutes 2")
    case True
    with eq i u show ?thesis unfolding now_def by auto
  next
    case False
    with eq have "fetch_token H E P i now u = (Inr bearer, t)" by (cases "gh_tokens s i") simp_all
    then obtain c jwt where "gh_tokens t = (gh_tokens u)(i \<mapsto> c)" "ct_token c = bearer" "fst (app_jwt E P u) = Inr jwt"
      "gh_sent t = gh_sent u @ [token_request P i jwt]"
      "answered_token H (ge_open E (length (gh_sent u)) (token_request P i jwt)) now c" by (rule fetch_token_Inr)
    with False i u show ?thesis unfolding now_def u_def answered_token_def by auto
  qed
qed

section \<open>Answers to a POST\<close>

text \<open>
  What the answer to a POST says of the requests that were sent: at most one of them went to the
  URL, with that body, and it was the last; an answer that is not ambiguous reports GitHub's own
  status, which is accepted exactly for 204 with an empty body, and neither 204 nor one of the
  ambiguous statuses otherwise.
\<close>

definition exact_answer :: "gh_env \<Rightarrow> string \<Rightarrow> string \<Rightarrow> gh \<Rightarrow> gh \<Rightarrow> bool \<Rightarrow> bool \<Rightarrow> int option \<Rightarrow> bool" where
  "exact_answer E url body s t accepted ambiguous status = (\<exists>sent. gh_sent t = gh_sent s @ sent
     \<and> length (filter (\<lambda>rq. rq_url rq = url) sent) \<le> 1
     \<and> (\<forall>rq \<in> set sent. rq_url rq = url \<longrightarrow> rq_method rq = ''POST'' \<and> rq_body rq = Some body)
     \<and> (\<not> ambiguous \<longrightarrow> sent \<noteq> [] \<and> rq_url (last sent) = url
          \<and> (\<exists>n reply. reply_of (ge_open E (length (gh_sent t) - 1) (last sent)) = Some (n, reply) \<and> status = Some n
              \<and> (accepted \<longleftrightarrow> n = 204 \<and> reply = [])
              \<and> (\<not> accepted \<longrightarrow> n \<noteq> 204 \<and> \<not> ambiguous_status n)))
     \<and> \<not> (accepted \<and> ambiguous))"

lemma token_sent: "token H E P i s = (r, t) \<Longrightarrow> gh_sent t = gh_sent s \<or> (\<exists>jwt. gh_sent t = gh_sent s @ [token_request P i jwt])"
proof -
  have "gh_sent (snd (fetch_token H E P i now u)) = gh_sent u \<or> (\<exists>jwt. gh_sent (snd (fetch_token H E P i now u)) = gh_sent u @ [token_request P i jwt])" for now u
  proof (cases "app_jwt E P u")
    case (Pair r1 v)
    then show ?thesis
    proof (cases r1)
      case (Inr jwt)
      obtain r2 w where w: "transport_request E (token_request P i jwt) v = (r2, w)" by fastforce
      with app_jwt_frame [OF Pair] transport_frame [OF w] show ?thesis
        by (auto simp: fetch_token_def Pair Inr bindS_def split: sum.splits)
    qed (use app_jwt_frame [OF Pair] in \<open>simp add: fetch_token_def Pair bindS_def\<close>)
  qed
  note fetch = this [of _ "s\<lparr>gh_reads := Suc (gh_reads s)\<rparr>"]
  assume "token H E P i s = (r, t)"
  then have "t = snd (token H E P i s)" by simp
  then show ?thesis using fetch
    unfolding token_def read_clock_eq bindS_Inr by (cases "gh_tokens s i") (simp_all split: if_splits)
qed

lemma token_url: "rq_url (token_request P i jwt) \<noteq> tp_api_origin P @ ''/repos/'' @ path"
  by (simp add: token_request_def)

lemma transport_reply:
  assumes "transport_request E rq s = (Inr response, t)"
  shows "\<exists>reply. reply_of (ge_open E (length (gh_sent t) - 1) rq) = Some (hr_status response, reply) \<and> (hr_body response = [] \<longleftrightarrow> reply = [])"
proof -
  have "MAX_GITHUB_RESPONSE_BYTES + 1 \<noteq> 0" by simp
  then show ?thesis using assms
    by (auto simp: transport_request_def send_def reply_of_def Let_def split: opened.split_asm if_split_asm)
qed

lemma exact_sent:
  assumes "token H E P i s = (r, u)" and "url = tp_api_origin P @ ''/repos/'' @ path" and "gh_sent t = gh_sent u @ ps"
    and "length ps \<le> 1" "\<forall>rq \<in> set ps. rq_method rq = ''POST'' \<and> rq_url rq = url \<and> rq_body rq = Some body"
  obtains sent where "gh_sent t = gh_sent s @ sent @ ps" "length (filter (\<lambda>rq. rq_url rq = url) (sent @ ps)) \<le> 1"
    "\<forall>rq \<in> set (sent @ ps). rq_url rq = url \<longrightarrow> rq_method rq = ''POST'' \<and> rq_body rq = Some body"
proof -
  from token_sent [OF assms(1)] obtain sent where "gh_sent u = gh_sent s @ sent" "\<forall>rq \<in> set sent. rq_url rq \<noteq> url"
    using token_url [of P i _ path] unfolding assms(2) by fastforce
  then have s: "gh_sent u = gh_sent s @ sent" "filter (\<lambda>rq. rq_url rq = url) sent = []" by (auto simp: filter_empty_conv)
  have "length (filter (\<lambda>rq. rq_url rq = url) ps) \<le> 1" by (rule order_trans [OF length_filter_le assms(4)])
  with s assms(3,5) show thesis by (intro that [of sent]) (auto simp: filter_empty_conv)
qed

lemma unanswered_exactly:
  assumes "token H E P i s = (r, u)" and "url = tp_api_origin P @ ''/repos/'' @ path"
    and "gh_sent t = gh_sent u @ ps" "length ps \<le> 1"
    and "\<forall>rq \<in> set ps. rq_method rq = ''POST'' \<and> rq_url rq = url \<and> rq_body rq = Some body"
  shows "exact_answer E url body s t False True status"
  by (rule exact_sent [OF assms]) (auto simp: exact_answer_def)

lemma answered_exactly:
  assumes "token H E P i s = (Inr bearer, u)" and "url = tp_api_origin P @ ''/repos/'' @ path"
    and rq: "rq_method rq = ''POST''" "rq_url rq = url" "rq_body rq = Some body" and t: "transport_request E rq u = (Inr response, t)"
    and "accepted \<longleftrightarrow> hr_status response = 204 \<and> hr_body response = []"
    and "\<not> ambiguous \<Longrightarrow> status = Some (hr_status response)"
    and "\<not> ambiguous \<Longrightarrow> \<not> accepted \<Longrightarrow> hr_status response \<noteq> 204 \<and> \<not> ambiguous_status (hr_status response)"
    and "\<not> (accepted \<and> ambiguous)"
  shows "exact_answer E url body s t accepted ambiguous status"
proof -
  from transport_frame [OF t] have "gh_sent t = gh_sent u @ [rq]" by simp
  from exact_sent [OF assms(1,2) this, of body] rq obtain sent where sent: "gh_sent t = gh_sent s @ sent @ [rq]"
    "length (filter (\<lambda>rq. rq_url rq = url) (sent @ [rq])) \<le> 1"
    "\<forall>rq \<in> set (sent @ [rq]). rq_url rq = url \<longrightarrow> rq_method rq = ''POST'' \<and> rq_body rq = Some body" by auto
  obtain reply where reply: "reply_of (ge_open E (length (gh_sent t) - 1) rq) = Some (hr_status response, reply)"
    "hr_body response = [] \<longleftrightarrow> reply = []" using transport_reply [OF t] by blast
  from assms(7-) sent reply rq(2) show ?thesis
    unfolding exact_answer_def by (intro exI [of _ "sent @ [rq]"]) auto
qed

text \<open>The common shape of the two calls: an authorized POST, its answer, and the transport error caught.\<close>

lemma posted_exactly:
  assumes run: "catchS (bindS (authorized_post H E P i agent url body s) (\<lambda>response s. (Inr (f response), s)))
      (\<lambda>code s. (if code = ''GITHUB_API_UNAVAILABLE'' then Inr lost else reject code, s)) = (Inr c, t)"
    and url: "url = tp_api_origin P @ ''/repos/'' @ path"
    and lost: "\<not> acc lost" "amb lost"
    and f: "\<And>r. acc (f r) \<longleftrightarrow> hr_status r = 204 \<and> hr_body r = []" "\<And>r. \<not> amb (f r) \<Longrightarrow> st (f r) = Some (hr_status r)"
      "\<And>r. \<not> amb (f r) \<Longrightarrow> \<not> acc (f r) \<Longrightarrow> hr_status r \<noteq> 204 \<and> \<not> ambiguous_status (hr_status r)" "\<And>r. \<not> (acc (f r) \<and> amb (f r))"
  shows "exact_answer E url body s t (acc c) (amb c) (st c)"
proof -
  obtain r u where u: "token H E P i s = (r, u)" by fastforce
  show ?thesis
  proof (cases r)
    case (Inl e)
    with run u have "t = u" "c = lost"
      by (auto simp: authorized_post_def bindS_def catchS_def split: perror.split_asm if_split_asm)
    with unanswered_exactly [OF u url, of t "[]"] lost show ?thesis by simp
  next
    case (Inr bearer)
    let ?rq = "\<lparr>rq_method = ''POST'', rq_url = url, rq_headers = api_headers bearer agent @ json_content, rq_body = Some body\<rparr>"
    obtain r2 w where w: "transport_request E ?rq u = (r2, w)" by fastforce
    show ?thesis
    proof (cases r2)
      case (Inl e)
      with run u w Inr have "t = w" "c = lost"
        by (auto simp: authorized_post_def bindS_def catchS_def split: perror.split_asm if_split_asm)
      with unanswered_exactly [OF u url, of t "[?rq]" body] transport_frame [OF w] lost show ?thesis by simp
    next
      case response: (Inr response)
      with run u w Inr have "t = w" "c = f response" by (auto simp: authorized_post_def bindS_def catchS_def)
      with w response f show ?thesis by (intro answered_exactly [OF u [unfolded Inr] url, of ?rq]) simp_all
    qed
  qed
qed

text \<open>
  C34: the verdict on a decision callback is exact. When the client returns, it sent at most one
  request to the run's decision route, with the canonical body of exactly this decision. It reports
  acceptance only for GitHub's 204 with an empty body, and a definitive failure only for a status
  that is neither 204 nor ambiguous; whatever else happened, also a failed token request, is ambiguous.
\<close>

theorem decision_answer_exact:
  assumes "post_decision H E P i repository run_id environment state comment s = (Inr c, t)"
  shows "\<exists>body. canonical_bytes (decision_body environment state comment) = Inr body
    \<and> REPOSITORY repository \<and> 1 \<le> run_id \<and> state \<in> {''approved'', ''rejected''} \<and> printable comment
    \<and> exact_answer E (decision_url P repository run_id) body s t (cr_accepted c) (cr_ambiguous c) (cr_status c)"
proof -
  from assms obtain body where b: "canonical_bytes (decision_body environment state comment) = Inr body"
    and g: "REPOSITORY repository" "1 \<le> run_id" "state \<in> {''approved'', ''rejected''}" "printable comment"
    and run: "catchS (bindS (authorized_post H E P i POLICY_AGENT (decision_url P repository run_id) body s) (\<lambda>response s. (Inr (callback_answer response), s)))
      (\<lambda>code s. (if code = ''GITHUB_API_UNAVAILABLE''
        then Inr \<lparr>cr_accepted = False, cr_ambiguous = True, cr_status = None, cr_reason_code = ''CALLBACK_TRANSPORT_AMBIGUOUS''\<rparr>
        else reject code, s)) = (Inr c, t)"
    unfolding post_decision_def by (auto elim!: bindS_InrE)
  have "exact_answer E (decision_url P repository run_id) body s t (cr_accepted c) (cr_ambiguous c) (cr_status c)"
    by (rule posted_exactly [OF run, where path = "repository @ ''/actions/runs/'' @ int_dec run_id @ ''/deployment_protection_rule''"])
      (auto simp: decision_url_def callback_answer_def Let_def split: if_split_asm)
  with b g show ?thesis by blast
qed

lemma ascii_points: "list_all (\<lambda>n. n < 128) xs \<Longrightarrow> utf8_points xs = xs"
  by (induction xs rule: utf8_points.induct) auto

lemma ascii_text: "list_all (\<lambda>c. byte c < 128) s \<Longrightarrow> validate_string s = Inr ()"
  by (auto simp: validate_string_def code_points_def ascii_points list_all_iff list_ex_iff)

lemma request_id_ascii: "REQUEST_ID rid \<Longrightarrow> list_all (\<lambda>c. byte c < 128) rid"
proof -
  assume "REQUEST_ID rid"
  then have "list_all2 (\<lambda>c cls. c \<in> set cls) rid uuid_classes" by (simp add: REQUEST_ID_def)
  moreover have "\<forall>cls \<in> set uuid_classes. \<forall>c \<in> set cls. byte c < 128" by code_simp
  ultimately show ?thesis by (induction rule: list_all2_induct) auto
qed

lemma dispatcher_post_authorized:
  assumes "canonical_bytes payload = Inr body"
  shows "dispatcher_post H E P i path payload s = authorized_post H E P i DISPATCH_AGENT (tp_api_origin P @ path) body s"
  by (simp add: dispatcher_post_def authorized_post_def assms bindS_Inr)

text \<open>
  C35: the verdict on a workflow dispatch is exact in the same sense: at most one request went to
  the workflow's dispatch route, with the intent's tag as its only input, accepted means GitHub's
  204 with an empty body, and a failure that is not ambiguous excludes 204.
\<close>

theorem dispatch_answer_exact:
  assumes "dispatch_workflow H E P i repository workflow_path request_id s = (Inr d, t)"
  shows "\<exists>body. canonical_bytes (JObj [(''ref'', JStr (''cross-ai-intent/'' @ request_id))]) = Inr body
    \<and> REPOSITORY repository \<and> REQUEST_ID request_id
    \<and> exact_answer E (tp_api_origin P @ ''/repos/'' @ repository @ ''/actions/workflows/'' @ quote [] workflow_path @ ''/dispatches'')
         body s t (dr_accepted d) (dr_ambiguous d) (dr_status d)"
proof -
  from assms have g: "REPOSITORY repository" "REQUEST_ID request_id" by (auto simp: dispatch_workflow_def split: if_split_asm)
  have "validate_string (''cross-ai-intent/'' @ request_id) = Inr ()" "validate_string ''ref'' = Inr ()"
    using request_id_ascii [OF g(2)] by (auto intro!: ascii_text)
  then obtain body where b: "canonical_bytes (JObj [(''ref'', JStr (''cross-ai-intent/'' @ request_id))]) = Inr body"
    by (simp add: canonical_bytes_def)
  note run = assms [unfolded dispatch_workflow_def dispatcher_post_authorized [OF b]]
  have "exact_answer E (tp_api_origin P @ ''/repos/'' @ repository @ ''/actions/workflows/'' @ quote [] workflow_path @ ''/dispatches'')
         body s t (dr_accepted d) (dr_ambiguous d) (dr_status d)"
    using run g
    by (intro posted_exactly [where f = dispatch_answer and i = i and agent = DISPATCH_AGENT and c = d]) (auto simp: dispatch_answer_def Let_def split: if_split_asm)
  with b g show ?thesis by blast
qed

section \<open>Following a cursor\<close>

lemma hex_upper_value: "d < 16 \<Longrightarrow> ascii_lower (hex_upper d) \<in> set hex_digits \<and> hex_value (hex_upper d) = d"
proof -
  have "\<forall>d \<in> set [0..<16]. ascii_lower (hex_upper d) \<in> set hex_digits \<and> hex_value (hex_upper d) = d" by code_simp
  moreover assume "d < 16"
  ultimately show ?thesis by simp
qed

lemma unquote_plain: "c \<noteq> CHR ''%'' \<Longrightarrow> unquote_to_bytes (c # s) = c # unquote_to_bytes s"
  by (cases s; cases "tl s") auto

lemma byte_digits: "byte c div 16 < 16" "byte c mod 16 < 16"
proof -
  have "n < 256 \<Longrightarrow> n div 16 < 16" for n :: nat by presburger
  then show "byte c div 16 < 16" using nat_of_char_less_256 [of c] by blast
qed simp

lemma unquote_percent: "unquote_to_bytes (percent c @ s) = c # unquote_to_bytes s"
proof -
  from byte_digits [of c, THEN hex_upper_value] have "16 * hex_value (hex_upper (byte c div 16)) + hex_value (hex_upper (byte c mod 16)) = byte c"
    "ascii_lower (hex_upper (byte c div 16)) \<in> set hex_digits" "ascii_lower (hex_upper (byte c mod 16)) \<in> set hex_digits" by simp_all
  then show ?thesis by (simp add: percent_def)
qed

definition unplus :: "string \<Rightarrow> string" where
  "unplus s = map (\<lambda>c. if c = CHR ''+'' then CHR '' '' else c) s"

lemma hex_upper_plain: "d < 16 \<Longrightarrow> hex_upper d \<notin> set ''+ &=%''"
proof -
  have "\<forall>d \<in> set [0..<16]. hex_upper d \<notin> set ''+ &=%''" by code_simp
  moreover assume "d < 16"
  ultimately show ?thesis unfolding set_upt by (metis atLeastLessThan_iff le0)
qed

lemma percent_plain: "d \<in> set (percent c) \<Longrightarrow> d \<notin> set ''+ &=''"
proof -
  note byte_digits [of c, THEN hex_upper_plain]
  moreover assume "d \<in> set (percent c)"
  ultimately show ?thesis unfolding percent_def by auto
qed

lemma unreserved_plain: "unreserved c \<Longrightarrow> c \<notin> set ''+ &=%''"
  by (auto simp: unreserved_def name_char_def)

lemma quote_plus_Nil: "quote_plus [] = []"
  by (simp add: quote_plus_def quote_def)

lemma quote_plus_Cons: "quote_plus (c # s) = (if c = CHR '' '' then ''+'' else if unreserved c then [c] else percent c) @ quote_plus s"
proof -
  have "map (\<lambda>d. if d = CHR '' '' then CHR ''+'' else d) (percent c) = percent c"
    by (rule map_idI) (use percent_plain [of _ c] in auto)
  then show ?thesis using unreserved_plain [of c] by (auto simp: quote_plus_def quote_def)
qed

lemma unplus_percent: "map (\<lambda>d. if d = CHR ''+'' then CHR '' '' else d) (percent c) = percent c"
  by (rule map_idI) (use percent_plain [of _ c] in auto)

lemma quote_plus_round_trip: "unquote_to_bytes (unplus (quote_plus s)) = s"
proof (induction s)
  case (Cons c s)
  have p: "unplus (x @ quote_plus s) = unplus x @ unplus (quote_plus s)" for x by (simp add: unplus_def)
  show ?case unfolding quote_plus_Cons p
    using Cons unreserved_plain [of c] by (auto simp: unplus_def unplus_percent unquote_percent unquote_plain)
qed (simp add: quote_plus_Nil unplus_def)

lemma quote_plus_plain: "c \<in> set (quote_plus s) \<Longrightarrow> c \<noteq> CHR ''&'' \<and> c \<noteq> CHR ''=''"
proof (induction s)
  case (Cons d s)
  then show ?case using unreserved_plain [of d] percent_plain [of c d] by (auto simp: quote_plus_Cons split: if_split_asm)
qed (simp add: quote_plus_Nil)

lemma parse_field_quoted: "parse_field utf8 (quote_plus k @ ''='' @ quote_plus v) = Some (utf8 k, utf8 v)"
proof -
  have "split_first (CHR ''='') (quote_plus k @ ''='' @ quote_plus v) = (quote_plus k, quote_plus v)"
    using quote_plus_plain [of _ k] by (auto simp: split_first_def takeWhile_append dropWhile_append)
  then show ?thesis using quote_plus_round_trip [unfolded unplus_def] by (simp add: parse_field_def)
qed

lemma parse_two_fields:
  "parse_qs utf8 (urlencode [(k1, v1), (k2, v2)]) = Some [(utf8 k1, utf8 v1), (utf8 k2, utf8 v2)]"
proof -
  let ?f = "\<lambda>k v. quote_plus k @ ''='' @ quote_plus v"
  have "CHR ''&'' \<notin> set (?f k v)" for k v using quote_plus_plain by auto
  then have "split_on (CHR ''&'') (?f k1 v1 @ CHR ''&'' # ?f k2 v2) = [?f k1 v1, ?f k2 v2]"
    by (simp only: split_on_append split_on_plain not_False_eq_True)
  then show ?thesis using parse_field_quoted by (simp add: parse_qs_def)
qed

lemma those_length: "those xs = Some ys \<Longrightarrow> length ys = length xs"
proof (induction xs arbitrary: ys)
  case (Cons x xs)
  then show ?case by (cases x) (auto split: option.split_asm)
qed simp

lemma those_set: "those xs = Some ys \<Longrightarrow> y \<in> set ys \<Longrightarrow> Some y \<in> set xs"
proof (induction xs arbitrary: ys)
  case (Cons x xs)
  then show ?case by (cases x) (auto split: option.split_asm)
qed simp

lemma parse_qs_decoded: "parse_qs utf8 query = Some q \<Longrightarrow> (name, v) \<in> set q \<Longrightarrow> \<exists>x. v = utf8 x"
  by (auto simp: parse_qs_def parse_field_def Let_def split: if_split_asm prod.split_asm dest!: those_set) blast

lemma next_cursor_Some:
  assumes "next_cursor W E P headers = Inr (Some d)"
  shows "d \<noteq> []" "py_len d \<le> 2048" "\<not> has_space d" "\<exists>x. d = ge_utf8 E x"
proof -
  from assms obtain query q where q: "parse_qs (ge_utf8 E) query = Some q" "cursor_of_query q = Inr d"
    by (auto simp: next_cursor_def split: option.split_asm list.split_asm if_split_asm elim!: bindE_InrE)
  then show "d \<noteq> []" "py_len d \<le> 2048" "\<not> has_space d" by (auto simp: cursor_of_query_def Let_def split: if_split_asm)
  from q(2) have "length (qs_values q ''cursor'') = 1" "d = hd (qs_values q ''cursor'')"
    by (auto simp: cursor_of_query_def Let_def split: if_split_asm)
  then have "d \<in> set (qs_values q ''cursor'')" by (cases "qs_values q ''cursor''") auto
  then show "\<exists>x. d = ge_utf8 E x" using parse_qs_decoded [OF q(1)] by (auto simp: qs_values_def)
qed

lemma delivery_get_sent:
  "gh_sent (snd (delivery_get E P jwt path s)) = gh_sent s @ [\<lparr>rq_method = ''GET'', rq_url = tp_api_origin P @ path,
     rq_headers = api_headers jwt ''acik-cross-ai-delivery-poller/1'', rq_body = None\<rparr>]"
  by (simp add: delivery_get_def bindS_def transport_request_def send_def split: sum.splits)

text \<open>Decoding with replacement gives a text that decodes to itself, and leaves ASCII alone.\<close>

definition utf8_decoder :: "(string \<Rightarrow> string) \<Rightarrow> bool" where
  "utf8_decoder f = ((\<forall>s. f (f s) = f s) \<and> (\<forall>s. list_all (\<lambda>c. byte c < 128) s \<longrightarrow> f s = s))"

text \<open>
  C36: a page leads to the next one. A page has at most a hundred items, and the cursor it yields is
  not empty, has at most 2048 characters and no white space; the following call accepts it and
  sends one request, whose query names exactly this cursor and the page size.
\<close>

theorem cursor_is_followed:
  assumes "utf8_decoder (ge_utf8 E)" and "list_deliveries H W E P jwt cursor s = (Inr page, t)" and "hp_next_cursor page = Some d"
  shows "length (hp_items page) \<le> 100 \<and> d \<noteq> [] \<and> py_len d \<le> 2048 \<and> \<not> has_space d
    \<and> (\<exists>q. gh_sent (snd (list_deliveries H W E' P jwt (Some d) t)) = gh_sent t @ [\<lparr>rq_method = ''GET'',
            rq_url = tp_api_origin P @ ''/app/hook/deliveries?'' @ q,
            rq_headers = api_headers jwt ''acik-cross-ai-delivery-poller/1'', rq_body = None\<rparr>]
         \<and> parse_qs (ge_utf8 E) q = Some [(''per_page'', ''100''), (''cursor'', d)])"
proof -
  from assms(2) obtain response where "delivery_page H W E P response = Inr page"
    by (auto simp: list_deliveries_def Let_def elim!: bindS_InrE split: if_split_asm)
  then have p: "length (hp_items page) \<le> 100" "next_cursor W E P (hr_headers response) = Inr (hp_next_cursor page)"
    by (auto simp: delivery_page_def objects_of_def elim!: bindE_InrE split: option.split_asm if_split_asm dest!: those_length)
  note d = next_cursor_Some [OF p(2) [unfolded assms(3)]]
  let ?q = "urlencode [(''per_page'', ''100''), (''cursor'', d)]"
  have "gh_sent (snd (list_deliveries H W E' P jwt (Some d) t)) = gh_sent t @ [\<lparr>rq_method = ''GET'',
      rq_url = tp_api_origin P @ ''/app/hook/deliveries?'' @ ?q, rq_headers = api_headers jwt ''acik-cross-ai-delivery-poller/1'', rq_body = None\<rparr>]"
    using d(1,2) delivery_get_sent [of E' P jwt "''/app/hook/deliveries?'' @ ?q" t]
    by (auto simp: list_deliveries_def Let_def bindS_def simp del: urlencode.simps split: sum.splits prod.splits)
  moreover have "parse_qs (ge_utf8 E) ?q = Some [(''per_page'', ''100''), (''cursor'', d)]"
    using assms(1) d(4) unfolding parse_two_fields utf8_decoder_def by auto
  ultimately show ?thesis using p(1) d by blast
qed

section \<open>Concrete calls\<close>

definition gw_provider :: token_provider where
  "gw_provider = \<lparr>tp_app_id = 5, tp_api_origin = ''https://api.github.com''\<rparr>"

definition gw_host :: host where
  "gw_host = \<lparr>h_sha = (\<lambda>b. []), h_iso = (\<lambda>t. Some (minutes 60, Some 0)), h_b64decode = Some,
     h_json_loads = map_of [(''T'', JObj [(''token'', JStr ''tttttttttttttttttttt''), (''expires_at'', JStr ''1Z'')]), (''P'', JArr [JObj []])],
     h_ed25519 = (\<lambda>_ _ _. True), h_schema = (\<lambda>_ _. True), h_readable = (\<lambda>_. True), h_writable = (\<lambda>_. True)\<rparr>"

text \<open>GitHub, deciding by the end of the URL.\<close>

definition gw_answer :: "string \<Rightarrow> opened" where
  "gw_answer url =
     (if endswith url ''/access_tokens'' then OpenOk 201 [] ''T''
      else if endswith url ''/deployment_protection_rule'' \<or> endswith url ''/dispatches'' then OpenOk 204 [] []
      else if endswith url ''/zip'' then OpenHttpError 302 [(''Location'', ''https://objects.githubusercontent.com/a'')] []
      else if endswith url ''.com/a'' then OpenOk 200 [] ''zip''
      else if endswith url ''per_page=100''
      then OpenOk 200 [(''Link'', ''<https://api.github.com/app/hook/deliveries?cursor=v1_1&per_page=100>; rel=\"next\"'')] ''P''
      else OpenFailed)"

definition gw_env :: gh_env where
  "gw_env = \<lparr>ge_open = (\<lambda>_ rq. gw_answer (rq_url rq)), ge_now = (\<lambda>_. 0), ge_sign = (\<lambda>b. b), ge_utf8 = (\<lambda>b. b)\<rparr>"

definition gw_start :: gh where
  "gw_start = \<lparr>gh_tokens = (\<lambda>_. None), gh_sent = [], gh_reads = 0\<rparr>"

definition gw_artifact :: github_artifact where
  "gw_artifact = \<lparr>ga_artifact_id = 9, ga_name = ''x'', ga_size_in_bytes = 3\<rparr>"

lemma gw_urls: "map rq_url (gh_sent (snd (download gw_host in_web gw_env gw_provider 7 ''o/r'' gw_artifact gw_start))) =
   [''https://api.github.com/app/installations/7/access_tokens'', ''https://api.github.com/repos/o/r/actions/artifacts/9/zip'',
    ''https://objects.githubusercontent.com/a'']"
  by code_simp

theorem credentials_stay_at_origin_witness:
  "\<exists>t :: gh. map rq_url (gh_sent t) = [''https://api.github.com/app/installations/7/access_tokens'',
       ''https://api.github.com/repos/o/r/actions/artifacts/9/zip'', ''https://objects.githubusercontent.com/a'']
     \<and> \<not> has_authorization (last (gh_sent t))"
proof -
  let ?t = "snd (download gw_host in_web gw_env gw_provider 7 ''o/r'' gw_artifact gw_start)"
  have ne: "gh_sent ?t \<noteq> []" using arg_cong [OF gw_urls, of length] by auto
  then have url: "rq_url (last (gh_sent ?t)) = ''https://objects.githubusercontent.com/a''"
    using arg_cong [OF gw_urls, of last] by (simp add: last_map)
  have "(gh_step gw_host in_web gw_provider)\<^sup>*\<^sup>* gw_start ?t" by (rule r_into_rtranclp, rule gh_step.download_step)
  note safe = credentials_stay_at_origin [OF this _ last_in_set [OF ne]]
  have "gh_sent gw_start = []" "\<not> startswith (rq_url (last (gh_sent ?t))) (tp_api_origin gw_provider @ ''/'')"
    unfolding url by (simp_all add: gw_start_def gw_provider_def startswith_def)
  with safe have "\<not> has_authorization (last (gh_sent ?t))" by presburger
  with gw_urls show ?thesis by (intro exI [of _ ?t] conjI)
qed

theorem token_is_fresh_witness:
  "\<exists>t c payload. token gw_host gw_env gw_provider 7 gw_start = (Inr ''tttttttttttttttttttt'', t) \<and> gh_tokens t 7 = Some c
     \<and> json_object gw_host ''T'' = Inr payload \<and> parse_utc gw_host (jget payload ''expires_at'') = Inr (ct_expires_at c)
     \<and> ct_expires_at c > minutes 2 \<and> length (gh_sent t) = 1"
proof -
  have "fst (token gw_host gw_env gw_provider 7 gw_start) = Inr ''tttttttttttttttttttt''" by code_simp
  then obtain t where t: "token gw_host gw_env gw_provider 7 gw_start = (Inr ''tttttttttttttttttttt'', t)" by (metis prod.collapse)
  have url: "gw_answer (rq_url (token_request gw_provider 7 jwt)) = OpenOk 201 [] ''T''" for jwt
    by (simp add: token_request_def gw_answer_def gw_provider_def endswith_def)
  from token_is_fresh [OF t] t url show ?thesis
    by (auto simp: gw_start_def gw_env_def reply_of_def MAX_GITHUB_RESPONSE_BYTES_def)
qed

theorem decision_answer_exact_witness:
  "\<exists>body t. exact_answer gw_env ''https://api.github.com/repos/o/r/actions/runs/42/deployment_protection_rule'' body gw_start t
       True False (Some 204)"
proof -
  let ?c = "\<lparr>cr_accepted = True, cr_ambiguous = False, cr_status = Some 204, cr_reason_code = ''CALLBACK_ACCEPTED_204''\<rparr>"
  have "fst (post_decision gw_host gw_env gw_provider 7 ''o/r'' 42 ''prod'' ''approved'' ''ok'' gw_start) = Inr ?c" by code_simp
  then obtain t where t: "post_decision gw_host gw_env gw_provider 7 ''o/r'' 42 ''prod'' ''approved'' ''ok'' gw_start = (Inr ?c, t)"
    by (metis prod.collapse)
  have "decision_url gw_provider ''o/r'' 42 = ''https://api.github.com/repos/o/r/actions/runs/42/deployment_protection_rule''" by code_simp
  with decision_answer_exact [OF t] show ?thesis by auto
qed

theorem dispatch_answer_exact_witness:
  "\<exists>body t. exact_answer gw_env ''https://api.github.com/repos/o/r/actions/workflows/.github%2Fworkflows%2Fw.yml/dispatches'' body gw_start t
       True False (Some 204)"
proof -
  let ?d = "\<lparr>dr_accepted = True, dr_ambiguous = False, dr_status = Some 204, dr_reason_code = ''DISPATCH_ACCEPTED_204''\<rparr>"
  let ?m = "dispatch_workflow gw_host gw_env gw_provider 7 ''o/r'' ''.github/workflows/w.yml'' ''00000000-0000-1000-8000-000000000000'' gw_start"
  have "fst ?m = Inr ?d" by code_simp
  then obtain t where t: "?m = (Inr ?d, t)" by (metis prod.collapse)
  have url: "tp_api_origin gw_provider @ ''/repos/'' @ ''o/r'' @ ''/actions/workflows/'' @ quote [] ''.github/workflows/w.yml'' @ ''/dispatches''
    = ''https://api.github.com/repos/o/r/actions/workflows/.github%2Fworkflows%2Fw.yml/dispatches''" by code_simp
  from dispatch_answer_exact [OF t, unfolded url] show ?thesis by auto
qed

theorem cursor_is_followed_witness:
  "\<exists>t q. gh_sent (snd (list_deliveries gw_host in_web gw_env gw_provider ''j'' (Some ''v1_1'') t))
       = gh_sent t @ [\<lparr>rq_method = ''GET'', rq_url = tp_api_origin gw_provider @ ''/app/hook/deliveries?'' @ q,
            rq_headers = api_headers ''j'' ''acik-cross-ai-delivery-poller/1'', rq_body = None\<rparr>]
     \<and> parse_qs (ge_utf8 gw_env) q = Some [(''per_page'', ''100''), (''cursor'', ''v1_1'')]"
proof -
  let ?p = "\<lparr>hp_items = [[]], hp_next_cursor = Some ''v1_1''\<rparr>"
  have "fst (list_deliveries gw_host in_web gw_env gw_provider ''j'' None gw_start) = Inr ?p" by code_simp
  then obtain t where t: "list_deliveries gw_host in_web gw_env gw_provider ''j'' None gw_start = (Inr ?p, t)" by (metis prod.collapse)
  have "utf8_decoder (ge_utf8 gw_env)" by (simp add: utf8_decoder_def gw_env_def)
  from cursor_is_followed [OF this t, of "''v1_1''" gw_env] show ?thesis by auto
qed

end
