(* ===== verification/Workflow.thy ===== *)
theory Workflow
  imports Github Reconciler
begin

text \<open>
  The static checks of \<^verbatim>\<open>workflow.py\<close> on a governed GitHub Actions workflow. The scanner and the
  composer of the YAML package are arguments; what the package's base loader builds from the composed
  nodes, with the strict mapping constructor of the source, is \<open>construct\<close>.
\<close>

section \<open>YAML\<close>

text \<open>
  A composed node. The strict constructor is registered for the default mapping tag. A scalar or a
  sequence may carry that tag explicitly (the flag of \<open>YScalar\<close> and \<open>YSequence\<close>); under any other tag
  the base loader builds its text or its list. A mapping has the default tag unless it names another
  one (the flag of \<open>YMapping\<close>), and then the base loader builds it too.
\<close>

datatype ynode = YScalar bool string | YSequence bool "ynode list" | YMapping bool "(ynode \<times> ynode) list"

text \<open>
  \<open>wy_scan\<close>: whether the scanner meets an anchor or an alias before it fails or ends; \<open>None\<close> when it
  fails first. \<open>wy_compose\<close>: the single document, \<open>Some None\<close> for an empty stream, \<open>None\<close> for a
  \<^verbatim>\<open>YAMLError\<close>. \<open>wy_utf8\<close>: whether the bytes decode. \<open>wy_word\<close>: whether the text ends in a
  character outside ASCII that \<^verbatim>\<open>\w\<close> matches.
\<close>

record yaml_host =
  wy_utf8 :: "string \<Rightarrow> bool"
  wy_scan :: "string \<Rightarrow> bool option"
  wy_compose :: "string \<Rightarrow> ynode option option"
  wy_word :: "string \<Rightarrow> bool"

abbreviation yaml_invalid :: "'a result" where
  "yaml_invalid \<equiv> reject ''WORKFLOW_YAML_INVALID''"

text \<open>
  The strict constructor unpacks every item of the node into a key and a value: a scalar with the
  mapping tag gives its characters and a sequence its nodes, so an empty one is the empty dictionary
  and any other raises.
\<close>

function (sequential) construct :: "ynode \<Rightarrow> json result"
  and construct_sequence :: "ynode list \<Rightarrow> json list result"
  and construct_mapping :: "bool \<Rightarrow> (ynode \<times> ynode) list \<Rightarrow> (string \<times> json) list \<Rightarrow> (string \<times> json) list result" where
  "construct (YScalar mapped s) = (if \<not> mapped then Inr (JStr s) else if s = [] then Inr (JObj []) else Inl ValueError)"
| "construct (YSequence mapped ns) =
     (if \<not> mapped then bindE (construct_sequence ns) (\<lambda>vs. Inr (JArr vs)) else if ns = [] then Inr (JObj []) else Inl TypeError)"
| "construct (YMapping tagged items) = bindE (construct_mapping tagged items []) (\<lambda>d. Inr (JObj d))"
| "construct_sequence [] = Inr []"
| "construct_sequence (n # ns) = bindE (construct n) (\<lambda>v. bindE (construct_sequence ns) (\<lambda>vs. Inr (v # vs)))"
| "construct_mapping tagged [] d = Inr d"
| "construct_mapping tagged ((k, v) # items) d =
     bindE (construct k) (\<lambda>key. case key of
       JStr s \<Rightarrow>
         if \<not> tagged \<and> s \<in> fst ` set d then reject ''WORKFLOW_YAML_DUPLICATE_KEY''
         else bindE (construct v) (\<lambda>x. construct_mapping tagged items (dict_set s x d))
     | _ \<Rightarrow> yaml_invalid)"
  by pat_completeness auto
termination
  by (relation "measure (case_sum size (case_sum (size_list size) (\<lambda>(_, items, _). size_list (size_prod size size) items)))") auto

definition MAX_WORKFLOW_BYTES :: nat where
  "MAX_WORKFLOW_BYTES = 1024 * 1024"

definition as_mapping :: "json \<Rightarrow> (string \<times> json) list result" where
  "as_mapping v = (case v of JObj d \<Rightarrow> Inr d | _ \<Rightarrow> reject ''WORKFLOW_SHAPE_INVALID'')"

definition as_sequence :: "json \<Rightarrow> json list result" where
  "as_sequence v = (case v of JArr vs \<Rightarrow> Inr vs | _ \<Rightarrow> reject ''WORKFLOW_SHAPE_INVALID'')"

definition parse_yaml :: "yaml_host \<Rightarrow> string \<Rightarrow> (string \<times> json) list result" where
  "parse_yaml Y raw =
     bindE (reject_if
       [(raw = [] \<or> length raw > MAX_WORKFLOW_BYTES, ''WORKFLOW_SIZE_INVALID''),
        (CHR 0x00 \<in> set raw, ''WORKFLOW_YAML_INVALID''),
        (\<not> wy_utf8 Y raw, ''WORKFLOW_YAML_INVALID'')]) (\<lambda>_.
     case wy_scan Y raw of
       None \<Rightarrow> yaml_invalid
     | Some True \<Rightarrow> reject ''WORKFLOW_YAML_ALIAS_FORBIDDEN''
     | Some False \<Rightarrow>
         (case wy_compose Y raw of
            None \<Rightarrow> yaml_invalid
          | Some None \<Rightarrow> reject ''WORKFLOW_SHAPE_INVALID''
          | Some (Some node) \<Rightarrow> bindE (construct node) as_mapping))"

section \<open>Patterns\<close>

text \<open>
  The next character of a text under \<^verbatim>\<open>re.IGNORECASE\<close>, as the ASCII character that the patterns
  compare with, and the rest: the long s, the two other forms of i and the Kelvin sign fold to ASCII.
\<close>

definition ci_char :: "string \<Rightarrow> (char \<times> string) option" where
  "ci_char s =
     (if s = [] then None
      else if startswith s [CHR 0xC5, CHR 0xBF] then Some (CHR ''s'', drop 2 s)
      else if startswith s [CHR 0xC4, CHR 0xB0] \<or> startswith s [CHR 0xC4, CHR 0xB1] then Some (CHR ''i'', drop 2 s)
      else if startswith s [CHR 0xE2, CHR 0x84, CHR 0xAA] then Some (CHR ''k'', drop 3 s)
      else Some (ascii_lower (hd s), tl s))"

fun match_ci :: "string \<Rightarrow> string \<Rightarrow> string option" where
  "match_ci [] s = Some s"
| "match_ci (c # p) s = (case ci_char s of Some (d, r) \<Rightarrow> if d = c then match_ci p r else None | None \<Rightarrow> None)"

text \<open>The white space characters, written out for evaluation.\<close>

lemma str_spaces_code [code]: "str_spaces = [
     [CHR 0x20], [CHR 0x09], [CHR 0x0A], [CHR 0x0D],
     [CHR 0x0B], [CHR 0x0C], [CHR 0x1C], [CHR 0x1D],
     [CHR 0x1E], [CHR 0x1F], [CHR 0xC2, CHR 0x85], [CHR 0xC2, CHR 0xA0],
     [CHR 0xE1, CHR 0x9A, CHR 0x80], [CHR 0xE2, CHR 0x80, CHR 0x80], [CHR 0xE2, CHR 0x80, CHR 0x81], [CHR 0xE2, CHR 0x80, CHR 0x82],
     [CHR 0xE2, CHR 0x80, CHR 0x83], [CHR 0xE2, CHR 0x80, CHR 0x84], [CHR 0xE2, CHR 0x80, CHR 0x85], [CHR 0xE2, CHR 0x80, CHR 0x86],
     [CHR 0xE2, CHR 0x80, CHR 0x87], [CHR 0xE2, CHR 0x80, CHR 0x88], [CHR 0xE2, CHR 0x80, CHR 0x89], [CHR 0xE2, CHR 0x80, CHR 0x8A],
     [CHR 0xE2, CHR 0x80, CHR 0xA8], [CHR 0xE2, CHR 0x80, CHR 0xA9], [CHR 0xE2, CHR 0x80, CHR 0xAF], [CHR 0xE2, CHR 0x81, CHR 0x9F],
     [CHR 0xE3, CHR 0x80, CHR 0x80]]"
  by code_simp

lemma space_first: "list_ex (startswith (c # s)) str_spaces \<Longrightarrow> byte c < 33 \<or> 128 \<le> byte c"
  by (auto simp: str_spaces_code startswith_def)

lemma has_space_code [code]:
  "has_space [] = False" "has_space (c # s) = ((byte c < 33 \<or> 128 \<le> byte c) \<and> list_ex (startswith (c # s)) str_spaces \<or> has_space s)"
  using space_first [of c s] by auto

abbreviation skip_spaces :: "string \<Rightarrow> string" where
  "skip_spaces \<equiv> lstrip str_spaces"

text \<open>\<^verbatim>\<open>\$\{\{\s*(?:inputs\.|vars\.|github[.]event[.]inputs(?:[.\s}]))\<close>\<close>

definition forbidden_at :: "string \<Rightarrow> bool" where
  "forbidden_at s = (startswith s ''${{'' \<and> (let r = skip_spaces (drop 3 s) in
     match_ci ''inputs.'' r \<noteq> None \<or> match_ci ''vars.'' r \<noteq> None
     \<or> (case match_ci ''github.event.inputs'' r of
          Some t \<Rightarrow> startswith t ''.'' \<or> startswith t ''}'' \<or> list_ex (startswith t) str_spaces | None \<Rightarrow> False)))"

fun any_suffix :: "(string \<Rightarrow> bool) \<Rightarrow> string \<Rightarrow> bool" where
  "any_suffix p [] = p []"
| "any_suffix p (c # s) = (p (c # s) \<or> any_suffix p s)"

definition FORBIDDEN_AUTHORITY :: "string \<Rightarrow> bool" where
  "FORBIDDEN_AUTHORITY text1 = any_suffix forbidden_at text1"

text \<open>
  The number of matches that \<^verbatim>\<open>findall\<close> returns: from left to right, each search starts after the match
  before. A matcher gets the text before the position, for a word boundary, and the text at it,
  and returns what follows its match.
\<close>

function find_count :: "(string \<Rightarrow> string \<Rightarrow> string option) \<Rightarrow> string \<Rightarrow> string \<Rightarrow> nat" where
  "find_count m before s = (case s of [] \<Rightarrow> 0 | c # r \<Rightarrow>
     (case m before s of
        Some t \<Rightarrow> if length t < length s then Suc (find_count m (before @ take (length s - length t) s) t) else 0
      | None \<Rightarrow> find_count m (before @ [c]) r))"
  by pat_completeness auto
termination
  by (relation "measure (\<lambda>(m, b, s). length s)") auto

declare find_count.simps [simp del]

definition ascii_word :: "char \<Rightarrow> bool" where
  "ascii_word c = (name_char c \<and> c \<noteq> CHR ''.'' \<and> c \<noteq> CHR ''-'')"

definition after_word :: "yaml_host \<Rightarrow> string \<Rightarrow> bool" where
  "after_word Y before = (before \<noteq> [] \<and> (if byte (last before) < 128 then ascii_word (last before) else wy_word Y before))"

text \<open>\<^verbatim>\<open>\bsecrets\s*(?:[.]|\[)\<close>\<close>

definition secret_context :: "yaml_host \<Rightarrow> string \<Rightarrow> string \<Rightarrow> string option" where
  "secret_context Y before s =
     (if after_word Y before then None
      else case match_ci ''secrets'' s of
        None \<Rightarrow> None
      | Some r \<Rightarrow> (let t = skip_spaces r in if startswith t ''.'' \<or> startswith t ''['' then Some (tl t) else None))"

text \<open>
  \<^verbatim>\<open>\$\{\{\s*secrets\s*(?:\.\s*NAME|\[\s*['"]NAME['"]\s*\])\s*\}\}\<close>, for a name in lower case.
\<close>

definition expect_char :: "string \<Rightarrow> string \<Rightarrow> string option" where
  "expect_char cs s = (if s \<noteq> [] \<and> hd s \<in> set cs then Some (tl s) else None)"

definition dotted_name :: "string \<Rightarrow> string \<Rightarrow> string option" where
  "dotted_name name s = Option.bind (expect_char ''.'' s) (\<lambda>r. match_ci name (skip_spaces r))"

definition quoted_name :: "string \<Rightarrow> string \<Rightarrow> string option" where
  "quoted_name name s =
     Option.bind (expect_char ''['' s) (\<lambda>r.
     Option.bind (expect_char [CHR 0x27, CHR 0x22] (skip_spaces r)) (\<lambda>r.
     Option.bind (match_ci name r) (\<lambda>r.
     Option.bind (expect_char [CHR 0x27, CHR 0x22] r) (\<lambda>r. expect_char '']'' (skip_spaces r)))))"

definition protected_reference :: "string \<Rightarrow> string \<Rightarrow> string \<Rightarrow> string option" where
  "protected_reference name before s =
     (if \<not> startswith s ''${{'' then None
      else Option.bind (match_ci ''secrets'' (skip_spaces (drop 3 s))) (\<lambda>r0.
        let r = skip_spaces r0 in
        Option.bind (case dotted_name name r of Some t \<Rightarrow> Some t | None \<Rightarrow> quoted_name name r) (\<lambda>t.
        let u = skip_spaces t in if startswith u ''}}'' then Some (drop 2 u) else None)))"

definition protected_secret_reference_count :: "string \<Rightarrow> string \<Rightarrow> nat" where
  "protected_secret_reference_count raw_text secret_name = find_count (protected_reference (lower secret_name)) [] raw_text"

definition PROTECTED_SECRET_NAMES :: "string list" where
  "PROTECTED_SECRET_NAMES = [''CROSS_AI_BOOTSTRAP_TOKEN'', ''CROSS_AI_ENDPOINT_ID'', ''CROSS_AI_OPERATOR_ID'']"

definition FULL_COMMIT_SHA :: "string \<Rightarrow> bool" where
  "FULL_COMMIT_SHA s = (length s = 40 \<and> all_lower_hex s)"

definition SHA256_DIGEST :: "string \<Rightarrow> bool" where
  "SHA256_DIGEST s = (startswith s ''sha256:'' \<and> length (drop 7 s) = 64 \<and> all_lower_hex (drop 7 s))"

text \<open>Text without white space and without an at sign, at least one character.\<close>

definition plain_part :: "string \<Rightarrow> bool" where
  "plain_part s = (s \<noteq> [] \<and> CHR ''@'' \<notin> set s \<and> \<not> has_space s)"

definition DOCKER_DIGEST :: "string \<Rightarrow> bool" where
  "DOCKER_DIGEST s = (startswith s ''docker://'' \<and>
     (let (image, digest1) = split_first (CHR ''@'') (drop 9 s) in plain_part image \<and> SHA256_DIGEST digest1))"

record remote_action =
  ra_repository :: string
  ra_path :: "string option"
  ra_revision :: string

definition name_part :: "string \<Rightarrow> bool" where
  "name_part s = (s \<noteq> [] \<and> list_all name_char s)"

text \<open>\<^verbatim>\<open>(owner/name)(/path)?@revision\<close>: the name ends at the next slash, for its characters exclude one.\<close>

definition REMOTE_ACTION :: "string \<Rightarrow> remote_action option" where
  "REMOTE_ACTION s =
     (let (target, revision) = split_first (CHR ''@'') s;
          (owner, rest) = split_first (CHR ''/'') target;
          (name, path) = split_first (CHR ''/'') rest;
          repository = owner @ ''/'' @ name in
      if \<not> name_part owner \<or> \<not> name_part name \<or> \<not> plain_part revision then None
      else if target = repository then Some \<lparr>ra_repository = repository, ra_path = None, ra_revision = revision\<rparr>
      else if plain_part path then Some \<lparr>ra_repository = repository, ra_path = Some (CHR ''/'' # path), ra_revision = revision\<rparr>
      else None)"

definition LOCAL_USE :: "string \<Rightarrow> bool" where
  "LOCAL_USE s = (startswith s ''./'' \<and> list_all name_part (split_on (CHR ''/'') (drop 2 s)))"

definition has_expression :: "string \<Rightarrow> bool" where
  "has_expression s = any_suffix (\<lambda>t. startswith t ''${{'') s"

section \<open>Root of the workflow\<close>

definition validate_trigger :: "(string \<times> json) list \<Rightarrow> unit result" where
  "validate_trigger workflow =
     (case jget workflow ''on'' of
        JStr s \<Rightarrow> if s = ''workflow_dispatch'' then Inr () else reject ''WORKFLOW_TRIGGER_INVALID''
      | JObj trigger \<Rightarrow>
          if fst ` set trigger \<noteq> {''workflow_dispatch''} then reject ''WORKFLOW_TRIGGER_INVALID''
          else let dispatch = jget trigger ''workflow_dispatch'' in
            if dispatch = JNull \<or> eq_str dispatch [] then Inr ()
            else bindE (as_mapping dispatch) (\<lambda>d.
              reject_if [(jget d ''inputs'' \<notin> {JNull, JStr [], JObj []}, ''WORKFLOW_INPUTS_FORBIDDEN''),
                (\<not> fst ` set d \<subseteq> {''inputs''}, ''WORKFLOW_TRIGGER_INVALID'')])
      | _ \<Rightarrow> reject ''WORKFLOW_TRIGGER_INVALID'')"

text \<open>Equality of dicts, up to the order of their items.\<close>

definition dict_is :: "(string \<times> json) list \<Rightarrow> (string \<times> string) list \<Rightarrow> bool" where
  "dict_is d expected = (fst ` set d = fst ` set expected \<and> list_all (\<lambda>(k, v). eq_str (jget d k) v) expected)"

definition validate_permissions :: "(string \<times> json) list \<Rightarrow> unit result" where
  "validate_permissions workflow =
     bindE (as_mapping (jget workflow ''permissions'')) (\<lambda>permissions.
     reject_if [(\<not> dict_is permissions [(''contents'', ''read''), (''id-token'', ''write'')], ''WORKFLOW_OIDC_PERMISSION_INVALID'')])"

definition concurrency_group :: "host \<Rightarrow> (string \<times> json) list \<Rightarrow> (string \<times> string) result" where
  "concurrency_group H workflow =
     bindE (as_mapping (jget workflow ''concurrency'')) (\<lambda>concurrency.
     if fst ` set concurrency \<noteq> {''group'', ''cancel-in-progress''} then reject ''WORKFLOW_CONCURRENCY_INVALID''
     else case jget concurrency ''group'' of
       JStr grp \<Rightarrow>
         if \<not> (1 \<le> py_len grp \<and> py_len grp \<le> 100) \<or> has_expression grp
            \<or> \<not> eq_str (jget concurrency ''cancel-in-progress'') ''false''
         then reject ''WORKFLOW_CONCURRENCY_INVALID''
         else bindE (digest H (JObj [(''domain'', JStr ''acik.cross-ai-workflow-concurrency-group.v1''), (''group'', JStr grp)]))
           (\<lambda>d. Inr (grp, d))
     | _ \<Rightarrow> reject ''WORKFLOW_CONCURRENCY_INVALID'')"

section \<open>The job\<close>

abbreviation runner_invalid :: "'a result" where
  "runner_invalid \<equiv> reject ''WORKFLOW_RUNNER_INVALID''"

definition label_text :: "json \<Rightarrow> string option" where
  "label_text v = (case v of JStr s \<Rightarrow> if 1 \<le> py_len s \<and> py_len s \<le> 100 then Some s else None | _ \<Rightarrow> None)"

definition runs_on_labels :: "json \<Rightarrow> string list result" where
  "runs_on_labels v =
     bindE (case v of
         JStr s \<Rightarrow> Inr [s]
       | JArr vs \<Rightarrow> if vs = [] then runner_invalid else (case those (map label_text vs) of None \<Rightarrow> runner_invalid | Some ls \<Rightarrow> Inr ls)
       | _ \<Rightarrow> runner_invalid) (\<lambda>labels.
     bindE (reject_if [(\<not> distinct labels \<or> list_ex has_expression labels, ''WORKFLOW_RUNNER_INVALID'')]) (\<lambda>_. Inr labels))"

definition runs_on :: "json \<Rightarrow> (string list \<times> string option) result" where
  "runs_on v = (case v of
     JObj d \<Rightarrow>
       if \<not> fst ` set d \<subseteq> {''group'', ''labels''} then runner_invalid
       else (case jget d ''group'' of
         JStr grp \<Rightarrow> if grp = [] then runner_invalid
           else bindE (runs_on_labels (jget d ''labels'')) (\<lambda>labels. Inr (labels, Some grp))
       | _ \<Rightarrow> runner_invalid)
   | _ \<Rightarrow> bindE (runs_on_labels v) (\<lambda>labels. Inr (labels, None)))"

definition environment_name :: "json \<Rightarrow> string option result" where
  "environment_name v = (case v of
     JStr s \<Rightarrow> Inr (Some s)
   | JObj d \<Rightarrow>
       if \<not> fst ` set d \<subseteq> {''name'', ''url''} then reject ''WORKFLOW_ENVIRONMENT_INVALID''
       else (case jget d ''name'' of JStr s \<Rightarrow> Inr (Some s) | _ \<Rightarrow> reject ''WORKFLOW_ENVIRONMENT_INVALID'')
   | JNull \<Rightarrow> Inr None
   | _ \<Rightarrow> reject ''WORKFLOW_ENVIRONMENT_INVALID'')"

text \<open>The reference goes to the local or to the external set.\<close>

definition inspect_use :: "json \<Rightarrow> string list \<times> string list \<Rightarrow> (string list \<times> string list) result" where
  "inspect_use v uses = (case v of
     JStr s \<Rightarrow>
       if s = [] \<or> has_expression s then reject ''WORKFLOW_DEPENDENCY_UNPINNED''
       else if startswith s ''./'' then
         (if \<not> LOCAL_USE s \<or> ''..'' \<in> set (split_on (CHR ''/'') s) then reject ''WORKFLOW_LOCAL_DEPENDENCY_INVALID''
          else Inr (fst uses @ [s], snd uses))
       else if startswith s ''docker://'' then
         (if \<not> DOCKER_DIGEST s then reject ''WORKFLOW_DEPENDENCY_UNPINNED'' else Inr (fst uses, snd uses @ [s]))
       else (case REMOTE_ACTION s of
         Some a \<Rightarrow> if FULL_COMMIT_SHA (ra_revision a) then Inr (fst uses, snd uses @ [s]) else reject ''WORKFLOW_DEPENDENCY_UNPINNED''
       | None \<Rightarrow> reject ''WORKFLOW_DEPENDENCY_UNPINNED'')
   | _ \<Rightarrow> reject ''WORKFLOW_DEPENDENCY_UNPINNED'')"

definition checkout_action :: "json \<Rightarrow> bool \<times> bool" where
  "checkout_action v = (case v of
     JStr s \<Rightarrow> (case REMOTE_ACTION s of
        Some a \<Rightarrow> if lower (ra_repository a) = ''actions/checkout'' then (True, ra_path a = None) else (False, False)
      | None \<Rightarrow> (False, False))
   | _ \<Rightarrow> (False, False))"

definition bootstrap_action :: "json \<Rightarrow> string option" where
  "bootstrap_action v = (case v of
     JStr s \<Rightarrow> (case REMOTE_ACTION s of
        Some a \<Rightarrow>
          if lower (ra_repository a) = ''halildeu/platform-k8s-gitops'' \<and> ra_path a = Some ''/.github/actions/protected-bootstrap''
             \<and> FULL_COMMIT_SHA (ra_revision a)
          then Some (ra_revision a) else None
      | None \<Rightarrow> None)
   | _ \<Rightarrow> None)"

section \<open>The bootstrap step\<close>

definition BOOTSTRAP_OUTPUT_VALUE :: string where
  "BOOTSTRAP_OUTPUT_VALUE = ''${{ runner.temp }}/cross-ai-bootstrap.json''"

definition BOOTSTRAP_ENV :: "(string \<times> string) list" where
  "BOOTSTRAP_ENV =
     [(''CROSS_AI_BOOTSTRAP_TOKEN'', ''${{ secrets.CROSS_AI_BOOTSTRAP_TOKEN }}''),
      (''CROSS_AI_ENDPOINT_ID'', ''${{ secrets.CROSS_AI_ENDPOINT_ID }}''),
      (''CROSS_AI_OPERATOR_ID'', ''${{ secrets.CROSS_AI_OPERATOR_ID }}''),
      (''CROSS_AI_BOOTSTRAP_OUTPUT'', BOOTSTRAP_OUTPUT_VALUE)]"

definition POST_BOOTSTRAP_ENV :: "(string \<times> string) list" where
  "POST_BOOTSTRAP_ENV = [(''CROSS_AI_BOOTSTRAP_FILE'', BOOTSTRAP_OUTPUT_VALUE)]"

text \<open>\<^verbatim>\<open>job.get("steps", [])\<close>\<close>

definition job_steps :: "(string \<times> json) list \<Rightarrow> json list result" where
  "job_steps job = as_sequence (case map_of job ''steps'' of None \<Rightarrow> JArr [] | Some v \<Rightarrow> v)"

definition checkout_step_ok :: "(string \<times> json) list \<Rightarrow> bool" where
  "checkout_step_ok step = (fst ` set step \<subseteq> {''name'', ''uses''} \<and> checkout_action (jget step ''uses'') = (True, True))"

definition bootstrap_inputs_ok :: "stage_policy \<Rightarrow> (string \<times> json) list \<Rightarrow> bool" where
  "bootstrap_inputs_ok sp arguments =
     (fst ` set arguments = {''stage'', ''workflow-path'', ''expected-trust-root-sha256''}
      \<and> eq_str (jget arguments ''stage'') (sp_stage sp) \<and> eq_str (jget arguments ''workflow-path'') (sp_workflow_path sp)
      \<and> (case jget arguments ''expected-trust-root-sha256'' of JStr s \<Rightarrow> SHA256_DIGEST s | _ \<Rightarrow> False))"

definition bootstrap_step_ok :: "stage_policy \<Rightarrow> string \<Rightarrow> (string \<times> json) list \<Rightarrow> unit result" where
  "bootstrap_step_ok sp url bootstrap =
     bindE (reject_if [(\<not> fst ` set bootstrap \<subseteq> {''name'', ''env'', ''uses'', ''with''}, ''WORKFLOW_BOOTSTRAP_INVALID'')]) (\<lambda>_.
     bindE (as_mapping (jget bootstrap ''with'')) (\<lambda>arguments.
     bindE (reject_if [(\<not> bootstrap_inputs_ok sp arguments, ''WORKFLOW_BOOTSTRAP_INVALID'')]) (\<lambda>_.
     bindE (as_mapping (jget bootstrap ''env'')) (\<lambda>environment.
     reject_if
       [(fst ` set environment \<noteq> fst ` set BOOTSTRAP_ENV \<union> {''CROSS_AI_BOOTSTRAP_URL''}, ''WORKFLOW_BOOTSTRAP_CREDENTIAL_INVALID''),
        (list_ex (\<lambda>(name, expected). \<not> eq_str (jget environment name) expected) BOOTSTRAP_ENV, ''WORKFLOW_BOOTSTRAP_CREDENTIAL_INVALID''),
        (\<not> eq_str (jget environment ''CROSS_AI_BOOTSTRAP_URL'') url, ''WORKFLOW_BOOTSTRAP_ENDPOINT_INVALID'')]))))"

text \<open>The last condition reads the environment only when the others do not reject already.\<close>

definition post_step_ok :: "string \<Rightarrow> json \<Rightarrow> unit result" where
  "post_step_ok revision step_value =
     bindE (as_mapping step_value) (\<lambda>step.
     case jget step ''uses'' of
       JStr use \<Rightarrow>
         if \<not> fst ` set step \<subseteq> {''name'', ''uses'', ''env''} \<or> startswith use ''./'' \<or> fst (checkout_action (JStr use))
            \<or> map_option ra_revision (REMOTE_ACTION use) \<noteq> Some revision
         then reject ''WORKFLOW_POST_BOOTSTRAP_INVALID''
         else bindE (as_mapping (jget step ''env'')) (\<lambda>env.
           reject_if [(\<not> dict_is env POST_BOOTSTRAP_ENV, ''WORKFLOW_POST_BOOTSTRAP_INVALID'')])
     | _ \<Rightarrow> reject ''WORKFLOW_POST_BOOTSTRAP_INVALID'')"

definition validate_bootstrap_step :: "(string \<times> json) list \<Rightarrow> stage_policy \<Rightarrow> string \<Rightarrow> unit result" where
  "validate_bootstrap_step job sp url =
     bindE (job_steps job) (\<lambda>step_values.
     bindE (mapE as_mapping step_values) (\<lambda>steps.
     let matches = filter (\<lambda>i. bootstrap_action (jget (steps ! i) ''uses'') \<noteq> None) [0..<length steps] in
     bindE (reject_if [(length matches \<noteq> 1, ''WORKFLOW_BOOTSTRAP_INVALID''),
       (hd matches \<noteq> 1, ''WORKFLOW_BOOTSTRAP_ORDER_INVALID''),
       (\<not> checkout_step_ok (steps ! 0), ''WORKFLOW_BOOTSTRAP_ORDER_INVALID'')]) (\<lambda>_.
     bindE (bootstrap_step_ok sp url (steps ! 1)) (\<lambda>_.
     let post_bootstrap = drop 2 step_values in
     bindE (reject_if [(\<not> (1 \<le> length post_bootstrap \<and> length post_bootstrap \<le> 8), ''WORKFLOW_POST_BOOTSTRAP_INVALID'')]) (\<lambda>_.
     forE (post_step_ok (the (bootstrap_action (jget (steps ! 1) ''uses'')))) post_bootstrap)))))"

section \<open>The inspection\<close>

record inspected_workflow = workflow_inspection +
  iw_governed_job :: string
  iw_runs_on_labels :: "string list"
  iw_runner_group :: "string option"
  iw_local_uses :: "string list"
  iw_external_uses :: "string list"

definition inspect_step :: "json \<Rightarrow> string list \<times> string list \<Rightarrow> (string list \<times> string list) result" where
  "inspect_step step_value uses =
     bindE (as_mapping step_value) (\<lambda>step.
     if map_of step ''continue-on-error'' \<noteq> None then reject ''WORKFLOW_CONTINUE_ON_ERROR_FORBIDDEN''
     else case map_of step ''uses'' of None \<Rightarrow> Inr uses | Some v \<Rightarrow> inspect_use v uses)"

text \<open>
  One job: its runner when it binds the Environment, and the references of its steps. A job with
  \<^verbatim>\<open>continue-on-error\<close> is already refused for that field.
\<close>

definition inspect_job :: "string \<Rightarrow> json \<Rightarrow> ((string list \<times> string option) option \<times> string list \<times> string list) result" where
  "inspect_job environment job_value =
     bindE (as_mapping job_value) (\<lambda>job.
     if \<not> fst ` set job \<subseteq> {''name'', ''environment'', ''runs-on'', ''steps'', ''timeout-minutes''} then reject ''WORKFLOW_JOB_CONTROL_INVALID''
     else bindE (environment_name (jget job ''environment'')) (\<lambda>job_environment.
       bindE (if job_environment = Some environment then bindE (runs_on (jget job ''runs-on'')) (\<lambda>r. Inr (Some r)) else Inr None) (\<lambda>runner.
       bindE (job_steps job) (\<lambda>steps.
       bindE (foldE inspect_step steps ([], [])) (\<lambda>uses. Inr (runner, uses))))))"

definition raw_text_ok :: "yaml_host \<Rightarrow> string \<Rightarrow> unit result" where
  "raw_text_ok Y raw_text =
     reject_if
       [(FORBIDDEN_AUTHORITY raw_text, ''WORKFLOW_INPUT_AUTHORITY_FORBIDDEN''),
        (list_ex (\<lambda>name. protected_secret_reference_count raw_text name \<noteq> 1) PROTECTED_SECRET_NAMES, ''WORKFLOW_BOOTSTRAP_CREDENTIAL_INVALID''),
        (find_count (secret_context Y) [] raw_text \<noteq> length PROTECTED_SECRET_NAMES, ''WORKFLOW_BOOTSTRAP_CREDENTIAL_INVALID'')]"

definition dependency_body :: "string list \<Rightarrow> string list \<Rightarrow> json" where
  "dependency_body local_uses external_uses =
     JObj [(''domain'', JStr ''acik.cross-ai-workflow-dependency-lock.v1''), (''localUses'', JArr (map JStr local_uses)),
       (''externalUses'', JArr (map JStr external_uses))]"

text \<open>\<^verbatim>\<open>sorted\<close> of a set of texts.\<close>

definition sorted_set :: "string list \<Rightarrow> string list" where
  "sorted_set xs = sort (remdups xs)"

definition inspect_workflow :: "host \<Rightarrow> yaml_host \<Rightarrow> string \<Rightarrow> stage_policy \<Rightarrow> string \<Rightarrow> string \<Rightarrow> inspected_workflow result" where
  "inspect_workflow H Y raw sp environment url =
     bindE (parse_yaml Y raw) (\<lambda>workflow.
     bindE (reject_if [(\<not> fst ` set workflow \<subseteq> {''name'', ''on'', ''permissions'', ''concurrency'', ''jobs''}, ''WORKFLOW_ROOT_CONTROL_INVALID'')]) (\<lambda>_.
     bindE (raw_text_ok Y raw) (\<lambda>_.
     bindE (validate_trigger workflow) (\<lambda>_.
     bindE (validate_permissions workflow) (\<lambda>_.
     bindE (concurrency_group H workflow) (\<lambda>(_, concurrency_group_sha256).
     bindE (as_mapping (jget workflow ''jobs'')) (\<lambda>jobs.
     case jobs of
       [(job_name, job_value)] \<Rightarrow>
         bindE (inspect_job environment job_value) (\<lambda>(runner, local_uses, external_uses).
         case runner of
           None \<Rightarrow> reject ''WORKFLOW_ENVIRONMENT_BINDING_INVALID''
         | Some (labels, grp) \<Rightarrow>
             bindE (as_mapping job_value) (\<lambda>job.
             bindE (validate_bootstrap_step job sp url) (\<lambda>_.
             bindE (reject_if [(labels \<noteq> sp_required_runs_on_labels sp, ''WORKFLOW_RUNNER_MISMATCH''),
               (sp_require_runner_group sp \<noteq> (grp \<noteq> None), ''WORKFLOW_RUNNER_MISMATCH'')]) (\<lambda>_.
             bindE (digest H (dependency_body (sorted_set local_uses) (sorted_set external_uses))) (\<lambda>dependency_lock_sha256.
             Inr \<lparr>wi_workflow_sha256 = ''sha256:'' @ h_sha H raw, wi_dependency_lock_sha256 = dependency_lock_sha256,
               wi_concurrency_group_sha256 = concurrency_group_sha256, iw_governed_job = job_name, iw_runs_on_labels = labels,
               iw_runner_group = grp, iw_local_uses = sorted_set local_uses, iw_external_uses = sorted_set external_uses\<rparr>)))))
     | _ \<Rightarrow> reject ''WORKFLOW_JOBS_INVALID'')))))))"

end
