(* ===== verification/WorkflowProps.thy ===== *)
theory WorkflowProps
  imports Workflow GithubProps
begin

text \<open>
  What a workflow can do that passes the inspection: one job on the runners of the policy, made of a
  checkout, the bootstrap action and actions of the same commit, without any script of its own.
\<close>

section \<open>References\<close>

text \<open>A step that runs a remote action at a full commit, and nothing else.\<close>

definition runs_pinned :: "(string \<times> json) list \<Rightarrow> remote_action \<Rightarrow> bool" where
  "runs_pinned step a = (\<exists>use. map_of step ''uses'' = Some (JStr use) \<and> REMOTE_ACTION use = Some a
     \<and> FULL_COMMIT_SHA (ra_revision a) \<and> map_of step ''run'' = None \<and> map_of step ''shell'' = None)"

lemma as_mapping_Inr [simp]: "as_mapping v = Inr d \<longleftrightarrow> v = JObj d"
  by (cases v) (auto simp: as_mapping_def)

lemma as_sequence_Inr [simp]: "as_sequence v = Inr vs \<longleftrightarrow> v = JArr vs"
  by (cases v) (auto simp: as_sequence_def)

lemma mappings: "mapE as_mapping vs = Inr ds \<longleftrightarrow> vs = map JObj ds"
  by (auto simp: mapE_Inr_iff list_all2_conv_all_nth intro: nth_equalityI)

lemma jget_JStr: "jget d k = JStr s \<Longrightarrow> map_of d k = Some (JStr s)"
  by (auto simp: jget_def split: option.split_asm)

lemma no_key: "fst ` set d \<subseteq> K \<Longrightarrow> k \<notin> K \<Longrightarrow> map_of d k = None"
  by (auto simp: map_of_eq_None_iff)

lemma docker_not_remote: "startswith s ''docker://'' \<Longrightarrow> REMOTE_ACTION s = None"
proof -
  assume "startswith s ''docker://''"
  then obtain t where s: "s = ''docker://'' @ t" by (metis append_take_drop_id startswith_def)
  show ?thesis unfolding s by (simp add: REMOTE_ACTION_def split_first_def name_part_def name_char_def Let_def)
qed

lemma inspect_use_remote:
  assumes "inspect_use (JStr s) (l, e) = Inr u" "REMOTE_ACTION s = Some a" "\<not> startswith s ''./''"
  shows "u = (l, e @ [s]) \<and> FULL_COMMIT_SHA (ra_revision a)"
  using assms docker_not_remote [of s] by (auto simp: inspect_use_def split: if_split_asm)

lemma inspect_step_use: "inspect_step (JObj step) uses = Inr v \<Longrightarrow> map_of step ''uses'' = Some u \<Longrightarrow> inspect_use u uses = Inr v"
  by (auto simp: inspect_step_def bindE_Inr_iff split: if_split_asm)

lemma inspect_steps_remote:
  assumes "foldE inspect_step (map JObj steps) (l, e) = Inr u"
    and "list_all2 (\<lambda>step (use, a). map_of step ''uses'' = Some (JStr use) \<and> REMOTE_ACTION use = Some a \<and> \<not> startswith use ''./'') steps uses"
  shows "u = (l, e @ map fst uses) \<and> (\<forall>(use, a) \<in> set uses. FULL_COMMIT_SHA (ra_revision a))"
  using assms(2,1)
proof (induction arbitrary: e rule: list_all2_induct)
  case (Cons step steps p uses)
  obtain use a where p: "p = (use, a)" by fastforce
  from Cons.prems obtain v where v: "inspect_use (JStr use) (l, e) = Inr v" "foldE inspect_step (map JObj steps) v = Inr u"
    using Cons.hyps(1) by (auto simp: p bindE_Inr_iff dest: inspect_step_use)
  with Cons.hyps(1) inspect_use_remote [of use l e v a] Cons.IH [of "e @ [use]"] show ?case by (auto simp: p)
qed simp

section \<open>The steps\<close>

lemma checkout_remote:
  assumes "checkout_action v = (True, True)"
  obtains use a where "v = JStr use" "REMOTE_ACTION use = Some a" "lower (ra_repository a) = ''actions/checkout''" "ra_path a = None"
  using assms by (cases v) (auto simp: checkout_action_def split: option.split_asm if_split_asm)

lemma bootstrap_remote:
  assumes "bootstrap_action v = Some sha1"
  obtains use a where "v = JStr use" "REMOTE_ACTION use = Some a" "lower (ra_repository a) = ''halildeu/platform-k8s-gitops''"
    "ra_path a = Some ''/.github/actions/protected-bootstrap''" "ra_revision a = sha1"
  using assms by (cases v) (auto simp: bootstrap_action_def split: option.split_asm if_split_asm)

lemma post_step_remote:
  assumes "post_step_ok sha1 (JObj step) = Inr ()"
  obtains use a env where "jget step ''uses'' = JStr use" "REMOTE_ACTION use = Some a" "ra_revision a = sha1" "\<not> startswith use ''./''"
    "fst ` set step \<subseteq> {''name'', ''uses'', ''env''}" "jget step ''env'' = JObj env" "dict_is env POST_BOOTSTRAP_ENV"
  using assms
  by (cases "jget step ''uses''") (auto simp: post_step_ok_def bindE_Inr_iff split: if_split_asm)

text \<open>An action whose path starts with a dot is in a repository owned by the dot.\<close>

lemma dot_owner: "startswith use ''./'' \<Longrightarrow> REMOTE_ACTION use = Some a \<Longrightarrow> startswith (ra_repository a) ''./''"
proof -
  assume "startswith use ''./''"
  then obtain t where s: "use = ''./'' @ t" by (metis append_take_drop_id startswith_def)
  assume "REMOTE_ACTION use = Some a"
  then show ?thesis unfolding s by (auto simp: REMOTE_ACTION_def split_first_def Let_def startswith_def split: if_split_asm)
qed

lemma not_local: "REMOTE_ACTION use = Some a \<Longrightarrow> lower (ra_repository a) = c # r \<Longrightarrow> c \<noteq> CHR ''.'' \<Longrightarrow> \<not> startswith use ''./''"
  using dot_owner [of use a]
  by (cases "ra_repository a") (auto simp: startswith_def lower_def ascii_lower_def Let_def)

lemma bootstrap_job:
  assumes "validate_bootstrap_step job sp url = Inr ()"
  obtains checkout bootstrap post sha1 where "job_steps job = Inr (map JObj (checkout # bootstrap # post))"
    "checkout_step_ok checkout" "bootstrap_action (jget bootstrap ''uses'') = Some sha1" "bootstrap_step_ok sp url bootstrap = Inr ()"
    "post \<noteq> []" "length post \<le> 8" "\<forall>step \<in> set post. post_step_ok sha1 (JObj step) = Inr ()"
proof -
  let ?is = "\<lambda>steps i. bootstrap_action (jget (steps ! i) ''uses'') \<noteq> None"
  from assms obtain vs steps where v: "job_steps job = Inr vs" "vs = map JObj steps"
    and m: "length (filter (?is steps) [0..<length steps]) = 1" "hd (filter (?is steps) [0..<length steps]) = 1"
    and rest: "checkout_step_ok (steps ! 0)" "bootstrap_step_ok sp url (steps ! 1) = Inr ()"
      "1 \<le> length (drop 2 vs)" "length (drop 2 vs) \<le> 8"
      "\<forall>x \<in> set (drop 2 vs). post_step_ok (the (bootstrap_action (jget (steps ! 1) ''uses''))) x = Inr ()"
    unfolding validate_bootstrap_step_def Let_def
    by (auto elim!: bindE_InrE simp: mappings forE_Inr_iff simp del: One_nat_def)
  from m have "1 \<in> set (filter (?is steps) [0..<length steps])" by (metis hd_in_set length_0_conv zero_neq_one)
  then have one: "1 < length steps" "?is steps 1" by auto
  then obtain checkout bootstrap post where s: "steps = checkout # bootstrap # post" by (cases steps; cases "tl steps") auto
  from one(2) s obtain sha1 where "bootstrap_action (jget bootstrap ''uses'') = Some sha1" by auto
  with v rest s show thesis by (intro that [of checkout bootstrap post sha1]) auto
qed

lemma job_steps_map: "job_steps job = Inr (v # vs) \<Longrightarrow> map_of job ''steps'' = Some (JArr (v # vs))"
  by (auto simp: job_steps_def split: option.split_asm)

section \<open>The workflow\<close>

lemma inspect_workflow_Inr:
  assumes "inspect_workflow H Y raw sp environment url = Inr w"
  obtains workflow job group_name local_uses external_uses where "parse_yaml Y raw = Inr workflow" "raw_text_ok Y raw = Inr ()"
    "validate_trigger workflow = Inr ()" "validate_permissions workflow = Inr ()"
    "concurrency_group H workflow = Inr (group_name, wi_concurrency_group_sha256 w)"
    "jget workflow ''jobs'' = JObj [(iw_governed_job w, JObj job)]"
    "inspect_job environment (JObj job) = Inr (Some (iw_runs_on_labels w, iw_runner_group w), local_uses, external_uses)"
    "validate_bootstrap_step job sp url = Inr ()" "iw_runs_on_labels w = sp_required_runs_on_labels sp"
    "sp_require_runner_group sp = (iw_runner_group w \<noteq> None)" "wi_workflow_sha256 w = ''sha256:'' @ h_sha H raw"
    "iw_local_uses w = sorted_set local_uses" "iw_external_uses w = sorted_set external_uses"
    "digest H (dependency_body (iw_local_uses w) (iw_external_uses w)) = Inr (wi_dependency_lock_sha256 w)"
  using assms unfolding inspect_workflow_def
  by (auto elim!: bindE_InrE split: list.split_asm prod.split_asm option.split_asm if_split_asm)

lemma inspect_job_Inr:
  assumes "inspect_job environment (JObj job) = Inr (Some r, uses)"
  obtains steps where "job_steps job = Inr steps" "foldE inspect_step steps ([], []) = Inr uses"
    "environment_name (jget job ''environment'') = Inr (Some environment)" "runs_on (jget job ''runs-on'') = Inr r"
  using assms unfolding inspect_job_def by (auto elim!: bindE_InrE split: if_split_asm)

text \<open>The step's reference, when it is a remote action outside the local paths.\<close>

definition uses_remote :: "(string \<times> json) list \<Rightarrow> string \<times> remote_action \<Rightarrow> bool" where
  "uses_remote step = (\<lambda>(use, a). map_of step ''uses'' = Some (JStr use) \<and> REMOTE_ACTION use = Some a \<and> \<not> startswith use ''./'')"

lemma checkout_uses:
  assumes "checkout_step_ok step"
  obtains use a where "uses_remote step (use, a)" "lower (ra_repository a) = ''actions/checkout''" "ra_path a = None"
    "map_of step ''run'' = None" "map_of step ''shell'' = None"
proof -
  from assms have k: "fst ` set step \<subseteq> {''name'', ''uses''}" "checkout_action (jget step ''uses'') = (True, True)"
    by (simp_all add: checkout_step_ok_def)
  from checkout_remote [OF k(2)] obtain use a where "jget step ''uses'' = JStr use" "REMOTE_ACTION use = Some a"
    "lower (ra_repository a) = ''actions/checkout''" "ra_path a = None" by blast
  with no_key [OF k(1)] show thesis by (intro that [of use a]) (auto simp: uses_remote_def jget_JStr not_local)
qed

lemma bootstrap_uses:
  assumes "bootstrap_action (jget step ''uses'') = Some sha1" "bootstrap_step_ok sp url step = Inr ()"
  obtains use a env where "uses_remote step (use, a)" "lower (ra_repository a) = ''halildeu/platform-k8s-gitops''"
    "ra_path a = Some ''/.github/actions/protected-bootstrap''" "ra_revision a = sha1"
    "map_of step ''run'' = None" "map_of step ''shell'' = None" "jget step ''env'' = JObj env"
    "\<forall>(name, v) \<in> set BOOTSTRAP_ENV. jget env name = JStr v" "jget env ''CROSS_AI_BOOTSTRAP_URL'' = JStr url"
proof -
  from assms(2) obtain env where k: "fst ` set step \<subseteq> {''name'', ''env'', ''uses'', ''with''}" "jget step ''env'' = JObj env"
    "\<forall>(name, v) \<in> set BOOTSTRAP_ENV. jget env name = JStr v" "jget env ''CROSS_AI_BOOTSTRAP_URL'' = JStr url"
    unfolding bootstrap_step_ok_def by (auto elim!: bindE_InrE simp: list_ex_iff eq_str_def case_prod_beta)
  from bootstrap_remote [OF assms(1)] obtain use a where "jget step ''uses'' = JStr use" "REMOTE_ACTION use = Some a"
    "lower (ra_repository a) = ''halildeu/platform-k8s-gitops''" "ra_path a = Some ''/.github/actions/protected-bootstrap''" "ra_revision a = sha1"
    by blast
  with k no_key [OF k(1)] show thesis by (intro that [of use a env]) (auto simp: uses_remote_def jget_JStr not_local)
qed

lemma post_uses:
  assumes "post_step_ok sha1 (JObj step) = Inr ()"
  shows "\<exists>p. uses_remote step p \<and> ra_revision (snd p) = sha1 \<and> map_of step ''run'' = None \<and> map_of step ''shell'' = None"
proof -
  from post_step_remote [OF assms] obtain use a where u: "jget step ''uses'' = JStr use" "REMOTE_ACTION use = Some a" "ra_revision a = sha1"
    "\<not> startswith use ''./''" "fst ` set step \<subseteq> {''name'', ''uses'', ''env''}" by blast
  with no_key [OF u(5)] show ?thesis by (intro exI [of _ "(use, a)"]) (auto simp: uses_remote_def jget_JStr)
qed

lemma posts_use:
  assumes "\<forall>step \<in> set post. post_step_ok sha1 (JObj step) = Inr ()"
  obtains us where "list_all2 uses_remote post us" "\<forall>p \<in> set us. ra_revision (snd p) = sha1"
    "\<forall>step \<in> set post. map_of step ''run'' = None \<and> map_of step ''shell'' = None"
proof -
  from assms post_uses have "\<forall>step \<in> set post. \<exists>p. uses_remote step p \<and> ra_revision (snd p) = sha1" by blast
  then obtain f where "\<forall>step \<in> set post. uses_remote step (f step) \<and> ra_revision (snd (f step)) = sha1" by metis
  with assms post_uses show thesis by (intro that [of "map f post"]) (auto simp: list_all2_conv_all_nth)
qed

lemma pinned_steps:
  assumes "list_all2 uses_remote steps us" "foldE inspect_step (map JObj steps) ([], []) = Inr (local_uses, external_uses)"
    and "\<forall>step \<in> set steps. map_of step ''run'' = None \<and> map_of step ''shell'' = None"
  shows "local_uses = []" "external_uses = map fst us" "list_all2 (\<lambda>step p. runs_pinned step (snd p)) steps us"
proof -
  have u: "list_all2 (\<lambda>step (use, a). map_of step ''uses'' = Some (JStr use) \<and> REMOTE_ACTION use = Some a \<and> \<not> startswith use ''./'') steps us"
    using assms(1) by (simp add: uses_remote_def [abs_def])
  from inspect_steps_remote [OF assms(2) u] show "local_uses = []" "external_uses = map fst us" by auto
  from inspect_steps_remote [OF assms(2) u] assms(1,3) show "list_all2 (\<lambda>step p. runs_pinned step (snd p)) steps us"
    by (fastforce simp: list_all2_conv_all_nth uses_remote_def runs_pinned_def case_prod_beta)
qed

text \<open>A workflow value that names exactly these labels, and this runner group if there is one.\<close>

definition names_labels :: "string list \<Rightarrow> json \<Rightarrow> bool" where
  "names_labels labels v = (v = JArr (map JStr labels) \<or> (\<exists>l. labels = [l] \<and> v = JStr l))"

definition names_runners :: "string list \<Rightarrow> string option \<Rightarrow> json \<Rightarrow> bool" where
  "names_runners labels grp v = (case grp of
     None \<Rightarrow> names_labels labels v
   | Some g \<Rightarrow> \<exists>d. v = JObj d \<and> jget d ''group'' = JStr g \<and> names_labels labels (jget d ''labels''))"

definition names_environment :: "string \<Rightarrow> json \<Rightarrow> bool" where
  "names_environment name v = (v = JStr name \<or> (\<exists>d. v = JObj d \<and> jget d ''name'' = JStr name))"

lemma those_label_text: "those (map label_text vs) = Some ls \<Longrightarrow> vs = map JStr ls"
  by (induction vs arbitrary: ls) (auto simp: label_text_def split: option.split_asm json.split_asm if_split_asm)

lemma runs_on_labels_Inr:
  assumes "runs_on_labels v = Inr labels"
  shows "names_labels labels v" "distinct labels"
  using assms unfolding runs_on_labels_def
  by (auto elim!: bindE_InrE simp: names_labels_def those_label_text split: json.split_asm if_split_asm option.split_asm)

lemma runs_on_Inr:
  assumes "runs_on v = Inr (labels, grp)"
  shows "names_runners labels grp v" "distinct labels"
  using assms runs_on_labels_Inr unfolding runs_on_def
  by (auto elim!: bindE_InrE simp: names_runners_def split: json.split_asm if_split_asm option.split)

lemma environment_name_Inr: "environment_name v = Inr (Some name) \<Longrightarrow> names_environment name v"
  by (auto simp: environment_name_def names_environment_def split: json.split_asm if_split_asm)

definition contained_workflow :: "host \<Rightarrow> yaml_host \<Rightarrow> string \<Rightarrow> stage_policy \<Rightarrow> string \<Rightarrow> string \<Rightarrow> inspected_workflow \<Rightarrow> bool" where
  "contained_workflow H Y raw sp environment url w = (\<exists>workflow job checkout bootstrap post c b us env. parse_yaml Y raw = Inr workflow
      \<and> jget workflow ''jobs'' = JObj [(iw_governed_job w, JObj job)]
      \<and> names_environment environment (jget job ''environment'')
      \<and> names_runners (sp_required_runs_on_labels sp) (iw_runner_group w) (jget job ''runs-on'')
      \<and> iw_runs_on_labels w = sp_required_runs_on_labels sp \<and> (iw_runner_group w \<noteq> None) = sp_require_runner_group sp
      \<and> wi_workflow_sha256 w = ''sha256:'' @ h_sha H raw
      \<and> map_of job ''steps'' = Some (JArr (map JObj (checkout # bootstrap # post))) \<and> post \<noteq> [] \<and> length post \<le> 8
      \<and> runs_pinned checkout c \<and> lower (ra_repository c) = ''actions/checkout'' \<and> ra_path c = None
      \<and> runs_pinned bootstrap b \<and> lower (ra_repository b) = ''halildeu/platform-k8s-gitops''
      \<and> ra_path b = Some ''/.github/actions/protected-bootstrap''
      \<and> list_all2 (\<lambda>step p. runs_pinned step (snd p) \<and> ra_revision (snd p) = ra_revision b) post (drop 2 us)
      \<and> iw_local_uses w = [] \<and> iw_external_uses w = sorted_set (map fst us)
      \<and> list_all2 (\<lambda>step p. map_of step ''uses'' = Some (JStr (fst p))) (checkout # bootstrap # post) us
      \<and> jget bootstrap ''env'' = JObj env \<and> (\<forall>(name, v) \<in> set BOOTSTRAP_ENV. jget env name = JStr v)
      \<and> jget env ''CROSS_AI_BOOTSTRAP_URL'' = JStr url
      \<and> \<not> FORBIDDEN_AUTHORITY raw \<and> find_count (secret_context Y) [] raw = 3
      \<and> (\<forall>name \<in> set PROTECTED_SECRET_NAMES. protected_secret_reference_count raw name = 1))"

lemma inspected_contained:
  assumes "inspect_workflow H Y raw sp environment url = Inr w"
  shows "contained_workflow H Y raw sp environment url w"
proof -
  obtain workflow job grp local_uses external_uses where w: "parse_yaml Y raw = Inr workflow" "raw_text_ok Y raw = Inr ()"
    "jget workflow ''jobs'' = JObj [(iw_governed_job w, JObj job)]"
    "inspect_job environment (JObj job) = Inr (Some (iw_runs_on_labels w, iw_runner_group w), local_uses, external_uses)"
    "validate_bootstrap_step job sp url = Inr ()" "iw_runs_on_labels w = sp_required_runs_on_labels sp"
    "sp_require_runner_group sp = (iw_runner_group w \<noteq> None)" "wi_workflow_sha256 w = ''sha256:'' @ h_sha H raw" "iw_local_uses w = sorted_set local_uses" "iw_external_uses w = sorted_set external_uses"
    by (rule inspect_workflow_Inr [OF assms])
  obtain checkout bootstrap post sha1 where s: "job_steps job = Inr (map JObj (checkout # bootstrap # post))"
    "checkout_step_ok checkout" "bootstrap_action (jget bootstrap ''uses'') = Some sha1" "bootstrap_step_ok sp url bootstrap = Inr ()"
    "post \<noteq> []" "length post \<le> 8" "\<forall>step \<in> set post. post_step_ok sha1 (JObj step) = Inr ()"
    by (rule bootstrap_job [OF w(5)])
  obtain cu c where c: "uses_remote checkout (cu, c)" "lower (ra_repository c) = ''actions/checkout''" "ra_path c = None"
    "map_of checkout ''run'' = None" "map_of checkout ''shell'' = None" by (rule checkout_uses [OF s(2)])
  obtain bu b env where b: "uses_remote bootstrap (bu, b)" "lower (ra_repository b) = ''halildeu/platform-k8s-gitops''"
    "ra_path b = Some ''/.github/actions/protected-bootstrap''" "ra_revision b = sha1"
    "map_of bootstrap ''run'' = None" "map_of bootstrap ''shell'' = None" "jget bootstrap ''env'' = JObj env"
    "\<forall>(name, v) \<in> set BOOTSTRAP_ENV. jget env name = JStr v" "jget env ''CROSS_AI_BOOTSTRAP_URL'' = JStr url"
    by (rule bootstrap_uses [OF s(3,4)])
  obtain us where us: "list_all2 uses_remote post us" "\<forall>p \<in> set us. ra_revision (snd p) = sha1"
    "\<forall>step \<in> set post. map_of step ''run'' = None \<and> map_of step ''shell'' = None" by (rule posts_use [OF s(7)])
  obtain steps where j: "job_steps job = Inr steps" "foldE inspect_step steps ([], []) = Inr (local_uses, external_uses)"
    "environment_name (jget job ''environment'') = Inr (Some environment)"
    "runs_on (jget job ''runs-on'') = Inr (iw_runs_on_labels w, iw_runner_group w)" by (rule inspect_job_Inr [OF w(4)])
  note runners = runs_on_Inr(1) [OF j(4)] environment_name_Inr [OF j(3)]
  let ?us = "(cu, c) # (bu, b) # us"
  from j(1,2) s(1) have f: "foldE inspect_step (map JObj (checkout # bootstrap # post)) ([], []) = Inr (local_uses, external_uses)" by simp
  have a: "list_all2 uses_remote (checkout # bootstrap # post) ?us" using c(1) b(1) us(1) by simp
  have "\<forall>step \<in> set (checkout # bootstrap # post). map_of step ''run'' = None \<and> map_of step ''shell'' = None" using c b us(3) by simp
  note p = pinned_steps [OF a f this]
  have u: "list_all2 (\<lambda>step p. map_of step ''uses'' = Some (JStr (fst p))) (checkout # bootstrap # post) ?us"
    using a by (auto simp: uses_remote_def elim!: list_all2_mono)
  have post: "list_all2 (\<lambda>step p. runs_pinned step (snd p) \<and> ra_revision (snd p) = ra_revision b) post us"
  proof -
    from p(3) have "list_all2 (\<lambda>step p. runs_pinned step (snd p)) post us" by simp
    with us(2) b(4) show ?thesis by (auto simp: list_all2_conv_all_nth)
  qed
  have text1: "\<not> FORBIDDEN_AUTHORITY raw" "find_count (secret_context Y) [] raw = 3"
    "\<forall>name \<in> set PROTECTED_SECRET_NAMES. protected_secret_reference_count raw name = 1"
    using w(2) by (auto simp: raw_text_ok_def list_ex_iff PROTECTED_SECRET_NAMES_def)
  show ?thesis unfolding contained_workflow_def
    by (rule exI [of _ workflow], rule exI [of _ job], rule exI [of _ checkout], rule exI [of _ bootstrap], rule exI [of _ post],
        rule exI [of _ c], rule exI [of _ b], rule exI [of _ ?us], rule exI [of _ env])
      (use w s c b j(1) runners p u post text1 in \<open>simp add: job_steps_map sorted_set_def\<close>)
qed

text \<open>
  C30: an inspected workflow is contained. It has one job; the job's environment value names the
  Environment, and its runs-on value names exactly the labels of the policy, with a runner group
  exactly when the policy requires one. Its first step is the root checkout action, its second the protected
  bootstrap action, and one to eight further steps run actions of the bootstrap's own
  commit; every step names a remote action at a full commit and none has a script. The bootstrap
  step's env has the pinned secret expressions and URL. The text accesses the secrets context by
  a dot or a bracket exactly three times, and once as each protected secret; it matches no input or
  variable pattern. The recorded references are exactly those of the steps, none of them local.
\<close>

theorem inspected_workflow_contained:
  assumes "inspect_workflow H Y raw sp environment url = Inr w"
  shows "\<exists>workflow job checkout bootstrap post c b us env. parse_yaml Y raw = Inr workflow
    \<and> jget workflow ''jobs'' = JObj [(iw_governed_job w, JObj job)]
    \<and> names_environment environment (jget job ''environment'')
    \<and> names_runners (sp_required_runs_on_labels sp) (iw_runner_group w) (jget job ''runs-on'')
    \<and> iw_runs_on_labels w = sp_required_runs_on_labels sp \<and> (iw_runner_group w \<noteq> None) = sp_require_runner_group sp
    \<and> wi_workflow_sha256 w = ''sha256:'' @ h_sha H raw
    \<and> map_of job ''steps'' = Some (JArr (map JObj (checkout # bootstrap # post))) \<and> post \<noteq> [] \<and> length post \<le> 8
    \<and> runs_pinned checkout c \<and> lower (ra_repository c) = ''actions/checkout'' \<and> ra_path c = None
    \<and> runs_pinned bootstrap b \<and> lower (ra_repository b) = ''halildeu/platform-k8s-gitops''
    \<and> ra_path b = Some ''/.github/actions/protected-bootstrap''
    \<and> list_all2 (\<lambda>step p. runs_pinned step (snd p) \<and> ra_revision (snd p) = ra_revision b) post (drop 2 us)
    \<and> iw_local_uses w = [] \<and> iw_external_uses w = sorted_set (map fst us)
    \<and> list_all2 (\<lambda>step p. map_of step ''uses'' = Some (JStr (fst p))) (checkout # bootstrap # post) us
    \<and> jget bootstrap ''env'' = JObj env \<and> (\<forall>(name, v) \<in> set BOOTSTRAP_ENV. jget env name = JStr v)
    \<and> jget env ''CROSS_AI_BOOTSTRAP_URL'' = JStr url
    \<and> \<not> FORBIDDEN_AUTHORITY raw \<and> find_count (secret_context Y) [] raw = 3
    \<and> (\<forall>name \<in> set PROTECTED_SECRET_NAMES. protected_secret_reference_count raw name = 1)"
  using inspected_contained [OF assms] unfolding contained_workflow_def .

section \<open>A contained workflow\<close>

definition wf_sha :: string where
  "wf_sha = replicate 40 (CHR ''a'')"

definition wf_policy :: stage_policy where
  "wf_policy = \<lparr>sp_stage = ''apply'', sp_workflow_path = ''w.yml'', sp_required_runs_on_labels = [''x''], sp_require_runner_group = False\<rparr>"

abbreviation ystr :: "(string \<times> string) list \<Rightarrow> ynode" where
  "ystr d \<equiv> YMapping False (map (\<lambda>(k, v). (YScalar False k, YScalar False v)) d)"

abbreviation ymap :: "(string \<times> ynode) list \<Rightarrow> ynode" where
  "ymap d \<equiv> YMapping False (map (\<lambda>(k, v). (YScalar False k, v)) d)"

definition wf_steps :: "ynode list" where
  "wf_steps = [ystr [(''uses'', ''actions/checkout@'' @ wf_sha)],
     ymap [(''uses'', YScalar False (''Halildeu/platform-k8s-gitops/.github/actions/protected-bootstrap@'' @ wf_sha)),
       (''with'', ystr [(''stage'', ''apply''), (''workflow-path'', ''w.yml''), (''expected-trust-root-sha256'', ''sha256:'' @ replicate 64 (CHR ''b''))]),
       (''env'', ystr (BOOTSTRAP_ENV @ [(''CROSS_AI_BOOTSTRAP_URL'', ''u'')]))],
     ymap [(''uses'', YScalar False (''o/r/deploy@'' @ wf_sha)), (''env'', ystr POST_BOOTSTRAP_ENV)]]"

definition wf_file :: "ynode list \<Rightarrow> ynode" where
  "wf_file steps = ymap [(''on'', YScalar False ''workflow_dispatch''), (''permissions'', ystr [(''contents'', ''read''), (''id-token'', ''write'')]),
     (''concurrency'', ystr [(''group'', ''g''), (''cancel-in-progress'', ''false'')]),
     (''jobs'', ymap [(''deploy'', ymap [(''environment'', YScalar False ''prod''), (''runs-on'', YScalar False ''x''), (''steps'', YSequence False steps)])])]"

definition wf_node :: ynode where
  "wf_node = wf_file wf_steps"

definition wf_raw :: string where
  "wf_raw = ''${{ secrets.CROSS_AI_BOOTSTRAP_TOKEN }} ${{ secrets.CROSS_AI_ENDPOINT_ID }} ${{ secrets.CROSS_AI_OPERATOR_ID }}''"

text \<open>A YAML package that reads this text as the workflow and any other as a scalar.\<close>

definition wf_yaml :: yaml_host where
  "wf_yaml = \<lparr>wy_utf8 = (\<lambda>_. True), wy_scan = (\<lambda>_. Some False),
     wy_compose = (\<lambda>raw. Some (Some (if raw = wf_raw then wf_node else YScalar False raw))), wy_word = (\<lambda>_. False)\<rparr>"

lemma wf_inspected:
  "map_sum id iw_governed_job (inspect_workflow gw_host wf_yaml wf_raw wf_policy ''prod'' ''u'') = Inr ''deploy''"
  by code_simp

theorem inspected_workflow_contained_witness:
  "\<exists>workflow post. parse_yaml wf_yaml wf_raw = Inr workflow \<and> length post = 1
     \<and> (\<forall>step \<in> set post. \<exists>a. runs_pinned step a)"
proof -
  from wf_inspected obtain w where w: "inspect_workflow gw_host wf_yaml wf_raw wf_policy ''prod'' ''u'' = Inr w"
    by (cases "inspect_workflow gw_host wf_yaml wf_raw wf_policy ''prod'' ''u''") auto
  obtain workflow post and us :: "(string \<times> remote_action) list" and b :: remote_action where x: "parse_yaml wf_yaml wf_raw = Inr workflow" "post \<noteq> []"
    "list_all2 (\<lambda>step p. runs_pinned step (snd p) \<and> ra_revision (snd p) = ra_revision b) post (drop 2 us)"
    using inspected_workflow_contained [OF w] by (elim exE conjE) (rule that, assumption+)
  then have "\<exists>a. runs_pinned (hd post) a" by (cases post; cases "drop 2 us") auto
  with x(1) show ?thesis by (intro exI [of _ workflow] exI [of _ "[hd post]"]) auto
qed

section \<open>The whole secrets context\<close>

text \<open>
  The inspection counts accesses to the secrets context by a dot or a bracket. The same workflow
  whose first step is named by an expression over the whole context passes.
\<close>

definition leak_steps :: "ynode list" where
  "leak_steps = ystr [(''name'', ''${{ toJSON(secrets) }}''), (''uses'', ''actions/checkout@'' @ wf_sha)] # tl wf_steps"

definition leak_yaml :: yaml_host where
  "leak_yaml = wf_yaml\<lparr>wy_compose := (\<lambda>_. Some (Some (wf_file leak_steps)))\<rparr>"

lemma whole_secrets_context_passes:
  "map_sum id iw_governed_job
     (inspect_workflow gw_host leak_yaml (wf_raw @ '' ${{ toJSON(secrets) }}'') wf_policy ''prod'' ''u'') = Inr ''deploy''"
  by code_simp

text \<open>
  The two runtime errors of the strict constructor, which its caller does not convert: a scalar or a
  sequence that carries the mapping tag and is not empty.
\<close>

lemma mapping_tag_raises:
  "construct (YMapping False [(YScalar False ''on'', YScalar True ''x'')]) = Inl ValueError"
  "construct (YMapping False [(YScalar False ''on'', YSequence True [YScalar False ''x''])]) = Inl TypeError"
  by code_simp+

end
