(* ===== verification/Signer.thy ===== *)
theory Signer
  imports Github
begin

text \<open>
  The envelope signer of \<^verbatim>\<open>transit.py\<close>: an Ed25519 key inside Vault Transit, reached over the HTTP
  transport of \<^verbatim>\<open>github.py\<close>. A signer that seals JSON payloads into envelopes is an interface of
  the issuers of evidence; its laws are the locale \<open>sealing\<close>.
\<close>

section \<open>Base64\<close>

text \<open>\<^verbatim>\<open>base64.b64encode\<close>: the standard alphabet with padding.\<close>

definition b64std_char :: "nat \<Rightarrow> char" where
  "b64std_char n = (if n = 62 then CHR ''+'' else if n = 63 then CHR ''/'' else b64_char n)"

definition b64encode :: "string \<Rightarrow> string" where
  "b64encode bs = map b64std_char (sextets (map byte bs)) @ replicate ((3 - length bs mod 3) mod 3) (CHR ''='')"

section \<open>The key\<close>

definition lower_alnum :: "char \<Rightarrow> bool" where
  "lower_alnum c = (is_digit c \<or> 97 \<le> byte c \<and> byte c \<le> 122)"

definition VAULT_NAME :: "string \<Rightarrow> bool" where
  "VAULT_NAME s = (s \<noteq> [] \<and> lower_alnum (hd s) \<and> length s \<le> 63 \<and> list_all (\<lambda>c. lower_alnum c \<or> c = CHR ''_'' \<or> c = CHR ''-'') s)"

definition std_b64_char :: "char \<Rightarrow> bool" where
  "std_b64_char c = (is_digit c \<or> 65 \<le> byte c \<and> byte c \<le> 90 \<or> 97 \<le> byte c \<and> byte c \<le> 122 \<or> c = CHR ''+'' \<or> c = CHR ''/'')"

text \<open>The two groups of the pattern: the version and the signature.\<close>

definition VAULT_SIGNATURE :: "string \<Rightarrow> (string \<times> string) option" where
  "VAULT_SIGNATURE s =
     (let (version, sig) = split_first (CHR '':'') (drop 7 s) in
      if startswith s ''vault:v'' \<and> version \<noteq> [] \<and> hd version \<noteq> CHR ''0'' \<and> list_all is_digit version
        \<and> sig \<noteq> [] \<and> std_b64_char (hd sig) \<and> dropWhile std_b64_char sig \<in> {'''', ''='', ''==''}
      then Some (version, sig) else None)"

record vault_signer =
  vs_origin :: string
  vs_token :: string
  vs_mount :: string
  vs_key_name :: string
  vs_key_version :: int

definition new_vault_signer :: "web_host \<Rightarrow> string \<Rightarrow> string option \<Rightarrow> string \<Rightarrow> string \<Rightarrow> int \<Rightarrow> vault_signer result" where
  "new_vault_signer W vault_origin token_file mount key_name key_version =
     bindE (urlsplit W vault_origin) (\<lambda>parsed.
     bindE (reject_if
       [(su_scheme parsed \<noteq> ''https'' \<or> CHR ''@'' \<in> set (su_netloc parsed) \<or> su_path parsed \<noteq> [] \<or> su_query parsed \<noteq> []
           \<or> su_fragment parsed \<noteq> [], ''VAULT_ORIGIN_INVALID''),
        (\<not> VAULT_NAME mount \<or> \<not> VAULT_NAME key_name \<or> key_version < 1, ''VAULT_TRANSIT_KEY_INVALID''),
        (token_file = None, ''VAULT_TOKEN_UNAVAILABLE'')]) (\<lambda>_.
     let bearer = strip bytes_spaces (the token_file) in
     bindE (reject_if
       [(length bearer < 20 \<or> length bearer > 4096 \<or> CHR 0x00 \<in> set bearer, ''VAULT_TOKEN_INVALID''),
        (list_ex (\<lambda>c. byte c > 127) bearer, ''VAULT_TOKEN_INVALID'')]) (\<lambda>_.
     Inr \<lparr>vs_origin = vault_origin, vs_token = bearer, vs_mount = mount, vs_key_name = key_name, vs_key_version = key_version\<rparr>)))"

definition vault_key_id :: "vault_signer \<Rightarrow> string" where
  "vault_key_id V = ''vault-transit://'' @ vs_mount V @ ''/'' @ vs_key_name V @ ''#v'' @ int_dec (vs_key_version V)"

section \<open>Signing\<close>

definition sign_request :: "vault_signer \<Rightarrow> string \<Rightarrow> http_request" where
  "sign_request V body =
     \<lparr>rq_method = ''POST'', rq_url = vs_origin V @ ''/v1/'' @ vs_mount V @ ''/sign/'' @ vs_key_name V,
      rq_headers = [(''Content-Type'', ''application/json''), (''X-Vault-Token'', vs_token V),
        (''User-Agent'', ''acik-cross-ai-evidence-issuer/1'')], rq_body = Some body\<rparr>"

text \<open>\<^verbatim>\<open>int\<close> refuses more than 4300 digits.\<close>

definition sign_answer :: "host \<Rightarrow> web_host \<Rightarrow> int \<Rightarrow> http_response \<Rightarrow> string result" where
  "sign_answer H W key_version response =
     (if hr_status response \<noteq> 200 then reject ''VAULT_SIGN_FAILED''
      else bindE (loads_json_bytes H W (4 * 1024 * 1024) (hr_body response)) (\<lambda>payload.
        case jget payload ''data'' of
          JObj data \<Rightarrow>
            (case jget data ''signature'' of
               JStr signature_value \<Rightarrow>
                 (case VAULT_SIGNATURE signature_value of
                    None \<Rightarrow> reject ''VAULT_SIGN_VERSION_MISMATCH''
                  | Some (version, sig) \<Rightarrow>
                      if length version > 4300 then Inl ValueError
                      else if int (dec_val version) \<noteq> key_version then reject ''VAULT_SIGN_VERSION_MISMATCH''
                      else (case h_b64decode H sig of
                        None \<Rightarrow> reject ''VAULT_SIGN_RESPONSE_INVALID''
                      | Some signature \<Rightarrow>
                          if length signature \<noteq> 64 then reject ''VAULT_SIGN_RESPONSE_INVALID'' else Inr signature))
             | _ \<Rightarrow> reject ''VAULT_SIGN_RESPONSE_INVALID'')
        | _ \<Rightarrow> reject ''VAULT_SIGN_RESPONSE_INVALID''))"

definition vault_sign :: "host \<Rightarrow> web_host \<Rightarrow> gh_env \<Rightarrow> vault_signer \<Rightarrow> string \<Rightarrow> gh \<Rightarrow> string result \<times> gh" where
  "vault_sign H W E V message s =
     (if message = [] \<or> length message > 4 * 1024 * 1024 then (reject ''VAULT_SIGN_INPUT_INVALID'', s)
      else bindS (canonical_bytes (JObj [(''input'', JStr (b64encode message)), (''key_version'', JInt (vs_key_version V))]), s) (\<lambda>body s.
        bindS (transport_request E (sign_request V body) s) (\<lambda>response s.
        (sign_answer H W (vs_key_version V) response, s))))"

text \<open>The envelope that \<^verbatim>\<open>sign_json_envelope\<close> returns.\<close>

definition sealed_envelope :: "string \<Rightarrow> string \<Rightarrow> string \<Rightarrow> string \<Rightarrow> json" where
  "sealed_envelope pt payload_bytes key_id signature = JObj
     [(''payloadType'', JStr pt), (''payload'', JStr (b64encode payload_bytes)),
      (''signatures'', JArr [JObj [(''keyid'', JStr key_id), (''sig'', JStr (b64encode signature))]])]"

definition sign_json_envelope :: "host \<Rightarrow> web_host \<Rightarrow> gh_env \<Rightarrow> vault_signer \<Rightarrow> string \<Rightarrow> (string \<times> json) list \<Rightarrow> gh
    \<Rightarrow> json result \<times> gh" where
  "sign_json_envelope H W E V pt payload s =
     bindS (canonical_bytes (JObj payload), s) (\<lambda>payload_bytes s.
     bindS (pae pt payload_bytes, s) (\<lambda>message s.
     bindS (vault_sign H W E V message s) (\<lambda>signature s.
     (Inr (sealed_envelope pt payload_bytes (vault_key_id V) signature), s))))"

section \<open>The signer as an interface\<close>

text \<open>\<^verbatim>\<open>EnvelopeSigner\<close> of \<^verbatim>\<open>provider.py\<close>.\<close>

record 's envelope_signer =
  es_key_id :: string
  es_sign :: "string \<Rightarrow> (string \<times> json) list \<Rightarrow> 's \<Rightarrow> json result \<times> 's"

definition vault_envelope_signer :: "host \<Rightarrow> web_host \<Rightarrow> gh_env \<Rightarrow> vault_signer \<Rightarrow> gh envelope_signer" where
  "vault_envelope_signer H W E V = \<lparr>es_key_id = vault_key_id V, es_sign = sign_json_envelope H W E V\<rparr>"

end
