(* ===== verification/SignerProps.thy ===== *)
theory SignerProps
  imports Signer GithubProps OidcProps
begin

text \<open>
  What a sealed envelope is worth: the contract of a signer as two locales, and the Vault signer as
  their instance. Envelopes it returns verify under its public key and hold the payload that was sealed.
\<close>

section \<open>Canonical texts\<close>

lemma jnorm_sorted: "sort_key (\<lambda>kv. key_sort_value (fst kv)) (map (\<lambda>kv. (fst kv, f (snd kv))) (sort_key (\<lambda>kv. key_sort_value (fst kv)) kvs))
    = map (\<lambda>kv. (fst kv, f (snd kv))) (sort_key (\<lambda>kv. key_sort_value (fst kv)) kvs)"
  by (rule sort_key_id_if_sorted) (simp add: comp_def)

lemma mapE_cong_Inr:
  assumes "mapE f xs = Inr ys" "\<And>x y. x \<in> set xs \<Longrightarrow> f x = Inr y \<Longrightarrow> g (h x) = Inr y"
  shows "mapE g (map h xs) = Inr ys"
  using assms by (induction xs arbitrary: ys) (auto simp: bindE_Inr_iff)

lemma mapE_total: "\<forall>x \<in> set xs. \<exists>y. f x = Inr y \<Longrightarrow> \<exists>ys. mapE f xs = Inr ys"
  by (induction xs) auto

text \<open>A value and its normal form have the same canonical text.\<close>

lemma render_jnorm: "render v = Inr s \<Longrightarrow> render (jnorm v) = Inr s"
proof (induction v arbitrary: s rule: render.induct)
  case (6 xs)
  then obtain ps where ps: "mapE render xs = Inr ps" "s = ''['' @ join_comma ps @ '']''" by (auto simp: bindE_Inr_iff)
  have "mapE render (map jnorm xs) = Inr ps" using ps(1) 6(1) by (rule mapE_cong_Inr)
  with ps show ?case by simp
next
  case (7 kvs)
  let ?k = "\<lambda>kv. key_sort_value (fst kv)"
  from 7(2) obtain us ps where u: "mapE (\<lambda>kv. validate_string (fst kv)) kvs = Inr us"
    and ps: "mapE (\<lambda>kv. bindE (render (snd kv)) (\<lambda>r. Inr (dumps_str (fst kv) @ '':'' @ r))) (sort_key ?k kvs) = Inr ps"
    and s: "s = ''{'' @ join_comma ps @ ''}''"
    by (auto simp: bindE_Inr_iff)
  have v: "\<exists>us. mapE (\<lambda>kv. validate_string (fst kv)) (map (\<lambda>kv. (fst kv, jnorm (snd kv))) (sort_key ?k kvs)) = Inr us"
  proof -
    have "validate_string (fst kv) = Inr ()" if "kv \<in> set kvs" for kv using mapE_all [OF u that] by auto
    then show ?thesis by (intro mapE_total) auto
  qed
  have "mapE (\<lambda>kv. bindE (render (snd kv)) (\<lambda>r. Inr (dumps_str (fst kv) @ '':'' @ r)))
      (map (\<lambda>kv. (fst kv, jnorm (snd kv))) (sort_key ?k kvs)) = Inr ps"
    using ps by (rule mapE_cong_Inr) (use 7(1) u in \<open>auto simp: bindE_Inr_iff\<close>)
  with v s show ?case by (auto simp: jnorm_sorted)
qed auto

lemma render_total:
  "\<forall>x \<in> set xs. \<exists>t. render x = Inr t \<Longrightarrow> \<exists>t. render (JArr xs) = Inr t"
  "\<forall>kv \<in> set kvs. validate_string (fst kv) = Inr () \<and> (\<exists>t. render (snd kv) = Inr t) \<Longrightarrow> \<exists>t. render (JObj kvs) = Inr t"
  using mapE_total [of xs render] mapE_total [of kvs "\<lambda>kv. validate_string (fst kv)"]
    mapE_total [of "sort_key (\<lambda>kv. key_sort_value (fst kv)) kvs" "\<lambda>kv. bindE (render (snd kv)) (\<lambda>r. Inr (dumps_str (fst kv) @ '':'' @ r))"]
  by (fastforce simp: bindE_Inr_iff)+

lemma ascii_iff: "ascii_char c \<longleftrightarrow> byte c < 128"
  by (cases c) (auto simp: of_char_def horner_sum_simps split: if_splits)

lemma ascii_validates [simp]: "list_all ascii_char s \<Longrightarrow> validate_string s = Inr ()"
  by (simp add: validate_string_code)

lemma ascii_append: "list_all ascii_char (s @ t) \<longleftrightarrow> list_all ascii_char s \<and> list_all ascii_char t"
  by simp

lemma b64std_char_ascii: "n < 64 \<Longrightarrow> ascii_char (b64std_char n)"
proof -
  have "\<forall>n \<in> set [0..<64]. ascii_char (b64std_char n)" by code_simp
  then show "n < 64 \<Longrightarrow> ascii_char (b64std_char n)" by simp
qed

lemma b64encode_ascii: "list_all ascii_char (b64encode bs)"
  using sextets_small [OF bytes_small [of bs]] by (auto simp: b64encode_def list_all_iff b64std_char_ascii)

lemma int_dec_ascii: "list_all ascii_char (int_dec i)"
proof -
  have "ascii_char c" if "num_char c" for c using that by (auto simp: num_char_def is_digit_def ascii_iff)
  then show ?thesis using int_dec_chars [of _ i] by (auto simp: list_all_iff)
qed

lemma VAULT_NAME_ascii: "VAULT_NAME s \<Longrightarrow> list_all ascii_char s"
  by (auto simp: VAULT_NAME_def list_all_iff lower_alnum_def is_digit_def ascii_iff)

lemma pae_ascii: "pae pt p = Inr m \<Longrightarrow> list_all ascii_char pt \<and> pt \<noteq> [] \<and> m \<noteq> []"
  by (auto simp: pae_def list_all_iff list_ex_iff ascii_iff not_less split: if_split_asm)

section \<open>The contract of a signer\<close>

text \<open>
  What a verifier reads from an envelope: the payload of a verified envelope and any other payload with
  the same canonical text are equal up to the order of keys.
\<close>

lemma verified_text:
  assumes "verify_json_envelope H (JObj env) pt keys required one = Inr ve" "strict_b64 H (jget env ''payload'') = Inr text1"
    and "canonical_bytes (JObj payload) = Inr text1"
  shows "jnorm (JObj (ve_payload ve)) = jnorm (JObj payload)"
proof -
  from assms(1,2) have "ve_payload_bytes ve = text1" "canonical_bytes (JObj (ve_payload ve)) = Inr text1"
    by (auto simp: verify_json_envelope_def bindE_Inr_iff split: if_split_asm option.split_asm json.split_asm)
  with assms(3) show ?thesis by (blast intro: canonical_bytes_inject)
qed

text \<open>
  A signer seals a payload: the envelope carries the canonical text of exactly this payload, where
  Base64 decodes what it encoded (\<open>decodes\<close>).
\<close>

locale sealing =
  fixes H :: host and signer :: "'s envelope_signer" and decodes :: bool
  assumes sealed: "decodes \<Longrightarrow> es_sign signer pt payload s = (Inr envelope, s')
    \<Longrightarrow> \<exists>env text1. envelope = JObj env \<and> canonical_bytes (JObj payload) = Inr text1 \<and> strict_b64 H (jget env ''payload'') = Inr text1"
begin

lemma sealed_payload:
  assumes "decodes" "es_sign signer pt payload s = (Inr envelope, s')" "verify_json_envelope H envelope pt' keys required one = Inr ve"
  shows "jnorm (JObj (ve_payload ve)) = jnorm (JObj payload)"
  using sealed [OF assms(1,2)] assms(3) verified_text by blast

end

text \<open>
  And the envelope verifies wherever the signer's key is among the allowed ones, if its surroundings
  are \<open>sound\<close> for the payload.
\<close>

locale verifiable_sealing = sealing H signer decodes
  for H :: host and signer :: "'s envelope_signer" and decodes :: bool +
  fixes public_key :: string and sound :: "(string \<times> json) list \<Rightarrow> bool"
  assumes sound_decodes: "sound payload \<Longrightarrow> decodes"
    and verifies: "sound payload \<Longrightarrow> es_sign signer pt payload s = (Inr envelope, s') \<Longrightarrow> map_of keys (es_key_id signer) = Some public_key
      \<Longrightarrow> \<exists>ve. verify_json_envelope H envelope pt keys [] True = Inr ve \<and> JObj (ve_payload ve) = jnorm (JObj payload)
        \<and> ve_signing_key_ids ve = [es_key_id signer]"

section \<open>The Vault signer\<close>

definition b64_inverse :: "host \<Rightarrow> bool" where
  "b64_inverse H = (\<forall>bs. h_b64decode H (b64encode bs) = Some bs)"

text \<open>
  What Vault Transit documents of its \<^verbatim>\<open>sign\<close> endpoint: when it answers a request of this signer with 200, the signature it
  returns is \<^verbatim>\<open>vault:v\<close>, the number of the key version that made it, a colon and the Base64 text of an Ed25519
  signature by that version, whose public key is \<open>pub\<close> of the number, over the bytes whose encoding is the request's input.
  Nothing is said of the version that is used, or of any other answer.
\<close>

definition vault_signs :: "host \<Rightarrow> gh_env \<Rightarrow> vault_signer \<Rightarrow> (int \<Rightarrow> string) \<Rightarrow> bool" where
  "vault_signs H E V pub = (\<forall>n message requested body reply payload data version sig64 signature.
     canonical_bytes (JObj [(''input'', JStr (b64encode message)), (''key_version'', JInt requested)]) = Inr body
     \<longrightarrow> reply_of (ge_open E n (sign_request V body)) = Some (200, reply)
     \<longrightarrow> h_json_loads H (take (MAX_GITHUB_RESPONSE_BYTES + 1) reply) = Some (JObj payload) \<longrightarrow> jget payload ''data'' = JObj data
     \<longrightarrow> jget data ''signature'' = JStr (''vault:v'' @ version @ '':'' @ sig64) \<longrightarrow> list_all is_digit version
     \<longrightarrow> h_b64decode H sig64 = Some signature \<longrightarrow> h_ed25519 H (pub (int (dec_val version))) signature message)"

text \<open>
  The surroundings of the Vault signer: its names are checked, Base64 and the JSON decoder invert the encoders (the
  decoder up to the order of keys), and Vault signs under public keys of which the signer's version has \<open>public_key\<close>.
\<close>

definition vault_sound :: "host \<Rightarrow> web_host \<Rightarrow> gh_env \<Rightarrow> vault_signer \<Rightarrow> string \<Rightarrow> (string \<times> json) list \<Rightarrow> bool" where
  "vault_sound H W E V public_key payload =
     (b64_inverse H \<and> VAULT_NAME (vs_mount V) \<and> VAULT_NAME (vs_key_name V)
      \<and> (\<forall>text1. canonical_bytes (JObj payload) = Inr text1 \<longrightarrow> h_json_loads H text1 = Some (jnorm (JObj payload)))
      \<and> (\<exists>pub. pub (vs_key_version V) = public_key \<and> vault_signs H E V pub))"

lemma VAULT_SIGNATURE_Some:
  assumes "VAULT_SIGNATURE text1 = Some (version, sig)"
  shows "text1 = ''vault:v'' @ version @ '':'' @ sig \<and> list_all is_digit version"
proof -
  from assms have p: "startswith text1 ''vault:v''" "split_first (CHR '':'') (drop 7 text1) = (version, sig)" "list_all is_digit version" "sig \<noteq> []"
    by (auto simp: VAULT_SIGNATURE_def Let_def split: prod.split_asm if_split_asm)
  have "length ''vault:v'' = 7" by simp
  with append_take_drop_id [of 7 text1] p(1) have v: "text1 = ''vault:v'' @ drop 7 text1" unfolding startswith_def by (simp only:)
  from p(2,4) have "drop 7 text1 = version @ '':'' @ sig"
    using takeWhile_dropWhile_id [of "\<lambda>c. c \<noteq> CHR '':''" "drop 7 text1"] hd_dropWhile [of "\<lambda>c. c \<noteq> CHR '':''" "drop 7 text1"]
    by (cases "dropWhile (\<lambda>c. c \<noteq> CHR '':'') (drop 7 text1)") (auto simp: split_first_def)
  with v p(3) show ?thesis by simp
qed

lemma sign_answer_Inr:
  assumes "sign_answer H W key_version response = Inr signature"
  obtains payload data version sig where "hr_status response = 200" "h_json_loads H (hr_body response) = Some (JObj payload)"
    "jget payload ''data'' = JObj data" "jget data ''signature'' = JStr (''vault:v'' @ version @ '':'' @ sig)"
    "list_all is_digit version" "int (dec_val version) = key_version" "h_b64decode H sig = Some signature"
proof -
  from assms obtain payload data v version sig where x: "hr_status response = 200"
    "loads_json_bytes H W (4 * 1024 * 1024) (hr_body response) = Inr payload" "jget payload ''data'' = JObj data"
    "jget data ''signature'' = JStr v" "VAULT_SIGNATURE v = Some (version, sig)" "int (dec_val version) = key_version"
    "h_b64decode H sig = Some signature"
    unfolding sign_answer_def by (auto elim!: bindE_InrE split: if_split_asm json.split_asm option.split_asm prod.split_asm)
  have "h_json_loads H (hr_body response) = Some (JObj payload)"
    using x(2) by (auto simp: loads_json_bytes_def elim!: bindE_InrE split: if_split_asm option.split_asm json.split_asm)
  with that x VAULT_SIGNATURE_Some [OF x(5)] show thesis by simp
qed

lemma vault_signature:
  assumes "vault_signs H E V pub" "vault_sign H W E V message s = (Inr signature, s')"
  shows "h_ed25519 H (pub (vs_key_version V)) signature message"
proof -
  from assms(2) obtain body response t where x:
    "canonical_bytes (JObj [(''input'', JStr (b64encode message)), (''key_version'', JInt (vs_key_version V))]) = Inr body"
    "transport_request E (sign_request V body) s = (Inr response, t)" "sign_answer H W (vs_key_version V) response = Inr signature"
    by (auto simp: vault_sign_def elim!: bindS_InrE split: if_split_asm)
  obtain reply where r: "reply_of (ge_open E (length (gh_sent s)) (sign_request V body)) = Some (hr_status response, reply)"
    "hr_body response = take (MAX_GITHUB_RESPONSE_BYTES + 1) reply" using x(2) by (rule transport_answer)
  obtain payload data version sig where a: "hr_status response = 200" "h_json_loads H (hr_body response) = Some (JObj payload)"
    "jget payload ''data'' = JObj data" "jget data ''signature'' = JStr (''vault:v'' @ version @ '':'' @ sig)"
    "list_all is_digit version" "int (dec_val version) = vs_key_version V" "h_b64decode H sig = Some signature"
    using x(3) by (rule sign_answer_Inr)
  from assms(1) [unfolded vault_signs_def, rule_format, OF x(1) _ _ a(3,4,5,7)] r a(1,2) have
    "h_ed25519 H (pub (int (dec_val version))) signature message" by simp
  then show ?thesis unfolding a(6) .
qed

lemma sign_answer_length: "sign_answer H W n response = Inr signature \<Longrightarrow> length signature = 64"
  unfolding sign_answer_def
  by (auto elim!: bindE_InrE split: if_split_asm json.split_asm option.split_asm prod.split_asm)

lemma vault_sign_length: "vault_sign H W E V message s = (Inr signature, s') \<Longrightarrow> length signature = 64"
  by (auto simp: vault_sign_def bindS_def dest: sign_answer_length split: if_split_asm sum.split_asm prod.split_asm)

lemma sign_json_envelope_Inr:
  assumes "sign_json_envelope H W E V pt payload s = (Inr envelope, s')"
  obtains text1 message signature where "canonical_bytes (JObj payload) = Inr text1" "pae pt text1 = Inr message"
    "vault_sign H W E V message s = (Inr signature, s')" "envelope = sealed_envelope pt text1 (vault_key_id V) signature"
  using assms by (auto simp: sign_json_envelope_def bindS_def split: sum.split_asm prod.split_asm)

lemma strict_b64_encode: "b64_inverse H \<Longrightarrow> strict_b64 H (JStr (b64encode bs)) = Inr bs"
  by (simp add: strict_b64_def b64_inverse_def)

lemma sealed_digest:
  assumes "list_all ascii_char pt" "list_all ascii_char key_id"
  shows "\<exists>d. digest H (sealed_envelope pt text1 key_id signature) = Inr d"
proof -
  have t: "\<exists>t. render (JStr s) = Inr t" if "list_all ascii_char s" for s using that by simp
  have "\<exists>t. render (sealed_envelope pt text1 key_id signature) = Inr t"
    unfolding sealed_envelope_def
    by (rule render_total(2)) (use t [OF assms(1)] t [OF assms(2)] t [OF b64encode_ascii] in
      \<open>auto simp del: render.simps intro!: render_total\<close>)
  then show ?thesis by (auto simp: sha256_digest_def canonical_bytes_def)
qed

lemma jget_simps: "jget ((k, v) # d) k' = (if k = k' then v else jget d k')" "jget [] k' = JNull"
  by (simp_all add: jget_def)

lemma sealed_verifies:
  assumes "b64_inverse H" "pae pt text1 = Inr message" "h_json_loads H text1 = Some (JObj payload)" "canonical_bytes (JObj payload) = Inr text1"
    and "map_of keys key_id = Some public_key" "length signature = 64" "h_ed25519 H public_key signature message"
    and "list_all ascii_char key_id"
  shows "\<exists>ve. verify_json_envelope H (sealed_envelope pt text1 key_id signature) pt keys [] True = Inr ve
    \<and> ve_payload ve = payload \<and> ve_signing_key_ids ve = [key_id]"
proof -
  from pae_ascii [OF assms(2)] sealed_digest [OF _ assms(8)] obtain d where
    d: "digest H (sealed_envelope pt text1 key_id signature) = Inr d" by blast
  have sigs: "verify_signatures H (JArr [JObj [(''keyid'', JStr key_id), (''sig'', JStr (b64encode signature))]]) pt text1 keys [] True = Inr [key_id]"
    using assms by (simp add: verify_signatures_def verify_signature_def has_fields_def jget_simps strict_b64_encode)
  show ?thesis
    using assms sigs d unfolding sealed_envelope_def
    by (simp add: verify_json_envelope_def has_fields_def jget_simps eq_str_def strict_b64_encode insert_commute)
qed

lemma vault_key_id_ascii: "VAULT_NAME (vs_mount V) \<Longrightarrow> VAULT_NAME (vs_key_name V) \<Longrightarrow> list_all ascii_char (vault_key_id V)"
  by (simp add: vault_key_id_def VAULT_NAME_ascii int_dec_ascii)

lemma vault_sealed:
  assumes "b64_inverse H" "sign_json_envelope H W E V pt payload s = (Inr envelope, s')"
  shows "\<exists>env text1. envelope = JObj env \<and> canonical_bytes (JObj payload) = Inr text1 \<and> strict_b64 H (jget env ''payload'') = Inr text1"
  using assms(2)
  by (rule sign_json_envelope_Inr) (simp add: sealed_envelope_def jget_simps strict_b64_encode [OF assms(1)])

lemma vault_verifies:
  assumes "vault_sound H W E V public_key payload" "sign_json_envelope H W E V pt payload s = (Inr envelope, s')"
    and "map_of keys (vault_key_id V) = Some public_key"
  shows "\<exists>ve. verify_json_envelope H envelope pt keys [] True = Inr ve \<and> JObj (ve_payload ve) = jnorm (JObj payload)
    \<and> ve_signing_key_ids ve = [vault_key_id V]"
proof -
  obtain text1 message signature where x: "canonical_bytes (JObj payload) = Inr text1" "pae pt text1 = Inr message"
    "vault_sign H W E V message s = (Inr signature, s')" "envelope = sealed_envelope pt text1 (vault_key_id V) signature"
    using assms(2) by (rule sign_json_envelope_Inr)
  obtain payload' where n: "jnorm (JObj payload) = JObj payload'" by simp
  note v = assms(1) [unfolded vault_sound_def]
  have "canonical_bytes (JObj payload') = Inr text1" using render_jnorm [of "JObj payload" text1] x(1) n by (simp add: canonical_bytes_def)
  moreover from v obtain pub where "pub (vs_key_version V) = public_key" "vault_signs H E V pub" by blast
  then have "h_ed25519 H public_key signature message" using vault_signature x(3) by blast
  ultimately show ?thesis
    using sealed_verifies [of H pt text1 message payload' keys "vault_key_id V" public_key signature] v x n assms(3)
      vault_sign_length [OF x(3)] vault_key_id_ascii [of V] by auto
qed

interpretation vs: verifiable_sealing H "vault_envelope_signer H W E V" "b64_inverse H" public_key "vault_sound H W E V public_key"
  by (unfold_locales, unfold vault_envelope_signer_def envelope_signer.select_convs)
    (erule (1) vault_sealed, simp add: vault_sound_def, erule (2) vault_verifies)

lemma vault_sign_sent:
  "vault_sign H W E V message s = (Inr signature, s') \<Longrightarrow> \<exists>body. gh_sent s' = gh_sent s @ [sign_request V body]
    \<and> canonical_bytes (JObj [(''input'', JStr (b64encode message)), (''key_version'', JInt (vs_key_version V))]) = Inr body"
  by (auto simp: vault_sign_def bindS_def transport_request_def send_def split: if_split_asm sum.split_asm prod.split_asm)

lemma new_vault_signer_Inr:
  "new_vault_signer W origin token_file mount key_name n = Inr V \<Longrightarrow> VAULT_NAME (vs_mount V) \<and> VAULT_NAME (vs_key_name V) \<and> vs_origin V = origin"
  by (auto simp: new_vault_signer_def bindE_Inr_iff Let_def)

text \<open>
  C37: a sealed envelope verifies. For a signer that was constructed, where Base64 and the JSON
  decoder invert their encoders and Vault answers with signatures of the version that it names, by keys of which the
  allowed one belongs to the signer's version, every envelope that is returned passes the verification with that key, has the signer as its only signer, and gives back
  the sealed payload up to the order of its keys. The only message that left the process for it is one
  request to the signing path of this key below the Vault origin, with the encoding of exactly this payload type and text.
\<close>

theorem sealed_envelope_verifies:
  assumes "new_vault_signer W origin token_file mount key_name n = Inr V"
    and "sign_json_envelope H W E V pt payload s = (Inr envelope, s')" "map_of keys (vault_key_id V) = Some (pub (vs_key_version V))"
    and "\<And>bs. h_b64decode H (b64encode bs) = Some bs"
    and "\<And>text1. canonical_bytes (JObj payload) = Inr text1 \<Longrightarrow> h_json_loads H text1 = Some (jnorm (JObj payload))"
    and "\<And>n message requested body reply payload data version sig64 signature.
      canonical_bytes (JObj [(''input'', JStr (b64encode message)), (''key_version'', JInt requested)]) = Inr body
      \<Longrightarrow> reply_of (ge_open E n (sign_request V body)) = Some (200, reply)
      \<Longrightarrow> h_json_loads H (take (MAX_GITHUB_RESPONSE_BYTES + 1) reply) = Some (JObj payload) \<Longrightarrow> jget payload ''data'' = JObj data
      \<Longrightarrow> jget data ''signature'' = JStr (''vault:v'' @ version @ '':'' @ sig64) \<Longrightarrow> list_all is_digit version
      \<Longrightarrow> h_b64decode H sig64 = Some signature \<Longrightarrow> h_ed25519 H (pub (int (dec_val version))) signature message"
  shows "\<exists>ve message body. verify_json_envelope H envelope pt keys [] True = Inr ve \<and> JObj (ve_payload ve) = jnorm (JObj payload)
    \<and> ve_signing_key_ids ve = [vault_key_id V] \<and> pae pt (ve_payload_bytes ve) = Inr message
    \<and> canonical_bytes (JObj [(''input'', JStr (b64encode message)), (''key_version'', JInt (vs_key_version V))]) = Inr body
    \<and> gh_sent s' = gh_sent s @ [sign_request V body] \<and> startswith (rq_url (sign_request V body)) (origin @ ''/v1/'')"
proof -
  note V = new_vault_signer_Inr [OF assms(1)]
  have signs: "vault_signs H E V pub" unfolding vault_signs_def using assms(6) by (intro allI impI)
  have sound: "vault_sound H W E V (pub (vs_key_version V)) payload"
    unfolding vault_sound_def b64_inverse_def by (intro conjI exI [of _ pub] allI impI refl signs assms(4,5)) (simp_all add: V)
  from vault_verifies [OF sound assms(2,3)] obtain ve where ve: "verify_json_envelope H envelope pt keys [] True = Inr ve"
    "JObj (ve_payload ve) = jnorm (JObj payload)" "ve_signing_key_ids ve = [vault_key_id V]" by blast
  obtain text1 message signature where x: "canonical_bytes (JObj payload) = Inr text1" "pae pt text1 = Inr message"
    "vault_sign H W E V message s = (Inr signature, s')" using assms(2) by (rule sign_json_envelope_Inr)
  have "canonical_bytes (jnorm (JObj payload)) = Inr text1" using render_jnorm x(1) by (simp only: canonical_bytes_def)
  then have "ve_payload_bytes ve = text1" using verify_envelope_Inr [OF ve(1)] ve(2) by auto
  then show ?thesis using ve x(2) vault_sign_sent [OF x(3)] V by (fastforce simp: sign_request_def startswith_def)
qed

text \<open>A Vault that answers every request with the same signature, and a host that decodes its answer.\<close>

definition vw_answer :: string where
  "vw_answer = ''vault:v1:'' @ b64encode (replicate 64 (CHR ''A''))"

definition vw_host :: host where
  "vw_host = \<lparr>h_sha = (\<lambda>b. ''h''), h_iso = (\<lambda>_. None), h_b64decode = (\<lambda>s. b64url_decode (filter (\<lambda>c. c \<noteq> CHR ''='') s)),
     h_json_loads = (\<lambda>t. Some (JObj (if t = ''{}'' then [] else [(''data'', JObj [(''signature'', JStr vw_answer)])]))),
     h_ed25519 = (\<lambda>_ _ _. True), h_schema = (\<lambda>_ _. True), h_readable = (\<lambda>_. True), h_writable = (\<lambda>_. True)\<rparr>"

definition vw_web :: web_host where
  "vw_web = \<lparr>w_hmac = (\<lambda>_ _. []), w_json_events = (\<lambda>_. []), w_netloc_ok = (\<lambda>_. True)\<rparr>"

definition vw_env :: gh_env where
  "vw_env = \<lparr>ge_open = (\<lambda>_ _. OpenOk 200 [] ''r''), ge_now = (\<lambda>_. 0), ge_sign = (\<lambda>_. []), ge_utf8 = (\<lambda>s. s)\<rparr>"

definition vw_signer :: vault_signer where
  "vw_signer = \<lparr>vs_origin = ''https://vault'', vs_token = replicate 20 (CHR ''t''), vs_mount = ''transit'', vs_key_name = ''k'', vs_key_version = 1\<rparr>"

definition vw_start :: gh where
  "vw_start = \<lparr>gh_tokens = (\<lambda>_. None), gh_sent = [], gh_reads = 0\<rparr>"

lemma b64std_value: "n < 64 \<Longrightarrow> b64_value (b64std_char n) = Some n \<and> b64std_char n \<noteq> CHR ''=''"
proof -
  have "\<forall>n \<in> set [0..<64]. b64_value (b64std_char n) = Some n \<and> b64std_char n \<noteq> CHR ''=''" by code_simp
  then show "n < 64 \<Longrightarrow> b64_value (b64std_char n) = Some n \<and> b64std_char n \<noteq> CHR ''=''" by simp
qed

lemma those_std_values: "list_all (\<lambda>n. n < 64) ns \<Longrightarrow> those (map b64_value (filter (\<lambda>c. c \<noteq> CHR ''='') (map b64std_char ns))) = Some ns"
  by (induction ns) (simp_all add: b64std_value)

lemma vw_decodes: "h_b64decode vw_host (b64encode bs) = Some bs"
  using those_std_values [OF sextets_small [OF bytes_small [of bs]]] octets_sextets [OF bytes_small [of bs]]
  by (simp add: vw_host_def b64url_decode_def b64encode_def comp_def)

lemma vw_constructed: "new_vault_signer vw_web ''https://vault'' (Some (replicate 20 (CHR ''t''))) ''transit'' ''k'' 1 = Inr vw_signer"
  by code_simp

text \<open>
  A Vault that signs one message: it answers the request for the encoding of the empty payload with version 1 of
  the key, whose only valid signature is the one it returns, and refuses everything else.
\<close>

definition sw_message :: string where
  "sw_message = ''DSSEv1 1 t 2 {}''"

definition sw_host :: host where
  "sw_host = vw_host\<lparr>h_ed25519 := (\<lambda>pk sig msg. pk = ''p1'' \<and> sig = replicate 64 (CHR ''A'') \<and> msg = sw_message)\<rparr>"

definition sw_body :: "string result" where
  "sw_body = canonical_bytes (JObj [(''input'', JStr (b64encode sw_message)), (''key_version'', JInt 1)])"

definition sw_env :: gh_env where
  "sw_env = vw_env\<lparr>ge_open := (\<lambda>_ rq. if map_option Inr (rq_body rq) = Some sw_body then OpenOk 200 [] ''r'' else OpenHttpError 400 [] [])\<rparr>"

definition sw_pub :: "int \<Rightarrow> string" where
  "sw_pub version = (if version = 1 then ''p1'' else ''p2'')"

lemma sw_signed: "map_sum id id (fst (sign_json_envelope sw_host vw_web sw_env vw_signer ''t'' [] vw_start))
    = Inr (sealed_envelope ''t'' ''{}'' (vault_key_id vw_signer) (replicate 64 (CHR ''A'')))"
  by code_simp

lemma sw_decodes: "h_b64decode sw_host (b64encode bs) = Some bs"
  using vw_decodes by (simp add: sw_host_def)

lemma sw_signs:
  assumes "canonical_bytes (JObj [(''input'', JStr (b64encode message)), (''key_version'', JInt requested)]) = Inr body"
    "reply_of (ge_open sw_env n (sign_request vw_signer body)) = Some (200, reply)"
    "h_json_loads sw_host (take (MAX_GITHUB_RESPONSE_BYTES + 1) reply) = Some (JObj payload)" "jget payload ''data'' = JObj data"
    "jget data ''signature'' = JStr (''vault:v'' @ version @ '':'' @ sig64)" "list_all is_digit version" "h_b64decode sw_host sig64 = Some signature"
  shows "h_ed25519 sw_host (sw_pub (int (dec_val version))) signature message"
proof -
  from assms(2) have "sw_body = Inr body" and r: "reply = ''r''"
    by (auto simp: sw_env_def reply_of_def sign_request_def split: if_split_asm)
  then have "jnorm (JObj [(''input'', JStr (b64encode message)), (''key_version'', JInt requested)])
      = jnorm (JObj [(''input'', JStr (b64encode sw_message)), (''key_version'', JInt 1)])"
    using assms(1) canonical_bytes_inject unfolding sw_body_def by blast
  from jnorm_get [OF this, of "''input''" "JStr (b64encode message)" "JStr (b64encode sw_message)"]
  have "b64encode message = b64encode sw_message" by simp
  with vw_decodes [of message] vw_decodes [of sw_message] have m: "message = sw_message" by simp
  have v: "vw_answer = ''vault:v'' @ version @ '':'' @ sig64" using assms(3,4,5) r
    by (auto simp: sw_host_def vw_host_def jget_simps MAX_GITHUB_RESPONSE_BYTES_def)
  obtain "version = ''1''" "sig64 = b64encode (replicate 64 (CHR ''A''))"
  proof (cases version)
    case (Cons d ds)
    with v assms(6) that show ?thesis by (cases ds) (auto simp: vw_answer_def is_digit_def digit_char_def)
  qed (use v in \<open>simp add: vw_answer_def\<close>)
  with assms(7) vw_decodes m show ?thesis by (simp add: sw_host_def sw_pub_def dec_val_def)
qed

theorem sealed_envelope_verifies_witness:
  "\<exists>ve. verify_json_envelope sw_host (sealed_envelope ''t'' ''{}'' (vault_key_id vw_signer) (replicate 64 (CHR ''A''))) ''t''
      [(vault_key_id vw_signer, ''p1'')] [] True = Inr ve \<and> ve_payload ve = []"
proof -
  obtain s' where s: "sign_json_envelope sw_host vw_web sw_env vw_signer ''t'' [] vw_start
      = (Inr (sealed_envelope ''t'' ''{}'' (vault_key_id vw_signer) (replicate 64 (CHR ''A''))), s')"
    using sw_signed by (metis id_apply prod.collapse sum.map_id)
  have payload: "h_json_loads sw_host text1 = Some (jnorm (JObj []))" if "canonical_bytes (JObj []) = Inr text1" for text1
    using that by (auto simp: sw_host_def vw_host_def canonical_bytes_def)
  have key: "map_of [(vault_key_id vw_signer, ''p1'')] (vault_key_id vw_signer) = Some (sw_pub (vs_key_version vw_signer))"
    by (simp add: sw_pub_def vw_signer_def)
  have "\<exists>ve message body. verify_json_envelope sw_host (sealed_envelope ''t'' ''{}'' (vault_key_id vw_signer) (replicate 64 (CHR ''A''))) ''t''
      [(vault_key_id vw_signer, ''p1'')] [] True = Inr ve \<and> JObj (ve_payload ve) = jnorm (JObj []) \<and> ve_signing_key_ids ve = [vault_key_id vw_signer]
    \<and> pae ''t'' (ve_payload_bytes ve) = Inr message
    \<and> canonical_bytes (JObj [(''input'', JStr (b64encode message)), (''key_version'', JInt (vs_key_version vw_signer))]) = Inr body
    \<and> gh_sent s' = gh_sent vw_start @ [sign_request vw_signer body] \<and> startswith (rq_url (sign_request vw_signer body)) (''https://vault'' @ ''/v1/'')"
    by (rule sealed_envelope_verifies [OF vw_constructed s key sw_decodes payload sw_signs])
  then show ?thesis by auto
qed

end
