(* ===== verification/Coordinator.thy ===== *)
theory Coordinator
  imports Signer
begin

text \<open>
  The evidence coordinator of \<^verbatim>\<open>coordinator.py\<close>: it composes a bundle from the parts of others, seals
  it with its own key and verifies the result before it hands it out.
\<close>

section \<open>Construction\<close>

record coordinator =
  co_trust_root :: "(string \<times> json) list"
  co_revocations_envelope :: json
  co_expected_policy_sha256 :: string

definition new_coordinator :: "(string \<times> json) list \<Rightarrow> json \<Rightarrow> string \<Rightarrow> coordinator result" where
  "new_coordinator trust_root revocations_envelope expected_policy_sha256 =
     (let schema_version = jget trust_root ''schemaVersion'' in
      if eq_str schema_version ''acik.cross-ai-deployment-trust-root.v1'' then reject ''LEGACY_CONTRACT_READ_ONLY''
      else if eq_str schema_version ''acik.cross-ai-deployment-trust-root.v2''
      then Inr \<lparr>co_trust_root = trust_root, co_revocations_envelope = revocations_envelope,
             co_expected_policy_sha256 = expected_policy_sha256\<rparr>
      else reject ''TRUST_ROOT_SCHEMA_INVALID'')"

section \<open>Composition\<close>

text \<open>The arguments of \<^verbatim>\<open>coordinate\<close>.\<close>

record bundle_parts =
  bp_bundle_id :: string
  bp_subject :: "(string \<times> json) list"
  bp_workflow_stages :: "(string \<times> json) list list"
  bp_runner_admission_lease_envelope :: "(string \<times> json) list"
  bp_grant :: "(string \<times> json) list"
  bp_review_envelopes :: "(string \<times> json) list list"
  bp_closure_entries :: "(string \<times> json) list list"
  bp_final_agree_review_sha256 :: "string list"
  bp_provider_families :: "string list"

definition jobjs :: "(string \<times> json) list list \<Rightarrow> json" where
  "jobjs ds = JArr (map JObj ds)"

text \<open>
  \<^verbatim>\<open>sorted\<close> by finding id. Texts are ordered by code points, which is the order of their bytes;
  integers by value. Other ids, and ids of both kinds, do not compare; a single entry is never compared.
\<close>

definition int_key :: "json \<Rightarrow> int option" where
  "int_key v = (case v of JInt n \<Rightarrow> Some n | JBool b \<Rightarrow> Some (if b then 1 else 0) | _ \<Rightarrow> None)"

definition str_key :: "json \<Rightarrow> string option" where
  "str_key v = (case v of JStr s \<Rightarrow> Some s | _ \<Rightarrow> None)"

definition sort_entries :: "(string \<times> json) list list \<Rightarrow> (string \<times> json) list list result" where
  "sort_entries entries =
     bindE (mapE (\<lambda>e. fld e ''findingId'') entries) (\<lambda>ids.
     if length entries \<le> 1 then Inr entries
     else if list_all (\<lambda>v. str_key v \<noteq> None) ids then Inr (sort_key (\<lambda>e. the (str_key (jget e ''findingId''))) entries)
     else if list_all (\<lambda>v. int_key v \<noteq> None) ids then Inr (sort_key (\<lambda>e. the (int_key (jget e ''findingId''))) entries)
     else Inl TypeError)"

definition bundle_payload_of :: "bundle_parts \<Rightarrow> string \<Rightarrow> (string \<times> json) list" where
  "bundle_payload_of p closure_root =
     [(''schemaVersion'', JStr ''acik.cross-ai-deployment-bundle.v2''),
      (''bundleId'', JStr (bp_bundle_id p)),
      (''subject'', JObj (bp_subject p)),
      (''workflowStages'', jobjs (bp_workflow_stages p)),
      (''runnerAdmissionLeaseEnvelope'', JObj (bp_runner_admission_lease_envelope p)),
      (''reviewEnvelopes'', jobjs (bp_review_envelopes p)),
      (''closure'', JObj [(''entries'', jobjs (bp_closure_entries p)), (''closureRootSha256'', JStr closure_root)]),
      (''consensus'', JObj
        [(''providerFamilies'', JArr (map JStr (bp_provider_families p))),
         (''finalAgreeReviewSha256'', JArr (map JStr (bp_final_agree_review_sha256 p))),
         (''closureRootSha256'', JStr closure_root),
         (''openMustFixFindingCount'', JInt 0)]),
      (''grant'', JObj (bp_grant p))]"

definition composed_bundle :: "host \<Rightarrow> bundle_parts \<Rightarrow> (string \<times> json) list result" where
  "composed_bundle H p =
     bindE (digest H (JObj [(''subject'', JObj (bp_subject p)), (''workflowStages'', jobjs (bp_workflow_stages p)),
       (''grant'', JObj (bp_grant p))])) (\<lambda>subject_digest.
     bindE (sort_entries (bp_closure_entries p)) (\<lambda>entries.
     bindE (digest H (JObj [(''domain'', JStr (domain_name ''closure'' V2)), (''subjectSha256'', JStr subject_digest),
       (''entries'', jobjs entries)])) (\<lambda>closure_root.
     Inr (bundle_payload_of p closure_root))))"

record coordinated_bundle =
  cb_envelope :: json
  cb_verified :: verified_bundle

definition coordinate :: "host \<Rightarrow> 's envelope_signer \<Rightarrow> coordinator \<Rightarrow> bundle_parts \<Rightarrow> datetime \<Rightarrow> 's
    \<Rightarrow> coordinated_bundle result \<times> 's" where
  "coordinate H signer C p now s =
     bindS (composed_bundle H p, s) (\<lambda>payload s.
     bindS (es_sign signer (payload_type ''bundle'' V2) payload s) (\<lambda>envelope s.
     (bindE (new_verifier H (co_trust_root C) (co_revocations_envelope C) now (Some (co_expected_policy_sha256 C)) None Active None)
        (\<lambda>v. bindE (verify_bundle H v envelope) (\<lambda>verified.
        Inr \<lparr>cb_envelope = envelope, cb_verified = verified\<rparr>)), s)))"

end
