(* ===== verification/CoordinatorProps.thy ===== *)
theory CoordinatorProps
  imports Coordinator SignerProps
begin

text \<open>
  The coordinator composes and cannot forge: what it hands out verifies, consists of the parts it was
  given, and rests on reviews signed by other keys than its own.
\<close>

section \<open>Reading a composed bundle\<close>

text \<open>Two dicts with one normal form have, under every key, values with one normal form.\<close>

lemma map_of_sorted: "map_of (sort_key (\<lambda>kv. f (fst kv)) kvs) k = map_of kvs k"
proof -
  have m: "map_of kvs k = map_of (filter (\<lambda>kv. f (fst kv) = f k) kvs) k" for kvs
    by (induction kvs) auto
  from m [of kvs] m [of "sort_key (\<lambda>kv. f (fst kv)) kvs"] show ?thesis by (simp add: sort_key_stable)
qed

lemma jnorm_lookup:
  assumes "jnorm (JObj a) = jnorm (JObj b)"
  shows "map_option jnorm (map_of a k) = map_option jnorm (map_of b k)"
proof -
  have m: "map_of (map (\<lambda>kv. (fst kv, jnorm (snd kv))) (sort_key (\<lambda>kv. key_sort_value (fst kv)) kvs)) k = map_option jnorm (map_of kvs k)" for kvs
    using map_of_sorted [of key_sort_value kvs k] map_of_map [of jnorm "sort_key (\<lambda>kv. key_sort_value (fst kv)) kvs"] by (simp add: case_prod_beta')
  from assms have "map (\<lambda>kv. (fst kv, jnorm (snd kv))) (sort_key (\<lambda>kv. key_sort_value (fst kv)) a)
      = map (\<lambda>kv. (fst kv, jnorm (snd kv))) (sort_key (\<lambda>kv. key_sort_value (fst kv)) b)" by simp
  then show ?thesis using m [of a] m [of b] by simp
qed

lemma jnorm_JArr: "jnorm v = JArr xs \<Longrightarrow> \<exists>ys. v = JArr ys \<and> map jnorm ys = xs"
  by (cases v) auto

lemma jnorm_JStr: "jnorm v = JStr s \<longleftrightarrow> v = JStr s"
  by (cases v) auto

lemma jnorm_JObj: "jnorm v = JObj xs \<Longrightarrow> \<exists>ys. v = JObj ys \<and> jnorm (JObj ys) = JObj xs"
  by (cases v) auto

lemma fld_as_Inr: "fld_as f o1 k = Inr y \<longleftrightarrow> (\<exists>v. map_of o1 k = Some v \<and> f v = Inr y)"
  by (auto simp: fld_as_def fld_def bindE_Inr_iff)

lemma same_field:
  assumes "jnorm (JObj a) = jnorm (JObj b)" "map_of a k = Some v" "map_of b k = Some w"
  shows "jnorm v = jnorm w"
  using jnorm_lookup [OF assms(1), of k] assms(2,3) by simp

lemma strs_of_jnorm: "strs_of v = Inr xs \<Longrightarrow> jnorm v = jnorm (JArr (map JStr ys)) \<Longrightarrow> xs = ys"
proof -
  assume "strs_of v = Inr xs" "jnorm v = jnorm (JArr (map JStr ys))"
  then have "v = JArr (map JStr ys)" by (cases v) (auto simp: comp_def jnorm_JStr map_eq_conv list_eq_iff_nth_eq)
  with \<open>strs_of v = Inr xs\<close> show "xs = ys"
    by (auto simp: strs_of_def list_of_def mapE_Inr_iff list_all2_conv_all_nth str_of_def list_eq_iff_nth_eq)
qed

text \<open>The parts of a bundle that was read from the text of a composed payload.\<close>

definition consists_of :: "bundle_payload \<Rightarrow> bundle_parts \<Rightarrow> bool" where
  "consists_of b p = (bd_bundleId b = bp_bundle_id p
     \<and> jnorm (sj_raw (bd_subject b)) = jnorm (JObj (bp_subject p)) \<and> jnorm (gr_raw (bd_grant b)) = jnorm (JObj (bp_grant p))
     \<and> jnorm (bd_stages_raw b) = jnorm (jobjs (bp_workflow_stages p))
     \<and> jnorm (bd_leaseEnvelope b) = jnorm (JObj (bp_runner_admission_lease_envelope p))
     \<and> map jnorm (bd_reviewEnvelopes b) = map (\<lambda>d. jnorm (JObj d)) (bp_review_envelopes p)
     \<and> list_all2 (\<lambda>e d. jget d ''findingId'' = JStr (ce_findingId e) \<and> jget d ''raisedByReviewSha256'' = JStr (ce_raisedByReviewSha256 e)
          \<and> jget d ''fixSha256'' = JStr (ce_fixSha256 e) \<and> jget d ''acknowledgedByReviewSha256'' = JStr (ce_acknowledgedByReviewSha256 e))
        (bd_closure b) (bp_closure_entries p)
     \<and> bd_consensus_providerFamilies b = bp_provider_families p
     \<and> bd_consensus_finalAgree b = bp_final_agree_review_sha256 p)"

lemma read_bundle_fields:
  assumes "read_bundle (JObj o1) = Inr b"
  shows "fld_as str_of o1 ''bundleId'' = Inr (bd_bundleId b)" "fld_as read_subject o1 ''subject'' = Inr (bd_subject b)"
    "fld o1 ''workflowStages'' = Inr (bd_stages_raw b)" "fld o1 ''runnerAdmissionLeaseEnvelope'' = Inr (bd_leaseEnvelope b)"
    "fld_as list_of o1 ''reviewEnvelopes'' = Inr (bd_reviewEnvelopes b)" "fld_as read_grant o1 ''grant'' = Inr (bd_grant b)"
    "read_in o1 ''consensus'' (\<lambda>c. fld_as strs_of c ''providerFamilies'') = Inr (bd_consensus_providerFamilies b)"
    "read_in o1 ''consensus'' (\<lambda>c. fld_as strs_of c ''finalAgreeReviewSha256'') = Inr (bd_consensus_finalAgree b)"
    "read_in o1 ''closure'' (\<lambda>c. fld_as (list_as read_closure_entry) c ''entries'') = Inr (bd_closure b)"
  by (atomize (full), insert assms, unfold read_bundle_def obj_of_def json.case bindE_simps, elim bindE_InrE, drule Inr_inject, hypsubst)
    (simp only: bundle_payload.select_convs simp_thms)

lemma raw_parts: "read_subject v = Inr sj \<Longrightarrow> sj_raw sj = v" "read_grant v = Inr gr \<Longrightarrow> gr_raw gr = v"
  unfolding read_subject_def read_grant_def by (elim bindE_InrE, drule Inr_inject, hypsubst, simp)+

lemma typed_values [simp]:
  "str_of v = Inr s \<longleftrightarrow> v = JStr s" "list_of v = Inr vs \<longleftrightarrow> v = JArr vs" "obj_of v = Inr d \<longleftrightarrow> v = JObj d"
  by (cases v; auto simp: str_of_def list_of_def obj_of_def)+

lemma typed_fields:
  "fld_as str_of o1 k = Inr s \<longleftrightarrow> map_of o1 k = Some (JStr s)" "fld_as list_of o1 k = Inr vs \<longleftrightarrow> map_of o1 k = Some (JArr vs)"
  "fld o1 k = Inr v \<longleftrightarrow> map_of o1 k = Some v"
  "read_in o1 k f = Inr y \<longleftrightarrow> (\<exists>d. map_of o1 k = Some (JObj d) \<and> f d = Inr y)"
  by (auto simp: fld_as_Inr fld_def read_in_def bindE_Inr_iff)

lemma jnorm_text: "jnorm (JObj a) = jnorm (JObj b) \<Longrightarrow> map_of a k = Some (JStr s) \<Longrightarrow> jget b k = JStr s"
proof -
  assume eq: "jnorm (JObj a) = jnorm (JObj b)" and a: "map_of a k = Some (JStr s)"
  from jnorm_lookup [OF eq, of k] obtain w where "map_of b k = Some w" "jnorm w = JStr s" by (cases "map_of b k") (simp_all add: a)
  then show ?thesis by (simp add: jget_def jnorm_JStr)
qed

lemma closure_entries_read:
  assumes "list_as read_closure_entry v = Inr es" "jnorm v = jnorm (jobjs ds)"
  shows "list_all2 (\<lambda>e d. jget d ''findingId'' = JStr (ce_findingId e) \<and> jget d ''raisedByReviewSha256'' = JStr (ce_raisedByReviewSha256 e)
          \<and> jget d ''fixSha256'' = JStr (ce_fixSha256 e) \<and> jget d ''acknowledgedByReviewSha256'' = JStr (ce_acknowledgedByReviewSha256 e)) es ds"
proof -
  from assms obtain vs where v: "v = JArr vs" "mapE read_closure_entry vs = Inr es" "map jnorm vs = map (\<lambda>d. jnorm (JObj d)) ds"
    by (auto simp: list_as_def bindE_Inr_iff jobjs_def comp_def)
  have entry: "jget d ''findingId'' = JStr (ce_findingId e) \<and> jget d ''raisedByReviewSha256'' = JStr (ce_raisedByReviewSha256 e)
          \<and> jget d ''fixSha256'' = JStr (ce_fixSha256 e) \<and> jget d ''acknowledgedByReviewSha256'' = JStr (ce_acknowledgedByReviewSha256 e)"
    if "read_closure_entry w = Inr e" "jnorm w = jnorm (JObj d)" for w e d
    using that by (auto simp: read_closure_entry_def bindE_Inr_iff typed_fields simp del: jnorm.simps intro: jnorm_text)
  have len: "length vs = length es" "length vs = length ds"
    using v(2) map_eq_imp_length_eq [OF v(3)] by (simp_all add: mapE_Inr_iff list_all2_lengthD)
  have "read_closure_entry (vs ! i) = Inr (es ! i)" "jnorm (vs ! i) = jnorm (JObj (ds ! i))" if "i < length vs" for i
    using that list_all2_nthD [OF v(2) [unfolded mapE_Inr_iff] that] arg_cong [OF v(3), of "\<lambda>xs. xs ! i"] len by (simp_all del: jnorm.simps)
  from entry [OF this] len show ?thesis by (simp only: list_all2_conv_all_nth) blast
qed

lemma composed_parts:
  assumes "read_bundle (JObj o1) = Inr b" "jnorm (JObj o1) = jnorm (JObj (bundle_payload_of p closure_root))"
  shows "consists_of b p"
proof -
  note same = same_field [OF assms(2)]
  note f = read_bundle_fields [OF assms(1), unfolded typed_fields]
  have m: "map_of (bundle_payload_of p closure_root) ''bundleId'' = Some (JStr (bp_bundle_id p))"
    "map_of (bundle_payload_of p closure_root) ''subject'' = Some (JObj (bp_subject p))"
    "map_of (bundle_payload_of p closure_root) ''workflowStages'' = Some (jobjs (bp_workflow_stages p))"
    "map_of (bundle_payload_of p closure_root) ''runnerAdmissionLeaseEnvelope'' = Some (JObj (bp_runner_admission_lease_envelope p))"
    "map_of (bundle_payload_of p closure_root) ''reviewEnvelopes'' = Some (jobjs (bp_review_envelopes p))"
    "map_of (bundle_payload_of p closure_root) ''grant'' = Some (JObj (bp_grant p))"
    by (simp_all add: bundle_payload_of_def)
  obtain c where c: "map_of (bundle_payload_of p closure_root) ''consensus'' = Some (JObj c)"
    "map_of c ''providerFamilies'' = Some (JArr (map JStr (bp_provider_families p)))"
    "map_of c ''finalAgreeReviewSha256'' = Some (JArr (map JStr (bp_final_agree_review_sha256 p)))"
    by (simp add: bundle_payload_of_def)
  from f(7,8) obtain d1 where d1: "map_of o1 ''consensus'' = Some (JObj d1)"
    "fld_as strs_of d1 ''providerFamilies'' = Inr (bd_consensus_providerFamilies b)"
    "fld_as strs_of d1 ''finalAgreeReviewSha256'' = Inr (bd_consensus_finalAgree b)" by auto
  from f(9) obtain d2 v where d2: "map_of o1 ''closure'' = Some (JObj d2)" "map_of d2 ''entries'' = Some v"
    "list_as read_closure_entry v = Inr (bd_closure b)" by (auto simp: fld_as_Inr)
  obtain cl where cl: "map_of (bundle_payload_of p closure_root) ''closure'' = Some (JObj cl)"
    "map_of cl ''entries'' = Some (jobjs (bp_closure_entries p))" by (simp add: bundle_payload_of_def)
  note entries = closure_entries_read [OF d2(3) same_field [OF same [OF d2(1) cl(1)] d2(2) cl(2)]]
  note same_c = same_field [OF same [OF d1(1) c(1)]]
  from f(2) obtain subject where su: "map_of o1 ''subject'' = Some subject" "sj_raw (bd_subject b) = subject"
    by (auto simp: fld_as_Inr dest: raw_parts)
  from f(6) obtain grant where gr: "map_of o1 ''grant'' = Some grant" "gr_raw (bd_grant b) = grant"
    by (auto simp: fld_as_Inr dest: raw_parts)
  have "bd_bundleId b = bp_bundle_id p" using same [OF f(1) m(1)] by simp
  moreover have "map jnorm (bd_reviewEnvelopes b) = map (\<lambda>d. jnorm (JObj d)) (bp_review_envelopes p)"
    using same [OF f(5) m(5)] by (simp only: jobjs_def jnorm.simps json.inject map_map comp_def)
  moreover have "bd_consensus_providerFamilies b = bp_provider_families p" "bd_consensus_finalAgree b = bp_final_agree_review_sha256 p"
    using d1(2,3) same_c c(2,3) by (auto simp: fld_as_Inr intro: strs_of_jnorm)
  moreover note entries same [OF su(1) m(2)] same [OF gr(1) m(6)] same [OF f(3) m(3)] same [OF f(4) m(4)]
  ultimately show ?thesis unfolding consists_of_def su(2) gr(2) by blast
qed

section \<open>The coordinator cannot forge\<close>

text \<open>The Vault signer is such a signer.\<close>

lemma vault_sealing: "b64_inverse H \<Longrightarrow> sealing H (vault_envelope_signer H W E V) True"
  unfolding sealing_def using vs.sealed by blast

lemma foldE_each: "foldE f xs s = Inr t \<Longrightarrow> x \<in> set xs \<Longrightarrow> \<exists>u u'. f x u = Inr u'"
  by (induction xs arbitrary: s) (auto simp: bindE_Inr_iff)

text \<open>A review envelope of an accepted bundle carries the signature of an active provider key over its payload.\<close>

definition provider_signed :: "host \<Rightarrow> verifier \<Rightarrow> json \<Rightarrow> trust_key \<Rightarrow> bool" where
  "provider_signed H v envelope k =
     (\<exists>payload. signed_by H v ''provider-review'' (payload_type ''review'' (vf_version v)) envelope payload k)"

lemma reviews_provider_signed:
  assumes "verify_reviews H v bundle subject_digest = Inr reviews" "keys_distinct tk_key_id (vf_keys v)"
    and "envelope \<in> set (bd_reviewEnvelopes bundle)"
  shows "\<exists>k. provider_signed H v envelope k"
proof -
  from assms(1) obtain keys where keys: "active_keys v ''provider-review'' = Inr keys"
    "foldE (verify_review H v keys subject_digest) (bd_reviewEnvelopes bundle) [] = Inr reviews"
    unfolding verify_reviews_def opened by blast
  from foldE_each [OF keys(2) assms(3)] obtain acc acc' where "verify_review H v keys subject_digest envelope acc = Inr acc'" by blast
  from review_signed [OF keys(1) this assms(2)] show ?thesis unfolding provider_signed_def by blast
qed

lemma coordinate_Inr:
  assumes "coordinate H signer C p now s = (Inr c, s')"
  obtains payload v where "composed_bundle H p = Inr payload"
    "es_sign signer (payload_type ''bundle'' V2) payload s = (Inr (cb_envelope c), s')"
    "new_verifier H (co_trust_root C) (co_revocations_envelope C) now (Some (co_expected_policy_sha256 C)) None Active None = Inr v"
    "verify_bundle H v (cb_envelope c) = Inr (cb_verified c)"
  using assms by (auto simp: coordinate_def bindS_def bindE_Inr_iff split: sum.split_asm prod.split_asm)

context sealing
begin

lemma coordinated_parts:
  assumes "decodes" "coordinate H signer C p now s = (Inr c, s')"
  shows "consists_of (vb_payload (cb_verified c)) p"
proof -
  obtain payload v where x: "composed_bundle H p = Inr payload"
    "es_sign signer (payload_type ''bundle'' V2) payload s = (Inr (cb_envelope c), s')"
    "verify_bundle H v (cb_envelope c) = Inr (cb_verified c)" using assms(2) by (rule coordinate_Inr)
  from x(1) obtain closure_root where payload: "payload = bundle_payload_of p closure_root"
    by (auto simp: composed_bundle_def bindE_Inr_iff)
  from x(3) obtain keys outer where o: "verify_json_envelope H (cb_envelope c) (payload_type ''bundle'' (vf_version v)) keys [] True = Inr outer"
    "read_bundle (JObj (ve_payload outer)) = Inr (vb_payload (cb_verified c))" by (rule verify_bundle_Inr)
  from sealed_payload [OF assms(1) x(2) o(1)] o(2) show ?thesis unfolding payload by (rule composed_parts [rotated])
qed

end

text \<open>
  C38: the coordinator composes and cannot forge. With a signer that seals the payload it is given, a
  bundle that the coordinator returns has been accepted by the evidence verifier for its trust root, revocations, policy
  and time; it consists of the parts that were handed in, the stages, reviews and closure entries in their order,
  up to the order of keys within an object; and each review in it is signed by an active provider key, which is another key, with another public
  key, than the coordinator key that sealed the bundle.
\<close>

theorem coordinator_cannot_forge:
  assumes "sealing H signer True" "coordinate H signer C p now s = (Inr c, s')"
  shows "\<exists>v k. new_verifier H (co_trust_root C) (co_revocations_envelope C) now (Some (co_expected_policy_sha256 C)) None Active None = Inr v
    \<and> verify_bundle H v (cb_envelope c) = Inr (cb_verified c) \<and> consists_of (vb_payload (cb_verified c)) p
    \<and> k \<in> set (vf_keys v) \<and> tk_role k = ''coordinator'' \<and> tk_key_id k = vb_coordinator_key_id (cb_verified c)
    \<and> (\<forall>envelope \<in> set (bd_reviewEnvelopes (vb_payload (cb_verified c))). \<exists>q. provider_signed H v envelope q
         \<and> tk_key_id q \<noteq> tk_key_id k \<and> tk_public_key q \<noteq> tk_public_key k)"
proof -
  obtain payload v where x: "new_verifier H (co_trust_root C) (co_revocations_envelope C) now (Some (co_expected_policy_sha256 C)) None Active None = Inr v"
    "verify_bundle H v (cb_envelope c) = Inr (cb_verified c)" using assms(2) by (rule coordinate_Inr)
  from trust_ok_new [OF x(1)] have dist: "keys_distinct tk_key_id (vf_keys v)" "keys_distinct tk_public_key (vf_keys v)"
    by (simp_all add: trust_ok_def)
  obtain keys outer coordinator reviews where b: "active_keys v ''coordinator'' = Inr keys"
    "verify_json_envelope H (cb_envelope c) (payload_type ''bundle'' (vf_version v)) keys [] True = Inr outer"
    "key_of v (hd (ve_signing_key_ids outer)) = Inr coordinator"
    "verify_reviews H v (vb_payload (cb_verified c)) (vb_subject_digest (cb_verified c)) = Inr reviews"
    "tk_key_id coordinator = vb_coordinator_key_id (cb_verified c)"
    using x(2) by (rule verify_bundle_Inr) auto
  from single_signer [OF b(1,2,3) dist(1)] have k: "coordinator \<in> set (vf_keys v)" "tk_role coordinator = ''coordinator''"
    by (auto simp: signed_by_def key_active_def)
  have "\<exists>q. provider_signed H v envelope q \<and> tk_key_id q \<noteq> tk_key_id coordinator \<and> tk_public_key q \<noteq> tk_public_key coordinator"
    if e: "envelope \<in> set (bd_reviewEnvelopes (vb_payload (cb_verified c)))" for envelope
  proof -
    from reviews_provider_signed [OF b(4) dist(1) e] obtain q where q: "provider_signed H v envelope q" ..
    then have "q \<in> set (vf_keys v)" "tk_role q = ''provider-review''" by (auto simp: provider_signed_def signed_by_def key_active_def)
    with k have "q \<noteq> coordinator" "q \<in> set (vf_keys v)" by auto
    with q k(1) keys_distinct_inj [OF dist(1)] keys_distinct_inj [OF dist(2)] show ?thesis by blast
  qed
  with x b(5) k sealing.coordinated_parts [OF assms(1) _ assms(2)] show ?thesis by blast
qed

section \<open>A coordinated bundle\<close>

text \<open>The bundle of the evidence scenario, composed and sealed by its coordinator.\<close>

definition obj_items :: "json \<Rightarrow> (string \<times> json) list" where
  "obj_items v = (case v of JObj d \<Rightarrow> d | _ \<Rightarrow> [])"

definition arr_items :: "json \<Rightarrow> (string \<times> json) list list" where
  "arr_items v = (case v of JArr vs \<Rightarrow> map obj_items vs | _ \<Rightarrow> [])"

definition co_parts :: bundle_parts where
  "co_parts = \<lparr>bp_bundle_id = ''b'', bp_subject = obj_items ev_subject, bp_workflow_stages = arr_items ev_stages,
     bp_runner_admission_lease_envelope = obj_items ev_lease_envelope, bp_grant = obj_items ev_grant,
     bp_review_envelopes = map obj_items [ev_envelope1, ev_envelope2, ev_envelope3, ev_envelope4],
     bp_closure_entries = [[(''acknowledgedByReviewSha256'', JStr ''sha256:127''), (''findingId'', JStr ''F''), (''fixSha256'', JStr ''fx''),
       (''raisedByReviewSha256'', JStr ''sha256:126'')]],
     bp_final_agree_review_sha256 = [''sha256:128'', ''sha256:129''], bp_provider_families = [''anthropic'', ''openai'']\<rparr>"

definition co_payload :: "(string \<times> json) list" where
  "co_payload = bundle_payload_of co_parts ''sha256:203''"

definition co_signer :: "unit envelope_signer" where
  "co_signer = \<lparr>es_key_id = ''c'', es_sign = (\<lambda>pt payload s. (if payload = co_payload then Inr ev_bundle_envelope else reject ''x'', s))\<rparr>"

definition co_config :: coordinator where
  "co_config = \<lparr>co_trust_root = ev_trust_root, co_revocations_envelope = ev_revocations_envelope, co_expected_policy_sha256 = ''p''\<rparr>"

lemma co_composed: "composed_bundle ev_host co_parts = Inr co_payload"
  by code_simp

lemma co_bundle: "JObj co_payload = ev_bundle"
  by (simp add: co_payload_def bundle_payload_of_def co_parts_def ev_bundle_def jobjs_def obj_items_def arr_items_def ev_subject_def
      ev_stages_def ev_lease_envelope_def ev_grant_def ev_envelope1_def ev_envelope2_def ev_envelope3_def ev_envelope4_def)

lemma co_rendered: "map_sum id (\<lambda>_. ()) (canonical_bytes ev_bundle) = Inr ()"
  by code_simp

lemma new_verifier_any_root:
  "new_verifier H trust_root revocations now p (Some r) mode reference = Inr v
    \<Longrightarrow> new_verifier H trust_root revocations now p None mode reference = Inr v"
  unfolding new_verifier_def opened root_digest_ok_def
  by (elim exE conjE, intro exI conjI) (assumption | simp)+

lemma co_sealing: "sealing ev_host co_signer True"
proof
  fix pt payload s envelope s'
  assume "es_sign co_signer pt payload s = (Inr envelope, s')"
  then have e: "payload = co_payload" "envelope = ev_bundle_envelope" by (auto simp: co_signer_def split: if_split_asm)
  have "map_of ev_docs ''BUNDLEPAYLOAD'' = Some ev_bundle" by (simp add: ev_docs_def)
  moreover have "\<exists>t. canonical_bytes ev_bundle = Inr t"
    using co_rendered by (cases "canonical_bytes ev_bundle") auto
  ultimately show "\<exists>env text1. envelope = JObj env \<and> canonical_bytes (JObj payload) = Inr text1 \<and> strict_b64 ev_host (jget env ''payload'') = Inr text1"
    by (auto simp: e co_bundle ev_bundle_envelope_def jget_simps strict_b64_def ev_host_def ev_b64_def ev_text_def)
qed

lemma co_done: "coordinate ev_host co_signer co_config co_parts (minutes 10) () = (Inr \<lparr>cb_envelope = ev_bundle_envelope, cb_verified = ev_accepted\<rparr>, ())"
  using new_verifier_any_root [OF ev_verifier_new [unfolded ev_new_def]] ev_bundle_accepted
  by (simp add: coordinate_def co_composed bindS_Inr co_signer_def co_config_def)

theorem coordinator_cannot_forge_witness:
  "\<exists>v (k :: trust_key). verify_bundle ev_host v ev_bundle_envelope = Inr ev_accepted \<and> tk_role k = ''coordinator''
     \<and> length (bd_reviewEnvelopes (vb_payload ev_accepted)) = 4
     \<and> (\<exists>q. provider_signed ev_host v (hd (bd_reviewEnvelopes (vb_payload ev_accepted))) q \<and> tk_key_id q \<noteq> tk_key_id k)"
proof -
  from coordinator_cannot_forge [OF co_sealing co_done] obtain v and k :: trust_key where x: "verify_bundle ev_host v ev_bundle_envelope = Inr ev_accepted"
    "consists_of (vb_payload ev_accepted) co_parts" "tk_role k = ''coordinator''"
    "\<forall>envelope \<in> set (bd_reviewEnvelopes (vb_payload ev_accepted)). \<exists>q. provider_signed ev_host v envelope q
         \<and> tk_key_id q \<noteq> tk_key_id k \<and> tk_public_key q \<noteq> tk_public_key k" by auto
  from x(2) have "map jnorm (bd_reviewEnvelopes (vb_payload ev_accepted)) = map (\<lambda>d. jnorm (JObj d)) (bp_review_envelopes co_parts)"
    unfolding consists_of_def by blast
  then have "length (bd_reviewEnvelopes (vb_payload ev_accepted)) = length (bp_review_envelopes co_parts)" by (metis length_map)
  then have n: "length (bd_reviewEnvelopes (vb_payload ev_accepted)) = 4" by (simp add: co_parts_def)
  then have "hd (bd_reviewEnvelopes (vb_payload ev_accepted)) \<in> set (bd_reviewEnvelopes (vb_payload ev_accepted))" by (intro hd_in_set) auto
  with x n show ?thesis by blast
qed

end
