(* ===== verification/Provider.thy ===== *)
theory Provider
  imports Signer
begin

text \<open>
  The provider executions and the review issuer of \<^verbatim>\<open>provider.py\<close>: how each reviewer's command line
  program is launched and its output read, and how the receipt of an execution becomes a signed
  review. The programs, the file system around them and the clock of their timeouts are arguments;
  the state is the list of processes that were launched.
\<close>

section \<open>Output of a provider\<close>

definition MAX_PROVIDER_OUTPUT_BYTES :: nat where
  "MAX_PROVIDER_OUTPUT_BYTES = 2 * 1024 * 1024"

definition MAX_PROMPT_BYTES :: nat where
  "MAX_PROMPT_BYTES = 512 * 1024"

definition REVIEW_RESULT_SCHEMA_VERSION :: string where
  "REVIEW_RESULT_SCHEMA_VERSION = ''acik.cross-ai-provider-review-result.v1''"

definition CODEX_MODEL :: string where
  "CODEX_MODEL = ''gpt-5.6-sol''"

definition bytes_digest :: "host \<Rightarrow> string \<Rightarrow> string" where
  "bytes_digest H v = ''sha256:'' @ h_sha H v"

text \<open>
  \<^verbatim>\<open>str.encode("utf-8")\<close>: a text is the bytes of its characters already; a lone surrogate, which a
  JSON escape can produce, is a \<^verbatim>\<open>UnicodeEncodeError\<close>.
\<close>

definition utf8_encode :: "string \<Rightarrow> string result" where
  "utf8_encode s = (if list_ex (\<lambda>p. 55296 \<le> p \<and> p \<le> 57343) (code_points s) then Inl ValueError else Inr s)"

text \<open>
  The decoder raises a plain \<^verbatim>\<open>ValueError\<close> for an integer of more than 4300 digits; such an output
  counts as undecodable here, that is as a rejection. Neither gives a receipt.
\<close>

definition provider_json :: "host \<Rightarrow> web_host \<Rightarrow> string \<Rightarrow> (string \<times> json) list result" where
  "provider_json H W raw =
     (if raw = [] \<or> length raw > MAX_PROVIDER_OUTPUT_BYTES then reject ''PROVIDER_OUTPUT_INVALID''
      else bindE (forE (\<lambda>keys. require (distinct keys) ''PROVIDER_OUTPUT_DUPLICATE_KEY'') (w_json_keys W raw)) (\<lambda>_.
        case h_json_loads H raw of
          Some (JObj v) \<Rightarrow> Inr v
        | _ \<Rightarrow> reject ''PROVIDER_OUTPUT_INVALID''))"

text \<open>
  \<^verbatim>\<open>str.splitlines\<close> over UTF-8: the length of the line boundary at the head of a text, 0 for none.
\<close>

definition line_break :: "string \<Rightarrow> nat" where
  "line_break s =
     (if startswith s [CHR 0x0D, CHR 0x0A] then 2
      else if s \<noteq> [] \<and> byte (hd s) \<in> {10, 11, 12, 13, 28, 29, 30} then 1
      else if startswith s [CHR 0xC2, CHR 0x85] then 2
      else if startswith s [CHR 0xE2, CHR 0x80, CHR 0xA8] \<or> startswith s [CHR 0xE2, CHR 0x80, CHR 0xA9] then 3
      else 0)"

function splitlines :: "string \<Rightarrow> string \<Rightarrow> string list" where
  "splitlines line [] = (if line = [] then [] else [rev line])"
| "splitlines line (c # s) =
     (let n = line_break (c # s) in
      if n = 0 then splitlines (c # line) s else rev line # splitlines [] (drop (n - 1) s))"
  by pat_completeness auto
termination
  by (relation "measure (length \<circ> snd)") auto

section \<open>Processes\<close>

record launch =
  la_executable :: string
  la_argv :: "string list"
  la_cwd :: string
  la_input :: "string option"
  la_timeout :: int

text \<open>A process ends with a code and its standard output, cannot be started, or runs too long.\<close>

datatype process_end = Exited int string | NotStarted | RunsTooLong

text \<open>
  What surrounds an execution: the end of the launch with that number, \<^verbatim>\<open>shutil.which\<close>,
  \<^verbatim>\<open>Path.expanduser\<close> and \<^verbatim>\<open>Path.resolve\<close>, whether a path is an executable file, the
  temporary directory of the Codex runner, the copy of the executable as it is read back
  before and after the execution (\<open>None\<close> for an \<^verbatim>\<open>OSError\<close> on the way) and whether the directory can be removed.
\<close>

record process_env =
  pe_end :: "nat \<Rightarrow> launch \<Rightarrow> process_end"
  pe_which :: "string \<Rightarrow> string option"
  pe_expanduser :: "string \<Rightarrow> string"
  pe_resolve :: "string \<Rightarrow> string"
  pe_executable :: "string \<Rightarrow> bool"
  pe_directory :: "string option"
  pe_copy :: "string option"
  pe_copy_after :: "string option"
  pe_removed :: bool

definition run_process :: "process_env \<Rightarrow> launch \<Rightarrow> launch list \<Rightarrow> (int \<times> string) result \<times> launch list" where
  "run_process E la s = (case pe_end E (length s) la of
       Exited code out \<Rightarrow> Inr (code, out) | NotStarted \<Rightarrow> Inl OSError | RunsTooLong \<Rightarrow> Inl TimeoutExpired,
     s @ [la])"

definition validated_executable :: "process_env \<Rightarrow> string \<Rightarrow> string result" where
  "validated_executable E path =
     (let resolved = pe_resolve E (pe_expanduser E path) in
      if \<not> pe_executable E resolved then reject ''PROVIDER_EXECUTABLE_INVALID'' else Inr resolved)"

text \<open>The constructors of the three runners; \<open>name\<close> is the program they look for.\<close>

definition new_runner :: "process_env \<Rightarrow> string \<Rightarrow> string option \<Rightarrow> string result" where
  "new_runner E name executable =
     validated_executable E (case executable of Some path \<Rightarrow> path | None \<Rightarrow> (case pe_which E name of Some path \<Rightarrow> path | None \<Rightarrow> name))"

record provider_execution_receipt =
  px_provider_family :: string
  px_channel :: string
  px_direct_provider_cli :: bool
  px_model_id :: string
  px_model_identity_class :: string
  px_capability_snapshot_sha256 :: string
  px_input_sha256 :: string
  px_output_sha256 :: string
  px_result_text :: string

definition checked_prompt :: "string \<Rightarrow> string result" where
  "checked_prompt prompt = bindE (utf8_encode prompt) (\<lambda>prompt_bytes.
     if prompt_bytes = [] \<or> length prompt_bytes > MAX_PROMPT_BYTES then reject ''PROVIDER_PROMPT_INVALID'' else Inr prompt_bytes)"

text \<open>The JSON envelope of Claude and Cursor: success, and its result text.\<close>

definition success_payload :: "host \<Rightarrow> web_host \<Rightarrow> string \<Rightarrow> (string \<times> json) list result" where
  "success_payload H W out = bindE (provider_json H W out) (\<lambda>payload.
     if \<not> eq_str (jget payload ''type'') ''result'' \<or> \<not> eq_str (jget payload ''subtype'') ''success''
       \<or> jget payload ''is_error'' \<noteq> JBool False
     then reject ''PROVIDER_EXECUTION_FAILED'' else Inr payload)"

definition result_text :: "(string \<times> json) list \<Rightarrow> string result" where
  "result_text payload = (case jget payload ''result'' of
     JStr text1 \<Rightarrow>
       if text1 = [] then reject ''PROVIDER_OUTPUT_INVALID''
       else bindE (utf8_encode text1) (\<lambda>bs. if length bs > MAX_PROVIDER_OUTPUT_BYTES then reject ''PROVIDER_OUTPUT_INVALID'' else Inr text1)
   | _ \<Rightarrow> reject ''PROVIDER_OUTPUT_INVALID'')"

section \<open>Claude\<close>

definition reported_model :: "string \<Rightarrow> (string \<times> json) list \<Rightarrow> string result" where
  "reported_model model payload = (case jget payload ''modelUsage'' of
     JObj [(reported, _)] \<Rightarrow> if reported \<noteq> model then reject ''PROVIDER_MODEL_IDENTITY_MISMATCH'' else Inr reported
   | _ \<Rightarrow> reject ''PROVIDER_MODEL_IDENTITY_MISSING'')"

definition claude_receipt :: "host \<Rightarrow> web_host \<Rightarrow> string \<Rightarrow> string \<Rightarrow> string \<Rightarrow> string \<Rightarrow> provider_execution_receipt result" where
  "claude_receipt H W prompt_bytes model version out =
     bindE (success_payload H W out) (\<lambda>payload.
     bindE (reported_model model payload) (\<lambda>reported.
     bindE (result_text payload) (\<lambda>text1.
     bindE (digest H (JObj [(''channel'', JStr ''direct-anthropic-cli''),
       (''cliVersionSha256'', JStr (bytes_digest H (strip bytes_spaces version))),
       (''requestedModel'', JStr model), (''reportedModels'', JArr [JStr reported])])) (\<lambda>capability.
     Inr \<lparr>px_provider_family = ''anthropic'', px_channel = ''direct-anthropic-cli'', px_direct_provider_cli = True,
       px_model_id = reported, px_model_identity_class = ''provider-reported'', px_capability_snapshot_sha256 = capability,
       px_input_sha256 = bytes_digest H prompt_bytes, px_output_sha256 = bytes_digest H text1, px_result_text = text1\<rparr>))))"

definition claude_run :: "host \<Rightarrow> web_host \<Rightarrow> process_env \<Rightarrow> string \<Rightarrow> string \<Rightarrow> string \<Rightarrow> string \<Rightarrow> int \<Rightarrow> launch list
    \<Rightarrow> provider_execution_receipt result \<times> launch list" where
  "claude_run H W E executable prompt model workspace timeout_seconds s =
     bindS (checked_prompt prompt, s) (\<lambda>prompt_bytes s.
     bindS (run_process E \<lparr>la_executable = executable, la_argv = [executable, ''--version''], la_cwd = workspace,
       la_input = None, la_timeout = 30\<rparr> s) (\<lambda>(version_code, version) s.
     if version_code \<noteq> 0 \<or> version = [] then (reject ''PROVIDER_CAPABILITY_UNAVAILABLE'', s)
     else bindS (run_process E \<lparr>la_executable = executable,
       la_argv = [executable, ''-p'', ''--output-format'', ''json'', ''--model'', model, ''--permission-mode'', ''plan'',
         ''--tools'', '''', ''--no-session-persistence''],
       la_cwd = workspace, la_input = Some prompt_bytes, la_timeout = timeout_seconds\<rparr> s) (\<lambda>(code, out) s.
     if code \<noteq> 0 then (reject ''PROVIDER_EXECUTION_FAILED'', s)
     else (claude_receipt H W prompt_bytes model version out, s))))"

section \<open>Codex\<close>

definition catalog_model :: "host \<Rightarrow> web_host \<Rightarrow> string \<Rightarrow> string \<Rightarrow> (string \<times> json) list result" where
  "catalog_model H W raw model =
     bindE (provider_json H W raw) (\<lambda>payload.
     case jget payload ''models'' of
       JArr models \<Rightarrow>
         (case filter (\<lambda>entry. eq_str (jget entry ''slug'') model) (List.map_filter (\<lambda>v. case v of JObj d \<Rightarrow> Some d | _ \<Rightarrow> None) models) of
            [selected] \<Rightarrow>
              if \<not> eq_str (jget selected ''visibility'') ''list'' \<or> jget selected ''supported_in_api'' \<noteq> JBool True
              then reject ''PROVIDER_MODEL_UNAVAILABLE'' else Inr selected
          | _ \<Rightarrow> reject ''PROVIDER_MODEL_UNAVAILABLE'')
     | _ \<Rightarrow> reject ''PROVIDER_CAPABILITY_UNAVAILABLE'')"

text \<open>One event of the loop, with the messages so far.\<close>

definition event_message :: "(string \<times> json) list \<Rightarrow> string list \<Rightarrow> string list result" where
  "event_message event messages =
     bindE (member_of (jget event ''type'') [''thread.started'', ''turn.started'', ''turn.completed'']) (\<lambda>skip.
     if skip then Inr messages
     else if \<not> eq_str (jget event ''type'') ''item.completed'' then reject ''PROVIDER_TOOL_EVENT_REJECTED''
     else (case jget event ''item'' of
       JObj item \<Rightarrow>
         if eq_str (jget item ''type'') ''reasoning'' then Inr messages
         else if \<not> eq_str (jget item ''type'') ''agent_message'' then reject ''PROVIDER_TOOL_EVENT_REJECTED''
         else (case jget item ''text'' of
           JStr text1 \<Rightarrow> if text1 = [] then reject ''PROVIDER_OUTPUT_INVALID'' else Inr (messages @ [text1])
         | _ \<Rightarrow> reject ''PROVIDER_OUTPUT_INVALID'')
     | _ \<Rightarrow> reject ''PROVIDER_OUTPUT_INVALID''))"

definition typed :: "string \<Rightarrow> (string \<times> json) list \<Rightarrow> bool" where
  "typed t event = eq_str (jget event ''type'') t"

text \<open>\<open>utf8\<close> tells whether bytes are UTF-8.\<close>

definition terminal_result :: "host \<Rightarrow> web_host \<Rightarrow> (string \<Rightarrow> bool) \<Rightarrow> string \<Rightarrow> string result" where
  "terminal_result H W utf8 raw =
     (if raw = [] \<or> length raw > MAX_PROVIDER_OUTPUT_BYTES then reject ''PROVIDER_OUTPUT_INVALID''
      else if \<not> utf8 raw then reject ''PROVIDER_OUTPUT_INVALID''
      else bindE (mapE (provider_json H W) (filter (\<lambda>line. line \<noteq> []) (splitlines [] raw))) (\<lambda>events.
        bindE (reject_if
          [(events = [] \<or> \<not> typed ''thread.started'' (hd events), ''PROVIDER_OUTPUT_INVALID''),
           (length (filter (typed ''turn.started'') events) \<noteq> 1, ''PROVIDER_OUTPUT_INVALID''),
           (length (filter (typed ''turn.completed'') events) \<noteq> 1 \<or> \<not> typed ''turn.completed'' (last events), ''PROVIDER_OUTPUT_INVALID'')]) (\<lambda>_.
        bindE (foldE event_message events []) (\<lambda>messages.
        case messages of [text1] \<Rightarrow> Inr text1 | _ \<Rightarrow> reject ''PROVIDER_OUTPUT_INVALID''))))"

text \<open>The process arguments after the program itself.\<close>

definition catalog_arguments :: "string list" where
  "catalog_arguments = [''debug'', ''models'']"

definition execution_arguments :: "process_env \<Rightarrow> string \<Rightarrow> string \<Rightarrow> string list" where
  "execution_arguments E model workspace =
     [''exec'', ''--ignore-user-config'', ''--ignore-rules'', ''--model'', model, ''--sandbox'', ''read-only'', ''--ephemeral'',
      ''--json'', ''-C'', pe_resolve E workspace, ''-'']"

definition pinned_launch :: "string \<Rightarrow> string \<Rightarrow> string list \<Rightarrow> string \<Rightarrow> string option \<Rightarrow> int \<Rightarrow> launch" where
  "pinned_launch pinned executable arguments workspace input timeout_seconds =
     \<lparr>la_executable = pinned, la_argv = executable # arguments, la_cwd = workspace, la_input = input, la_timeout = timeout_seconds\<rparr>"

text \<open>What the execution leaves for the receipt.\<close>

record codex_execution =
  cx_pinned_digest :: string
  cx_version :: string
  cx_catalog :: string
  cx_code :: int
  cx_output :: string

text \<open>The body of the \<^verbatim>\<open>with\<close> block, in the temporary directory.\<close>

definition codex_pinned :: "host \<Rightarrow> web_host \<Rightarrow> process_env \<Rightarrow> string \<Rightarrow> string \<Rightarrow> string \<Rightarrow> string \<Rightarrow> int \<Rightarrow> string \<Rightarrow> launch list
    \<Rightarrow> codex_execution result \<times> launch list" where
  "codex_pinned H W E executable prompt_bytes model workspace timeout_seconds directory s =
     (let pinned = directory @ ''/codex'' in
      bindS (expect OSError (pe_copy E), s) (\<lambda>content s.
      let pinned_digest = bytes_digest H content in
      bindS (run_process E (pinned_launch pinned executable [''--version''] workspace None 30) s) (\<lambda>(version_code, version) s.
      bindS (run_process E (pinned_launch pinned executable catalog_arguments workspace None 60) s) (\<lambda>(catalog_code, catalog) s.
      if version_code \<noteq> 0 \<or> version = [] \<or> catalog_code \<noteq> 0 then (reject ''PROVIDER_CAPABILITY_UNAVAILABLE'', s)
      else bindS (catalog_model H W catalog model, s) (\<lambda>_ s.
      bindS (run_process E (pinned_launch pinned executable (execution_arguments E model workspace) workspace (Some prompt_bytes)
        timeout_seconds) s) (\<lambda>(code, out) s.
      bindS (expect OSError (pe_copy_after E), s) (\<lambda>content_after s.
      if bytes_digest H content_after \<noteq> pinned_digest then (reject ''PROVIDER_EXECUTABLE_CHANGED'', s)
      else (Inr \<lparr>cx_pinned_digest = pinned_digest, cx_version = version, cx_catalog = catalog, cx_code = code, cx_output = out\<rparr>, s))))))))"

text \<open>The \<^verbatim>\<open>try\<close> around it: leaving the directory may fail as well, and every \<^verbatim>\<open>OSError\<close> is one rejection.\<close>

definition codex_execute :: "host \<Rightarrow> web_host \<Rightarrow> process_env \<Rightarrow> string \<Rightarrow> string \<Rightarrow> string \<Rightarrow> string \<Rightarrow> int \<Rightarrow> launch list
    \<Rightarrow> codex_execution result \<times> launch list" where
  "codex_execute H W E executable prompt_bytes model workspace timeout_seconds s =
     (case (case pe_directory E of
              None \<Rightarrow> (Inl OSError, s)
            | Some directory \<Rightarrow>
                (case codex_pinned H W E executable prompt_bytes model workspace timeout_seconds directory s of
                   (r, s1) \<Rightarrow> (if pe_removed E then r else Inl OSError, s1))) of
        (Inl OSError, s1) \<Rightarrow> (reject ''PROVIDER_EXECUTABLE_PIN_FAILED'', s1)
      | (r, s1) \<Rightarrow> (r, s1))"

definition codex_capability :: "host \<Rightarrow> process_env \<Rightarrow> string \<Rightarrow> string \<Rightarrow> string \<Rightarrow> codex_execution \<Rightarrow> json" where
  "codex_capability H E executable model workspace x = JObj
     [(''channel'', JStr ''openai-codex''), (''cliRealpath'', JStr executable), (''cliSha256'', JStr (cx_pinned_digest x)),
      (''executableIdentityClass'', JStr ''private-content-copy''),
      (''cliVersionSha256'', JStr (bytes_digest H (strip bytes_spaces (cx_version x)))),
      (''liveModelCatalogSha256'', JStr (bytes_digest H (cx_catalog x))),
      (''requestedModel'', JStr CODEX_MODEL), (''providerReportedModel'', JNull),
      (''launchConfiguration'', JObj [(''catalogArguments'', JArr (map JStr catalog_arguments)),
        (''executionArguments'', JArr (map JStr (execution_arguments E model workspace)))])]"

definition codex_receipt :: "host \<Rightarrow> web_host \<Rightarrow> (string \<Rightarrow> bool) \<Rightarrow> process_env \<Rightarrow> string \<Rightarrow> string \<Rightarrow> string \<Rightarrow> string \<Rightarrow> codex_execution
    \<Rightarrow> provider_execution_receipt result" where
  "codex_receipt H W utf8 E executable prompt_bytes model workspace x =
     (if cx_code x \<noteq> 0 then reject ''PROVIDER_EXECUTION_FAILED''
      else bindE (terminal_result H W utf8 (cx_output x)) (\<lambda>text1.
        bindE (digest H (codex_capability H E executable model workspace x)) (\<lambda>capability.
        bindE (utf8_encode text1) (\<lambda>text_bytes.
        Inr \<lparr>px_provider_family = ''openai'', px_channel = ''openai-codex'', px_direct_provider_cli = True, px_model_id = CODEX_MODEL,
          px_model_identity_class = ''trusted-launch-attested'', px_capability_snapshot_sha256 = capability,
          px_input_sha256 = bytes_digest H prompt_bytes, px_output_sha256 = bytes_digest H text_bytes, px_result_text = text1\<rparr>))))"

definition codex_run :: "host \<Rightarrow> web_host \<Rightarrow> (string \<Rightarrow> bool) \<Rightarrow> process_env \<Rightarrow> string \<Rightarrow> string \<Rightarrow> string \<Rightarrow> string \<Rightarrow> int \<Rightarrow> launch list
    \<Rightarrow> provider_execution_receipt result \<times> launch list" where
  "codex_run H W utf8 E executable prompt model workspace timeout_seconds s =
     (if model \<noteq> CODEX_MODEL then (reject ''PROVIDER_MODEL_UNAVAILABLE'', s)
      else bindS (checked_prompt prompt, s) (\<lambda>prompt_bytes s.
        bindS (codex_execute H W E executable prompt_bytes model workspace timeout_seconds s) (\<lambda>x s.
        (codex_receipt H W utf8 E executable prompt_bytes model workspace x, s))))"

section \<open>Cursor\<close>

text \<open>\<^verbatim>\<open>line.split(" - ", 1)[0]\<close> of a line with the separator.\<close>

fun before_dash :: "string \<Rightarrow> string option" where
  "before_dash [] = None"
| "before_dash (c # s) = (if startswith (c # s) '' - '' then Some [] else map_option (Cons c) (before_dash s))"

definition listed_models :: "string \<Rightarrow> string list" where
  "listed_models out = map (strip str_spaces) (List.map_filter before_dash (splitlines [] out))"

definition cursor_receipt :: "host \<Rightarrow> web_host \<Rightarrow> string \<Rightarrow> string \<Rightarrow> string \<Rightarrow> string \<Rightarrow> string \<Rightarrow> string
    \<Rightarrow> provider_execution_receipt result" where
  "cursor_receipt H W prompt_bytes model provider_family version models out =
     bindE (success_payload H W out) (\<lambda>payload.
     bindE (result_text payload) (\<lambda>text1.
     bindE (digest H (JObj [(''channel'', JStr ''cursor-cli''),
       (''cliVersionSha256'', JStr (bytes_digest H (strip bytes_spaces version))),
       (''liveModelListSha256'', JStr (bytes_digest H models)), (''launchedModel'', JStr model)])) (\<lambda>capability.
     Inr \<lparr>px_provider_family = provider_family, px_channel = ''cursor-cli'', px_direct_provider_cli = False, px_model_id = model,
       px_model_identity_class = ''trusted-launch-attested'', px_capability_snapshot_sha256 = capability,
       px_input_sha256 = bytes_digest H prompt_bytes, px_output_sha256 = bytes_digest H text1, px_result_text = text1\<rparr>)))"

definition cursor_run :: "host \<Rightarrow> web_host \<Rightarrow> (string \<Rightarrow> bool) \<Rightarrow> process_env \<Rightarrow> string \<Rightarrow> string \<Rightarrow> string \<Rightarrow> string \<Rightarrow> string \<Rightarrow> int \<Rightarrow> launch list
    \<Rightarrow> provider_execution_receipt result \<times> launch list" where
  "cursor_run H W utf8 E executable prompt model workspace provider_family timeout_seconds s =
     bindS (checked_prompt prompt, s) (\<lambda>prompt_bytes s.
     bindS (run_process E \<lparr>la_executable = executable, la_argv = [executable, ''--version''], la_cwd = workspace,
       la_input = None, la_timeout = 30\<rparr> s) (\<lambda>(version_code, version) s.
     bindS (run_process E \<lparr>la_executable = executable, la_argv = [executable, ''--list-models''], la_cwd = workspace,
       la_input = None, la_timeout = 60\<rparr> s) (\<lambda>(models_code, models) s.
     if version_code \<noteq> 0 \<or> models_code \<noteq> 0 then (reject ''PROVIDER_CAPABILITY_UNAVAILABLE'', s)
     else if \<not> utf8 models then (reject ''PROVIDER_CAPABILITY_UNAVAILABLE'', s)
     else if model \<notin> set (listed_models models) then (reject ''PROVIDER_MODEL_UNAVAILABLE'', s)
     else bindS (run_process E \<lparr>la_executable = executable,
       la_argv = [executable, ''-p'', ''--output-format'', ''json'', ''--mode'', ''ask'', ''--trust'', ''--sandbox'', ''enabled'',
         ''--workspace'', workspace, ''--model'', model],
       la_cwd = workspace, la_input = Some prompt_bytes, la_timeout = timeout_seconds\<rparr> s) (\<lambda>(code, out) s.
     if code \<noteq> 0 then (reject ''PROVIDER_EXECUTION_FAILED'', s)
     else (cursor_receipt H W prompt_bytes model provider_family version models out, s)))))"

section \<open>The review issuer\<close>

record review_coordinates =
  rc_review_id :: string
  rc_review_chain_id :: string
  rc_subject_sha256 :: string
  rc_round :: int
  rc_previous_round_sha256 :: "string option"
  rc_closure_root_sha256 :: string
  rc_issued_at :: string
  rc_expires_at :: string

record review_issuer =
  ri_provider_family :: string
  ri_channel :: string
  ri_direct_provider_cli :: bool
  ri_model_identity_class :: string
  ri_allowed_models :: "string list"
  ri_issuer :: string

definition new_review_issuer :: "string \<Rightarrow> string \<Rightarrow> bool \<Rightarrow> string \<Rightarrow> string list \<Rightarrow> string \<Rightarrow> string \<Rightarrow> review_issuer result" where
  "new_review_issuer provider_family channel direct_provider_cli model_identity_class allowed_models issuer contract_version =
     (if contract_version = ''v1'' then reject ''LEGACY_CONTRACT_READ_ONLY''
      else if contract_version = ''v2''
      then Inr \<lparr>ri_provider_family = provider_family, ri_channel = channel, ri_direct_provider_cli = direct_provider_cli,
             ri_model_identity_class = model_identity_class, ri_allowed_models = allowed_models, ri_issuer = issuer\<rparr>
      else reject ''PROVIDER_CONTRACT_VERSION_INVALID'')"

definition FINDING_FIELDS :: "string list" where
  "FINDING_FIELDS = [''findingIds'', ''resolvedFindingIds'', ''acknowledgedFindingIds'']"

text \<open>
  One list of finding ids. \<^verbatim>\<open>set(values)\<close> raises on a list or dict; any other element that is no
  text is rejected with the code of a repeated one. \<open>upper\<close> is \<^verbatim>\<open>str.upper\<close>.
\<close>

definition finding_ids_ok :: "(string \<Rightarrow> string) \<Rightarrow> json \<Rightarrow> unit result" where
  "finding_ids_ok upper v = (case v of
     JArr values \<Rightarrow>
       if list_ex (\<lambda>w. case w of JArr _ \<Rightarrow> True | JObj _ \<Rightarrow> True | _ \<Rightarrow> False) values then Inl TypeError
       else require (distinct values \<and> list_all (\<lambda>w. case w of
           JStr s \<Rightarrow> 2 \<le> py_len s \<and> py_len s \<le> 64 \<and> upper s = s | _ \<Rightarrow> False) values) ''PROVIDER_REVIEW_RESULT_INVALID''
   | _ \<Rightarrow> reject ''PROVIDER_REVIEW_RESULT_INVALID'')"

text \<open>\<open>order\<close> is the order in which the set of the three fields is iterated.\<close>

definition review_result :: "host \<Rightarrow> web_host \<Rightarrow> (string \<Rightarrow> string) \<Rightarrow> string list \<Rightarrow> string \<Rightarrow> (string \<times> json) list result" where
  "review_result H W upper order text1 =
     bindE (utf8_encode text1) (\<lambda>raw.
     bindE (provider_json H W raw) (\<lambda>payload.
     bindE (reject_if
       [(fst ` set payload \<noteq> set ([''schemaVersion'', ''verdict''] @ FINDING_FIELDS), ''PROVIDER_REVIEW_RESULT_INVALID''),
        (\<not> eq_str (jget payload ''schemaVersion'') REVIEW_RESULT_SCHEMA_VERSION, ''PROVIDER_REVIEW_RESULT_INVALID'')]) (\<lambda>_.
     bindE (reject_unless_member (jget payload ''verdict'') [''AGREE'', ''REVISE'', ''RED'', ''PARTIAL''] ''PROVIDER_REVIEW_RESULT_INVALID'') (\<lambda>_.
     bindE (forE (\<lambda>field. finding_ids_ok upper (jget payload field)) order) (\<lambda>_.
     Inr payload)))))"

definition findings_projection :: "(string \<times> json) list \<Rightarrow> json" where
  "findings_projection result1 = JObj (map (\<lambda>k. (k, jget result1 k)) (''verdict'' # FINDING_FIELDS))"

definition review_payload :: "review_issuer \<Rightarrow> provider_execution_receipt \<Rightarrow> review_coordinates \<Rightarrow> (string \<times> json) list \<Rightarrow> string \<Rightarrow> string
    \<Rightarrow> (string \<times> json) list" where
  "review_payload I execution c result1 findings_sha256 key_id =
     [(''schemaVersion'', JStr ''acik.cross-ai-deployment-review.v2''),
      (''reviewId'', JStr (rc_review_id c)),
      (''reviewChainId'', JStr (rc_review_chain_id c)),
      (''providerFamily'', JStr (ri_provider_family I)),
      (''channel'', JStr (ri_channel I)),
      (''directProviderCli'', JBool (ri_direct_provider_cli I)),
      (''modelId'', JStr (px_model_id execution)),
      (''modelIdentityClass'', JStr (px_model_identity_class execution)),
      (''capabilitySnapshotSha256'', JStr (px_capability_snapshot_sha256 execution)),
      (''subjectSha256'', JStr (rc_subject_sha256 c)),
      (''round'', JInt (rc_round c)),
      (''verdict'', jget result1 ''verdict''),
      (''inputSha256'', JStr (px_input_sha256 execution)),
      (''outputSha256'', JStr (px_output_sha256 execution)),
      (''findingsSha256'', JStr findings_sha256),
      (''previousRoundSha256'', case rc_previous_round_sha256 c of None \<Rightarrow> JNull | Some d \<Rightarrow> JStr d),
      (''findingIds'', jget result1 ''findingIds''),
      (''resolvedFindingIds'', jget result1 ''resolvedFindingIds''),
      (''acknowledgedFindingIds'', jget result1 ''acknowledgedFindingIds''),
      (''closureRootSha256'', JStr (rc_closure_root_sha256 c)),
      (''issuedAt'', JStr (rc_issued_at c)),
      (''expiresAt'', JStr (rc_expires_at c)),
      (''issuer'', JStr (ri_issuer I)),
      (''keyId'', JStr key_id)]"

definition receipt_allowed :: "review_issuer \<Rightarrow> provider_execution_receipt \<Rightarrow> bool" where
  "receipt_allowed I x = (px_provider_family x = ri_provider_family I \<and> px_channel x = ri_channel I
     \<and> px_direct_provider_cli x = ri_direct_provider_cli I \<and> px_model_identity_class x = ri_model_identity_class I
     \<and> px_model_id x \<in> set (ri_allowed_models I))"

text \<open>Everything before the signature.\<close>

definition issued_payload :: "host \<Rightarrow> web_host \<Rightarrow> (string \<Rightarrow> string) \<Rightarrow> string list \<Rightarrow> review_issuer \<Rightarrow> string \<Rightarrow> provider_execution_receipt
    \<Rightarrow> review_coordinates \<Rightarrow> (string \<times> json) list result" where
  "issued_payload H W upper order I key_id execution c =
     (if \<not> receipt_allowed I execution then reject ''PROVIDER_ISSUER_POLICY_MISMATCH''
      else bindE (parse_utc H (JStr (rc_issued_at c))) (\<lambda>issued_at.
        bindE (parse_utc H (JStr (rc_expires_at c))) (\<lambda>expires_at.
        bindE (reject_if [(expires_at \<le> issued_at \<or> expires_at - issued_at > minutes 120, ''REVIEW_LIFETIME_INVALID'')]) (\<lambda>_.
        bindE (review_result H W upper order (px_result_text execution)) (\<lambda>result1.
        bindE (digest H (findings_projection result1)) (\<lambda>findings_sha256.
        let payload = review_payload I execution c result1 findings_sha256 key_id in
        bindE (validate_schema H (JObj payload) (schema_name ''review'' V2) ''PROVIDER_REVIEW_RESULT_INVALID'') (\<lambda>_.
        Inr payload)))))))"

definition issue :: "host \<Rightarrow> web_host \<Rightarrow> (string \<Rightarrow> string) \<Rightarrow> string list \<Rightarrow> 's envelope_signer \<Rightarrow> review_issuer
    \<Rightarrow> provider_execution_receipt \<Rightarrow> review_coordinates \<Rightarrow> 's \<Rightarrow> json result \<times> 's" where
  "issue H W upper order signer I execution c s =
     bindS (issued_payload H W upper order I (es_key_id signer) execution c, s) (\<lambda>payload s.
     es_sign signer (payload_type ''review'' V2) payload s)"

end
