(* ===== verification/ProviderProps.thy ===== *)
theory ProviderProps
  imports Provider CoordinatorProps
begin

text \<open>
  What the receipts and reviews of the providers show: a Codex receipt comes from one pinned program
  that used no tool, and a review that an issuer signs is accepted by the evidence verifier.
\<close>

section \<open>Codex\<close>

text \<open>The text of an agent message among the events.\<close>

definition agent_text :: "(string \<times> json) list \<Rightarrow> string option" where
  "agent_text event = (case jget event ''item'' of
     JObj item \<Rightarrow> if typed ''item.completed'' event \<and> eq_str (jget item ''type'') ''agent_message''
       then (case jget item ''text'' of JStr t \<Rightarrow> Some t | _ \<Rightarrow> None) else None
   | _ \<Rightarrow> None)"

text \<open>An event that is no use of a tool: the frame of the turn, reasoning, or a message.\<close>

definition harmless :: "(string \<times> json) list \<Rightarrow> bool" where
  "harmless event = (jget event ''type'' \<in> JStr ` {''thread.started'', ''turn.started'', ''turn.completed''}
     \<or> typed ''item.completed'' event \<and> (\<exists>item. jget event ''item'' = JObj item \<and> jget item ''type'' \<in> JStr ` {''reasoning'', ''agent_message''}))"

lemma event_message_Inr:
  assumes "event_message event messages = Inr messages'"
  shows "harmless event \<and> messages' = messages @ (case agent_text event of None \<Rightarrow> [] | Some t \<Rightarrow> [t])"
  using assms
  by (auto simp: event_message_def harmless_def agent_text_def typed_def member_of_def bindE_Inr_iff eq_str_def
      split: if_split_asm json.split_asm json.split)

lemma event_messages_Inr:
  "foldE event_message events messages = Inr messages' \<Longrightarrow>
     (\<forall>e \<in> set events. harmless e) \<and> messages' = messages @ List.map_filter agent_text events"
proof (induction events arbitrary: messages)
  case (Cons e events)
  then obtain m where m: "event_message e messages = Inr m" "foldE event_message events m = Inr messages'" by (auto simp: bindE_Inr_iff)
  from event_message_Inr [OF m(1)] Cons.IH [OF m(2)] show ?case by (auto simp: List.map_filter_def split: option.splits)
qed (simp add: List.map_filter_def)

lemma terminal_result_Inr:
  assumes "terminal_result H W utf8 raw = Inr text1"
  obtains events where "mapE (provider_json H W) (filter (\<lambda>line. line \<noteq> []) (splitlines [] raw)) = Inr events"
    "typed ''thread.started'' (hd events)" "typed ''turn.completed'' (last events)"
    "length (filter (typed ''turn.started'') events) = 1" "length (filter (typed ''turn.completed'') events) = 1"
    "\<forall>e \<in> set events. harmless e" "List.map_filter agent_text events = [text1]"
  using assms unfolding terminal_result_def
  by (auto elim!: bindE_InrE dest!: event_messages_Inr split: if_split_asm list.split_asm)

text \<open>The three processes of a Codex execution, all of them the pinned copy.\<close>

definition codex_launches :: "process_env \<Rightarrow> string \<Rightarrow> string \<Rightarrow> string \<Rightarrow> string \<Rightarrow> string \<Rightarrow> int \<Rightarrow> launch list" where
  "codex_launches E directory executable prompt_bytes model workspace timeout_seconds = (let pinned = directory @ ''/codex'' in
     [pinned_launch pinned executable [''--version''] workspace None 30, pinned_launch pinned executable catalog_arguments workspace None 60,
      pinned_launch pinned executable (execution_arguments E model workspace) workspace (Some prompt_bytes) timeout_seconds])"

lemma run_process_Inr: "run_process E la s = (Inr (code, out), s') \<longleftrightarrow> s' = s @ [la] \<and> pe_end E (length s) la = Exited code out"
  by (auto simp: run_process_def split: process_end.splits)

lemma codex_pinned_Inr:
  assumes "codex_pinned H W E executable prompt_bytes model workspace timeout_seconds directory s = (Inr x, s')"
  shows "\<exists>content content'. pe_copy E = Some content \<and> pe_copy_after E = Some content'
    \<and> cx_pinned_digest x = bytes_digest H content \<and> bytes_digest H content' = bytes_digest H content
    \<and> s' = s @ codex_launches E directory executable prompt_bytes model workspace timeout_seconds
    \<and> pe_end E (length s) (s' ! length s) = Exited 0 (cx_version x) \<and> cx_version x \<noteq> []
    \<and> pe_end E (length s + 1) (s' ! (length s + 1)) = Exited 0 (cx_catalog x)
    \<and> (\<exists>selected. catalog_model H W (cx_catalog x) model = Inr selected)
    \<and> pe_end E (length s + 2) (last s') = Exited (cx_code x) (cx_output x)"
  using assms unfolding codex_pinned_def Let_def
  by (auto elim!: bindS_InrE simp: run_process_Inr codex_launches_def Let_def nth_append split: prod.split_asm if_split_asm)

lemma objects_filter:
  "map JObj (filter P (List.map_filter (\<lambda>v. case v of JObj d \<Rightarrow> Some d | _ \<Rightarrow> None) vs)) = filter (\<lambda>v. case v of JObj d \<Rightarrow> P d | _ \<Rightarrow> False) vs"
proof (induction vs)
  case (Cons v vs)
  then show ?case by (cases v) (auto simp: List.map_filter_def)
qed (simp add: List.map_filter_def)

lemma catalog_model_Inr:
  assumes "catalog_model H W raw model = Inr selected"
  shows "\<exists>payload models. provider_json H W raw = Inr payload \<and> jget payload ''models'' = JArr models
    \<and> filter (\<lambda>v. case v of JObj d \<Rightarrow> jget d ''slug'' = JStr model | _ \<Rightarrow> False) models = [JObj selected]
    \<and> jget selected ''visibility'' = JStr ''list'' \<and> jget selected ''supported_in_api'' = JBool True"
proof -
  let ?obj = "\<lambda>v. case v of JObj d \<Rightarrow> Some d | _ \<Rightarrow> None"
  obtain payload where p: "provider_json H W raw = Inr payload" and rest: "(case jget payload ''models'' of
       JArr models \<Rightarrow>
         (case filter (\<lambda>entry. eq_str (jget entry ''slug'') model) (List.map_filter ?obj models) of
            [selected] \<Rightarrow>
              if \<not> eq_str (jget selected ''visibility'') ''list'' \<or> jget selected ''supported_in_api'' \<noteq> JBool True
              then reject ''PROVIDER_MODEL_UNAVAILABLE'' else Inr selected
          | _ \<Rightarrow> reject ''PROVIDER_MODEL_UNAVAILABLE'')
     | _ \<Rightarrow> reject ''PROVIDER_CAPABILITY_UNAVAILABLE'') = Inr selected"
    using assms unfolding catalog_model_def by (rule bindE_InrE)
  from rest obtain models where m: "jget payload ''models'' = JArr models" by (cases "jget payload ''models''") simp_all
  obtain x xs where f: "filter (\<lambda>entry. eq_str (jget entry ''slug'') model) (List.map_filter ?obj models) = x # xs"
    using rest m by (cases "filter (\<lambda>entry. eq_str (jget entry ''slug'') model) (List.map_filter ?obj models)") simp_all
  have "xs = []" using rest unfolding m json.case f list.case by (cases xs) simp_all
  with rest have "x = selected \<and> jget selected ''visibility'' = JStr ''list'' \<and> jget selected ''supported_in_api'' = JBool True"
    unfolding m json.case f list.case by (simp add: eq_str_def split: if_split_asm)
  with p m f \<open>xs = []\<close> have x: "provider_json H W raw = Inr payload" "jget payload ''models'' = JArr models"
    "filter (\<lambda>entry. eq_str (jget entry ''slug'') model) (List.map_filter ?obj models) = [selected]"
    "jget selected ''visibility'' = JStr ''list''" "jget selected ''supported_in_api'' = JBool True" by simp_all
  from objects_filter [of "\<lambda>entry. eq_str (jget entry ''slug'') model" models]
  have "filter (\<lambda>v. case v of JObj d \<Rightarrow> jget d ''slug'' = JStr model | _ \<Rightarrow> False) models = [JObj selected]"
    unfolding x(3) by (simp add: eq_str_def cong: json.case_cong)
  with x show ?thesis by blast
qed

lemma codex_execute_Inr:
  assumes "codex_execute H W E executable prompt_bytes model workspace timeout_seconds s = (Inr x, s')"
  obtains directory where "pe_directory E = Some directory" "pe_removed E"
    "codex_pinned H W E executable prompt_bytes model workspace timeout_seconds directory s = (Inr x, s')"
  using assms unfolding codex_execute_def
  by (auto split: option.split_asm prod.split_asm sum.split_asm perror.split_asm if_split_asm)

lemma codex_receipt_Inr:
  assumes "codex_receipt H W utf8 E executable prompt_bytes model workspace x = Inr r"
  obtains capability where "cx_code x = 0" "terminal_result H W utf8 (cx_output x) = Inr (px_result_text r)"
    "digest H (codex_capability H E executable model workspace x) = Inr capability" "px_capability_snapshot_sha256 r = capability"
    "px_provider_family r = ''openai''" "px_channel r = ''openai-codex''" "px_direct_provider_cli r" "px_model_id r = CODEX_MODEL"
    "px_model_identity_class r = ''trusted-launch-attested''" "px_input_sha256 r = bytes_digest H prompt_bytes"
    "px_output_sha256 r = bytes_digest H (px_result_text r)"
  using assms unfolding codex_receipt_def
  by (auto elim!: bindE_InrE simp: utf8_encode_def split: if_split_asm)

text \<open>
  C39: a Codex receipt attests one pinned execution without tools. When the runner returns a receipt, the
  model was the pinned one, exactly three processes were launched, all from the private copy of the
  program, whose digest was the same before and after and is part of the capability
  snapshot; the first reported the version and the second the catalog that the snapshot has the digests of, and the
  catalog lists the model exactly once, as visible and supported; the last of them read the prompt whose digest the receipt has, ended with code 0, and every event
  of its output belongs to the frame of one turn, is reasoning or is the single agent message
  that the receipt repeats with its digest.
\<close>

theorem codex_receipt_attests:
  assumes "codex_run H W utf8 E executable prompt model workspace timeout_seconds s = (Inr r, s')"
  shows "\<exists>directory content content' x events payload models selected. model = CODEX_MODEL \<and> px_model_id r = model
    \<and> pe_directory E = Some directory \<and> pe_copy E = Some content \<and> pe_copy_after E = Some content'
    \<and> bytes_digest H content' = bytes_digest H content
    \<and> s' = s @ codex_launches E directory executable prompt model workspace timeout_seconds
    \<and> (\<forall>la \<in> set (drop (length s) s'). la_executable la = directory @ ''/codex'')
    \<and> la_input (last s') = Some prompt \<and> pe_end E (length s + 2) (last s') = Exited 0 (cx_output x)
    \<and> pe_end E (length s) (s' ! length s) = Exited 0 (cx_version x) \<and> cx_version x \<noteq> []
    \<and> pe_end E (length s + 1) (s' ! (length s + 1)) = Exited 0 (cx_catalog x)
    \<and> provider_json H W (cx_catalog x) = Inr payload \<and> jget payload ''models'' = JArr models
    \<and> filter (\<lambda>v. case v of JObj d \<Rightarrow> jget d ''slug'' = JStr model | _ \<Rightarrow> False) models = [JObj selected]
    \<and> jget selected ''visibility'' = JStr ''list'' \<and> jget selected ''supported_in_api'' = JBool True
    \<and> cx_pinned_digest x = bytes_digest H content
    \<and> digest H (codex_capability H E executable model workspace x) = Inr (px_capability_snapshot_sha256 r)
    \<and> px_input_sha256 r = bytes_digest H prompt \<and> prompt \<noteq> [] \<and> length prompt \<le> MAX_PROMPT_BYTES
    \<and> mapE (provider_json H W) (filter (\<lambda>line. line \<noteq> []) (splitlines [] (cx_output x))) = Inr events
    \<and> (\<forall>e \<in> set events. harmless e) \<and> List.map_filter agent_text events = [px_result_text r]
    \<and> typed ''thread.started'' (hd events)
    \<and> length (filter (typed ''turn.started'') events) = 1 \<and> typed ''turn.completed'' (last events)
    \<and> px_output_sha256 r = bytes_digest H (px_result_text r)"
proof -
  from assms obtain x where m: "model = CODEX_MODEL" and p: "checked_prompt prompt = Inr prompt"
    and x: "codex_execute H W E executable prompt model workspace timeout_seconds s = (Inr x, s')"
    "codex_receipt H W utf8 E executable prompt model workspace x = Inr r"
    by (auto simp: codex_run_def checked_prompt_def utf8_encode_def elim!: bindS_InrE bindE_InrE split: if_split_asm)
  obtain directory where d: "pe_directory E = Some directory"
    "codex_pinned H W E executable prompt model workspace timeout_seconds directory s = (Inr x, s')"
    using x(1) by (rule codex_execute_Inr)
  from codex_pinned_Inr [OF d(2)] obtain content content' where c: "pe_copy E = Some content" "pe_copy_after E = Some content'"
    "cx_pinned_digest x = bytes_digest H content" "bytes_digest H content' = bytes_digest H content"
    "s' = s @ codex_launches E directory executable prompt model workspace timeout_seconds"
    "pe_end E (length s + 2) (last s') = Exited (cx_code x) (cx_output x)"
    and l: "pe_end E (length s) (s' ! length s) = Exited 0 (cx_version x)" "cx_version x \<noteq> []"
    "pe_end E (length s + 1) (s' ! (length s + 1)) = Exited 0 (cx_catalog x)"
    and listed: "\<exists>selected. catalog_model H W (cx_catalog x) model = Inr selected" by blast
  from listed obtain payload models selected where k: "provider_json H W (cx_catalog x) = Inr payload" "jget payload ''models'' = JArr models"
    "filter (\<lambda>v. case v of JObj d \<Rightarrow> jget d ''slug'' = JStr model | _ \<Rightarrow> False) models = [JObj selected]"
    "jget selected ''visibility'' = JStr ''list''" "jget selected ''supported_in_api'' = JBool True" using catalog_model_Inr by blast
  obtain capability where r: "cx_code x = 0" "terminal_result H W utf8 (cx_output x) = Inr (px_result_text r)"
    "digest H (codex_capability H E executable model workspace x) = Inr capability" "px_capability_snapshot_sha256 r = capability"
    "px_model_id r = CODEX_MODEL" "px_input_sha256 r = bytes_digest H prompt" "px_output_sha256 r = bytes_digest H (px_result_text r)"
    using x(2) by (rule codex_receipt_Inr)
  obtain events where e: "mapE (provider_json H W) (filter (\<lambda>line. line \<noteq> []) (splitlines [] (cx_output x))) = Inr events"
    "typed ''turn.completed'' (last events)" "length (filter (typed ''turn.started'') events) = 1"
    "\<forall>e \<in> set events. harmless e" "List.map_filter agent_text events = [px_result_text r]" "typed ''thread.started'' (hd events)"
    using r(2) by (rule terminal_result_Inr)
  from p have "prompt \<noteq> []" "length prompt \<le> MAX_PROMPT_BYTES" by (auto simp: checked_prompt_def utf8_encode_def bindE_Inr_iff split: if_split_asm)
  moreover from c(5) have "\<forall>la \<in> set (drop (length s) s'). la_executable la = directory @ ''/codex''" "la_input (last s') = Some prompt"
    by (simp_all add: codex_launches_def pinned_launch_def Let_def)
  ultimately show ?thesis
    by (intro exI [of _ directory] exI [of _ content] exI [of _ content'] exI [of _ x] exI [of _ events] exI [of _ payload]
        exI [of _ models] exI [of _ selected] conjI k l c e) (use m d c r in simp_all)
qed

text \<open>A Codex that is listed, starts a turn, answers once and ends it.\<close>

definition cw_json :: "string \<Rightarrow> json option" where
  "cw_json t = map_of
     [(''c'', JObj [(''models'', JArr [JObj [(''slug'', JStr CODEX_MODEL), (''visibility'', JStr ''list''), (''supported_in_api'', JBool True)]])]),
      (''a'', JObj [(''type'', JStr ''thread.started'')]), (''b'', JObj [(''type'', JStr ''turn.started'')]),
      (''m'', JObj [(''type'', JStr ''item.completed''), (''item'', JObj [(''type'', JStr ''agent_message''), (''text'', JStr ''R'')])]),
      (''z'', JObj [(''type'', JStr ''turn.completed'')])] t"

definition cw_host :: host where
  "cw_host = vw_host\<lparr>h_json_loads := cw_json\<rparr>"

definition cw_env :: process_env where
  "cw_env = \<lparr>pe_end = (\<lambda>n _. Exited 0 (if n = 0 then ''1.0'' else if n = 1 then ''c'' else [CHR ''a'', CHR 0x0A, CHR ''b'', CHR 0x0A, CHR ''m'', CHR 0x0A, CHR ''z''])),
     pe_which = (\<lambda>_. None), pe_expanduser = (\<lambda>p. p), pe_resolve = (\<lambda>p. p), pe_executable = (\<lambda>_. True), pe_directory = Some ''/tmp/d'',
     pe_copy = Some ''elf'', pe_copy_after = Some ''elf'', pe_removed = True\<rparr>"

lemma cw_done: "map_sum id px_result_text (fst (codex_run cw_host vw_web (\<lambda>_. True) cw_env ''/bin/codex'' ''p'' CODEX_MODEL ''/w'' 600 [])) = Inr ''R''"
  by code_simp

theorem codex_receipt_attests_witness:
  "\<exists>r s'. codex_run cw_host vw_web (\<lambda>_. True) cw_env ''/bin/codex'' ''p'' CODEX_MODEL ''/w'' 600 [] = (Inr r, s')
     \<and> length s' = 3 \<and> la_input (last s') = Some ''p'' \<and> px_input_sha256 r = bytes_digest cw_host ''p''"
proof -
  obtain r s' where r: "codex_run cw_host vw_web (\<lambda>_. True) cw_env ''/bin/codex'' ''p'' CODEX_MODEL ''/w'' 600 [] = (Inr r, s')"
    using cw_done by (cases "codex_run cw_host vw_web (\<lambda>_. True) cw_env ''/bin/codex'' ''p'' CODEX_MODEL ''/w'' 600 []"; cases "fst (codex_run cw_host vw_web (\<lambda>_. True) cw_env ''/bin/codex'' ''p'' CODEX_MODEL ''/w'' 600 [])") auto
  from codex_receipt_attests [OF r] obtain directory where "s' = codex_launches cw_env directory ''/bin/codex'' ''p'' CODEX_MODEL ''/w'' 600"
    "la_input (last s') = Some ''p''" "px_input_sha256 r = bytes_digest cw_host ''p''" by auto
  then show ?thesis using r by (auto simp: codex_launches_def Let_def)
qed

section \<open>Issued reviews\<close>

text \<open>The fields of a normal form.\<close>

lemma jnorm_fields:
  assumes "jnorm (JObj b) = JObj a" "distinct (map fst b)"
  shows "map_of a k = map_option jnorm (map_of b k)"
proof -
  let ?s = "sort_key (\<lambda>kv. key_sort_value (fst kv)) b"
  have "distinct (map fst ?s)" using assms(2) by (metis distinct_map distinct_sort set_sort)
  then have "map_of ?s = map_of b" using assms(2) by (simp add: map_of_inject_set)
  moreover have "a = map (\<lambda>(k, v). (k, jnorm v)) ?s" using assms(1) by (auto simp: case_prod_beta)
  ultimately show ?thesis by (simp add: map_of_map)
qed

lemma strs_of_texts: "strs_of (jnorm (JArr (map JStr xs))) = Inr xs"
  by (simp add: strs_of_def list_of_def mapE_Inr_iff list_all2_conv_all_nth)

lemma finding_ids_texts: "finding_ids_ok upper v = Inr () \<Longrightarrow> \<exists>xs. v = JArr (map JStr xs) \<and> distinct xs"
proof -
  assume "finding_ids_ok upper v = Inr ()"
  then obtain vs where v: "v = JArr vs" "distinct vs"
    and t: "\<forall>w \<in> set vs. (case w of JStr s \<Rightarrow> 2 \<le> py_len s \<and> py_len s \<le> 64 \<and> upper s = s | _ \<Rightarrow> False)"
    by (cases v) (auto simp: finding_ids_ok_def list_all_iff split: if_split_asm)
  have "\<exists>t. w = JStr t" if "w \<in> set vs" for w using t that by (cases w) auto
  then obtain f where f: "\<forall>w \<in> set vs. w = JStr (f w)" by metis
  then have m: "vs = map JStr (map f vs)" by (simp add: map_idI comp_def)
  then have "distinct (map f vs)" using v(2) by (metis distinct_map)
  with m v(1) show ?thesis by blast
qed

text \<open>The parts of a review result that the issuer accepts.\<close>

lemma review_result_Inr:
  assumes "review_result H W upper order text1 = Inr result1" "set order = set FINDING_FIELDS"
  obtains verdict findings resolved acknowledged where "jget result1 ''verdict'' = JStr verdict" "verdict \<in> {''AGREE'', ''REVISE'', ''RED'', ''PARTIAL''}"
    "jget result1 ''findingIds'' = JArr (map JStr findings)" "jget result1 ''resolvedFindingIds'' = JArr (map JStr resolved)"
    "jget result1 ''acknowledgedFindingIds'' = JArr (map JStr acknowledged)" "provider_json H W text1 = Inr result1"
proof -
  from assms(1) have r: "provider_json H W text1 = Inr result1"
    "reject_unless_member (jget result1 ''verdict'') [''AGREE'', ''REVISE'', ''RED'', ''PARTIAL''] ''PROVIDER_REVIEW_RESULT_INVALID'' = Inr ()"
    "\<forall>k \<in> set order. finding_ids_ok upper (jget result1 k) = Inr ()"
    by (auto simp: review_result_def utf8_encode_def bindE_Inr_iff forE_Inr_iff split: if_split_asm)
  have "\<exists>xs. jget result1 k = JArr (map JStr xs)" if "k \<in> set FINDING_FIELDS" for k
    using r(3) that assms(2) finding_ids_texts by blast
  then obtain findings resolved acknowledged where f: "jget result1 ''findingIds'' = JArr (map JStr findings)"
    "jget result1 ''resolvedFindingIds'' = JArr (map JStr resolved)" "jget result1 ''acknowledgedFindingIds'' = JArr (map JStr acknowledged)"
    by (force simp: FINDING_FIELDS_def)
  from r(2) obtain verdict where "jget result1 ''verdict'' = JStr verdict" "verdict \<in> {''AGREE'', ''REVISE'', ''RED'', ''PARTIAL''}"
    by (auto simp: reject_unless_member_def member_of_def bindE_Inr_iff split: json.split_asm)
  with f r(1) show thesis by (intro that) auto
qed

text \<open>What the verifier reads from the normal form of an issued payload.\<close>

lemma read_issued:
  assumes "jget result1 ''verdict'' = JStr verdict" "jget result1 ''findingIds'' = JArr (map JStr findings)"
    "jget result1 ''resolvedFindingIds'' = JArr (map JStr resolved)" "jget result1 ''acknowledgedFindingIds'' = JArr (map JStr acknowledged)"
    and n: "jnorm (JObj (review_payload I execution c result1 findings_sha256 key_id)) = JObj items"
  shows "read_review (JObj items) = Inr \<lparr>rv_reviewId = rc_review_id c, rv_reviewChainId = rc_review_chain_id c,
     rv_providerFamily = ri_provider_family I, rv_channel = ri_channel I, rv_directProviderCli = ri_direct_provider_cli I,
     rv_modelId = px_model_id execution, rv_modelIdentityClass = px_model_identity_class execution, rv_subjectSha256 = rc_subject_sha256 c,
     rv_round = rc_round c, rv_verdict = verdict, rv_previousRoundSha256 = rc_previous_round_sha256 c, rv_findingIds = findings,
     rv_resolvedFindingIds = resolved, rv_acknowledgedFindingIds = acknowledged, rv_closureRootSha256 = rc_closure_root_sha256 c,
     rv_issuedAt = JStr (rc_issued_at c), rv_expiresAt = JStr (rc_expires_at c), rv_issuer = ri_issuer I, rv_keyId = key_id\<rparr>"
proof -
  have d: "distinct (map fst (review_payload I execution c result1 findings_sha256 key_id))" by (simp add: review_payload_def)
  note m = jnorm_fields [OF n d]
  have p: "opt_of str_of (jnorm (case rc_previous_round_sha256 c of None \<Rightarrow> JNull | Some d \<Rightarrow> JStr d)) = Inr (rc_previous_round_sha256 c)"
    by (cases "rc_previous_round_sha256 c") (simp_all add: opt_of_def str_of_def)
  have "fld_as f items k = bindE (fld (review_payload I execution c result1 findings_sha256 key_id) k) (\<lambda>v. f (jnorm v))"
    "fld items k = bindE (fld (review_payload I execution c result1 findings_sha256 key_id) k) (\<lambda>v. Inr (jnorm v))" for f :: "json \<Rightarrow> 'z result" and k
    unfolding fld_as_def fld_def m by (cases "map_of (review_payload I execution c result1 findings_sha256 key_id) k"; simp)+
  note f = this
  have l: "fld (review_payload I execution c result1 findings_sha256 key_id) k = Inr v \<longleftrightarrow> map_of (review_payload I execution c result1 findings_sha256 key_id) k = Some v" for k v
    by (simp add: fld_def)
  show ?thesis unfolding read_review_def obj_of_def json.case bindE_simps f
    by (simp add: review_payload_def fld_def assms(1-4) strs_of_texts [simplified] p str_of_def int_of_def bool_of_def)
qed

lemma issued_payload_Inr:
  assumes "issued_payload H W upper order I key_id execution c = Inr payload"
  obtains issued_at expires_at result1 findings_sha256 where "receipt_allowed I execution"
    "parse_utc H (JStr (rc_issued_at c)) = Inr issued_at" "parse_utc H (JStr (rc_expires_at c)) = Inr expires_at"
    "issued_at < expires_at" "expires_at - issued_at \<le> minutes 120"
    "review_result H W upper order (px_result_text execution) = Inr result1"
    "digest H (findings_projection result1) = Inr findings_sha256"
    "payload = review_payload I execution c result1 findings_sha256 key_id" "h_schema H (schema_name ''review'' V2) (JObj payload)"
  using assms unfolding issued_payload_def validate_schema_def Let_def
  by (auto elim!: bindE_InrE simp: not_le not_less split: if_split_asm)

text \<open>The route of an issuer is the one of a trusted key.\<close>

definition route_of_key :: "review_issuer \<Rightarrow> trust_key \<Rightarrow> bool" where
  "route_of_key I k = (tk_provider_family k = Some (ri_provider_family I) \<and> ri_channel I \<in> set (tk_allowed_channels k)
     \<and> set (ri_allowed_models I) \<subseteq> set (tk_allowed_model_ids k) \<and> tk_direct_provider_cli k = Some (ri_direct_provider_cli I)
     \<and> ri_model_identity_class I \<in> set (tk_allowed_model_identity_classes k)
     \<and> ri_issuer I = ''cross-ai-issuer-'' @ ri_provider_family I)"

context verifiable_sealing
begin

lemma issued_envelope:
  assumes "issue H W upper order signer I execution c s = (Inr envelope, s')" "map_of keys (es_key_id signer) = Some public_key"
    and "\<And>payload. issued_payload H W upper order I (es_key_id signer) execution c = Inr payload \<Longrightarrow> sound payload"
  shows "\<exists>payload ve. issued_payload H W upper order I (es_key_id signer) execution c = Inr payload
    \<and> verify_json_envelope H envelope (payload_type ''review'' V2) keys [] True = Inr ve
    \<and> JObj (ve_payload ve) = jnorm (JObj payload) \<and> ve_signing_key_ids ve = [es_key_id signer]"
proof -
  from assms(1) obtain payload where p: "issued_payload H W upper order I (es_key_id signer) execution c = Inr payload"
    "es_sign signer (payload_type ''review'' V2) payload s = (Inr envelope, s')"
    by (auto simp: issue_def elim!: bindS_InrE)
  from verifies [OF assms(3) [OF p(1)] p(2) assms(2)] p(1) show ?thesis by blast
qed

end

text \<open>
  C40: an honest review is accepted. Let an issuer have the route of a trusted provider key, and a
  signer with that key whose envelopes verify. If the issuer signs a review, then the verifier accepts it as
  the first review of its subject, provided the review is current, the key is active and
  neither is revoked: the accepted review names this key, the coordinates, the model of the receipt,
  and the verdict and findings of the result text that the receipt has the digest of.
\<close>

theorem issued_review_accepted:
  assumes "verifiable_sealing H signer decodes public_key sound"
    and "\<And>payload. issued_payload H W upper order I (es_key_id signer) execution c = Inr payload \<Longrightarrow> sound payload"
    and "issue H W upper order signer I execution c s = (Inr envelope, s')" "set order = set FINDING_FIELDS"
    and "\<And>n d. h_schema H n (jnorm d) = h_schema H n d"
    and "vf_version v = V2" "active_keys v ''provider-review'' = Inr keys" "map_of keys (es_key_id signer) = Some public_key"
    and "key_of v (es_key_id signer) = Inr k" "route_of_key I k"
    and "parse_utc H (JStr (rc_issued_at c)) = Inr issued_at" "parse_utc H (JStr (rc_expires_at c)) = Inr expires_at"
    and "issued_at \<le> vf_now v + vf_max_skew v" "vf_now v - vf_max_skew v \<le> expires_at"
    and "validate_key_time H v k issued_at True = Inr ()" "\<And>d. digest H envelope = Inr d \<Longrightarrow> not_revoked v ''review'' d"
  shows "\<exists>r result1. verify_review H v keys (rc_subject_sha256 c) envelope [] = Inr [r]
    \<and> digest H envelope = Inr (vr_digest r) \<and> vr_key r = k \<and> vr_issued_at r = issued_at \<and> vr_expires_at r = expires_at
    \<and> rv_reviewId (vr_payload r) = rc_review_id c \<and> rv_reviewChainId (vr_payload r) = rc_review_chain_id c
    \<and> rv_round (vr_payload r) = rc_round c \<and> rv_previousRoundSha256 (vr_payload r) = rc_previous_round_sha256 c
    \<and> rv_closureRootSha256 (vr_payload r) = rc_closure_root_sha256 c \<and> rv_modelId (vr_payload r) = px_model_id execution
    \<and> provider_json H W (px_result_text execution) = Inr result1
    \<and> jget result1 ''verdict'' = JStr (rv_verdict (vr_payload r))
    \<and> jget result1 ''findingIds'' = JArr (map JStr (rv_findingIds (vr_payload r)))
    \<and> jget result1 ''resolvedFindingIds'' = JArr (map JStr (rv_resolvedFindingIds (vr_payload r)))
    \<and> jget result1 ''acknowledgedFindingIds'' = JArr (map JStr (rv_acknowledgedFindingIds (vr_payload r)))"
proof -
  from verifiable_sealing.issued_envelope [OF assms(1,3,8,2)] obtain payload ve where
    p: "issued_payload H W upper order I (es_key_id signer) execution c = Inr payload"
    and ve: "verify_json_envelope H envelope (payload_type ''review'' V2) keys [] True = Inr ve"
    "JObj (ve_payload ve) = jnorm (JObj payload)" "ve_signing_key_ids ve = [es_key_id signer]" by blast
  obtain result1 findings_sha256 a b where i: "receipt_allowed I execution"
    "parse_utc H (JStr (rc_issued_at c)) = Inr a" "parse_utc H (JStr (rc_expires_at c)) = Inr b" "a < b"
    "review_result H W upper order (px_result_text execution) = Inr result1"
    "payload = review_payload I execution c result1 findings_sha256 (es_key_id signer)" "h_schema H (schema_name ''review'' V2) (JObj payload)"
    using p by (rule issued_payload_Inr)
  with assms(11,12) have t: "issued_at < expires_at" by simp
  obtain verdict findings resolved acknowledged where r: "jget result1 ''verdict'' = JStr verdict"
    "jget result1 ''findingIds'' = JArr (map JStr findings)" "jget result1 ''resolvedFindingIds'' = JArr (map JStr resolved)"
    "jget result1 ''acknowledgedFindingIds'' = JArr (map JStr acknowledged)" "provider_json H W (px_result_text execution) = Inr result1"
    using i(5) assms(4) by (rule review_result_Inr)
  from read_issued [OF r(1-4), of I execution c findings_sha256 "es_key_id signer" "ve_payload ve"] ve(2) i(6)
  obtain leaf where leaf: "read_review (JObj (ve_payload ve)) = Inr leaf" "rv_keyId leaf = es_key_id signer"
    and same: "rv_subjectSha256 leaf = rc_subject_sha256 c" "rv_issuedAt leaf = JStr (rc_issued_at c)" "rv_expiresAt leaf = JStr (rc_expires_at c)"
      "rv_reviewId leaf = rc_review_id c" "rv_reviewChainId leaf = rc_review_chain_id c" "rv_round leaf = rc_round c"
      "rv_previousRoundSha256 leaf = rc_previous_round_sha256 c" "rv_closureRootSha256 leaf = rc_closure_root_sha256 c"
      "rv_modelId leaf = px_model_id execution" "rv_verdict leaf = verdict" "rv_findingIds leaf = findings"
      "rv_resolvedFindingIds leaf = resolved" "rv_acknowledgedFindingIds leaf = acknowledged"
    and route: "rv_providerFamily leaf = ri_provider_family I" "rv_channel leaf = ri_channel I" "rv_directProviderCli leaf = ri_direct_provider_cli I"
      "rv_modelIdentityClass leaf = px_model_identity_class execution" "rv_issuer leaf = ri_issuer I" by fastforce
  have attributed: "attributed leaf k" using i(1) assms(10) route same(9) by (auto simp: receipt_allowed_def route_of_key_def attributed_def)
  have schema: "validate_schema H (JObj (ve_payload ve)) (schema_name ''review'' V2) ''REVIEW_SCHEMA_INVALID'' = Inr ()"
    unfolding validate_schema_def ve(2) assms(5) using i(7) by simp
  have digest: "digest H envelope = Inr (ve_envelope_digest ve)" using ve(1) by (rule envelope_digest)
  then have revoked: "refuse_revoked H v ''review'' (ve_envelope_digest ve) ''REVIEW_REVOKED'' = Inr ()" using assms(16) by (simp add: refuse_revoked_Inr)
  have time: "review_time_ok v leaf issued_at expires_at = Inr ()"
    using t assms(6,13,14) by (simp add: review_time_ok_def)
  have "verify_review H v keys (rc_subject_sha256 c) envelope [] = Inr [\<lparr>vr_digest = ve_envelope_digest ve, vr_payload = leaf, vr_key = k,
      vr_issued_at = issued_at, vr_expires_at = expires_at\<rparr>]"
    unfolding verify_review_def assms(6) ve(1,3) leaf(1) schema bindE_simps Let_def list.sel leaf(2) assms(9) same(1,2,3) assms(11,12) time assms(15) revoked
    using attributed by (simp add: reject_if.simps)
  with digest same r show ?thesis by force
qed

text \<open>A review of the direct Anthropic route, sealed by the Vault of the signer's scenario.\<close>

definition rw_result :: "(string \<times> json) list" where
  "rw_result = [(''schemaVersion'', JStr REVIEW_RESULT_SCHEMA_VERSION), (''verdict'', JStr ''AGREE''), (''findingIds'', JArr []),
     (''resolvedFindingIds'', JArr []), (''acknowledgedFindingIds'', JArr [])]"

definition rw_execution :: provider_execution_receipt where
  "rw_execution = \<lparr>px_provider_family = ''anthropic'', px_channel = ''direct-anthropic-cli'', px_direct_provider_cli = True,
     px_model_id = ''claude-opus-4-8'', px_model_identity_class = ''provider-reported'', px_capability_snapshot_sha256 = ''c'',
     px_input_sha256 = ''i'', px_output_sha256 = ''o'', px_result_text = ''R''\<rparr>"

definition rw_issuer :: review_issuer where
  "rw_issuer = \<lparr>ri_provider_family = ''anthropic'', ri_channel = ''direct-anthropic-cli'', ri_direct_provider_cli = True,
     ri_model_identity_class = ''provider-reported'', ri_allowed_models = [''claude-opus-4-8''], ri_issuer = ''cross-ai-issuer-anthropic''\<rparr>"

definition rw_coordinates :: review_coordinates where
  "rw_coordinates = \<lparr>rc_review_id = ''1'', rc_review_chain_id = ''A'', rc_subject_sha256 = ''s'', rc_round = 1, rc_previous_round_sha256 = None,
     rc_closure_root_sha256 = ''c'', rc_issued_at = ''0Z'', rc_expires_at = ''XZ''\<rparr>"

definition rw_payload :: "(string \<times> json) list" where
  "rw_payload = review_payload rw_issuer rw_execution rw_coordinates rw_result ''sha256:h'' (vault_key_id vw_signer)"

definition rw_host :: host where
  "rw_host = vw_host\<lparr>h_iso := (\<lambda>t. map_option (\<lambda>m. (minutes m, Some 0)) (map_of [(''0+00:00'', 0), (''X+00:00'', 60)] t)),
     h_json_loads := (\<lambda>t. Some (if t = ''r'' then JObj [(''data'', JObj [(''signature'', JStr vw_answer)])]
       else if t = ''R'' then JObj rw_result else jnorm (JObj rw_payload)))\<rparr>"

definition rw_key :: trust_key where
  "rw_key = ev_key (vault_key_id vw_signer) ''provider-review'' (Some ''anthropic'') [''direct-anthropic-cli''] [''claude-opus-4-8'']
     [''provider-reported''] (Some True)"

definition rw_verifier :: verifier where
  "rw_verifier = ev_verifier\<lparr>vf_keys := [rw_key]\<rparr>"

definition rw_signer :: "gh envelope_signer" where
  "rw_signer = vault_envelope_signer rw_host vw_web vw_env vw_signer"

lemma rw_issued: "issued_payload rw_host vw_web (\<lambda>t. t) FINDING_FIELDS rw_issuer (vault_key_id vw_signer) rw_execution rw_coordinates = Inr rw_payload"
  by code_simp

lemma rw_text: "map_sum id length (canonical_bytes (JObj rw_payload)) = Inr 617"
  by code_simp

lemma rw_answer: "sign_answer rw_host vw_web 1 \<lparr>hr_status = 200, hr_headers = [], hr_body = ''r''\<rparr> = Inr (replicate 64 (CHR ''A''))"
  by code_simp

lemma rw_vault:
  assumes "message \<noteq> []" "length message \<le> 4 * 1024 * 1024"
  shows "\<exists>s'. vault_sign rw_host vw_web vw_env vw_signer message s = (Inr (replicate 64 (CHR ''A'')), s')"
proof -
  have "\<exists>body. canonical_bytes (JObj [(''input'', JStr (b64encode message)), (''key_version'', JInt 1)]) = Inr body"
    unfolding canonical_bytes_def by (rule render_total(2)) (simp add: b64encode_ascii MAX_SAFE_INTEGER_def)
  then obtain body where "canonical_bytes (JObj [(''input'', JStr (b64encode message)), (''key_version'', JInt 1)]) = Inr body" ..
  moreover have "vs_key_version vw_signer = 1" by (simp add: vw_signer_def)
  ultimately show ?thesis using assms rw_answer
    by (simp add: vault_sign_def bindS_def transport_request_def send_def vw_env_def header_dict_def MAX_GITHUB_RESPONSE_BYTES_def)
qed

lemma rw_signed: "\<exists>envelope s'. issue rw_host vw_web (\<lambda>t. t) FINDING_FIELDS rw_signer rw_issuer rw_execution rw_coordinates s = (Inr envelope, s')"
proof -
  obtain t where t: "canonical_bytes (JObj rw_payload) = Inr t" "length t = 617" using rw_text by (cases "canonical_bytes (JObj rw_payload)") auto
  have "pae (payload_type ''review'' V2) t = Inr (''DSSEv1 '' @ pae_text (payload_type ''review'' V2) t)" by (simp add: pae_def payload_type_def)
  moreover have "length (''DSSEv1 '' @ pae_text (payload_type ''review'' V2) t) \<le> 4 * 1024 * 1024"
    by (simp add: pae_text_def t(2) payload_type_def nat_dec.simps)
  moreover obtain s' where "vault_sign rw_host vw_web vw_env vw_signer (''DSSEv1 '' @ pae_text (payload_type ''review'' V2) t) s
      = (Inr (replicate 64 (CHR ''A'')), s')" using rw_vault calculation(2) by blast
  ultimately show ?thesis using t(1) rw_issued
    by (simp add: issue_def rw_signer_def vault_envelope_signer_def bindS_Inr sign_json_envelope_def)
qed

lemma rw_times: "parse_utc rw_host (JStr ''0Z'') = Inr 0" "parse_utc rw_host (JStr ''XZ'') = Inr (minutes 60)"
  by code_simp+

lemma rw_keys: "active_keys rw_verifier ''provider-review'' = Inr [(vault_key_id vw_signer, tk_public_key rw_key)]"
  by code_simp

lemma render_brace: "render (JObj kvs) = Inr t \<Longrightarrow> t \<noteq> ''r'' \<and> t \<noteq> ''R''"
  by (auto simp: bindE_Inr_iff)

lemma rw_sound: "vault_sound rw_host vw_web vw_env vw_signer public_key rw_payload"
proof -
  have n: "VAULT_NAME (vs_mount vw_signer)" "VAULT_NAME (vs_key_name vw_signer)" by code_simp+
  have "b64_inverse rw_host" using vw_decodes by (simp add: b64_inverse_def rw_host_def)
  moreover have "h_json_loads rw_host t = Some (jnorm (JObj rw_payload))" if "canonical_bytes (JObj rw_payload) = Inr t" for t
    using that render_brace [of rw_payload t] by (simp add: rw_host_def canonical_bytes_def del: render.simps jnorm.simps)
  moreover have "vault_signs rw_host vw_env vw_signer (\<lambda>_. public_key)" by (simp add: vault_signs_def rw_host_def vw_host_def)
  ultimately show ?thesis using n unfolding vault_sound_def by (intro conjI exI [of _ "\<lambda>_. public_key"] allI impI refl) assumption+
qed

theorem issued_review_accepted_witness:
  "\<exists>envelope r. verify_review rw_host rw_verifier [(vault_key_id vw_signer, tk_public_key rw_key)] ''s'' envelope [] = Inr [r]
     \<and> rv_verdict (vr_payload r) = ''AGREE'' \<and> vr_key r = rw_key"
proof -
  let ?i = "issue rw_host vw_web (\<lambda>t. t) FINDING_FIELDS rw_signer rw_issuer rw_execution rw_coordinates vw_start"
  obtain envelope s' where i: "?i = (Inr envelope, s')" using rw_signed by blast
  have id: "es_key_id rw_signer = vault_key_id vw_signer" by (simp add: rw_signer_def vault_envelope_signer_def)
  have sealing: "verifiable_sealing rw_host rw_signer (b64_inverse rw_host) (tk_public_key rw_key) (vault_sound rw_host vw_web vw_env vw_signer (tk_public_key rw_key))"
    unfolding rw_signer_def by (rule vs.verifiable_sealing_axioms)
  have t: "parse_utc rw_host (JStr (rc_issued_at rw_coordinates)) = Inr 0" "parse_utc rw_host (JStr (rc_expires_at rw_coordinates)) = Inr (minutes 60)"
    using rw_times by (simp_all add: rw_coordinates_def)
  have k: "key_of rw_verifier (es_key_id rw_signer) = Inr rw_key" "route_of_key rw_issuer rw_key" "validate_key_time rw_host rw_verifier rw_key 0 True = Inr ()"
    unfolding id by code_simp+
  have now: "0 \<le> vf_now rw_verifier + vf_max_skew rw_verifier" "vf_now rw_verifier - vf_max_skew rw_verifier \<le> minutes 60" by code_simp+
  have payload: "vault_sound rw_host vw_web vw_env vw_signer (tk_public_key rw_key) payload"
    if "issued_payload rw_host vw_web (\<lambda>t. t) FINDING_FIELDS rw_issuer (es_key_id rw_signer) rw_execution rw_coordinates = Inr payload" for payload
    using that rw_issued rw_sound by (simp add: id)
  have schema: "h_schema rw_host n (jnorm d) = h_schema rw_host n d" for n d by (simp add: rw_host_def vw_host_def)
  have key: "map_of [(vault_key_id vw_signer, tk_public_key rw_key)] (es_key_id rw_signer) = Some (tk_public_key rw_key)" by (simp add: id)
  have revoked: "not_revoked rw_verifier ''review'' d" if "digest rw_host envelope = Inr d" for d
    using that by (auto simp: not_revoked_def rw_verifier_def ev_verifier_def sha256_digest_def bindE_Inr_iff rw_host_def vw_host_def)
  have version: "vf_version rw_verifier = V2" by (simp add: rw_verifier_def ev_verifier_def)
  obtain r result1 where r: "verify_review rw_host rw_verifier [(vault_key_id vw_signer, tk_public_key rw_key)] (rc_subject_sha256 rw_coordinates) envelope [] = Inr [r]"
    "vr_key r = rw_key" "provider_json rw_host vw_web (px_result_text rw_execution) = Inr result1" "jget result1 ''verdict'' = JStr (rv_verdict (vr_payload r))"
    using issued_review_accepted [OF sealing payload i refl schema version rw_keys key k(1,2) t now k(3) revoked] by blast
  have "map_sum id (\<lambda>d. jget d ''verdict'') (provider_json rw_host vw_web ''R'') = Inr (JStr ''AGREE'')" by code_simp
  with r(3,4) have "rv_verdict (vr_payload r) = ''AGREE''" by (simp add: rw_execution_def)
  with r(1,2) show ?thesis by (auto simp: rw_coordinates_def)
qed

end
