(* ===== verification/Spec2Isabelle.thy ===== *)
theory Spec2Isabelle
  imports IntentProps LedgerProps ContractProps IntakeProps DispatcherProps EvaluatorProps ServiceProps PollerProps
    ReconcilerProps OidcProps BootstrapProps GithubProps WorkflowProps SignerProps CoordinatorProps ProviderProps
begin

text \<open>
  Verification of the cross-AI deployment policy App, the Python package under
  \<^verbatim>\<open>src/scripts/github_apps/cross_ai_deployment_policy\<close>.

  \<^bold>\<open>The program.\<close> A GitHub App decides custom deployment protection rules. A dispatcher registers a
  signed evidence bundle as an \<^emph>\<open>intent\<close>, creates an immutable ref for it and starts one workflow
  run per stage. GitHub then asks the App, by webhook or by a delivery that is polled later,
  whether the run may enter its Environment. The service authenticates the question, evaluates
  it against the signed evidence and the live state of GitHub, reserves the stage for exactly that
  run, evaluates once more and posts one decision. The runner of an approved run may then fetch the
  evidence once, with the signed credential and its workload token, and a sweeper reconciles finished
  runs with the outcomes of their stages. Upstream of all this, provider programs are run for their
  reviews, an issuer signs each review and a coordinator composes the bundle; both sign through
  Vault, so that no private key enters the process. Two SQLite databases carry what must survive
  a crash: the intent registry and the observe ledger.

  \<^bold>\<open>Theories and sources.\<close> File names are those of the package.
    \<^item> \<open>Prelude\<close>: results (\<^verbatim>\<open>errors.py\<close>: \<open>perror\<close>, \<open>reject\<close>; \<open>bindE\<close> is sequencing, \<open>transaction\<close> is
      \<^verbatim>\<open>BEGIN IMMEDIATE\<close> with commit or rollback), tables as lists of rows with keyed lookup and
      update, and the lemmas the components share.
    \<^item> \<open>Canonical\<close> (\<^verbatim>\<open>canonical.py\<close>): the canonical JSON renderer, its rejections and digests;
      \<open>TimeUtil\<close> (\<^verbatim>\<open>timeutil.py\<close>): datetimes in microseconds, timestamps in seconds.
    \<^item> \<open>Dsse\<close> (\<^verbatim>\<open>dsse.py\<close>): the pre-authentication encoding and the verification of envelopes.
    \<^item> \<open>Payloads\<close>, \<open>Contract\<close> (\<^verbatim>\<open>contract.py\<close>): the typed payloads behind the JSON schemas and the
      evidence verifier: trust root, revocations, grant, runner lease, reviews and their chains,
      closure of findings and consensus. \<open>Evidence\<close> has the result records.
    \<^item> \<open>IntentStore\<close>, \<open>IntentOps\<close> (\<^verbatim>\<open>intent_store.py\<close>): the tables with their constraints and
      indexes, the content-addressed store and every operation of the registry as a transaction on
      the record \<open>registry\<close>. \<open>HashChain\<close> has the locale of hash-linked logs, which both event logs interpret.
    \<^item> \<open>IntentSteps\<close>, \<open>IntentEffects\<close>, \<open>IntentInv\<close>, \<open>IntentSafety\<close>: the step relation \<open>reg_op\<close> of all
      registry operations, the abstract machine it refines, the invariant and its preservation.
    \<^item> \<open>Ledger\<close> (\<^verbatim>\<open>ledger.py\<close>): deliveries, decisions, the event log and the poller mark.
    \<^item> \<open>Webhook\<close>, \<open>WebhookParse\<close> (\<^verbatim>\<open>webhook.py\<close>): secrets, signature, headers, payload, callback URL.
    \<^item> \<open>Policy\<close> (\<^verbatim>\<open>jsonutil.py\<close>, \<^verbatim>\<open>policy.py\<close>): strict configuration loading.
    \<^item> \<open>Dispatcher\<close> (\<^verbatim>\<open>dispatcher.py\<close>): registration with dispatch, the dispatch protocol as a
      program counter that makes one access per step, and the reconciliation with live runs.
    \<^item> \<open>Evaluator\<close> (\<^verbatim>\<open>evaluator.py\<close>): the evaluation of one request.
    \<^item> \<open>Service\<close> (\<^verbatim>\<open>server.py\<close>): intake queue, worker, observation, enforcement and the callback.
    \<^item> \<open>Poller\<close> (\<^verbatim>\<open>delivery_poller.py\<close>): list items and details, the window over the pages, one poll, the
      retry delays and one iteration of the loop.
    \<^item> \<open>Outcome\<close> (\<^verbatim>\<open>outcome.py\<close>), \<open>Reconciler\<close> (\<^verbatim>\<open>reconciler.py\<close>): the verification of a stage outcome, the
      checks of archive and jobs, one reconciliation and one sweep over the pending stages.
    \<^item> \<open>Oidc\<close> (\<^verbatim>\<open>oidc.py\<close>): Base64url, the cached key set and the verification of a workload token;
      \<open>Bootstrap\<close> (\<^verbatim>\<open>bootstrap.py\<close>): the request of a runner and its authorization.
    \<^item> \<open>Github\<close> (\<^verbatim>\<open>github.py\<close>): the transport, installation tokens, the delivery and truth readers, the artifact
      download, the decision callback and the workflow dispatch; the state \<open>gh\<close> has every request that was sent.
    \<^item> \<open>Workflow\<close> (\<^verbatim>\<open>workflow.py\<close>): the construction of documents from YAML nodes and the inspection of a workflow.
    \<^item> \<open>Signer\<close> (\<^verbatim>\<open>transit.py\<close>): the Vault signer and the envelopes it seals; \<open>Coordinator\<close> (\<^verbatim>\<open>coordinator.py\<close>): the
      composition of a bundle; \<open>Provider\<close> (\<^verbatim>\<open>provider.py\<close>): the executions of Claude, Codex and Cursor with the
      processes they launch, and the issuer of reviews.
    \<^item> \<open>Scenario\<close>, \<open>EvidenceScenario\<close>: the concrete runs on which the properties are instantiated.

  \<^bold>\<open>What is shown.\<close>
    \<^item> \<open>IntentProps\<close>: for every registry that operations can reach, a grant is used by one run, a
      terminal state has its outcome, the two follow-up stages exclude each other, runs are bound
      once, the event log replays to the current state and commits to its history, history is only
      appended to, and the content store returns what a digest names.
    \<^item> \<open>LedgerProps\<close>: one decision per run that nothing contradicts, deliveries recorded once, a
      log committed to by its last hash, a poller mark that never moves back.
    \<^item> \<open>Dsse\<close>, \<open>ContractProps\<close>: an accepted bundle is signed by active keys of the right roles, not revoked,
      within its bounds, with linked review chains, closed findings and the required consensus.
    \<^item> \<open>IntakeProps\<close>: an accepted webhook is authenticated and well formed, and a polled delivery of
      the same payload gives the same request.
    \<^item> \<open>DispatcherProps\<close>: a stage is posted at most once however dispatchers, crashes and other clients
      interleave; a dispatch ends; a reconciled run is the only one that fits.
    \<^item> \<open>EvaluatorProps\<close>, \<open>ServiceProps\<close>: a positive evaluation rests on signed, registered and live
      facts; an approval is evaluated twice with the reservation in between; callbacks never
      contradict each other.
    \<^item> \<open>PollerProps\<close>: the window is read completely, a successful poll answers every failed delivery in it, a
      later poll repeats nothing, and the retry delay is bounded until the loop ends in an overflow.
    \<^item> \<open>ReconcilerProps\<close>: a recorded outcome is that of the reserved run under evidence that verifies again;
      a sweep visits every pending stage whatever fails on the way.
    \<^item> \<open>OidcProps\<close>, \<open>BootstrapProps\<close>: Base64url texts are canonical, an accepted token is signed for exactly one
      run, refreshes of the key set are rare, and a runner is authorized once, for the approved run.
    \<^item> \<open>GithubProps\<close>: credentials go to the API origin only, tokens are fresh, the answers to a callback and to a
      dispatch are reported exactly, and a cursor leads to the next page.
    \<^item> \<open>WorkflowProps\<close>: an inspected workflow runs pinned actions only, in one job on the runners of the policy, and
      accesses each protected secret once; \<open>whole_secrets_context_passes\<close> shows that an expression over the whole
      secrets context is not counted. This theory puts the inspection into the evaluator: a workflow that is not contained is never approved.
    \<^item> \<open>SignerProps\<close>, \<open>CoordinatorProps\<close>, \<open>ProviderProps\<close>: a sealed envelope verifies and gives back its payload; a
      coordinated bundle consists of the parts it was given and its reviews are signed by other keys than the
      coordinator's; a Codex receipt attests one pinned execution without tools; an issued review is accepted
      by the evidence verifier. The locales \<open>sealing\<close> and \<open>verifiable_sealing\<close> (\<open>SignerProps\<close>) are what coordinator
      and issuer rely on in a signer; \<open>vs\<close> interprets them for the Vault signer, under
      the hypothesis that Vault's answers are signatures of the key version they name.
    \<^item> The locale \<open>kept_relation\<close> (\<open>ServiceProps\<close>) carries what sequenced, stateful code keeps; it is
      interpreted for the service (\<open>sv\<close>, \<open>qt\<close>), the registry (\<open>rg\<close>), the bootstrap (\<open>bl\<close>) and the
      GitHub client (\<open>pr\<close>).

  \<^bold>\<open>Parameters.\<close> Code outside the repository is an argument. The record \<open>host\<close> has SHA-256,
  Ed25519, base64, the JSON decoder, \<^verbatim>\<open>datetime.fromisoformat\<close>, the JSON Schema validator and the other
  runtime functions the code calls; \<open>web_host\<close> has HMAC and the
  events of the JSON decoder, \<open>yaml_host\<close> the YAML composer. For \<open>Github\<close> and \<open>Signer\<close> the network, the clock
  and the private key are the record \<open>gh_env\<close>, which may answer every request differently; for \<open>Provider\<close> the
  processes and the files around them are \<open>process_env\<close>. Elsewhere GitHub is an argument of the operations that ask it (\<open>surroundings\<close>,
  \<open>truth\<close>, \<open>service_env\<close>, \<open>outcome_env\<close>, \<open>bootstrap_env\<close>, \<open>hook_reader\<close>), as are the clock, the
  identifiers that are drawn, the ZIP reader and the RSA check of tokens. Collision
  freedom is never assumed: tamper evidence is stated as "or two different texts have one hash".

  \<^bold>\<open>Concurrency.\<close> Every registry and ledger operation is one transaction, so the interleavings of
  threads and processes are the sequences of operations: properties quantify over all of them
  (\<open>(reg_op H)\<^sup>*\<^sup>*\<close>, \<open>(ledger_op H)\<^sup>*\<^sup>*\<close>), and in the dispatcher and the service others may act
  between any two accesses.

  One evaluation reads one state of the registry: of its two reads, the finalized intent does not change
  later. Exceptions are values; where the JSON decoder would raise a plain
  \<^verbatim>\<open>ValueError\<close> for an integer of more than 4300 digits, the text counts as undecodable.

  \<^bold>\<open>Bounds and fuel.\<close> Texts are UTF-8 bytes and lengths count code points, as in Python. Integers
  are unbounded, as in Python. \<open>dispatch_stage\<close> runs seven accesses; \<open>dispatch_stage_finishes\<close> shows
  that this is always enough. Nothing else uses fuel.

  \<^bold>\<open>Not modelled.\<close> The HTTP handlers, the bootstrap endpoint, logging and thread start-up of
  \<^verbatim>\<open>server.py\<close>, the threads of poller and sweeper, the column migrations of old databases and the
  command-line entry points are left out: they are I/O around the operations above. The records behind
  \<open>surroundings\<close>, \<open>truth\<close> and the other GitHub arguments are not instantiated with \<open>Github\<close>, because the state
  of the client would have to be threaded through every one of them. The
  other programs of the repository (rollout evidence tooling, governance checks, migration workers)
  are separate and not part of this development.
\<close>

section \<open>The evaluator over the inspection\<close>

text \<open>The inspection as the evaluator receives it: the digests it compares with the signed stage.\<close>

definition inspect_port :: "host \<Rightarrow> yaml_host \<Rightarrow> string \<Rightarrow> stage_policy \<Rightarrow> string \<Rightarrow> string \<Rightarrow> workflow_inspection result" where
  "inspect_port H Y raw sp environment url = bindE (inspect_workflow H Y raw sp environment url) (\<lambda>w. Inr (workflow_inspection.truncate w))"

lemma inspect_port_contained:
  assumes "inspect_port H Y raw sp environment url = Inr i"
  shows "\<exists>w. contained_workflow H Y raw sp environment url w"
  using assms by (auto simp: inspect_port_def bindE_Inr_iff intro: inspected_contained)

text \<open>
  What a positive evaluation inspected: the file at the path that GitHub names for the run, at the commit
  of the request, under a stage of the policy with that path.
\<close>

lemma evaluated_file_contained:
  assumes "evaluate H ev T s q = Inr r" "tq_inspect T = inspect_port H Y"
  obtains run path raw sp w where "tq_workflow_run T (pr_installation_id q) (pr_repository q) (pr_run_id q) = Inr run"
    "jget run ''path'' = JStr path" "tq_workflow_bytes T (pr_installation_id q) (pr_repository q) path (pr_head_sha q) = Inr raw"
    "sp \<in> set (dp_stages (eva_policy ev))" "sp_workflow_path sp = path"
    "contained_workflow H Y raw sp (pr_environment q) (dp_runner_bootstrap_url (eva_policy ev)) w"
proof -
  obtain row v app run path attempt ws sp raw inspection where e: "live_run H ev T q row = Inr (app, run, path, attempt)"
    "signed_stage H ev q v path s = Inr (ws, sp)"
    "tq_workflow_bytes T (pr_installation_id q) (pr_repository q) path (pr_head_sha q) = Inr raw"
    "tq_inspect T raw sp (pr_environment q) (dp_runner_bootstrap_url (eva_policy ev)) = Inr inspection"
    by (rule evaluate_Inr [OF assms(1)])
  have run: "tq_workflow_run T (pr_installation_id q) (pr_repository q) (pr_run_id q) = Inr run" "jget run ''path'' = JStr path"
    using live_run_Inr [OF e(1)] run_binding_Inr by blast+
  have sp: "sp \<in> set (dp_stages (eva_policy ev))" using signed_stage_Inr [OF e(2)] by (auto dest: lookup_by_SomeD)
  from e(4) assms(2) inspect_port_contained obtain w
    where "contained_workflow H Y raw sp (pr_environment q) (dp_runner_bootstrap_url (eva_policy ev)) w" by metis
  with run e(3) sp signed_stage_path [OF e(2)] show thesis by (rule that)
qed

text \<open>
  C31: a workflow outside the containment is never approved. The evaluator inspects with the checks of
  the inspection; at one of the two evaluations of an enforcement GitHub names a path for the run of the
  request and returns a file at that path and at the commit of the request, and this file is
  contained for no stage of the policy with that path. Then the enforcement posts nothing or a denial.
\<close>

theorem uncontained_workflow_never_approved:
  assumes "enforce H C E q s = (r, s')" "sc_evaluator C = Some ev" "i \<in> {1, 3}" "tq_inspect (se_truth E i) = inspect_port H Y"
    and "tq_workflow_run (se_truth E i) (pr_installation_id q) (pr_repository q) (pr_run_id q) = Inr run" "jget run ''path'' = JStr path"
    and "tq_workflow_bytes (se_truth E i) (pr_installation_id q) (pr_repository q) path (pr_head_sha q) = Inr raw"
    and "\<And>sp w. sp \<in> set (dp_stages (eva_policy ev)) \<Longrightarrow> sp_workflow_path sp = path
      \<Longrightarrow> \<not> contained_workflow H Y raw sp (pr_environment q) (dp_runner_bootstrap_url (eva_policy ev)) w"
  shows "sv_callbacks s' = sv_callbacks s \<or> cb_state (last (sv_callbacks s')) \<noteq> Approved"
proof (rule ccontr)
  assume "\<not> ?thesis"
  then obtain result res t u where t: "sv_registry t = sv_registry s" "reserve_evaluated H E ev q t = ((Inr result, res), u)"
    using assms(1,2) by (auto elim: enforce_posts)
  with assms(3) obtain v where "evaluate H ev (se_truth E i) v q = Inr result" by (auto elim: reserve_evaluated_Inr)
  then show False by (rule evaluated_file_contained [OF _ assms(4)]) (use assms(5-8) in auto)
qed

text \<open>The enforcement of the service scenario, with a YAML package that reads the file as one scalar.\<close>

definition uncontained_env :: service_env where
  "uncontained_env = enf_env\<lparr>se_truth := (\<lambda>_. eval_truth\<lparr>tq_inspect := inspect_port ev_host wf_yaml\<rparr>)\<rparr>"

lemma scalar_not_contained: "raw \<noteq> wf_raw \<Longrightarrow> \<not> contained_workflow H wf_yaml raw sp environment url w"
  by (auto simp: contained_workflow_def parse_yaml_def wf_yaml_def bindE_Inr_iff as_mapping_def split: if_splits json.splits)

theorem uncontained_workflow_never_approved_witness:
  "\<not> (sv_callbacks (snd (enforce ev_host enf_config uncontained_env eval_request enf_start)) \<noteq> []
      \<and> cb_state (last (sv_callbacks (snd (enforce ev_host enf_config uncontained_env eval_request enf_start)))) = Approved)"
proof -
  let ?e = "enforce ev_host enf_config uncontained_env eval_request enf_start"
  have raw: "''on: workflow_dispatch'' \<noteq> wf_raw" by (simp add: wf_raw_def)
  have "sv_callbacks (snd ?e) = sv_callbacks enf_start \<or> cb_state (last (sv_callbacks (snd ?e))) \<noteq> Approved"
    by (rule uncontained_workflow_never_approved [where i = 1 and r = "fst ?e" and ev = eval_evaluator and Y = wf_yaml and run = eval_run
          and path = "''w.yml''" and raw = "''on: workflow_dispatch''"])
      (auto simp: enf_config_def uncontained_env_def eval_truth_def eval_run_def jget_def scalar_not_contained [OF raw])
  then show ?thesis by (auto simp: enf_start_def)
qed

end
